(* ===== verification/Prelude.thy ===== *)
theory Prelude
  imports Main "HOL-Library.Word"
begin

text \<open>
  Shared vocabulary of the Longjing development.

  \<^item> \<^emph>\<open>Results.\<close> Every fallible TypeScript function returns \<open>'a res\<close>: \<open>Inl e\<close> is a thrown
    exception, \<open>Inr v\<close> a returned value; \<open>bind\<close> sequences two of them, as consecutive
    statements do.  The exceptions are the NestJS ones the sources throw (with the
    message they carry) and the JavaScript ones the language throws.
  \<^item> \<^emph>\<open>Maps.\<close> A JavaScript \<open>Map\<close> keeps its keys in insertion order, and three components
    depend on that order, so it is an association list: \<open>jm_get\<close>, \<open>jm_set\<close> (which keeps
    the position of a key that is already there), \<open>jm_delete\<close>.
  \<^item> \<^emph>\<open>Calls.\<close> \<open>after_call\<close> is the state after a call that may revert, and the locale \<open>refinement\<close> is
    the contract between such calls and an abstract step relation.
  \<^item> \<^emph>\<open>BigInt remainder.\<close> \<open>js_rem\<close> truncates towards zero, as the \<open>%\<close> of JavaScript does.

  The generic lemmas below are declared to the simplifier or to one of the collections
  \<open>res_simps\<close>, \<open>jm_simps\<close>, which the component proofs use.
\<close>

named_theorems res_simps \<open>rewriting of sequenced results\<close>
named_theorems jm_simps \<open>rewriting of insertion-ordered maps\<close>

section \<open>Results and exceptions\<close>

text \<open>The signature and the signed accumulator are here because one exception carries them
  (\<open>BadGatewayException\<close> in \<open>src/src/longjing/longjing.service.ts\<close>).\<close>

record signature =
  R8x :: string
  R8y :: string
  sigS :: string

record signed_accumulator =
  acc_x :: string
  acc_y :: string
  acc_signature :: signature

datatype exn =
    BadRequest string
  | Unauthorized string
  | Forbidden string
  | NotFound string
  | ThrottlerException string
  | BadGateway string string signed_accumulator
  | ServiceUnavailable string
  | Misconfigured string
  | Error string
  | SyntaxError
  | RangeError
  | TypeError

type_synonym 'a res = "exn + 'a"

text \<open>\<open>error.message\<close>.  The engine words the messages of its own errors; the name stands for them.\<close>

fun exn_text :: "exn \<Rightarrow> string" where
  "exn_text (BadRequest m) = m"
| "exn_text (Unauthorized m) = m"
| "exn_text (Forbidden m) = m"
| "exn_text (NotFound m) = m"
| "exn_text (ThrottlerException m) = m"
| "exn_text (BadGateway m _ _) = m"
| "exn_text (ServiceUnavailable m) = m"
| "exn_text (Misconfigured m) = m"
| "exn_text (Error m) = m"
| "exn_text SyntaxError = ''SyntaxError''"
| "exn_text RangeError = ''RangeError''"
| "exn_text TypeError = ''TypeError''"

definition bind :: "'a res \<Rightarrow> ('a \<Rightarrow> 'b res) \<Rightarrow> 'b res" where
  "bind m f = (case m of Inl e \<Rightarrow> Inl e | Inr v \<Rightarrow> f v)"

definition guard :: "bool \<Rightarrow> exn \<Rightarrow> unit res" where
  "guard b e = (if b then Inr () else Inl e)"

definition try_catch :: "'a res \<Rightarrow> (exn \<Rightarrow> 'a res) \<Rightarrow> 'a res" where
  "try_catch m h = (case m of Inl e \<Rightarrow> h e | Inr v \<Rightarrow> Inr v)"

definition is_ok :: "'a res \<Rightarrow> bool" where
  "is_ok r = (case r of Inl _ \<Rightarrow> False | Inr _ \<Rightarrow> True)"

lemma bind_Inl [simp, res_simps]: "bind (Inl e) f = Inl e"
  by (simp add: bind_def)

lemma bind_Inr [simp, res_simps]: "bind (Inr v) f = f v"
  by (simp add: bind_def)

lemma guard_True [simp, res_simps]: "guard True e = Inr ()"
  by (simp add: guard_def)

lemma guard_False [simp, res_simps]: "guard False e = Inl e"
  by (simp add: guard_def)

lemma try_catch_simps [simp, res_simps]:
  "try_catch (Inl e) h = h e" "try_catch (Inr v) h = Inr v"
  by (simp_all add: try_catch_def)

lemma is_ok_simps [simp]: "is_ok (Inl e) = False" "is_ok (Inr v) = True"
  by (simp_all add: is_ok_def)

lemma bind_eq_Inr [res_simps]:
  "bind m f = Inr v \<longleftrightarrow> (\<exists>w. m = Inr w \<and> f w = Inr v)"
  by (cases m) auto

lemma bind_eq_Inl [res_simps]:
  "bind m f = Inl e \<longleftrightarrow> m = Inl e \<or> (\<exists>w. m = Inr w \<and> f w = Inl e)"
  by (cases m) auto

lemma guard_eq_Inr [res_simps]: "guard b e = Inr u \<longleftrightarrow> b"
  by (cases b) auto

lemma guard_eq_Inl [res_simps]: "guard b e = Inl e' \<longleftrightarrow> \<not> b \<and> e' = e"
  by (cases b) auto

section \<open>Insertion-ordered maps\<close>

type_synonym ('k, 'v) jmap = "('k \<times> 'v) list"

definition jm_get :: "('k, 'v) jmap \<Rightarrow> 'k \<Rightarrow> 'v option" where
  "jm_get m k = map_of m k"

definition jm_has :: "('k, 'v) jmap \<Rightarrow> 'k \<Rightarrow> bool" where
  "jm_has m k = (k \<in> set (map fst m))"

fun jm_set :: "('k, 'v) jmap \<Rightarrow> 'k \<Rightarrow> 'v \<Rightarrow> ('k, 'v) jmap" where
  "jm_set [] k v = [(k, v)]"
| "jm_set ((k', v') # m) k v = (if k' = k then (k, v) # m else (k', v') # jm_set m k v)"

definition jm_delete :: "('k, 'v) jmap \<Rightarrow> 'k \<Rightarrow> ('k, 'v) jmap" where
  "jm_delete m k = filter (\<lambda>(k', _). k' \<noteq> k) m"

definition jm_keys :: "('k, 'v) jmap \<Rightarrow> 'k list" where
  "jm_keys m = map fst m"

definition jm_size :: "('k, 'v) jmap \<Rightarrow> nat" where
  "jm_size m = length m"

definition jm_wf :: "('k, 'v) jmap \<Rightarrow> bool" where
  "jm_wf m = distinct (map fst m)"

lemma jm_get_Nil [simp, jm_simps]: "jm_get [] k = None"
  by (simp add: jm_get_def)

lemma jm_get_Cons [jm_simps]: "jm_get ((k', v) # m) k = (if k' = k then Some v else jm_get m k)"
  by (simp add: jm_get_def)

lemma jm_get_set [simp, jm_simps]: "jm_get (jm_set m k v) k' = (if k' = k then Some v else jm_get m k')"
  by (induction m) (auto simp: jm_get_def)

lemma jm_get_delete [simp, jm_simps]: "jm_get (jm_delete m k) k' = (if k' = k then None else jm_get m k')"
  by (induction m) (auto simp: jm_get_def jm_delete_def)

lemma jm_has_get: "jm_has m k \<longleftrightarrow> jm_get m k \<noteq> None"
  by (auto simp: jm_has_def jm_get_def map_of_eq_None_iff)

lemma keys_jm_set: "set (map fst (jm_set m k v)) = insert k (set (map fst m))"
proof (induction m)
  case Nil
  then show ?case by simp
next
  case (Cons kv m)
  then show ?case by (cases kv) (simp add: insert_commute)
qed

lemma keys_jm_delete: "set (map fst (jm_delete m k)) = set (map fst m) - {k}"
  by (induction m) (auto simp: jm_delete_def)

lemma jm_wf_Nil [simp]: "jm_wf []"
  by (simp add: jm_wf_def)

lemma jm_wf_set [simp, intro]: "jm_wf m \<Longrightarrow> jm_wf (jm_set m k v)"
proof (induction m)
  case Nil
  then show ?case by (simp add: jm_wf_def)
next
  case (Cons kv m)
  obtain k' v' where kv: "kv = (k', v')" by (cases kv)
  with Cons show ?case
    using keys_jm_set [of m k v] by (auto simp: jm_wf_def)
qed

lemma jm_wf_delete [simp, intro]: "jm_wf m \<Longrightarrow> jm_wf (jm_delete m k)"
  unfolding jm_wf_def jm_delete_def by (induction m) auto

lemma jm_size_set_le: "jm_size (jm_set m k v) \<le> Suc (jm_size m)"
  by (induction m) (auto simp: jm_size_def)

lemma jm_size_set_new: "jm_get m k = None \<Longrightarrow> jm_set m k v = m @ [(k, v)]"
  by (induction m) (auto simp: jm_get_def split: if_splits)

lemma jm_get_in: "jm_get m k = Some v \<Longrightarrow> (k, v) \<in> set m"
  by (simp add: jm_get_def map_of_SomeD)

lemma jm_in_get: "jm_wf m \<Longrightarrow> (k, v) \<in> set m \<Longrightarrow> jm_get m k = Some v"
  by (simp add: jm_get_def jm_wf_def)

section \<open>BigInt remainder\<close>

text \<open>JavaScript's \<open>%\<close> takes the sign of the dividend; \<open>div\<close> and \<open>mod\<close> of HOL round down.\<close>

definition js_rem :: "int \<Rightarrow> int \<Rightarrow> int" where
  "js_rem a b = sgn a * (\<bar>a\<bar> mod \<bar>b\<bar>)"

lemma js_rem_nonneg [simp]: "0 \<le> a \<Longrightarrow> 0 < b \<Longrightarrow> js_rem a b = a mod b"
  by (cases "a = 0") (auto simp: js_rem_def)

lemma js_rem_neg: "a < 0 \<Longrightarrow> 0 < b \<Longrightarrow> js_rem a b = - ((- a) mod b)"
  by (simp add: js_rem_def)

text \<open>The idiom \<open>((x % p) + p) % p\<close> of the sources is the mathematical residue.\<close>

lemma js_canonical_mod:
  assumes "0 < p"
  shows "js_rem (js_rem a p + p) p = a mod p"
proof (cases "0 \<le> a")
  case True
  with assms show ?thesis by simp
next
  case False
  with assms have "js_rem a p + p = p - (- a) mod p"
    by (simp add: js_rem_neg)
  moreover have "0 < p - (- a) mod p"
    using assms by simp
  ultimately have "js_rem (js_rem a p + p) p = (p - (- a) mod p) mod p"
    using assms by (simp only: js_rem_nonneg less_imp_le)
  also have "\<dots> = (- (- a)) mod p"
    by (metis minus_mod_self1 mod_minus_eq diff_conv_add_uminus mod_add_self1)
  finally show ?thesis by simp
qed

section \<open>Lists\<close>

lemma length_filter_mono:
  "(\<And>x. x \<in> set xs \<Longrightarrow> P x \<Longrightarrow> Q x) \<Longrightarrow> length (filter P xs) \<le> length (filter Q xs)"
  by (induction xs) auto

lemma find_Some_iff': "List.find P xs = Some x \<Longrightarrow> P x \<and> x \<in> set xs"
  by (induction xs) (auto split: if_splits)

lemma list_eq_append_lengths:
  "length a = length c \<Longrightarrow> a @ b = c @ d \<longleftrightarrow> a = c \<and> b = d"
  by simp

section \<open>Shared contracts\<close>

text \<open>An encoding that a decoder undoes: texts of bytes and of numbers.\<close>

locale codec =
  fixes enc :: "'a \<Rightarrow> 'b" and dec :: "'b \<Rightarrow> 'a"
  assumes dec_enc: "dec (enc x) = x"
begin

lemma enc_inject: "enc a = enc b \<longleftrightarrow> a = b"
  by (metis dec_enc)

lemma map_option_enc_inject: "map_option enc x = map_option enc y \<longleftrightarrow> x = y"
  by (cases x; cases y) (simp_all add: enc_inject)

end

text \<open>A property of the state that every step of a machine keeps, so that every run keeps it.\<close>

locale stable =
  fixes step :: "'s \<Rightarrow> 's \<Rightarrow> bool" and P :: "'s \<Rightarrow> bool"
  assumes step_keeps: "step s t \<Longrightarrow> P s \<Longrightarrow> P t"
begin

lemma steps_keep: "step\<^sup>*\<^sup>* s t \<Longrightarrow> P s \<Longrightarrow> P t"
  by (induction rule: rtranclp_induct) (blast intro: step_keeps)+

end

text \<open>A machine whose calls may fail, against an abstract one: what every abstract step keeps, every sequence of
  calls keeps, where a call that fails leaves the state.\<close>

definition after_call :: "('c \<Rightarrow> 's \<Rightarrow> 's res) \<Rightarrow> 's \<Rightarrow> 'c \<Rightarrow> 's" where
  "after_call exec s c = (case exec c s of Inl _ \<Rightarrow> s | Inr t \<Rightarrow> t)"

locale refinement =
  fixes exec :: "'c \<Rightarrow> 's \<Rightarrow> 's res" and view :: "'s \<Rightarrow> 'a" and label :: "'c \<Rightarrow> 'l" and astep :: "'l \<Rightarrow> 'a \<Rightarrow> 'a \<Rightarrow> bool"
  assumes simulates: "exec c s = Inr t \<Longrightarrow> astep (label c) (view s) (view t)"
begin

lemma after_call_cases:
  obtains "after_call exec s c = s" | "astep (label c) (view s) (view (after_call exec s c))"
  using simulates [of c s] by (cases "exec c s") (auto simp: after_call_def)

lemma calls_keep:
  assumes "\<And>c v w. c \<in> set cs \<Longrightarrow> astep (label c) v w \<Longrightarrow> P v \<Longrightarrow> P w" "P (view s)"
  shows "P (view (foldl (after_call exec) s cs))"
  using assms
proof (induction cs arbitrary: s)
  case (Cons c cs)
  have "P (view (after_call exec s c))" using Cons.prems by (cases rule: after_call_cases [of s c]) auto
  moreover have "P w" if "c' \<in> set cs" "astep (label c') v w" "P v" for c' v w using Cons.prems(1) [OF _ that(2,3)] that(1) by simp
  ultimately show ?case using Cons.IH [of "after_call exec s c"] by simp
qed simp

end

end
