(* ===== verification/StateRes.thy ===== *)
theory StateRes
  imports Prelude
begin

text \<open>
  Stateful code that may throw: a function from the state to the new state and a result.  A throw
  keeps the state reached so far, as JavaScript does.  \<open>sbind\<close> is the sequence of two statements,
  \<open>zoom\<close> runs code that owns one field of the state.
\<close>

type_synonym ('s, 'a) act = "'s \<Rightarrow> 's \<times> 'a res"

definition sret :: "'a \<Rightarrow> ('s, 'a) act" where
  "sret v s = (s, Inr v)"

definition slift :: "'a res \<Rightarrow> ('s, 'a) act" where
  "slift r s = (s, r)"

definition sbind :: "('s, 'a) act \<Rightarrow> ('a \<Rightarrow> ('s, 'b) act) \<Rightarrow> ('s, 'b) act" where
  "sbind m f s = (case m s of (s', Inl e) \<Rightarrow> (s', Inl e) | (s', Inr v) \<Rightarrow> f v s')"

definition scatch :: "('s, 'a) act \<Rightarrow> (exn \<Rightarrow> ('s, 'a) act) \<Rightarrow> ('s, 'a) act" where
  "scatch m h s = (case m s of (s', Inl e) \<Rightarrow> h e s' | (s', Inr v) \<Rightarrow> (s', Inr v))"

definition zoom :: "('s \<Rightarrow> 't) \<Rightarrow> ('t \<Rightarrow> 's \<Rightarrow> 's) \<Rightarrow> ('t, 'a) act \<Rightarrow> ('s, 'a) act" where
  "zoom get put m s = (case m (get s) of (t, r) \<Rightarrow> (put t s, r))"

definition total :: "('s \<Rightarrow> 's \<times> 'a) \<Rightarrow> ('s, 'a) act" where
  "total f s = (case f s of (s', v) \<Rightarrow> (s', Inr v))"

definition smodify :: "('s \<Rightarrow> 's) \<Rightarrow> ('s, unit) act" where
  "smodify f s = (f s, Inr ())"

named_theorems act_simps \<open>running stateful code\<close>

lemma sret_run [simp, act_simps]: "sret v s = (s, Inr v)"
  by (simp add: sret_def)

lemma slift_run [simp, act_simps]: "slift r s = (s, r)"
  by (simp add: slift_def)

lemma smodify_run [simp, act_simps]: "smodify f s = (f s, Inr ())"
  by (simp add: smodify_def)

lemma sbind_ok [act_simps]:
  "sbind m f s = (s', Inr v) \<longleftrightarrow> (\<exists>s1 w. m s = (s1, Inr w) \<and> f w s1 = (s', Inr v))"
  by (auto simp: sbind_def split: prod.splits sum.splits)

lemma sbind_err [act_simps]:
  "sbind m f s = (s', Inl e) \<longleftrightarrow> m s = (s', Inl e) \<or> (\<exists>s1 w. m s = (s1, Inr w) \<and> f w s1 = (s', Inl e))"
  by (auto simp: sbind_def split: prod.splits sum.splits)

lemma sbind_run_ok: "m s = (s1, Inr w) \<Longrightarrow> sbind m f s = f w s1"
  by (simp add: sbind_def)

lemma sbind_run_err: "m s = (s1, Inl e) \<Longrightarrow> sbind m f s = (s1, Inl e)"
  by (simp add: sbind_def)

lemma zoom_run: "m (get s) = (t, r) \<Longrightarrow> zoom get put m s = (put t s, r)"
  by (simp add: zoom_def)

lemma zoom_eq: "zoom get put m s = (s', r) \<longleftrightarrow> (\<exists>t. m (get s) = (t, r) \<and> s' = put t s)"
  by (auto simp: zoom_def split: prod.splits)

text \<open>A property of the state that two pieces of code keep is kept by their sequence, whether or not
  the first throws.\<close>

definition keeps :: "('s \<Rightarrow> 's \<Rightarrow> bool) \<Rightarrow> ('s, 'a) act \<Rightarrow> bool" where
  "keeps R m \<longleftrightarrow> (\<forall>s. R s (fst (m s)))"

lemma keeps_sret [simp]: "(\<And>s. R s s) \<Longrightarrow> keeps R (sret v)"
  by (simp add: keeps_def)

lemma keeps_slift [simp]: "(\<And>s. R s s) \<Longrightarrow> keeps R (slift r)"
  by (simp add: keeps_def)

lemma keeps_sbind:
  assumes "\<And>s t u. R s t \<Longrightarrow> R t u \<Longrightarrow> R s u" "keeps R m" "\<And>v. keeps R (f v)"
  shows "keeps R (sbind m f)"
  unfolding keeps_def
proof
  fix s
  have 1: "R s (fst (m s))" using assms(2) by (simp add: keeps_def)
  have 2: "R t (fst (f v t))" for v t using assms(3) by (simp add: keeps_def)
  show "R s (fst (sbind m f s))"
    using 1 2 assms(1) by (auto simp: sbind_def split: prod.splits sum.splits)
qed

lemma keepsD: "keeps R m \<Longrightarrow> m s = (s', r) \<Longrightarrow> R s s'"
  by (metis keeps_def fst_conv)

end
