(* ===== verification/JsText.thy ===== *)
theory JsText
  imports Prelude
begin

text \<open>
  Strings, bytes and their conversions, as the sources use them.

  Identifiers, field elements, hex and environment values are HOL strings: one character
  per UTF-16 code unit, for the code units below 256 (the request DTO and the parsers
  accept ASCII only).  User payloads and model answers may hold any text, so they are
  lists of UTF-16 code units (\<open>jsstr\<close>), whose UTF-8 length \<open>Buffer.byteLength\<close> computes.
  A \<open>Buffer\<close> or \<open>Uint8Array\<close> is a list of bytes.

  Main facts: \<open>BigInt\<close> of a number's decimal text is that number
  (\<open>BigInt_of_string_dec\<close>), so the decimal text identifies the number
  (\<open>dec_of_int_inject\<close>); hex encoding and decoding are inverse
  (\<open>bytes_of_hex_of_bytes\<close>).
\<close>

type_synonym byte = "8 word"
type_synonym bytes = "byte list"
type_synonym jsstr = "16 word list"

section \<open>Characters\<close>

definition cval :: "char \<Rightarrow> nat" where
  "cval c = of_char c"

definition is_digit :: "char \<Rightarrow> bool" where
  "is_digit c = (48 \<le> cval c \<and> cval c \<le> 57)"

definition is_hex :: "char \<Rightarrow> bool" where
  "is_hex c = (is_digit c \<or> (97 \<le> cval c \<and> cval c \<le> 102) \<or> (65 \<le> cval c \<and> cval c \<le> 70))"

definition digit_val :: "char \<Rightarrow> nat" where
  "digit_val c = (if is_digit c then cval c - 48
     else if 97 \<le> cval c then cval c - 87 else cval c - 55)"

definition digit_char :: "nat \<Rightarrow> char" where
  "digit_char n = (if n < 10 then char_of (48 + n) else char_of (87 + n))"

text \<open>White space that \<open>String.prototype.trim\<close> and \<open>BigInt\<close> strip, below code unit 256.\<close>

definition is_ws :: "char \<Rightarrow> bool" where
  "is_ws c = (cval c \<in> {9, 10, 11, 12, 13, 32, 160})"

definition trim :: "string \<Rightarrow> string" where
  "trim s = rev (dropWhile is_ws (rev (dropWhile is_ws s)))"

definition to_lower_char :: "char \<Rightarrow> char" where
  "to_lower_char c = (if 65 \<le> cval c \<and> cval c \<le> 90 then char_of (cval c + 32) else c)"

definition toLowerCase :: "string \<Rightarrow> string" where
  "toLowerCase s = map to_lower_char s"

definition startsWith :: "string \<Rightarrow> string \<Rightarrow> bool" where
  "startsWith s p = (take (length p) s = p)"

definition strip0x :: "string \<Rightarrow> string" where
  "strip0x s = (if startsWith s ''0x'' then drop 2 s else s)"

definition padStart :: "nat \<Rightarrow> char \<Rightarrow> string \<Rightarrow> string" where
  "padStart n c s = replicate (n - length s) c @ s"

lemma cval_char_of [simp]: "n < 256 \<Longrightarrow> cval (char_of n) = n"
  by (simp add: cval_def)

lemma cval_inject: "cval c = cval d \<longleftrightarrow> c = d"
  by (simp add: cval_def)

lemma digit_char_digit: "n < 10 \<Longrightarrow> is_digit (digit_char n) \<and> digit_val (digit_char n) = n"
  by (simp add: digit_char_def is_digit_def digit_val_def)

lemma digit_char_hex: "n < 16 \<Longrightarrow> is_hex (digit_char n) \<and> digit_val (digit_char n) = n"
  by (auto simp: digit_char_def is_digit_def is_hex_def digit_val_def)

lemma digit_not_ws: "is_digit c \<Longrightarrow> \<not> is_ws c"
  by (auto simp: is_digit_def is_ws_def)

lemma minus_not_ws: "\<not> is_ws CHR ''-''"
  by (simp add: is_ws_def cval_def)

lemma is_digit_is_hex: "is_digit c \<Longrightarrow> is_hex c"
  by (simp add: is_hex_def)

lemma hex_not_ws: "is_hex c \<Longrightarrow> \<not> is_ws c"
  by (auto simp: is_hex_def is_digit_def is_ws_def)

section \<open>Decimal text\<close>

fun dec_of_nat :: "nat \<Rightarrow> string" where
  "dec_of_nat n = (if n < 10 then [digit_char n] else dec_of_nat (n div 10) @ [digit_char (n mod 10)])"

declare dec_of_nat.simps [simp del]

definition dec_of_int :: "int \<Rightarrow> string" where
  "dec_of_int n = (if n < 0 then CHR ''-'' # dec_of_nat (nat (- n)) else dec_of_nat (nat n))"

definition radix_val :: "nat \<Rightarrow> string \<Rightarrow> nat" where
  "radix_val b s = foldl (\<lambda>a c. a * b + digit_val c) 0 s"

lemma radix_val_snoc: "radix_val b (s @ [c]) = radix_val b s * b + digit_val c"
  by (simp add: radix_val_def)

lemma dec_of_nat_digits: "\<forall>c \<in> set (dec_of_nat n). is_digit c"
proof (induction n rule: dec_of_nat.induct)
  case (1 n)
  then show ?case
    by (cases "n < 10") (auto simp: dec_of_nat.simps [of n] digit_char_digit)
qed

lemma dec_of_nat_not_Nil [simp]: "dec_of_nat n \<noteq> []"
  by (subst dec_of_nat.simps) simp

lemma radix_val_dec_of_nat [simp]: "radix_val 10 (dec_of_nat n) = n"
proof (induction n rule: dec_of_nat.induct)
  case (1 n)
  show ?case
  proof (cases "n < 10")
    case True
    then show ?thesis by (subst dec_of_nat.simps) (simp add: radix_val_def digit_char_digit)
  next
    case False
    with 1 show ?thesis
      by (subst dec_of_nat.simps) (simp add: radix_val_snoc digit_char_digit)
  qed
qed

section \<open>BigInt of a string\<close>

text \<open>\<open>BigInt(s)\<close>: white space is stripped, the empty string is 0, \<open>0x\<close>, \<open>0o\<close> and \<open>0b\<close> prefixes
  (either case) take no sign, a decimal may carry one; anything else is a SyntaxError.\<close>

definition is_radix_digit :: "nat \<Rightarrow> char \<Rightarrow> bool" where
  "is_radix_digit b c = (is_hex c \<and> digit_val c < b)"

definition radix_literal :: "nat \<Rightarrow> string \<Rightarrow> int res" where
  "radix_literal b ds =
     (if ds \<noteq> [] \<and> list_all (is_radix_digit b) ds then Inr (int (radix_val b ds)) else Inl SyntaxError)"

definition decimal_literal :: "string \<Rightarrow> int res" where
  "decimal_literal s = (case s of
       [] \<Rightarrow> Inl SyntaxError
     | c # ds \<Rightarrow>
         (if c = CHR ''-'' then (if ds \<noteq> [] \<and> list_all is_digit ds then Inr (- int (radix_val 10 ds)) else Inl SyntaxError)
          else if c = CHR ''+'' then (if ds \<noteq> [] \<and> list_all is_digit ds then Inr (int (radix_val 10 ds)) else Inl SyntaxError)
          else if list_all is_digit s then Inr (int (radix_val 10 s)) else Inl SyntaxError))"

definition BigInt_of_string :: "string \<Rightarrow> int res" where
  "BigInt_of_string s0 = (let s = trim s0; p = toLowerCase (take 2 s) in
     if s = [] then Inr 0
     else if p = ''0x'' then radix_literal 16 (drop 2 s)
     else if p = ''0o'' then radix_literal 8 (drop 2 s)
     else if p = ''0b'' then radix_literal 2 (drop 2 s)
     else decimal_literal s)"

lemma trim_no_ws:
  assumes "list_all (\<lambda>c. \<not> is_ws c) s"
  shows "trim s = s"
proof -
  have *: "dropWhile is_ws t = t" if "list_all (\<lambda>c. \<not> is_ws c) t" for t
    using that by (cases t) simp_all
  from assms have "list_all (\<lambda>c. \<not> is_ws c) (rev s)" by (simp add: list_all_iff)
  with assms show ?thesis by (simp add: trim_def *)
qed

text \<open>A text of digits never starts with a radix prefix.\<close>

lemma digits_no_prefix:
  assumes "list_all is_digit s" "p \<in> {''0x'', ''0o'', ''0b''}"
  shows "toLowerCase (take 2 s) \<noteq> p"
proof
  assume eq: "toLowerCase (take 2 s) = p"
  with assms(2) obtain c d t where s: "s = c # d # t"
    by (cases s; cases "tl s") (auto simp: toLowerCase_def)
  with assms(1) have "is_digit d" by simp
  then have "to_lower_char d = d" by (auto simp: to_lower_char_def is_digit_def)
  with eq s assms(2) have "d \<in> {CHR ''x'', CHR ''o'', CHR ''b''}"
    by (auto simp: toLowerCase_def)
  with \<open>is_digit d\<close> show False by (auto simp: is_digit_def cval_def)
qed

lemma BigInt_of_string_digits:
  assumes "list_all is_digit s" "s \<noteq> []"
  shows "BigInt_of_string s = Inr (int (radix_val 10 s))"
proof -
  have t: "trim s = s"
    using assms(1) by (intro trim_no_ws) (auto simp: list_all_iff digit_not_ws)
  obtain c ds where s: "s = c # ds" using assms(2) by (cases s) auto
  with assms(1) have "is_digit c" by simp
  then have "c \<noteq> CHR ''-''" "c \<noteq> CHR ''+''" by (auto simp: is_digit_def cval_def)
  then have "decimal_literal s = Inr (int (radix_val 10 s))"
    using assms(1) s by (simp add: decimal_literal_def)
  then show ?thesis
    using assms digits_no_prefix [OF assms(1)] by (simp add: BigInt_of_string_def t)
qed

lemma BigInt_of_string_dec_nat [simp]: "BigInt_of_string (dec_of_nat n) = Inr (int n)"
  using BigInt_of_string_digits [of "dec_of_nat n"] dec_of_nat_digits [of n]
  by (simp add: list_all_iff)

theorem BigInt_of_string_dec [simp]: "BigInt_of_string (dec_of_int n) = Inr n"
proof (cases "n < 0")
  case False
  then show ?thesis by (simp add: dec_of_int_def)
next
  case True
  define ds where "ds = dec_of_nat (nat (- n))"
  have ds: "list_all is_digit ds" "ds \<noteq> []"
    using dec_of_nat_digits by (auto simp: ds_def list_all_iff)
  have s: "dec_of_int n = CHR ''-'' # ds" using True by (simp add: dec_of_int_def ds_def)
  have "trim (CHR ''-'' # ds) = CHR ''-'' # ds"
    using ds(1) minus_not_ws by (intro trim_no_ws) (auto simp: list_all_iff digit_not_ws)
  moreover have "radix_val 10 ds = nat (- n)" by (simp add: ds_def)
  ultimately show ?thesis
    using True ds unfolding s
    by (cases ds) (simp_all add: BigInt_of_string_def decimal_literal_def toLowerCase_def
        to_lower_char_def cval_def)
qed

interpretation decimal: codec dec_of_int "\<lambda>s. projr (BigInt_of_string s)"
  by unfold_locales simp

lemmas dec_of_int_inject [simp] = decimal.enc_inject

section \<open>Bytes and hex\<close>

definition hex_of_byte :: "byte \<Rightarrow> string" where
  "hex_of_byte b = [digit_char (unat b div 16), digit_char (unat b mod 16)]"

definition hex_of_bytes :: "bytes \<Rightarrow> string" where
  "hex_of_bytes bs = concat (map hex_of_byte bs)"

text \<open>\<open>Buffer.from(s, 'hex')\<close> stops at the first pair that is not two hex digits.\<close>

fun bytes_of_hex :: "string \<Rightarrow> bytes" where
  "bytes_of_hex (a # b # s) =
     (if is_hex a \<and> is_hex b then of_nat (16 * digit_val a + digit_val b) # bytes_of_hex s else [])"
| "bytes_of_hex _ = []"

lemma unat_byte_less: "unat (b :: byte) < 256"
  using unsigned_less [of b] by simp

theorem bytes_of_hex_of_bytes [simp]: "bytes_of_hex (hex_of_bytes bs) = bs"
proof (induction bs)
  case Nil
  then show ?case by (simp add: hex_of_bytes_def)
next
  case (Cons b bs)
  have lt: "unat b div 16 < 16" "unat b mod 16 < 16"
    using unat_byte_less [of b] by (simp_all add: less_mult_imp_div_less)
  have "(of_nat (16 * (unat b div 16) + unat b mod 16) :: byte) = b"
    by (simp only: mult_div_mod_eq of_nat_unat ucast_id)
  with Cons lt [THEN digit_char_hex] show ?case
    by (simp add: hex_of_bytes_def hex_of_byte_def)
qed

interpretation hex: codec hex_of_bytes bytes_of_hex
  by unfold_locales simp

lemmas hex_of_bytes_inject [simp] = hex.enc_inject hex.map_option_enc_inject

lemma length_hex_of_bytes [simp]: "length (hex_of_bytes bs) = 2 * length bs"
  by (induction bs) (simp_all add: hex_of_bytes_def hex_of_byte_def)

lemma hex_of_bytes_hex: "list_all is_hex (hex_of_bytes bs)"
proof (induction bs)
  case (Cons b bs)
  have "unat b div 16 < 16" "unat b mod 16 < 16"
    using unat_byte_less [of b] by (simp_all add: less_mult_imp_div_less)
  with Cons show ?case
    by (simp add: hex_of_bytes_def hex_of_byte_def digit_char_hex)
qed (simp add: hex_of_bytes_def)

lemma length_bytes_of_hex:
  "list_all is_hex s \<Longrightarrow> even (length s) \<Longrightarrow> length (bytes_of_hex s) = length s div 2"
  by (induction s rule: bytes_of_hex.induct) auto

text \<open>Bytes of an ASCII string (\<open>Buffer.from(s, 'utf-8')\<close>).\<close>

definition ascii_bytes :: "string \<Rightarrow> bytes" where
  "ascii_bytes s = map (\<lambda>c. of_nat (cval c)) s"

text \<open>\<open>writeUInt32BE\<close> and \<open>writeUInt32LE\<close>.\<close>

definition uint32_be :: "nat \<Rightarrow> bytes" where
  "uint32_be n = [of_nat (n div 16777216), of_nat (n div 65536), of_nat (n div 256), of_nat n]"

definition uint32_le :: "nat \<Rightarrow> bytes" where
  "uint32_le n = rev (uint32_be n)"

lemma length_uint32_be [simp]: "length (uint32_be n) = 4"
  by (simp add: uint32_be_def)

lemma of_nat_byte_eq: "(of_nat m :: byte) = of_nat n \<longleftrightarrow> m mod 256 = n mod 256"
  by (simp add: word_of_nat_eq_iff take_bit_eq_mod)

lemma uint32_be_inject:
  assumes "uint32_be m = uint32_be n" "m < 2 ^ 32" "n < 2 ^ 32"
  shows "m = n"
proof -
  have digits: "k = (k div 16777216) * 16777216 + (k div 65536 mod 256) * 65536 + (k div 256 mod 256) * 256 + k mod 256"
    for k :: nat
  proof -
    have "k div 256 div 256 = k div 65536" "k div 65536 div 256 = k div 16777216"
      by (simp_all add: div_mult2_eq [symmetric])
    then show ?thesis
      using div_mod_decomp [of k 256] div_mod_decomp [of "k div 256" 256] div_mod_decomp [of "k div 65536" 256]
      by linarith
  qed
  have small: "k div 16777216 mod 256 = k div 16777216" if "k < 2 ^ 32" for k :: nat
    using that by (simp add: less_mult_imp_div_less)
  from assms(1) have "m div 16777216 mod 256 = n div 16777216 mod 256"
    "m div 65536 mod 256 = n div 65536 mod 256" "m div 256 mod 256 = n div 256 mod 256"
    "m mod 256 = n mod 256"
    by (auto simp: uint32_be_def of_nat_byte_eq)
  with digits [of m] digits [of n] small [OF assms(2)] small [OF assms(3)] show ?thesis
    by linarith
qed

section \<open>UTF-16 text\<close>

text \<open>\<open>Buffer.byteLength(s, 'utf8')\<close>: a surrogate pair takes four bytes, a lone surrogate is
  replaced by U+FFFD, which takes three.\<close>

definition high_surrogate :: "16 word \<Rightarrow> bool" where
  "high_surrogate u = (unat u div 1024 = 54)"

definition low_surrogate :: "16 word \<Rightarrow> bool" where
  "low_surrogate u = (unat u div 1024 = 55)"

definition unit_bytes :: "16 word \<Rightarrow> nat" where
  "unit_bytes u = (if unat u < 128 then 1 else if unat u < 2048 then 2 else 3)"

fun byteLength :: "jsstr \<Rightarrow> nat" where
  "byteLength (u # v # s) =
     (if high_surrogate u \<and> low_surrogate v then 4 + byteLength s else unit_bytes u + byteLength (v # s))"
| "byteLength [u] = unit_bytes u"
| "byteLength [] = 0"

definition js_ascii :: "string \<Rightarrow> jsstr" where
  "js_ascii s = map (\<lambda>c. of_nat (cval c)) s"

lemma unit_bytes_ge_1: "Suc 0 \<le> unit_bytes u"
  by (simp add: unit_bytes_def)

lemma byteLength_ge_length: "length s \<le> byteLength s"
proof (induction s rule: byteLength.induct)
  case (1 u v s)
  then show ?case using unit_bytes_ge_1 [of u] by (auto split: if_splits)
qed (simp_all add: unit_bytes_ge_1)

lemma unat_0_not_low: "\<not> low_surrogate 0"
  by (simp add: low_surrogate_def)

lemma unat_0_not_high: "\<not> high_surrogate 0"
  by (simp add: high_surrogate_def)

lemma byteLength_append_zeros: "byteLength (s @ replicate n 0) = byteLength s + n"
proof (induction s rule: byteLength.induct)
  case (1 u v s)
  then show ?case by simp
next
  case (2 u)
  have "byteLength (replicate n 0) = n"
    by (induction n rule: induct_nat_012)
      (simp_all add: unit_bytes_def unat_0_not_high)
  then show ?case
    by (cases n) (simp_all add: unat_0_not_low)
next
  case 3
  show ?case
    by (induction n rule: induct_nat_012) (simp_all add: unit_bytes_def unat_0_not_high)
qed

end
