(* ===== verification/JsNumber.thy ===== *)
theory JsNumber
  imports Prelude "HOL-Library.Log_Nat"
begin

text \<open>
  JavaScript's \<open>number\<close>: IEEE-754 binary64 with round-to-nearest, ties-to-even.

  A \<open>jsnum\<close> is NaN, an infinity or a finite value, kept as the exact rational it denotes.
  Every arithmetic operation computes exactly and then rounds once (\<open>fl\<close>), which is what
  the standard requires; a result of magnitude \<open>2^1024\<close> or more after rounding overflows
  to an infinity and subnormals are kept (the exponent stops at \<open>-1074\<close>).  The sign of zero
  is not represented: no source expression of this program observes it.

  The theorems are the two facts the cost pipeline relies on: rounding is monotone
  (\<open>rnd_mono\<close>), and so are the operations on non-negative operands, NaN excluded.
\<close>

section \<open>Rounding to 53 bits\<close>

definition pow2 :: "int \<Rightarrow> rat" where
  "pow2 e = (if 0 \<le> e then 2 ^ nat e else 1 / 2 ^ nat (- e))"

definition rne :: "rat \<Rightarrow> int" where
  "rne x = (let f = \<lfloor>x\<rfloor>; d = x - of_int f in
     if d < 1 / 2 then f else if 1 / 2 < d then f + 1 else if even f then f else f + 1)"

text \<open>\<open>ilog2 x\<close> is \<open>\<lfloor>log 2 x\<rfloor>\<close> for positive \<open>x\<close>, from the bit lengths of its numerator and
  denominator.\<close>

definition ilog2 :: "rat \<Rightarrow> int" where
  "ilog2 x = (case quotient_of x of (n, d) \<Rightarrow>
     let k = bitlen n - bitlen d in if pow2 k \<le> x then k else k - 1)"

definition fl_exp :: "rat \<Rightarrow> int" where
  "fl_exp x = max (ilog2 x - 52) (- 1074)"

definition rnd :: "rat \<Rightarrow> rat" where
  "rnd x = (if x = 0 then 0
     else sgn x * (of_int (rne (\<bar>x\<bar> / pow2 (fl_exp \<bar>x\<bar>))) * pow2 (fl_exp \<bar>x\<bar>)))"

datatype jsnum = NaN | PInf | NInf | Fin rat

definition fl :: "rat \<Rightarrow> jsnum" where
  "fl x = (let r = rnd x in if 2 ^ 1024 \<le> r then PInf else if r \<le> - (2 ^ 1024) then NInf else Fin r)"

section \<open>Operations\<close>

fun jneg :: "jsnum \<Rightarrow> jsnum" where
  "jneg NaN = NaN" | "jneg PInf = NInf" | "jneg NInf = PInf" | "jneg (Fin a) = Fin (- a)"

fun jadd :: "jsnum \<Rightarrow> jsnum \<Rightarrow> jsnum" where
  "jadd (Fin a) (Fin b) = fl (a + b)"
| "jadd PInf NInf = NaN" | "jadd NInf PInf = NaN"
| "jadd NaN _ = NaN" | "jadd _ NaN = NaN"
| "jadd PInf _ = PInf" | "jadd _ PInf = PInf"
| "jadd NInf _ = NInf" | "jadd _ NInf = NInf"

definition jsub :: "jsnum \<Rightarrow> jsnum \<Rightarrow> jsnum" where
  "jsub a b = jadd a (jneg b)"

definition jinf :: "bool \<Rightarrow> jsnum" where
  "jinf positive = (if positive then PInf else NInf)"

fun jmul :: "jsnum \<Rightarrow> jsnum \<Rightarrow> jsnum" where
  "jmul (Fin a) (Fin b) = fl (a * b)"
| "jmul NaN _ = NaN" | "jmul _ NaN = NaN"
| "jmul PInf (Fin b) = (if b = 0 then NaN else jinf (0 < b))"
| "jmul NInf (Fin b) = (if b = 0 then NaN else jinf (b < 0))"
| "jmul (Fin a) PInf = (if a = 0 then NaN else jinf (0 < a))"
| "jmul (Fin a) NInf = (if a = 0 then NaN else jinf (a < 0))"
| "jmul PInf PInf = PInf" | "jmul NInf NInf = PInf"
| "jmul PInf NInf = NInf" | "jmul NInf PInf = NInf"

text \<open>Division by (positive) zero gives an infinity, \<open>0/0\<close> NaN.\<close>

fun jdiv :: "jsnum \<Rightarrow> jsnum \<Rightarrow> jsnum" where
  "jdiv (Fin a) (Fin b) =
     (if b = 0 then (if a = 0 then NaN else jinf (0 < a)) else fl (a / b))"
| "jdiv NaN _ = NaN" | "jdiv _ NaN = NaN"
| "jdiv (Fin a) PInf = Fin 0" | "jdiv (Fin a) NInf = Fin 0"
| "jdiv PInf (Fin b) = jinf (0 \<le> b)" | "jdiv NInf (Fin b) = jinf (b < 0)"
| "jdiv PInf PInf = NaN" | "jdiv PInf NInf = NaN" | "jdiv NInf PInf = NaN" | "jdiv NInf NInf = NaN"

text \<open>Comparisons with NaN are false.\<close>

fun jle :: "jsnum \<Rightarrow> jsnum \<Rightarrow> bool" where
  "jle (Fin a) (Fin b) = (a \<le> b)"
| "jle NaN _ = False" | "jle _ NaN = False"
| "jle NInf _ = True" | "jle _ PInf = True"
| "jle PInf _ = False" | "jle _ NInf = False"

definition jlt :: "jsnum \<Rightarrow> jsnum \<Rightarrow> bool" where
  "jlt a b = (jle a b \<and> \<not> jle b a)"

definition isNaN :: "jsnum \<Rightarrow> bool" where
  "isNaN a = (a = NaN)"

fun jabs :: "jsnum \<Rightarrow> jsnum" where
  "jabs NaN = NaN" | "jabs PInf = PInf" | "jabs NInf = PInf" | "jabs (Fin a) = Fin \<bar>a\<bar>"

fun jceil :: "jsnum \<Rightarrow> jsnum" where
  "jceil (Fin a) = Fin (of_int \<lceil>a\<rceil>)" | "jceil NaN = NaN" | "jceil PInf = PInf" | "jceil NInf = NInf"

fun jfloor :: "jsnum \<Rightarrow> jsnum" where
  "jfloor (Fin a) = Fin (of_int \<lfloor>a\<rfloor>)" | "jfloor NaN = NaN" | "jfloor PInf = PInf" | "jfloor NInf = NInf"

definition jmin :: "jsnum \<Rightarrow> jsnum \<Rightarrow> jsnum" where
  "jmin a b = (if a = NaN \<or> b = NaN then NaN else if jle a b then a else b)"

definition jmax :: "jsnum \<Rightarrow> jsnum \<Rightarrow> jsnum" where
  "jmax a b = (if a = NaN \<or> b = NaN then NaN else if jle a b then b else a)"

text \<open>\<open>Number(n)\<close> of a BigInt rounds; \<open>BigInt(x)\<close> of a number throws a RangeError unless it
  is an integer.  A number literal is the double nearest to what is written.\<close>

definition Number :: "int \<Rightarrow> jsnum" where
  "Number n = fl (of_int n)"

fun BigInt_of_number :: "jsnum \<Rightarrow> int res" where
  "BigInt_of_number (Fin a) = (if of_int \<lfloor>a\<rfloor> = a then Inr \<lfloor>a\<rfloor> else Inl RangeError)"
| "BigInt_of_number _ = Inl RangeError"

definition jnat :: "nat \<Rightarrow> jsnum" where
  "jnat n = fl (of_nat n)"

text \<open>Truthiness of a number: zero and NaN are falsy.\<close>

definition jtruthy :: "jsnum \<Rightarrow> bool" where
  "jtruthy a = (a \<noteq> Fin 0 \<and> a \<noteq> NaN)"

section \<open>Powers of two\<close>

lemma pow2_pos [simp]: "0 < pow2 e"
  by (simp add: pow2_def)

lemma pow2_nonneg [simp]: "0 \<le> pow2 e"
  using pow2_pos [of e] by linarith

lemma pow2_neq_0 [simp]: "pow2 e \<noteq> 0"
  using pow2_pos [of e] by linarith

lemma pow2_powi: "pow2 e = 2 powi e"
  by (simp add: pow2_def power_int_def field_simps)

lemma pow2_add: "pow2 (a + b) = pow2 a * pow2 b"
  by (simp add: pow2_powi power_int_add)

lemma pow2_mono: "a \<le> b \<Longrightarrow> pow2 a \<le> pow2 b"
  by (simp add: pow2_powi power_int_increasing)

lemma pow2_strict_mono: "a < b \<Longrightarrow> pow2 a < pow2 b"
  by (simp add: pow2_powi power_int_strict_increasing)

lemma pow2_less_cancel: "pow2 a < pow2 b \<Longrightarrow> a < b"
  by (meson leD leI pow2_mono)

lemma pow2_of_nat: "pow2 (int n) = 2 ^ n"
  by (simp add: pow2_def)

section \<open>The integer logarithm\<close>

lemma bitlen_bounds_rat:
  assumes "0 < n"
  shows "pow2 (bitlen n - 1) \<le> of_int n" and "of_int n < pow2 (bitlen n)"
proof -
  have b: "0 < bitlen n"
    using assms bitlen_nonneg [of n] bitlen_eq_zero_iff [of n] by linarith
  have lo: "2 ^ nat (bitlen n - 1) \<le> n" and hi: "n < 2 ^ nat (bitlen n)"
    using bitlen_bounds [OF assms] by simp_all
  have "(of_int (2 ^ nat (bitlen n - 1)) :: rat) \<le> of_int n" using lo by (rule of_int_le_iff [THEN iffD2])
  then show "pow2 (bitlen n - 1) \<le> of_int n" using b by (simp add: pow2_def)
  have "(of_int n :: rat) < of_int (2 ^ nat (bitlen n))" using hi by (rule of_int_less_iff [THEN iffD2])
  then show "of_int n < pow2 (bitlen n)" using b by (simp add: pow2_def)
qed

lemma ilog2_bounds:
  assumes "0 < x"
  shows "pow2 (ilog2 x) \<le> x" and "x < pow2 (ilog2 x + 1)"
proof -
  obtain n d where q: "quotient_of x = (n, d)" by fastforce
  then have d: "0 < d" and x: "x = of_int n / of_int d"
    using quotient_of_denom_pos quotient_of_div by auto
  with assms have n: "0 < n"
    by (simp add: zero_less_divide_iff)
  define k where "k = bitlen n - bitlen d"
  have up: "x < pow2 (k + 1)"
  proof -
    have "x < pow2 (bitlen n) / of_int d"
      unfolding x using bitlen_bounds_rat(2) [OF n] d by (simp add: divide_strict_right_mono)
    also have "\<dots> \<le> pow2 (bitlen n) / pow2 (bitlen d - 1)"
      using bitlen_bounds_rat(1) [OF d] d by (intro divide_left_mono) auto
    also have "\<dots> = pow2 (k + 1)"
      unfolding k_def by (simp add: pow2_powi field_simps flip: power_int_add)
    finally show ?thesis .
  qed
  have lo: "pow2 (k - 1) < x"
  proof -
    have "pow2 (k - 1) = pow2 (bitlen n - 1) / pow2 (bitlen d)"
      unfolding k_def by (simp add: pow2_powi field_simps flip: power_int_add)
    also have "\<dots> < pow2 (bitlen n - 1) / of_int d"
      using bitlen_bounds_rat(2) [OF d] d by (intro divide_strict_left_mono) auto
    also have "\<dots> \<le> x"
      unfolding x using bitlen_bounds_rat(1) [OF n] d by (simp add: divide_right_mono)
    finally show ?thesis .
  qed
  have e: "ilog2 x = (if pow2 k \<le> x then k else k - 1)"
    by (simp add: ilog2_def q k_def Let_def)
  show "pow2 (ilog2 x) \<le> x" using lo by (simp add: e)
  show "x < pow2 (ilog2 x + 1)" using up by (simp add: e)
qed

lemma ilog2_mono: "0 < x \<Longrightarrow> x \<le> y \<Longrightarrow> ilog2 x \<le> ilog2 y"
  using ilog2_bounds(1) [of x] ilog2_bounds(2) [of y] pow2_less_cancel [of "ilog2 x" "ilog2 y + 1"]
  by linarith

section \<open>Rounding is monotone\<close>

lemma rne_mono: "x \<le> y \<Longrightarrow> rne x \<le> rne y"
proof -
  assume le: "x \<le> y"
  then have fle: "\<lfloor>x\<rfloor> \<le> \<lfloor>y\<rfloor>" by (rule floor_mono)
  show ?thesis
  proof (cases "\<lfloor>x\<rfloor> = \<lfloor>y\<rfloor>")
    case True
    with le show ?thesis by (auto simp: rne_def Let_def)
  next
    case False
    with fle have "\<lfloor>x\<rfloor> + 1 \<le> \<lfloor>y\<rfloor>" by simp
    then show ?thesis by (auto simp: rne_def Let_def)
  qed
qed

lemma rne_of_int [simp]: "rne (of_int n) = n"
  by (simp add: rne_def)

lemma fl_exp_mono: "0 < x \<Longrightarrow> x \<le> y \<Longrightarrow> fl_exp x \<le> fl_exp y"
  by (simp add: fl_exp_def ilog2_mono max.coboundedI1)

text \<open>The significand stays within 53 bits, and has all 53 unless the exponent is the least.\<close>

lemma significand_upper:
  assumes "0 < x"
  shows "rne (x / pow2 (fl_exp x)) \<le> 2 ^ 53"
proof -
  have "x < pow2 (ilog2 x + 1)" using ilog2_bounds(2) [OF assms] .
  also have "\<dots> \<le> pow2 (fl_exp x + 53)"
    by (rule pow2_mono) (simp add: fl_exp_def)
  also have "\<dots> = pow2 (fl_exp x) * 2 ^ 53"
    by (simp add: pow2_add pow2_of_nat [of 53, simplified])
  finally have "x / pow2 (fl_exp x) \<le> of_int (2 ^ 53)"
    by (simp add: pos_divide_le_eq mult.commute)
  from rne_mono [OF this] show ?thesis by (metis rne_of_int)
qed

lemma significand_lower:
  assumes "0 < x" and "- 1074 < fl_exp x"
  shows "2 ^ 52 \<le> rne (x / pow2 (fl_exp x))"
proof -
  from assms(2) have e: "ilog2 x = fl_exp x + 52" by (simp add: fl_exp_def max_def split: if_splits)
  have "pow2 (fl_exp x) * 2 ^ 52 = pow2 (ilog2 x)"
    unfolding e by (simp add: pow2_add pow2_of_nat [of 52, simplified])
  also have "\<dots> \<le> x" using ilog2_bounds(1) [OF assms(1)] .
  finally have "of_int (2 ^ 52) \<le> x / pow2 (fl_exp x)"
    by (simp add: pos_le_divide_eq mult.commute)
  from rne_mono [OF this] show ?thesis by (metis rne_of_int)
qed

lemma rnd_pos: "0 < x \<Longrightarrow> rnd x = of_int (rne (x / pow2 (fl_exp x))) * pow2 (fl_exp x)"
  by (simp add: rnd_def)

lemma rnd_0 [simp]: "rnd 0 = 0"
  by (simp add: rnd_def)

lemma rnd_nonneg: "0 \<le> x \<Longrightarrow> 0 \<le> rnd x"
proof (cases "x = 0")
  case False
  assume "0 \<le> x"
  then have "of_int 0 \<le> x / pow2 (fl_exp x)"
    by (simp add: divide_nonneg_pos)
  from rne_mono [OF this] have "0 \<le> rne (x / pow2 (fl_exp x))"
    by (metis rne_of_int)
  with False \<open>0 \<le> x\<close> show ?thesis by (simp add: rnd_pos)
qed simp

lemma rnd_mono_pos:
  assumes "0 < x" "x \<le> y"
  shows "rnd x \<le> rnd y"
proof (cases "fl_exp x = fl_exp y")
  case True
  have "rne (x / pow2 (fl_exp x)) \<le> rne (y / pow2 (fl_exp x))"
    by (rule rne_mono) (rule divide_right_mono, simp_all add: assms)
  with True assms show ?thesis by (simp add: rnd_pos)
next
  case False
  with fl_exp_mono [OF assms] have lt: "fl_exp x < fl_exp y" by simp
  then have y: "- 1074 < fl_exp y" by (simp add: fl_exp_def)
  have two: "pow2 1 = 2" by (simp add: pow2_def)
  have "rnd x \<le> of_int (2 ^ 53) * pow2 (fl_exp x)"
    unfolding rnd_pos [OF assms(1)]
    by (intro mult_right_mono of_int_le_iff [THEN iffD2] significand_upper assms(1) pow2_nonneg)
  also have "\<dots> = of_int (2 ^ 52) * pow2 (fl_exp x + 1)"
    by (simp add: pow2_add two)
  also have "\<dots> \<le> of_int (2 ^ 52) * pow2 (fl_exp y)"
    using lt by (intro mult_left_mono pow2_mono) simp_all
  also have "\<dots> \<le> of_int (rne (y / pow2 (fl_exp y))) * pow2 (fl_exp y)"
    using assms y by (intro mult_right_mono of_int_le_iff [THEN iffD2] significand_lower pow2_nonneg) auto
  also have "\<dots> = rnd y"
    using assms by (simp only: rnd_pos less_le_trans)
  finally show ?thesis .
qed

lemma rnd_minus: "rnd (- x) = - rnd x"
  by (simp add: rnd_def)

theorem rnd_mono: "x \<le> y \<Longrightarrow> rnd x \<le> rnd y"
proof -
  assume le: "x \<le> y"
  consider "0 < x" | "x \<le> 0" "0 \<le> y" | "y < 0" by linarith
  then show ?thesis
  proof cases
    case 1
    with le show ?thesis by (simp add: rnd_mono_pos)
  next
    case 2
    then have "rnd x \<le> 0" "0 \<le> rnd y"
      using rnd_nonneg [of "- x"] rnd_nonneg [of y] by (simp_all add: rnd_minus)
    then show ?thesis by simp
  next
    case 3
    with le rnd_mono_pos [of "- y" "- x"] show ?thesis by (simp add: rnd_minus)
  qed
qed

section \<open>Monotone operations on non-negative numbers\<close>

definition jnonneg :: "jsnum \<Rightarrow> bool" where
  "jnonneg a = jle (Fin 0) a"

lemma jnonneg_simps [simp]:
  "jnonneg (Fin a) \<longleftrightarrow> 0 \<le> a" "jnonneg PInf" "\<not> jnonneg NaN" "\<not> jnonneg NInf"
  by (simp_all add: jnonneg_def)

lemma jle_refl [simp]: "jle a a \<longleftrightarrow> a \<noteq> NaN"
  by (cases a) auto

lemma jle_trans [trans]: "jle a b \<Longrightarrow> jle b c \<Longrightarrow> jle a c"
  by (cases a; cases b; cases c) auto

lemma jnonneg_jle: "jnonneg a \<Longrightarrow> jle a b \<Longrightarrow> jnonneg b"
  unfolding jnonneg_def by (rule jle_trans)

lemma fl_mono: "x \<le> y \<Longrightarrow> jle (fl x) (fl y)"
  using rnd_mono [of x y] by (auto simp: fl_def Let_def)

lemma fl_0 [simp]: "fl 0 = Fin 0"
  by (simp add: fl_def)

lemma fl_nonneg [simp]: "0 \<le> x \<Longrightarrow> jnonneg (fl x)"
  using fl_mono [of 0 x] by (simp add: jnonneg_def)

lemma fl_not_NaN [simp]: "fl x \<noteq> NaN"
  by (simp add: fl_def Let_def)

lemma jle_PInf [simp]: "jle a PInf \<longleftrightarrow> a \<noteq> NaN"
  by (cases a) auto

lemma fl_nonneg_cases: "0 \<le> x \<Longrightarrow> (\<exists>r. fl x = Fin r \<and> 0 \<le> r) \<or> fl x = PInf"
  using fl_nonneg [of x] by (cases "fl x") auto

lemma jadd_mono:
  "jnonneg a \<Longrightarrow> jnonneg b \<Longrightarrow> jle a a' \<Longrightarrow> jle b b' \<Longrightarrow> jle (jadd a b) (jadd a' b')"
  by (cases a; cases b; cases a'; cases b') (auto intro: fl_mono)

lemma jadd_nonneg: "jnonneg a \<Longrightarrow> jnonneg b \<Longrightarrow> jnonneg (jadd a b)"
  by (cases a; cases b) auto

lemma jmul_Fin_mono:
  "jnonneg a \<Longrightarrow> 0 < c \<Longrightarrow> jle a a' \<Longrightarrow> jle (jmul a (Fin c)) (jmul a' (Fin c))"
  by (cases a; cases a') (auto intro: fl_mono simp: jinf_def mult_right_mono)

lemma jmul_Fin_nonneg: "jnonneg a \<Longrightarrow> 0 < c \<Longrightarrow> jnonneg (jmul a (Fin c))"
  by (cases a) (auto simp: jinf_def)

lemma jdiv_Fin_mono:
  "jnonneg a \<Longrightarrow> 0 < c \<Longrightarrow> jle a a' \<Longrightarrow> jle (jdiv a (Fin c)) (jdiv a' (Fin c))"
  by (cases a; cases a') (auto intro: fl_mono simp: jinf_def divide_right_mono)

lemma jdiv_Fin_nonneg: "jnonneg a \<Longrightarrow> 0 < c \<Longrightarrow> jnonneg (jdiv a (Fin c))"
  by (cases a) (auto simp: jinf_def)

lemma jceil_mono: "jle a b \<Longrightarrow> jle (jceil a) (jceil b)"
  by (cases a; cases b) (auto simp: ceiling_mono)

lemma jnat_mono: "m \<le> n \<Longrightarrow> jle (jnat m) (jnat n)"
  by (simp add: jnat_def fl_mono)

lemma jnat_nonneg [simp]: "jnonneg (jnat n)"
  by (simp add: jnat_def)

lemmas jsnum_mono =
  jadd_mono jmul_Fin_mono jdiv_Fin_mono jceil_mono jnat_mono
  jadd_nonneg jmul_Fin_nonneg jdiv_Fin_nonneg

text \<open>Converting two integral numbers to BigInt keeps their order.\<close>

lemma BigInt_of_number_mono:
  "jle a b \<Longrightarrow> BigInt_of_number a = Inr m \<Longrightarrow> BigInt_of_number b = Inr n \<Longrightarrow> m \<le> n"
  by (cases a; cases b) (auto simp: floor_mono split: if_splits)

lemma BigInt_of_number_jceil_Fin [simp]: "BigInt_of_number (jceil (Fin a)) = Inr \<lceil>a\<rceil>"
  by simp

end
