(* ===== verification/JsParse.thy ===== *)
theory JsParse
  imports JsText JsNumber
begin

text \<open>
  Numbers from text: \<open>Number(s)\<close> and \<open>parseFloat(s)\<close> of JavaScript, over the decimal literals of the
  language (digits, fraction, exponent, sign, \<open>Infinity\<close>) and, for \<open>Number\<close>, the radix prefixes.  The
  exact value of the literal is rounded once.
\<close>

definition digit_run :: "string \<Rightarrow> string" where
  "digit_run s = takeWhile is_digit s"

definition after_digits :: "string \<Rightarrow> string" where
  "after_digits s = dropWhile is_digit s"

text \<open>An exponent part, when what follows \<open>e\<close> is an optional sign and at least one digit; otherwise
  nothing is consumed.\<close>

definition exponent_part :: "string \<Rightarrow> int \<times> string" where
  "exponent_part s = (case s of
       c # t \<Rightarrow>
         if c = CHR ''e'' \<or> c = CHR ''E'' then
           let neg = startsWith t ''-''; u = (if neg \<or> startsWith t ''+'' then drop 1 t else t) in
           if digit_run u = [] then (0, s)
           else ((if neg then - 1 else 1) * int (radix_val 10 (digit_run u)), after_digits u)
         else (0, s)
     | [] \<Rightarrow> (0, s))"

definition unsigned_decimal :: "string \<Rightarrow> (rat \<times> string) option" where
  "unsigned_decimal s =
     (let ip = digit_run s; r1 = after_digits s;
          fp = (if startsWith r1 ''.'' then digit_run (drop 1 r1) else []);
          r2 = (if startsWith r1 ''.'' then after_digits (drop 1 r1) else r1)
      in if ip = [] \<and> fp = [] then None
         else case exponent_part r2 of (e, rest) \<Rightarrow>
           let k = e - int (length fp); m = of_nat (radix_val 10 (ip @ fp)) in
           Some (if 0 \<le> k then m * 10 ^ nat k else m / 10 ^ nat (- k), rest))"

text \<open>A signed literal and what is left of the text.\<close>

definition decimal_prefix :: "string \<Rightarrow> (jsnum \<times> string) option" where
  "decimal_prefix s =
     (let neg = startsWith s ''-''; t = (if neg \<or> startsWith s ''+'' then drop 1 s else s) in
      if startsWith t ''Infinity'' then Some (if neg then NInf else PInf, drop 8 t)
      else case unsigned_decimal t of
          None \<Rightarrow> None
        | Some (v, rest) \<Rightarrow> Some (fl (if neg then - v else v), rest))"

definition parseFloat :: "string \<Rightarrow> jsnum" where
  "parseFloat s = (case decimal_prefix (dropWhile is_ws s) of Some (v, _) \<Rightarrow> v | None \<Rightarrow> NaN)"

definition Number_of_string :: "string \<Rightarrow> jsnum" where
  "Number_of_string s0 =
     (let s = trim s0; p = toLowerCase (take 2 s) in
      if s = [] then Fin 0
      else if p \<in> {''0x'', ''0o'', ''0b''} then
        (case radix_literal (if p = ''0x'' then 16 else if p = ''0o'' then 8 else 2) (drop 2 s) of
           Inl _ \<Rightarrow> NaN | Inr n \<Rightarrow> fl (of_int n))
      else case decimal_prefix s of Some (v, []) \<Rightarrow> v | _ \<Rightarrow> NaN)"

lemma decimal_prefix_not_NaN: "decimal_prefix s = Some (v, r) \<Longrightarrow> v \<noteq> NaN"
  by (auto simp: decimal_prefix_def Let_def split: if_splits option.splits)

end
