(* ===== verification/Json.thy ===== *)
theory Json
  imports JsParse
begin

text \<open>
  Values that come out of \<open>JSON.parse\<close>, and what JavaScript does with them: properties and indices,
  truthiness, conversion to a number.
\<close>

datatype json = JNull | JBool bool | JNum jsnum | JStr string | JArr "json list" | JObj "(string \<times> json) list"

text \<open>\<open>None\<close> is \<open>undefined\<close>.\<close>

fun jprop :: "json option \<Rightarrow> string \<Rightarrow> json option res" where
  "jprop None _ = Inl TypeError"
| "jprop (Some JNull) _ = Inl TypeError"
| "jprop (Some (JObj kvs)) name = Inr (map_of kvs name)"
| "jprop (Some (JArr xs)) name = Inr (if name = ''length'' then Some (JNum (Fin (of_nat (length xs)))) else None)"
| "jprop (Some (JStr s)) name = Inr (if name = ''length'' then Some (JNum (Fin (of_nat (length s)))) else None)"
| "jprop (Some _) _ = Inr None"

fun jidx :: "json option \<Rightarrow> nat \<Rightarrow> json option res" where
  "jidx None _ = Inl TypeError"
| "jidx (Some JNull) _ = Inl TypeError"
| "jidx (Some (JObj kvs)) i = Inr (map_of kvs (dec_of_nat i))"
| "jidx (Some (JArr xs)) i = Inr (if i < length xs then Some (xs ! i) else None)"
| "jidx (Some (JStr s)) i = Inr (if i < length s then Some (JStr [s ! i]) else None)"
| "jidx (Some _) _ = Inr None"

fun truthy :: "json option \<Rightarrow> bool" where
  "truthy None = False"
| "truthy (Some JNull) = False"
| "truthy (Some (JBool b)) = b"
| "truthy (Some (JNum n)) = jtruthy n"
| "truthy (Some (JStr s)) = (s \<noteq> [])"
| "truthy (Some _) = True"

definition has_length :: "json option \<Rightarrow> nat \<Rightarrow> bool res" where
  "has_length v n = bind (jprop v ''length'') (\<lambda>l. Inr (l = Some (JNum (Fin (of_nat n)))))"

text \<open>Short-circuit conjunction of conditions that may throw.\<close>

fun all_res :: "(unit \<Rightarrow> bool res) list \<Rightarrow> bool res" where
  "all_res [] = Inr True"
| "all_res (c # cs) = bind (c ()) (\<lambda>b. if b then all_res cs else Inr False)"

text \<open>\<open>Number(v)\<close>: a list is first written as text, its elements separated by commas, so only lists of
  at most one element can be numbers.\<close>

fun to_number :: "json \<Rightarrow> jsnum" where
  "to_number JNull = Fin 0"
| "to_number (JBool b) = Fin (if b then 1 else 0)"
| "to_number (JNum x) = x"
| "to_number (JStr s) = Number_of_string s"
| "to_number (JArr []) = Fin 0"
| "to_number (JArr [v]) = (case v of JBool b \<Rightarrow> NaN | _ \<Rightarrow> to_number v)"
| "to_number (JArr _) = NaN"
| "to_number (JObj _) = NaN"

end
