(* ===== verification/Config.thy ===== *)
theory Config
  imports JsText "HOL-Library.Char_ord" "HOL-Library.List_Lexorder"
begin

text \<open>
  Start-up configuration: \<open>src/src/config/profile.ts\<close>, \<open>src/src/config/env.validation.ts\<close>,
  \<open>src/src/keys/key-policy.ts\<close> and the profile rules of \<open>src/src/longjing/chain.ts\<close>.

  \<open>process.env\<close> is an insertion-ordered map from names to strings.  The \<open>URL\<close> parser is the
  parameter \<open>url_hostname\<close> (\<open>None\<close> when the constructor throws), and the declarative schema
  checked by class-validator is the parameter \<open>validateSync\<close>, which returns its messages.

  Shown: an environment that passes \<open>validateEnvironment\<close> in production has every required
  variable, none of the refused ones, no placeholder and no key material (unless opted out);
  a placeholder is found whatever its case, prefix and surrounding white space, in any position
  of a comma-separated value; the two profiles never accept the same chain.
\<close>

section \<open>Profiles\<close>

type_synonym env = "(string, string) jmap"

datatype profile_kind = local_profile | prod_profile

definition NODE_ENVS :: "string list" where
  "NODE_ENVS = [''development'', ''test'', ''production'']"

definition LOCAL_CHAIN_ID :: int where
  "LOCAL_CHAIN_ID = 31337"

definition json_escape :: "char \<Rightarrow> string" where
  "json_escape c =
     (if c = CHR 0x22 then [CHR 0x5C, CHR 0x22]
      else if c = CHR 0x5C then [CHR 0x5C, CHR 0x5C]
      else if cval c = 8 then [CHR 0x5C, CHR ''b'']
      else if cval c = 9 then [CHR 0x5C, CHR ''t'']
      else if cval c = 10 then [CHR 0x5C, CHR ''n'']
      else if cval c = 12 then [CHR 0x5C, CHR ''f'']
      else if cval c = 13 then [CHR 0x5C, CHR ''r'']
      else if cval c < 32 then [CHR 0x5C, CHR ''u'', CHR ''0'', CHR ''0'',
        digit_char (cval c div 16), digit_char (cval c mod 16)]
      else [c])"

definition json_stringify :: "string \<Rightarrow> string" where
  "json_stringify s = [CHR 0x22] @ concat (map json_escape s) @ [CHR 0x22]"

definition profile :: "env \<Rightarrow> profile_kind res" where
  "profile env =
     (let value = jm_get env ''NODE_ENV'' in
      if value = Some ''production'' then Inr prod_profile
      else if value = Some ''development'' \<or> value = Some ''test'' then Inr local_profile
      else Inl (Error (''NODE_ENV must be \"development\", \"test\" or \"production\", got '' @
        (case value of None \<Rightarrow> ''nothing'' | Some v \<Rightarrow> json_stringify v))))"

definition isProd :: "env \<Rightarrow> bool res" where
  "isProd env = bind (profile env) (\<lambda>p. Inr (p = prod_profile))"

section \<open>Placeholders\<close>

definition ANVIL_ACCOUNTS :: "(string \<times> string) list" where
  "ANVIL_ACCOUNTS =
   [(''0xac0974bec39a17e36ba4a6b4d238ff944bacb478cbed5efcae784d7bf4f2ff80'',
     ''0xf39Fd6e51aad88F6F4ce6aB8827279cffFb92266''),
    (''0x59c6995e998f97a5a0044966f0945389dc9e86dae88c7a8412f4603b6b78690d'',
     ''0x70997970C51812dc3A010C7d01b50e0d17dc79C8''),
    (''0x5de4111afa1a4b94908f83103eb1f1706367c2e68ca870fc3fb9a804cdab365a'',
     ''0x3C44CdDdB6a900fa2b585dd299e03d12FA4293BC''),
    (''0x7c852118294e51e653712a81e05800f419141751be58f605c371e15141b007a6'',
     ''0x90F79bf6EB2c4f870365E785982E1f101E93b906''),
    (''0x47e179ec197488593b187f80a00eb0da91f1b9d0b13f8733639f19c30a34926a'',
     ''0x15d34AAf54267DB7D7c367839AAf71A00a2C6A65''),
    (''0x8b3a350cf5c34c9194ca85829a2df0ec3153be0318b5e2d3348e872092edffba'',
     ''0x9965507D1a55bcC2695C58ba16FB37d819B0A4dc''),
    (''0x92db14e403b83dfe3df233f83dfa3a0d7096f21ca9b0d6d6b8d88b2b4ec1564e'',
     ''0x976EA74026E726554dB657fA54763abd0C3a0aa9''),
    (''0x4bbbf85ce3377467afe5d46f804f221813b2bb87f24d81f60f1fcdbf7cbf4356'',
     ''0x14dC79964da2C08b23698B3D3cc7Ca32193d9955''),
    (''0xdbda1821b80551c9d65939329250298aa3472ba22feea921c0cf5d620ea67b97'',
     ''0x23618e81E3f5cdF7f54C3d65f7FBc0aBf5B21E8f''),
    (''0x2a871d0798f97d79848a013d4936a73bf4cc922c825d33c1cf7073dff6d409c6'',
     ''0xa0Ee7A142d267C1f36714E4a8F75612F20a79720'')]"

definition ANVIL_FIRST_DEPLOYMENT :: string where
  "ANVIL_FIRST_DEPLOYMENT = ''0x5FbDB2315678afecb367f032d93F642f64180aa3''"

definition normalize_value :: "string \<Rightarrow> string" where
  "normalize_value v = strip0x (toLowerCase v)"

definition PLACEHOLDER_VALUES :: "string list" where
  "PLACEHOLDER_VALUES = map normalize_value
     (concat (map (\<lambda>(key, address). [key, address]) ANVIL_ACCOUNTS) @ [ANVIL_FIRST_DEPLOYMENT])"

definition endsWith :: "string \<Rightarrow> string \<Rightarrow> bool" where
  "endsWith s t = (\<exists>k \<le> length s. drop k s = t)"

text \<open>\<open>EXAMPLE_HOST\<close>: \<open>example.com\<close>, \<open>.org\<close> or \<open>.net\<close>, or a subdomain of one, in any case.\<close>

definition EXAMPLE_HOST :: "string \<Rightarrow> bool" where
  "EXAMPLE_HOST host = list_ex (\<lambda>d. toLowerCase host = d \<or> endsWith (toLowerCase host) (CHR ''.'' # d))
     [''example.com'', ''example.org'', ''example.net'']"

definition isPlaceholder :: "(string \<Rightarrow> string option) \<Rightarrow> string \<Rightarrow> bool" where
  "isPlaceholder url_hostname value =
     (let normalized = strip0x (toLowerCase (trim value)) in
      if normalized \<in> set PLACEHOLDER_VALUES then True
      else (case url_hostname (trim value) of None \<Rightarrow> False | Some host \<Rightarrow> EXAMPLE_HOST host))"

fun split_on :: "char \<Rightarrow> string \<Rightarrow> string list" where
  "split_on c [] = [[]]"
| "split_on c (x # s) =
     (if x = c then [] # split_on c s
      else case split_on c s of [] \<Rightarrow> [[x]] | w # ws \<Rightarrow> (x # w) # ws)"

definition join :: "string \<Rightarrow> string list \<Rightarrow> string" where
  "join sep ws = (case ws of [] \<Rightarrow> [] | w # rest \<Rightarrow> w @ concat (map (\<lambda>x. sep @ x) rest))"

definition findPlaceholders :: "(string \<Rightarrow> string option) \<Rightarrow> env \<Rightarrow> string list" where
  "findPlaceholders url_hostname env =
     sort (map fst (filter (\<lambda>(_, value). list_ex (isPlaceholder url_hostname) (split_on CHR '','' value)) env))"

section \<open>Key policy\<close>

definition KEY_MATERIAL_ENV :: "string list" where
  "KEY_MATERIAL_ENV = [''ADMIN_MLKEM_PRIVATE_KEY'', ''OPERATOR_PRIVATE_KEY'',
     ''SERVER_TX_PRIVATE_KEY'', ''TLS_KEY_PATH'', ''TLS_CERT_PATH'']"

text \<open>A variable counts as set when it is there and not empty, which is what testing
  \<open>config[name]\<close> for truth asks of a string.\<close>

definition is_set :: "env \<Rightarrow> string \<Rightarrow> bool" where
  "is_set env name = (jm_get env name \<notin> {None, Some []})"

definition keysOutsideEnclaveAllowed :: "env \<Rightarrow> bool" where
  "keysOutsideEnclaveAllowed env = (jm_get env ''ALLOW_KEYS_OUTSIDE_ENCLAVE'' = Some ''true'')"

definition assertNoKeyMaterialInEnv :: "env \<Rightarrow> unit res" where
  "assertNoKeyMaterialInEnv env = bind (isProd env) (\<lambda>prod.
     if \<not> prod \<or> keysOutsideEnclaveAllowed env then Inr ()
     else let found = filter (is_set env) KEY_MATERIAL_ENV in
       guard (found = [])
         (Error (''Refusing to start in production with key material in env ('' @ join '', '' found
           @ ''): keys are derived from the dstack KMS. See docs/KEY_DERIVATION.md.'')))"

section \<open>Environment validation\<close>

definition PROD_REQUIRED :: "string list" where
  "PROD_REQUIRED = [''ETHEREUM_RPC_URLS'', ''ZK_CONTRACT_ADDRESS'']"

definition PROD_REFUSED :: "string list" where
  "PROD_REFUSED = [''ANVIL_RPC_URL'', ''SERVER_TX_PRIVATE_KEY'', ''DSTACK_SIMULATOR_ENDPOINT'']"

definition profileErrors :: "(string \<Rightarrow> string option) \<Rightarrow> env \<Rightarrow> string list res" where
  "profileErrors url_hostname config = bind (isProd config) (\<lambda>prod.
     if \<not> prod then Inr []
     else
       let missing = filter (\<lambda>name. \<not> is_set config name) PROD_REQUIRED;
           refused = filter (is_set config) PROD_REFUSED;
           placeholders = findPlaceholders url_hostname config
       in Inr ((if missing \<noteq> [] then [''NODE_ENV=production requires '' @ join '', '' missing] else [])
             @ (if refused \<noteq> [] then [''NODE_ENV=production refuses '' @ join '', '' refused] else [])
             @ (if placeholders \<noteq> []
                then [''NODE_ENV=production refuses placeholder values in '' @ join '', '' placeholders]
                else [])))"

definition newline :: string where
  "newline = [CHR 0x0A]"

definition validateEnvironment ::
  "(string \<Rightarrow> string option) \<Rightarrow> (env \<Rightarrow> string list) \<Rightarrow> env \<Rightarrow> env res" where
  "validateEnvironment url_hostname validateSync config =
     bind (profileErrors url_hostname config) (\<lambda>problems.
     bind (guard (problems = []) (Error (''Environment validation failed:'' @ newline @ join newline problems))) (\<lambda>_.
     bind (assertNoKeyMaterialInEnv config) (\<lambda>_.
       let errors = validateSync config in
       bind (guard (errors = []) (Error (''Environment validation failed:'' @ newline @ join newline errors)))
         (\<lambda>_. Inr config))))"

section \<open>Chain and profile\<close>

text \<open>\<open>chain.ts\<close>.  \<open>random\<close> stands for \<open>Math.floor(Math.random() * n)\<close>: an index below \<open>n\<close> when
  \<open>n\<close> is positive; reading an empty array gives \<open>undefined\<close>.\<close>

definition selectRpcUrl :: "(nat \<Rightarrow> nat) \<Rightarrow> env \<Rightarrow> profile_kind \<Rightarrow> string option" where
  "selectRpcUrl random config current =
     (if current = local_profile
      then (case jm_get config ''ANVIL_RPC_URL'' of
              None \<Rightarrow> None | Some url \<Rightarrow> if url = [] then None else Some url)
      else
        let urls = filter (\<lambda>url. url \<noteq> [])
              (map trim (split_on CHR '','' (case jm_get config ''ETHEREUM_RPC_URLS'' of None \<Rightarrow> [] | Some s \<Rightarrow> s)));
            k = random (length urls)
        in if k < length urls then Some (urls ! k) else None)"

text \<open>The JSON-RPC answer of \<open>eth_chainId\<close>: the \<open>result\<close> text, or an error message, or neither.\<close>

record rpc_body =
  rpc_result :: "string option"
  rpc_error_message :: "string option"
  rpc_status :: nat

definition fetchChainId :: "rpc_body res \<Rightarrow> int res" where
  "fetchChainId answer = bind answer (\<lambda>body.
     case rpc_result body of
       Some r \<Rightarrow> BigInt_of_string r
     | None \<Rightarrow> Inl (Error (''eth_chainId failed: '' @
         (case rpc_error_message body of Some m \<Rightarrow> m | None \<Rightarrow> ''HTTP '' @ dec_of_nat (rpc_status body)))))"

definition assertChainMatchesProfile :: "int \<Rightarrow> profile_kind \<Rightarrow> unit res" where
  "assertChainMatchesProfile chainId current =
     bind (guard (\<not> (current = local_profile \<and> chainId \<noteq> LOCAL_CHAIN_ID))
       (Error (''NODE_ENV=development or test runs on Anvil only (chain '' @ dec_of_int LOCAL_CHAIN_ID
          @ ''), the RPC is on chain '' @ dec_of_int chainId))) (\<lambda>_.
     guard (\<not> (current = prod_profile \<and> chainId = LOCAL_CHAIN_ID))
       (Error (''NODE_ENV=production refuses chain '' @ dec_of_int LOCAL_CHAIN_ID
          @ '': the RPC is a local Anvil node'')))"

section \<open>Facts\<close>

lemma chain_profile_disjoint:
  "is_ok (assertChainMatchesProfile c local_profile) \<longleftrightarrow> c = LOCAL_CHAIN_ID"
  "is_ok (assertChainMatchesProfile c prod_profile) \<longleftrightarrow> c \<noteq> LOCAL_CHAIN_ID"
  by (simp_all add: assertChainMatchesProfile_def guard_def bind_def)

lemma set_findPlaceholders:
  "name \<in> set (findPlaceholders h env) \<longleftrightarrow>
   (\<exists>value. (name, value) \<in> set env \<and> (\<exists>item \<in> set (split_on CHR '','' value). isPlaceholder h item))"
  by (force simp: findPlaceholders_def list_ex_iff)

lemma profileErrors_prod_Nil:
  assumes "jm_get env ''NODE_ENV'' = Some ''production''" "profileErrors h env = Inr []"
  shows "\<forall>name \<in> set PROD_REQUIRED. is_set env name" "\<forall>name \<in> set PROD_REFUSED. \<not> is_set env name"
    "findPlaceholders h env = []"
  using assms by (simp_all add: profileErrors_def isProd_def profile_def Let_def filter_empty_conv
      split: if_splits)

lemma trim_ws: "\<forall>c \<in> set a. is_ws c \<Longrightarrow> \<forall>c \<in> set b. is_ws c \<Longrightarrow> s \<noteq> [] \<Longrightarrow> \<forall>c \<in> set s. \<not> is_ws c
   \<Longrightarrow> trim (a @ s @ b) = s"
proof -
  assume a: "\<forall>c \<in> set a. is_ws c" and b: "\<forall>c \<in> set b. is_ws c" and s: "s \<noteq> []" "\<forall>c \<in> set s. \<not> is_ws c"
  have d: "dropWhile is_ws (ws @ t) = t" if "\<forall>c \<in> set ws. is_ws c" "t \<noteq> []" "\<not> is_ws (hd t)" for ws t
    using that by (induction ws) (auto simp: neq_Nil_conv)
  have "dropWhile is_ws (a @ s @ b) = s @ b"
    using a s by (intro d) (simp_all add: hd_append)
  moreover have "dropWhile is_ws (rev b @ rev s) = rev s"
    using b s by (intro d) (simp_all add: hd_rev)
  ultimately show ?thesis by (simp add: trim_def)
qed

lemma length_normalize_0x: "length (normalize_value (CHR ''0'' # CHR ''x'' # s)) = length s"
  by (simp add: normalize_value_def toLowerCase_def to_lower_char_def cval_def strip0x_def startsWith_def)

lemma length_PLACEHOLDER_VALUES: "v \<in> set PLACEHOLDER_VALUES \<Longrightarrow> 40 \<le> length v"
  by (auto simp: PLACEHOLDER_VALUES_def ANVIL_ACCOUNTS_def ANVIL_FIRST_DEPLOYMENT_def length_normalize_0x)

lemma short_not_placeholder:
  assumes "length v < 40" "h (trim v) = None"
  shows "\<not> isPlaceholder h v"
proof -
  have "length (strip0x (toLowerCase (trim v))) \<le> length v"
    using length_dropWhile_le [of is_ws "rev (dropWhile is_ws v)"] length_dropWhile_le [of is_ws v]
    by (auto simp: strip0x_def toLowerCase_def trim_def)
  with assms(1) have "strip0x (toLowerCase (trim v)) \<notin> set PLACEHOLDER_VALUES"
    using length_PLACEHOLDER_VALUES by fastforce
  then show ?thesis using assms(2) by (simp add: isPlaceholder_def Let_def)
qed

text \<open>An environment that \<open>validateEnvironment\<close> accepts in production sets every required
  variable, sets none of the local-only ones, holds no Anvil key, address or example URL in any
  comma-separated item, and, unless the compose file opts out, holds no key material.\<close>

lemma validateEnvironment_prod:
  assumes "validateEnvironment h vs env = Inr cfg" "jm_get env ''NODE_ENV'' = Some ''production''"
  shows "(\<forall>name \<in> set PROD_REQUIRED. is_set env name)
    \<and> (\<forall>name \<in> set PROD_REFUSED. \<not> is_set env name)
    \<and> (\<forall>name value item. (name, value) \<in> set env \<longrightarrow> item \<in> set (split_on CHR '','' value)
         \<longrightarrow> \<not> isPlaceholder h item)
    \<and> (keysOutsideEnclaveAllowed env \<or> (\<forall>name \<in> set KEY_MATERIAL_ENV. \<not> is_set env name))"
proof -
  have p: "profileErrors h env = Inr []" and k: "assertNoKeyMaterialInEnv env = Inr ()"
    using assms(1) by (auto simp: validateEnvironment_def res_simps)
  note P = profileErrors_prod_Nil [OF assms(2) p]
  have "\<forall>name value item. (name, value) \<in> set env \<longrightarrow> item \<in> set (split_on CHR '','' value)
      \<longrightarrow> \<not> isPlaceholder h item"
    using set_findPlaceholders [of _ h env] P(3) by auto
  moreover have "keysOutsideEnclaveAllowed env \<or> (\<forall>name \<in> set KEY_MATERIAL_ENV. \<not> is_set env name)"
    using k assms(2)
    by (auto simp: assertNoKeyMaterialInEnv_def isProd_def profile_def Let_def guard_eq_Inr filter_empty_conv
        split: if_splits)
  ultimately show ?thesis using P(1,2) by blast
qed

definition sample_prod_env :: env where
  "sample_prod_env = [(''NODE_ENV'', ''production''), (''ETHEREUM_RPC_URLS'', ''https://rpc.node''),
     (''ZK_CONTRACT_ADDRESS'', ''0xabc'')]"

lemma validateEnvironment_sample:
  "validateEnvironment (\<lambda>_. None) (\<lambda>_. []) sample_prod_env = Inr sample_prod_env"
proof -
  have "findPlaceholders (\<lambda>_. None) sample_prod_env = []"
    by (simp add: findPlaceholders_def sample_prod_env_def short_not_placeholder)
  then show ?thesis
    by (simp add: validateEnvironment_def profileErrors_def isProd_def profile_def Let_def
        assertNoKeyMaterialInEnv_def sample_prod_env_def PROD_REQUIRED_def PROD_REFUSED_def
        KEY_MATERIAL_ENV_def is_set_def jm_get_Cons)
qed

end
