(* ===== verification/ComputeLimits.thy ===== *)
theory ComputeLimits
  imports JsParse Config
begin

text \<open>
  \<open>src/src/longjing/utils/concurrency-limiter.ts\<close> and \<open>src/src/longjing/compute-limiter.service.ts\<close>.

  \<open>run\<close> is split where it awaits the task: \<open>run_enter\<close> is the synchronous part before (a 503 when
  the cap is reached, otherwise the count goes up) and \<open>run_exit\<close> is the \<open>finally\<close> block, which
  runs whether the task succeeded or threw.  Tasks of different requests interleave between the
  two, so the cap is an invariant of the step relation \<open>limiter_run\<close>, whose third argument is the
  list of tasks under way.
\<close>

record limiter =
  lim_max :: nat
  lim_active :: nat

text \<open>The constructor: \<open>max\<close> must be an integer of at least 1.\<close>

definition ConcurrencyLimiter :: "jsnum \<Rightarrow> limiter res" where
  "ConcurrencyLimiter m = (case m of
       Fin q \<Rightarrow> if of_int \<lfloor>q\<rfloor> = q \<and> 1 \<le> q then Inr \<lparr>lim_max = nat \<lfloor>q\<rfloor>, lim_active = 0\<rparr>
                else Inl (Error ''Concurrency limit must be a positive integer'')
     | _ \<Rightarrow> Inl (Error ''Concurrency limit must be a positive integer''))"

definition running :: "limiter \<Rightarrow> nat" where
  "running l = lim_active l"

definition run_enter :: "limiter \<Rightarrow> limiter res" where
  "run_enter l =
     (if lim_active l \<ge> lim_max l then Inl (ServiceUnavailable ''Server busy, retry later'')
      else Inr (l\<lparr>lim_active := lim_active l + 1\<rparr>))"

definition run_exit :: "limiter \<Rightarrow> limiter" where
  "run_exit l = l\<lparr>lim_active := lim_active l - 1\<rparr>"

text \<open>\<open>run\<close> of a task that changes some other state, with nothing interleaved.\<close>

definition run_task :: "('s \<Rightarrow> 's \<times> 'a res) \<Rightarrow> limiter \<times> 's \<Rightarrow> (limiter \<times> 's) \<times> 'a res" where
  "run_task task ls = (case ls of (l, s) \<Rightarrow>
     case run_enter l of
       Inl e \<Rightarrow> ((l, s), Inl e)
     | Inr l1 \<Rightarrow> (case task s of (s', r) \<Rightarrow> ((run_exit l1, s'), r)))"

definition DEFAULT_MAX_CONCURRENT_VERIFICATIONS :: jsnum where
  "DEFAULT_MAX_CONCURRENT_VERIFICATIONS = Fin 8"

definition DEFAULT_MAX_CONCURRENT_PROOFS :: jsnum where
  "DEFAULT_MAX_CONCURRENT_PROOFS = Fin 2"

definition limitFromEnv :: "env \<Rightarrow> string \<Rightarrow> jsnum \<Rightarrow> jsnum" where
  "limitFromEnv env name fallback =
     (case jm_get env name of
        None \<Rightarrow> fallback
      | Some value \<Rightarrow> if value = [] then fallback else Number_of_string value)"

record compute_limiter =
  verification :: limiter
  proving :: limiter

definition ComputeLimiterService :: "env \<Rightarrow> compute_limiter res" where
  "ComputeLimiterService env =
     bind (ConcurrencyLimiter (limitFromEnv env ''MAX_CONCURRENT_VERIFICATIONS'' DEFAULT_MAX_CONCURRENT_VERIFICATIONS)) (\<lambda>v.
     bind (ConcurrencyLimiter (limitFromEnv env ''MAX_CONCURRENT_PROOFS'' DEFAULT_MAX_CONCURRENT_PROOFS)) (\<lambda>p.
       Inr \<lparr>verification = v, proving = p\<rparr>))"

section \<open>The cap holds under interleaving\<close>

inductive limiter_run :: "jsnum \<Rightarrow> limiter \<Rightarrow> nat list \<Rightarrow> bool" where
  construct: "ConcurrencyLimiter m = Inr l \<Longrightarrow> limiter_run m l []"
| enter: "limiter_run m l ts \<Longrightarrow> run_enter l = Inr l' \<Longrightarrow> t \<notin> set ts \<Longrightarrow> limiter_run m l' (t # ts)"
| leave: "limiter_run m l ts \<Longrightarrow> t \<in> set ts \<Longrightarrow> limiter_run m (run_exit l) (remove1 t ts)"

lemma run_task_limiter: "fst (fst (run_task task (l, s))) = l"
  by (auto simp: run_task_def run_enter_def run_exit_def split: prod.split)

lemma limiter_run_inv:
  "limiter_run m l ts \<Longrightarrow>
   (\<exists>q. m = Fin q \<and> lim_max l = nat \<lfloor>q\<rfloor> \<and> 1 \<le> q) \<and> lim_active l = length ts \<and> length ts \<le> lim_max l \<and> 1 \<le> lim_max l"
proof (induction rule: limiter_run.induct)
  case (construct m l)
  then obtain q where q: "m = Fin q" "of_int \<lfloor>q\<rfloor> = q" "1 \<le> q" "l = \<lparr>lim_max = nat \<lfloor>q\<rfloor>, lim_active = 0\<rparr>"
    by (auto simp: ConcurrencyLimiter_def split: jsnum.splits if_splits)
  moreover have "Suc 0 \<le> nat \<lfloor>q\<rfloor>" using q(3) by (simp add: le_nat_iff)
  ultimately show ?case by simp
next
  case (enter m l ts l' t)
  then show ?case by (auto simp: run_enter_def split: if_splits)
next
  case (leave m l ts t)
  then show ?case by (auto simp: run_exit_def length_remove1)
qed

text \<open>Over every interleaving of tasks starting and ending (by returning or by throwing), at most
  \<open>max\<close> tasks run at once, the count is exact, and a task is refused with 503 exactly when
  \<open>max\<close> are running; once all have ended the next one is let in.\<close>

theorem limiter_cap:
  assumes "limiter_run m l ts"
  shows "length ts \<le> lim_max l \<and> running l = length ts
    \<and> (\<not> is_ok (run_enter l) \<longleftrightarrow> length ts = lim_max l)
    \<and> (ts = [] \<longrightarrow> is_ok (run_enter l))"
  using limiter_run_inv [OF assms] by (auto simp: running_def run_enter_def)

theorem limiter_cap_witness:
  "running (\<lparr>lim_max = 2, lim_active = 1\<rparr>) = length [7 :: nat]"
proof -
  have "ConcurrencyLimiter (Fin 2) = Inr \<lparr>lim_max = 2, lim_active = 0\<rparr>" by (simp add: ConcurrencyLimiter_def)
  then have "limiter_run (Fin 2) \<lparr>lim_max = 2, lim_active = 0\<rparr> []" by (rule limiter_run.construct)
  then have "limiter_run (Fin 2) \<lparr>lim_max = 2, lim_active = 1\<rparr> [7]"
    by (rule limiter_run.enter) (simp_all add: run_enter_def)
  from limiter_cap [OF this] show ?thesis by simp
qed

end
