(* ===== verification/Blockchain.thy ===== *)
theory Blockchain
  imports Config "HOL-Library.Multiset"
begin

text \<open>
  \<open>src/src/longjing/blockchain.service.ts\<close> and \<open>src/src/longjing/contract-ready.guard.ts\<close>: the
  connection to LongjingCredits.

  The fields of the service are the record \<open>blockchain\<close>; a wallet is its address, a contract its
  target address, and a handler registered with \<open>onConnected\<close> is a value of a type parameter.
  What the RPC and the contract answer during one connection attempt is a \<open>chain_answers\<close>
  record; \<open>tx_signer\<close> is the enclave-derived signer (prod) and \<open>wallet_of_key\<close> the ethers
  wallet of a private key (local).  The refund signer's public key is an argument.

  \<open>connectProd\<close> is cut at its awaits (\<open>conn_step\<close>), since requests are answered in between.

  Shown: at every moment what the service has checked; connected, the chain is not Anvil's, the refund
  key is this server's and \<open>C_MAX\<close> is known; with no contract the guard refuses every request; but from
  the answer of \<open>C_MAX\<close> on requests are let through with the refund key still unchecked; a handler
  runs exactly once, now or at the first connection.
\<close>

section \<open>State\<close>

record withdrawal =
  wd_nullifier :: int
  wd_signalX :: int
  wd_signalY :: int

record 'h blockchain =
  bc_provider :: "string option"
  bc_contract :: "string option"
  bc_wallet :: "string option"
  bc_cMax :: "int option"
  bc_retry :: bool
  bc_destroyed :: bool
  bc_connectedHandlers :: "'h list"

definition bc_init :: "'h blockchain" where
  "bc_init = \<lparr>bc_provider = None, bc_contract = None, bc_wallet = None, bc_cMax = None,
     bc_retry = False, bc_destroyed = False, bc_connectedHandlers = []\<rparr>"

type_synonym pubkey = "string \<times> string"

record chain_answers =
  ans_chainId :: "rpc_body res"
  ans_cMax :: "int res"
  ans_serverPublicKey :: "pubkey res"
  ans_serverAddress :: "string res"

record signers =
  tx_signer :: "string res"
  wallet_of_key :: "string \<Rightarrow> string res"

section \<open>Connecting\<close>

definition createSigner :: "signers \<Rightarrow> env \<Rightarrow> bool \<Rightarrow> string option res" where
  "createSigner sg config is_prod =
     (if is_prod then bind (tx_signer sg) (\<lambda>w. Inr (Some w))
      else case jm_get config ''SERVER_TX_PRIVATE_KEY'' of
          None \<Rightarrow> Inr None
        | Some key \<Rightarrow> if key = [] then Inr None else bind (wallet_of_key sg key) (\<lambda>w. Inr (Some w)))"

text \<open>The provider and the contract are assigned before the signer is created, so they stay when
  that throws.\<close>

definition build ::
  "signers \<Rightarrow> env \<Rightarrow> string \<Rightarrow> string \<Rightarrow> bool \<Rightarrow> 'h blockchain \<Rightarrow> 'h blockchain \<times> unit res" where
  "build sg config rpcUrl address is_prod bc =
     (let bc1 = bc\<lparr>bc_provider := Some rpcUrl, bc_contract := Some address\<rparr> in
      case createSigner sg config is_prod of
        Inl e \<Rightarrow> (bc1, Inl e)
      | Inr w \<Rightarrow> (bc1\<lparr>bc_wallet := w\<rparr>, Inr ()))"

definition disconnect :: "'h blockchain \<Rightarrow> 'h blockchain" where
  "disconnect bc = bc\<lparr>bc_provider := None, bc_contract := None, bc_wallet := None, bc_cMax := None\<rparr>"

definition checkServerKeys :: "chain_answers \<Rightarrow> pubkey res \<Rightarrow> unit res" where
  "checkServerKeys ans signer_key =
     bind (ans_serverPublicKey ans) (\<lambda>(ox, oy).
     bind signer_key (\<lambda>(sx, sy).
     let refuse = Misconfigured (''Cannot start in production: LongjingCredits.serverPublicKey ('' @ ox
           @ '', '' @ oy @ '') is not the refund signer ('' @ sx @ '', '' @ sy @ '')'') in
     bind (BigInt_of_string ox) (\<lambda>ox'.
     bind (BigInt_of_string sx) (\<lambda>sx'.
     bind (guard (ox' = sx') refuse) (\<lambda>_.
     bind (BigInt_of_string oy) (\<lambda>oy'.
     bind (BigInt_of_string sy) (\<lambda>sy'.
     bind (guard (oy' = sy') refuse) (\<lambda>_.
     bind (ans_serverAddress ans) (\<lambda>_. Inr ())))))))))"

fun as_misconfigured :: "exn \<Rightarrow> exn" where
  "as_misconfigured (Error m) = Misconfigured m"
| "as_misconfigured e = e"

fun is_misconfigured :: "exn \<Rightarrow> bool" where
  "is_misconfigured (Misconfigured _) = True"
| "is_misconfigured _ = False"

text \<open>\<open>connectProd\<close> is cut at its awaits, because requests are answered in between and see the fields as
  they are then.  First the part between the chain's id and the call of \<open>C_MAX()\<close>: it assigns the
  provider, the contract and the wallet.\<close>

definition connect_chain ::
  "signers \<Rightarrow> env \<Rightarrow> rpc_body res \<Rightarrow> string \<Rightarrow> string \<Rightarrow> 'h blockchain \<Rightarrow> 'h blockchain \<times> int res" where
  "connect_chain sg config answer rpcUrl address bc =
     (case bind (fetchChainId answer) (\<lambda>chainId.
             case assertChainMatchesProfile chainId prod_profile of
               Inl e \<Rightarrow> Inl (as_misconfigured e) | Inr _ \<Rightarrow> Inr chainId) of
        Inl e \<Rightarrow> (bc, Inl e)
      | Inr chainId \<Rightarrow>
          (case build sg config rpcUrl address True bc of
             (bc1, Inl e) \<Rightarrow> (bc1, Inl e)
           | (bc1, Inr _) \<Rightarrow> (bc1, Inr chainId)))"

text \<open>Then \<open>C_MAX\<close> is stored; \<open>checkServerKeys\<close>, which comes next, changes no field.\<close>

definition connect_cMax :: "int res \<Rightarrow> 'h blockchain \<Rightarrow> 'h blockchain \<times> unit res" where
  "connect_cMax answer bc = (case answer of Inl e \<Rightarrow> (bc, Inl e) | Inr c \<Rightarrow> (bc\<lparr>bc_cMax := Some c\<rparr>, Inr ()))"

text \<open>The \<open>catch\<close>, and what follows the \<open>try\<close>: the handlers that run, in order.\<close>

definition connect_failed :: "bool \<Rightarrow> exn \<Rightarrow> 'h blockchain \<Rightarrow> 'h blockchain \<times> unit res" where
  "connect_failed atBoot e bc =
     (let bc2 = disconnect bc in
      if is_misconfigured e then (bc2, if atBoot then Inl e else Inr ())
      else if \<not> bc_destroyed bc2 then (bc2\<lparr>bc_retry := True\<rparr>, Inr ())
      else (bc2, Inr ()))"

definition connect_done :: "'h blockchain \<Rightarrow> 'h blockchain \<times> 'h list" where
  "connect_done bc = (bc\<lparr>bc_connectedHandlers := []\<rparr>, bc_connectedHandlers bc)"

text \<open>The body of the \<open>try\<close>, and the whole, when nothing else looks in between (at boot, which the
  module's initialisation waits for).\<close>

definition connect_attempt ::
  "signers \<Rightarrow> env \<Rightarrow> pubkey res \<Rightarrow> chain_answers \<Rightarrow> string \<Rightarrow> string \<Rightarrow> 'h blockchain
   \<Rightarrow> 'h blockchain \<times> unit res" where
  "connect_attempt sg config signer_key ans rpcUrl address bc =
     (case connect_chain sg config (ans_chainId ans) rpcUrl address bc of
        (bc1, Inl e) \<Rightarrow> (bc1, Inl e)
      | (bc1, Inr _) \<Rightarrow>
          (case connect_cMax (ans_cMax ans) bc1 of
             (bc2, Inl e) \<Rightarrow> (bc2, Inl e)
           | (bc2, Inr _) \<Rightarrow> (bc2, checkServerKeys ans signer_key)))"

definition connectProd ::
  "signers \<Rightarrow> env \<Rightarrow> pubkey res \<Rightarrow> chain_answers \<Rightarrow> string \<Rightarrow> string \<Rightarrow> bool \<Rightarrow> 'h blockchain
   \<Rightarrow> 'h blockchain \<times> 'h list \<times> unit res" where
  "connectProd sg config signer_key ans rpcUrl address atBoot bc =
     (case connect_attempt sg config signer_key ans rpcUrl address bc of
        (bc1, Inl e) \<Rightarrow> (case connect_failed atBoot e bc1 of (bc2, r) \<Rightarrow> (bc2, [], r))
      | (bc1, Inr _) \<Rightarrow> (case connect_done bc1 of (bc2, now) \<Rightarrow> (bc2, now, Inr ())))"

definition onModuleInit ::
  "signers \<Rightarrow> env \<Rightarrow> (nat \<Rightarrow> nat) \<Rightarrow> pubkey res \<Rightarrow> chain_answers \<Rightarrow> 'h blockchain
   \<Rightarrow> 'h blockchain \<times> 'h list \<times> unit res" where
  "onModuleInit sg config random signer_key ans bc =
     (case profile config of
        Inl e \<Rightarrow> (bc, [], Inl e)
      | Inr current \<Rightarrow>
        let is_prod = (current = prod_profile);
            rpcUrl = selectRpcUrl random config current;
            contractAddress = jm_get config ''ZK_CONTRACT_ADDRESS'' in
        (case (rpcUrl, contractAddress) of
           (Some url, Some address) \<Rightarrow>
             if address = [] then
               (bc, [], if is_prod then Inl (Error ''NODE_ENV=production requires ETHEREUM_RPC_URLS and ZK_CONTRACT_ADDRESS'') else Inr ())
             else if is_prod then connectProd sg config signer_key ans url address True bc
             else
               (case fetchChainId (ans_chainId ans) of
                  Inl _ \<Rightarrow> (bc, [], Inr ())
                | Inr chainId \<Rightarrow>
                   (case assertChainMatchesProfile chainId current of
                      Inl e \<Rightarrow> (bc, [], Inl e)
                    | Inr _ \<Rightarrow>
                       (case build sg config url address False bc of
                          (bc1, Inl _) \<Rightarrow> (bc1, [], Inr ())
                        | (bc1, Inr _) \<Rightarrow>
                            (case ans_cMax ans of
                               Inl _ \<Rightarrow> (bc1, [], Inr ())
                             | Inr c \<Rightarrow> (bc1\<lparr>bc_cMax := Some c\<rparr>, [], Inr ())))))
         | _ \<Rightarrow>
             (bc, [], if is_prod then Inl (Error ''NODE_ENV=production requires ETHEREUM_RPC_URLS and ZK_CONTRACT_ADDRESS'') else Inr ())))"

section \<open>Reads\<close>

definition isAvailable :: "'h blockchain \<Rightarrow> bool" where
  "isAvailable bc = (bc_contract bc \<noteq> None \<and> bc_provider bc \<noteq> None)"

definition onConnected :: "'h \<Rightarrow> 'h blockchain \<Rightarrow> 'h blockchain \<times> 'h list" where
  "onConnected handler bc =
     (if isAvailable bc then (bc, [handler])
      else (bc\<lparr>bc_connectedHandlers := bc_connectedHandlers bc @ [handler]\<rparr>, []))"

definition onModuleDestroy :: "'h blockchain \<Rightarrow> 'h blockchain" where
  "onModuleDestroy bc = bc\<lparr>bc_destroyed := True, bc_retry := False\<rparr>"

definition getSigner :: "'h blockchain \<Rightarrow> string option" where
  "getSigner bc = (if bc_contract bc \<noteq> None then bc_wallet bc else None)"

definition getContractAddress :: "'h blockchain \<Rightarrow> string option" where
  "getContractAddress bc = bc_contract bc"

definition connected :: "'h blockchain \<Rightarrow> string res" where
  "connected bc = (case bc_contract bc of
     None \<Rightarrow> Inl (Error ''Blockchain service not initialized'') | Some c \<Rightarrow> Inr c)"

text \<open>A contract read: nothing is asked of the chain unless the service is connected.\<close>

definition getMerkleRoot :: "string res \<Rightarrow> 'h blockchain \<Rightarrow> string res" where
  "getMerkleRoot answer bc = bind (connected bc) (\<lambda>_. answer)"

definition isKnownRoot ::
  "(int \<Rightarrow> string res) \<Rightarrow> (string \<Rightarrow> bool res) \<Rightarrow> 'h blockchain \<Rightarrow> string \<Rightarrow> bool res" where
  "isKnownRoot toBeHex32 call bc root =
     bind (connected bc) (\<lambda>_. bind (BigInt_of_string root) (\<lambda>r. bind (toBeHex32 r) call))"

definition getCMax :: "'h blockchain \<Rightarrow> int res" where
  "getCMax bc = bind (connected bc) (\<lambda>_. case bc_cMax bc of
     None \<Rightarrow> Inl (Error ''C_MAX not read from the contract'') | Some c \<Rightarrow> Inr c)"

definition getServerAddress :: "string res \<Rightarrow> 'h blockchain \<Rightarrow> string res" where
  "getServerAddress answer bc = bind (connected bc) (\<lambda>_. answer)"

definition getServerPublicKey :: "pubkey res \<Rightarrow> 'h blockchain \<Rightarrow> pubkey res" where
  "getServerPublicKey answer bc = bind (connected bc) (\<lambda>_. answer)"

definition WITHDRAWAL_LOOKBACK_BLOCKS :: nat where
  "WITHDRAWAL_LOOKBACK_BLOCKS = 25000"

text \<open>Past exits are handled one after the other, oldest first; then the service subscribes.  The
  handler is a state transformer (it catches its own errors, see \<open>ExitWatcher\<close>); the boolean
  says whether the subscription was made.\<close>

definition watchWithdrawals ::
  "nat res \<Rightarrow> (nat \<Rightarrow> withdrawal list res) \<Rightarrow> (withdrawal \<Rightarrow> 's \<Rightarrow> 's) \<Rightarrow> 'h blockchain \<Rightarrow> 's
   \<Rightarrow> 's \<times> bool \<times> unit res" where
  "watchWithdrawals getBlockNumber queryFilter handler bc s =
     (case bind (connected bc) (\<lambda>_. bind getBlockNumber (\<lambda>latest.
             queryFilter (latest - WITHDRAWAL_LOOKBACK_BLOCKS))) of
        Inl e \<Rightarrow> (s, False, Inl e)
      | Inr past \<Rightarrow> (fold handler past s, True, Inr ()))"

text \<open>\<open>ContractReadyGuard.canActivate\<close>.\<close>

definition canActivate :: "env \<Rightarrow> 'h blockchain \<Rightarrow> bool res" where
  "canActivate config bc = bind (isProd config) (\<lambda>is_prod.
     if is_prod \<and> \<not> isAvailable bc then Inl (ServiceUnavailable ''LongjingCredits does not answer yet'')
     else Inr True)"

section \<open>The service between two awaits\<close>

text \<open>Where \<open>connectProd\<close> is suspended, with its argument \<open>atBoot\<close> and what it has read: before
  start-up; waiting for the retry timer; for the chain's id; for \<open>C_MAX\<close>; for the contract's keys; and
  the ends, connected or stopped by a configuration no retry can fix.\<close>

datatype phase =
    Idle
  | Waiting
  | Asking_chain bool
  | Asking_cMax bool int
  | Asking_keys bool int int
  | Up int int pubkey
  | Stopped

definition phase_failed :: "exn \<Rightarrow> phase" where
  "phase_failed e = (if is_misconfigured e then Stopped else Waiting)"

text \<open>The steps of the service in production, each labelled with the handlers it registers and those
  it runs.  A step is the code between two awaits, so a request may come between any two of them.\<close>

inductive conn_step ::
  "signers \<Rightarrow> env \<Rightarrow> pubkey res \<Rightarrow> string \<Rightarrow> string \<Rightarrow> 'h blockchain \<times> phase \<Rightarrow> 'h list \<times> 'h list \<Rightarrow> 'h blockchain \<times> phase \<Rightarrow> bool"
  for sg config key url address where
  boot: "conn_step sg config key url address (bc, Idle) ([], []) (bc, Asking_chain True)"
| timer: "bc_retry bc \<Longrightarrow> conn_step sg config key url address (bc, Waiting) ([], []) (bc, Asking_chain False)"
| chain: "connect_chain sg config answer url address bc = (bc', Inr chainId) \<Longrightarrow>
    conn_step sg config key url address (bc, Asking_chain b) ([], []) (bc', Asking_cMax b chainId)"
| cMax: "connect_cMax (Inr c) bc = (bc', Inr ()) \<Longrightarrow>
    conn_step sg config key url address (bc, Asking_cMax b chainId) ([], []) (bc', Asking_keys b chainId c)"
| keys: "checkServerKeys ans key = Inr () \<Longrightarrow> ans_serverPublicKey ans = Inr k \<Longrightarrow> connect_done bc = (bc', now) \<Longrightarrow>
    conn_step sg config key url address (bc, Asking_keys b chainId c) ([], now) (bc', Up chainId c k)"
| chain_fails: "connect_chain sg config answer url address bc = (bc1, Inl e) \<Longrightarrow> connect_failed b e bc1 = (bc', r) \<Longrightarrow>
    conn_step sg config key url address (bc, Asking_chain b) ([], []) (bc', phase_failed e)"
| cMax_fails: "connect_failed b e bc = (bc', r) \<Longrightarrow>
    conn_step sg config key url address (bc, Asking_cMax b chainId) ([], []) (bc', phase_failed e)"
| keys_fail: "checkServerKeys ans key = Inl e \<Longrightarrow> connect_failed b e bc = (bc', r) \<Longrightarrow>
    conn_step sg config key url address (bc, Asking_keys b chainId c) ([], []) (bc', phase_failed e)"
| register: "onConnected h bc = (bc', now) \<Longrightarrow> conn_step sg config key url address (bc, ph) ([h], now) (bc', ph)"
| destroy: "conn_step sg config key url address (bc, ph) ([], []) (onModuleDestroy bc, ph)"

text \<open>The runs from start-up, with all handlers registered and all that ran.\<close>

inductive conn_run ::
  "signers \<Rightarrow> env \<Rightarrow> pubkey res \<Rightarrow> string \<Rightarrow> string \<Rightarrow> 'h blockchain \<times> phase \<Rightarrow> 'h list \<Rightarrow> 'h list \<Rightarrow> bool"
  for sg config key url address where
  start: "conn_run sg config key url address (bc_init, Idle) [] []"
| step: "conn_run sg config key url address s reg ran_h \<Longrightarrow> conn_step sg config key url address s (reg', ran_h') s' \<Longrightarrow>
    conn_run sg config key url address s' (reg @ reg') (ran_h @ ran_h')"

section \<open>Facts\<close>

lemma isAvailable_disconnect [simp]: "\<not> isAvailable (disconnect bc)"
  by (simp add: isAvailable_def disconnect_def)

lemma getCMax_disconnect [simp]: "\<not> is_ok (getCMax (disconnect bc))"
  by (simp add: getCMax_def connected_def disconnect_def)

lemma checkServerKeys_ok:
  assumes "checkServerKeys ans key = Inr u" "ans_serverPublicKey ans = Inr (ox, oy)"
  obtains sx sy x y where "key = Inr (sx, sy)"
    "BigInt_of_string ox = Inr x" "BigInt_of_string sx = Inr x"
    "BigInt_of_string oy = Inr y" "BigInt_of_string sy = Inr y"
  using assms by (auto simp: checkServerKeys_def Let_def res_simps split: prod.splits)

text \<open>What a state owes to the answers so far.\<close>

definition same_key :: "pubkey res \<Rightarrow> pubkey \<Rightarrow> bool" where
  "same_key key onchain \<longleftrightarrow> (\<exists>sx sy x y. key = Inr (sx, sy)
     \<and> BigInt_of_string (fst onchain) = Inr x \<and> BigInt_of_string sx = Inr x
     \<and> BigInt_of_string (snd onchain) = Inr y \<and> BigInt_of_string sy = Inr y)"

fun phase_inv :: "pubkey res \<Rightarrow> 'h blockchain \<times> phase \<Rightarrow> bool" where
  "phase_inv key (bc, Up chainId c onchain) \<longleftrightarrow>
     isAvailable bc \<and> bc_cMax bc = Some c \<and> chainId \<noteq> LOCAL_CHAIN_ID \<and> same_key key onchain"
| "phase_inv key (bc, Asking_keys b chainId c) \<longleftrightarrow> isAvailable bc \<and> bc_cMax bc = Some c \<and> chainId \<noteq> LOCAL_CHAIN_ID"
| "phase_inv key (bc, Asking_cMax b chainId) \<longleftrightarrow> isAvailable bc \<and> bc_cMax bc = None \<and> chainId \<noteq> LOCAL_CHAIN_ID"
| "phase_inv key (bc, _) \<longleftrightarrow> bc_contract bc = None \<and> bc_provider bc = None \<and> bc_wallet bc = None \<and> bc_cMax bc = None"

lemma connect_chain_ok:
  "connect_chain sg config answer url address bc = (bc', Inr chainId) \<Longrightarrow>
   chainId \<noteq> LOCAL_CHAIN_ID \<and> isAvailable bc' \<and> bc_cMax bc' = bc_cMax bc \<and> bc_connectedHandlers bc' = bc_connectedHandlers bc"
  by (auto simp: connect_chain_def build_def Let_def bind_eq_Inr assertChainMatchesProfile_def res_simps isAvailable_def
      split: sum.splits prod.splits)

lemma connect_chain_handlers:
  "connect_chain sg config answer url address bc = (bc', r) \<Longrightarrow> bc_connectedHandlers bc' = bc_connectedHandlers bc"
  by (auto simp: connect_chain_def build_def Let_def split: sum.splits prod.splits)

lemma connect_failed_down:
  assumes "connect_failed b e bc = (bc', r)"
  shows "phase_inv key (bc', phase_failed e)" "bc_connectedHandlers bc' = bc_connectedHandlers bc"
  using assms by (auto simp: connect_failed_def phase_failed_def disconnect_def Let_def split: if_splits)

lemma phase_inv_fields:
  assumes "phase_inv key (bc, ph)" "bc_contract bc' = bc_contract bc" "bc_provider bc' = bc_provider bc"
    "bc_wallet bc' = bc_wallet bc" "bc_cMax bc' = bc_cMax bc"
  shows "phase_inv key (bc', ph)"
  using assms by (cases ph) (simp_all add: isAvailable_def)

lemma phase_inv_step:
  assumes "conn_step sg config key url address s l s'" "phase_inv key s"
  shows "phase_inv key s'"
  using assms
proof (induction rule: conn_step.induct)
  case (keys ans k bc bc' now b chainId c)
  obtain ox oy where k: "k = (ox, oy)" by (cases k)
  have "same_key key k"
    using keys(1) keys(2) [unfolded k] by (rule checkServerKeys_ok) (auto simp: same_key_def k)
  with keys show ?case by (auto simp: connect_done_def isAvailable_def)
next
  case (register h bc bc' now ph)
  then show ?case by (auto simp: onConnected_def split: if_splits intro: phase_inv_fields)
next
  case (destroy bc ph)
  then show ?case by (rule phase_inv_fields) (simp_all add: onModuleDestroy_def)
qed (auto simp: connect_cMax_def isAvailable_def dest: connect_chain_ok connect_failed_down)

lemma conn_run_inv: "conn_run sg config key url address s reg ran_h \<Longrightarrow> phase_inv key s"
  by (induction rule: conn_run.induct) (auto simp: bc_init_def intro: phase_inv_step)


definition sample_answers :: chain_answers where
  "sample_answers = \<lparr>ans_chainId = Inr \<lparr>rpc_result = Some ''0x1'', rpc_error_message = None, rpc_status = 200\<rparr>,
     ans_cMax = Inr 1000, ans_serverPublicKey = Inr (''0x10'', ''7''), ans_serverAddress = Inr ''0xs''\<rparr>"

definition sample_sigs :: signers where
  "sample_sigs = \<lparr>tx_signer = Inr ''0xs'', wallet_of_key = \<lambda>k. Inr k\<rparr>"

text \<open>A boot at which the RPC does not answer, then a retry that gets as far as \<open>C_MAX\<close>.\<close>

lemma sample_run_keys:
  obtains bc :: "nat blockchain" where
    "conn_run sample_sigs [(''NODE_ENV'', ''production'')] key ''rpc'' ''0xc'' (bc, Asking_keys False 1 1000) [] []"
    "bc_connectedHandlers bc = []"
proof -
  let ?env = "[(''NODE_ENV'', ''production'')]" and ?e = "Error ''fetch failed''"
  let ?r = "conn_run sample_sigs ?env key ''rpc'' ''0xc''"
  let ?bc = "\<lparr>bc_provider = None, bc_contract = None, bc_wallet = None, bc_cMax = None, bc_retry = True, bc_destroyed = False,
     bc_connectedHandlers = []\<rparr> :: nat blockchain"
  have b: "BigInt_of_string ''0x1'' = Inr 1" by code_simp
  have "?r (bc_init :: nat blockchain, Asking_chain True) ([] @ []) ([] @ [])"
    by (rule conn_run.step [OF conn_run.start conn_step.boot])
  from conn_run.step [OF this conn_step.chain_fails [of _ _ "Inl ?e" _ _ _ bc_init ?e True ?bc "Inr ()"]]
  have "?r (?bc, Waiting) [] []"
    by (simp add: connect_chain_def fetchChainId_def connect_failed_def disconnect_def bc_init_def phase_failed_def)
  from conn_run.step [OF this conn_step.timer] have "?r (?bc, Asking_chain False) [] []" by simp
  from conn_run.step [OF this conn_step.chain [of _ _ "ans_chainId sample_answers" _ _ ?bc
      "?bc\<lparr>bc_provider := Some ''rpc'', bc_contract := Some ''0xc'', bc_wallet := Some ''0xs''\<rparr>" 1]]
  have "?r (?bc\<lparr>bc_provider := Some ''rpc'', bc_contract := Some ''0xc'', bc_wallet := Some ''0xs''\<rparr>, Asking_cMax False 1) [] []"
    by (simp add: connect_chain_def fetchChainId_def sample_answers_def assertChainMatchesProfile_def LOCAL_CHAIN_ID_def
        build_def createSigner_def sample_sigs_def b)
  from conn_run.step [OF this conn_step.cMax [of 1000]] show thesis using that by (fastforce simp: connect_cMax_def)
qed


text \<open>Found: a retry answers requests before it knows whether the contract is for this server's refund
  key.  Here the key on the contract is another one; the guard and \<open>getCMax\<close> let requests through
  until the contract has answered, and only then is the service stopped for good.\<close>

theorem served_before_key_check:
  "\<exists>bc :: nat blockchain. conn_run sample_sigs [(''NODE_ENV'', ''production'')] (Inr (''99'', ''7'')) ''rpc'' ''0xc''
     (bc, Asking_keys False 1 1000) [] []
   \<and> canActivate [(''NODE_ENV'', ''production'')] bc = Inr True \<and> getCMax bc = Inr 1000
   \<and> (\<exists>m. checkServerKeys sample_answers (Inr (''99'', ''7'')) = Inl (Misconfigured m))"
proof -
  let ?env = "[(''NODE_ENV'', ''production'')]" and ?key = "Inr (''99'', ''7'') :: pubkey res"
  obtain bc :: "nat blockchain" where
    r: "conn_run sample_sigs ?env ?key ''rpc'' ''0xc'' (bc, Asking_keys False 1 1000) [] []"
    by (rule sample_run_keys)
  have b: "BigInt_of_string ''0x10'' = Inr 16" "BigInt_of_string ''99'' = Inr 99" by code_simp+
  have p: "isProd ?env = Inr True" by code_simp
  have "\<exists>m. checkServerKeys sample_answers ?key = Inl (Misconfigured m)"
    by (simp add: checkServerKeys_def sample_answers_def b guard_def Let_def)
  moreover have "canActivate ?env bc = Inr True" "getCMax bc = Inr 1000"
    using conn_run_inv [OF r] p by (auto simp: canActivate_def getCMax_def connected_def isAvailable_def)
  ultimately show ?thesis using r by blast
qed

subsection \<open>Handlers run once\<close>

lemma conn_run_conserves:
  "conn_run sg config key url address s reg ran_h \<Longrightarrow> mset reg = mset ran_h + mset (bc_connectedHandlers (fst s))"
proof (induction rule: conn_run.induct)
  case start
  then show ?case by (simp add: bc_init_def)
next
  case (step s reg ran_h reg' ran_h' s')
  from step.hyps(2) have "mset reg' + mset (bc_connectedHandlers (fst s)) = mset ran_h' + mset (bc_connectedHandlers (fst s'))"
    by (cases rule: conn_step.cases)
      (auto simp: connect_cMax_def connect_done_def onConnected_def onModuleDestroy_def
        dest!: connect_chain_handlers connect_failed_down(2) split: if_splits)
  with step.IH show ?case by (simp add: union_ac)
qed

lemma up_waits_for_none:
  "conn_run sg config key url address s reg ran_h \<Longrightarrow> snd s = Up chainId c k \<Longrightarrow> bc_connectedHandlers (fst s) = []"
proof (induction arbitrary: chainId c k rule: conn_run.induct)
  case (step s reg ran_h reg' ran_h' s')
  from step.hyps(2) step.IH step.prems conn_run_inv [OF step.hyps(1)] show ?case
    by (cases rule: conn_step.cases) (auto simp: connect_done_def onConnected_def onModuleDestroy_def phase_failed_def split: if_splits)
qed simp

text \<open>Every handler given to \<open>onConnected\<close> runs exactly once: over any run, the handlers registered are
  those that ran plus those still waiting, each counted as often as it was registered; and once the
  service is connected none is waiting.\<close>

theorem handlers_run_once:
  assumes "conn_run sg config key url address (bc, ph) reg ran_h"
  shows "mset reg = mset ran_h + mset (bc_connectedHandlers bc)
    \<and> (\<forall>chainId c k. ph = Up chainId c k \<longrightarrow> mset reg = mset ran_h)"
  using conn_run_conserves [OF assms] up_waits_for_none [OF assms] by auto

theorem handlers_run_once_witness:
  "\<exists>bc :: nat blockchain. conn_run sample_sigs [] (Inr ([], [])) [] [] (bc, Idle) [5] [] \<and> mset [5] = mset (bc_connectedHandlers bc)"
proof -
  have "conn_run sample_sigs [] (Inr ([], [])) [] [] (bc_init\<lparr>bc_connectedHandlers := [5 :: nat]\<rparr>, Idle) ([] @ [5]) ([] @ [])"
    by (rule conn_run.step [OF conn_run.start conn_step.register]) (simp add: onConnected_def isAvailable_def bc_init_def)
  with handlers_run_once [OF this] show ?thesis by auto
qed

end
