(* ===== verification/NumTheory.thy ===== *)
theory NumTheory
  imports Main
begin

text \<open>
  The elementary number theory behind the field arithmetic of the sources: primes, Fermat's
  little theorem, and a primality criterion of Pocklington's kind whose certificate is a
  chain of modular squarings and multiplications checked step by step (\<open>pow_run\<close>).
  \<open>Bn254.thy\<close> uses them to prove the field modulus prime.
\<close>

section \<open>Primes\<close>

definition is_prime :: "nat \<Rightarrow> bool" where
  "is_prime p = (1 < p \<and> (\<forall>d. d dvd p \<longrightarrow> d = 1 \<or> d = p))"

lemma is_prime_gt_1: "is_prime p \<Longrightarrow> 1 < p"
  by (simp add: is_prime_def)

lemma is_prime_coprime: "is_prime p \<Longrightarrow> \<not> p dvd a \<Longrightarrow> coprime p a"
proof -
  assume p: "is_prime p" and na: "\<not> p dvd a"
  have "gcd p a dvd p" by simp
  with p have "gcd p a = 1 \<or> gcd p a = p" unfolding is_prime_def by blast
  with na have "gcd p a = 1" by (metis gcd_dvd2)
  then show ?thesis by (simp add: coprime_iff_gcd_eq_1)
qed

lemma is_prime_dvd_mult: "is_prime p \<Longrightarrow> p dvd a * b \<longleftrightarrow> p dvd a \<or> p dvd b"
  by (metis coprime_dvd_mult_right_iff dvd_mult dvd_mult2 is_prime_coprime)

lemma is_prime_dvd_prod:
  assumes "is_prime p" "finite A"
  shows "p dvd prod f A \<longleftrightarrow> (\<exists>x \<in> A. p dvd f x)"
  using assms(2)
proof (induction A rule: finite_induct)
  case empty
  then show ?case using is_prime_gt_1 [OF assms(1)] by simp
next
  case (insert x A)
  then show ?case by (simp add: is_prime_dvd_mult [OF assms(1)])
qed

lemma is_prime_divisor_exists: "1 < n \<Longrightarrow> \<exists>d. is_prime d \<and> d dvd n"
proof (induction n rule: less_induct)
  case (less n)
  show ?case
  proof (cases "is_prime n")
    case True
    then show ?thesis by (intro exI [of _ n]) simp
  next
    case False
    with less.prems obtain d where d: "d dvd n" "d \<noteq> 1" "d \<noteq> n" by (auto simp: is_prime_def)
    have "0 < d" using d(1) less.prems by (auto intro: Nat.gr0I)
    with d(2) have "1 < d" by simp
    moreover have "d < n" using d less.prems by (auto dest: dvd_imp_le simp: le_less)
    ultimately have "1 < d" "d < n" by simp_all
    with less.IH obtain e where "is_prime e" "e dvd d" by blast
    with d(1) show ?thesis by (meson dvd_trans)
  qed
qed

section \<open>Fermat's little theorem\<close>

lemma mod_mult_cancel_prime:
  fixes x y :: nat
  assumes p: "is_prime p" and na: "\<not> p dvd a" and eq: "a * x mod p = a * y mod p"
  shows "x mod p = y mod p"
proof -
  from eq have "int (a * x) mod int p = int (a * y) mod int p"
    by (metis of_nat_mod)
  then have "int p dvd int a * (int x - int y)"
    by (simp add: mod_eq_dvd_iff algebra_simps)
  moreover have "coprime (int p) (int a)"
    using is_prime_coprime [OF p na] by simp
  ultimately have "int p dvd int x - int y"
    by (simp add: coprime_dvd_mult_right_iff)
  then have "int x mod int p = int y mod int p" by (simp add: mod_eq_dvd_iff)
  then show ?thesis by (metis nat_int zmod_int)
qed

lemma fermat_little:
  assumes p: "is_prime p" and na: "\<not> p dvd a"
  shows "a ^ (p - 1) mod p = 1"
proof -
  let ?S = "{1..<p}"
  let ?f = "\<lambda>x. a * x mod p"
  have p1: "1 < p" using p by (rule is_prime_gt_1)
  have nd: "\<not> p dvd x" if "x \<in> ?S" for x
    using that by (auto dest: dvd_imp_le)
  have "inj_on ?f ?S"
  proof (rule inj_onI)
    fix x y assume "x \<in> ?S" "y \<in> ?S" "?f x = ?f y"
    then show "x = y" using mod_mult_cancel_prime [OF p na, of x y] by simp
  qed
  moreover have "?f ` ?S \<subseteq> ?S"
  proof
    fix z assume "z \<in> ?f ` ?S"
    then obtain x where x: "x \<in> ?S" "z = a * x mod p" by blast
    have "\<not> p dvd a * x" using is_prime_dvd_mult [OF p] na nd [OF x(1)] by blast
    with x p1 show "z \<in> ?S" by (auto simp: dvd_eq_mod_eq_0)
  qed
  ultimately have img: "?f ` ?S = ?S" by (simp add: endo_inj_surj)
  have "prod ?f ?S = \<Prod> ?S"
    using prod.reindex [OF \<open>inj_on ?f ?S\<close>, of "\<lambda>x. x"] img by simp
  then have "(\<Prod>x\<in>?S. a * x) mod p = \<Prod>?S mod p"
    by (metis mod_prod_eq)
  then have "\<Prod>?S * a ^ (p - 1) mod p = \<Prod>?S * 1 mod p"
    by (simp add: prod.distrib mult.commute)
  moreover have "\<not> p dvd \<Prod>?S"
    using is_prime_dvd_prod [OF p, of ?S "\<lambda>x. x"] nd by auto
  ultimately have "a ^ (p - 1) mod p = 1 mod p"
    by (rule mod_mult_cancel_prime [OF p, rotated])
  with p1 show ?thesis by simp
qed

section \<open>A primality criterion\<close>

text \<open>If \<open>a\<close> has order divisible by the prime \<open>q\<close> modulo every prime factor of \<open>n\<close>, every prime
  factor, hence every divisor, is \<open>1\<close> modulo \<open>q\<close>.\<close>

lemma prime_factor_mod_q:
  assumes d: "is_prime d" "d dvd n" and q: "is_prime q"
    and pow: "b ^ q mod n = 1" and cert: "u * (b - 1) = v * n + 1" and b: "1 \<le> b"
  shows "q dvd d - 1"
proof (rule ccontr)
  assume nq: "\<not> q dvd d - 1"
  have d1: "1 < d" using d(1) by (rule is_prime_gt_1)
  have pd: "b ^ q mod d = 1"
    using pow d(2) d1 by (metis mod_mod_cancel mod_less)
  have nd: "\<not> d dvd b"
  proof
    assume "d dvd b"
    then have "d dvd b ^ q" using is_prime_gt_1 [OF q] by (simp add: dvd_power_le dvd_power dvd_trans)
    with pd show False by (simp add: dvd_eq_mod_eq_0)
  qed
  have fl: "b ^ (d - 1) mod d = 1" using d(1) nd by (rule fermat_little)
  obtain x y where xy: "q * x = (d - 1) * y + 1"
    using bezout_nat [of q "d - 1"] is_prime_coprime [OF q nq] is_prime_gt_1 [OF q]
    by (auto simp: coprime_iff_gcd_eq_1)
  have "b mod d = (b ^ (d - 1) mod d) ^ y * b mod d"
    unfolding fl by simp
  also have "\<dots> = (b ^ (d - 1)) ^ y * b mod d"
    by (metis mod_mult_left_eq power_mod)
  also have "\<dots> = b ^ (q * x) mod d"
    unfolding xy by (simp add: power_add power_mult mult.commute [of b])
  also have "\<dots> = (b ^ q mod d) ^ x mod d" by (simp add: power_mult power_mod)
  also have "\<dots> = 1" using d1 by (simp add: pd)
  finally have "d dvd b - 1" using b by (metis mod_eq_dvd_iff_nat mod_less d1)
  then have "d dvd v * n + 1" using cert by (metis dvd_mult)
  with d(2) have "d dvd 1" by (metis dvd_add_right_iff dvd_mult)
  with d1 show False by simp
qed

lemma divisor_mod_q:
  assumes pf: "\<And>d. is_prime d \<Longrightarrow> d dvd n \<Longrightarrow> q dvd d - 1" and "e dvd n" "0 < n"
  shows "q dvd e - 1"
  using assms(2)
proof (induction e rule: less_induct)
  case (less e)
  show ?case
  proof (cases "e \<le> 1")
    case True
    then show ?thesis by simp
  next
    case False
    then obtain d where d: "is_prime d" "d dvd e" using is_prime_divisor_exists [of e] by auto
    then obtain k where k: "e = d * k" by blast
    have d1: "1 < d" using d(1) by (rule is_prime_gt_1)
    from k False have k0: "0 < k" by (cases k) auto
    have "k < e" using k d1 k0 by simp
    moreover have "k dvd n" using k less.prems by (metis dvd_mult_right)
    ultimately have "q dvd k - 1" using less.IH by blast
    moreover have "q dvd d - 1" using pf d less.prems by (meson dvd_trans)
    ultimately obtain i j where i: "k - 1 = q * i" and j: "d - 1 = q * j" by (meson dvdE)
    with k0 d1 have "k = q * i + 1" "d = q * j + 1" by simp_all
    with k have "e = q * (q * i * j + i + j) + 1" by (simp add: algebra_simps)
    then show ?thesis by simp
  qed
qed

theorem primality_criterion:
  assumes n: "n = R * q + 1" and R: "R = s * q + r" and small: "s < q" "r < q" "s + 1 < r"
    and q: "is_prime q"
    and pow: "b ^ q mod n = 1" and cert: "u * (b - 1) = v * n + 1" and b: "1 \<le> b"
  shows "is_prime n"
proof -
  have q1: "1 < q" using q by (rule is_prime_gt_1)
  have n1: "1 < n" using n R small q1 by simp
  have div: "q dvd e - 1" if "e dvd n" for e
    using divisor_mod_q [of n q e] prime_factor_mod_q [OF _ _ q pow cert b] that n1 by auto
  show ?thesis unfolding is_prime_def
  proof (intro conjI allI impI)
    show "1 < n" by (rule n1)
    fix x assume x: "x dvd n"
    show "x = 1 \<or> x = n"
    proof (rule ccontr)
      assume neg: "\<not> (x = 1 \<or> x = n)"
      from x obtain y where y: "n = x * y" by blast
      have x0: "0 < x" "0 < y" using y n1 by (auto intro: Nat.gr0I)
      have y1: "y \<noteq> 1" using y neg by auto
      obtain i j where i: "x - 1 = q * i" and j: "y - 1 = q * j"
        using div [OF x] div [of y] y by (metis dvdE dvd_triv_right)
      have ij: "1 \<le> i" "1 \<le> j" using i j neg x0 y1 by (cases i; cases j; auto)+
      have xy: "x = q * i + 1" "y = q * j + 1" using i j x0 by simp_all
      have "R * q = q * (i * j * q + (i + j))"
        using n y xy by (simp add: algebra_simps)
      then have Rij: "R = i * j * q + (i + j)" using q1 by (simp add: mult.commute)
      have "i * j < q"
      proof (rule ccontr)
        assume "\<not> i * j < q"
        then have "q * q \<le> i * j * q" by simp
        with Rij R ij have "q * q < s * q + r" by linarith
        moreover have "s * q + q \<le> q * q" using small(1) by (metis Suc_leI mult_Suc mult_le_mono1 add.commute)
        ultimately show False using small(2) by linarith
      qed
      moreover have sum: "i + j \<le> i * j + 1"
      proof -
        obtain i' j' where "i = Suc i'" "j = Suc j'" using ij by (cases i; cases j; auto)
        then show ?thesis by simp
      qed
      ultimately consider "i + j < q" | "i + j = q" by linarith
      then show False
      proof cases
        case 1
        have "R div q = i * j" "R mod q = i + j" using 1 Rij by simp_all
        moreover have "R div q = s" "R mod q = r" using small(2) R by simp_all
        ultimately show False using sum small(3) by simp
      next
        case 2
        then have "R mod q = 0" using Rij by simp
        moreover have "R mod q = r" using small(2) R by simp
        ultimately show False using small(3) by simp
      qed
    qed
  qed
qed

section \<open>Chains of modular squarings and multiplications\<close>

definition sqn :: "nat \<Rightarrow> nat" where
  "sqn x = x * x"

text \<open>A step carries whether it multiplies by the base (or squares), the quotient and the
  remainder of the product by the modulus.\<close>

fun pow_run :: "nat \<Rightarrow> nat \<Rightarrow> (bool \<times> nat \<times> nat) list \<Rightarrow> nat \<Rightarrow> nat option" where
  "pow_run n g [] x = Some x"
| "pow_run n g ((m, k, r) # st) x =
     (if (if m then x * g else sqn x) = k * n + r then pow_run n g st r else None)"

fun pow_exp :: "(bool \<times> nat \<times> nat) list \<Rightarrow> nat \<Rightarrow> nat" where
  "pow_exp [] e = e"
| "pow_exp ((m, k, r) # st) e = pow_exp st (if m then e + 1 else 2 * e)"

lemma pow_run_sound:
  "pow_run n g st x = Some y \<Longrightarrow> x mod n = g ^ e mod n \<Longrightarrow> y mod n = g ^ pow_exp st e mod n"
proof (induction st arbitrary: x e)
  case Nil
  then show ?case by simp
next
  case (Cons t st)
  obtain m k r where t: "t = (m, k, r)" by (cases t)
  show ?case
  proof (cases m)
    case True
    with Cons.prems t have eq: "x * g = k * n + r" and run: "pow_run n g st r = Some y"
      by (auto split: if_splits)
    have "r mod n = x * g mod n" by (simp add: eq)
    also have "\<dots> = g ^ (e + 1) mod n" using Cons.prems(2) by (metis mod_mult_left_eq power_add power_one_right)
    finally show ?thesis using Cons.IH [OF run] t True by simp
  next
    case False
    with Cons.prems t have eq: "sqn x = k * n + r" and run: "pow_run n g st r = Some y"
      by (auto split: if_splits)
    have "r mod n = x * x mod n" using eq by (simp add: sqn_def)
    also have "\<dots> = g ^ (2 * e) mod n"
      using Cons.prems(2) by (metis mod_mult_eq mult_2 power_add)
    finally show ?thesis using Cons.IH [OF run] t False by simp
  qed
qed

lemma sqn_numeral: "sqn (numeral k) = numeral (Num.sqr k)"
  by (simp add: sqn_def numeral_sqr)

lemmas pow_run_eval =
  pow_run.simps sqn_numeral numeral_times_numeral numeral_plus_numeral
  mult_zero_left add_0 mult_1 numeral_plus_one add_num_simps mult_num_simps Num.sqr.simps
  simp_thms if_True if_False

end
