(* ===== verification/Bn254Prime.thy ===== *)
theory Bn254Prime
  imports NumTheory
begin

text \<open>
  The BN254 scalar field modulus is prime: a certificate for \<open>primality_criterion\<close>, one prime
  factor at a time (\<open>1637\<close>, \<open>639533339\<close>, \<open>65865678001877903\<close>,
  \<open>13818364434197438864469338081\<close>, then the modulus), each with its chain of modular
  squarings and multiplications.  The kernel checks every step of every chain.
\<close>

lemma prime_1637: "is_prime 1637"
proof -
  have "d = 1 \<or> d = 1637" if d: "d dvd 1637" for d :: nat
  proof (rule ccontr)
    assume neg: "\<not> (d = 1 \<or> d = 1637)"
    from d obtain k where k: "1637 = d * k" by blast
    have small: "\<not> e dvd 1637" if "2 \<le> e" "e \<le> 40" for e :: nat
    proof -
      from that have "2 \<le> e" "e < 41" by linarith+
      then have "e \<in> set [2..<41]" by (simp only: set_upt atLeastLessThan_iff simp_thms)
      then show ?thesis by (simp add: upt_rec) (elim disjE; simp)
    qed
    have "d \<noteq> 0" "k \<noteq> 0" using k by (rule_tac notI, simp)+
    moreover have "k \<noteq> 1" using k neg by (rule_tac notI) simp
    ultimately have "2 \<le> d" "2 \<le> k" using neg by linarith+
    moreover have "d \<le> 40 \<or> k \<le> 40"
    proof (rule ccontr)
      assume "\<not> (d \<le> 40 \<or> k \<le> 40)"
      then have "41 * 41 \<le> d * k" by (intro mult_le_mono) auto
      with k show False by simp
    qed
    ultimately show False using small [of d] small [of k] k by (metis dvd_triv_left dvd_triv_right)
  qed
  then show ?thesis by (simp add: is_prime_def)
qed

definition prime_639533339_c_0 :: "(bool \<times> nat \<times> nat) list" where
  "prime_639533339_c_0 =
  [(False, 96851492, 574338237),
   (True, 223506056, 257756831),
   (False, 103886036, 448608357),
   (False, 314681730, 461042979),
   (False, 332368330, 622440571),
   (True, 242225274, 605154259),
   (False, 572623278, 217373839),
   (True, 84591911, 547712976),
   (False, 469075630, 181348006),
   (False, 51423588, 343175704),
   (False, 184149217, 193650053),
   (True, 75359704, 147059079),
   (False, 33815864, 301238345),
   (False, 141891806, 30418791),
   (True, 11837596, 1)]"

lemma prime_639533339_c_0_run: "pow_run 639533339 248876995 prime_639533339_c_0 248876995 = Some 1"
  by (simp only: prime_639533339_c_0_def pow_run_eval)

lemma prime_639533339_c_0_exp: "pow_exp prime_639533339_c_0 1 = 1637"
  by (simp add: prime_639533339_c_0_def)

lemma prime_639533339_c: "(248876995 :: nat) ^ 1637 mod 639533339 = 1"
proof -
  have r: "(248876995 :: nat) mod 639533339 = 248876995 ^ 1 mod 639533339" by (simp only: power_one_right)
  from pow_run_sound [OF prime_639533339_c_0_run r]
  have r: "(1 :: nat) mod 639533339 = 248876995 ^ 1637 mod 639533339"
    unfolding prime_639533339_c_0_exp .
  show ?thesis by (rule trans [OF r [symmetric]]) simp
qed

lemma prime_639533339: "is_prime 639533339"
proof (rule primality_criterion [where q = 1637 and R = 390674 and s = 238 and r = 1068
      and b = 248876995 and u = 296391531 and v = 115341967])
  show "(639533339 :: nat) = 390674 * 1637 + 1" by simp
  show "(390674 :: nat) = 238 * 1637 + 1068" by simp
  show "(238 :: nat) < 1637" by simp
  show "(1068 :: nat) < 1637" by simp
  show "(238 :: nat) + 1 < 1068" by simp
  show "is_prime 1637" by (rule prime_1637)
  show "(248876995 :: nat) ^ 1637 mod 639533339 = 1" by (rule prime_639533339_c)
  show "(296391531 :: nat) * (248876995 - 1) = 115341967 * 639533339 + 1" by simp
  show "(1 :: nat) \<le> 248876995" by simp
qed

definition prime_65865678001877903_c_0 :: "(bool \<times> nat \<times> nat) list" where
  "prime_65865678001877903_c_0 =
  [(False, 1121638219535948, 19226070235069677),
   (False, 5612054531243013, 56968334197042590),
   (False, 49272871693409161, 3268076130238717),
   (True, 426470486169982, 18611656393288241),
   (False, 5259093418759782, 27479267257976935),
   (True, 3585931294155095, 43734149829486000),
   (False, 29039037011862199, 48447415136911303),
   (False, 35635434184421551, 64820389105270256),
   (False, 63791688952762989, 51329992322973469),
   (False, 40002140595916967, 61286237417813760),
   (False, 57025191431651969, 32725522517796593),
   (True, 4270546016108860, 58465146411114843),
   (False, 51896123270387331, 42036321954867756),
   (True, 5485567026732897, 25160803760737125),
   (False, 9611470876657096, 40998948362715937),
   (True, 5350194041969359, 43282835694537230),
   (False, 28442793311971879, 3118169928583163),
   (True, 406908343749735, 17564606142202988),
   (False, 4684008398454788, 55317398354378580),
   (False, 46458408286782710, 13529503851359270),
   (True, 1765544575825524, 1018752242786798),
   (False, 15757161600212, 12272844760177368),
   (False, 2286816488902135, 60491326033384519),
   (False, 55555497738486739, 51365274646233044),
   (False, 40057151456145759, 35194706668242559),
   (False, 18805961086870182, 41777112883480135),
   (False, 26498279738793255, 38459179869673960),
   (False, 22456438028403256, 28700056142429432),
   (True, 3745239219771056, 34048583907657784),
   (False, 17601064792557961, 64143099883154873),
   (False, 62465572167997396, 7159896889705541),
   (False, 778313152257439, 33061215984632264),
   (False, 16595046700215247, 44006274996778655),
   (True, 5742637791927834, 45545585862734603),
   (False, 31494405804500891, 54603917576856036),
   (True, 7125586537081813, 60626625102889057)]"

lemma prime_65865678001877903_c_0_run: "pow_run 65865678001877903 8595199928015311 prime_65865678001877903_c_0 8595199928015311 = Some 60626625102889057"
  by (simp only: prime_65865678001877903_c_0_def pow_run_eval)

lemma prime_65865678001877903_c_0_exp: "pow_exp prime_65865678001877903_c_0 1 = 79941667"
  by (simp add: prime_65865678001877903_c_0_def)

definition prime_65865678001877903_c_1 :: "(bool \<times> nat \<times> nat) list" where
  "prime_65865678001877903_c_1 =
  [(False, 55804294176725281, 57018535114983506),
   (False, 49359749193896012, 22822025749429200),
   (True, 2978180442825847, 51349957123922359),
   (False, 40033264313372528, 16886017849676097),
   (True, 2203555839839122, 1)]"

lemma prime_65865678001877903_c_1_run: "pow_run 65865678001877903 8595199928015311 prime_65865678001877903_c_1 60626625102889057 = Some 1"
  by (simp only: prime_65865678001877903_c_1_def pow_run_eval)

lemma prime_65865678001877903_c_1_exp: "pow_exp prime_65865678001877903_c_1 79941667 = 639533339"
  by (simp add: prime_65865678001877903_c_1_def)

lemma prime_65865678001877903_c: "(8595199928015311 :: nat) ^ 639533339 mod 65865678001877903 = 1"
proof -
  have r: "(8595199928015311 :: nat) mod 65865678001877903 = 8595199928015311 ^ 1 mod 65865678001877903" by (simp only: power_one_right)
  from pow_run_sound [OF prime_65865678001877903_c_0_run r]
  have r: "(60626625102889057 :: nat) mod 65865678001877903 = 8595199928015311 ^ 79941667 mod 65865678001877903"
    unfolding prime_65865678001877903_c_0_exp .
  from pow_run_sound [OF prime_65865678001877903_c_1_run r]
  have r: "(1 :: nat) mod 65865678001877903 = 8595199928015311 ^ 639533339 mod 65865678001877903"
    unfolding prime_65865678001877903_c_1_exp .
  show ?thesis by (rule trans [OF r [symmetric]]) simp
qed

lemma prime_65865678001877903: "is_prime 65865678001877903"
proof (rule primality_criterion [where q = 639533339 and R = 102990218 and s = 0 and r = 102990218
      and b = 8595199928015311 and u = 39033286818209505 and v = 5093683299525283])
  show "(65865678001877903 :: nat) = 102990218 * 639533339 + 1" by simp
  show "(102990218 :: nat) = 0 * 639533339 + 102990218" by simp
  show "(0 :: nat) < 639533339" by simp
  show "(102990218 :: nat) < 639533339" by simp
  show "(0 :: nat) + 1 < 102990218" by simp
  show "is_prime 639533339" by (rule prime_639533339)
  show "(8595199928015311 :: nat) ^ 639533339 mod 65865678001877903 = 1" by (rule prime_65865678001877903_c)
  show "(39033286818209505 :: nat) * (8595199928015311 - 1) = 5093683299525283 * 65865678001877903 + 1" by simp
  show "(1 :: nat) \<le> 8595199928015311" by simp
qed

definition prime_q_c_0 :: "(bool \<times> nat \<times> nat) list" where
  "prime_q_c_0 =
  [(False, 4556884203790953644048480649, 8737664600113107555932973207),
   (True, 5017657867678860257462704564, 6024626098376368604520791548),
   (False, 2626658154666458512022102589, 10858316662900553865761844595),
   (True, 6235455413640637301026581811, 12956526157738010221657952029),
   (False, 12148439916717187945993007246, 13033178315209579486208481915),
   (False, 12292607985911379118920501901, 5621062163834556471109875244),
   (True, 3227929667924232023739200777, 9317283377009505927246043607),
   (False, 6282347664290678482172820614, 3487141057479528001213568715),
   (False, 879999424871565427703033557, 3827346866853743770505767108),
   (True, 2197877579159553238824627821, 8970463893610592358603246707),
   (False, 5823353613936214452629922993, 13047074007182443388793947416),
   (False, 12318834183271586178204503029, 1735893499133178782183529707),
   (False, 218066780238875881708645688, 2277860932176299701036661121),
   (False, 375489476416926927519801274, 10456841577218911324352461447),
   (False, 7913059196821277262825356721, 11582084072275290222046741408),
   (False, 9707709772458610131767890683, 4440869139873206848644823141),
   (False, 1427181835548658164227207531, 8368951715619670804580817870),
   (False, 5068570390649222222447822820, 9262168650417991593144528480),
   (False, 6208243277799203197439006991, 10413093752592839881829586129),
   (False, 7846986668837679889618568807, 11541844625233648289585365274),
   (False, 9640372273245219505906826722, 7370261739600282849502094594),
   (True, 4232418328815130299746654555, 4089172793395676412059969189),
   (False, 1210080557208763680525159596, 5171473324818621618623942445),
   (True, 2969750500085756279170655275, 123795530186511610780831045),
   (False, 1109055515733298309438705, 860834511362378394843966920),
   (True, 494339535377795531552937444, 3995911146589813549241500956),
   (False, 1155513444986667017935628325, 12938755124550705220164169611),
   (True, 7430160050756767463919612841, 7213163208392189156475395815),
   (False, 3765259175111960399778577035, 9014099797620607050401944390),
   (True, 5176402487340607091201894021, 3274665168306567780251474939),
   (False, 776027583842131564554195909, 7783209883449169180516943092),
   (False, 4383902044145152776301274455, 12137052172119357729802499609),
   (False, 10660309049614580476033707195, 753190004820108438227960086),
   (False, 41053714139785103145534241, 9480013504884722808418395875),
   (False, 6503711526842239666776851284, 10028815540989260895362069621),
   (True, 5759109270696129881246703817, 10310184326597100927003724519)]"

lemma prime_q_c_0_run: "pow_run 13818364434197438864469338081 7935281130018080704632618576 prime_q_c_0 7935281130018080704632618576 = Some 10310184326597100927003724519"
  by (simp only: prime_q_c_0_def pow_run_eval)

lemma prime_q_c_0_exp: "pow_exp prime_q_c_0 1 = 122684385"
  by (simp add: prime_q_c_0_def)

definition prime_q_c_1 :: "(bool \<times> nat \<times> nat) list" where
  "prime_q_c_1 =
  [(False, 7692654319156573966798222008, 7990899437904117954595094713),
   (True, 4588823360639311893639651885, 3138503201478530464709256003),
   (False, 712834170252007700279149200, 12483562629543047011950850809),
   (False, 11277697636925491626123609344, 12006506795127311564669325617),
   (True, 6894810689246460346796757791, 2281409498763660828057122321),
   (False, 376660300561203939319250238, 8432267785655359550494713763),
   (False, 5145553972584220841260386703, 9286782187083334098797683226),
   (False, 6241283026006494625360125555, 7349931621413274043139007121),
   (False, 3909398619257669835214187983, 11241010701785258861774228018),
   (False, 9144376109008709814932628929, 7175543025635722158034263075),
   (True, 4120599904576697068930787866, 10495543114326162342869356054),
   (False, 7971741213603122672321489891, 7872015098463333180123611745),
   (True, 4520553294387153840190844953, 1878424754868214010089219927),
   (False, 255347119878347713289285475, 7214738950431482892676211854),
   (False, 3766904424235236668690114342, 8378849114816027470545259614),
   (False, 5080565997746519261641650059, 12903809095485579282294832217),
   (False, 12049782734103079186712343744, 6551789205294103496359819825),
   (True, 3762405420424563936962765370, 10620567016425678254099014230),
   (False, 8162792658097975055380754810, 2552326705477704630885573290),
   (False, 471428557447292700283853517, 93879213923488799007543223),
   (False, 637796668980676221542498, 9571304684961031895341961391),
   (True, 5496380835655396344463637913, 5861745727356882287855134263),
   (False, 2486550643226126051195222874, 7033083702272804773706088375),
   (True, 4038791758188599709026623487, 5715998367833451257024545553),
   (False, 2364435928482029727391501744, 9315829236175563345934962545),
   (False, 6280386855539157330383867780, 6932638189365131593329946845),
   (False, 3478086896138170026909664475, 11671882327502556405475081550),
   (True, 6702650521794682898868994983, 3083762274448825405925025177),
   (False, 688184901375131755302615449, 11426914785624813902969267960),
   (True, 6561976397748665609295550381, 3124199797785987746960266099),
   (False, 706351639730284556117162526, 6960506881159780353770725195),
   (True, 3997114070369800377347964494, 3057894684126085342478126306),
   (False, 676687891952362932159807334, 3859583265371772333019919582),
   (False, 1078013469197015318761326081, 6246147404744190337875264163),
   (False, 2823370130928126115010642214, 7624688656232388209735739235),
   (False, 4207146032464250442699538742, 11741887193342201391162951123)]"

lemma prime_q_c_1_run: "pow_run 13818364434197438864469338081 7935281130018080704632618576 prime_q_c_1 10310184326597100927003724519 = Some 11741887193342201391162951123"
  by (simp only: prime_q_c_1_def pow_run_eval)

lemma prime_q_c_1_exp: "pow_exp prime_q_c_1 122684385 = 8233209750234736"
  by (simp add: prime_q_c_1_def)

definition prime_q_c_2 :: "(bool \<times> nat \<times> nat) list" where
  "prime_q_c_2 =
  [(True, 6742851248411215048459293869, 5751857602344423908298335459),
   (False, 2394195495074076269275954810, 4650776760185159860128621071),
   (True, 2670737281591122951914177504, 9228697715789270620358885072),
   (False, 6163454577781994231476112614, 9529286644102868787309791450),
   (True, 5472251716154324542910593800, 7213377970993644489293477400),
   (False, 3765483389889942359474483577, 11146709082772323365815564263),
   (True, 6401066542102789263873037327, 1)]"

lemma prime_q_c_2_run: "pow_run 13818364434197438864469338081 7935281130018080704632618576 prime_q_c_2 11741887193342201391162951123 = Some 1"
  by (simp only: prime_q_c_2_def pow_run_eval)

lemma prime_q_c_2_exp: "pow_exp prime_q_c_2 8233209750234736 = 65865678001877903"
  by (simp add: prime_q_c_2_def)

lemma prime_q_c: "(7935281130018080704632618576 :: nat) ^ 65865678001877903 mod 13818364434197438864469338081 = 1"
proof -
  have r: "(7935281130018080704632618576 :: nat) mod 13818364434197438864469338081 = 7935281130018080704632618576 ^ 1 mod 13818364434197438864469338081" by (simp only: power_one_right)
  from pow_run_sound [OF prime_q_c_0_run r]
  have r: "(10310184326597100927003724519 :: nat) mod 13818364434197438864469338081 = 7935281130018080704632618576 ^ 122684385 mod 13818364434197438864469338081"
    unfolding prime_q_c_0_exp .
  from pow_run_sound [OF prime_q_c_1_run r]
  have r: "(11741887193342201391162951123 :: nat) mod 13818364434197438864469338081 = 7935281130018080704632618576 ^ 8233209750234736 mod 13818364434197438864469338081"
    unfolding prime_q_c_1_exp .
  from pow_run_sound [OF prime_q_c_2_run r]
  have r: "(1 :: nat) mod 13818364434197438864469338081 = 7935281130018080704632618576 ^ 65865678001877903 mod 13818364434197438864469338081"
    unfolding prime_q_c_2_exp .
  show ?thesis by (rule trans [OF r [symmetric]]) simp
qed

lemma prime_q: "is_prime 13818364434197438864469338081"
proof (rule primality_criterion [where q = 65865678001877903 and R = 209796131360 and s = 0 and r = 209796131360
      and b = 7935281130018080704632618576 and u = 12281824895882260584345986666 and v = 7052913809197938965814028629])
  show "(13818364434197438864469338081 :: nat) = 209796131360 * 65865678001877903 + 1" by simp
  show "(209796131360 :: nat) = 0 * 65865678001877903 + 209796131360" by simp
  show "(0 :: nat) < 65865678001877903" by simp
  show "(209796131360 :: nat) < 65865678001877903" by simp
  show "(0 :: nat) + 1 < 209796131360" by simp
  show "is_prime 65865678001877903" by (rule prime_65865678001877903)
  show "(7935281130018080704632618576 :: nat) ^ 65865678001877903 mod 13818364434197438864469338081 = 1" by (rule prime_q_c)
  show "(12281824895882260584345986666 :: nat) * (7935281130018080704632618576 - 1) = 7052913809197938965814028629 * 13818364434197438864469338081 + 1" by simp
  show "(1 :: nat) \<le> 7935281130018080704632618576" by simp
qed

definition prime_bn254_c_0 :: "(bool \<times> nat \<times> nat) list" where
  "prime_bn254_c_0 =
  [(False, 16165587288362616707920763639162090134193059927275503713066419440776747514958, 9085659581505268874132837132958025132643965648321324883040022263071236657138),
   (False, 3771395013950787002268134367743755588826109318081692324372043765197340430082, 18059101437921968768332449448925068110359007611092188041252690481268774400450),
   (True, 15519811117607095879998092674667399375640143197388920738719532985862578126608, 4466280092714551160179349833555971636873726671584238519253083836756174798464),
   (False, 911341215618652005137420345027206622979839573017459824326505336229837275880, 3742841333116782961551778034960088861952408539850274735714179586898816941336),
   (True, 3216560399354472255912688325387478303424380436284573302904162918481323257956, 7288300720531034751599205128989304360084109032148697596779139568504645333596),
   (False, 2426842926767541311626789636639200531515174708218646150036372641114102423189, 16310377356767332269622268890191016455300440121513193467241937482505740628603),
   (False, 12153940865779239510031226977251839677690878650351456811375368740009898863110, 18590281345771589829705208461446723116458331097009764652595938196069863742739),
   (False, 15789232719067613696551283370135861429302168974356987293062113843438204733063, 9872141674924427083135189902537340981909746124591452201514724271246084737250),
   (True, 8484019797316921114000445929253229626309111235607606888771757480740919470823, 3570328402263039533962078793614857179190899238207845654091689123093633975209),
   (False, 582378630146065902894608831416026079250985044495071087512893244922072084841, 21829522974866090339915079862768997321167101142097465178168028730712625951784),
   (False, 21770960606586310882524703146249678386185646007908940985950994434108090694298, 18084376938532863353837502814783643925737647489262910269019388516123472890790),
   (True, 15541532629983139364520358542681159857345098545938235434430744919055504253785, 8975024199830631580403817344790028304586817291245569138346096813489152012375),
   (False, 3680106249697180029076657033249580364464634904213392239054211851518805910644, 12477635325971618052354191063038058034114302262450087294479249184382785493277),
   (False, 7113014244201506168504204569478467019710498849538043398615622540046940827769, 18447615490292918398641929924136432563808024318567103194638030164631623810256),
   (False, 15547822603683422451051869491161387902086375451316154145199059268047079546375, 15477125601316648876509856588515200340237686846535057098013604771787955047161),
   (True, 13300886912984480952761928661264914736157994234782855583182942458411965080903, 18104796406065173190581331151014028290209456347151045762255637259888157688897),
   (False, 14975329670102781472015968848271696765339112657517628025876478478584554484182, 7234231395143136018962302098196327282685645453195906269239252071851394246315),
   (True, 6217026091781225891109006903994424820551570776715448430557966986915194196366, 21666684803943752702775475012001422476902168933601203773733752216641393273098),
   (False, 21447369400191579579991368237037903734061533038263226048078092457283566232694, 12325038706389038246381761560710519680448258137532050165000737203053309415406),
   (False, 6940099303696332963636943761681770646062289649791083469354465070920694381209, 13443253219486778743446513032716218517821584510808286422351206975950466483883),
   (False, 8256535628803336664417254433324988240522602832708060024891683897762001988462, 2364290201934196781262287532984773222792572069569367347522604820446287186635),
   (True, 2031847347851771920487702869889095631793837876092946143172544216571752371127, 18921630943640514451582930610101292463930579998447765112770252449495126884321),
   (False, 16357097262839765889303433318050677465945563063911755349047410329040147195258, 16045663229630279971696615233775199517783775118985254723521461749669979446855),
   (False, 11762630284496405185508292194685564354881853556668286914760706256663766070298, 2547026407088552763619132692430582443971622840468111866157668238232522507159),
   (False, 296384847170753674941240559321564754865381022830422149383608925688325747738, 7758310957791008692752768378401896923455068623417135565170521727042785586935),
   (True, 6667414825177090833808853446819389043799720513958804015240941996717063336377, 13743062694132755015284737287163746786210844211481797444674124733201070225471),
   (False, 8628914313531304047534734275065139648607415286848936412766034625815795393669, 9244098531050843115431558922832011640495424303933370476466228638133601123068),
   (False, 3904075724676737642219686105299520169828401213899959479170237814808089629553, 13300055229528809341410542150878921047948950419169675759511858840419127563423),
   (False, 8081574667471349621926412993758431402780796641124328093204937921154345156027, 15966198756527207259064101724824575278782181261157583397480959684222876843270),
   (False, 11646412378807362054253403256438198174365215823680990224085140686966649342621, 19085664414308518687655841784555943066259154078927359148592852094240134500743),
   (False, 16641929106344635685984984078360757688310234858492233260867896983389257761519, 5751302187856208520721902333042260041149574272426851881472322018593524789826),
   (True, 4942611565843206230977617443761563966368812115360605552649308688557258019623, 1865602758692113732805214818701321192943896161784096184444957995389216886377),
   (False, 159011103523412245436607713173189704703000955583029507066152576612051946079, 20545102553728254106907249702601785815506375394773982314417196473800336350386),
   (True, 17656255607278982402466520253316257351360588396545516456310675226773002496839, 13229975654189419262669209642897790818845945731350156547878152497800875978185),
   (False, 7996633481970165216751668100432495815310743233650628265404197083899690361164, 16195037846082372787714725736683692840147920729587945253737217225822354876037),
   (True, 13917853514345097954212840714337268562077314311171321343575017109163872221297, 11352974430176251988274592823686855960615703494006315686385524761056335374967)]"

lemma prime_bn254_c_0_run: "pow_run 21888242871839275222246405745257275088548364400416034343698204186575808495617 18810536960267738281623319138564098156538132287104634306360290224932305588168 prime_bn254_c_0 18810536960267738281623319138564098156538132287104634306360290224932305588168 = Some 11352974430176251988274592823686855960615703494006315686385524761056335374967"
  by (simp only: prime_bn254_c_0_def pow_run_eval)

lemma prime_bn254_c_0_exp: "pow_exp prime_bn254_c_0 1 = 46818439"
  by (simp add: prime_bn254_c_0_def)

definition prime_bn254_c_1 :: "(bool \<times> nat \<times> nat) list" where
  "prime_bn254_c_1 =
  [(False, 5888550724099541576883547767475487789513303685080660720472950489395461768094, 4199077179635521734631689470769442089784730168333507498852996289427420807091),
   (True, 3608644921798307121767745166259491959964940598456169689437802006032601044274, 13504382192337108424954703900159866062700347452420558012015396961260868152230),
   (False, 8331794354828773150025246640423761777533608604812926713687542492227752830282, 20854582224765611182420103970188462019187972565645616874441706314702112098906),
   (True, 17922219340621389611429480212215078534730090450171855943518715687895901667954, 5235611639036356051571388123590467036095675066045520218683930058073520986590),
   (False, 1252344895627958267363493706156095119909780195743128733412896367489175899115, 550906938159101855976358275668510927189310574626814122764122518665448149145),
   (False, 13865820855922064058356895157517978689816666554941036873654389120032443565, 4083747225853724754498470886113141075487032758838686420768356563111061876420),
   (False, 761915495104638361879212621355096783759787922601730437354472840174162603345, 20068919682125335586970082261255635915896034997433201603232178239106609977535),
   (True, 17247028811022200693049494250247081033863702869119007202405151405708757179614, 15671089660029164707162126909409246653683633371012789152497710362060241054042),
   (False, 11219861391826587861077850229730342453758541559825899419718489874857590219806, 7892479181398843410316363911221799453034394073245579120634826503745946947462),
   (True, 6782717654364702449211159429841820541495303896607658331771654756084199003999, 7805783671712377205947414579185362746751821306153595115022089496570147857233),
   (False, 2783698037632911834472311364612918678432338371099115578114311032884418699597, 12977859934344958536475144241531453968169452929287272028677967546889336249940),
   (True, 11153043000735863555140672373884633812489928587082465194454718112924027279864, 7869451465732257446455653160922000624677206634823476245857754131876678353832),
   (False, 2829293641071140280370524532298254256667029220277697137143992924284249520684, 12742436956089890981287166757362071462036393308720345101251609844678024242196),
   (True, 10950722848328347169859961869485672276423657635680853552808128251154452703651, 14291071267091833532622934897584375489779684593470876605643369722443630539261),
   (False, 9330795494043962216497208833137032782738688299322656286342707702033511664274, 3408282082873733255952309806364378830472016419600752372718472159771757939063),
   (True, 2929043526531709798649416089966502553188731459046322744781822967133374944228, 5206338420481943584460466742216969652512666352702347847734674089527760357908),
   (False, 1238379887654668451567617143593623636927584392306041531921921130960159198396, 8449763576258003222283831932365532283559732838102735246094490555954858706132),
   (True, 7261642288391197596152455675007240970957607803723803760746218463530932349410, 14160780287424993058179533925391007393737551198520438908212350126558230710206),
   (False, 9161434269660672399031902016002724177848930836628092323816924321041857221204, 16758323904918100124189908074645916123283625670993575052236993155911919099568),
   (False, 12830697363262136353817184232089687902146710326771542286018517374749058858176, 21888083174864775917490206954690418891250255562899195060460029488001577172032),
   (False, 21887923479055428325165119310323208245807268505016009575706837542570065452798, 2186650580378228589415837883419981301773467744475425165304650082778219622658),
   (True, 1879185634143104249763634532372404838294428499272825193813080079633312474819, 19150081800391577174518014002170847553675972478260497414170618736038125142221),
   (False, 16754457409347662792587752302818273884202824045428752394230044088275573726265, 13547516061603700915526902448299603397278454845084042522204431443150866532336),
   (True, 11642599777823248190274714291796517986528536312899535635074036100474633687445, 11551868642195457728186667163980936391958467963780365631879832845526240571883),
   (False, 6096682584705130830368985332043033808394824174104281898430550164656090274937, 5053970183329303734083970995299862021285121654002285241243662095329000714560),
   (False, 1166955920744280506288609444211575475255546565829550055758509173435723670462, 10043929758383899681616128244034083068187774991268069636043536714548916628546),
   (True, 8631652757722592570991214273479754470088418199143808204072434301043166881722, 2997221858682788751599940192357292234087461306149729300991070253952314231254),
   (False, 410418457194825452280761692980795497732548183225762155842326499520578499513, 1158864674556884102863072769414513629576922765871300912853430616761293277995),
   (False, 61355648409021102071083692638449745128461023957535654751450209891654285762, 610795200438801586181747230234329845681076878456305294770698380304508714871),
   (True, 524911285034674982657748571000430660098810107963838005110002155086015494129, 15566378383776961216865706945531494628949601736459385930311934560917077513735),
   (False, 11070424309786411015739733790173224298728408343921146789174980981515355445204, 13523179301040663986187241463191207341211999303407343774404201566424595979357),
   (True, 11621685009253443644971230658357375424064495795910483681147378491322911061153, 20008596745880805082150868064678520905810601901618159276267688578597851981575),
   (False, 18290364652995598267184074214688138541314707880616468756164614393495454261959, 4345737535173050444677152725177146552570644815803453026178143492511318146922),
   (True, 3734683364198543138282117290146260604832430178586425496982427695251436593519, 15903511685131771000602742684788932040607655047184374341105948884848526712673),
   (False, 11555138774731153286161219469588189932515424725567212638293444793669852192819, 6355386845679741621052628326114466336292185280150721429600099935790898430606),
   (True, 5461755877684689825601811728851465899020332063550965770516836914077906977722, 15869482716685516133991480243448479096484095417313353154755341481103009025334)]"

lemma prime_bn254_c_1_run: "pow_run 21888242871839275222246405745257275088548364400416034343698204186575808495617 18810536960267738281623319138564098156538132287104634306360290224932305588168 prime_bn254_c_1 11352974430176251988274592823686855960615703494006315686385524761056335374967 = Some 15869482716685516133991480243448479096484095417313353154755341481103009025334"
  by (simp only: prime_bn254_c_1_def pow_run_eval)

lemma prime_bn254_c_1_exp: "pow_exp prime_bn254_c_1 46818439 = 98185384688047"
  by (simp add: prime_bn254_c_1_def)

definition prime_bn254_c_2 :: "(bool \<times> nat \<times> nat) list" where
  "prime_bn254_c_2 =
  [(False, 11505742291410259869167850136400207352309151629235686211718190071152185158199, 520670192713106747870622642634890534021981560750617004091071789459310697773),
   (False, 12385528211069385124017167275177156398893732455794125582117560967301842335, 21169335698798681466873714656872295820719543653841725774388801410251274613834),
   (False, 20474040632333995284581804604997899166529881873729586611353604277090575348961, 17731803988972204945410472736537306309070338053376755168626383357207610175619),
   (True, 15238534964170777061808643166221350131054404996372756916798325319718171757951, 8129968201598656851592208720796621944808002439398315183288286272752000075225),
   (False, 3019720831225005547094232470628248828234061490518361149546099927808837560013, 20182925880333160333512574127383311475878456085161582900911862531795173837604),
   (False, 18610470446447138580589612050744221915871880903869242542345963370792951581169, 8428772874766083466283807510086456298103694761980554394043883683829208224543),
   (True, 7243603089514082583840080736260828207273696189514419833931723719818498891724, 18608707035443471719479351587612093902144147197957025806185680077526416433516),
   (False, 15820547111000921634681616064056013888094066478756192614549600691753798797301, 11052742353096130583380847994547880482106796542005414620605658134912518192539),
   (False, 5581220668978239862858952676201552271443220671179692548489085738292038165585, 4579933951723183961770539263764868831711968008513620013259970222396282525576),
   (True, 3935949421747015593148536016949531370582101947425335419603828299171793679220, 11991398248557761076576074912237961339677140950692999944567175016655509006028),
   (False, 6569446108463759039331443088601521166249448111184382463771228040480899556349, 14726777470249924496523903957100315415452200287720203824473822201616129314451),
   (True, 12656045235416216708841520912472818952890881739207300309235566691318999361741, 2427265327903145776741942430532840298758721804892354858537663928917781026571),
   (False, 269168110320117786234587425765623136667875639165864516494194438961322022663, 3435105242571841929284998382573938880860790636510525719494841272644997849970),
   (True, 2952095081644961293485023851521963068924975086041687275365328802904251792577, 18674051693854597106953944099734278061281140733400162433184210360638373519951),
   (False, 15931850204084047155344343519310809226446584634842888077779395214063563482963, 16039761501608908770686581238880408710467247646744097422266082037527955369230),
   (True, 13784410577245235549159378572637687035068958765476082158219475590596454412707, 18069082182010672830531893994553695979511948101025408673123688155489840665421),
   (False, 14916306110633922502307248417966736072765872174175629081371304040891786529068, 12662760479978724940456761403186740738757421394625625088634522967936944012285),
   (False, 7325645275053417323134842811890177309846708341490866249922260266639486420311, 2946068388885526223982036021691170028060629498691151655477791731936767644338),
   (True, 2531821701773309252851457485969339493673773135481970766027095384789234319652, 5370056676400179391675205731231878538336019273886123820064678663166306027500),
   (False, 1317488520051628841112233621611967593070996214153997133751244271251000657264, 10946981634193614234692100782334946631921196237632139169335881613768693038112),
   (False, 5474921289983950448834336394183595870957566037436124138343799133193731348430, 18823848328123256721503209829416631858259967179654229784785471819525529693234),
   (False, 16188474696434765338971484987368579472880186979335508564218022207255658696696, 17224479003740889929597626164679110020845864689862344246795218051695496997324),
   (False, 13554430964945722527787893210104601763525937814436829012505358887084181981579, 21291155865226103802629101271706834739945129555934787824546176190638066921733),
   (False, 20710356730396599206496257084562054730393422130554858629091839835385338594914, 10071983599491435122969773105556695380105943533582030903187821310227440231351),
   (True, 8655761948127716689790027140138236497932974430773977599066825646767708690594, 1159180082875925122827335883339934335939152625220166251884665097731990128470),
   (False, 61389051300458513013694486103888845476876140601059068147264198915079617587, 18233617711263200651924384831029614609212452740872057832662314036976978924721),
   (True, 15669788657105111316313653966204204813604382748598666950604291464529515317093, 4026651828982447365436751304644701360749446276463150729369181864273044619747),
   (False, 740759550539710721782323044809234283053201906698356930495936538552512053301, 13864125106718567377010090593279903281154760365874569878653095035275293462292),
   (True, 11914690423927625128654993935689581182402576383376946177922702755702709485598, 20748328098757622418291772732695551281914218386325608670585682747967881737090),
   (False, 19667778789477614948389879650687839790769064437748288135991768227163632969798, 10580595985966062540693123397969065611390141476572025263395239792627505292734),
   (False, 5114572790229371577651991347645218832896418562480838851512501039536811240387, 1362416418440406086413331222786475724659009543357076720037856262648810310977),
   (False, 84802535685680121793939041974074006322247128113790685347690616557374614660, 18195481015011625360270215244914144909264490285917749531450360383591772749309),
   (True, 15637014361855230429633551544874059543822966803045813727210168968950522503675, 21758704310680794260592306860162168231862909685202012605867514969115556683437),
   (False, 21629932382043948849679912622636575656141409232911495145122697903810895464810, 6129120106040914264701755088205265463004300204702402440068300487064967395199),
   (False, 1716269025989581274533871752924916579857310419320606888659265758168864964528, 21220012345208038144099767757686967147604665962326717061440908183657299775825),
   (True, 18236266330470042761915414172652783329383925645310043955212348205303402910634, 20174154710870813814265407418747916173625165239618664068877462700238540747422)]"

lemma prime_bn254_c_2_run: "pow_run 21888242871839275222246405745257275088548364400416034343698204186575808495617 18810536960267738281623319138564098156538132287104634306360290224932305588168 prime_bn254_c_2 15869482716685516133991480243448479096484095417313353154755341481103009025334 = Some 20174154710870813814265407418747916173625165239618664068877462700238540747422"
  by (simp only: prime_bn254_c_2_def pow_run_eval)

lemma prime_bn254_c_2_exp: "pow_exp prime_bn254_c_2 98185384688047 = 1647277406954460008677"
  by (simp add: prime_bn254_c_2_def)

definition prime_bn254_c_3 :: "(bool \<times> nat \<times> nat) list" where
  "prime_bn254_c_3 =
  [(False, 18594298349173563291024338133736443978120459572249153369470657640866191067997, 748198730681821824699967142710170379147745904555839701630231878411276176935),
   (False, 25575435354571661081566239045145436101040718725026000341992420830491836011, 17942202728760664196627408924523642857629682365796286306431541672575249730438),
   (False, 14707559699738262923285110895770166514566680483213106287543280675298318579403, 11972511953283644423924361153074122276264766764352068818379222187349671695193),
   (True, 10289057003028625429852172612806119411159418586173208659105699148284696372279, 5943997453117762920024847409610815971305710943922462566915468061023111475281),
   (False, 1614159068388552169931835828601321855843163065590648941101127513137590836308, 19587178321216629342532737946168711654680913606059503705496172297469891566925),
   (False, 17528019806502624102114683286300760130997545645739216606465126175672409688320, 13655902620637970265515054314622044564802205388654477435013044552396697862185),
   (True, 11735746102388818172859498694968645287729795183389184574613248985201366889800, 35480399837086862129637879782351874411581913777821865934806477562408620480),
   (False, 57513011892752776962328868284857583012770508564194364207145979607338296, 17175509830176973298447596888286323829251817668743841726917036029623323181768),
   (False, 13477470057957058177421965011213507988751787845236011456181322912393103369405, 18626641432505603176079030815504010325359015070333587586634361680316293207939),
   (True, 16007549311442685490580757715774910965444354983283477742306090332490172985004, 14337504746119573765144800791177244516868470958644802944561545161865381338284),
   (False, 9391527842076055093935820154573845197121055110231824512060247572633298342374, 12692764321998828706809875524196793369535460966763219826109912811094099689898),
   (False, 7360401978227345062479407227191430739038117809217953605470938385213643392913, 9760920215680297146059253198399333521919235335198974561423145160153593888083),
   (False, 4352819183099198957555369587581414792136223782067670113302348946629336429537, 15212094931238375578520744286824026695267088488064372318347064723779035575560),
   (True, 13073122206411076468252622847766218861604958836508904199667315634396877448612, 3750251973921904028226731446145283868899241553610421048991270740673261240476),
   (False, 642554541735277395697236792577142911445915097991100602623205107955250463968, 7926872813574266968519796821085798303575980410316129517763023745426956278320),
   (False, 2870733524408428056177735199473157241037482568717490934753628613294960145905, 10181608100256976783400575136818910847176704356209688589930474965336429024015),
   (False, 4736110802233047067357934937341934211238535857768661318549689569749260912562, 6962231578746131139051045931915838446525010351672299731220754657739649479471),
   (True, 5983272170578872141141474219282647242548194453356412052513881177069284667111, 1775808659149033796638210575042676873349222963059477345204705082856148946641),
   (False, 144072615256196675356280341032133157352579184578093936141344206662226748644, 16394250743034833596197522856232958377501867184243543284944321178455030489533),
   (True, 14089055085116565984460202745967130468690255184073583032947906372017706137744, 14244080746985472109071544864289643402291784897116457025653203028876510377496),
   (False, 9269535134210294826282127096542739066348060566751072589197375400620171073564, 8787881118295030248181324906428872353117346075929845909488824036113744661028),
   (True, 7552217121585559463992630574679884701160798220029344838268624283758611723252, 14974999839874456328590897189858885730068432349123283257802303814525268530220),
   (False, 10245254565077664903228153999007247418994447751291042262059173913129255300177, 6227901897037876807877405378367532322476488790531543785272066811036929424191),
   (True, 5352196588145240248669124543433936453901743666413166800959812748503013027654, 17731497203272904982863114371271470604391014981785313892648549683893663779570),
   (False, 14364149507596140210945774173263882572808159230806300592850812744353875397549, 3532011959416212134908816162545761973028478537957379735743560074780050342167),
   (True, 3035375744673626321207023792307746919197098551416039638808228603612837902146, 418491876119612320199549799003946826589192696758148245949586195888070785974),
   (False, 8001348093749302557284265149018403039013618504238086914216423782174627871, 12108529414429095838378680960554630942598795495980670312197596979290805587269),
   (True, 10405949048456815536825402638649134808531759039770239439439286703664692904139, 9026562671030384065355994875961796251803161736020766309469949024793315174429),
   (False, 3722493127069020511451937664586127890516367301343543155603530534662067981773, 5904975488750705822419790192543269790937947462625134358776240734420189087100),
   (False, 1593034933270393094089505262047765471362562134506684932607242725009065065248, 6589593602330189343484392963668212739216527920466298982792625681810559391984),
   (False, 1983838725571585187814529848561581238862665888399718445442553752470577648485, 1696488863363841938624296900991001125297705731460619987529339102338474266011),
   (False, 131489516100919203375034960463920269589835809010794528461264380810026069584, 17017973199593569700719181191601816059183602212458927032704359373970788838793),
   (False, 13231368708663678652623418735523578136013185743167822885014883102895407703403, 36096204967100083876413821156399256418219978344510254763311550706980212198),
   (True, 31020717452500581225536528621486575053039252315858113139694046186227422639, 1)]"

lemma prime_bn254_c_3_run: "pow_run 21888242871839275222246405745257275088548364400416034343698204186575808495617 18810536960267738281623319138564098156538132287104634306360290224932305588168 prime_bn254_c_3 20174154710870813814265407418747916173625165239618664068877462700238540747422 = Some 1"
  by (simp only: prime_bn254_c_3_def pow_run_eval)

lemma prime_bn254_c_3_exp: "pow_exp prime_bn254_c_3 1647277406954460008677 = 13818364434197438864469338081"
  by (simp add: prime_bn254_c_3_def)

lemma prime_bn254_c: "(18810536960267738281623319138564098156538132287104634306360290224932305588168 :: nat) ^ 13818364434197438864469338081 mod 21888242871839275222246405745257275088548364400416034343698204186575808495617 = 1"
proof -
  have r: "(18810536960267738281623319138564098156538132287104634306360290224932305588168 :: nat) mod 21888242871839275222246405745257275088548364400416034343698204186575808495617 = 18810536960267738281623319138564098156538132287104634306360290224932305588168 ^ 1 mod 21888242871839275222246405745257275088548364400416034343698204186575808495617" by (simp only: power_one_right)
  from pow_run_sound [OF prime_bn254_c_0_run r]
  have r: "(11352974430176251988274592823686855960615703494006315686385524761056335374967 :: nat) mod 21888242871839275222246405745257275088548364400416034343698204186575808495617 = 18810536960267738281623319138564098156538132287104634306360290224932305588168 ^ 46818439 mod 21888242871839275222246405745257275088548364400416034343698204186575808495617"
    unfolding prime_bn254_c_0_exp .
  from pow_run_sound [OF prime_bn254_c_1_run r]
  have r: "(15869482716685516133991480243448479096484095417313353154755341481103009025334 :: nat) mod 21888242871839275222246405745257275088548364400416034343698204186575808495617 = 18810536960267738281623319138564098156538132287104634306360290224932305588168 ^ 98185384688047 mod 21888242871839275222246405745257275088548364400416034343698204186575808495617"
    unfolding prime_bn254_c_1_exp .
  from pow_run_sound [OF prime_bn254_c_2_run r]
  have r: "(20174154710870813814265407418747916173625165239618664068877462700238540747422 :: nat) mod 21888242871839275222246405745257275088548364400416034343698204186575808495617 = 18810536960267738281623319138564098156538132287104634306360290224932305588168 ^ 1647277406954460008677 mod 21888242871839275222246405745257275088548364400416034343698204186575808495617"
    unfolding prime_bn254_c_2_exp .
  from pow_run_sound [OF prime_bn254_c_3_run r]
  have r: "(1 :: nat) mod 21888242871839275222246405745257275088548364400416034343698204186575808495617 = 18810536960267738281623319138564098156538132287104634306360290224932305588168 ^ 13818364434197438864469338081 mod 21888242871839275222246405745257275088548364400416034343698204186575808495617"
    unfolding prime_bn254_c_3_exp .
  show ?thesis by (rule trans [OF r [symmetric]]) simp
qed

lemma prime_bn254: "is_prime 21888242871839275222246405745257275088548364400416034343698204186575808495617"
proof (rule primality_criterion [where q = 13818364434197438864469338081 and R = 1583996642733683218748855262055434666238317428736 and s = 114629821081693063490 and r = 5442477491434024228909666046
      and b = 18810536960267738281623319138564098156538132287104634306360290224932305588168 and u = 18830771696733986827343121108258373716716634563029220880262390084180817631389 and v = 16182976818459130185777021246784971380378737693564323278560854903669132907786])
  show "(21888242871839275222246405745257275088548364400416034343698204186575808495617 :: nat) = 1583996642733683218748855262055434666238317428736 * 13818364434197438864469338081 + 1" by simp
  show "(1583996642733683218748855262055434666238317428736 :: nat) = 114629821081693063490 * 13818364434197438864469338081 + 5442477491434024228909666046" by simp
  show "(114629821081693063490 :: nat) < 13818364434197438864469338081" by simp
  show "(5442477491434024228909666046 :: nat) < 13818364434197438864469338081" by simp
  show "(114629821081693063490 :: nat) + 1 < 5442477491434024228909666046" by simp
  show "is_prime 13818364434197438864469338081" by (rule prime_q)
  show "(18810536960267738281623319138564098156538132287104634306360290224932305588168 :: nat) ^ 13818364434197438864469338081 mod 21888242871839275222246405745257275088548364400416034343698204186575808495617 = 1" by (rule prime_bn254_c)
  show "(18830771696733986827343121108258373716716634563029220880262390084180817631389 :: nat) * (18810536960267738281623319138564098156538132287104634306360290224932305588168 - 1) = 16182976818459130185777021246784971380378737693564323278560854903669132907786 * 21888242871839275222246405745257275088548364400416034343698204186575808495617 + 1" by simp
  show "(1 :: nat) \<le> 18810536960267738281623319138564098156538132287104634306360290224932305588168" by simp
qed

end
