(* ===== verification/Accumulator.thy ===== *)
theory Accumulator
  imports JsText Bn254Prime
begin

text \<open>
  \<open>src/src/longjing/accumulator.ts\<close>: Baby Jubjub arithmetic for the refund accumulator.

  A point is a pair of BigInts.  The module memoises the four generators
  (\<open>accumulatorGenerators\<close>); here they are a \<open>generators\<close> record that \<open>commit\<close>,
  \<open>genesis\<close>, \<open>rerandomize\<close> and \<open>applyRefund\<close> take, and \<open>accumulatorGenerators\<close> computes that
  record from SHA-256, which is a parameter.  The loops whose end depends on number theory
  (\<open>sqrt\<close>, \<open>hashToCurve\<close>) are \<^theory_text>\<open>partial_function (option)\<close>: \<open>None\<close> is a loop that does
  not return.

  Shown here: \<open>pow\<close> is exponentiation modulo the field and always ends, \<open>inv\<close> is the field
  inverse (the modulus is prime, \<open>Bn254Prime\<close>), point addition is commutative with
  \<open>IDENTITY\<close> neutral and stays in the field, and scalar multiplication unfolds as
  double-and-add.  That \<open>sqrt\<close> always returns, with a root exactly when there is one, is in
  \<open>Tonelli\<close>.
\<close>

section \<open>Constants\<close>

definition FIELD_MODULUS :: int where
  "FIELD_MODULUS = 21888242871839275222246405745257275088548364400416034343698204186575808495617"

definition SUBGROUP_ORDER :: int where
  "SUBGROUP_ORDER = 2736030358979909402780800718157159386076813972158567259200215660948447373041"

definition EDWARDS_A :: int where "EDWARDS_A = 168700"
definition EDWARDS_D :: int where "EDWARDS_D = 168696"
definition COFACTOR :: int where "COFACTOR = 8"

type_synonym point = "int \<times> int"

definition IDENTITY :: point where
  "IDENTITY = (0, 1)"

section \<open>Field arithmetic\<close>

definition modp :: "int \<Rightarrow> int" where
  "modp x = js_rem (js_rem x FIELD_MODULUS + FIELD_MODULUS) FIELD_MODULUS"

function pow_loop :: "int \<Rightarrow> int \<Rightarrow> int \<Rightarrow> int" where
  "pow_loop result b e =
     (if 0 < e
      then pow_loop (if odd e then js_rem (result * b) FIELD_MODULUS else result)
             (js_rem (b * b) FIELD_MODULUS) (e div 2)
      else result)"
  by pat_completeness auto
termination
  by (relation "measure (\<lambda>(result, b, e). nat e)") auto

declare pow_loop.simps [simp del]

definition pow :: "int \<Rightarrow> int \<Rightarrow> int" where
  "pow base ex = pow_loop 1 (modp base) ex"

definition inv :: "int \<Rightarrow> int" where
  "inv x = pow x (FIELD_MODULUS - 2)"

text \<open>Tonelli-Shanks.  The inner result is \<open>None\<close> where the code returns \<open>undefined\<close>; the outer
  option is the one of \<^theory_text>\<open>partial_function\<close>.\<close>

partial_function (option) strip_twos :: "int \<Rightarrow> int \<Rightarrow> (int \<times> int) option" where
  "strip_twos q s = (if even q then strip_twos (q div 2) (s + 1) else Some (q, s))"

partial_function (option) find_nonresidue :: "int \<Rightarrow> int option" where
  "find_nonresidue z =
     (if pow z ((FIELD_MODULUS - 1) div 2) = 1 then find_nonresidue (z + 1) else Some z)"

partial_function (option) least_square_order :: "int \<Rightarrow> int \<Rightarrow> int option" where
  "least_square_order t2 i =
     (if t2 \<noteq> 1 then least_square_order (js_rem (t2 * t2) FIELD_MODULUS) (i + 1) else Some i)"

partial_function (option) tonelli_loop :: "int \<Rightarrow> int \<Rightarrow> int \<Rightarrow> int \<Rightarrow> int option" where
  "tonelli_loop m c t r =
     (if t \<noteq> 1
      then Option.bind (least_square_order t 0) (\<lambda>i.
        let b = pow c (2 ^ nat (m - i - 1)); c' = js_rem (b * b) FIELD_MODULUS
        in tonelli_loop i c' (js_rem (t * c') FIELD_MODULUS) (js_rem (r * b) FIELD_MODULUS))
      else Some r)"

definition sqrt :: "int \<Rightarrow> int option option" where
  "sqrt x = (let n = modp x in
     if n = 0 then Some (Some 0)
     else if pow n ((FIELD_MODULUS - 1) div 2) \<noteq> 1 then Some None
     else Option.bind (strip_twos (FIELD_MODULUS - 1) 0) (\<lambda>(q, s).
       Option.bind (find_nonresidue 2) (\<lambda>z.
         map_option Some (tonelli_loop s (pow z q) (pow n q) (pow n ((q + 1) div 2))))))"

section \<open>Points\<close>

definition addPoints :: "point \<Rightarrow> point \<Rightarrow> point" where
  "addPoints p q = (case p of (x1, y1) \<Rightarrow> case q of (x2, y2) \<Rightarrow>
     let k = modp (EDWARDS_D * x1 * x2 * y1 * y2) in
     (modp ((x1 * y2 + y1 * x2) * inv (1 + k)),
      modp ((y1 * y2 - EDWARDS_A * x1 * x2) * inv (1 - k))))"

function mul_loop :: "point \<Rightarrow> point \<Rightarrow> int \<Rightarrow> point" where
  "mul_loop result base e =
     (if 0 < e
      then mul_loop (if odd e then addPoints result base else result) (addPoints base base) (e div 2)
      else result)"
  by pat_completeness auto
termination
  by (relation "measure (\<lambda>(result, base, e). nat e)") auto

declare mul_loop.simps [simp del]

definition mulPoint :: "point \<Rightarrow> int \<Rightarrow> point" where
  "mulPoint p scalar = mul_loop IDENTITY p scalar"

definition isOnCurve :: "point \<Rightarrow> bool" where
  "isOnCurve p = (case p of (x, y) \<Rightarrow>
     modp (EDWARDS_A * x * x + y * y) = modp (1 + EDWARDS_D * x * x * y * y))"

definition isIdentity :: "point \<Rightarrow> bool" where
  "isIdentity p = (case p of (x, y) \<Rightarrow> x = 0 \<and> y = 1)"

definition inSubgroup :: "point \<Rightarrow> bool" where
  "inSubgroup p = (isOnCurve p \<and> isIdentity (mulPoint p SUBGROUP_ORDER))"

section \<open>Generators\<close>

partial_function (option) hashToCurve_from ::
  "(bytes \<Rightarrow> bytes) \<Rightarrow> bytes \<Rightarrow> nat \<Rightarrow> point option" where
  "hashToCurve_from sha256 seed counter =
     (let digest = sha256 (seed @ uint32_be counter);
          x = modp (int (radix_val 16 (hex_of_bytes digest)))
      in Option.bind (sqrt ((1 - EDWARDS_A * x * x) * inv (1 - EDWARDS_D * x * x)))
        (\<lambda>r. case r of
            None \<Rightarrow> hashToCurve_from sha256 seed (counter + 1)
          | Some y \<Rightarrow>
              let point = mulPoint (x, if y < FIELD_MODULUS - y then y else FIELD_MODULUS - y) COFACTOR
              in if \<not> isIdentity point then Some point
                 else hashToCurve_from sha256 seed (counter + 1)))"

definition hashToCurve :: "(bytes \<Rightarrow> bytes) \<Rightarrow> string \<Rightarrow> point option" where
  "hashToCurve sha256 seed = hashToCurve_from sha256 (ascii_bytes seed) 0"

record generators =
  gen_G :: point
  gen_J :: point
  gen_K :: point
  gen_H :: point

definition accumulatorGenerators :: "(bytes \<Rightarrow> bytes) \<Rightarrow> generators option" where
  "accumulatorGenerators sha256 =
     Option.bind (hashToCurve sha256 ''longjing/accumulator/G'') (\<lambda>g.
     Option.bind (hashToCurve sha256 ''longjing/accumulator/J'') (\<lambda>j.
     Option.bind (hashToCurve sha256 ''longjing/accumulator/K'') (\<lambda>k.
     Option.bind (hashToCurve sha256 ''longjing/accumulator/H'') (\<lambda>h.
       Some \<lparr>gen_G = g, gen_J = j, gen_K = k, gen_H = h\<rparr>))))"

section \<open>Accumulators\<close>

record accOpening =
  refunds :: int
  index :: int
  commitment :: int
  blinding :: int

definition commit :: "generators \<Rightarrow> accOpening \<Rightarrow> point" where
  "commit g op = foldl addPoints (mulPoint (gen_G g) (refunds op))
     [mulPoint (gen_J g) (index op), mulPoint (gen_K g) (commitment op), mulPoint (gen_H g) (blinding op)]"

definition genesis :: "generators \<Rightarrow> int \<Rightarrow> point" where
  "genesis g c = commit g \<lparr>refunds = 0, index = 0, commitment = c, blinding = 0\<rparr>"

definition rerandomize :: "generators \<Rightarrow> point \<Rightarrow> int \<Rightarrow> point" where
  "rerandomize g accumulator b = addPoints accumulator (mulPoint (gen_H g) b)"

definition applyRefund :: "generators \<Rightarrow> point \<Rightarrow> int \<Rightarrow> point" where
  "applyRefund g accumulator refund = addPoints (addPoints accumulator (mulPoint (gen_G g) refund)) (gen_J g)"

section \<open>Field facts\<close>

lemma FIELD_MODULUS_pos [simp]: "0 < FIELD_MODULUS" "1 < FIELD_MODULUS" "2 < FIELD_MODULUS"
    "0 \<le> FIELD_MODULUS"
  by (simp_all add: FIELD_MODULUS_def)

lemma FIELD_MODULUS_neq_0 [simp]: "FIELD_MODULUS \<noteq> 0"
  using FIELD_MODULUS_pos(1) by linarith

lemma modp_eq [simp]: "modp x = x mod FIELD_MODULUS"
  by (simp add: modp_def js_canonical_mod)

definition reduced :: "int \<Rightarrow> bool" where
  "reduced x = (0 \<le> x \<and> x < FIELD_MODULUS)"

lemma reduced_mod [simp, intro]: "reduced (x mod FIELD_MODULUS)"
  by (simp add: reduced_def)

lemma reduced_mod_eq [simp]: "reduced x \<Longrightarrow> x mod FIELD_MODULUS = x"
  by (simp add: reduced_def)

lemma reduced_0 [simp]: "reduced 0" and reduced_1 [simp]: "reduced 1"
  by (simp_all add: reduced_def)

lemma js_rem_reduced:
  "0 \<le> a \<Longrightarrow> 0 \<le> b \<Longrightarrow> js_rem (a * b) FIELD_MODULUS = a * b mod FIELD_MODULUS"
  by simp

lemma field_prime: "is_prime (nat FIELD_MODULUS)"
proof -
  have "nat FIELD_MODULUS = 21888242871839275222246405745257275088548364400416034343698204186575808495617"
    by (simp only: FIELD_MODULUS_def nat_numeral)
  then show ?thesis by (simp only: prime_bn254)
qed

lemma pow_loop_eq:
  "0 \<le> result \<Longrightarrow> 0 \<le> b \<Longrightarrow>
   pow_loop result b e mod FIELD_MODULUS = result * b ^ nat e mod FIELD_MODULUS"
proof (induction result b e rule: pow_loop.induct)
  case (1 result b e)
  show ?case
  proof (cases "0 < e")
    case False
    then show ?thesis by (simp add: pow_loop.simps [of result b e])
  next
    case True
    let ?r = "if odd e then js_rem (result * b) FIELD_MODULUS else result"
    let ?b = "js_rem (b * b) FIELD_MODULUS"
    have split: "nat e = 2 * nat (e div 2) + (if odd e then 1 else 0)"
      using True by (auto elim!: oddE evenE simp: nat_add_distrib nat_mult_distrib)
    have r: "?r mod FIELD_MODULUS = result * b ^ (if odd e then 1 else 0) mod FIELD_MODULUS"
      using "1.prems" by simp
    have b: "?b ^ k mod FIELD_MODULUS = b ^ (2 * k) mod FIELD_MODULUS" for k
      using "1.prems" by (simp add: power_mod power_mult power2_eq_square)
    have "pow_loop result b e mod FIELD_MODULUS = pow_loop ?r ?b (e div 2) mod FIELD_MODULUS"
      using True by (simp add: pow_loop.simps [of result b e])
    also have "\<dots> = ?r * ?b ^ nat (e div 2) mod FIELD_MODULUS"
      using "1.prems" True by (intro "1.IH") simp_all
    also have "\<dots> = (?r mod FIELD_MODULUS) * (?b ^ nat (e div 2) mod FIELD_MODULUS) mod FIELD_MODULUS"
      by (rule mod_mult_eq [symmetric])
    also have "\<dots> = result * b ^ nat e mod FIELD_MODULUS"
      unfolding r b split by (simp only: mod_mult_eq power_add) (simp only: mult_ac)
    finally show ?thesis .
  qed
qed

lemma pow_loop_reduced: "reduced result \<Longrightarrow> 0 \<le> b \<Longrightarrow> reduced (pow_loop result b e)"
proof (induction result b e rule: pow_loop.induct)
  case (1 result b e)
  then show ?case
    by (cases "0 < e") (simp_all add: pow_loop.simps [of result b e] reduced_def)
qed

lemma pow_eq: "pow b e = b ^ nat e mod FIELD_MODULUS"
proof -
  have "pow b e mod FIELD_MODULUS = b ^ nat e mod FIELD_MODULUS"
    unfolding pow_def using pow_loop_eq [of 1 "modp b" e] by (simp add: power_mod)
  moreover have "reduced (pow b e)"
    unfolding pow_def by (rule pow_loop_reduced) simp_all
  ultimately show ?thesis by simp
qed

lemma pow_reduced [simp]: "reduced (pow b e)"
  by (simp add: pow_eq)

lemma fermat_field:
  assumes "x mod FIELD_MODULUS \<noteq> 0"
  shows "x ^ nat (FIELD_MODULUS - 1) mod FIELD_MODULUS = 1"
proof -
  define a where "a = nat (x mod FIELD_MODULUS)"
  define p where "p = nat FIELD_MODULUS"
  have a: "int a = x mod FIELD_MODULUS" and p: "int p = FIELD_MODULUS"
    by (simp_all add: a_def p_def less_imp_le)
  have "\<not> p dvd a"
  proof
    assume "p dvd a"
    then have "FIELD_MODULUS dvd x mod FIELD_MODULUS" using a p by (metis of_nat_dvd_iff)
    with assms show False by (simp add: dvd_mod_iff dvd_eq_mod_eq_0)
  qed
  then have "a ^ (p - 1) mod p = 1"
    using field_prime by (intro fermat_little) (simp_all add: p_def)
  then have "int (a ^ (p - 1) mod p) = 1" by simp
  then have "(x mod FIELD_MODULUS) ^ (p - 1) mod FIELD_MODULUS = 1"
    by (simp add: zmod_int a p)
  moreover have "p - 1 = nat (FIELD_MODULUS - 1)"
    by (simp add: p_def nat_diff_distrib)
  ultimately show ?thesis by (simp add: power_mod)
qed

lemma inv_eq:
  assumes "x mod FIELD_MODULUS \<noteq> 0"
  shows "x * inv x mod FIELD_MODULUS = 1"
proof -
  have "nat (FIELD_MODULUS - 1) = Suc (nat (FIELD_MODULUS - 2))"
    using FIELD_MODULUS_pos(3) by linarith
  then have "x * x ^ nat (FIELD_MODULUS - 2) mod FIELD_MODULUS = 1"
    using fermat_field [OF assms] by simp
  then show ?thesis by (simp add: inv_def pow_eq mod_mult_right_eq)
qed

lemma inv_reduced [simp]: "reduced (inv x)"
  by (simp add: inv_def)

lemma inv_1 [simp]: "inv 1 = 1"
  by (simp add: inv_def pow_eq)

text \<open>The inverse is unique, which lets other code's inverse loops be compared with it.\<close>

lemma inv_unique:
  assumes "x * y mod FIELD_MODULUS = 1" "reduced y"
  shows "y = inv x"
proof -
  have nz: "x mod FIELD_MODULUS \<noteq> 0"
  proof
    assume "x mod FIELD_MODULUS = 0"
    then have "x * y mod FIELD_MODULUS = 0" by (metis mod_mult_left_eq mod_0 mult_zero_left)
    with assms(1) show False by simp
  qed
  have "y = y * (x * inv x mod FIELD_MODULUS) mod FIELD_MODULUS"
    using assms(2) by (simp add: inv_eq [OF nz])
  also have "\<dots> = (x * y mod FIELD_MODULUS) * inv x mod FIELD_MODULUS"
    by (simp only: mod_mult_right_eq mod_mult_left_eq) (simp only: mult_ac)
  also have "\<dots> = inv x" using assms(1) by simp
  finally show ?thesis .
qed

section \<open>Points: facts\<close>

definition reduced_point :: "point \<Rightarrow> bool" where
  "reduced_point p = (reduced (fst p) \<and> reduced (snd p))"

lemma addPoints_reduced [simp]: "reduced_point (addPoints p q)"
  by (simp add: addPoints_def reduced_point_def Let_def split: prod.split)

lemma addPoints_comm: "addPoints p q = addPoints q p"
  by (simp add: addPoints_def Let_def mult_ac add_ac split: prod.split)

lemma addPoints_IDENTITY: "addPoints IDENTITY (x, y) = (x mod FIELD_MODULUS, y mod FIELD_MODULUS)"
  by (simp add: addPoints_def IDENTITY_def)

lemma mul_loop_double:
  assumes "0 < e"
  shows "mul_loop r b e = mul_loop (if odd e then addPoints r b else r) (addPoints b b) (e div 2)"
  using assms by (simp add: mul_loop.simps [of r b e])

lemma mul_loop_stop: "e \<le> 0 \<Longrightarrow> mul_loop r b e = r"
  by (simp add: mul_loop.simps [of r b e])

lemma mulPoint_0 [simp]: "mulPoint p 0 = IDENTITY"
  by (simp add: mulPoint_def mul_loop_stop)

lemma mulPoint_1: "mulPoint (x, y) 1 = (x mod FIELD_MODULUS, y mod FIELD_MODULUS)"
  by (simp add: mulPoint_def mul_loop_double mul_loop_stop addPoints_IDENTITY)

end
