(* ===== verification/PayloadSignal.thy ===== *)
theory PayloadSignal
  imports Accumulator
begin

text \<open>
  Field elements on the wire: \<open>src/src/longjing/utils/payload-signal.util.ts\<close>,
  \<open>src/src/longjing/dto/field-element.ts\<close> and \<open>toBigInt\<close> of
  \<open>src/src/longjing/proof-verifier.service.ts\<close>.

  SHA-256 and Poseidon are parameters.  Shown: the two parsers of the request path agree on
  every text the request DTO lets through, except on a negative decimal, which only the
  verifier's can read; the canonical (decimal) text of a parsed element identifies it, so two
  spellings of one nullifier share a row; the signal check accepts exactly the payload and
  nonce that hash to \<open>x\<close>, and so binds both up to a collision of the hashes.
\<close>

section \<open>Parsing\<close>

definition BN254_SCALAR_FIELD :: int where
  "BN254_SCALAR_FIELD = 21888242871839275222246405745257275088548364400416034343698204186575808495617"

text \<open>The regular expression \<open>^\d+$\<close>.\<close>

definition all_digits :: "string \<Rightarrow> bool" where
  "all_digits s = (s \<noteq> [] \<and> list_all is_digit s)"

definition parseFieldElement :: "string \<Rightarrow> int res" where
  "parseFieldElement value =
     (let str = trim value in
      if startsWith str ''0x'' \<or> all_digits str then BigInt_of_string str
      else BigInt_of_string (''0x'' @ str))"

text \<open>\<open>FIELD_ELEMENT_PATTERN\<close>: hex of 1 to 64 digits with an optional \<open>0x\<close>, or a decimal of 1 to
  78 digits with an optional sign.\<close>

definition hex_form :: "string \<Rightarrow> bool" where
  "hex_form s = (let d = strip0x s in 1 \<le> length d \<and> length d \<le> 64 \<and> list_all is_hex d)"

definition dec_form :: "string \<Rightarrow> bool" where
  "dec_form s = (let d = (if startsWith s ''-'' then drop 1 s else s) in
     1 \<le> length d \<and> length d \<le> 78 \<and> list_all is_digit d)"

definition FIELD_ELEMENT_PATTERN :: "string \<Rightarrow> bool" where
  "FIELD_ELEMENT_PATTERN s = (hex_form s \<or> dec_form s)"

definition IsFieldElement :: "string \<Rightarrow> bool" where
  "IsFieldElement s = (s \<noteq> [] \<and> length s \<le> 80 \<and> FIELD_ELEMENT_PATTERN s)"

section \<open>The signal\<close>

definition payloadDigest :: "(jsstr \<Rightarrow> bytes) \<Rightarrow> jsstr \<Rightarrow> int" where
  "payloadDigest sha256_utf8 payload =
     js_rem (int (radix_val 16 (hex_of_bytes (sha256_utf8 payload)))) BN254_SCALAR_FIELD"

definition payloadSignalX :: "(jsstr \<Rightarrow> bytes) \<Rightarrow> (int list \<Rightarrow> int) \<Rightarrow> jsstr \<Rightarrow> int \<Rightarrow> int" where
  "payloadSignalX sha256_utf8 poseidon payload nonce =
     poseidon [payloadDigest sha256_utf8 payload, nonce]"

definition signalXMatchesRequest ::
  "(jsstr \<Rightarrow> bytes) \<Rightarrow> (int list \<Rightarrow> int) \<Rightarrow> string \<Rightarrow> jsstr \<Rightarrow> string \<Rightarrow> bool" where
  "signalXMatchesRequest sha256_utf8 poseidon signalX payload nonce =
     (case parseFieldElement signalX of
        Inl _ \<Rightarrow> False
      | Inr x \<Rightarrow> (case parseFieldElement nonce of
          Inl _ \<Rightarrow> False
        | Inr rho \<Rightarrow>
            if rho \<ge> BN254_SCALAR_FIELD then False
            else x = payloadSignalX sha256_utf8 poseidon payload rho))"

section \<open>The verifier's reading\<close>

text \<open>\<open>toBigInt\<close>, local to \<open>verifyAgainstChainAndCircuit\<close>.  A negative decimal is moved into the
  field by adding the modulus once.\<close>

definition signed_digits :: "string \<Rightarrow> bool" where
  "signed_digits s = all_digits (if startsWith s ''-'' then drop 1 s else s)"

definition toBigInt :: "string \<Rightarrow> int res" where
  "toBigInt value =
     (if value = [] then Inr 0
      else let str = trim value in
        if startsWith str ''0x'' \<or> startsWith str ''-0x'' then BigInt_of_string str
        else if signed_digits str then
          bind (BigInt_of_string str) (\<lambda>num.
            Inr (if num < 0 then BN254_SCALAR_FIELD + num else num))
        else BigInt_of_string (''0x'' @ str))"

section \<open>Facts\<close>

lemma BN254_FIELD: "BN254_SCALAR_FIELD = FIELD_MODULUS"
  by (simp add: BN254_SCALAR_FIELD_def FIELD_MODULUS_def)

lemma BN254_pos [simp]: "0 < BN254_SCALAR_FIELD"
  by (simp add: BN254_FIELD)

lemma startsWith_Cons [simp]:
  "startsWith s [] " "startsWith [] (p # ps) = False"
  "startsWith (c # s) (p # ps) = (c = p \<and> startsWith s ps)"
  by (auto simp: startsWith_def)

lemma x_not_ws: "\<not> is_ws CHR ''x''"
  by (simp add: is_ws_def cval_def)

lemma zero_not_ws: "\<not> is_ws CHR ''0''"
  by (simp add: is_ws_def cval_def)

lemma hex_not_x: "is_hex c \<Longrightarrow> c \<noteq> CHR ''x'' \<and> c \<noteq> CHR ''-''"
  by (auto simp: is_hex_def is_digit_def cval_def)

lemma field_element_no_ws:
  assumes "IsFieldElement s"
  shows "list_all (\<lambda>c. \<not> is_ws c) s"
proof -
  have *: "list_all (\<lambda>c. \<not> is_ws c) t" if "list_all is_hex t" for t
    using that by (auto simp: list_all_iff hex_not_ws)
  have d: "list_all is_digit t \<Longrightarrow> list_all is_hex t" for t
    by (auto simp: list_all_iff is_digit_is_hex)
  from assms consider "hex_form s" | "dec_form s"
    by (auto simp: IsFieldElement_def FIELD_ELEMENT_PATTERN_def)
  then show ?thesis
  proof cases
    case 1
    show ?thesis
    proof (cases "startsWith s ''0x''")
      case True
      then obtain t where "s = CHR ''0'' # CHR ''x'' # t"
        by (cases s; cases "tl s") (auto simp: startsWith_def)
      with 1 * show ?thesis
        by (simp add: hex_form_def strip0x_def Let_def x_not_ws zero_not_ws)
    next
      case False
      with 1 * show ?thesis by (simp add: hex_form_def strip0x_def Let_def)
    qed
  next
    case 2
    show ?thesis
    proof (cases "startsWith s ''-''")
      case True
      then obtain t where "s = CHR ''-'' # t" by (cases s) (auto simp: startsWith_def)
      with 2 * d show ?thesis by (simp add: dec_form_def minus_not_ws)
    next
      case False
      with 2 * d show ?thesis by (simp add: dec_form_def)
    qed
  qed
qed

lemmas field_element_trim = trim_no_ws [OF field_element_no_ws]

lemma BigInt_of_string_hex:
  assumes "list_all is_hex ds" "ds \<noteq> []"
  shows "BigInt_of_string (''0x'' @ ds) = Inr (int (radix_val 16 ds))"
proof -
  have "trim (''0x'' @ ds) = ''0x'' @ ds"
    using assms(1) by (intro trim_no_ws) (auto simp: list_all_iff hex_not_ws x_not_ws zero_not_ws)
  moreover have "list_all (is_radix_digit 16) ds"
    using assms(1) by (auto simp: list_all_iff is_radix_digit_def digit_val_def is_hex_def is_digit_def)
  ultimately show ?thesis using assms(2)
    by (simp add: BigInt_of_string_def radix_literal_def toLowerCase_def to_lower_char_def cval_def)
qed

text \<open>The shape of an element that passes the DTO: hex with the prefix, digits, bare hex with a
  letter in it, or a negative decimal.\<close>

lemma field_element_cases:
  assumes "IsFieldElement s"
  obtains (prefixed) ds where "s = ''0x'' @ ds" "list_all is_hex ds" "ds \<noteq> []"
    | (digits) "list_all is_digit s" "s \<noteq> []" "\<not> startsWith s ''0x''"
    | (bare) "list_all is_hex s" "s \<noteq> []" "\<not> list_all is_digit s" "\<not> startsWith s ''0x''"
    | (negative) ds where "s = CHR ''-'' # ds" "list_all is_digit ds" "ds \<noteq> []"
proof -
  have no0x: "\<not> startsWith t ''0x''" if "list_all is_hex t" for t
    using that by (cases t; cases "tl t") (auto simp: startsWith_def dest: hex_not_x)
  have hexd: "list_all is_digit t \<Longrightarrow> list_all is_hex t" for t
    by (auto simp: list_all_iff is_digit_is_hex)
  from assms consider "hex_form s" | "dec_form s"
    by (auto simp: IsFieldElement_def FIELD_ELEMENT_PATTERN_def)
  then show thesis
  proof cases
    case 1
    show thesis
    proof (cases "startsWith s ''0x''")
      case True
      then obtain t where "s = ''0x'' @ t"
        by (cases s; cases "tl s") (auto simp: startsWith_def)
      with 1 show thesis by (intro prefixed [of t]) (auto simp: hex_form_def strip0x_def)
    next
      case False
      with 1 have "list_all is_hex s" "s \<noteq> []" by (auto simp: hex_form_def strip0x_def)
      then show thesis using digits bare no0x by blast
    qed
  next
    case 2
    show thesis
    proof (cases "startsWith s ''-''")
      case True
      then obtain t where "s = CHR ''-'' # t" by (cases s) (auto simp: startsWith_def)
      with 2 show thesis by (intro negative [of t]) (auto simp: dec_form_def)
    next
      case False
      with 2 have "list_all is_digit s" "s \<noteq> []" by (auto simp: dec_form_def)
      then show thesis using digits no0x hexd by blast
    qed
  qed
qed

lemma BigInt_of_string_neg:
  assumes "list_all is_digit ds" "ds \<noteq> []"
  shows "BigInt_of_string (CHR ''-'' # ds) = Inr (- int (radix_val 10 ds))"
proof -
  have "trim (CHR ''-'' # ds) = CHR ''-'' # ds"
    using assms(1) minus_not_ws by (intro trim_no_ws) (auto simp: list_all_iff digit_not_ws)
  then show ?thesis using assms
    by (cases ds) (simp_all add: BigInt_of_string_def decimal_literal_def toLowerCase_def
        to_lower_char_def cval_def)
qed

lemma parseFieldElement_negative:
  assumes "list_all is_digit ds" "ds \<noteq> []"
  shows "parseFieldElement (CHR ''-'' # ds) = Inl SyntaxError"
proof -
  have ws: "list_all (\<lambda>c. \<not> is_ws c) (CHR ''-'' # ds)"
    using assms(1) minus_not_ws by (auto simp: list_all_iff digit_not_ws)
  then have t1: "trim (CHR ''-'' # ds) = CHR ''-'' # ds" by (rule trim_no_ws)
  have t2: "trim (''0x-'' @ ds) = ''0x-'' @ ds"
    using ws by (intro trim_no_ws) (simp add: x_not_ws zero_not_ws)
  have "\<not> is_digit CHR ''-''" "\<not> is_hex CHR ''-''" by (simp_all add: is_digit_def is_hex_def cval_def)
  with t1 t2 show ?thesis
    by (simp add: parseFieldElement_def Let_def all_digits_def BigInt_of_string_def radix_literal_def
        is_radix_digit_def toLowerCase_def to_lower_char_def cval_def)
qed

lemma parsers_agree_nonneg:
  assumes "IsFieldElement s" "\<not> startsWith s ''-''"
  obtains n where "0 \<le> n" "parseFieldElement s = Inr n" "toBigInt s = Inr n"
  using assms(1)
proof (cases rule: field_element_cases)
  case (prefixed ds)
  then have "parseFieldElement s = Inr (int (radix_val 16 ds))" "toBigInt s = Inr (int (radix_val 16 ds))"
    using BigInt_of_string_hex [of ds] field_element_trim [OF assms(1)]
    by (simp_all add: parseFieldElement_def toBigInt_def Let_def)
  then show thesis by (intro that) simp_all
next
  case digits
  then have "parseFieldElement s = Inr (int (radix_val 10 s))" "toBigInt s = Inr (int (radix_val 10 s))"
    using BigInt_of_string_digits [of s] field_element_trim [OF assms(1)] assms(2)
    by (simp_all add: parseFieldElement_def toBigInt_def Let_def all_digits_def signed_digits_def
        split: if_splits)
  then show thesis by (intro that) simp_all
next
  case bare
  have "\<not> startsWith s ''-0x''" using assms(2) by (cases s) auto
  then have "parseFieldElement s = Inr (int (radix_val 16 s))" "toBigInt s = Inr (int (radix_val 16 s))"
    using BigInt_of_string_hex [of s] field_element_trim [OF assms(1)] assms(2) bare
    by (simp_all add: parseFieldElement_def toBigInt_def Let_def all_digits_def signed_digits_def)
  then show thesis by (intro that) simp_all
next
  case (negative ds)
  with assms(2) show thesis by simp
qed

text \<open>Every text the request DTO accepts is read as the same non-negative number by the request
  path (\<open>parseFieldElement\<close>) and by the proof verifier (\<open>toBigInt\<close>), unless it starts with a
  minus sign: then the verifier reads it and the request path throws a SyntaxError, although
  the pattern's comment allows a negative signal y.\<close>

theorem field_element_parsers:
  assumes "IsFieldElement s"
  shows "if startsWith s ''-''
     then parseFieldElement s = Inl SyntaxError \<and> is_ok (toBigInt s)
     else \<exists>n \<ge> 0. parseFieldElement s = Inr n \<and> toBigInt s = Inr n"
proof (cases "startsWith s ''-''")
  case False
  with assms obtain n where "0 \<le> n" "parseFieldElement s = Inr n" "toBigInt s = Inr n"
    by (rule parsers_agree_nonneg)
  with False show ?thesis by auto
next
  case True
  from assms show ?thesis
  proof (cases rule: field_element_cases)
    case (negative ds)
    have "\<not> startsWith (CHR ''-'' # ds) ''-0x''"
      using negative(2) by (cases ds; cases "tl ds") (auto simp: is_digit_def cval_def)
    then have "toBigInt s = bind (BigInt_of_string s) (\<lambda>num. Inr (if num < 0 then BN254_SCALAR_FIELD + num else num))"
      using negative field_element_trim [OF assms]
      by (simp add: toBigInt_def Let_def signed_digits_def all_digits_def)
    with negative True show ?thesis
      by (simp add: parseFieldElement_negative BigInt_of_string_neg)
  qed (use True in \<open>auto simp: startsWith_def neq_Nil_conv is_digit_def is_hex_def cval_def\<close>)
qed

theorem field_element_parsers_witness:
  "parseFieldElement ''-5'' = Inl SyntaxError \<and> is_ok (toBigInt ''-5'')"
proof -
  have "IsFieldElement ''-5''" by code_simp
  then show ?thesis using field_element_parsers [of "''-5''"] by simp
qed

lemma parseFieldElement_dec:
  assumes "0 \<le> n"
  shows "parseFieldElement (dec_of_int n) = Inr n"
proof -
  have d: "list_all is_digit (dec_of_int n)" "dec_of_int n \<noteq> []"
    using assms dec_of_nat_digits [of "nat n"] by (simp_all add: dec_of_int_def list_all_iff)
  then have "trim (dec_of_int n) = dec_of_int n"
    by (intro trim_no_ws) (auto simp: list_all_iff digit_not_ws)
  with d show ?thesis by (simp add: parseFieldElement_def all_digits_def)
qed

lemma toBigInt_digits:
  "list_all is_digit s \<Longrightarrow> s \<noteq> [] \<Longrightarrow> toBigInt s = Inr (int (radix_val 10 s))"
proof -
  assume s: "list_all is_digit s" "s \<noteq> []"
  have "trim s = s" using s(1) by (intro trim_no_ws) (auto simp: list_all_iff digit_not_ws)
  moreover have "\<not> startsWith s ''0x''" "\<not> startsWith s ''-0x''" "\<not> startsWith s ''-''"
    using s by (cases s; cases "tl s"; auto simp: is_digit_def cval_def)+
  ultimately show ?thesis using s BigInt_of_string_digits [OF s]
    by (simp add: toBigInt_def Let_def signed_digits_def all_digits_def)
qed

lemma toBigInt_dec: "0 \<le> n \<Longrightarrow> toBigInt (dec_of_int n) = Inr n"
  using toBigInt_digits [of "dec_of_int n"] dec_of_nat_digits [of "nat n"]
  by (simp add: dec_of_int_def list_all_iff)

lemma payloadDigest_range: "0 \<le> payloadDigest sha p" "payloadDigest sha p < BN254_SCALAR_FIELD"
  by (simp_all add: payloadDigest_def)

lemma signalXMatchesRequest_iff:
  "signalXMatchesRequest sha poseidon sx p nonce \<longleftrightarrow>
   (\<exists>x rho. parseFieldElement sx = Inr x \<and> parseFieldElement nonce = Inr rho \<and>
      rho < BN254_SCALAR_FIELD \<and> x = poseidon [payloadDigest sha p, rho])"
  by (auto simp: signalXMatchesRequest_def payloadSignalX_def split: sum.split)

text \<open>A field element is never read as a negative number: a sign makes \<open>BigInt\<close> throw.\<close>

lemma trim_hex_prefix:
  assumes "startsWith t ''0x''"
  shows "\<exists>u. trim t = ''0x'' @ u"
proof -
  from assms obtain u where "t = ''0x'' @ u" by (cases t; cases "tl t") auto
  then have "trim t = rev (dropWhile is_ws (rev u @ [CHR ''x'', CHR ''0'']))" by (simp add: trim_def zero_not_ws)
  also have "\<dots> = ''0x'' @ rev (dropWhile is_ws (rev u))"
    by (auto simp: dropWhile_append x_not_ws dropWhile_eq_Nil_conv)
  finally show ?thesis by blast
qed

lemma BigInt_hex_nonneg:
  assumes "startsWith t ''0x''" "BigInt_of_string t = Inr n"
  shows "0 \<le> n"
proof -
  from trim_hex_prefix [OF assms(1)] obtain u where "trim t = ''0x'' @ u" by blast
  with assms(2) show ?thesis
    by (auto simp: BigInt_of_string_def toLowerCase_def to_lower_char_def cval_def radix_literal_def split: if_splits)
qed

lemma parseFieldElement_nonneg: "parseFieldElement s = Inr n \<Longrightarrow> 0 \<le> n"
  using BigInt_hex_nonneg [of "trim s" n] BigInt_hex_nonneg [of "''0x'' @ trim s" n] BigInt_of_string_digits [of "trim s"]
  by (auto simp: parseFieldElement_def Let_def all_digits_def split: if_splits)

text \<open>C24 The signal binds the request: two requests accepted for the same signal x, in whatever
  spelling, have the same payload and the same nonce as a number, or else they show a collision: two
  payloads whose SHA-256 values agree modulo the field, or two different pairs of field elements
  with one Poseidon hash.  Poseidon works on field elements, so \<open>\<rho>\<close> and \<open>\<rho> + p\<close> are the same
  input and no collision; that they are not two nonces of one signal is what the bound on the nonce
  is for.\<close>

theorem signal_binds_request:
  assumes "signalXMatchesRequest sha poseidon sx1 p1 n1" "signalXMatchesRequest sha poseidon sx2 p2 n2"
    "parseFieldElement sx1 = parseFieldElement sx2"
  shows "(p1 = p2 \<and> parseFieldElement n1 = parseFieldElement n2)
    \<or> (p1 \<noteq> p2 \<and> int (radix_val 16 (hex_of_bytes (sha p1))) mod BN254_SCALAR_FIELD
        = int (radix_val 16 (hex_of_bytes (sha p2))) mod BN254_SCALAR_FIELD)
    \<or> (\<exists>a b c d. reduced a \<and> reduced b \<and> reduced c \<and> reduced d \<and> [a, b] \<noteq> [c, d] \<and> poseidon [a, b] = poseidon [c, d])"
proof -
  from assms obtain r1 r2 where r: "parseFieldElement n1 = Inr r1" "parseFieldElement n2 = Inr r2"
    "r1 < BN254_SCALAR_FIELD" "r2 < BN254_SCALAR_FIELD"
    and h: "poseidon [payloadDigest sha p1, r1] = poseidon [payloadDigest sha p2, r2]"
    unfolding signalXMatchesRequest_iff by auto
  have red: "reduced r1" "reduced r2" "reduced (payloadDigest sha p1)" "reduced (payloadDigest sha p2)"
    using r parseFieldElement_nonneg payloadDigest_range by (auto simp: reduced_def BN254_FIELD)
  show ?thesis
  proof (cases "[payloadDigest sha p1, r1] = [payloadDigest sha p2, r2]")
    case True
    then have "int (radix_val 16 (hex_of_bytes (sha p1))) mod BN254_SCALAR_FIELD
        = int (radix_val 16 (hex_of_bytes (sha p2))) mod BN254_SCALAR_FIELD"
      by (simp add: payloadDigest_def)
    with True r show ?thesis by auto
  qed (use red h in blast)
qed

text \<open>A hash of two field elements without collisions: they are the digits of one number.
  One request in two spellings is accepted, the nonce \<open>5 + p\<close> is not.\<close>

definition toy_pair :: "int list \<Rightarrow> int" where
  "toy_pair xs = (case xs of [a, b] \<Rightarrow> (a mod BN254_SCALAR_FIELD) * BN254_SCALAR_FIELD + b mod BN254_SCALAR_FIELD | _ \<Rightarrow> 0)"

theorem signal_binds_request_witness:
  "signalXMatchesRequest (\<lambda>_. [0]) toy_pair ''5'' [104] ''5'' \<and> signalXMatchesRequest (\<lambda>_. [0]) toy_pair ''5'' [104] ''0x5''
     \<and> parseFieldElement ''5'' = parseFieldElement ''0x5''
     \<and> \<not> signalXMatchesRequest (\<lambda>_. [0]) toy_pair ''5'' [104] (dec_of_int (BN254_SCALAR_FIELD + 5))"
proof -
  have 1: "signalXMatchesRequest (\<lambda>_. [0]) toy_pair ''5'' [104] ''5''" by code_simp
  have 2: "signalXMatchesRequest (\<lambda>_. [0]) toy_pair ''5'' [104] ''0x5''" by code_simp
  have 3: "\<not> signalXMatchesRequest (\<lambda>_. [0]) toy_pair ''5'' [104] (dec_of_int (BN254_SCALAR_FIELD + 5))"
    using parseFieldElement_dec [of "BN254_SCALAR_FIELD + 5"] BN254_pos by (auto simp: signalXMatchesRequest_iff simp del: BN254_pos)
  have inj: "a = c \<and> b = d" if "reduced a" "reduced b" "reduced c" "reduced d" "toy_pair [a, b] = toy_pair [c, d]" for a b c d
  proof -
    have m: "x mod BN254_SCALAR_FIELD = x" if "reduced x" for x using that by (simp add: reduced_def BN254_FIELD)
    have e: "a * BN254_SCALAR_FIELD + b = c * BN254_SCALAR_FIELD + d" using that m by (simp add: toy_pair_def)
    from arg_cong [OF e, of "\<lambda>x. x mod BN254_SCALAR_FIELD"] have "b = d" using m that by simp
    with e show ?thesis using BN254_pos by auto
  qed
  have "parseFieldElement ''5'' = parseFieldElement ''0x5''"
    using signal_binds_request [OF 1 2 refl] inj by blast
  with 1 2 3 show ?thesis by blast
qed

end
