(* ===== verification/ProofVerifier.thy ===== *)
theory ProofVerifier
  imports Json ComputeLimits Blockchain PayloadSignal
begin

text \<open>
  \<open>src/src/longjing/proof-verifier.service.ts\<close> and \<open>src/src/longjing/snarkjs-proof.service.ts\<close>:
  checking a request proof against the chain and the circuit.

  A parsed proof is a JSON value and property access on it is JavaScript's, so a malformed proof
  takes the branch the code takes (access on \<open>null\<close> throws).  \<open>JSON.parse\<close>, \<open>groth16.verify\<close> and
  \<open>groth16.fullProve\<close>, the verification key file and the chain's answers are parameters (record
  \<open>snark_lib\<close>, and the arguments of \<open>isKnownRoot\<close>).  The refund signer's public key is the argument
  \<open>serverKey\<close>.

  Shown: a proof is accepted only when the circuit's verifier accepted it for exactly the public
  signals of this request, with this server's key and \<open>C_MAX\<close>, and, whenever the chain can be asked (and
  always in production), for a root the contract knows; a throw or a malformed proof never counts as valid; the metrics count a
  verification without circuit artifacts as two failures; and one text can be read as two
  different roots by the chain check and by the circuit check.
\<close>

section \<open>The snarkjs service\<close>

record snark_proof =
  sp_pi_a :: "json option list"
  sp_pi_b :: "json option list list"
  sp_pi_c :: "json option list"
  sp_protocol :: "json option"
  sp_curve :: string

text \<open>\<open>vkey_file\<close> is \<open>None\<close> when the file is missing, otherwise what reading and parsing it gives;
  \<open>vkey_delta_ok\<close> says whether the log line that reads \<open>vk_delta_2[0][0]\<close> succeeds.\<close>

record 'v snark_lib =
  require_snarkjs :: "unit res"
  vkey_file :: "'v res option"
  vkey_delta_ok :: "'v \<Rightarrow> bool"
  groth16_verify :: "'v \<Rightarrow> string list \<Rightarrow> snark_proof \<Rightarrow> bool res"
  wasm_exists :: bool
  zkey_exists :: bool
  json_parse :: "string \<Rightarrow> json res"

record 'v snark_service =
  ss_vKey :: "'v option"
  ss_isSetup :: bool

definition ss_init :: "'v snark_service" where
  "ss_init = \<lparr>ss_vKey = None, ss_isSetup = False\<rparr>"

text \<open>\<open>isSetup\<close> is set before the log line, so it stays set when that line throws.\<close>

definition snark_initialize :: "'v snark_lib \<Rightarrow> 'v snark_service \<Rightarrow> 'v snark_service \<times> bool" where
  "snark_initialize lib ss =
     (if ss_isSetup ss then (ss, True)
      else case require_snarkjs lib of
          Inl _ \<Rightarrow> (ss, False)
        | Inr _ \<Rightarrow>
          (case vkey_file lib of
             None \<Rightarrow> (ss, False)
           | Some (Inl _) \<Rightarrow> (ss, False)
           | Some (Inr key) \<Rightarrow> (\<lparr>ss_vKey = Some key, ss_isSetup = True\<rparr>, vkey_delta_ok lib key)))"

definition snark_onModuleInit :: "'v snark_lib \<Rightarrow> env \<Rightarrow> 'v snark_service \<Rightarrow> 'v snark_service \<times> unit res" where
  "snark_onModuleInit lib env ss =
     (case snark_initialize lib ss of (ss', ok) \<Rightarrow>
        (ss', if ok then Inr ()
              else bind (isProd env) (\<lambda>production. guard (\<not> production)
                (Error ''Cannot verify requests: verification key missing''))))"

definition snark_isAvailable :: "'v snark_service \<Rightarrow> bool" where
  "snark_isAvailable ss = ss_isSetup ss"

text \<open>\<open>full_prove\<close> is \<open>groth16.fullProve\<close> on the given input.\<close>

definition generateProof ::
  "'v snark_lib \<Rightarrow> (json \<times> string list) res \<Rightarrow> 'v snark_service \<Rightarrow> 'v snark_service \<times> (json \<times> string list) res" where
  "generateProof lib full_prove ss =
     (case snark_initialize lib ss of (ss', initialized) \<Rightarrow>
        (ss', if \<not> initialized \<or> \<not> wasm_exists lib \<or> \<not> zkey_exists lib
              then Inl (Error ''Proof system not initialized. Circuit artifacts missing.'')
              else full_prove))"

text \<open>Affine coordinates; those of \<open>pi_b\<close> are swapped.\<close>

definition to_snarkjs :: "json \<Rightarrow> snark_proof res" where
  "to_snarkjs proof =
     bind (jprop (Some proof) ''pi_a'') (\<lambda>a.
     bind (jidx a 0) (\<lambda>a0. bind (jidx a 1) (\<lambda>a1.
     bind (jprop (Some proof) ''pi_b'') (\<lambda>b.
     bind (jidx b 0) (\<lambda>b0. bind (jidx b0 1) (\<lambda>b01. bind (jidx b0 0) (\<lambda>b00.
     bind (jidx b 1) (\<lambda>b1. bind (jidx b1 1) (\<lambda>b11. bind (jidx b1 0) (\<lambda>b10.
     bind (jprop (Some proof) ''pi_c'') (\<lambda>c.
     bind (jidx c 0) (\<lambda>c0. bind (jidx c 1) (\<lambda>c1.
     bind (jprop (Some proof) ''protocol'') (\<lambda>p.
       Inr \<lparr>sp_pi_a = [a0, a1], sp_pi_b = [[b01, b00], [b11, b10]], sp_pi_c = [c0, c1],
            sp_protocol = (if truthy p then p else Some (JStr ''groth16'')), sp_curve = ''bn128''\<rparr>))))))))))))))"

definition verifyProof ::
  "'v snark_lib \<Rightarrow> json \<Rightarrow> string list \<Rightarrow> 'v snark_service \<Rightarrow> 'v snark_service \<times> bool" where
  "verifyProof lib proof publicSignals ss =
     (case (if ss_isSetup ss then (ss, True) else snark_initialize lib ss) of (ss', initialized) \<Rightarrow>
        (ss', initialized \<and>
          (case bind (to_snarkjs proof) (\<lambda>p. case ss_vKey ss' of
                  None \<Rightarrow> Inl TypeError | Some key \<Rightarrow> groth16_verify lib key publicSignals p) of
             Inl _ \<Rightarrow> False | Inr isValid \<Rightarrow> isValid)))"

section \<open>The proof verifier\<close>

record request_public_inputs =
  pi_nullifier :: string
  pi_signalY :: string
  pi_accumulatorX :: string
  pi_accumulatorY :: string
  pi_merkleRoot :: string
  pi_maxCost :: int
  pi_signalX :: string

record 'v proof_verifier =
  pv_verificationCount :: nat
  pv_successful :: nat
  pv_failed :: nat
  pv_mock :: nat
  pv_snark :: "'v snark_service"
  pv_limiter :: limiter

definition isProductionReady :: "'v proof_verifier \<Rightarrow> bool" where
  "isProductionReady pv = snark_isAvailable (pv_snark pv)"

record metrics =
  m_total :: nat
  m_successful :: nat
  m_failed :: nat
  m_mock :: nat
  m_successRate :: jsnum
  m_usingRealVerification :: bool

definition getMetrics :: "'v proof_verifier \<Rightarrow> metrics" where
  "getMetrics pv =
     \<lparr>m_total = pv_verificationCount pv, m_successful = pv_successful pv, m_failed = pv_failed pv, m_mock = pv_mock pv,
      m_successRate = (if pv_verificationCount pv > 0
        then jmul (jdiv (jnat (pv_successful pv)) (jnat (pv_verificationCount pv))) (Fin 100) else Fin 0),
      m_usingRealVerification = snark_isAvailable (pv_snark pv)\<rparr>"

text \<open>What the chain answers: \<open>ethers.toBeHex(r, 32)\<close> and the contract's \<open>isKnownRoot\<close>.\<close>

record root_reads =
  toBeHex32 :: "int \<Rightarrow> string res"
  call_isKnownRoot :: "string \<Rightarrow> bool res"

text \<open>\<open>None\<close> is the code's \<open>null\<close>: the check is skipped.\<close>

definition verifier_isKnownRoot :: "root_reads \<Rightarrow> env \<Rightarrow> 'h blockchain \<Rightarrow> string \<Rightarrow> bool option res" where
  "verifier_isKnownRoot rd env bc merkleRoot =
     (case (if \<not> isAvailable bc then Inl (Error ''Blockchain service not initialized'')
            else isKnownRoot (toBeHex32 rd) (call_isKnownRoot rd) bc merkleRoot) of
        Inr b \<Rightarrow> Inr (Some b)
      | Inl _ \<Rightarrow> bind (isProd env) (\<lambda>production.
          if production then Inl (ServiceUnavailable ''Cannot verify the Merkle root against the chain'')
          else Inr None))"

fun map_res :: "('a \<Rightarrow> 'b res) \<Rightarrow> 'a list \<Rightarrow> 'b list res" where
  "map_res f [] = Inr []"
| "map_res f (x # xs) = bind (f x) (\<lambda>y. bind (map_res f xs) (\<lambda>ys. Inr (y # ys)))"

definition public_signals :: "request_public_inputs \<Rightarrow> string \<times> string \<Rightarrow> string list res" where
  "public_signals inputs serverKey =
     map_res (\<lambda>v. bind (toBigInt v) (\<lambda>n. Inr (dec_of_int n)))
       [pi_nullifier inputs, pi_signalY inputs, pi_accumulatorX inputs, pi_accumulatorY inputs,
        pi_merkleRoot inputs, dec_of_int (pi_maxCost inputs), pi_signalX inputs, fst serverKey, snd serverKey]"

definition verifyAgainstChainAndCircuit ::
  "'v snark_lib \<Rightarrow> root_reads \<Rightarrow> env \<Rightarrow> 'h blockchain \<Rightarrow> (string \<times> string) res \<Rightarrow> json \<Rightarrow> request_public_inputs
   \<Rightarrow> 'v proof_verifier \<Rightarrow> 'v proof_verifier \<times> bool res" where
  "verifyAgainstChainAndCircuit lib rd env bc serverKey proofData inputs pv =
     (case verifier_isKnownRoot rd env bc (pi_merkleRoot inputs) of
        Inl e \<Rightarrow> (pv, Inl e)
      | Inr (Some False) \<Rightarrow> (pv, Inr False)
      | Inr _ \<Rightarrow>
        let pv1 = pv\<lparr>pv_verificationCount := pv_verificationCount pv + 1\<rparr> in
        if \<not> snark_isAvailable (pv_snark pv1) then
          let pv2 = pv1\<lparr>pv_failed := pv_failed pv1 + 1\<rparr> in
          (pv2\<lparr>pv_failed := pv_failed pv2 + 1\<rparr>,
           Inl (Error ''Proof verification not available. Circuit artifacts not loaded.''))
        else
          (case bind serverKey (public_signals inputs) of
             Inl e \<Rightarrow> (pv1\<lparr>pv_failed := pv_failed pv1 + 1\<rparr>, Inl e)
           | Inr publicSignals \<Rightarrow>
             (case verifyProof lib proofData publicSignals (pv_snark pv1) of
                (ss', isValid) \<Rightarrow>
                  let pv2 = pv1\<lparr>pv_snark := ss'\<rparr> in
                  (if isValid then pv2\<lparr>pv_successful := pv_successful pv2 + 1\<rparr>
                   else pv2\<lparr>pv_failed := pv_failed pv2 + 1\<rparr>, Inr isValid))))"

definition structure_ok :: "json \<Rightarrow> bool res" where
  "structure_ok p =
     bind (jprop (Some p) ''protocol'') (\<lambda>protocol.
     if \<not> truthy protocol \<or> protocol \<noteq> Some (JStr ''groth16'') then Inr False
     else
       bind (jprop (Some p) ''pi_a'') (\<lambda>a. bind (jprop (Some p) ''pi_b'') (\<lambda>b. bind (jprop (Some p) ''pi_c'') (\<lambda>c.
       all_res [\<lambda>_. Inr (truthy a), \<lambda>_. Inr (truthy b), \<lambda>_. Inr (truthy c),
         \<lambda>_. has_length a 3, \<lambda>_. has_length b 2,
         \<lambda>_. bind (jidx b 0) (\<lambda>b0. has_length b0 3), \<lambda>_. bind (jidx b 1) (\<lambda>b1. has_length b1 3),
         \<lambda>_. has_length c 3]))))"

definition verify_request ::
  "'v snark_lib \<Rightarrow> root_reads \<Rightarrow> env \<Rightarrow> 'h blockchain \<Rightarrow> (string \<times> string) res \<Rightarrow> string \<Rightarrow> request_public_inputs
   \<Rightarrow> 'v proof_verifier \<Rightarrow> 'v proof_verifier \<times> bool res" where
  "verify_request lib rd env bc serverKey proof inputs pv =
     (case isProd env of
        Inl e \<Rightarrow> (pv, Inl e)
      | Inr production \<Rightarrow>
        if production \<and> \<not> snark_isAvailable (pv_snark pv) then
          (pv, Inl (Error ''Proof verification not available in production mode. Configure circuit artifacts.''))
        else if length proof < 10 then (pv, Inr False)
        else (case json_parse lib proof of
            Inl _ \<Rightarrow> (pv, Inr False)
          | Inr proofData \<Rightarrow>
            (case structure_ok proofData of
               Inl e \<Rightarrow> (pv, Inl e)
             | Inr False \<Rightarrow> (pv, Inr False)
             | Inr True \<Rightarrow>
               (case run_task (verifyAgainstChainAndCircuit lib rd env bc serverKey proofData inputs) (pv_limiter pv, pv) of
                  ((l, pv'), r) \<Rightarrow> (pv'\<lparr>pv_limiter := l\<rparr>, r)))))"

section \<open>Facts\<close>

lemma verifyProof_ok:
  "verifyProof lib proof signals ss = (ss', True) \<Longrightarrow> ss_isSetup ss \<Longrightarrow>
   \<exists>p key. to_snarkjs proof = Inr p \<and> ss_vKey ss = Some key \<and> groth16_verify lib key signals p = Inr True \<and> ss' = ss"
  by (auto simp: verifyProof_def bind_def split: sum.splits option.splits)

lemma verifyAgainst_ok:
  assumes "verifyAgainstChainAndCircuit lib rd env bc serverKey proof inputs pv = (pv', Inr True)"
  obtains known key signals p vk where
    "verifier_isKnownRoot rd env bc (pi_merkleRoot inputs) = Inr known" "known \<noteq> Some False"
    "serverKey = Inr key" "public_signals inputs key = Inr signals"
    "to_snarkjs proof = Inr p" "ss_vKey (pv_snark pv) = Some vk" "groth16_verify lib vk signals p = Inr True"
proof (cases "verifier_isKnownRoot rd env bc (pi_merkleRoot inputs)")
  case (Inl e)
  with assms show thesis by (simp add: verifyAgainstChainAndCircuit_def)
next
  case (Inr known)
  with assms have nf: "known \<noteq> Some False" and av: "ss_isSetup (pv_snark pv)"
    by (auto simp: verifyAgainstChainAndCircuit_def Let_def snark_isAvailable_def split: option.splits bool.splits if_splits)
  obtain signals where sg: "bind serverKey (public_signals inputs) = Inr signals"
    using assms Inr nf av
    by (cases "bind serverKey (public_signals inputs)")
      (auto simp: verifyAgainstChainAndCircuit_def Let_def snark_isAvailable_def split: option.splits bool.splits)
  then obtain key where "serverKey = Inr key" "public_signals inputs key = Inr signals" by (auto simp: bind_eq_Inr)
  moreover have "\<exists>ss'. verifyProof lib proof signals (pv_snark pv) = (ss', True)"
    using assms Inr nf av sg
    by (auto simp: verifyAgainstChainAndCircuit_def Let_def snark_isAvailable_def
        split: option.splits bool.splits prod.splits if_splits)
  ultimately show thesis using that Inr nf verifyProof_ok [OF _ av] by blast
qed

lemma verify_request_ok:
  assumes "verify_request lib rd env bc serverKey proof inputs pv = (pv', Inr True)"
  obtains production pd pv1 where "isProd env = Inr production" "json_parse lib proof = Inr pd" "structure_ok pd = Inr True"
    "verifyAgainstChainAndCircuit lib rd env bc serverKey pd inputs pv = (pv1, Inr True)"
  using assms
  by (auto simp: verify_request_def run_task_def run_enter_def run_exit_def
      split: sum.splits if_splits bool.splits prod.splits)

text \<open>The nine public signals, one by one.\<close>

lemma public_signals_ok:
  assumes "public_signals inputs (kx, ky) = Inr signals" "0 \<le> pi_maxCost inputs"
  obtains n y ax ay root x k1 k2 where "signals = map dec_of_int [n, y, ax, ay, root, pi_maxCost inputs, x, k1, k2]"
    "toBigInt (pi_nullifier inputs) = Inr n" "toBigInt (pi_signalY inputs) = Inr y"
    "toBigInt (pi_accumulatorX inputs) = Inr ax" "toBigInt (pi_accumulatorY inputs) = Inr ay"
    "toBigInt (pi_merkleRoot inputs) = Inr root" "toBigInt (pi_signalX inputs) = Inr x"
    "toBigInt kx = Inr k1" "toBigInt ky = Inr k2"
  using assms by (auto simp: public_signals_def bind_eq_Inr toBigInt_dec)

lemma cval_lower: "cval (to_lower_char c) = (if 65 \<le> cval c \<and> cval c \<le> 90 then cval c + 32 else cval c)"
  by (simp add: to_lower_char_def cval_def)

lemma hex_prefix:
  assumes "list_all is_hex t" "toLowerCase (take 2 t) \<in> {''0x'', ''0o'', ''0b''}"
  shows "toLowerCase (take 2 t) = ''0b''"
proof -
  from assms(2) obtain c d u where t: "t = c # d # u" by (cases t; cases "tl t") (auto simp: toLowerCase_def)
  have "cval (to_lower_char d) \<noteq> cval CHR ''x''" "cval (to_lower_char d) \<noteq> cval CHR ''o''"
    using assms(1) t by (auto simp: cval_lower is_hex_def is_digit_def cval_def [of "CHR ''x''"] cval_def [of "CHR ''o''"])
  with assms(2) t show ?thesis by (auto simp: toLowerCase_def)
qed

text \<open>What the two readings of a root text have in common: \<open>BigInt\<close> reads a text the DTO accepts as the
  circuit's signal does, unless it is negative or is bare hex that looks like a binary literal.\<close>

lemma root_readings:
  assumes "IsFieldElement t" "BigInt_of_string t = Inr r" "toBigInt t = Inr s" "0 \<le> r"
  shows "r = s \<or> toLowerCase (take 2 t) = ''0b''"
  using assms(1)
proof (cases rule: field_element_cases)
  case (prefixed ds)
  then show ?thesis using assms(2,3) field_element_trim [OF assms(1)] by (simp add: toBigInt_def Let_def)
next
  case digits
  then show ?thesis using assms(2,3) BigInt_of_string_digits toBigInt_digits by simp
next
  case bare
  obtain c u where t: "t = c # u" using bare(2) by (cases t) auto
  have "cval c \<noteq> cval CHR ''+''" "cval c \<noteq> cval CHR ''-''"
    using bare(1) t by (auto simp: is_hex_def is_digit_def cval_def [of "CHR ''+''"] cval_def [of "CHR ''-''"])
  then have "decimal_literal t = Inl SyntaxError" using bare(3) t by (auto simp: decimal_literal_def)
  then have "toLowerCase (take 2 t) \<in> {''0x'', ''0o'', ''0b''}"
    using assms(2) field_element_trim [OF assms(1)] bare(2) by (auto simp: BigInt_of_string_def Let_def split: if_splits)
  with hex_prefix [OF bare(1)] show ?thesis by simp
next
  case (negative ds)
  have "\<not> startsWith t ''-0x''"
    using negative by (cases ds; cases "tl ds") (auto simp: is_digit_def cval_def)
  then show ?thesis using negative assms field_element_trim [OF assms(1)] BigInt_of_string_neg [OF negative(2,3)]
    by (simp add: toBigInt_def Let_def signed_digits_def all_digits_def)
qed

text \<open>What the answer about the root means: the contract answered that it knows the number \<open>BigInt\<close>
  reads in the text; or, outside production only, the chain could not be asked and the check was skipped.\<close>

lemma known_root_ok:
  assumes "verifier_isKnownRoot rd env bc t = Inr known" "known \<noteq> Some False"
  obtains (skipped) "isProd env = Inr False" "known = None"
    | (known) r h where "BigInt_of_string t = Inr r" "toBeHex32 rd r = Inr h" "call_isKnownRoot rd h = Inr True"
proof (cases "isProd env = Inr False \<and> known = None")
  case False
  with assms have "\<exists>r h. BigInt_of_string t = Inr r \<and> toBeHex32 rd r = Inr h \<and> call_isKnownRoot rd h = Inr True"
    by (auto simp: verifier_isKnownRoot_def isKnownRoot_def bind_def split: sum.splits if_splits bool.splits)
  then show thesis using known by blast
qed (use skipped in blast)

text \<open>C15 An accepted proof is a verified one.  When \<open>verify\<close> returns true, the circuit's verifier accepted
  the parsed proof, with the loaded key, for the decimal texts of nine numbers in the circuit's order:
  the nullifier, y, the two coordinates of the accumulator, the root, \<open>C_MAX\<close>, x and the two coordinates
  of this server's public key, each as \<open>toBigInt\<close> reads it.  The contract answered that it knows the
  number \<open>BigInt\<close> reads in the root's text; the one exception is outside production, when the chain
  could not be asked.  That number is the root the proof is about, except for a root written as bare
  hex that begins with 0b, where the two readings differ (\<open>root_read_twice\<close>).  Of ethers it is used
  that \<open>toBeHex\<close> refuses a negative number.\<close>

theorem verify_request_sound:
  assumes "verify_request lib rd env bc serverKey proof inputs pv = (pv', Inr True)"
    "IsFieldElement (pi_merkleRoot inputs)" "0 \<le> pi_maxCost inputs" "\<forall>r < 0. \<not> is_ok (toBeHex32 rd r)"
  shows "\<exists>pd p vk kx ky n y ax ay root x k1 k2. json_parse lib proof = Inr pd \<and> to_snarkjs pd = Inr p
    \<and> ss_vKey (pv_snark pv) = Some vk \<and> serverKey = Inr (kx, ky)
    \<and> toBigInt (pi_nullifier inputs) = Inr n \<and> toBigInt (pi_signalY inputs) = Inr y
    \<and> toBigInt (pi_accumulatorX inputs) = Inr ax \<and> toBigInt (pi_accumulatorY inputs) = Inr ay
    \<and> toBigInt (pi_merkleRoot inputs) = Inr root \<and> toBigInt (pi_signalX inputs) = Inr x
    \<and> toBigInt kx = Inr k1 \<and> toBigInt ky = Inr k2
    \<and> groth16_verify lib vk (map dec_of_int [n, y, ax, ay, root, pi_maxCost inputs, x, k1, k2]) p = Inr True
    \<and> (isProd env = Inr False \<and> verifier_isKnownRoot rd env bc (pi_merkleRoot inputs) = Inr None
       \<or> (\<exists>r h. BigInt_of_string (pi_merkleRoot inputs) = Inr r \<and> toBeHex32 rd r = Inr h \<and> call_isKnownRoot rd h = Inr True
            \<and> (r = root \<or> toLowerCase (take 2 (pi_merkleRoot inputs)) = ''0b'')))"
proof -
  from assms(1) obtain production pd pv1 where pd: "json_parse lib proof = Inr pd" and
    v: "verifyAgainstChainAndCircuit lib rd env bc serverKey pd inputs pv = (pv1, Inr True)"
    by (rule verify_request_ok)
  from v obtain known key signals p vk where
    k: "verifier_isKnownRoot rd env bc (pi_merkleRoot inputs) = Inr known" "known \<noteq> Some False"
    and rest: "serverKey = Inr key" "public_signals inputs key = Inr signals"
      "to_snarkjs pd = Inr p" "ss_vKey (pv_snark pv) = Some vk" "groth16_verify lib vk signals p = Inr True"
    by (rule verifyAgainst_ok)
  obtain kx ky where key: "key = (kx, ky)" by (cases key)
  from rest(2) [unfolded key] assms(3) obtain n y ax ay root x k1 k2 where
    sg: "signals = map dec_of_int [n, y, ax, ay, root, pi_maxCost inputs, x, k1, k2]"
    and ns: "toBigInt (pi_nullifier inputs) = Inr n" "toBigInt (pi_signalY inputs) = Inr y"
    "toBigInt (pi_accumulatorX inputs) = Inr ax" "toBigInt (pi_accumulatorY inputs) = Inr ay"
    "toBigInt (pi_merkleRoot inputs) = Inr root" "toBigInt (pi_signalX inputs) = Inr x"
    "toBigInt kx = Inr k1" "toBigInt ky = Inr k2"
    by (rule public_signals_ok)
  have "isProd env = Inr False \<and> verifier_isKnownRoot rd env bc (pi_merkleRoot inputs) = Inr None
       \<or> (\<exists>r h. BigInt_of_string (pi_merkleRoot inputs) = Inr r \<and> toBeHex32 rd r = Inr h \<and> call_isKnownRoot rd h = Inr True
            \<and> (r = root \<or> toLowerCase (take 2 (pi_merkleRoot inputs)) = ''0b''))"
    using k
  proof (cases rule: known_root_ok)
    case (known r h)
    then have "\<not> r < 0" using assms(4) by auto
    with known root_readings [OF assms(2) known(1) ns(5)] show ?thesis by auto
  qed (use k in simp)
  with pd rest(1,3-5) sg ns key show ?thesis by blast
qed

definition sample_proof :: json where
  "sample_proof = JObj [(''protocol'', JStr ''groth16''),
     (''pi_a'', JArr [JStr ''1'', JStr ''2'', JStr ''1'']),
     (''pi_b'', JArr [JArr [JStr ''1'', JStr ''2'', JStr ''1''], JArr [JStr ''3'', JStr ''4'', JStr ''1'']]),
     (''pi_c'', JArr [JStr ''5'', JStr ''6'', JStr ''1''])]"

definition sample_snark :: "nat snark_lib" where
  "sample_snark = \<lparr>require_snarkjs = Inr (), vkey_file = Some (Inr 1), vkey_delta_ok = \<lambda>_. True,
     groth16_verify = \<lambda>k s p. Inr True, wasm_exists = True, zkey_exists = True, json_parse = \<lambda>_. Inr sample_proof\<rparr>"

definition sample_inputs :: request_public_inputs where
  "sample_inputs = \<lparr>pi_nullifier = ''1'', pi_signalY = ''2'', pi_accumulatorX = ''3'', pi_accumulatorY = ''4'',
     pi_merkleRoot = ''5'', pi_maxCost = 6, pi_signalX = ''7''\<rparr>"

definition sample_reads :: root_reads where
  "sample_reads = \<lparr>toBeHex32 = \<lambda>_. Inr ''0x5'', call_isKnownRoot = \<lambda>_. Inr True\<rparr>"

definition sample_verifier :: "nat proof_verifier" where
  "sample_verifier = \<lparr>pv_verificationCount = 0, pv_successful = 0, pv_failed = 0, pv_mock = 0,
     pv_snark = \<lparr>ss_vKey = Some 1, ss_isSetup = True\<rparr>, pv_limiter = \<lparr>lim_max = 8, lim_active = 0\<rparr>\<rparr>"

lemma sample_structure: "structure_ok sample_proof = Inr True" "is_ok (to_snarkjs sample_proof)"
  by (simp_all add: structure_ok_def sample_proof_def has_length_def to_snarkjs_def)

lemma toBigInt_sample:
  "toBigInt ''1'' = Inr 1" "toBigInt ''2'' = Inr 2" "toBigInt ''3'' = Inr 3" "toBigInt ''4'' = Inr 4"
  "toBigInt ''5'' = Inr 5" "toBigInt ''6'' = Inr 6" "toBigInt ''7'' = Inr 7" "toBigInt ''8'' = Inr 8"
  by code_simp+

lemma sample_signals: "is_ok (public_signals sample_inputs (''8'', ''8''))"
proof -
  have "dec_of_int 6 = ''6''" by code_simp
  then show ?thesis by (simp add: public_signals_def sample_inputs_def toBigInt_sample)
qed

lemma sample_verifies:
  "snd (verify_request sample_snark sample_reads [(''NODE_ENV'', ''production'')]
     (bc_init\<lparr>bc_contract := Some ''0xc'', bc_provider := Some ''rpc''\<rparr> :: nat blockchain) (Inr (''8'', ''8''))
     ''{\"protocol\": ...}'' sample_inputs sample_verifier) = Inr True"
proof -
  obtain sg where sg: "public_signals sample_inputs (''8'', ''8'') = Inr sg"
    using sample_signals by (cases "public_signals sample_inputs (''8'', ''8'')") auto
  obtain p where p: "to_snarkjs sample_proof = Inr p"
    using sample_structure(2) by (cases "to_snarkjs sample_proof") auto
  have b: "BigInt_of_string ''5'' = Inr 5" by code_simp
  have e: "isProd [(''NODE_ENV'', ''production'')] = Inr True" by code_simp
  have "verifier_isKnownRoot sample_reads [(''NODE_ENV'', ''production'')]
      (bc_init\<lparr>bc_contract := Some ''0xc'', bc_provider := Some ''rpc''\<rparr> :: nat blockchain) (pi_merkleRoot sample_inputs)
      = Inr (Some True)"
    by (simp add: verifier_isKnownRoot_def isAvailable_def isKnownRoot_def connected_def sample_inputs_def b sample_reads_def)
  then show ?thesis
    by (simp add: verify_request_def e snark_isAvailable_def sample_verifier_def sample_snark_def sample_structure(1)
        run_task_def run_enter_def verifyAgainstChainAndCircuit_def sg verifyProof_def p)
qed

text \<open>A verifier and a contract that accept one thing each: the proof's point for the nine signals of the
  sample request, and the root 5.\<close>

definition strict_snark :: "nat snark_lib" where
  "strict_snark = sample_snark\<lparr>groth16_verify := \<lambda>k s p. Inr (k = 1 \<and> sp_pi_a p = [Some (JStr ''1''), Some (JStr ''2'')]
     \<and> s = [''1'', ''2'', ''3'', ''4'', ''5'', ''6'', ''7'', ''8'', ''8''])\<rparr>"

definition strict_reads :: root_reads where
  "strict_reads = \<lparr>toBeHex32 = \<lambda>r. if r < 0 then Inl RangeError else Inr (''0x'' @ padStart 64 CHR ''0'' (dec_of_int r)),
     call_isKnownRoot = \<lambda>h. Inr (h = ''0x'' @ padStart 64 CHR ''0'' (dec_of_int 5))\<rparr>"

definition strict_run :: "request_public_inputs \<Rightarrow> nat proof_verifier \<times> bool res" where
  "strict_run inputs = verify_request strict_snark strict_reads [(''NODE_ENV'', ''production'')]
     (bc_init\<lparr>bc_contract := Some ''0xc'', bc_provider := Some ''rpc''\<rparr> :: nat blockchain) (Inr (''8'', ''8''))
     ''{\"protocol\": ...}'' inputs sample_verifier"

lemma strict_runs:
  "snd (strict_run sample_inputs) = Inr True" "snd (strict_run (sample_inputs\<lparr>pi_signalX := ''6''\<rparr>)) = Inr False"
  "snd (strict_run (sample_inputs\<lparr>pi_merkleRoot := ''6''\<rparr>)) = Inr False"
  by code_simp+

theorem verify_request_sound_witness:
  "\<exists>pv' p. strict_run sample_inputs = (pv', Inr True) \<and> to_snarkjs sample_proof = Inr p
     \<and> groth16_verify strict_snark 1 (map dec_of_int [1, 2, 3, 4, 5, 6, 7, 8, 8]) p = Inr True
     \<and> call_isKnownRoot strict_reads (''0x'' @ padStart 64 CHR ''0'' (dec_of_int 5)) = Inr True
     \<and> snd (strict_run (sample_inputs\<lparr>pi_signalX := ''6''\<rparr>)) = Inr False
     \<and> snd (strict_run (sample_inputs\<lparr>pi_merkleRoot := ''6''\<rparr>)) = Inr False"
proof -
  obtain pv' where v: "strict_run sample_inputs = (pv', Inr True)" using strict_runs(1) by (metis prod.collapse)
  have r: "IsFieldElement (pi_merkleRoot sample_inputs)" "BigInt_of_string ''5'' = Inr 5" by code_simp+
  have e: "isProd [(''NODE_ENV'', ''production'')] = Inr True" by code_simp
  have h: "\<forall>r < 0. \<not> is_ok (toBeHex32 strict_reads r)" by (simp add: strict_reads_def)
  have j: "json_parse strict_snark u = Inr sample_proof" "ss_vKey (pv_snark sample_verifier) = Some 1" for u
    by (simp_all add: strict_snark_def sample_snark_def sample_verifier_def)
  from verify_request_sound [OF v [unfolded strict_run_def] r(1) _ h] show ?thesis
    using v strict_runs(2,3) r(2) e by (auto simp: sample_inputs_def toBigInt_sample j strict_reads_def)
qed

text \<open>When the circuit artifacts are missing outside production, one attempt is counted as one
  verification and two failures, so the totals of the metrics do not add up.\<close>

theorem missing_artifacts_counted_twice:
  assumes "verifier_isKnownRoot rd env bc (pi_merkleRoot inputs) = Inr known" "known \<noteq> Some False"
    "\<not> snark_isAvailable (pv_snark pv)"
    "verifyAgainstChainAndCircuit lib rd env bc serverKey proof inputs pv = (pv', r)"
  shows "m_total (getMetrics pv') = m_total (getMetrics pv) + 1 \<and> m_failed (getMetrics pv') = m_failed (getMetrics pv) + 2
    \<and> \<not> is_ok r"
  using assms
  by (auto simp: verifyAgainstChainAndCircuit_def Let_def getMetrics_def split: option.splits bool.splits)

theorem missing_artifacts_counted_twice_witness:
  "\<exists>pv' r. verifyAgainstChainAndCircuit sample_snark sample_reads [(''NODE_ENV'', ''test'')] (bc_init :: nat blockchain)
     (Inr (''8'', ''8'')) sample_proof sample_inputs (sample_verifier\<lparr>pv_snark := ss_init\<rparr>) = (pv', r)
     \<and> m_failed (getMetrics pv') = 2"
proof -
  obtain pv' r where v: "verifyAgainstChainAndCircuit sample_snark sample_reads [(''NODE_ENV'', ''test'')]
     (bc_init :: nat blockchain) (Inr (''8'', ''8'')) sample_proof sample_inputs (sample_verifier\<lparr>pv_snark := ss_init\<rparr>) = (pv', r)"
    by (metis surj_pair)
  have e: "isProd [(''NODE_ENV'', ''test'')] = Inr False" by code_simp
  have k: "verifier_isKnownRoot sample_reads [(''NODE_ENV'', ''test'')] (bc_init :: nat blockchain) (pi_merkleRoot sample_inputs) = Inr None"
    by (simp add: verifier_isKnownRoot_def isAvailable_def bc_init_def e)
  from missing_artifacts_counted_twice [OF k _ _ v] v show ?thesis
    by (simp add: snark_isAvailable_def ss_init_def sample_verifier_def getMetrics_def)
qed

text \<open>The chain check and the circuit check can read one root text differently: the accepted bare-hex
  text 0b11 is the number 3 for \<open>BlockchainService.isKnownRoot\<close> and 2833 for the public signals.\<close>

theorem root_read_twice:
  "IsFieldElement ''0b11'' \<and> BigInt_of_string ''0b11'' = Inr 3 \<and> toBigInt ''0b11'' = Inr 2833"
  by code_simp

end
