(* ===== verification/Slashing.thy ===== *)
theory Slashing
  imports Blockchain PayloadSignal
begin

text \<open>
  \<open>src/src/longjing/slashing.service.ts\<close>: recovering a note's secret key from two RLN signals
  under one nullifier, and slashing the note.

  An honest signal is the line \<open>y = k + a * x\<close> over the field, with \<open>k\<close> the secret key and \<open>a\<close>
  fixed by the index, so two points of one line give \<open>k\<close>.  The contract call and the wait for
  its receipt are parameters; the keys the service passes to the contract are a log, the effect
  the outside sees.

  Shown: two signals of one line with different \<open>x\<close> give back exactly \<open>k\<close>; with the same \<open>x\<close> the
  routine throws; one signal alone fits every key; and \<open>slashRevealed\<close> never throws, and submits
  \<open>k\<close> once when a contract and a signer are there.
\<close>

section \<open>Key recovery\<close>

record rln_signal =
  sig_x :: int
  sig_y :: int

function inverse_loop :: "int \<Rightarrow> int \<Rightarrow> int \<Rightarrow> int" where
  "inverse_loop invr base e =
     (if 0 < e
      then inverse_loop (if odd e then js_rem (invr * base) BN254_SCALAR_FIELD else invr)
             (js_rem (base * base) BN254_SCALAR_FIELD) (e div 2)
      else invr)"
  by pat_completeness auto
termination
  by (relation "measure (\<lambda>(invr, base, e). nat e)") auto

declare inverse_loop.simps [simp del]

definition signal_mod :: "int \<Rightarrow> int" where
  "signal_mod v = js_rem (js_rem v BN254_SCALAR_FIELD + BN254_SCALAR_FIELD) BN254_SCALAR_FIELD"

definition recoverSecretKey :: "rln_signal \<Rightarrow> rln_signal \<Rightarrow> int res" where
  "recoverSecretKey signal1 signal2 =
     (let denominator = signal_mod (sig_x signal2 - sig_x signal1) in
      if denominator = 0 then Inl (Error ''Signals share x, so they reveal nothing'')
      else
        let invr = inverse_loop 1 denominator (BN254_SCALAR_FIELD - 2) in
        Inr (signal_mod ((sig_y signal1 * sig_x signal2 - sig_y signal2 * sig_x signal1) * invr)))"

section \<open>The slashing transaction\<close>

definition slashingContract :: "'h blockchain \<Rightarrow> (string \<times> string) option" where
  "slashingContract bc =
     (case (getSigner bc, getContractAddress bc) of
        (Some signer, Some address) \<Rightarrow> if address = [] then None else Some (address, signer)
      | _ \<Rightarrow> None)"

definition isEnabled :: "'h blockchain \<Rightarrow> bool" where
  "isEnabled bc = (slashingContract bc \<noteq> None)"

text \<open>\<open>call\<close> is \<open>contract.slash\<close> (the transaction hash, or a failure), \<open>receipt\<close> is \<open>tx.wait\<close>.\<close>

record slash_chain =
  call :: "int \<Rightarrow> string res"
  receipt :: "string \<Rightarrow> unit res"

definition slash ::
  "slash_chain \<Rightarrow> 'h blockchain \<Rightarrow> int \<Rightarrow> int list \<Rightarrow> int list \<times> string option res" where
  "slash sc bc secretKey log =
     (if slashingContract bc = None then (log, Inr None)
      else
        (log @ [secretKey],
         case bind (call sc secretKey) (\<lambda>txHash. bind (receipt sc txHash) (\<lambda>_. Inr txHash)) of
           Inl _ \<Rightarrow> Inl (Error ''Slashing transaction failed'')
         | Inr txHash \<Rightarrow> Inr (Some txHash)))"

record stored_signal =
  st_x :: string
  st_y :: string

definition slashRevealed ::
  "slash_chain \<Rightarrow> 'h blockchain \<Rightarrow> stored_signal \<Rightarrow> stored_signal \<Rightarrow> int list \<Rightarrow> int list" where
  "slashRevealed sc bc signal1 signal2 log =
     (if \<not> isEnabled bc then log
      else
        (case bind (BigInt_of_string (st_x signal1)) (\<lambda>x1.
              bind (BigInt_of_string (st_y signal1)) (\<lambda>y1.
              bind (BigInt_of_string (st_x signal2)) (\<lambda>x2.
              bind (BigInt_of_string (st_y signal2)) (\<lambda>y2.
                recoverSecretKey \<lparr>sig_x = x1, sig_y = y1\<rparr> \<lparr>sig_x = x2, sig_y = y2\<rparr>)))) of
           Inl _ \<Rightarrow> log
         | Inr secretKey \<Rightarrow> fst (slash sc bc secretKey log)))"

definition getSlasherAddress :: "'h blockchain \<Rightarrow> string option" where
  "getSlasherAddress bc = getSigner bc"

section \<open>Facts\<close>

lemma inverse_loop_pow: "inverse_loop r b e = pow_loop r b e"
proof (induction r b e rule: inverse_loop.induct)
  case (1 r b e)
  then show ?case
    by (simp add: inverse_loop.simps [of r b e] pow_loop.simps [of r b e] BN254_FIELD)
qed

lemma signal_mod_eq: "signal_mod v = v mod FIELD_MODULUS"
  by (simp add: signal_mod_def BN254_FIELD js_canonical_mod)

lemma inverse_loop_inv: "inverse_loop 1 (d mod FIELD_MODULUS) (BN254_SCALAR_FIELD - 2) = inv d"
  by (simp add: inverse_loop_pow inv_def pow_def BN254_FIELD)

lemma recoverSecretKey_eq:
  "recoverSecretKey s1 s2 =
     (if (sig_x s2 - sig_x s1) mod FIELD_MODULUS = 0
      then Inl (Error ''Signals share x, so they reveal nothing'')
      else Inr ((sig_y s1 * sig_x s2 - sig_y s2 * sig_x s1) * inv (sig_x s2 - sig_x s1) mod FIELD_MODULUS))"
  by (simp add: recoverSecretKey_def Let_def signal_mod_eq inverse_loop_inv)

text \<open>A signal on the line of secret key \<open>k\<close> and slope \<open>a\<close>.\<close>

definition on_line :: "int \<Rightarrow> int \<Rightarrow> rln_signal \<Rightarrow> bool" where
  "on_line k a s = ((k + a * sig_x s) mod FIELD_MODULUS = sig_y s mod FIELD_MODULUS)"

lemma mod_eq_mult: "a mod p = b mod p \<Longrightarrow> a * c mod p = b * c mod p" for a b c p :: int
  by (metis mod_mult_left_eq)

lemma mod_eq_diff:
  "a mod p = b mod p \<Longrightarrow> c mod p = d mod p \<Longrightarrow> (a - c) mod p = (b - d) mod p" for a b c d p :: int
  by (metis mod_diff_eq)

lemma recover_on_line:
  assumes "on_line k a s1" "on_line k a s2" "(sig_x s2 - sig_x s1) mod FIELD_MODULUS \<noteq> 0"
  shows "recoverSecretKey s1 s2 = Inr (k mod FIELD_MODULUS)"
proof -
  let ?x1 = "sig_x s1" and ?x2 = "sig_x s2" and ?y1 = "sig_y s1" and ?y2 = "sig_y s2"
  have "(?y1 * ?x2 - ?y2 * ?x1) mod FIELD_MODULUS
      = ((k + a * ?x1) * ?x2 - (k + a * ?x2) * ?x1) mod FIELD_MODULUS"
    using assms(1,2) unfolding on_line_def by (intro mod_eq_diff mod_eq_mult) simp_all
  also have "(k + a * ?x1) * ?x2 - (k + a * ?x2) * ?x1 = k * (?x2 - ?x1)"
    by (simp add: algebra_simps)
  finally have "(?y1 * ?x2 - ?y2 * ?x1) * inv (?x2 - ?x1) mod FIELD_MODULUS
      = k * (?x2 - ?x1) * inv (?x2 - ?x1) mod FIELD_MODULUS"
    by (rule mod_eq_mult)
  also have "\<dots> = k * ((?x2 - ?x1) * inv (?x2 - ?x1) mod FIELD_MODULUS) mod FIELD_MODULUS"
    by (simp only: mod_mult_right_eq mult.assoc)
  also have "\<dots> = k mod FIELD_MODULUS" by (simp add: inv_eq [OF assms(3)])
  finally show ?thesis using assms(3) by (simp add: recoverSecretKey_eq)
qed

text \<open>Double-spending reveals the key: from two signals of one line (one secret key and one index)
  whose \<open>x\<close> differ in the field, \<open>recoverSecretKey\<close> returns exactly the secret key.  From two
  signals with the same \<open>x\<close> it throws.\<close>

theorem double_spend_reveals_key:
  assumes "on_line k a s1" "on_line k a s2" "0 \<le> k" "k < FIELD_MODULUS"
  shows "recoverSecretKey s1 s2 =
    (if sig_x s1 mod FIELD_MODULUS = sig_x s2 mod FIELD_MODULUS
     then Inl (Error ''Signals share x, so they reveal nothing'') else Inr k)"
proof (cases "(sig_x s2 - sig_x s1) mod FIELD_MODULUS = 0")
  case True
  then have "sig_x s1 mod FIELD_MODULUS = sig_x s2 mod FIELD_MODULUS"
    by (metis mod_eq_dvd_iff dvd_eq_mod_eq_0)
  with True show ?thesis by (simp add: recoverSecretKey_eq)
next
  case False
  then have "sig_x s1 mod FIELD_MODULUS \<noteq> sig_x s2 mod FIELD_MODULUS"
    by (metis mod_eq_dvd_iff dvd_eq_mod_eq_0)
  with recover_on_line [OF assms(1,2) False] assms(3,4) show ?thesis by simp
qed

theorem double_spend_reveals_key_witness:
  "recoverSecretKey \<lparr>sig_x = 3, sig_y = 42 + 10 * 3\<rparr> \<lparr>sig_x = 5, sig_y = 42 + 10 * 5\<rparr> = Inr 42"
proof -
  have p: "(5 :: int) < FIELD_MODULUS" "(42 :: int) < FIELD_MODULUS"
    by (simp_all add: FIELD_MODULUS_def)
  then have x: "(3 :: int) mod FIELD_MODULUS \<noteq> 5 mod FIELD_MODULUS" by simp
  show ?thesis
    using double_spend_reveals_key [of 42 10 "\<lparr>sig_x = 3, sig_y = 42 + 10 * 3\<rparr>"
        "\<lparr>sig_x = 5, sig_y = 42 + 10 * 5\<rparr>"] p x
    by (simp add: on_line_def)
qed

text \<open>One signal says nothing about the key: for a signal with non-zero \<open>x\<close>, every secret key lies
  on exactly one line through it.\<close>

theorem one_signal_fits_every_key:
  assumes "sig_x s mod FIELD_MODULUS \<noteq> 0"
  shows "\<forall>k. \<exists>!a. reduced a \<and> on_line k a s"
proof
  fix k
  let ?x = "sig_x s" and ?y = "sig_y s"
  show "\<exists>!a. reduced a \<and> on_line k a s"
  proof (rule ex1I)
    let ?a = "(?y - k) * inv ?x mod FIELD_MODULUS"
    have "?a * ?x mod FIELD_MODULUS = (?y - k) * (?x * inv ?x mod FIELD_MODULUS) mod FIELD_MODULUS"
      by (simp only: mod_mult_left_eq mod_mult_right_eq) (simp only: mult_ac)
    then have "?a * ?x mod FIELD_MODULUS = (?y - k) mod FIELD_MODULUS" by (simp add: inv_eq [OF assms])
    then have "(k + ?a * ?x) mod FIELD_MODULUS = (k + (?y - k)) mod FIELD_MODULUS"
      by (rule mod_add_cong [OF refl])
    then show "reduced ?a \<and> on_line k ?a s" by (simp add: on_line_def)
  next
    fix b
    assume b: "reduced b \<and> on_line k b s"
    have "b * ?x mod FIELD_MODULUS = (k + b * ?x - k) mod FIELD_MODULUS" by simp
    also have "\<dots> = (?y - k) mod FIELD_MODULUS"
      using b unfolding on_line_def by (intro mod_eq_diff) simp_all
    finally have "b * ?x * inv ?x mod FIELD_MODULUS = (?y - k) * inv ?x mod FIELD_MODULUS"
      by (rule mod_eq_mult)
    moreover have "b * ?x * inv ?x mod FIELD_MODULUS = b * (?x * inv ?x mod FIELD_MODULUS) mod FIELD_MODULUS"
      by (simp only: mod_mult_right_eq mult.assoc)
    ultimately show "b = (?y - k) * inv ?x mod FIELD_MODULUS"
      using b by (simp add: inv_eq [OF assms])
  qed
qed

theorem one_signal_fits_every_key_witness:
  "\<exists>!a. reduced a \<and> on_line 7 a \<lparr>sig_x = 3, sig_y = 72\<rparr>"
proof -
  have "(3 :: int) < FIELD_MODULUS" by (simp add: FIELD_MODULUS_def)
  then show ?thesis using one_signal_fits_every_key [of "\<lparr>sig_x = 3, sig_y = 72\<rparr>"] by simp
qed

definition signal_text :: "rln_signal \<Rightarrow> stored_signal" where
  "signal_text s = \<lparr>st_x = dec_of_int (sig_x s), st_y = dec_of_int (sig_y s)\<rparr>"

lemma slashRevealed_text:
  "slashRevealed sc bc (signal_text s1) (signal_text s2) log =
     (if \<not> isEnabled bc then log
      else case recoverSecretKey s1 s2 of Inl _ \<Rightarrow> log | Inr k \<Rightarrow> log @ [k])"
  by (cases s1; cases s2)
    (simp add: slashRevealed_def signal_text_def slash_def isEnabled_def split: sum.split)

text \<open>With a contract and a signer, two stored signals of one line with different \<open>x\<close> make the
  service submit exactly one slashing transaction, carrying the secret key, whatever the chain
  answers; without a contract or a signer it submits none.\<close>

theorem slashRevealed_submits_key:
  assumes "on_line k a s1" "on_line k a s2" "reduced k"
    "sig_x s1 mod FIELD_MODULUS \<noteq> sig_x s2 mod FIELD_MODULUS"
  shows "slashRevealed sc bc (signal_text s1) (signal_text s2) log = (if isEnabled bc then log @ [k] else log)"
proof -
  have "(sig_x s2 - sig_x s1) mod FIELD_MODULUS \<noteq> 0"
    using assms(4) by (metis mod_eq_dvd_iff dvd_eq_mod_eq_0)
  from recover_on_line [OF assms(1,2) this] assms(3) show ?thesis
    by (simp add: slashRevealed_text)
qed

theorem slashRevealed_submits_key_witness:
  "slashRevealed \<lparr>call = \<lambda>_. Inr ''0xh'', receipt = \<lambda>_. Inr ()\<rparr> (bc_init\<lparr>bc_contract := Some ''0xc'', bc_wallet := Some ''0xw''\<rparr>)
     (signal_text \<lparr>sig_x = 3, sig_y = 72\<rparr>) (signal_text \<lparr>sig_x = 5, sig_y = 92\<rparr>) [] = [42]"
proof -
  have p: "(5 :: int) < FIELD_MODULUS" "(42 :: int) < FIELD_MODULUS"
    by (simp_all add: FIELD_MODULUS_def)
  show ?thesis
    using slashRevealed_submits_key [of 42 10 "\<lparr>sig_x = 3, sig_y = 72\<rparr>" "\<lparr>sig_x = 5, sig_y = 92\<rparr>" "\<lparr>call = \<lambda>_. Inr ''0xh'', receipt = \<lambda>_. Inr ()\<rparr>"
        "bc_init\<lparr>bc_contract := Some ''0xc'', bc_wallet := Some ''0xw''\<rparr>" "[]"] p
    by (simp add: on_line_def reduced_def isEnabled_def slashingContract_def getSigner_def getContractAddress_def)
qed

end
