(* ===== verification/NullifierStore.thy ===== *)
theory NullifierStore
  imports Slashing
begin

text \<open>
  \<open>src/src/longjing/nullifier-store.service.ts\<close>: spent nullifiers, the per-nullifier rate limit
  and the short-lived cache of signed responses.

  The SQLite table is an insertion-ordered map from the primary key to the stored signal; a
  transaction is one step of the model, as better-sqlite3 runs it synchronously.  \<open>Date.now()\<close> is
  the argument \<open>now\<close>, in milliseconds.  The two in-memory maps keep JavaScript's insertion order.

  The contract its clients rely on is the locale \<open>spent_table\<close>: a lookup and an atomic
  check-and-set.  In it: a stored signal is never replaced, over any sequence of calls exactly
  the first one for a nullifier records its signal, and everyone else is given that signal.
  The store interprets it.  The sliding-window rate limit is shown over an arbitrary trace of
  attempts and timer clean-ups: no window of one minute ever holds more than three accepted
  attempts for one nullifier.
\<close>

section \<open>State\<close>

record 'r cached_response =
  cr_signal :: stored_signal
  cr_response :: 'r
  cr_expiresAt :: int

record 'r nullifier_store =
  ns_table :: "(string, stored_signal) jmap"
  ns_attempts :: "(string, int list) jmap"
  ns_responses :: "(string, 'r cached_response) jmap"

definition ns_init :: "'r nullifier_store" where
  "ns_init = \<lparr>ns_table = [], ns_attempts = [], ns_responses = []\<rparr>"

definition RATE_LIMIT_WINDOW_MS :: int where "RATE_LIMIT_WINDOW_MS = 60000"
definition RATE_LIMIT_MAX_ATTEMPTS :: nat where "RATE_LIMIT_MAX_ATTEMPTS = 3"
definition RESPONSE_TTL_MS :: int where "RESPONSE_TTL_MS = 10 * 60 * 1000"

section \<open>The table\<close>

definition ns_get :: "'r nullifier_store \<Rightarrow> string \<Rightarrow> stored_signal option" where
  "ns_get st nullifier = jm_get (ns_table st) nullifier"

definition ns_exists :: "'r nullifier_store \<Rightarrow> string \<Rightarrow> bool" where
  "ns_exists st nullifier = (jm_get (ns_table st) nullifier \<noteq> None)"

definition checkAndSet ::
  "string \<Rightarrow> stored_signal \<Rightarrow> 'r nullifier_store \<Rightarrow> 'r nullifier_store \<times> stored_signal option" where
  "checkAndSet nullifier signal st =
     (case ns_get st nullifier of
        Some existing \<Rightarrow> (st, Some existing)
      | None \<Rightarrow> (st\<lparr>ns_table := ns_table st @ [(nullifier, signal)]\<rparr>, None))"

definition ns_clear :: "'r nullifier_store \<Rightarrow> 'r nullifier_store" where
  "ns_clear st = st\<lparr>ns_table := [], ns_responses := []\<rparr>"

definition ns_count :: "'r nullifier_store \<Rightarrow> nat" where
  "ns_count st = length (ns_table st)"

text \<open>The migration of an older database: its columns, its rows (a value per column) and whether it
  has the \<open>redeemed_refunds\<close> table.\<close>

record old_db =
  columns :: "string list"
  rows :: "(string, string) jmap list"
  has_refunds :: bool

definition kept_columns :: "string list" where
  "kept_columns = [''nullifier'', ''x'', ''y'']"

definition migrateToSignalsOnly :: "old_db \<Rightarrow> old_db" where
  "migrateToSignalsOnly db =
     (let extra = filter (\<lambda>col. col \<notin> set kept_columns) (columns db) in
      if extra = [] \<and> \<not> has_refunds db then db
      else
        let db1 = (if extra \<noteq> []
          then db\<lparr>columns := kept_columns,
                  rows := map (filter (\<lambda>(col, _). col \<in> set kept_columns)) (rows db)\<rparr>
          else db)
        in db1\<lparr>has_refunds := False\<rparr>)"

section \<open>Kept responses\<close>

definition rememberResponse ::
  "int \<Rightarrow> string \<Rightarrow> stored_signal \<Rightarrow> 'r \<Rightarrow> 'r nullifier_store \<Rightarrow> 'r nullifier_store" where
  "rememberResponse now nullifier signal response st =
     st\<lparr>ns_responses := jm_set (ns_responses st) nullifier
          \<lparr>cr_signal = signal, cr_response = response, cr_expiresAt = now + RESPONSE_TTL_MS\<rparr>\<rparr>"

definition recallResponse :: "int \<Rightarrow> string \<Rightarrow> stored_signal \<Rightarrow> 'r nullifier_store \<Rightarrow> 'r option" where
  "recallResponse now nullifier signal st =
     (case jm_get (ns_responses st) nullifier of
        None \<Rightarrow> None
      | Some cached \<Rightarrow>
          if cr_expiresAt cached \<le> now then None
          else if st_x (cr_signal cached) \<noteq> st_x signal \<or> st_y (cr_signal cached) \<noteq> st_y signal then None
          else Some (cr_response cached))"

definition cleanupResponses :: "int \<Rightarrow> 'r nullifier_store \<Rightarrow> 'r nullifier_store" where
  "cleanupResponses now st =
     st\<lparr>ns_responses := fold (\<lambda>(nullifier, cached) m. if cr_expiresAt cached \<le> now then jm_delete m nullifier else m)
          (ns_responses st) (ns_responses st)\<rparr>"

section \<open>Rate limit\<close>

definition recent :: "int \<Rightarrow> int list \<Rightarrow> int list" where
  "recent now attempts = filter (\<lambda>timestamp. now - timestamp < RATE_LIMIT_WINDOW_MS) attempts"

definition attempts_of :: "'r nullifier_store \<Rightarrow> string \<Rightarrow> int list" where
  "attempts_of st nullifier = (case jm_get (ns_attempts st) nullifier of None \<Rightarrow> [] | Some a \<Rightarrow> a)"

definition cleanup_entry :: "int \<Rightarrow> string \<times> int list \<Rightarrow> (string, int list) jmap \<Rightarrow> (string, int list) jmap" where
  "cleanup_entry now entry m = (case entry of (nullifier, attempts) \<Rightarrow>
     if recent now attempts = [] then jm_delete m nullifier
     else if length (recent now attempts) < length attempts then jm_set m nullifier (recent now attempts)
     else m)"

definition cleanupRateLimitMap :: "int \<Rightarrow> 'r nullifier_store \<Rightarrow> 'r nullifier_store" where
  "cleanupRateLimitMap now st = st\<lparr>ns_attempts := fold (cleanup_entry now) (ns_attempts st) (ns_attempts st)\<rparr>"

definition checkRateLimit :: "int \<Rightarrow> string \<Rightarrow> 'r nullifier_store \<Rightarrow> 'r nullifier_store \<times> bool" where
  "checkRateLimit now nullifier st =
     (let recentAttempts = recent now (attempts_of st nullifier) in
      if length recentAttempts \<ge> RATE_LIMIT_MAX_ATTEMPTS then (st, False)
      else
        let st1 = st\<lparr>ns_attempts := jm_set (ns_attempts st) nullifier (recentAttempts @ [now])\<rparr> in
        (if jm_size (ns_attempts st1) > 1000 then cleanupRateLimitMap now st1 else st1, True))"

definition getRemainingAttempts :: "int \<Rightarrow> string \<Rightarrow> 'r nullifier_store \<Rightarrow> nat" where
  "getRemainingAttempts now nullifier st =
     RATE_LIMIT_MAX_ATTEMPTS - length (recent now (attempts_of st nullifier))"

section \<open>The table's contract\<close>

locale spent_table =
  fixes lookup :: "'s \<Rightarrow> 'k \<Rightarrow> 'v option"
    and cas :: "'k \<Rightarrow> 'v \<Rightarrow> 's \<Rightarrow> 's \<times> 'v option"
  assumes cas_spent: "lookup s k = Some v \<Longrightarrow> cas k w s = (s, Some v)"
    and cas_fresh: "lookup s k = None \<Longrightarrow> snd (cas k w s) = None"
    and cas_fresh_lookup: "lookup s k = None \<Longrightarrow> lookup (fst (cas k w s)) k' = (if k' = k then Some w else lookup s k')"
begin

lemma cas_result: "snd (cas k w s) = lookup s k"
  by (cases "lookup s k") (simp_all add: cas_spent cas_fresh)

lemma cas_lookup:
  "lookup (fst (cas k w s)) k' = (if k' = k \<and> lookup s k = None then Some w else lookup s k')"
  by (cases "lookup s k") (simp_all add: cas_spent cas_fresh_lookup)

lemma cas_stores: "lookup (fst (cas k w s)) k = Some (case snd (cas k w s) of None \<Rightarrow> w | Some v \<Rightarrow> v)"
  by (cases "lookup s k") (simp_all add: cas_spent cas_fresh cas_fresh_lookup)

lemma cas_keeps: "lookup s k' = Some v \<Longrightarrow> lookup (fst (cas k w s)) k' = Some v"
  by (auto simp: cas_lookup)

text \<open>A sequence of calls, with the answer each of them got.\<close>

fun calls :: "('k \<times> 'v) list \<Rightarrow> 's \<Rightarrow> 's \<times> 'v option list" where
  "calls [] s = (s, [])"
| "calls ((k, w) # cs) s =
     (case cas k w s of (s', r) \<Rightarrow> case calls cs s' of (s'', rs) \<Rightarrow> (s'', r # rs))"

lemma calls_keeps: "lookup s k = Some v \<Longrightarrow> lookup (fst (calls cs s)) k = Some v"
proof (induction cs s rule: calls.induct)
  case (2 k0 w cs s)
  obtain s' r where c: "cas k0 w s = (s', r)" by (cases "cas k0 w s")
  have "lookup s' k = Some v" using cas_keeps [OF "2.prems", of k0 w] c by simp
  from "2.IH" [OF c [symmetric] this] show ?case by (auto simp: c split: prod.split)
qed simp

lemma calls_spent:
  assumes "lookup s k = Some v" "i < length cs" "fst (cs ! i) = k"
  shows "snd (calls cs s) ! i = Some v"
  using assms
proof (induction cs s arbitrary: i rule: calls.induct)
  case (2 k0 w cs s)
  obtain s' r where c: "cas k0 w s = (s', r)" by (cases "cas k0 w s")
  have l: "lookup s' k = Some v" using cas_keeps [OF "2.prems"(1), of k0 w] c by simp
  show ?case
  proof (cases i)
    case 0
    with "2.prems" c show ?thesis using cas_spent [of s k v w] by (simp split: prod.split)
  next
    case (Suc j)
    with "2.prems" have "snd (calls cs s') ! j = Some v"
      by (intro "2.IH" [OF c [symmetric] l]) simp_all
    with Suc c show ?thesis by (auto split: prod.split)
  qed
qed simp

lemma length_calls: "length (snd (calls cs s)) = length cs"
  by (induction cs s rule: calls.induct) (auto split: prod.split)

text \<open>Exactly the first call for a fresh key records, and every later one for it gets that value.\<close>

lemma calls_first_wins:
  assumes "lookup s k = None" "i < length cs" "fst (cs ! i) = k" "\<forall>j < i. fst (cs ! j) \<noteq> k"
  shows "snd (calls cs s) ! i = None"
    and "\<forall>j. i < j \<and> j < length cs \<and> fst (cs ! j) = k \<longrightarrow> snd (calls cs s) ! j = Some (snd (cs ! i))"
    and "lookup (fst (calls cs s)) k = Some (snd (cs ! i))"
proof -
  have "snd (calls cs s) ! i = None
     \<and> (\<forall>j. i < j \<and> j < length cs \<and> fst (cs ! j) = k \<longrightarrow> snd (calls cs s) ! j = Some (snd (cs ! i)))
     \<and> lookup (fst (calls cs s)) k = Some (snd (cs ! i))"
    using assms
  proof (induction cs s arbitrary: i rule: calls.induct)
    case (1 s)
    then show ?case by simp
  next
    case (2 k0 w cs s)
    obtain s' r where c: "cas k0 w s = (s', r)" by (cases "cas k0 w s")
    have sp: "calls ((k0, w) # cs) s = (fst (calls cs s'), r # snd (calls cs s'))"
      by (simp add: c split: prod.split)
    show ?case
    proof (cases i)
      case 0
      with "2.prems" have k: "k0 = k" by simp
      then have r: "r = None" and l: "lookup s' k = Some w"
        using cas_fresh [OF "2.prems"(1), of w] cas_fresh_lookup [OF "2.prems"(1), of w k] c by simp_all
      have "snd (calls ((k0, w) # cs) s) ! j = Some w"
        if "0 < j" "j < length ((k0, w) # cs)" "fst (((k0, w) # cs) ! j) = k" for j
        using that calls_spent [OF l, of "j - 1" cs] unfolding sp by (cases j) simp_all
      then show ?thesis using 0 r calls_keeps [OF l] unfolding sp by (auto simp: nth_Cons')
    next
      case (Suc j)
      with "2.prems"(4) have ne: "k0 \<noteq> k" by force
      have l: "lookup s' k = None"
        using "2.prems"(1) cas_lookup [of k0 w s k] ne c by simp
      have "\<forall>j' < j. fst (cs ! j') \<noteq> k" using "2.prems"(4) Suc by force
      then have "snd (calls cs s') ! j = None
         \<and> (\<forall>j'. j < j' \<and> j' < length cs \<and> fst (cs ! j') = k \<longrightarrow> snd (calls cs s') ! j' = Some (snd (cs ! j)))
         \<and> lookup (fst (calls cs s')) k = Some (snd (cs ! j))"
        using "2.prems" Suc by (intro "2.IH" [OF c [symmetric] l]) simp_all
      then show ?thesis unfolding sp Suc by (auto simp: nth_Cons' less_diff_conv)
    qed
  qed
  then show "snd (calls cs s) ! i = None"
    and "\<forall>j. i < j \<and> j < length cs \<and> fst (cs ! j) = k \<longrightarrow> snd (calls cs s) ! j = Some (snd (cs ! i))"
    and "lookup (fst (calls cs s)) k = Some (snd (cs ! i))" by blast+
qed

end

lemma map_of_snoc_fresh: "jm_get m k = None \<Longrightarrow> jm_get (m @ [(k, v)]) k' = (if k' = k then Some v else jm_get m k')"
  by (auto simp: jm_get_def map_add_def split: option.split)

interpretation store: spent_table ns_get checkAndSet
  by unfold_locales (auto simp: ns_get_def checkAndSet_def map_of_snoc_fresh)

text \<open>The nullifier table is write-once, over any interleaving of requests and exits: starting from
  a store where a nullifier is fresh, the first \<open>checkAndSet\<close> for it records its signal and
  returns \<open>null\<close>, every later one returns that same signal, and the table keeps it.\<close>

theorem nullifier_first_wins:
  assumes "ns_get st n = None" "i < length cs" "fst (cs ! i) = n" "\<forall>j < i. fst (cs ! j) \<noteq> n"
  shows "snd (store.calls cs st) ! i = None
    \<and> (\<forall>j. i < j \<and> j < length cs \<and> fst (cs ! j) = n \<longrightarrow> snd (store.calls cs st) ! j = Some (snd (cs ! i)))
    \<and> ns_get (fst (store.calls cs st)) n = Some (snd (cs ! i))"
  using store.calls_first_wins [OF assms] by blast

theorem nullifier_first_wins_witness:
  "ns_get (fst (store.calls [(''1'', \<lparr>st_x = ''2'', st_y = ''3''\<rparr>), (''1'', \<lparr>st_x = ''4'', st_y = ''5''\<rparr>)]
     (ns_init :: nat nullifier_store))) ''1'' = Some \<lparr>st_x = ''2'', st_y = ''3''\<rparr>"
  using nullifier_first_wins [of "ns_init :: nat nullifier_store" "''1''" 0
      "[(''1'', \<lparr>st_x = ''2'', st_y = ''3''\<rparr>), (''1'', \<lparr>st_x = ''4'', st_y = ''5''\<rparr>)]"]
  by (simp add: ns_get_def ns_init_def)

section \<open>Well-formedness\<close>

text \<open>The maps have distinct keys: the primary key of the table, and the keys of a \<open>Map\<close>.\<close>

definition ns_wf :: "'r nullifier_store \<Rightarrow> bool" where
  "ns_wf st = (jm_wf (ns_table st) \<and> jm_wf (ns_attempts st) \<and> jm_wf (ns_responses st))"

lemma jm_wf_snoc: "jm_wf m \<Longrightarrow> jm_get m k = None \<Longrightarrow> jm_wf (m @ [(k, v)])"
  by (auto simp: jm_wf_def jm_get_def map_of_eq_None_iff)

lemma jm_wf_fold_cleanup: "jm_wf m \<Longrightarrow> jm_wf (fold (cleanup_entry now) es m)"
  by (induction es arbitrary: m) (auto simp: cleanup_entry_def split: prod.split)

lemma jm_wf_fold_delete: "jm_wf m \<Longrightarrow> jm_wf (fold (\<lambda>(k, c) m. if P c then jm_delete m k else m) es m)"
  by (induction es arbitrary: m) (auto split: prod.split)

lemma ns_wf_init: "ns_wf ns_init"
  by (simp add: ns_wf_def ns_init_def)

lemma ns_wf_cleanup: "ns_wf st \<Longrightarrow> ns_wf (cleanupRateLimitMap now st)"
  by (simp add: ns_wf_def cleanupRateLimitMap_def jm_wf_fold_cleanup)

lemma ns_wf_ops:
  assumes "ns_wf st"
  shows "ns_wf (fst (checkAndSet n s st))" "ns_wf (rememberResponse now n s r st)"
    "ns_wf (cleanupResponses now st)" "ns_wf (fst (checkRateLimit now n st))" "ns_wf (ns_clear st)"
  using assms
  by (auto simp: ns_wf_def cleanupRateLimitMap_def jm_wf_fold_cleanup checkAndSet_def ns_get_def jm_wf_snoc rememberResponse_def cleanupResponses_def
      jm_wf_fold_delete checkRateLimit_def ns_clear_def Let_def split: option.split)

section \<open>Responses\<close>

lemma recall_remember:
  "recallResponse now' n' s' (rememberResponse now n s r st) =
     (if n' = n then (if now' < now + RESPONSE_TTL_MS \<and> s' = s then Some r else None)
      else recallResponse now' n' s' st)"
  by (auto simp: recallResponse_def rememberResponse_def)

lemma recall_checkAndSet [simp]: "recallResponse now n s (fst (checkAndSet n' s' st)) = recallResponse now n s st"
  by (auto simp: recallResponse_def checkAndSet_def split: option.split)

lemma fold_delete_get:
  "jm_wf es \<Longrightarrow> jm_get (fold (\<lambda>(k, c) m. if P c then jm_delete m k else m) es m) k =
     (case jm_get es k of Some c \<Rightarrow> if P c then None else jm_get m k | None \<Rightarrow> jm_get m k)"
proof (induction es arbitrary: m)
  case (Cons e es)
  obtain k' c where e: "e = (k', c)" by (cases e)
  have "jm_wf es" "k' \<notin> set (map fst es)" using Cons.prems e by (auto simp: jm_wf_def)
  then have "jm_get es k' = None" by (simp add: jm_get_def map_of_eq_None_iff)
  with Cons.IH [OF \<open>jm_wf es\<close>] e show ?case
    by (auto simp: jm_get_Cons split: option.split)
qed simp

text \<open>A kept response is given back to a retry with the same nullifier and the same signal until
  ten minutes have passed and never after, to nobody else, and neither the timer's clean-up at
  any time before that nor other nullifiers' responses change it.\<close>

theorem kept_response:
  assumes "ns_wf st" "now \<le> t" "t \<le> now'"
  shows "recallResponse now' n s' (cleanupResponses t (rememberResponse now n s r st)) =
     (if now' < now + RESPONSE_TTL_MS \<and> s' = s then Some r else None)
    \<and> (n' \<noteq> n \<longrightarrow> recallResponse now' n' s' (cleanupResponses t (rememberResponse now n s r st))
         = recallResponse now' n' s' st)"
proof -
  have "recallResponse now' m s' (cleanupResponses t st') = recallResponse now' m s' st'"
    if "ns_wf st'" for m and st' :: "'a nullifier_store"
    using that assms(3) fold_delete_get [of "ns_responses st'" "\<lambda>c. cr_expiresAt c \<le> t" "ns_responses st'" m]
    by (auto simp: recallResponse_def cleanupResponses_def ns_wf_def split: option.split)
  then show ?thesis using assms(1) by (simp add: ns_wf_ops recall_remember)
qed

theorem kept_response_witness:
  "recallResponse 400000 ''1'' \<lparr>st_x = ''2'', st_y = ''3''\<rparr>
     (cleanupResponses 300000 (rememberResponse 0 ''1'' \<lparr>st_x = ''2'', st_y = ''3''\<rparr> (7 :: nat) ns_init)) = Some 7"
  using kept_response [of "ns_init :: nat nullifier_store" 0 300000 400000 "''1''" "\<lparr>st_x = ''2'', st_y = ''3''\<rparr>"
      "\<lparr>st_x = ''2'', st_y = ''3''\<rparr>" 7 "''2''"]
  by (simp add: RESPONSE_TTL_MS_def ns_wf_init)

section \<open>The rate limit over a trace\<close>

lemma fold_cleanup_get:
  "jm_wf es \<Longrightarrow> (\<And>k a. jm_get es k = Some a \<Longrightarrow> jm_get m k = Some a) \<Longrightarrow>
   jm_get (fold (cleanup_entry now) es m) k =
     (case jm_get es k of
        Some a \<Rightarrow> if recent now a = [] then None else Some (recent now a)
      | None \<Rightarrow> jm_get m k)"
proof (induction es arbitrary: m)
  case (Cons e es)
  obtain k' a where e: "e = (k', a)" by (cases e)
  have wf: "jm_wf es" "k' \<notin> set (map fst es)" using Cons.prems(1) e by (auto simp: jm_wf_def)
  then have nk: "jm_get es k' = None" by (simp add: jm_get_def map_of_eq_None_iff)
  let ?m = "cleanup_entry now (k', a) m"
  have full: "recent now a = a" if "\<not> length (recent now a) < length a"
    using that by (metis recent_def filter_id_conv length_filter_less linorder_not_less)
  have mk: "jm_get m k' = Some a" using Cons.prems(2) e by (simp add: jm_get_Cons)
  have m': "jm_get ?m k'' = (if k'' = k' then if recent now a = [] then None else Some (recent now a) else jm_get m k'')" for k''
    using full mk by (auto simp: cleanup_entry_def e)
  have "jm_get (fold (cleanup_entry now) es ?m) k =
     (case jm_get es k of Some a \<Rightarrow> if recent now a = [] then None else Some (recent now a) | None \<Rightarrow> jm_get ?m k)"
    using wf(1) Cons.prems(2) nk e by (intro Cons.IH) (auto simp: m' jm_get_Cons split: if_splits)
  then show ?case using nk unfolding e m' by (cases "k = k'") (auto simp: jm_get_Cons split: option.split)
qed simp

lemma attempts_cleanup:
  assumes "ns_wf st"
  shows "attempts_of (cleanupRateLimitMap now st) n = recent now (attempts_of st n)"
  using assms fold_cleanup_get [of "ns_attempts st" "ns_attempts st" now n]
  by (auto simp: attempts_of_def cleanupRateLimitMap_def ns_wf_def recent_def split: option.split)

lemma recent_recent: "t \<le> now \<Longrightarrow> recent now (recent t a) = recent now a"
  by (induction a) (auto simp: recent_def)

lemma checkRateLimit_accept:
  assumes "ns_wf st" "checkRateLimit now n st = (st', True)"
  shows "length (recent now (attempts_of st n)) < RATE_LIMIT_MAX_ATTEMPTS"
    "recent now (attempts_of st' m) = recent now (attempts_of st m) @ (if m = n then [now] else [])"
proof -
  let ?r = "recent now (attempts_of st n)"
  let ?st = "st\<lparr>ns_attempts := jm_set (ns_attempts st) n (?r @ [now])\<rparr>"
  have st': "st' = ?st \<or> st' = cleanupRateLimitMap now ?st" and len: "length ?r < RATE_LIMIT_MAX_ATTEMPTS"
    using assms(2) by (auto simp: checkRateLimit_def Let_def split: if_splits)
  have wf: "ns_wf ?st" using assms(1) by (auto simp: ns_wf_def)
  have "recent now (attempts_of st' m) = recent now (attempts_of ?st m)"
    using st' attempts_cleanup [OF wf, of now m] recent_recent [of now now] by auto
  moreover have "attempts_of ?st m = (if m = n then ?r @ [now] else attempts_of st m)"
    by (simp add: attempts_of_def)
  moreover have "recent now (?r @ [now]) = ?r @ [now]"
    using recent_recent [of now now] by (simp add: recent_def RATE_LIMIT_WINDOW_MS_def)
  ultimately show "recent now (attempts_of st' m) = recent now (attempts_of st m) @ (if m = n then [now] else [])"
    by auto
  show "length ?r < RATE_LIMIT_MAX_ATTEMPTS" by (rule len)
qed

text \<open>A trace of the store as the clock moves on: attempts (with the accepted ones recorded), the
  timer's clean-ups, and any step that leaves the attempts alone.\<close>

inductive rate_run :: "'r nullifier_store \<Rightarrow> int \<Rightarrow> (string \<times> int) list \<Rightarrow> bool" where
  start: "rate_run ns_init t []"
| attempt: "rate_run st t acc \<Longrightarrow> t \<le> now \<Longrightarrow> checkRateLimit now n st = (st', ok)
    \<Longrightarrow> rate_run st' now (if ok then acc @ [(n, now)] else acc)"
| cleanup: "rate_run st t acc \<Longrightarrow> t \<le> now \<Longrightarrow> rate_run (cleanupRateLimitMap now st) now acc"
| other: "rate_run st t acc \<Longrightarrow> t \<le> now \<Longrightarrow> ns_wf st' \<Longrightarrow> ns_attempts st' = ns_attempts st \<Longrightarrow> rate_run st' now acc"

definition accepted_for :: "string \<Rightarrow> (string \<times> int) list \<Rightarrow> int list" where
  "accepted_for n acc = map snd (filter (\<lambda>e. fst e = n) acc)"

lemma accepted_for_snoc [simp]:
  "accepted_for n [] = []"
  "accepted_for n (acc @ [e]) = accepted_for n acc @ (if fst e = n then [snd e] else [])"
  by (simp_all add: accepted_for_def)

definition in_window :: "int \<Rightarrow> int list \<Rightarrow> int list" where
  "in_window T ts = filter (\<lambda>t. T - RATE_LIMIT_WINDOW_MS < t \<and> t \<le> T) ts"

definition rate_inv :: "'r nullifier_store \<Rightarrow> int \<Rightarrow> (string \<times> int) list \<Rightarrow> bool" where
  "rate_inv st t acc \<longleftrightarrow> ns_wf st \<and> (\<forall>e \<in> set acc. snd e \<le> t) \<and>
     (\<forall>n. recent t (accepted_for n acc) = recent t (attempts_of st n)) \<and>
     (\<forall>n T. length (in_window T (accepted_for n acc)) \<le> RATE_LIMIT_MAX_ATTEMPTS)"

lemma rate_inv_later: "rate_inv st t acc \<Longrightarrow> t \<le> now \<Longrightarrow> rate_inv st now acc"
  unfolding rate_inv_def by (metis order_trans recent_recent)

lemma in_window_recent: "now \<le> T \<Longrightarrow> length (in_window T a) \<le> length (recent now a)"
  unfolding in_window_def recent_def by (intro length_filter_mono) simp

lemma rate_inv_accept:
  assumes inv: "rate_inv st now acc" and c: "checkRateLimit now n st = (st', True)"
  shows "rate_inv st' now (acc @ [(n, now)])"
proof -
  have wf: "ns_wf st" and past: "\<forall>e \<in> set acc. snd e \<le> now"
    and rec: "\<And>m. recent now (accepted_for m acc) = recent now (attempts_of st m)"
    and win: "\<And>m T. length (in_window T (accepted_for m acc)) \<le> RATE_LIMIT_MAX_ATTEMPTS"
    using inv by (auto simp: rate_inv_def)
  note acc' = checkRateLimit_accept [OF wf c]
  have "length (in_window T (accepted_for m (acc @ [(n, now)]))) \<le> RATE_LIMIT_MAX_ATTEMPTS" for m T
  proof (cases "m = n \<and> now \<le> T")
    case True
    then show ?thesis
      using acc'(1) in_window_recent [of now T "accepted_for n acc"] rec [of n]
      by (auto simp: in_window_def)
  next
    case False
    then show ?thesis using win [of T m] by (auto simp: in_window_def)
  qed
  moreover have "recent now (accepted_for m (acc @ [(n, now)])) = recent now (attempts_of st' m)" for m
    using rec [of m] acc'(2) [of m] by (auto simp: recent_def RATE_LIMIT_WINDOW_MS_def)
  moreover have "ns_wf st'" using ns_wf_ops(4) [OF wf, of now n] c by simp
  ultimately show ?thesis using past by (simp add: rate_inv_def)
qed

lemma rate_run_inv: "rate_run st t acc \<Longrightarrow> rate_inv st t acc"
proof (induction rule: rate_run.induct)
  case (start t)
  then show ?case by (simp add: rate_inv_def ns_wf_def in_window_def attempts_of_def ns_init_def)
next
  case (attempt st t acc now n st' ok)
  have inv: "rate_inv st now acc" by (rule rate_inv_later [OF attempt.IH attempt.hyps(2)])
  show ?case
  proof (cases ok)
    case True
    with attempt.hyps(3) rate_inv_accept [OF inv] show ?thesis by simp
  next
    case False
    with attempt.hyps(3) have "st' = st" by (auto simp: checkRateLimit_def Let_def split: if_splits)
    with False inv show ?thesis by simp
  qed
next
  case (cleanup st t acc now)
  have "rate_inv st now acc" by (rule rate_inv_later [OF cleanup.IH cleanup.hyps(2)])
  then show ?case
    by (simp add: rate_inv_def ns_wf_cleanup attempts_cleanup recent_recent)
next
  case (other st t acc now st')
  have "rate_inv st now acc" by (rule rate_inv_later [OF other.IH other.hyps(2)])
  with other.hyps show ?case by (simp add: rate_inv_def attempts_of_def)
qed

text \<open>The rate limit holds over every trace: whatever the interleaving of attempts, timer clean-ups
  and other steps, no window of sixty seconds holds more than three accepted attempts for one
  nullifier.\<close>

theorem rate_limit_window:
  assumes "rate_run st t acc"
  shows "length (in_window T (accepted_for n acc)) \<le> 3"
  using rate_run_inv [OF assms] by (simp add: rate_inv_def RATE_LIMIT_MAX_ATTEMPTS_def)

theorem rate_limit_window_witness:
  "length (in_window 5 (accepted_for ''1'' [(''1'', 5)])) \<le> 3"
proof -
  have "checkRateLimit 5 ''1'' (ns_init :: nat nullifier_store) = (ns_init\<lparr>ns_attempts := [(''1'', [5])]\<rparr>, True)"
    by (simp add: checkRateLimit_def ns_init_def attempts_of_def recent_def RATE_LIMIT_MAX_ATTEMPTS_def jm_size_def)
  from rate_run.attempt [OF rate_run.start _ this, of 0]
  have "rate_run (ns_init\<lparr>ns_attempts := [(''1'', [5])]\<rparr> :: nat nullifier_store) 5 [(''1'', 5)]" by simp
  then show ?thesis by (rule rate_limit_window)
qed

end
