(* ===== verification/EthRate.thy ===== *)
theory EthRate
  imports JsParse
begin

text \<open>
  \<open>src/src/longjing/eth-rate-oracle.service.ts\<close>: the ETH/USD rate, with its memory cache, its
  database of past rates and two remote sources, and the conversions between USD and wei.

  The answer of Kraken and of the Chainlink feed at one call are arguments; the database is the
  list of its rows in insertion order.  \<open>ORDER BY timestamp DESC LIMIT 1\<close> walks the timestamp
  index backwards, so among equal timestamps the last row inserted is taken.  Error messages are
  kept up to the number or list they print.

  Shown: a rate that is returned is a positive number that one of the two sources gave less than
  61 minutes earlier, over every sequence of calls on a clock that does not go back; and at one
  rate a larger amount of USD is never worth fewer wei.
\<close>

section \<open>State\<close>

record rate_row =
  rr_rate :: jsnum
  rr_source :: string
  rr_timestamp :: int

record eth_rate_oracle =
  eo_cache :: "(jsnum \<times> int) option"
  eo_db :: "rate_row list"
  eo_chainlinkProvider :: "string option"

definition CACHE_TTL :: int where "CACHE_TTL = 60000"
definition MAX_DB_RATE_AGE :: int where "MAX_DB_RATE_AGE = 60 * 60 * 1000"

definition endpoints :: "string list" where
  "endpoints = [''https://ethereum-rpc.publicnode.com'', ''https://eth.merkle.io'',
     ''https://rpc.ankr.com/eth'', ''https://eth.llamarpc.com'', ''https://cloudflare-eth.com'']"

text \<open>\<open>random\<close> is \<open>Math.floor(Math.random() * n)\<close>; a failure to build the provider is caught.\<close>

definition initializeChainlinkProvider ::
  "(nat \<Rightarrow> nat) \<Rightarrow> (string \<Rightarrow> bool) \<Rightarrow> eth_rate_oracle \<Rightarrow> eth_rate_oracle" where
  "initializeChainlinkProvider random builds eo =
     (let randomEndpoint = endpoints ! random (length endpoints) in
      if builds randomEndpoint then eo\<lparr>eo_chainlinkProvider := Some randomEndpoint\<rparr> else eo)"

section \<open>Sources\<close>

record kraken_response =
  kr_ok :: bool
  kr_status :: nat
  kr_error :: "string list"
  kr_lastTrade :: string

definition positive_rate :: "jsnum \<Rightarrow> bool" where
  "positive_rate r = (\<not> isNaN r \<and> \<not> jle r (Fin 0))"

definition fetchFromKraken :: "kraken_response res \<Rightarrow> jsnum res" where
  "fetchFromKraken answer = bind answer (\<lambda>response.
     bind (guard (kr_ok response) (Error (''Kraken API returned '' @ dec_of_nat (kr_status response)))) (\<lambda>_.
     bind (guard (kr_error response = []) (Error ''Kraken API error'')) (\<lambda>_.
     let rate = parseFloat (kr_lastTrade response) in
     bind (guard (\<not> (isNaN rate \<or> jle rate (Fin 0))) (Error ''Invalid ETH/USD rate received'')) (\<lambda>_.
       Inr rate))))"

definition fetchFromChainlink :: "int res \<Rightarrow> eth_rate_oracle \<Rightarrow> jsnum res" where
  "fetchFromChainlink latestAnswer eo =
     (if eo_chainlinkProvider eo = None then Inl (Error ''Chainlink provider not initialized'')
      else bind latestAnswer (\<lambda>answer.
        let rate = jdiv (Number answer) (Fin (10 ^ 8)) in
        bind (guard (\<not> (isNaN rate \<or> jle rate (Fin 0))) (Error ''Invalid ETH/USD rate from Chainlink'')) (\<lambda>_.
          Inr rate)))"

definition saveRateToDb :: "int \<Rightarrow> jsnum \<Rightarrow> string \<Rightarrow> eth_rate_oracle \<Rightarrow> eth_rate_oracle" where
  "saveRateToDb timestamp rate source eo =
     eo\<lparr>eo_db := eo_db eo @ [\<lparr>rr_rate = rate, rr_source = source, rr_timestamp = timestamp\<rparr>]\<rparr>"

fun latest_row :: "rate_row list \<Rightarrow> rate_row option" where
  "latest_row [] = None"
| "latest_row (r # rs) = (case latest_row rs of
     None \<Rightarrow> Some r
   | Some q \<Rightarrow> Some (if rr_timestamp q \<ge> rr_timestamp r then q else r))"

definition getLatestRateFromDb :: "eth_rate_oracle \<Rightarrow> rate_row option" where
  "getLatestRateFromDb eo = latest_row (eo_db eo)"

text \<open>What one call sees of the outside: the time it starts, the time it saves a rate, and the two
  sources' answers.\<close>

record rate_call =
  rc_now :: int
  rc_saved :: int
  rc_kraken :: "kraken_response res"
  rc_chainlink :: "int res"

definition chainlink_fallback :: "rate_call \<Rightarrow> eth_rate_oracle \<Rightarrow> eth_rate_oracle \<times> jsnum res" where
  "chainlink_fallback c eo =
     (case fetchFromChainlink (rc_chainlink c) eo of
        Inr rate \<Rightarrow>
          ((saveRateToDb (rc_saved c) rate ''chainlink'' eo)\<lparr>eo_cache := Some (rate, rc_now c)\<rparr>, Inr rate)
      | Inl _ \<Rightarrow>
          (eo, Inl (Error ''Unable to fetch ETH/USD rate from any source (Kraken, DB cache, or Chainlink)'')))"

definition getEthUsdRate :: "rate_call \<Rightarrow> eth_rate_oracle \<Rightarrow> eth_rate_oracle \<times> jsnum res" where
  "getEthUsdRate c eo =
     (let now = rc_now c;
          cached = (case eo_cache eo of
            Some (rate, timestamp) \<Rightarrow> if now - timestamp < CACHE_TTL then Some rate else None
          | None \<Rightarrow> None)
      in case cached of
        Some rate \<Rightarrow> (eo, Inr rate)
      | None \<Rightarrow>
        (case fetchFromKraken (rc_kraken c) of
           Inr rate \<Rightarrow>
             ((saveRateToDb (rc_saved c) rate ''kraken'' eo)\<lparr>eo_cache := Some (rate, now)\<rparr>, Inr rate)
         | Inl _ \<Rightarrow>
             (case getLatestRateFromDb eo of
                Some dbRate \<Rightarrow>
                  if now - rr_timestamp dbRate < MAX_DB_RATE_AGE
                  then (eo\<lparr>eo_cache := Some (rr_rate dbRate, now)\<rparr>, Inr (rr_rate dbRate))
                  else chainlink_fallback c eo
              | None \<Rightarrow> chainlink_fallback c eo)))"

section \<open>Conversions\<close>

definition wei_at_rate :: "jsnum \<Rightarrow> jsnum \<Rightarrow> int res" where
  "wei_at_rate rate usdAmount = BigInt_of_number (jceil (jmul (jdiv usdAmount rate) (Fin (10 ^ 18))))"

definition usdToWei :: "rate_call \<Rightarrow> jsnum \<Rightarrow> eth_rate_oracle \<Rightarrow> eth_rate_oracle \<times> int res" where
  "usdToWei c usdAmount eo =
     (case getEthUsdRate c eo of (eo', r) \<Rightarrow> (eo', bind r (\<lambda>ethUsdRate. wei_at_rate ethUsdRate usdAmount)))"

definition weiToUsd :: "rate_call \<Rightarrow> int \<Rightarrow> eth_rate_oracle \<Rightarrow> eth_rate_oracle \<times> jsnum res" where
  "weiToUsd c weiAmount eo =
     (case getEthUsdRate c eo of (eo', r) \<Rightarrow>
        (eo', bind r (\<lambda>ethUsdRate. Inr (jmul (jdiv (Number weiAmount) (Fin (10 ^ 18))) ethUsdRate))))"

section \<open>Facts\<close>

lemma latest_row_in: "latest_row rs = Some r \<Longrightarrow> r \<in> set rs"
  by (induction rs arbitrary: r) (auto split: option.splits if_splits)

lemma latest_row_max: "latest_row rs = Some r \<Longrightarrow> q \<in> set rs \<Longrightarrow> rr_timestamp q \<le> rr_timestamp r"
proof (induction rs arbitrary: r)
  case (Cons p rs)
  show ?case
  proof (cases "latest_row rs")
    case None
    then have "rs = []" by (cases rs) (auto split: option.splits)
    with Cons.prems None show ?thesis by simp
  next
    case (Some p')
    with Cons.IH [OF this] Cons.prems show ?thesis by (fastforce split: if_splits)
  qed
qed simp

text \<open>What the oracle keeps: only positive rates, and the cached rate is one a source gave less than an
  hour before it was cached.\<close>

definition eo_inv :: "eth_rate_oracle \<Rightarrow> bool" where
  "eo_inv eo \<longleftrightarrow> (\<forall>row \<in> set (eo_db eo). positive_rate (rr_rate row)) \<and>
     (\<forall>rate t. eo_cache eo = Some (rate, t) \<longrightarrow>
        (\<exists>row \<in> set (eo_db eo). rr_rate row = rate \<and> t - rr_timestamp row < MAX_DB_RATE_AGE))"

definition served_fresh :: "int \<Rightarrow> jsnum \<Rightarrow> eth_rate_oracle \<Rightarrow> bool" where
  "served_fresh now rate eo \<longleftrightarrow> positive_rate rate \<and>
     (\<exists>row \<in> set (eo_db eo). rr_rate row = rate \<and> now - rr_timestamp row < MAX_DB_RATE_AGE + CACHE_TTL)"

text \<open>What the oracle relies on from a source: a rate it gives is positive.  Then saving and caching the rate
  keeps the oracle's promise.\<close>

locale rate_source =
  fixes fetch :: "'q \<Rightarrow> jsnum res"
  assumes positive: "fetch a = Inr rate \<Longrightarrow> positive_rate rate"
begin

lemma fetched_kept:
  assumes "eo_inv eo" "now \<le> saved" "fetch a = Inr rate"
    "eo' = (saveRateToDb saved rate source eo)\<lparr>eo_cache := Some (rate, now)\<rparr>"
  shows "eo_inv eo' \<and> served_fresh now rate eo'"
  using assms positive [OF assms(3)]
  by (auto simp: saveRateToDb_def eo_inv_def served_fresh_def MAX_DB_RATE_AGE_def CACHE_TTL_def)

end

interpretation kraken: rate_source fetchFromKraken
  by unfold_locales (auto simp: fetchFromKraken_def Let_def res_simps positive_rate_def)

interpretation chainlink: rate_source "\<lambda>a. fetchFromChainlink a eo" for eo
  by unfold_locales (auto simp: fetchFromChainlink_def Let_def res_simps positive_rate_def split: if_splits)

lemma chainlink_fallback_inv:
  assumes "eo_inv eo" "rc_now c \<le> rc_saved c" "chainlink_fallback c eo = (eo', r)"
  shows "eo_inv eo' \<and> (\<forall>rate. r = Inr rate \<longrightarrow> served_fresh (rc_now c) rate eo')"
proof (cases "fetchFromChainlink (rc_chainlink c) eo")
  case (Inl e)
  with assms show ?thesis by (auto simp: chainlink_fallback_def)
next
  case (Inr rate)
  with chainlink.fetched_kept [OF assms(1,2) Inr refl] assms(3) show ?thesis by (auto simp: chainlink_fallback_def)
qed

lemma getEthUsdRate_inv:
  assumes inv: "eo_inv eo" and t: "rc_now c \<le> rc_saved c" and g: "getEthUsdRate c eo = (eo', r)"
  shows "eo_inv eo' \<and> (\<forall>rate. r = Inr rate \<longrightarrow> served_fresh (rc_now c) rate eo')"
proof (cases "\<exists>rate ts. eo_cache eo = Some (rate, ts) \<and> rc_now c - ts < CACHE_TTL")
  case True
  then obtain rate ts where c: "eo_cache eo = Some (rate, ts)" "rc_now c - ts < CACHE_TTL" by blast
  then have "eo' = eo" "r = Inr rate" using g by (auto simp: getEthUsdRate_def Let_def)
  with inv c show ?thesis by (fastforce simp: eo_inv_def served_fresh_def)
next
  case False
  show ?thesis
  proof (cases "fetchFromKraken (rc_kraken c)")
    case (Inr rate)
    with False g have e: "eo' = (saveRateToDb (rc_saved c) rate ''kraken'' eo)\<lparr>eo_cache := Some (rate, rc_now c)\<rparr>"
      "r = Inr rate"
      by (auto simp: getEthUsdRate_def Let_def split: option.splits prod.splits if_splits)
    with kraken.fetched_kept [OF inv t Inr] show ?thesis by blast
  next
    case (Inl e)
    show ?thesis
    proof (cases "\<exists>row. latest_row (eo_db eo) = Some row \<and> rc_now c - rr_timestamp row < MAX_DB_RATE_AGE")
      case True
      then obtain row where row: "latest_row (eo_db eo) = Some row" "rc_now c - rr_timestamp row < MAX_DB_RATE_AGE"
        by blast
      with False Inl g have "eo' = eo\<lparr>eo_cache := Some (rr_rate row, rc_now c)\<rparr>" "r = Inr (rr_rate row)"
        by (auto simp: getEthUsdRate_def getLatestRateFromDb_def Let_def split: option.splits prod.splits if_splits)
      with row latest_row_in [OF row(1)] inv show ?thesis
        by (auto simp: eo_inv_def served_fresh_def CACHE_TTL_def)
    next
      case no_db: False
      with False Inl g have "chainlink_fallback c eo = (eo', r)"
        by (auto simp: getEthUsdRate_def getLatestRateFromDb_def Let_def split: option.splits prod.splits if_splits)
      from chainlink_fallback_inv [OF inv t this] show ?thesis .
    qed
  qed
qed

text \<open>The oracle's life: it starts with an empty cache and whatever positive rates the database holds,
  and answers one call after another.\<close>

inductive oracle_run :: "eth_rate_oracle \<Rightarrow> bool" where
  start: "\<forall>row \<in> set (eo_db eo). positive_rate (rr_rate row) \<Longrightarrow> eo_cache eo = None \<Longrightarrow> oracle_run eo"
| served: "oracle_run eo \<Longrightarrow> rc_now c \<le> rc_saved c \<Longrightarrow> getEthUsdRate c eo = (eo', r) \<Longrightarrow> oracle_run eo'"

lemma oracle_run_inv: "oracle_run eo \<Longrightarrow> eo_inv eo"
proof (induction rule: oracle_run.induct)
  case (start eo)
  then show ?case by (simp add: eo_inv_def)
next
  case (served eo c eo' r)
  from getEthUsdRate_inv [OF served.IH served.hyps(2,3)] show ?case by blast
qed


definition sample_oracle :: eth_rate_oracle where
  "sample_oracle = \<lparr>eo_cache = None, eo_db = [\<lparr>rr_rate = Fin 2000, rr_source = ''kraken'', rr_timestamp = 0\<rparr>],
     eo_chainlinkProvider = None\<rparr>"


text \<open>At one rate the conversion to wei is monotone, and never negative.\<close>

lemma positive_rate_cases: "positive_rate r \<Longrightarrow> (\<exists>q > 0. r = Fin q) \<or> r = PInf"
  by (cases r) (auto simp: positive_rate_def isNaN_def)

lemma jdiv_pos_mono:
  "positive_rate r \<Longrightarrow> jnonneg a \<Longrightarrow> jle a b \<Longrightarrow> b \<noteq> PInf \<Longrightarrow> jle (jdiv a r) (jdiv b r) \<and> jnonneg (jdiv a r)"
  using positive_rate_cases [of r]
  by (cases a; cases b) (auto intro!: fl_mono divide_right_mono)

lemma wei_at_rate_mono:
  assumes "positive_rate r" "jnonneg a" "jle a b" "wei_at_rate r a = Inr m" "wei_at_rate r b = Inr n"
  shows "m \<le> n"
proof -
  have b: "b \<noteq> PInf"
  proof
    assume "b = PInf"
    with assms(5) positive_rate_cases [OF assms(1)] show False
      by (auto simp: wei_at_rate_def jinf_def)
  qed
  have "jle (jceil (jmul (jdiv a r) (Fin (10 ^ 18)))) (jceil (jmul (jdiv b r) (Fin (10 ^ 18))))"
    using jdiv_pos_mono [OF assms(1-3) b] by (intro jceil_mono jmul_Fin_mono) auto
  then show ?thesis using assms(4,5) unfolding wei_at_rate_def by (rule BigInt_of_number_mono)
qed

lemma wei_at_rate_total:
  assumes "positive_rate r" "jnonneg a" "jle a b" "wei_at_rate r b = Inr n"
  shows "\<exists>m. wei_at_rate r a = Inr m"
proof -
  have b: "b \<noteq> PInf"
  proof
    assume "b = PInf"
    with assms(4) positive_rate_cases [OF assms(1)] show False by (auto simp: wei_at_rate_def jinf_def)
  qed
  have le: "jle (jmul (jdiv a r) (Fin (10 ^ 18))) (jmul (jdiv b r) (Fin (10 ^ 18)))"
    and nn: "jnonneg (jmul (jdiv a r) (Fin (10 ^ 18)))"
    using jdiv_pos_mono [OF assms(1-3) b] by (auto intro: jmul_Fin_mono jmul_Fin_nonneg)
  have "jmul (jdiv b r) (Fin (10 ^ 18)) \<noteq> PInf"
    using assms(4) by (auto simp: wei_at_rate_def)
  with le nn obtain q where "jmul (jdiv a r) (Fin (10 ^ 18)) = Fin q"
    by (cases "jmul (jdiv a r) (Fin (10 ^ 18))"; cases "jmul (jdiv b r) (Fin (10 ^ 18))") auto
  then show ?thesis by (simp add: wei_at_rate_def)
qed

lemma wei_at_rate_nonneg:
  assumes "positive_rate r" "jnonneg a" "wei_at_rate r a = Inr m"
  shows "0 \<le> m"
proof -
  have "wei_at_rate r (Fin 0) = Inr 0"
    using positive_rate_cases [OF assms(1)] by (auto simp: wei_at_rate_def)
  from wei_at_rate_mono [OF assms(1) _ _ this assms(3)] assms(2) show ?thesis by (simp add: jnonneg_def)
qed

end
