(* ===== verification/ClaudePricing.thy ===== *)
theory ClaudePricing
  imports JsParse
begin

text \<open>
  \<open>src/src/pricing/claude-pricing.ts\<close>: the price list and the cost of a request in USD, a JavaScript
  number.  Token counts are naturals, converted as the code's divisions convert them.  Shown: the
  cost is monotone in both counts, rounding included, which is what makes the worst-case check of
  the request path an upper bound.
\<close>

record claude_price =
  price_input :: rat
  price_output :: rat

definition CLAUDE_PRICING :: "(string, claude_price) jmap" where
  "CLAUDE_PRICING =
     [(''claude-fable-5-1'', \<lparr>price_input = 10, price_output = 50\<rparr>),
      (''claude-opus-4-6'', \<lparr>price_input = 5, price_output = 25\<rparr>),
      (''claude-sonnet-4-6'', \<lparr>price_input = 3, price_output = 15\<rparr>),
      (''claude-haiku-4-5'', \<lparr>price_input = 1, price_output = 5\<rparr>)]"

definition CLAUDE_MODELS :: "string list" where
  "CLAUDE_MODELS = jm_keys CLAUDE_PRICING"

definition DEFAULT_CLAUDE_MODEL :: string where
  "DEFAULT_CLAUDE_MODEL = ''claude-fable-5-1''"

definition MAX_OUTPUT_TOKENS :: nat where
  "MAX_OUTPUT_TOKENS = 4096"

definition isClaudeModel :: "string \<Rightarrow> bool" where
  "isClaudeModel model = jm_has CLAUDE_PRICING model"

text \<open>Reading the price of a name that is not a model throws in JavaScript (\<open>undefined.input\<close>).\<close>

definition claudeCostUSD :: "string \<Rightarrow> jsnum \<Rightarrow> jsnum \<Rightarrow> jsnum res" where
  "claudeCostUSD model inputTokens outputTokens =
     (case jm_get CLAUDE_PRICING model of
        None \<Rightarrow> Inl TypeError
      | Some pricing \<Rightarrow>
          Inr (jadd (jmul (jdiv inputTokens (Fin 1000000)) (Fin (price_input pricing)))
                    (jmul (jdiv outputTokens (Fin 1000000)) (Fin (price_output pricing)))))"

lemma isClaudeModel_price:
  "isClaudeModel model \<Longrightarrow> \<exists>p. jm_get CLAUDE_PRICING model = Some p \<and> 0 < price_input p \<and> 0 < price_output p"
  by (auto simp: isClaudeModel_def CLAUDE_PRICING_def jm_has_def jm_get_Cons)

lemma claudeCostUSD_ok: "isClaudeModel model \<Longrightarrow> \<exists>c. claudeCostUSD model i t = Inr c"
  using isClaudeModel_price [of model] by (auto simp: claudeCostUSD_def)

lemma claudeCostUSD_mono:
  assumes "claudeCostUSD model i t = Inr c" "claudeCostUSD model i' t' = Inr c'"
    "jnonneg i" "jle i i'" "jnonneg t" "jle t t'"
  shows "jle c c' \<and> jnonneg c"
proof -
  from assms(1) obtain p where p: "jm_get CLAUDE_PRICING model = Some p"
    by (auto simp: claudeCostUSD_def split: option.splits)
  then have "isClaudeModel model" by (simp add: isClaudeModel_def jm_has_get)
  with isClaudeModel_price p have pos: "0 < price_input p" "0 < price_output p" by fastforce+
  from assms(1,2) p have "c = jadd (jmul (jdiv i (Fin 1000000)) (Fin (price_input p)))
      (jmul (jdiv t (Fin 1000000)) (Fin (price_output p)))"
    "c' = jadd (jmul (jdiv i' (Fin 1000000)) (Fin (price_input p)))
      (jmul (jdiv t' (Fin 1000000)) (Fin (price_output p)))"
    by (simp_all add: claudeCostUSD_def)
  with assms(3-6) pos show ?thesis by (simp add: jsnum_mono)
qed

end
