(* ===== verification/ResponseShape.thy ===== *)
theory ResponseShape
  imports JsText JsNumber
begin

text \<open>
  What a response reveals by its shape: \<open>src/src/longjing/utils/cost-quantization.util.ts\<close> and
  \<open>src/src/longjing/utils/response-padding.util.ts\<close>.

  Costs and unit counts are JavaScript numbers (\<open>jsnum\<close>), so the class boundaries 0.01 and 0.1
  are the doubles nearest to them.  Content is a list of UTF-16 code units.  Beyond the largest
  size class the code takes $2^{\lceil \log_2 n\rceil}$ in doubles, which is exact for every
  length a JavaScript string can have; the model takes it in integers.

  Shown: a non-negative cost falls in the class whose bounds hold it, and classes are monotone;
  padded content has exactly the size of its class, less than twice its own above 256 bytes;
  removing the padding gives the content back up to its first NUL.  Last, the padding is undone
  by the JSON encoding of the response: a NUL is six characters there, so two plain contents of
  different lengths in one class are serialised to different lengths.
\<close>

section \<open>Quantization\<close>

datatype CostClass = Cost_MICRO | Cost_SMALL | Cost_MEDIUM | Cost_LARGE | Cost_XLARGE
datatype UnitClass = Unit_TINY | Unit_SMALL | Unit_MEDIUM | Unit_LARGE | Unit_XLARGE

definition COST_CLASS_BOUNDARIES :: "(CostClass \<times> jsnum \<times> jsnum) list" where
  "COST_CLASS_BOUNDARIES =
     [(Cost_MICRO, Fin 0, fl (1 / 100)),
      (Cost_SMALL, fl (1 / 100), fl (1 / 10)),
      (Cost_MEDIUM, fl (1 / 10), Fin 1),
      (Cost_LARGE, Fin 1, Fin 10),
      (Cost_XLARGE, Fin 10, PInf)]"

fun COST_CLASS_REPRESENTATIVE :: "CostClass \<Rightarrow> jsnum" where
  "COST_CLASS_REPRESENTATIVE Cost_MICRO = fl (5 / 1000)"
| "COST_CLASS_REPRESENTATIVE Cost_SMALL = fl (5 / 100)"
| "COST_CLASS_REPRESENTATIVE Cost_MEDIUM = Fin (1 / 2)"
| "COST_CLASS_REPRESENTATIVE Cost_LARGE = Fin 5"
| "COST_CLASS_REPRESENTATIVE Cost_XLARGE = Fin 15"

definition UNIT_CLASS_BOUNDARIES :: "(UnitClass \<times> jsnum \<times> jsnum) list" where
  "UNIT_CLASS_BOUNDARIES =
     [(Unit_TINY, Fin 0, Fin 100),
      (Unit_SMALL, Fin 100, Fin 1000),
      (Unit_MEDIUM, Fin 1000, Fin 10000),
      (Unit_LARGE, Fin 10000, Fin 100000),
      (Unit_XLARGE, Fin 100000, PInf)]"

fun UNIT_CLASS_REPRESENTATIVE :: "UnitClass \<Rightarrow> jsnum" where
  "UNIT_CLASS_REPRESENTATIVE Unit_TINY = Fin 50"
| "UNIT_CLASS_REPRESENTATIVE Unit_SMALL = Fin 500"
| "UNIT_CLASS_REPRESENTATIVE Unit_MEDIUM = Fin 5000"
| "UNIT_CLASS_REPRESENTATIVE Unit_LARGE = Fin 50000"
| "UNIT_CLASS_REPRESENTATIVE Unit_XLARGE = Fin 150000"

definition in_class :: "jsnum \<Rightarrow> 'c \<times> jsnum \<times> jsnum \<Rightarrow> bool" where
  "in_class v e = (case e of (_, lo, hi) \<Rightarrow> jle lo v \<and> jlt v hi)"

definition quantizeCost :: "jsnum \<Rightarrow> CostClass \<times> jsnum" where
  "quantizeCost costUSD =
     (case List.find (in_class costUSD) COST_CLASS_BOUNDARIES of
        Some (c, _) \<Rightarrow> (c, COST_CLASS_REPRESENTATIVE c)
      | None \<Rightarrow> (Cost_XLARGE, COST_CLASS_REPRESENTATIVE Cost_XLARGE))"

definition quantizeUnits :: "jsnum \<Rightarrow> UnitClass \<times> jsnum" where
  "quantizeUnits units =
     (case List.find (in_class units) UNIT_CLASS_BOUNDARIES of
        Some (c, _) \<Rightarrow> (c, UNIT_CLASS_REPRESENTATIVE c)
      | None \<Rightarrow> (Unit_XLARGE, UNIT_CLASS_REPRESENTATIVE Unit_XLARGE))"

definition costClassToUSD :: "CostClass \<Rightarrow> jsnum" where
  "costClassToUSD c = COST_CLASS_REPRESENTATIVE c"

definition unitClassToCount :: "UnitClass \<Rightarrow> jsnum" where
  "unitClassToCount c = UNIT_CLASS_REPRESENTATIVE c"

definition calculateQuantizationError :: "jsnum \<Rightarrow> jsnum \<Rightarrow> jsnum" where
  "calculateQuantizationError actualCost quantizedCost = jdiv (jabs (jsub actualCost quantizedCost)) actualCost"

section \<open>Padding\<close>

definition SIZE_CLASSES :: "nat list" where
  "SIZE_CLASSES = [512, 1024, 2048, 4096, 8192, 16384, 32768, 65536, 131072, 262144]"

definition PADDING_MARKER :: "16 word" where
  "PADDING_MARKER = 0"

definition next_pow2 :: "nat \<Rightarrow> nat" where
  "next_pow2 n = 2 ^ nat (bitlen (int n - 1))"

definition getSizeClass :: "nat \<Rightarrow> nat" where
  "getSizeClass contentLength =
     (case List.find (\<lambda>size. size \<ge> contentLength) SIZE_CLASSES of
        Some targetSize \<Rightarrow> targetSize
      | None \<Rightarrow> next_pow2 contentLength)"

definition padResponse :: "jsstr \<Rightarrow> jsstr" where
  "padResponse content =
     (let currentSize = byteLength content;
          targetSize = List.find (\<lambda>size. size \<ge> currentSize) SIZE_CLASSES;
          finalTargetSize = (case targetSize of Some t \<Rightarrow> t | None \<Rightarrow> next_pow2 currentSize);
          paddingSize = int finalTargetSize - int currentSize
      in if paddingSize \<le> 0 then content
         else content @ replicate (nat paddingSize) PADDING_MARKER)"

definition unpadResponse :: "jsstr \<Rightarrow> jsstr" where
  "unpadResponse paddedContent = takeWhile (\<lambda>u. u \<noteq> PADDING_MARKER) paddedContent"

definition calculatePaddingOverhead :: "jsnum \<Rightarrow> jsnum \<Rightarrow> jsnum" where
  "calculatePaddingOverhead originalSize paddedSize =
     (if originalSize = Fin 0 then Fin 0
      else jmul (jdiv (jsub paddedSize originalSize) originalSize) (Fin 100))"

section \<open>Quantization: facts\<close>

lemma jlt_iff: "jlt v b \<longleftrightarrow> v \<noteq> NaN \<and> b \<noteq> NaN \<and> \<not> jle b v"
  by (cases v; cases b) (auto simp: jlt_def)

text \<open>A list of adjacent intervals from 0 upwards sorts a non-negative number by its upper bounds.\<close>

lemma quantizeCost_nonneg:
  assumes "jnonneg c"
  shows "fst (quantizeCost c) =
     (if jlt c (fl (1 / 100)) then Cost_MICRO else if jlt c (fl (1 / 10)) then Cost_SMALL
      else if jlt c (Fin 1) then Cost_MEDIUM else if jlt c (Fin 10) then Cost_LARGE else Cost_XLARGE)"
  using assms
  by (cases c) (auto simp: quantizeCost_def COST_CLASS_BOUNDARIES_def in_class_def jlt_iff jnonneg_def)

lemma quantizeUnits_nonneg:
  assumes "jnonneg u"
  shows "fst (quantizeUnits u) =
     (if jlt u (Fin 100) then Unit_TINY else if jlt u (Fin 1000) then Unit_SMALL
      else if jlt u (Fin 10000) then Unit_MEDIUM else if jlt u (Fin 100000) then Unit_LARGE else Unit_XLARGE)"
  using assms
  by (cases u) (auto simp: quantizeUnits_def UNIT_CLASS_BOUNDARIES_def in_class_def jlt_iff jnonneg_def)

fun cost_rank :: "CostClass \<Rightarrow> nat" where
  "cost_rank Cost_MICRO = 0" | "cost_rank Cost_SMALL = 1" | "cost_rank Cost_MEDIUM = 2"
| "cost_rank Cost_LARGE = 3" | "cost_rank Cost_XLARGE = 4"

lemma jlt_trans_le: "jle a b \<Longrightarrow> jlt b c \<Longrightarrow> jlt a c"
  by (cases a; cases b; cases c) (auto simp: jlt_def)

text \<open>Quantization is sound and monotone: a non-negative cost is put in a class whose lower bound
  is at most the cost and whose upper bound is above it (the last class is open above), the
  quantized value depends on the class only, and a larger cost never gets a lower class.\<close>

theorem quantizeCost_sound:
  assumes "jnonneg a" "jle a b"
  shows "(\<exists>lo hi. (fst (quantizeCost a), lo, hi) \<in> set COST_CLASS_BOUNDARIES \<and> jle lo a \<and> (jlt a hi \<or> hi = PInf))
    \<and> snd (quantizeCost a) = costClassToUSD (fst (quantizeCost a))
    \<and> cost_rank (fst (quantizeCost a)) \<le> cost_rank (fst (quantizeCost b))"
proof -
  have na: "a \<noteq> NaN" and nb: "jnonneg b" using assms jnonneg_jle by (auto simp: jnonneg_def)
  have up: "jle lo a" if "\<not> jlt a lo" "lo \<noteq> NaN" for lo
    using that na by (simp add: jlt_iff)
  have "\<exists>lo hi. (fst (quantizeCost a), lo, hi) \<in> set COST_CLASS_BOUNDARIES \<and> jle lo a \<and> (jlt a hi \<or> hi = PInf)"
    unfolding quantizeCost_nonneg [OF assms(1)]
    using assms(1) up [of "fl (1 / 100)"] up [of "fl (1 / 10)"] up [of "Fin 1"] up [of "Fin 10"]
    by (auto simp: COST_CLASS_BOUNDARIES_def jnonneg_def)
  moreover have "snd (quantizeCost a) = costClassToUSD (fst (quantizeCost a))"
    by (simp add: quantizeCost_def costClassToUSD_def split: option.split)
  moreover have "cost_rank (fst (quantizeCost a)) \<le> cost_rank (fst (quantizeCost b))"
    unfolding quantizeCost_nonneg [OF assms(1)] quantizeCost_nonneg [OF nb]
    using jlt_trans_le [OF assms(2)] by auto
  ultimately show ?thesis by blast
qed

theorem quantizeCost_sound_witness:
  "cost_rank (fst (quantizeCost (Fin 2))) \<le> cost_rank (fst (quantizeCost (Fin 30)))"
  using quantizeCost_sound [of "Fin 2" "Fin 30"] by simp

section \<open>Padding: facts\<close>

lemma next_pow2_ge: "n \<le> next_pow2 n"
proof (cases "n = 0")
  case False
  then have "0 < int n - 1 \<or> int n - 1 = 0" by auto
  then show ?thesis
  proof
    assume "0 < int n - 1"
    then have "int n - 1 < 2 ^ nat (bitlen (int n - 1))" using bitlen_bounds [of "int n - 1"] by simp
    moreover have "int (next_pow2 n) = 2 ^ nat (bitlen (int n - 1))" by (simp add: next_pow2_def)
    ultimately show ?thesis by linarith
  next
    assume "int n - 1 = 0"
    then show ?thesis by (simp add: next_pow2_def)
  qed
qed simp

lemma getSizeClass_ge: "n \<le> getSizeClass n"
  by (auto simp: getSizeClass_def next_pow2_ge dest: find_Some_iff' split: option.split)

lemma padResponse_eq:
  "padResponse s = s @ replicate (getSizeClass (byteLength s) - byteLength s) PADDING_MARKER"
  using getSizeClass_ge [of "byteLength s"]
  by (auto simp: padResponse_def getSizeClass_def Let_def nat_minus_as_int split: option.splits)

text \<open>Padded content has exactly the size of the class of its length, and unpadding gives the
  content back when it holds no NUL; when it holds one, everything from the first NUL on is lost.\<close>

theorem padding_roundtrip:
  "byteLength (padResponse s) = getSizeClass (byteLength s)
   \<and> unpadResponse (padResponse s) = takeWhile (\<lambda>u. u \<noteq> 0) s
   \<and> (unpadResponse (padResponse s) = s \<longleftrightarrow> 0 \<notin> set s)"
proof -
  have "byteLength (padResponse s) = getSizeClass (byteLength s)"
    using getSizeClass_ge [of "byteLength s"]
    by (simp add: padResponse_eq PADDING_MARKER_def byteLength_append_zeros)
  moreover have u: "unpadResponse (padResponse s) = takeWhile (\<lambda>u. u \<noteq> 0) s"
  proof (cases "0 \<in> set s")
    case True
    then show ?thesis by (simp add: padResponse_eq unpadResponse_def PADDING_MARKER_def takeWhile_append1)
  next
    case False
    then have all: "takeWhile (\<lambda>u. u \<noteq> 0) s = s" unfolding takeWhile_eq_all_conv by auto
    have "takeWhile (\<lambda>u :: 16 word. u \<noteq> 0) (replicate k 0) = []" for k by (cases k) simp_all
    moreover have "takeWhile (\<lambda>u. u \<noteq> 0) (s @ t) = s @ takeWhile (\<lambda>u. u \<noteq> 0) t" for t
      using False by (intro takeWhile_append2) auto
    ultimately show ?thesis
      by (simp add: padResponse_eq unpadResponse_def PADDING_MARKER_def all)
  qed
  moreover have "takeWhile (\<lambda>u. u \<noteq> 0) s = s \<longleftrightarrow> 0 \<notin> set s"
    unfolding takeWhile_eq_all_conv by auto
  ultimately show ?thesis by simp
qed

text \<open>The length of a code unit in the JSON text of a string, for the units a plain answer is made of
  and for NUL: a control character without a short escape is written with six characters.\<close>

definition plain_unit :: "16 word \<Rightarrow> bool" where
  "plain_unit u = (32 \<le> unat u \<and> unat u < 127 \<and> unat u \<noteq> 34 \<and> unat u \<noteq> 92)"

definition json_unit_length :: "16 word \<Rightarrow> nat" where
  "json_unit_length u =
     (if unat u \<in> {8, 9, 10, 12, 13, 34, 92} then 2 else if unat u < 32 then 6 else unit_bytes u)"

definition json_length :: "jsstr \<Rightarrow> nat" where
  "json_length s = 2 + sum_list (map json_unit_length s)"

lemma json_length_plain: "list_all plain_unit s \<Longrightarrow> sum_list (map json_unit_length s) = length s"
  by (induction s) (auto simp: plain_unit_def json_unit_length_def unit_bytes_def)

lemma byteLength_plain: "list_all plain_unit s \<Longrightarrow> byteLength s = length s"
proof (induction s rule: byteLength.induct)
  case (1 u v s)
  then show ?case by (auto simp: plain_unit_def unit_bytes_def high_surrogate_def)
next
  case (2 u)
  then show ?case by (auto simp: plain_unit_def unit_bytes_def)
qed simp

lemma json_length_padded:
  assumes "list_all plain_unit s"
  shows "json_length (padResponse s) + 5 * length s = 2 + 6 * getSizeClass (length s)"
proof -
  have "json_unit_length 0 = 6" by (simp add: json_unit_length_def)
  then show ?thesis
    using assms getSizeClass_ge [of "length s"]
    by (simp add: json_length_def padResponse_eq byteLength_plain json_length_plain PADDING_MARKER_def
        sum_list_replicate algebra_simps)
qed

text \<open>The padding does not hide the length of a plain answer on the wire: two plain contents of one
  size class whose JSON texts have the same length have the same length themselves.\<close>

theorem padding_leaks_in_json:
  assumes "list_all plain_unit s" "list_all plain_unit t" "getSizeClass (length s) = getSizeClass (length t)"
    "json_length (padResponse s) = json_length (padResponse t)"
  shows "length s = length t"
  using json_length_padded [OF assms(1)] json_length_padded [OF assms(2)] assms(3,4) by simp

theorem padding_leaks_in_json_witness:
  "length ([65] :: jsstr) = length ([66] :: jsstr)"
  by (rule padding_leaks_in_json) (simp_all add: plain_unit_def json_length_def padResponse_eq byteLength_plain
      json_unit_length_def unit_bytes_def)

end
