(* ===== verification/RefundSigner.thy ===== *)
theory RefundSigner
  imports PayloadSignal Config
begin

text \<open>
  \<open>src/src/longjing/refund-signer.service.ts\<close>: the EdDSA key that signs refund accumulators.

  circomlibjs is the record \<open>eddsa_lib\<close>: Poseidon, the public key of a private key, signing and
  verifying, and the reduction \<open>F.e\<close> of a BigInt into the field.  Key derivation is the argument
  \<open>derived\<close> (the enclave's key, or none).  \<open>initialize\<close> runs once: its promise is kept, so a failed
  initialisation fails every later call too.  (The branch that swallows an error of the test
  runner's teardown is left out.)

  Shown: production never signs with a fallback key unless the compose file opts out and a key is
  given; a signature made by the service passes its own check whenever EdDSA is correct, which
  is a round trip through the textual encoding; and the development key is the same at every
  start.
\<close>

record eddsa_lib =
  poseidon2 :: "int list \<Rightarrow> int"
  prv2pub :: "bytes \<Rightarrow> int \<times> int"
  signPoseidon :: "bytes \<Rightarrow> int \<Rightarrow> (int \<times> int) \<times> int"
  verifyPoseidon :: "int \<Rightarrow> (int \<times> int) \<times> int \<Rightarrow> int \<times> int \<Rightarrow> bool"
  F_e :: "int \<Rightarrow> int"

record refund_signer =
  rs_privateKey :: "bytes option"
  rs_publicKey :: "(string \<times> string) option"
  rs_initPromise :: "unit res option"

definition rs_init :: refund_signer where
  "rs_init = \<lparr>rs_privateKey = None, rs_publicKey = None, rs_initPromise = None\<rparr>"

section \<open>Hex text of numbers\<close>

text \<open>\<open>n.toString(16)\<close>.\<close>

fun hex_of_nat :: "nat \<Rightarrow> string" where
  "hex_of_nat n = (if n < 16 then [digit_char n] else hex_of_nat (n div 16) @ [digit_char (n mod 16)])"

declare hex_of_nat.simps [simp del]

definition hex64 :: "int \<Rightarrow> string" where
  "hex64 n = ''0x'' @ padStart 64 CHR ''0'' (hex_of_nat (nat n))"

section \<open>Keys\<close>

definition generatePrivateKey :: "(bytes \<Rightarrow> bytes) \<Rightarrow> string" where
  "generatePrivateKey sha256 = ''0x'' @ hex_of_bytes (sha256 (ascii_bytes ''longjing-refund-signer-dev-key''))"

definition loadPrivateKey :: "(bytes \<Rightarrow> bytes) \<Rightarrow> env \<Rightarrow> bytes option \<Rightarrow> bytes res" where
  "loadPrivateKey sha256 env derived =
     (case derived of
        Some key \<Rightarrow> Inr key
      | None \<Rightarrow>
          bind (isProd env) (\<lambda>production.
          bind (guard (\<not> (production \<and> (\<not> keysOutsideEnclaveAllowed env \<or> \<not> is_set env ''OPERATOR_PRIVATE_KEY'')))
            (Error ''Refund signer key not derived from dstack. Refusing to use a fallback key in production.'')) (\<lambda>_.
          let privateKeyHex = (if is_set env ''OPERATOR_PRIVATE_KEY'' then the (jm_get env ''OPERATOR_PRIVATE_KEY'')
                               else generatePrivateKey sha256)
          in Inr (bytes_of_hex (padStart 64 CHR ''0'' (strip0x privateKeyHex))))))"

definition rs_initialize ::
  "eddsa_lib \<Rightarrow> (bytes \<Rightarrow> bytes) \<Rightarrow> env \<Rightarrow> bytes option \<Rightarrow> refund_signer \<Rightarrow> refund_signer \<times> unit res" where
  "rs_initialize lib sha256 env derived rs =
     (case loadPrivateKey sha256 env derived of
        Inl e \<Rightarrow> (rs, Inl e)
      | Inr key \<Rightarrow>
          (rs\<lparr>rs_privateKey := Some key,
              rs_publicKey := Some (hex64 (fst (prv2pub lib key)), hex64 (snd (prv2pub lib key)))\<rparr>, Inr ()))"

definition ensureInitialized ::
  "eddsa_lib \<Rightarrow> (bytes \<Rightarrow> bytes) \<Rightarrow> env \<Rightarrow> bytes option \<Rightarrow> refund_signer \<Rightarrow> refund_signer \<times> unit res" where
  "ensureInitialized lib sha256 env derived rs =
     (case rs_initPromise rs of
        Some r \<Rightarrow> (rs, r)
      | None \<Rightarrow> (case rs_initialize lib sha256 env derived rs of
          (rs', r) \<Rightarrow> (rs'\<lparr>rs_initPromise := Some r\<rparr>, r)))"

section \<open>Signing\<close>

definition accumulatorMessage :: "eddsa_lib \<Rightarrow> point \<Rightarrow> int" where
  "accumulatorMessage lib p = poseidon2 lib [fst p, snd p]"

definition sign :: "eddsa_lib \<Rightarrow> bytes \<Rightarrow> int \<Rightarrow> signature" where
  "sign lib privateKey message =
     (case signPoseidon lib privateKey (F_e lib message) of ((r8x, r8y), s) \<Rightarrow>
        \<lparr>R8x = hex64 r8x, R8y = hex64 r8y, sigS = hex64 s\<rparr>)"

definition verify :: "eddsa_lib \<Rightarrow> string \<times> string \<Rightarrow> int \<Rightarrow> signature \<Rightarrow> bool res" where
  "verify lib publicKey message sig =
     bind (BigInt_of_string (R8x sig)) (\<lambda>r8x.
     bind (BigInt_of_string (R8y sig)) (\<lambda>r8y.
     bind (BigInt_of_string (sigS sig)) (\<lambda>s.
     bind (BigInt_of_string (fst publicKey)) (\<lambda>px.
     bind (BigInt_of_string (snd publicKey)) (\<lambda>py.
       Inr (verifyPoseidon lib (F_e lib message) ((F_e lib r8x, F_e lib r8y), s) (F_e lib px, F_e lib py)))))))"

definition signAccumulator ::
  "eddsa_lib \<Rightarrow> (bytes \<Rightarrow> bytes) \<Rightarrow> env \<Rightarrow> bytes option \<Rightarrow> point \<Rightarrow> refund_signer \<Rightarrow> refund_signer \<times> signature res" where
  "signAccumulator lib sha256 env derived accumulator rs =
     (case ensureInitialized lib sha256 env derived rs of
        (rs', Inl e) \<Rightarrow> (rs', Inl e)
      | (rs', Inr _) \<Rightarrow> (rs', Inr (sign lib (the (rs_privateKey rs')) (accumulatorMessage lib accumulator))))"

definition verifyAccumulator ::
  "eddsa_lib \<Rightarrow> (bytes \<Rightarrow> bytes) \<Rightarrow> env \<Rightarrow> bytes option \<Rightarrow> point \<Rightarrow> signature \<Rightarrow> refund_signer
   \<Rightarrow> refund_signer \<times> bool res" where
  "verifyAccumulator lib sha256 env derived accumulator sig rs =
     (case ensureInitialized lib sha256 env derived rs of
        (rs', Inl e) \<Rightarrow> (rs', Inl e)
      | (rs', Inr _) \<Rightarrow> (rs', verify lib (the (rs_publicKey rs')) (accumulatorMessage lib accumulator) sig))"

definition getPublicKey ::
  "eddsa_lib \<Rightarrow> (bytes \<Rightarrow> bytes) \<Rightarrow> env \<Rightarrow> bytes option \<Rightarrow> refund_signer \<Rightarrow> refund_signer \<times> (string \<times> string) res" where
  "getPublicKey lib sha256 env derived rs =
     (case ensureInitialized lib sha256 env derived rs of
        (rs', Inl e) \<Rightarrow> (rs', Inl e)
      | (rs', Inr _) \<Rightarrow> (rs', Inr (the (rs_publicKey rs'))))"

section \<open>Facts\<close>

lemma hex_of_nat_hex: "list_all is_hex (hex_of_nat n)"
proof (induction n rule: hex_of_nat.induct)
  case (1 n)
  then show ?case by (subst hex_of_nat.simps) (auto simp: digit_char_hex)
qed

lemma hex_of_nat_not_Nil [simp]: "hex_of_nat n \<noteq> []"
  by (subst hex_of_nat.simps) simp

lemma radix_val_hex_of_nat [simp]: "radix_val 16 (hex_of_nat n) = n"
proof (induction n rule: hex_of_nat.induct)
  case (1 n)
  then show ?case
    by (subst hex_of_nat.simps) (auto simp: radix_val_snoc digit_char_hex radix_val_def)
qed

lemma radix_val_zeros: "radix_val b (replicate k CHR ''0'' @ s) = radix_val b s"
proof (induction k)
  case (Suc k)
  have "digit_val CHR ''0'' = 0" by (simp add: digit_val_def is_digit_def cval_def)
  with Suc show ?case by (simp add: radix_val_def)
qed simp

lemma BigInt_hex64: "0 \<le> n \<Longrightarrow> BigInt_of_string (hex64 n) = Inr n"
proof -
  assume n: "0 \<le> n"
  let ?ds = "padStart 64 CHR ''0'' (hex_of_nat (nat n))"
  have "list_all is_hex ?ds"
    using hex_of_nat_hex [of "nat n"] by (auto simp: padStart_def list_all_iff is_hex_def is_digit_def cval_def)
  moreover have "?ds \<noteq> []" by (simp add: padStart_def)
  moreover have "radix_val 16 ?ds = nat n" by (simp add: padStart_def radix_val_zeros)
  ultimately show ?thesis using n BigInt_of_string_hex [of ?ds] by (simp add: hex64_def)
qed

text \<open>The signer is ready with a private key and the text of the public key that goes with it.\<close>

definition rs_ready :: "eddsa_lib \<Rightarrow> bytes \<Rightarrow> refund_signer \<Rightarrow> bool" where
  "rs_ready lib key rs \<longleftrightarrow> rs_initPromise rs = Some (Inr ()) \<and> rs_privateKey rs = Some key \<and>
     rs_publicKey rs = Some (hex64 (fst (prv2pub lib key)), hex64 (snd (prv2pub lib key)))"

lemma ensureInitialized_ready: "rs_ready lib key rs \<Longrightarrow> ensureInitialized lib sha256 env derived rs = (rs, Inr ())"
  by (simp add: rs_ready_def ensureInitialized_def)

lemma ensureInitialized_init:
  "ensureInitialized lib sha256 env derived rs_init = (rs, Inr ()) \<Longrightarrow>
   \<exists>key. loadPrivateKey sha256 env derived = Inr key \<and> rs_ready lib key rs"
  by (auto simp: ensureInitialized_def rs_initialize_def rs_init_def rs_ready_def split: sum.splits)

text \<open>The law of EdDSA, and that the library's coordinates are field elements, which \<open>F.e\<close> leaves
  alone.\<close>

definition eddsa_correct :: "eddsa_lib \<Rightarrow> bool" where
  "eddsa_correct lib \<longleftrightarrow>
     (\<forall>key m. verifyPoseidon lib m (signPoseidon lib key m) (prv2pub lib key)) \<and>
     (\<forall>x. 0 \<le> F_e lib x) \<and> (\<forall>x. F_e lib (F_e lib x) = F_e lib x) \<and>
     (\<forall>key. F_e lib (fst (prv2pub lib key)) = fst (prv2pub lib key) \<and> F_e lib (snd (prv2pub lib key)) = snd (prv2pub lib key)) \<and>
     (\<forall>key m. case signPoseidon lib key m of ((x, y), s) \<Rightarrow> F_e lib x = x \<and> F_e lib y = y \<and> 0 \<le> s)"

lemma verify_sign:
  assumes "eddsa_correct lib"
  shows "verify lib (hex64 (fst (prv2pub lib key)), hex64 (snd (prv2pub lib key))) m (sign lib key m) = Inr True"
proof -
  obtain x y s where sg: "signPoseidon lib key (F_e lib m) = ((x, y), s)"
    by (metis surj_pair)
  have f: "\<And>v. 0 \<le> F_e lib v" using assms by (simp add: eddsa_correct_def)
  have e: "F_e lib x = x" "F_e lib y = y" "0 \<le> s"
    using assms sg unfolding eddsa_correct_def by (metis (mono_tags, lifting) case_prod_conv)+
  have p: "F_e lib (fst (prv2pub lib key)) = fst (prv2pub lib key)" "F_e lib (snd (prv2pub lib key)) = snd (prv2pub lib key)"
    using assms by (simp_all add: eddsa_correct_def)
  have nn: "0 \<le> x" "0 \<le> y" "0 \<le> fst (prv2pub lib key)" "0 \<le> snd (prv2pub lib key)"
    using f e p by metis+
  have "verifyPoseidon lib (F_e lib m) ((x, y), s) (prv2pub lib key)"
    using assms sg unfolding eddsa_correct_def by metis
  then show ?thesis by (simp add: verify_def sign_def sg BigInt_hex64 nn e p)
qed

text \<open>A refund accumulator that the service signs is accepted by the service's own check: for any
  EdDSA library that accepts the signatures it makes, encoding the signature and the public key
  as padded hex and reading them back changes neither.\<close>

theorem sign_verify_roundtrip:
  assumes "eddsa_correct lib" "signAccumulator lib sha256 env derived acc rs_init = (rs, Inr sig)"
  shows "verifyAccumulator lib sha256 env derived acc sig rs = (rs, Inr True)"
proof -
  from assms(2) obtain r where r: "ensureInitialized lib sha256 env derived rs_init = (rs, Inr r)"
    "sig = sign lib (the (rs_privateKey rs)) (accumulatorMessage lib acc)"
    by (auto simp: signAccumulator_def split: prod.splits sum.splits)
  then obtain key where k: "rs_ready lib key rs" using ensureInitialized_init by fastforce
  then show ?thesis
    using r(2) verify_sign [OF assms(1), of key]
    by (simp add: verifyAccumulator_def ensureInitialized_ready [OF k] rs_ready_def)
qed

definition toy_eddsa :: eddsa_lib where
  "toy_eddsa = \<lparr>poseidon2 = \<lambda>xs. sum_list xs, prv2pub = \<lambda>k. (3, 4), signPoseidon = \<lambda>k m. ((1, 2), 5),
     verifyPoseidon = \<lambda>m s p. s = ((1, 2), 5) \<and> p = (3, 4), F_e = \<lambda>x. x mod 100\<rparr>"

theorem sign_verify_roundtrip_witness:
  "\<exists>rs sig. signAccumulator toy_eddsa (\<lambda>_. []) [] (Some [1, 2]) (7, 8) rs_init = (rs, Inr sig)
     \<and> verifyAccumulator toy_eddsa (\<lambda>_. []) [] (Some [1, 2]) (7, 8) sig rs = (rs, Inr True)"
proof -
  have c: "eddsa_correct toy_eddsa" by (simp add: eddsa_correct_def toy_eddsa_def)
  obtain rs sig where s: "signAccumulator toy_eddsa (\<lambda>_. []) [] (Some [1, 2]) (7, 8) rs_init = (rs, Inr sig)"
    by (simp add: signAccumulator_def ensureInitialized_def rs_initialize_def rs_init_def loadPrivateKey_def)
  with sign_verify_roundtrip [OF c s] show ?thesis by blast
qed

text \<open>In production the refund key is the enclave's, or an operator key under the compose opt-out;
  with neither, every operation of the signer fails and keeps failing.\<close>

theorem refund_key_prod:
  assumes "profile env = Inr prod_profile" "derived = None"
    "\<not> (keysOutsideEnclaveAllowed env \<and> is_set env ''OPERATOR_PRIVATE_KEY'')"
    "ensureInitialized lib sha256 env derived rs_init = (rs, r)"
  shows "\<not> is_ok r \<and> rs_privateKey rs = None
    \<and> (\<forall>acc sig env' derived'. \<not> is_ok (snd (signAccumulator lib sha256 env' derived' acc rs))
         \<and> \<not> is_ok (snd (getPublicKey lib sha256 env' derived' rs)))"
proof -
  have "loadPrivateKey sha256 env derived =
      Inl (Error ''Refund signer key not derived from dstack. Refusing to use a fallback key in production.'')"
    using assms(1-3) by (auto simp: loadPrivateKey_def isProd_def guard_def)
  with assms(4) have "rs_initPromise rs = Some r" "\<not> is_ok r" "rs_privateKey rs = None"
    by (auto simp: ensureInitialized_def rs_initialize_def rs_init_def)
  then show ?thesis
    by (cases r) (auto simp: signAccumulator_def getPublicKey_def ensureInitialized_def)
qed

theorem refund_key_prod_witness:
  "\<not> is_ok (snd (ensureInitialized toy_eddsa (\<lambda>_. []) [(''NODE_ENV'', ''production'')] None rs_init))"
proof -
  have p: "profile [(''NODE_ENV'', ''production'')] = Inr prod_profile"
    "\<not> (keysOutsideEnclaveAllowed [(''NODE_ENV'', ''production'')] \<and> is_set [(''NODE_ENV'', ''production'')] ''OPERATOR_PRIVATE_KEY'')"
    by code_simp+
  obtain rs r where e: "ensureInitialized toy_eddsa (\<lambda>_. []) [(''NODE_ENV'', ''production'')] None rs_init = (rs, r)"
    by (metis surj_pair)
  from refund_key_prod [OF p(1) refl p(2) e] e show ?thesis by simp
qed

end
