(* ===== verification/Longjing.thy ===== *)
theory Longjing
  imports StateRes ProofVerifier NullifierStore EthRate ClaudePricing ResponseShape RefundSigner
begin

text \<open>
  \<open>src/src/longjing/longjing.service.ts\<close> with its request and response DTOs, and
  \<open>src/src/longjing/longjing.controller.ts\<close>: serving one request.

  The record \<open>world\<close> holds the state of every service the request path touches, and two logs of
  what the outside sees: the keys given to the slashing contract and the nullifiers for which the
  provider was called.  The record \<open>ctx\<close> holds what is not the program's: the hash functions,
  snarkjs, circomlibjs, the chain, the clock readings and the provider's answer at this request.

  \<open>handleRequest\<close> is the code's eight steps in order; it is the composition of \<open>check_request\<close>
  (steps 1 to 4), \<open>record_signal\<close> (step 5) and \<open>serve\<close> (steps 6 to 8), which are also the pieces
  that interleave with other requests (\<open>Spec2Isabelle\<close>).
\<close>

section \<open>Data\<close>

record rln_signal_dto =
  dto_x :: string
  dto_y :: string

record longjing_request =
  rq_payload :: jsstr
  rq_nonce :: string
  rq_nullifier :: string
  rq_signal :: rln_signal_dto
  rq_proof :: string
  rq_merkleRoot :: string
  rq_accumulator :: rln_signal_dto
  rq_model :: "string option"

definition MAX_PROOF_LENGTH :: nat where "MAX_PROOF_LENGTH = 4096"
definition MAX_PAYLOAD_LENGTH :: nat where "MAX_PAYLOAD_LENGTH = 100000"

text \<open>What the ValidationPipe checks of a request, from the decorators of the DTO.\<close>

definition valid_dto :: "longjing_request \<Rightarrow> bool" where
  "valid_dto rq \<longleftrightarrow>
     rq_payload rq \<noteq> [] \<and> length (rq_payload rq) \<le> MAX_PAYLOAD_LENGTH \<and>
     IsFieldElement (rq_nonce rq) \<and> IsFieldElement (rq_nullifier rq) \<and>
     IsFieldElement (dto_x (rq_signal rq)) \<and> IsFieldElement (dto_y (rq_signal rq)) \<and>
     rq_proof rq \<noteq> [] \<and> length (rq_proof rq) \<le> MAX_PROOF_LENGTH \<and>
     IsFieldElement (rq_merkleRoot rq) \<and>
     IsFieldElement (dto_x (rq_accumulator rq)) \<and> IsFieldElement (dto_y (rq_accumulator rq)) \<and>
     (case rq_model rq of None \<Rightarrow> True | Some m \<Rightarrow> m \<in> set CLAUDE_MODELS)"

record usage_dto =
  us_unitClass :: UnitClass
  us_unitType :: string
  us_costClass :: CostClass
  us_provider :: "string option"
  us_endpoint :: "string option"
  us_timestamp :: "int option"

text \<open>The internal fields of \<open>UsageDto\<close>, which never leave the service.\<close>

record internal_usage = usage_dto +
  us_internalUnits :: jsnum
  us_internalCostUSD :: jsnum
  us_internalInputTokens :: nat
  us_internalOutputTokens :: nat

record longjing_response =
  rs_response :: jsstr
  rs_refund :: string
  rs_accumulator :: signed_accumulator
  rs_usage :: usage_dto

text \<open>What the store keeps for a retry: a response, or the failure to throw again.\<close>

datatype kept = Kept_response longjing_response | Kept_failure exn

record message_block =
  mb_type :: string
  mb_text :: "jsstr option"

record provider_message =
  pm_content :: "message_block list"
  pm_input_tokens :: nat
  pm_output_tokens :: nat

record 'v ctx =
  cx_env :: env
  cx_sha256 :: "bytes \<Rightarrow> bytes"
  cx_sha256_utf8 :: "jsstr \<Rightarrow> bytes"
  cx_poseidon :: "int list \<Rightarrow> int"
  cx_snark :: "'v snark_lib"
  cx_reads :: root_reads
  cx_eddsa :: eddsa_lib
  cx_derived :: "bytes option"
  cx_generators :: generators
  cx_slash :: slash_chain
  cx_now_attempt :: int
  cx_now_recall :: int
  cx_now_remember :: int
  cx_rate_before :: rate_call
  cx_rate_after :: rate_call
  cx_provider :: "provider_message res"
  cx_mock_random :: nat

record 'v world =
  w_store :: "kept nullifier_store"
  w_oracle :: eth_rate_oracle
  w_verifier :: "'v proof_verifier"
  w_signer :: refund_signer
  w_chain :: "unit blockchain"
  w_slashed :: "int list"
  w_calls :: "string list"

section \<open>Costs\<close>

definition MESSAGE_OVERHEAD_TOKENS :: nat where
  "MESSAGE_OVERHEAD_TOKENS = 32"

definition calculateCostInETH :: "rate_call \<Rightarrow> nat \<Rightarrow> nat \<Rightarrow> string \<Rightarrow> ('v world, int) act" where
  "calculateCostInETH c inputTokens outputTokens model =
     sbind (slift (claudeCostUSD model (jnat inputTokens) (jnat outputTokens))) (\<lambda>costUSD.
       zoom w_oracle (\<lambda>o'. w_oracle_update (\<lambda>_. o')) (usdToWei c costUSD))"

definition worstCaseCostInETH :: "rate_call \<Rightarrow> jsstr \<Rightarrow> string \<Rightarrow> ('v world, int) act" where
  "worstCaseCostInETH c payload model =
     calculateCostInETH c (byteLength payload + MESSAGE_OVERHEAD_TOKENS) MAX_OUTPUT_TOKENS model"

definition service_cMax :: "'v world \<Rightarrow> int res" where
  "service_cMax w = (case getCMax (w_chain w) of
     Inr c \<Rightarrow> Inr c | Inl _ \<Rightarrow> Inl (ServiceUnavailable ''Cannot read C_MAX from the contract''))"

section \<open>The provider\<close>

definition usage_of :: "string \<Rightarrow> nat \<Rightarrow> nat \<Rightarrow> internal_usage res" where
  "usage_of model inputTokens outputTokens =
     bind (claudeCostUSD model (jnat inputTokens) (jnat outputTokens)) (\<lambda>actualCostUSD.
     let totalTokens = jadd (jnat inputTokens) (jnat outputTokens) in
     Inr \<lparr>us_unitClass = fst (quantizeUnits totalTokens), us_unitType = ''tokens'',
          us_costClass = fst (quantizeCost actualCostUSD), us_provider = None, us_endpoint = None, us_timestamp = None,
          us_internalUnits = totalTokens, us_internalCostUSD = actualCostUSD,
          us_internalInputTokens = inputTokens, us_internalOutputTokens = outputTokens\<rparr>)"

definition mockClaudeRequest :: "nat \<Rightarrow> jsstr \<Rightarrow> string \<Rightarrow> (jsstr \<times> internal_usage) res" where
  "mockClaudeRequest random payload model =
     (let inputTokens = (length payload + 3) div 4; outputTokens = random + 100 in
      bind (usage_of model inputTokens outputTokens) (\<lambda>usage.
        Inr (js_ascii (''This is a mock Claude '' @ model @ '' response to: '' @ [CHR 0x22])
             @ take 50 payload @ js_ascii (''...'' @ [CHR 0x22]), usage)))"

definition join_lines :: "jsstr list \<Rightarrow> jsstr" where
  "join_lines ts = (case ts of [] \<Rightarrow> [] | t # rest \<Rightarrow> t @ concat (map (\<lambda>x. 10 # x) rest))"

definition text_content :: "provider_message \<Rightarrow> jsstr" where
  "text_content m = join_lines
     (map (\<lambda>b. case mb_text b of Some t \<Rightarrow> t | None \<Rightarrow> []) (filter (\<lambda>b. mb_type b = ''text'') (pm_content m)))"

definition executeClaudeRequest :: "'v ctx \<Rightarrow> jsstr \<Rightarrow> string \<Rightarrow> (jsstr \<times> internal_usage) res" where
  "executeClaudeRequest cx payload model =
     (if \<not> is_set (cx_env cx) ''ANTHROPIC_API_KEY'' then mockClaudeRequest (cx_mock_random cx) payload model
      else case bind (cx_provider cx) (\<lambda>m.
             bind (usage_of model (pm_input_tokens m) (pm_output_tokens m)) (\<lambda>usage. Inr (text_content m, usage))) of
          Inl _ \<Rightarrow> Inl (Error ''Failed to execute Claude API request'')
        | Inr r \<Rightarrow> Inr r)"

definition sanitize_usage :: "internal_usage \<Rightarrow> usage_dto" where
  "sanitize_usage u = usage_dto.truncate u"

section \<open>The request\<close>

definition next_accumulator :: "'v ctx \<Rightarrow> point \<Rightarrow> int \<Rightarrow> ('v world, signed_accumulator) act" where
  "next_accumulator cx published refund =
     (let nxt = applyRefund (cx_generators cx) published refund in
      sbind (zoom w_signer (\<lambda>g. w_signer_update (\<lambda>_. g))
        (signAccumulator (cx_eddsa cx) (cx_sha256 cx) (cx_env cx) (cx_derived cx) nxt)) (\<lambda>sig.
      sret \<lparr>acc_x = dec_of_int (fst nxt), acc_y = dec_of_int (snd nxt), acc_signature = sig\<rparr>))"

record admission =
  ad_model :: string
  ad_nullifier :: string
  ad_cMax :: int

text \<open>Steps 1 to 4.  The refund signer's key is fetched inside \<open>verify\<close>; it is read here just before,
  and handed over, because all it does to the signer is make sure it is initialised, which
  start-up has done (\<open>onModuleInit\<close>).\<close>

definition check_request :: "'v ctx \<Rightarrow> longjing_request \<Rightarrow> ('v world, admission) act" where
  "check_request cx rq =
     (let model = (case rq_model rq of None \<Rightarrow> DEFAULT_CLAUDE_MODEL | Some m \<Rightarrow> m) in
      sbind (slift (guard (isClaudeModel model) (BadRequest (''Unsupported model: '' @ model)))) (\<lambda>_.
      sbind (slift (parseFieldElement (rq_nullifier rq))) (\<lambda>n.
      let nullifier = dec_of_int n in
      sbind (zoom w_store (\<lambda>st. w_store_update (\<lambda>_. st)) (total (checkRateLimit (cx_now_attempt cx) nullifier))) (\<lambda>ok.
      sbind (slift (guard ok (Forbidden ''Rate limit exceeded for this nullifier. Maximum 3 requests per minute.''))) (\<lambda>_.
      sbind (slift (guard (signalXMatchesRequest (cx_sha256_utf8 cx) (cx_poseidon cx) (dto_x (rq_signal rq))
                             (rq_payload rq) (rq_nonce rq))
                     (BadRequest ''Signal x does not match the payload and nonce''))) (\<lambda>_.
      sbind (\<lambda>w. (w, service_cMax w)) (\<lambda>cMax.
      sbind (worstCaseCostInETH (cx_rate_before cx) (rq_payload rq) model) (\<lambda>worstCaseCost.
      sbind (slift (guard (\<not> worstCaseCost > cMax)
              (BadRequest (''The worst-case cost of '' @ dec_of_int worstCaseCost @ '' wei for '' @ model @ '' exceeds C_MAX'')))) (\<lambda>_.
      sbind (\<lambda>w. let (g, key) = getPublicKey (cx_eddsa cx) (cx_sha256 cx) (cx_env cx) (cx_derived cx) (w_signer w) in
               (case verify_request (cx_snark cx) (cx_reads cx) (cx_env cx) (w_chain w) key (rq_proof rq)
                       \<lparr>pi_nullifier = rq_nullifier rq, pi_signalY = dto_y (rq_signal rq),
                        pi_accumulatorX = dto_x (rq_accumulator rq), pi_accumulatorY = dto_y (rq_accumulator rq),
                        pi_merkleRoot = rq_merkleRoot rq, pi_maxCost = cMax, pi_signalX = dto_x (rq_signal rq)\<rparr>
                       (w_verifier w) of
                  (pv, r) \<Rightarrow> (w\<lparr>w_verifier := pv, w_signer := g\<rparr>, r))) (\<lambda>valid.
      sbind (slift (guard valid (Unauthorized ''Invalid ZK proof''))) (\<lambda>_.
        sret \<lparr>ad_model = model, ad_nullifier = nullifier, ad_cMax = cMax\<rparr>)))))))))))"

datatype verdict = Fresh stored_signal | Retry kept

text \<open>Step 5.\<close>

definition record_signal :: "'v ctx \<Rightarrow> longjing_request \<Rightarrow> string \<Rightarrow> ('v world, verdict) act" where
  "record_signal cx rq nullifier =
     sbind (slift (parseFieldElement (dto_x (rq_signal rq)))) (\<lambda>x.
     sbind (slift (parseFieldElement (dto_y (rq_signal rq)))) (\<lambda>y.
     let signal = \<lparr>st_x = dec_of_int x, st_y = dec_of_int y\<rparr> in
     sbind (zoom w_store (\<lambda>st. w_store_update (\<lambda>_. st)) (total (checkAndSet nullifier signal))) (\<lambda>existingSignal.
     case existingSignal of
       None \<Rightarrow> sret (Fresh signal)
     | Some existing \<Rightarrow>
         if st_x existing \<noteq> st_x signal then
           sbind (smodify (\<lambda>w. w\<lparr>w_slashed := slashRevealed (cx_slash cx) (w_chain w) existing signal (w_slashed w)\<rparr>)) (\<lambda>_.
             slift (Inl (Forbidden ''Double-spend detected. Your secret key has been extracted and you will be slashed.'')))
         else (\<lambda>w. case recallResponse (cx_now_recall cx) nullifier signal (w_store w) of
             Some kept \<Rightarrow> (w, Inr (Retry kept))
           | None \<Rightarrow> (w, Inl (Forbidden ''Nullifier already used''))))))"

definition remember :: "'v ctx \<Rightarrow> string \<Rightarrow> stored_signal \<Rightarrow> kept \<Rightarrow> ('v world, unit) act" where
  "remember cx nullifier signal k =
     smodify (\<lambda>w. w\<lparr>w_store := rememberResponse (cx_now_remember cx) nullifier signal k (w_store w)\<rparr>)"

text \<open>Steps 6 to 8: the call, then what is settled from its outcome.\<close>

definition settle ::
  "'v ctx \<Rightarrow> admission \<Rightarrow> stored_signal \<Rightarrow> point \<Rightarrow> (jsstr \<times> internal_usage) res \<Rightarrow> ('v world, longjing_response) act" where
  "settle cx ad signal published outcome =
     (case outcome of
       Inl _ \<Rightarrow>
         sbind (next_accumulator cx published (ad_cMax ad)) (\<lambda>acc.
         let failure = BadGateway ''The provider call failed. The whole of C_MAX is refunded.''
               (dec_of_int (ad_cMax ad)) acc in
         sbind (remember cx (ad_nullifier ad) signal (Kept_failure failure)) (\<lambda>_.
         slift (Inl failure)))
     | Inr (content, usage) \<Rightarrow>
         sbind (calculateCostInETH (cx_rate_after cx) (us_internalInputTokens usage) (us_internalOutputTokens usage)
                  (ad_model ad)) (\<lambda>actualCost.
         let refund = (if actualCost < ad_cMax ad then ad_cMax ad - actualCost else 0) in
         sbind (next_accumulator cx published refund) (\<lambda>acc.
         let result = \<lparr>rs_response = padResponse content, rs_refund = dec_of_int refund,
                        rs_accumulator = acc, rs_usage = sanitize_usage usage\<rparr> in
         sbind (remember cx (ad_nullifier ad) signal (Kept_response result)) (\<lambda>_.
         sret result))))"

definition serve ::
  "'v ctx \<Rightarrow> longjing_request \<Rightarrow> admission \<Rightarrow> stored_signal \<Rightarrow> ('v world, longjing_response) act" where
  "serve cx rq ad signal =
     sbind (slift (parseFieldElement (dto_x (rq_accumulator rq)))) (\<lambda>px.
     sbind (slift (parseFieldElement (dto_y (rq_accumulator rq)))) (\<lambda>py.
     sbind (smodify (\<lambda>w. w\<lparr>w_calls := w_calls w @ [ad_nullifier ad]\<rparr>)) (\<lambda>_.
     settle cx ad signal (px, py) (executeClaudeRequest cx (rq_payload rq) (ad_model ad)))))"

definition handleRequest :: "'v ctx \<Rightarrow> longjing_request \<Rightarrow> ('v world, longjing_response) act" where
  "handleRequest cx rq =
     sbind (check_request cx rq) (\<lambda>ad.
     sbind (record_signal cx rq (ad_nullifier ad)) (\<lambda>v.
     case v of
       Retry (Kept_failure e) \<Rightarrow> slift (Inl e)
     | Retry (Kept_response r) \<Rightarrow> sret r
     | Fresh signal \<Rightarrow> serve cx rq ad signal))"

definition service_getServerPublicKey :: "'v ctx \<Rightarrow> ('v world, string \<times> string) act" where
  "service_getServerPublicKey cx =
     zoom w_signer (\<lambda>g. w_signer_update (\<lambda>_. g)) (getPublicKey (cx_eddsa cx) (cx_sha256 cx) (cx_env cx) (cx_derived cx))"

text \<open>The controller: the guard, the ValidationPipe, then the service.\<close>

definition post_request :: "'v ctx \<Rightarrow> longjing_request \<Rightarrow> ('v world, longjing_response) act" where
  "post_request cx rq =
     sbind (\<lambda>w. (w, canActivate (cx_env cx) (w_chain w))) (\<lambda>_.
     sbind (slift (guard (valid_dto rq) (BadRequest ''Bad Request''))) (\<lambda>_. handleRequest cx rq))"

end
