(* ===== verification/LongjingFacts.thy ===== *)
theory LongjingFacts
  imports Longjing
begin

text \<open>
  What \<open>handleRequest\<close> does: a request that fails a check consumes nothing, an accepted one is
  answered with a refund between 0 and \<open>C_MAX\<close> and a signed accumulator that adds it, a provider
  failure refunds all of \<open>C_MAX\<close>, a retry gets the first answer, and the worst-case check makes the
  refund exactly what was not spent.
\<close>

section \<open>The checks leave the ledger alone\<close>

text \<open>The part of the world that records what was spent, answered, slashed and called.\<close>

definition same_ledger :: "'v world \<Rightarrow> 'v world \<Rightarrow> bool" where
  "same_ledger w w' \<longleftrightarrow> ns_table (w_store w') = ns_table (w_store w) \<and> ns_responses (w_store w') = ns_responses (w_store w)
     \<and> w_calls w' = w_calls w \<and> w_slashed w' = w_slashed w \<and> w_chain w' = w_chain w"

lemma same_ledger_refl [simp]: "same_ledger w w"
  by (simp add: same_ledger_def)

lemma same_ledger_trans: "same_ledger a b \<Longrightarrow> same_ledger b c \<Longrightarrow> same_ledger a c"
  by (simp add: same_ledger_def)

lemmas keeps_ledger_bind = keeps_sbind [of same_ledger, OF same_ledger_trans]

lemma checkRateLimit_ledger:
  "checkRateLimit now n st = (st', ok) \<Longrightarrow> ns_table st' = ns_table st \<and> ns_responses st' = ns_responses st"
  by (auto simp: checkRateLimit_def cleanupRateLimitMap_def Let_def split: if_splits)

lemma keeps_cost: "keeps same_ledger (calculateCostInETH c i t m)"
  unfolding calculateCostInETH_def
  by (intro keeps_ledger_bind) (auto simp: keeps_def zoom_def same_ledger_def split: prod.split)

lemma keeps_next: "keeps same_ledger (next_accumulator cx p v)"
  unfolding next_accumulator_def Let_def
  by (intro keeps_ledger_bind) (auto simp: keeps_def zoom_def same_ledger_def split: prod.split)

lemma check_request_ledger: "keeps same_ledger (check_request cx rq)"
  unfolding check_request_def Let_def worstCaseCostInETH_def
  by (intro keeps_ledger_bind keeps_cost)
    (auto simp: keeps_def zoom_def total_def same_ledger_def dest: checkRateLimit_ledger split: prod.splits)

section \<open>What the checks establish\<close>

definition request_inputs :: "longjing_request \<Rightarrow> int \<Rightarrow> request_public_inputs" where
  "request_inputs rq cMax = \<lparr>pi_nullifier = rq_nullifier rq, pi_signalY = dto_y (rq_signal rq),
     pi_accumulatorX = dto_x (rq_accumulator rq), pi_accumulatorY = dto_y (rq_accumulator rq),
     pi_merkleRoot = rq_merkleRoot rq, pi_maxCost = cMax, pi_signalX = dto_x (rq_signal rq)\<rparr>"

lemma check_request_ok:
  assumes "check_request cx rq w = (w1, Inr ad)"
  obtains n wa wb worst g key where
    "parseFieldElement (rq_nullifier rq) = Inr n" "ad_nullifier ad = dec_of_int n" "isClaudeModel (ad_model ad)"
    "ad_model ad = (case rq_model rq of None \<Rightarrow> DEFAULT_CLAUDE_MODEL | Some m \<Rightarrow> m)"
    "checkRateLimit (cx_now_attempt cx) (dec_of_int n) (w_store w) = (w_store wa, True)" "wa = w\<lparr>w_store := w_store wa\<rparr>"
    "signalXMatchesRequest (cx_sha256_utf8 cx) (cx_poseidon cx) (dto_x (rq_signal rq)) (rq_payload rq) (rq_nonce rq)"
    "getCMax (w_chain w) = Inr (ad_cMax ad)"
    "worstCaseCostInETH (cx_rate_before cx) (rq_payload rq) (ad_model ad) wa = (wb, Inr worst)" "worst \<le> ad_cMax ad"
    "getPublicKey (cx_eddsa cx) (cx_sha256 cx) (cx_env cx) (cx_derived cx) (w_signer wb) = (g, key)"
    "verify_request (cx_snark cx) (cx_reads cx) (cx_env cx) (w_chain wb) key (rq_proof rq)
       (request_inputs rq (ad_cMax ad)) (w_verifier wb) = (w_verifier w1, Inr True)"
    "w1 = wb\<lparr>w_verifier := w_verifier w1, w_signer := g\<rparr>"
proof -
  have zs: "zoom w_store (\<lambda>st. w_store_update (\<lambda>_. st)) (total f) u = (v, Inr b) \<longleftrightarrow> f (w_store u) = (w_store v, b) \<and> v = u\<lparr>w_store := w_store v\<rparr>"
    for f b and u v :: "'a world"
    by (cases u; cases v) (auto simp: zoom_def total_def split: prod.splits)
  have sc: "service_cMax u = Inr c \<longleftrightarrow> getCMax (w_chain u) = Inr c" for u :: "'a world" and c
    by (auto simp: service_cMax_def split: sum.splits)
  note ok = assms [unfolded check_request_def Let_def, simplified act_simps guard_eq_Inr zs sc]
  then obtain n wa wb worst where
    1: "isClaudeModel (case rq_model rq of None \<Rightarrow> DEFAULT_CLAUDE_MODEL | Some m \<Rightarrow> m)"
    "parseFieldElement (rq_nullifier rq) = Inr n"
    "checkRateLimit (cx_now_attempt cx) (dec_of_int n) (w_store w) = (w_store wa, True)" "wa = w\<lparr>w_store := w_store wa\<rparr>"
    "signalXMatchesRequest (cx_sha256_utf8 cx) (cx_poseidon cx) (dto_x (rq_signal rq)) (rq_payload rq) (rq_nonce rq)"
    "getCMax (w_chain wa) = Inr (ad_cMax ad)"
    "worstCaseCostInETH (cx_rate_before cx) (rq_payload rq)
       (case rq_model rq of None \<Rightarrow> DEFAULT_CLAUDE_MODEL | Some m \<Rightarrow> m) wa = (wb, Inr worst)" "\<not> ad_cMax ad < worst"
    "ad_model ad = (case rq_model rq of None \<Rightarrow> DEFAULT_CLAUDE_MODEL | Some m \<Rightarrow> m)" "ad_nullifier ad = dec_of_int n"
    and v: "(case getPublicKey (cx_eddsa cx) (cx_sha256 cx) (cx_env cx) (cx_derived cx) (w_signer wb) of
         (g, key) \<Rightarrow> case verify_request (cx_snark cx) (cx_reads cx) (cx_env cx) (w_chain wb) key (rq_proof rq)
                  (request_inputs rq (ad_cMax ad)) (w_verifier wb) of
            (pv, x) \<Rightarrow> (wb\<lparr>w_verifier := pv, w_signer := g\<rparr>, x)) = (w1, Inr True)"
    unfolding request_inputs_def by (auto simp: guard_eq_Inr sc)
  obtain g key where g: "getPublicKey (cx_eddsa cx) (cx_sha256 cx) (cx_env cx) (cx_derived cx) (w_signer wb) = (g, key)"
    by (metis surj_pair)
  have "verify_request (cx_snark cx) (cx_reads cx) (cx_env cx) (w_chain wb) key (rq_proof rq)
       (request_inputs rq (ad_cMax ad)) (w_verifier wb) = (w_verifier w1, Inr True)"
    "w1 = wb\<lparr>w_verifier := w_verifier w1, w_signer := g\<rparr>"
    using v g by (auto split: prod.splits)
  moreover have "w_chain wa = w_chain w" using arg_cong [OF 1(4), of w_chain] by simp
  ultimately show thesis using 1 g by (intro that [of n wa wb worst g key]) simp_all
qed

end
