(* ===== verification/JsBounds.thy ===== *)
theory JsBounds
  imports JsNumber
begin

text \<open>
  Exactness and size bounds for doubles: integers below $2^{53}$ are exact, and rounding a
  non-negative value up to a power of two stays there, so no overflow happens below $2^{1023}$.
\<close>

lemma pow2_eq_iff: "pow2 a \<le> pow2 b \<longleftrightarrow> a \<le> b"
  using pow2_mono [of a b] pow2_strict_mono [of b a] by (meson linorder_not_le)

lemma ilog2_pow2 [simp]: "ilog2 (pow2 k) = k"
proof -
  have "ilog2 (pow2 k) \<le> k" using ilog2_bounds(1) [of "pow2 k"] by (simp add: pow2_eq_iff)
  moreover have "k < ilog2 (pow2 k) + 1"
    using ilog2_bounds(2) [of "pow2 k"] by (intro pow2_less_cancel) simp
  ultimately show ?thesis by simp
qed

lemma rnd_pow2:
  assumes "- 1022 \<le> k"
  shows "rnd (pow2 k) = pow2 k"
proof -
  have e: "fl_exp (pow2 k) = k - 52" using assms by (simp add: fl_exp_def)
  have "pow2 k = pow2 52 * pow2 (k - 52)" by (simp flip: pow2_add)
  moreover have "pow2 52 = of_int (2 ^ 52)" by (simp add: pow2_def)
  ultimately have "pow2 k / pow2 (k - 52) = of_int (2 ^ 52)" by simp
  then have "rnd (pow2 k) = of_int (2 ^ 52) * pow2 (k - 52)"
    using rnd_pos [of "pow2 k"] by (simp only: e pow2_pos rne_of_int)
  also have "\<dots> = pow2 k" using \<open>pow2 k = pow2 52 * pow2 (k - 52)\<close> \<open>pow2 52 = of_int (2 ^ 52)\<close> by simp
  finally show ?thesis .
qed

lemma rnd_le_pow:
  assumes "0 \<le> x" "x \<le> 2 ^ k"
  shows "rnd x \<le> 2 ^ k"
proof -
  have "rnd x \<le> rnd (pow2 (int k))" using assms(2) by (intro rnd_mono) (simp add: pow2_of_nat)
  then show ?thesis using rnd_pow2 [of "int k"] by (simp add: pow2_of_nat)
qed

lemma fl_bounded:
  assumes "0 \<le> x" "x \<le> 2 ^ k" "k \<le> 1023"
  obtains r where "fl x = Fin r" "0 \<le> r" "r \<le> 2 ^ k"
proof -
  have r: "0 \<le> rnd x" "rnd x \<le> 2 ^ k" using assms rnd_nonneg rnd_le_pow by blast+
  have "(2 :: rat) ^ k < 2 ^ 1024" using assms(3) by (intro power_strict_increasing) simp_all
  then have n1: "\<not> 2 ^ 1024 \<le> rnd x" using r(2) by (meson order_trans linorder_not_le)
  have "- ((2 :: rat) ^ 1024) < 0" by simp
  then have n2: "\<not> rnd x \<le> - (2 ^ 1024)" using r(1) by (meson order_trans linorder_not_le)
  have "fl x = Fin (rnd x)" unfolding fl_def Let_def if_not_P [OF n1] if_not_P [OF n2] ..
  with r show thesis by (intro that)
qed

lemma fl_between:
  assumes "1 / 2 ^ j \<le> x" "x \<le> 2 ^ k" "j \<le> 1022" "k \<le> 1023"
  obtains r where "fl x = Fin r" "1 / 2 ^ j \<le> r" "r \<le> 2 ^ k"
proof -
  have "0 \<le> x" using assms(1) by (meson order_trans zero_le_divide_1_iff zero_le_numeral zero_le_power)
  then obtain r where r: "fl x = Fin r" "r \<le> 2 ^ k" using assms(2,4) by (rule fl_bounded)
  have p: "pow2 (- int j) = 1 / 2 ^ j" by (simp add: pow2_def)
  have "rnd (1 / 2 ^ j) = 1 / 2 ^ j" using rnd_pow2 [of "- int j"] assms(3) by (simp add: p)
  moreover have "rnd (1 / 2 ^ j) \<le> rnd x" using assms(1) by (rule rnd_mono)
  moreover have "r = rnd x" using r(1) by (simp add: fl_def Let_def split: if_splits)
  ultimately show thesis using r by (intro that) simp_all
qed

lemma jnat_bounded:
  assumes "n \<le> 2 ^ k" "k \<le> 1023"
  obtains r where "jnat n = Fin r" "0 \<le> r" "r \<le> 2 ^ k"
proof -
  have "(of_nat n :: rat) \<le> of_nat (2 ^ k)" using assms(1) by (rule of_nat_mono)
  then have "(of_nat n :: rat) \<le> 2 ^ k" by simp
  with assms(2) obtain r where "fl (of_nat n) = Fin r" "0 \<le> r" "r \<le> 2 ^ k"
    using fl_bounded [of "of_nat n" k] by auto
  then show thesis by (intro that) (simp_all add: jnat_def)
qed

lemma rnd_int:
  assumes "\<bar>n\<bar> < 2 ^ 53"
  shows "rnd (of_int n) = of_int n"
proof -
  have pos: "rnd (of_int m) = of_int m" if m: "0 < m" "m < 2 ^ 53" for m
  proof -
    let ?x = "of_int m :: rat"
    have x: "0 < ?x" using m(1) by simp
    have "(of_int m :: rat) < of_int (2 ^ 53)" using m(2) by (rule of_int_less_iff [THEN iffD2])
    then have "pow2 (ilog2 ?x) < pow2 53"
      using ilog2_bounds(1) [OF x] by (simp add: pow2_def)
    then have "ilog2 ?x < 53" by (rule pow2_less_cancel)
    then have e: "fl_exp ?x \<le> 0" by (simp add: fl_exp_def)
    let ?k = "nat (- fl_exp ?x)"
    have p: "pow2 (fl_exp ?x) = 1 / 2 ^ ?k"
      using e by (cases "fl_exp ?x = 0") (simp_all add: pow2_def)
    have "?x / pow2 (fl_exp ?x) = of_int (m * 2 ^ ?k)" by (simp add: p)
    then have "rnd ?x = of_int (m * 2 ^ ?k) * pow2 (fl_exp ?x)"
      using rnd_pos [OF x] by (simp only: rne_of_int)
    then show ?thesis by (simp add: p)
  qed
  consider "n = 0" | "0 < n" | "n < 0" by linarith
  then show ?thesis
  proof cases
    case 2
    then show ?thesis using pos [of n] assms by simp
  next
    case 3
    then show ?thesis using pos [of "- n"] rnd_minus [of "of_int (- n)"] assms by simp
  qed simp
qed

lemma jnat_exact: "n < 2 ^ 53 \<Longrightarrow> jnat n = Fin (of_nat n)"
proof -
  assume n: "n < 2 ^ 53"
  then have "\<bar>int n\<bar> < 2 ^ 53" by simp
  from rnd_int [OF this] have r: "rnd (of_nat n) = of_nat n" by simp
  have "(of_nat n :: rat) < of_nat (2 ^ 53)" using n by (rule of_nat_less_iff [THEN iffD2])
  then have "(of_nat n :: rat) \<le> 2 ^ 53" by simp
  then obtain q where "fl (of_nat n) = Fin q" using fl_bounded [of "of_nat n" 53] by auto
  then show ?thesis by (auto simp: jnat_def fl_def Let_def r split: if_splits)
qed

end
