(* ===== verification/Sample.thy ===== *)
theory Sample
  imports LongjingFacts JsBounds
begin

text \<open>
  A concrete request in a concrete world: the mock provider, toy hash functions and signatures, a
  contract with a large \<open>C_MAX\<close> and a database rate of 2000 USD.  It shows that the hypotheses of
  the request-path theorems can hold together.  The cost is computed in doubles; only its bounds
  are needed.
\<close>

definition sample_call :: "int \<Rightarrow> rate_call" where
  "sample_call now = \<lparr>rc_now = now, rc_saved = now, rc_kraken = Inl TypeError, rc_chainlink = Inl TypeError\<rparr>"

definition sample_ctx :: "nat ctx" where
  "sample_ctx = \<lparr>cx_env = [(''NODE_ENV'', ''test'')], cx_sha256 = \<lambda>_. [], cx_sha256_utf8 = \<lambda>_. [7],
     cx_poseidon = \<lambda>xs. sum_list xs, cx_snark = sample_snark, cx_reads = sample_reads, cx_eddsa = toy_eddsa,
     cx_derived = None, cx_generators = \<lparr>gen_G = (0, 1), gen_J = (0, 1), gen_K = (0, 1), gen_H = (0, 1)\<rparr>,
     cx_slash = \<lparr>call = \<lambda>_. Inr ''0xh'', receipt = \<lambda>_. Inr ()\<rparr>,
     cx_now_attempt = 1000, cx_now_recall = 1000, cx_now_remember = 1000,
     cx_rate_before = sample_call 1000, cx_rate_after = sample_call 2000, cx_provider = Inl TypeError, cx_mock_random = 7\<rparr>"

definition sample_request :: longjing_request where
  "sample_request = \<lparr>rq_payload = [104, 105], rq_nonce = ''5'', rq_nullifier = ''5'',
     rq_signal = \<lparr>dto_x = ''12'', dto_y = ''2''\<rparr>, rq_proof = ''{\"protocol\": ...}'', rq_merkleRoot = ''5'',
     rq_accumulator = \<lparr>dto_x = ''0'', dto_y = ''1''\<rparr>, rq_model = Some ''claude-haiku-4-5''\<rparr>"

definition sample_signer :: refund_signer where
  "sample_signer = \<lparr>rs_privateKey = Some [1], rs_publicKey = Some (hex64 3, hex64 4), rs_initPromise = Some (Inr ())\<rparr>"

definition sample_cMax :: int where
  "sample_cMax = 2 ^ 84"

lemma sample_cMax_nonneg [simp]: "0 \<le> sample_cMax"
  by (simp add: sample_cMax_def)

definition sample_chain :: "unit blockchain" where
  "sample_chain = bc_init\<lparr>bc_contract := Some ''0xc'', bc_provider := Some ''rpc'', bc_wallet := Some ''0xw'', bc_cMax := Some (sample_cMax)\<rparr>"

definition sample_world :: "nat world" where
  "sample_world = \<lparr>w_store = ns_init, w_oracle = sample_oracle, w_verifier = sample_verifier, w_signer = sample_signer,
     w_chain = sample_chain, w_slashed = [], w_calls = []\<rparr>"

section \<open>Its cost\<close>

lemma wei_bounded:
  assumes "0 \<le> u" "u \<le> 2 ^ k" "k \<le> 900"
  obtains c where "wei_at_rate (Fin 2000) (Fin u) = Inr c" "c \<le> 2 ^ (k + 60)"
proof -
  have "u / 2000 \<le> u" using assms(1) by simp
  then have "u / 2000 \<le> 2 ^ k" using assms(2) by (rule order_trans)
  then obtain a where a: "fl (u / 2000) = Fin a" "0 \<le> a" "a \<le> 2 ^ k"
    using assms(1,3) fl_bounded [of "u / 2000" k] by auto
  have "a * 10 ^ 18 \<le> 2 ^ k * (2 ^ 60 :: rat)" using a(2,3) by (intro mult_mono) simp_all
  then have "a * 10 ^ 18 \<le> 2 ^ (k + 60)" by (simp add: power_add)
  then obtain b where b: "fl (a * 10 ^ 18) = Fin b" "b \<le> 2 ^ (k + 60)"
    using a(2) assms(3) fl_bounded [of "a * 10 ^ 18" "k + 60"] by auto
  have "\<lceil>b\<rceil> \<le> 2 ^ (k + 60)" using b(2) by (simp add: ceiling_le_iff)
  with a(1) b(1) show thesis by (intro that [of "\<lceil>b\<rceil>"]) (simp_all add: wei_at_rate_def)
qed

lemma usd_bounded:
  assumes "i \<le> 2 ^ 20" "t \<le> 2 ^ 20"
  obtains u where "claudeCostUSD ''claude-haiku-4-5'' (jnat i) (jnat t) = Inr (Fin u)" "0 \<le> u" "u \<le> 2 ^ 24"
proof -
  have part: "\<exists>v. jmul (jdiv (jnat n) (Fin 1000000)) (Fin p) = Fin v \<and> 0 \<le> v \<and> v \<le> 2 ^ 23"
    if n: "n \<le> 2 ^ 20" and p: "0 \<le> p" "p \<le> 8" for n p
  proof -
    obtain r where r: "jnat n = Fin r" "0 \<le> r" "r \<le> 2 ^ 20" using n by (rule jnat_bounded) simp
    have "r / 1000000 \<le> r" using r(2) by simp
    then have "r / 1000000 \<le> 2 ^ 20" using r(3) by (rule order_trans)
    then obtain d where d: "fl (r / 1000000) = Fin d" "0 \<le> d" "d \<le> 2 ^ 20"
      using r(2) fl_bounded [of "r / 1000000" 20] by auto
    have "d * p \<le> 2 ^ 20 * 8" using d p by (intro mult_mono) simp_all
    then obtain v where "fl (d * p) = Fin v" "0 \<le> v" "v \<le> 2 ^ 23"
      using d p fl_bounded [of "d * p" 23] by auto
    with r d show ?thesis by simp
  qed
  obtain a where a: "jmul (jdiv (jnat i) (Fin 1000000)) (Fin 1) = Fin a" "0 \<le> a" "a \<le> 2 ^ 23"
    using part [OF assms(1), of 1] by auto
  obtain b where b: "jmul (jdiv (jnat t) (Fin 1000000)) (Fin 5) = Fin b" "0 \<le> b" "b \<le> 2 ^ 23"
    using part [OF assms(2), of 5] by auto
  have "a + b \<le> 2 ^ 24" using a(3) b(3) by simp
  then obtain u where "fl (a + b) = Fin u" "0 \<le> u" "u \<le> 2 ^ 24"
    using a(2) b(2) fl_bounded [of "a + b" 24] by auto
  then show thesis using a(1) b(1) by (intro that) (simp_all add: claudeCostUSD_def CLAUDE_PRICING_def jm_get_Cons)
qed

lemma sample_cost:
  assumes "i \<le> 2 ^ 20" "t \<le> 2 ^ 20" "getEthUsdRate c (w_oracle w) = (eo', Inr (Fin 2000))"
  obtains cost where "calculateCostInETH c i t ''claude-haiku-4-5'' w = (w\<lparr>w_oracle := eo'\<rparr>, Inr cost)" "cost \<le> 2 ^ 84"
proof -
  obtain u where u: "claudeCostUSD ''claude-haiku-4-5'' (jnat i) (jnat t) = Inr (Fin u)" "0 \<le> u" "u \<le> 2 ^ 24"
    using assms(1,2) by (rule usd_bounded)
  obtain cost where "wei_at_rate (Fin 2000) (Fin u) = Inr cost" "cost \<le> 2 ^ (24 + 60)"
    using u(2,3) by (rule wei_bounded) simp
  with u(1) assms(3) show thesis
    by (intro that [of cost]) (simp_all add: calculateCostInETH_def sbind_def zoom_def usdToWei_def)
qed

lemma sample_rates:
  "getEthUsdRate (sample_call 1000) sample_oracle = (sample_oracle\<lparr>eo_cache := Some (Fin 2000, 1000)\<rparr>, Inr (Fin 2000))"
  "getEthUsdRate (sample_call 2000) (sample_oracle\<lparr>eo_cache := Some (Fin 2000, 1000)\<rparr>)
     = (sample_oracle\<lparr>eo_cache := Some (Fin 2000, 1000)\<rparr>, Inr (Fin 2000))"
  by (simp_all add: getEthUsdRate_def sample_call_def sample_oracle_def fetchFromKraken_def getLatestRateFromDb_def
      MAX_DB_RATE_AGE_def CACHE_TTL_def)

section \<open>It passes the checks\<close>

lemma sample_ready: "rs_ready toy_eddsa [1] sample_signer"
  by (simp add: rs_ready_def sample_signer_def toy_eddsa_def)

lemma sample_key: "getPublicKey toy_eddsa s e d sample_signer = (sample_signer, Inr (hex64 3, hex64 4))"
  using ensureInitialized_ready [OF sample_ready] by (simp add: getPublicKey_def sample_signer_def)

lemma toBigInt_hex64:
  assumes "0 \<le> n"
  shows "toBigInt (hex64 n) = Inr n"
proof -
  have "list_all (\<lambda>c. \<not> is_ws c) (hex64 n)"
    using hex_of_nat_hex [of "nat n"] zero_not_ws x_not_ws by (auto simp: hex64_def padStart_def list_all_iff hex_not_ws)
  from trim_no_ws [OF this] have t: "trim (hex64 n) = hex64 n" .
  have "startsWith (hex64 n) ''0x''" "hex64 n \<noteq> []" by (simp_all add: hex64_def)
  with BigInt_hex64 [OF assms] show ?thesis by (simp add: toBigInt_def Let_def t)
qed

text \<open>Variations of the request (its signal) and of the context (its environment, provider and clock).\<close>

definition sample_req :: "string \<Rightarrow> string \<Rightarrow> longjing_request" where
  "sample_req sx sy = sample_request\<lparr>rq_signal := \<lparr>dto_x = sx, dto_y = sy\<rparr>\<rparr>"

definition sample_cx :: "env \<Rightarrow> rate_call \<Rightarrow> nat ctx" where
  "sample_cx env after = sample_ctx\<lparr>cx_env := env, cx_rate_after := after\<rparr>"

lemma sample_req_same: "sample_req ''12'' ''2'' = sample_request"
  by (simp add: sample_req_def sample_request_def)

lemma sample_cx_same: "sample_cx [(''NODE_ENV'', ''test'')] (sample_call 2000) = sample_ctx"
  by (simp add: sample_cx_def sample_ctx_def)

text \<open>A world in which the sample services are up.\<close>

definition sample_up :: "nat world \<Rightarrow> bool" where
  "sample_up w \<longleftrightarrow> w_chain w = sample_chain \<and> w_signer w = sample_signer
     \<and> w_oracle w \<in> {sample_oracle, sample_oracle\<lparr>eo_cache := Some (Fin 2000, 1000)\<rparr>}
     \<and> pv_snark (w_verifier w) = \<lparr>ss_vKey = Some 1, ss_isSetup = True\<rparr> \<and> lim_active (pv_limiter (w_verifier w)) < lim_max (pv_limiter (w_verifier w))
     \<and> length (attempts_of (w_store w) (dec_of_int 5)) < 3"

lemma sample_up_init: "sample_up sample_world"
  by (simp add: sample_up_def sample_world_def sample_verifier_def attempts_of_def ns_init_def)

lemma sample_rate_up:
  "sample_up w \<Longrightarrow> getEthUsdRate (sample_call 1000) (w_oracle w) = (sample_oracle\<lparr>eo_cache := Some (Fin 2000, 1000)\<rparr>, Inr (Fin 2000))"
  by (auto simp: sample_up_def getEthUsdRate_def sample_call_def sample_oracle_def fetchFromKraken_def getLatestRateFromDb_def
      MAX_DB_RATE_AGE_def CACHE_TTL_def)

lemma sample_public_signals:
  assumes "toBigInt sx = Inr x" "toBigInt sy = Inr y"
  shows "\<exists>sg. public_signals (request_inputs (sample_req sx sy) sample_cMax) (hex64 3, hex64 4) = Inr sg"
proof -
  have b: "toBigInt ''5'' = Inr 5" "toBigInt ''0'' = Inr 0" "toBigInt ''1'' = Inr 1" by code_simp+
  show ?thesis
    by (simp add: public_signals_def request_inputs_def sample_request_def sample_req_def b assms toBigInt_hex64 toBigInt_dec)
qed

lemma sample_verified:
  assumes "toBigInt sx = Inr x" "toBigInt sy = Inr y" "isProd env = Inr False" "sample_up w"
  shows "\<exists>pv. verify_request sample_snark sample_reads env sample_chain (Inr (hex64 3, hex64 4))
     (rq_proof sample_request) (request_inputs (sample_req sx sy) sample_cMax) (w_verifier w) = (pv, Inr True)
     \<and> pv_snark pv = pv_snark (w_verifier w) \<and> pv_limiter pv = pv_limiter (w_verifier w)"
proof -
  obtain sg where sg: "public_signals (request_inputs (sample_req sx sy) sample_cMax) (hex64 3, hex64 4) = Inr sg"
    using sample_public_signals [OF assms(1,2)] by blast
  obtain p where p: "to_snarkjs sample_proof = Inr p"
    using sample_structure(2) by (cases "to_snarkjs sample_proof") auto
  have b: "BigInt_of_string ''5'' = Inr 5" by code_simp
  have known: "verifier_isKnownRoot sample_reads env sample_chain
      (pi_merkleRoot (request_inputs (sample_req sx sy) sample_cMax)) = Inr (Some True)"
    by (simp add: verifier_isKnownRoot_def isAvailable_def isKnownRoot_def connected_def request_inputs_def
        sample_request_def sample_req_def b sample_reads_def sample_chain_def)
  have len: "\<not> length (rq_proof sample_request) < 10" by (simp add: sample_request_def)
  have lim: "run_enter (pv_limiter (w_verifier w)) = Inr (pv_limiter (w_verifier w)\<lparr>lim_active := lim_active (pv_limiter (w_verifier w)) + 1\<rparr>)"
    using assms(4) by (simp add: sample_up_def run_enter_def)
  have lib: "json_parse sample_snark pr = Inr sample_proof" "groth16_verify sample_snark k ss q = Inr True" for pr k ss q
    by (simp_all add: sample_snark_def)
  have ss: "pv_snark (w_verifier w) = \<lparr>ss_vKey = Some 1, ss_isSetup = True\<rparr>" using assms(4) by (simp add: sample_up_def)
  show ?thesis
    using known len lim
    by (simp add: verify_request_def assms(3) snark_isAvailable_def lib sample_structure(1) ss Let_def
        run_task_def run_exit_def verifyAgainstChainAndCircuit_def sg verifyProof_def p)
qed

definition sample_admission :: admission where
  "sample_admission = \<lparr>ad_model = ''claude-haiku-4-5'', ad_nullifier = dec_of_int 5, ad_cMax = sample_cMax\<rparr>"

lemma sample_attempt:
  assumes "sample_up w"
  obtains st where "checkRateLimit 1000 (dec_of_int 5) (w_store w) = (st, True)" 
proof -
  have "length (recent 1000 (attempts_of (w_store w) (dec_of_int 5))) \<le> length (attempts_of (w_store w) (dec_of_int 5))"
    unfolding recent_def by (rule length_filter_le)
  then have "\<not> RATE_LIMIT_MAX_ATTEMPTS \<le> length (recent 1000 (attempts_of (w_store w) (dec_of_int 5)))"
    using assms by (simp add: sample_up_def RATE_LIMIT_MAX_ATTEMPTS_def)
  then show thesis using that by (auto simp: checkRateLimit_def Let_def)
qed

lemma sample_check:
  assumes up: "sample_up w" and b: "toBigInt sx = Inr x" "toBigInt sy = Inr y" and env: "isProd env = Inr False"
    and s: "signalXMatchesRequest (\<lambda>_. [7]) (\<lambda>xs. sum_list xs) sx [104, 105] ''5''"
  obtains pv st where "check_request (sample_cx env after) (sample_req sx sy) w =
     (w\<lparr>w_store := st, w_oracle := sample_oracle\<lparr>eo_cache := Some (Fin 2000, 1000)\<rparr>, w_verifier := pv\<rparr>,
      Inr sample_admission)"
    "checkRateLimit 1000 (dec_of_int 5) (w_store w) = (st, True)"
    "pv_snark pv = pv_snark (w_verifier w)" "pv_limiter pv = pv_limiter (w_verifier w)"
proof -
  have p: "parseFieldElement ''5'' = Inr 5" by code_simp
  have m: "isClaudeModel ''claude-haiku-4-5''" by code_simp
  obtain st where st: "checkRateLimit 1000 (dec_of_int 5) (w_store w) = (st, True)" using up by (rule sample_attempt)
  let ?w = "w\<lparr>w_store := st\<rparr>"
  have o: "getEthUsdRate (sample_call 1000) (w_oracle ?w) = (sample_oracle\<lparr>eo_cache := Some (Fin 2000, 1000)\<rparr>, Inr (Fin 2000))"
    using sample_rate_up [OF up] by simp
  obtain worst where worst: "calculateCostInETH (sample_call 1000) (byteLength [104, 105] + MESSAGE_OVERHEAD_TOKENS)
      MAX_OUTPUT_TOKENS ''claude-haiku-4-5'' ?w
      = (?w\<lparr>w_oracle := sample_oracle\<lparr>eo_cache := Some (Fin 2000, 1000)\<rparr>\<rparr>, Inr worst)" "worst \<le> 2 ^ 84"
    by (rule sample_cost [of "byteLength [104, 105] + MESSAGE_OVERHEAD_TOKENS" MAX_OUTPUT_TOKENS "sample_call 1000" ?w, OF _ _ o])
      (simp_all add: MESSAGE_OVERHEAD_TOKENS_def MAX_OUTPUT_TOKENS_def unit_bytes_def high_surrogate_def)
  have le: "\<not> worst > sample_cMax" using worst(2) by (simp add: sample_cMax_def)
  obtain pv where pv: "verify_request sample_snark sample_reads env sample_chain (Inr (hex64 3, hex64 4))
     (rq_proof sample_request) (request_inputs (sample_req sx sy) sample_cMax) (w_verifier w) = (pv, Inr True)"
     "pv_snark pv = pv_snark (w_verifier w)" "pv_limiter pv = pv_limiter (w_verifier w)"
    using sample_verified [OF b env up] by blast
  have cM: "getCMax sample_chain = Inr sample_cMax" by (simp add: getCMax_def connected_def sample_chain_def)
  have w: "w_chain w = sample_chain" "w_signer w = sample_signer" using up by (simp_all add: sample_up_def)
  have f: "cx_now_attempt (sample_cx env after) = 1000" "cx_sha256_utf8 (sample_cx env after) = (\<lambda>_. [7])"
    "cx_poseidon (sample_cx env after) = (\<lambda>xs. sum_list xs)" "cx_rate_before (sample_cx env after) = sample_call 1000"
    "cx_eddsa (sample_cx env after) = toy_eddsa" "cx_snark (sample_cx env after) = sample_snark"
    "cx_reads (sample_cx env after) = sample_reads" "cx_env (sample_cx env after) = env"
    by (simp_all add: sample_cx_def sample_ctx_def)
  have q: "rq_model (sample_req sx sy) = Some ''claude-haiku-4-5''" "rq_nullifier (sample_req sx sy) = ''5''"
    "rq_payload (sample_req sx sy) = [104, 105]" "rq_nonce (sample_req sx sy) = ''5''"
    "rq_signal (sample_req sx sy) = \<lparr>dto_x = sx, dto_y = sy\<rparr>" "rq_proof (sample_req sx sy) = rq_proof sample_request"
    by (simp_all add: sample_req_def sample_request_def)
  let ?w1 = "w\<lparr>w_store := st, w_oracle := sample_oracle\<lparr>eo_cache := Some (Fin 2000, 1000)\<rparr>, w_verifier := pv\<rparr>"
  have "check_request (sample_cx env after) (sample_req sx sy) w = (?w1\<lparr>w_signer := sample_signer\<rparr>, Inr sample_admission)"
    using st worst(1) le pv(1) [unfolded request_inputs_def] s
    by (simp add: check_request_def Let_def sbind_def zoom_def total_def m p cM sample_key worstCaseCostInETH_def
        service_cMax_def f q sample_admission_def w)
  moreover have "?w1\<lparr>w_signer := sample_signer\<rparr> = ?w1" by (rule world.equality) (simp_all add: w)
  ultimately have "check_request (sample_cx env after) (sample_req sx sy) w = (?w1, Inr sample_admission)" by simp
  then show thesis using st pv(2,3) by (rule that)
qed

end
