(* ===== verification/Settlement.thy ===== *)
theory Settlement
  imports Sample
begin

text \<open>
  The money side of \<open>handleRequest\<close>: refunds, failures, retries and double-spends.
\<close>

section \<open>The pieces of an accepted request\<close>

lemma zoom_store_total:
  "zoom w_store (\<lambda>st. w_store_update (\<lambda>_. st)) (total f) w = (w\<lparr>w_store := fst (f (w_store w))\<rparr>, Inr (snd (f (w_store w))))"
  by (simp add: zoom_def total_def split: prod.split)

lemma record_signal_run:
  assumes "parseFieldElement (dto_x (rq_signal rq)) = Inr x" "parseFieldElement (dto_y (rq_signal rq)) = Inr y"
  shows "record_signal cx rq n w =
    (let signal = \<lparr>st_x = dec_of_int x, st_y = dec_of_int y\<rparr> in
     case ns_get (w_store w) n of
       None \<Rightarrow> (w\<lparr>w_store := fst (checkAndSet n signal (w_store w))\<rparr>, Inr (Fresh signal))
     | Some existing \<Rightarrow>
         if st_x existing \<noteq> st_x signal
         then (w\<lparr>w_slashed := slashRevealed (cx_slash cx) (w_chain w) existing signal (w_slashed w)\<rparr>,
               Inl (Forbidden ''Double-spend detected. Your secret key has been extracted and you will be slashed.''))
         else (w, case recallResponse (cx_now_recall cx) n signal (w_store w) of
                 Some k \<Rightarrow> Inr (Retry k) | None \<Rightarrow> Inl (Forbidden ''Nullifier already used'')))"
  using assms
  by (auto simp: record_signal_def sbind_def zoom_store_total store.cas_result store.cas_spent Let_def
      split: option.split)

lemma cost_run:
  assumes "calculateCostInETH c i t m w = (w', Inr cost)"
  obtains usd rate eo' where "claudeCostUSD m (jnat i) (jnat t) = Inr usd"
    "getEthUsdRate c (w_oracle w) = (eo', Inr rate)" "wei_at_rate rate usd = Inr cost" "w' = w\<lparr>w_oracle := eo'\<rparr>"
proof -
  obtain eo' q where g: "getEthUsdRate c (w_oracle w) = (eo', q)" by (metis surj_pair)
  with assms show thesis
    by (auto simp: calculateCostInETH_def act_simps zoom_eq usdToWei_def bind_eq_Inr intro: that)
qed

lemma next_accumulator_ready:
  assumes "rs_ready (cx_eddsa cx) key (w_signer w)"
  shows "next_accumulator cx p v w = (w, Inr \<lparr>acc_x = dec_of_int (fst (applyRefund (cx_generators cx) p v)),
      acc_y = dec_of_int (snd (applyRefund (cx_generators cx) p v)),
      acc_signature = sign (cx_eddsa cx) key (accumulatorMessage (cx_eddsa cx) (applyRefund (cx_generators cx) p v))\<rparr>)"
proof -
  have "signAccumulator (cx_eddsa cx) s e d a (w_signer w)
      = (w_signer w, Inr (sign (cx_eddsa cx) key (accumulatorMessage (cx_eddsa cx) a)))" for s e d a
    using assms ensureInitialized_ready [OF assms] by (simp add: signAccumulator_def rs_ready_def)
  then show ?thesis by (simp add: next_accumulator_def Let_def sbind_def zoom_def)
qed

lemma serve_ok:
  assumes "serve cx rq ad sg w = (w', Inr r)"
  obtains px py content usage actual w2 w3 acc where
    "parseFieldElement (dto_x (rq_accumulator rq)) = Inr px" "parseFieldElement (dto_y (rq_accumulator rq)) = Inr py"
    "executeClaudeRequest cx (rq_payload rq) (ad_model ad) = Inr (content, usage)"
    "calculateCostInETH (cx_rate_after cx) (us_internalInputTokens usage) (us_internalOutputTokens usage) (ad_model ad)
       (w\<lparr>w_calls := w_calls w @ [ad_nullifier ad]\<rparr>) = (w2, Inr actual)"
    "next_accumulator cx (px, py) (if actual < ad_cMax ad then ad_cMax ad - actual else 0) w2 = (w3, Inr acc)"
    "r = \<lparr>rs_response = padResponse content, rs_refund = dec_of_int (if actual < ad_cMax ad then ad_cMax ad - actual else 0),
          rs_accumulator = acc, rs_usage = sanitize_usage usage\<rparr>"
    "w' = w3\<lparr>w_store := rememberResponse (cx_now_remember cx) (ad_nullifier ad) sg (Kept_response r) (w_store w3)\<rparr>"
proof (cases "executeClaudeRequest cx (rq_payload rq) (ad_model ad)")
  case (Inl e)
  with assms show thesis by (auto simp: serve_def settle_def act_simps Let_def)
next
  case (Inr cu)
  obtain content usage where cu: "cu = (content, usage)" by (cases cu)
  from assms Inr [unfolded cu] show thesis
    by (auto simp: serve_def settle_def act_simps Let_def remember_def intro: that [OF _ _ Inr [unfolded cu]])
qed

lemma handleRequest_fresh:
  assumes "handleRequest cx rq w = (w', Inr r)" "parseFieldElement (rq_nullifier rq) = Inr n"
    "ns_get (w_store w) (dec_of_int n) = None"
  obtains w1 ad x y where "check_request cx rq w = (w1, Inr ad)" "ad_nullifier ad = dec_of_int n"
    "parseFieldElement (dto_x (rq_signal rq)) = Inr x" "parseFieldElement (dto_y (rq_signal rq)) = Inr y"
    "serve cx rq ad \<lparr>st_x = dec_of_int x, st_y = dec_of_int y\<rparr>
       (w1\<lparr>w_store := fst (checkAndSet (dec_of_int n) \<lparr>st_x = dec_of_int x, st_y = dec_of_int y\<rparr> (w_store w1))\<rparr>) = (w', Inr r)"
proof -
  from assms(1) obtain w1 ad w2 v where c: "check_request cx rq w = (w1, Inr ad)"
    and rec: "record_signal cx rq (ad_nullifier ad) w1 = (w2, Inr v)"
    and rest: "(case v of Retry (Kept_failure e) \<Rightarrow> slift (Inl e) | Retry (Kept_response r) \<Rightarrow> sret r
       | Fresh signal \<Rightarrow> serve cx rq ad signal) w2 = (w', Inr r)"
    by (auto simp: handleRequest_def act_simps)
  from c have n: "ad_nullifier ad = dec_of_int n" by (rule check_request_ok) (use assms(2) in auto)
  have none: "ns_get (w_store w1) (dec_of_int n) = None"
    using keepsD [OF check_request_ledger c] assms(3) by (simp add: same_ledger_def ns_get_def)
  from rec obtain x y where xy: "parseFieldElement (dto_x (rq_signal rq)) = Inr x" "parseFieldElement (dto_y (rq_signal rq)) = Inr y"
    by (auto simp: record_signal_def act_simps)
  from rec none n have "v = Fresh \<lparr>st_x = dec_of_int x, st_y = dec_of_int y\<rparr>"
    "w2 = w1\<lparr>w_store := fst (checkAndSet (dec_of_int n) \<lparr>st_x = dec_of_int x, st_y = dec_of_int y\<rparr> (w_store w1))\<rparr>"
    by (auto simp: record_signal_run [OF xy] Let_def)
  with rest c n xy show thesis by (intro that) simp_all
qed

text \<open>The two price conversions of one request: the oracle keeps its invariant through the checks, and a
  cost is never negative.\<close>

lemma check_oracle:
  assumes "check_request cx rq w = (w1, Inr ad)" "eo_inv (w_oracle w)" "rc_now (cx_rate_before cx) \<le> rc_saved (cx_rate_before cx)"
  obtains usd rate worst where "eo_inv (w_oracle w1)" "claudeCostUSD (ad_model ad) (jnat (byteLength (rq_payload rq) + MESSAGE_OVERHEAD_TOKENS)) (jnat MAX_OUTPUT_TOKENS) = Inr usd"
    "positive_rate rate" "getEthUsdRate (cx_rate_before cx) (w_oracle w) = (w_oracle w1, Inr rate)"
    "wei_at_rate rate usd = Inr worst" "worst \<le> ad_cMax ad" "w_signer w1 = fst (getPublicKey (cx_eddsa cx) (cx_sha256 cx) (cx_env cx) (cx_derived cx) (w_signer w))"
  using assms(1)
proof (rule check_request_ok)
  fix n wa wb worst g key
  assume wa: "wa = w\<lparr>w_store := w_store wa\<rparr>"
    and cost: "worstCaseCostInETH (cx_rate_before cx) (rq_payload rq) (ad_model ad) wa = (wb, Inr worst)"
    and le: "worst \<le> ad_cMax ad" and w1: "w1 = wb\<lparr>w_verifier := w_verifier w1, w_signer := g\<rparr>"
    and g: "getPublicKey (cx_eddsa cx) (cx_sha256 cx) (cx_env cx) (cx_derived cx) (w_signer wb) = (g, key)"
  from cost [unfolded worstCaseCostInETH_def] obtain usd rate eo' where
    c: "claudeCostUSD (ad_model ad) (jnat (byteLength (rq_payload rq) + MESSAGE_OVERHEAD_TOKENS)) (jnat MAX_OUTPUT_TOKENS) = Inr usd"
      "getEthUsdRate (cx_rate_before cx) (w_oracle wa) = (eo', Inr rate)" "wei_at_rate rate usd = Inr worst" "wb = wa\<lparr>w_oracle := eo'\<rparr>"
    by (rule cost_run)
  have "w_oracle wa = w_oracle w" using arg_cong [OF wa, of w_oracle] by simp
  moreover have "w_signer wa = w_signer w" using arg_cong [OF wa, of w_signer] by simp
  moreover have "w_oracle w1 = eo'" using arg_cong [OF w1, of w_oracle] c(4) by simp
  moreover have "w_signer w1 = g" using arg_cong [OF w1, of w_signer] by simp
  ultimately show thesis
    using that c le g getEthUsdRate_inv [OF assms(2,3), of "w_oracle w1" "Inr rate"] by (auto simp: served_fresh_def)
qed

lemma cost_nonneg:
  assumes "calculateCostInETH c i t m w = (w', Inr cost)" "eo_inv (w_oracle w)" "rc_now c \<le> rc_saved c"
  shows "0 \<le> cost"
  using assms(1)
proof (rule cost_run)
  fix usd rate eo'
  assume "claudeCostUSD m (jnat i) (jnat t) = Inr usd" and g: "getEthUsdRate c (w_oracle w) = (eo', Inr rate)"
    and wei: "wei_at_rate rate usd = Inr cost"
  then have "jnonneg usd" using claudeCostUSD_mono [of m "jnat i" "jnat t" usd "jnat i" "jnat t" usd]
    by (auto simp: jnat_def)
  moreover have "positive_rate rate" using getEthUsdRate_inv [OF assms(2,3) g] by (simp add: served_fresh_def)
  ultimately show "0 \<le> cost" using wei wei_at_rate_nonneg by blast
qed

section \<open>Refunds\<close>

text \<open>The signer of the world is initialised with this key (start-up did it), the oracle is in a
  reachable state, and the clock does not go back within a call.\<close>

definition ready_world :: "'v ctx \<Rightarrow> bytes \<Rightarrow> 'v world \<Rightarrow> bool" where
  "ready_world cx key w \<longleftrightarrow> rs_ready (cx_eddsa cx) key (w_signer w) \<and> oracle_run (w_oracle w) \<and>
     rc_now (cx_rate_before cx) \<le> rc_saved (cx_rate_before cx) \<and> rc_now (cx_rate_after cx) \<le> rc_saved (cx_rate_after cx)"

lemma ready_after_check:
  assumes "ready_world cx key w" "check_request cx rq w = (w1, Inr ad)"
  shows "rs_ready (cx_eddsa cx) key (w_signer w1)" "eo_inv (w_oracle w1)"
proof -
  have r: "rs_ready (cx_eddsa cx) key (w_signer w)" and i: "eo_inv (w_oracle w)"
    and t: "rc_now (cx_rate_before cx) \<le> rc_saved (cx_rate_before cx)"
    using assms(1) oracle_run_inv by (auto simp: ready_world_def)
  have "fst (getPublicKey (cx_eddsa cx) (cx_sha256 cx) (cx_env cx) (cx_derived cx) (w_signer w)) = w_signer w"
    using ensureInitialized_ready [OF r] by (simp add: getPublicKey_def)
  with r i show "rs_ready (cx_eddsa cx) key (w_signer w1)" "eo_inv (w_oracle w1)"
    by - (rule check_oracle [OF assms(2) i t]; simp)+
qed

lemma served_answer:
  assumes "handleRequest cx rq w = (w', Inr r)" "parseFieldElement (rq_nullifier rq) = Inr n"
    "ns_get (w_store w) (dec_of_int n) = None" "getCMax (w_chain w) = Inr cMax" "0 \<le> cMax"
    "ready_world cx key w" "eddsa_correct (cx_eddsa cx)"
  shows "\<exists>px py v x y. parseFieldElement (dto_x (rq_accumulator rq)) = Inr px
    \<and> parseFieldElement (dto_y (rq_accumulator rq)) = Inr py
    \<and> rs_refund r = dec_of_int v \<and> 0 \<le> v \<and> v \<le> cMax
    \<and> acc_x (rs_accumulator r) = dec_of_int (fst (applyRefund (cx_generators cx) (px, py) v))
    \<and> acc_y (rs_accumulator r) = dec_of_int (snd (applyRefund (cx_generators cx) (px, py) v))
    \<and> verify (cx_eddsa cx) (hex64 (fst (prv2pub (cx_eddsa cx) key)), hex64 (snd (prv2pub (cx_eddsa cx) key)))
        (accumulatorMessage (cx_eddsa cx) (applyRefund (cx_generators cx) (px, py) v))
        (acc_signature (rs_accumulator r)) = Inr True
    \<and> ns_get (w_store w') (dec_of_int n) = Some \<lparr>st_x = dec_of_int x, st_y = dec_of_int y\<rparr>
    \<and> w_calls w' = w_calls w @ [dec_of_int n]"
proof -
  let ?n = "dec_of_int n"
  from assms(1-3) obtain w1 ad x y where c: "check_request cx rq w = (w1, Inr ad)" "ad_nullifier ad = ?n"
    and s: "serve cx rq ad \<lparr>st_x = dec_of_int x, st_y = dec_of_int y\<rparr>
       (w1\<lparr>w_store := fst (checkAndSet ?n \<lparr>st_x = dec_of_int x, st_y = dec_of_int y\<rparr> (w_store w1))\<rparr>) = (w', Inr r)"
    by (rule handleRequest_fresh)
  let ?sg = "\<lparr>st_x = dec_of_int x, st_y = dec_of_int y\<rparr>"
  let ?w = "w1\<lparr>w_store := fst (checkAndSet ?n ?sg (w_store w1))\<rparr>"
  have led: "same_ledger w w1" by (rule keepsD [OF check_request_ledger c(1)])
  have cM: "ad_cMax ad = cMax" using c(1) by (rule check_request_ok) (use assms(4) in simp)
  note rdy = ready_after_check [OF assms(6) c(1)]
  from s obtain px py content usage actual w2 w3 acc where
    p: "parseFieldElement (dto_x (rq_accumulator rq)) = Inr px" "parseFieldElement (dto_y (rq_accumulator rq)) = Inr py"
    and cost: "calculateCostInETH (cx_rate_after cx) (us_internalInputTokens usage) (us_internalOutputTokens usage) (ad_model ad)
       (?w\<lparr>w_calls := w_calls ?w @ [ad_nullifier ad]\<rparr>) = (w2, Inr actual)"
    and nx: "next_accumulator cx (px, py) (if actual < ad_cMax ad then ad_cMax ad - actual else 0) w2 = (w3, Inr acc)"
    and r: "r = \<lparr>rs_response = padResponse content, rs_refund = dec_of_int (if actual < ad_cMax ad then ad_cMax ad - actual else 0),
          rs_accumulator = acc, rs_usage = sanitize_usage usage\<rparr>"
    and w': "w' = w3\<lparr>w_store := rememberResponse (cx_now_remember cx) (ad_nullifier ad) ?sg (Kept_response r) (w_store w3)\<rparr>"
    by (rule serve_ok)
  let ?v = "if actual < ad_cMax ad then ad_cMax ad - actual else 0"
  have "0 \<le> actual"
    using cost rdy(2) assms(6) by (intro cost_nonneg [OF cost]) (simp_all add: ready_world_def)
  then have v: "0 \<le> ?v" "?v \<le> cMax" using assms(5) cM by auto
  from cost obtain eo' where w2: "w2 = ?w\<lparr>w_calls := w_calls ?w @ [ad_nullifier ad], w_oracle := eo'\<rparr>"
    by (rule cost_run) simp
  then have "rs_ready (cx_eddsa cx) key (w_signer w2)" using rdy(1) by simp
  from next_accumulator_ready [OF this] nx
  have acc: "w3 = w2" "acc_x acc = dec_of_int (fst (applyRefund (cx_generators cx) (px, py) ?v))"
    "acc_y acc = dec_of_int (snd (applyRefund (cx_generators cx) (px, py) ?v))"
    "acc_signature acc = sign (cx_eddsa cx) key (accumulatorMessage (cx_eddsa cx) (applyRefund (cx_generators cx) (px, py) ?v))"
    by auto
  have "ns_get (w_store w1) ?n = None" using led assms(3) by (simp add: same_ledger_def ns_get_def)
  then have "ns_get (w_store w') ?n = Some ?sg"
    using store.cas_stores [of ?n ?sg "w_store w1"] store.cas_fresh [of "w_store w1" ?n ?sg]
    by (simp add: w' acc(1) w2 ns_get_def rememberResponse_def)
  moreover have "w_calls w' = w_calls w @ [?n]" using led by (simp add: w' acc(1) w2 c(2) same_ledger_def)
  moreover have "rs_refund r = dec_of_int ?v" "rs_accumulator r = acc" by (simp_all add: r)
  ultimately show ?thesis using p v acc(2-4) verify_sign [OF assms(7)] by metis
qed

lemma first_answer_kept:
  assumes "handleRequest cx rq w = (w', Inr r)" "parseFieldElement (rq_nullifier rq) = Inr n"
    "ns_get (w_store w) (dec_of_int n) = None"
  obtains x y where "parseFieldElement (dto_x (rq_signal rq)) = Inr x" "parseFieldElement (dto_y (rq_signal rq)) = Inr y"
    "ns_get (w_store w') (dec_of_int n) = Some \<lparr>st_x = dec_of_int x, st_y = dec_of_int y\<rparr>"
    "\<forall>t. recallResponse t (dec_of_int n) \<lparr>st_x = dec_of_int x, st_y = dec_of_int y\<rparr> (w_store w') =
       (if t < cx_now_remember cx + RESPONSE_TTL_MS then Some (Kept_response r) else None)"
proof -
  from assms obtain w1 ad x y where c: "check_request cx rq w = (w1, Inr ad)" "ad_nullifier ad = dec_of_int n"
    and xy: "parseFieldElement (dto_x (rq_signal rq)) = Inr x" "parseFieldElement (dto_y (rq_signal rq)) = Inr y"
    and s: "serve cx rq ad \<lparr>st_x = dec_of_int x, st_y = dec_of_int y\<rparr>
       (w1\<lparr>w_store := fst (checkAndSet (dec_of_int n) \<lparr>st_x = dec_of_int x, st_y = dec_of_int y\<rparr> (w_store w1))\<rparr>) = (w', Inr r)"
    by (rule handleRequest_fresh)
  let ?sg = "\<lparr>st_x = dec_of_int x, st_y = dec_of_int y\<rparr>"
  let ?w = "w1\<lparr>w_store := fst (checkAndSet (dec_of_int n) ?sg (w_store w1))\<rparr>"
  have "ns_get (w_store w1) (dec_of_int n) = None"
    using keepsD [OF check_request_ledger c(1)] assms(3) by (simp add: same_ledger_def ns_get_def)
  then have put: "ns_get (w_store ?w) (dec_of_int n) = Some ?sg"
    using store.cas_stores [of "dec_of_int n" ?sg "w_store w1"] store.cas_fresh [of "w_store w1" "dec_of_int n" ?sg] by simp
  from s obtain px py content usage actual w2 w3 acc where
    "parseFieldElement (dto_x (rq_accumulator rq)) = Inr px" "parseFieldElement (dto_y (rq_accumulator rq)) = Inr py"
    "executeClaudeRequest cx (rq_payload rq) (ad_model ad) = Inr (content, usage)"
    and cost: "calculateCostInETH (cx_rate_after cx) (us_internalInputTokens usage) (us_internalOutputTokens usage) (ad_model ad)
       (?w\<lparr>w_calls := w_calls ?w @ [ad_nullifier ad]\<rparr>) = (w2, Inr actual)"
    and nx: "next_accumulator cx (px, py) (if actual < ad_cMax ad then ad_cMax ad - actual else 0) w2 = (w3, Inr acc)"
    and "r = \<lparr>rs_response = padResponse content, rs_refund = dec_of_int (if actual < ad_cMax ad then ad_cMax ad - actual else 0),
          rs_accumulator = acc, rs_usage = sanitize_usage usage\<rparr>"
    and w': "w' = w3\<lparr>w_store := rememberResponse (cx_now_remember cx) (ad_nullifier ad) ?sg (Kept_response r) (w_store w3)\<rparr>"
    by (rule serve_ok)
  have "ns_table (w_store w3) = ns_table (w_store ?w)"
    using keepsD [OF keeps_cost cost] keepsD [OF keeps_next nx] by (simp add: same_ledger_def)
  then have "ns_get (w_store w') (dec_of_int n) = Some ?sg"
    using put by (simp add: w' ns_get_def rememberResponse_def)
  with xy show thesis by (intro that [of x y]) (simp_all add: w' c(2) recall_remember)
qed

text \<open>C2 A served request moves the note forward exactly once: the refund \<open>v\<close> is between 0 and
  \<open>C_MAX\<close>, the returned accumulator is the published one plus \<open>v\<close> on G and one step on J, its
  signature passes the check against this server's public key, the provider was called once, and what
  is recorded under the nullifier is the signal of the request (its x as x and its y as y) and, for
  ten minutes, the very answer that was given.\<close>

theorem served_refund:
  assumes "handleRequest cx rq w = (w', Inr r)" "parseFieldElement (rq_nullifier rq) = Inr n"
    "ns_get (w_store w) (dec_of_int n) = None" "getCMax (w_chain w) = Inr cMax" "0 \<le> cMax"
    "ready_world cx key w" "eddsa_correct (cx_eddsa cx)"
  shows "\<exists>px py v x y. parseFieldElement (dto_x (rq_accumulator rq)) = Inr px
    \<and> parseFieldElement (dto_y (rq_accumulator rq)) = Inr py
    \<and> parseFieldElement (dto_x (rq_signal rq)) = Inr x \<and> parseFieldElement (dto_y (rq_signal rq)) = Inr y
    \<and> rs_refund r = dec_of_int v \<and> 0 \<le> v \<and> v \<le> cMax
    \<and> acc_x (rs_accumulator r) = dec_of_int (fst (applyRefund (cx_generators cx) (px, py) v))
    \<and> acc_y (rs_accumulator r) = dec_of_int (snd (applyRefund (cx_generators cx) (px, py) v))
    \<and> verify (cx_eddsa cx) (hex64 (fst (prv2pub (cx_eddsa cx) key)), hex64 (snd (prv2pub (cx_eddsa cx) key)))
        (accumulatorMessage (cx_eddsa cx) (applyRefund (cx_generators cx) (px, py) v))
        (acc_signature (rs_accumulator r)) = Inr True
    \<and> ns_get (w_store w') (dec_of_int n) = Some \<lparr>st_x = dec_of_int x, st_y = dec_of_int y\<rparr>
    \<and> (\<forall>t. recallResponse t (dec_of_int n) \<lparr>st_x = dec_of_int x, st_y = dec_of_int y\<rparr> (w_store w') =
         (if t < cx_now_remember cx + RESPONSE_TTL_MS then Some (Kept_response r) else None))
    \<and> w_calls w' = w_calls w @ [dec_of_int n]"
proof -
  from assms(1-3) obtain x y where
    "parseFieldElement (dto_x (rq_signal rq)) = Inr x" "parseFieldElement (dto_y (rq_signal rq)) = Inr y"
    "ns_get (w_store w') (dec_of_int n) = Some \<lparr>st_x = dec_of_int x, st_y = dec_of_int y\<rparr>"
    "\<forall>t. recallResponse t (dec_of_int n) \<lparr>st_x = dec_of_int x, st_y = dec_of_int y\<rparr> (w_store w') =
       (if t < cx_now_remember cx + RESPONSE_TTL_MS then Some (Kept_response r) else None)"
    by (rule first_answer_kept)
  with served_answer [OF assms] show ?thesis by blast
qed

lemma sample_signal:
  "toBigInt ''12'' = Inr 12" "toBigInt ''2'' = Inr 2" "parseFieldElement ''12'' = Inr 12" "parseFieldElement ''2'' = Inr 2"
  "parseFieldElement ''0'' = Inr 0" "parseFieldElement ''1'' = Inr 1"
  "signalXMatchesRequest (\<lambda>_. [7]) (\<lambda>xs. sum_list xs) ''12'' [104, 105] ''5''"
  "isProd [(''NODE_ENV'', ''test'')] = Inr False"
  by code_simp+

lemma sample_check_init:
  obtains pv st where "check_request sample_ctx sample_request sample_world =
     (sample_world\<lparr>w_store := st, w_oracle := sample_oracle\<lparr>eo_cache := Some (Fin 2000, 1000)\<rparr>, w_verifier := pv\<rparr>,
      Inr sample_admission)" "ns_table st = []" "ns_responses st = []" "attempts_of st (dec_of_int 5) = [1000]"
    "pv_snark pv = \<lparr>ss_vKey = Some 1, ss_isSetup = True\<rparr>" "lim_active (pv_limiter pv) < lim_max (pv_limiter pv)"
  using sample_up_init sample_signal(1,2,8,7)
proof (rule sample_check)
  fix pv st
  assume c: "check_request (sample_cx [(''NODE_ENV'', ''test'')] (sample_call 2000)) (sample_req ''12'' ''2'') sample_world =
     (sample_world\<lparr>w_store := st, w_oracle := sample_oracle\<lparr>eo_cache := Some (Fin 2000, 1000)\<rparr>, w_verifier := pv\<rparr>, Inr sample_admission)"
    and st: "checkRateLimit 1000 (dec_of_int 5) (w_store sample_world) = (st, True)"
    and pv: "pv_snark pv = pv_snark (w_verifier sample_world)" "pv_limiter pv = pv_limiter (w_verifier sample_world)"
  have "ns_table st = []" "ns_responses st = []"
    using checkRateLimit_ledger [OF st] by (simp_all add: ns_init_def sample_world_def)
  moreover have "attempts_of st (dec_of_int 5) = [1000]"
    using st by (auto simp: checkRateLimit_def Let_def ns_init_def sample_world_def attempts_of_def recent_def
        RATE_LIMIT_MAX_ATTEMPTS_def jm_size_def jm_get_Cons)
  ultimately show thesis
    using that [OF c [unfolded sample_cx_same sample_req_same]] pv
    by (simp add: sample_world_def sample_verifier_def)
qed

lemma sample_fields:
  "rq_accumulator sample_request = \<lparr>dto_x = ''0'', dto_y = ''1''\<rparr>" "ad_model sample_admission = ''claude-haiku-4-5''"
  "ad_cMax sample_admission = sample_cMax"
  by (simp_all add: sample_request_def sample_admission_def)

lemma sample_served:
  obtains w' r where "handleRequest sample_ctx sample_request sample_world = (w', Inr r)" "sample_up w'"
proof -
  obtain pv st where
    c: "check_request sample_ctx sample_request sample_world =
     (sample_world\<lparr>w_store := st, w_oracle := sample_oracle\<lparr>eo_cache := Some (Fin 2000, 1000)\<rparr>, w_verifier := pv\<rparr>,
      Inr sample_admission)" and st: "ns_table st = []" "attempts_of st (dec_of_int 5) = [1000]"
    and pv: "pv_snark pv = \<lparr>ss_vKey = Some 1, ss_isSetup = True\<rparr>" "lim_active (pv_limiter pv) < lim_max (pv_limiter pv)"
    by (rule sample_check_init)
  let ?w = "sample_world\<lparr>w_store := st, w_oracle := sample_oracle\<lparr>eo_cache := Some (Fin 2000, 1000)\<rparr>, w_verifier := pv\<rparr>"
  let ?sg = "\<lparr>st_x = dec_of_int 12, st_y = dec_of_int 2\<rparr>"
  let ?n = "ad_nullifier sample_admission"
  have rec: "record_signal sample_ctx sample_request ?n ?w =
      (?w\<lparr>w_store := fst (checkAndSet ?n ?sg st)\<rparr>, Inr (Fresh ?sg))"
    using st(1) record_signal_run [of sample_request 12 2 sample_ctx]
    by (simp add: sample_request_def sample_signal ns_get_def Let_def)
  obtain usage where u: "usage_of ''claude-haiku-4-5'' 1 107 = Inr usage"
    "us_internalInputTokens usage = 1" "us_internalOutputTokens usage = 107"
    by (rule usd_bounded [of 1 107]) (auto simp: usage_of_def Let_def)
  obtain content where ex: "executeClaudeRequest sample_ctx (rq_payload sample_request) (ad_model sample_admission) = Inr (content, usage)"
    using u(1) by (simp add: executeClaudeRequest_def mockClaudeRequest_def sample_ctx_def is_set_def jm_get_Cons
        sample_request_def sample_admission_def)
  let ?w2 = "?w\<lparr>w_store := fst (checkAndSet ?n ?sg st), w_calls := [?n]\<rparr>"
  let ?w3 = "?w2\<lparr>w_oracle := sample_oracle\<lparr>eo_cache := Some (Fin 2000, 1000)\<rparr>\<rparr>"
  obtain cost where cost: "calculateCostInETH (cx_rate_after sample_ctx) 1 107 ''claude-haiku-4-5'' ?w2 = (?w3, Inr cost)"
    by (rule sample_cost [of 1 107 "cx_rate_after sample_ctx" ?w2]) (simp_all add: sample_ctx_def sample_rates)
  have "rs_ready (cx_eddsa sample_ctx) [1] (w_signer ?w3)"
    using sample_ready by (simp add: sample_ctx_def sample_world_def)
  from next_accumulator_ready [OF this]
  obtain acc where nx: "next_accumulator sample_ctx (0, 1) (if cost < ad_cMax sample_admission then ad_cMax sample_admission - cost else 0) ?w3
      = (?w3, Inr acc)"
    by blast
  have calls: "w_calls sample_world = []" by (simp add: sample_world_def)
  obtain r where sv: "serve sample_ctx sample_request sample_admission ?sg (?w\<lparr>w_store := fst (checkAndSet ?n ?sg st)\<rparr>)
      = (?w3\<lparr>w_store := rememberResponse (cx_now_remember sample_ctx) ?n ?sg (Kept_response r) (w_store ?w3)\<rparr>, Inr r)"
    using ex [unfolded sample_fields] cost calls nx
    by (simp add: serve_def settle_def sbind_def sample_signal Let_def u(2,3) remember_def sample_fields)
  have "sample_up (?w3\<lparr>w_store := rememberResponse (cx_now_remember sample_ctx) ?n ?sg (Kept_response r) (w_store ?w3)\<rparr>)"
    using pv st(2) by (auto simp: sample_up_def sample_world_def attempts_of_def rememberResponse_def checkAndSet_def
        split: option.splits)
  with c rec sv show thesis by (intro that) (simp_all add: handleRequest_def sbind_def)
qed

lemma sample_hyps:
  "parseFieldElement (rq_nullifier sample_request) = Inr 5" "ns_get (w_store sample_world) (dec_of_int 5) = None"
  "getCMax (w_chain sample_world) = Inr sample_cMax" "ready_world sample_ctx [1] sample_world"
  "eddsa_correct (cx_eddsa sample_ctx)"
proof -
  show "parseFieldElement (rq_nullifier sample_request) = Inr 5" by code_simp
  show "ns_get (w_store sample_world) (dec_of_int 5) = None"
    by (simp add: sample_world_def ns_get_def ns_init_def)
  show "getCMax (w_chain sample_world) = Inr sample_cMax"
    by (simp add: getCMax_def connected_def sample_chain_def sample_world_def)
  have "oracle_run sample_oracle"
    by (rule oracle_run.start) (simp_all add: sample_oracle_def positive_rate_def isNaN_def)
  then show "ready_world sample_ctx [1] sample_world"
    using sample_ready by (simp add: ready_world_def sample_ctx_def sample_world_def sample_call_def)
  show "eddsa_correct (cx_eddsa sample_ctx)" by (simp add: eddsa_correct_def toy_eddsa_def sample_ctx_def)
qed

theorem served_refund_witness:
  "\<exists>w' r v. handleRequest sample_ctx sample_request sample_world = (w', Inr r) \<and> rs_refund r = dec_of_int v
     \<and> 0 \<le> v \<and> v \<le> sample_cMax
     \<and> ns_get (w_store w') (dec_of_int 5) = Some \<lparr>st_x = dec_of_int 12, st_y = dec_of_int 2\<rparr>"
proof -
  obtain w' r where h: "handleRequest sample_ctx sample_request sample_world = (w', Inr r)"
    by (rule sample_served)
  have xy: "parseFieldElement (dto_x (rq_signal sample_request)) = Inr 12" "parseFieldElement (dto_y (rq_signal sample_request)) = Inr 2"
    by (simp_all add: sample_request_def sample_signal)
  from served_refund [OF h sample_hyps(1-3) sample_cMax_nonneg sample_hyps(4,5)] h xy show ?thesis by auto
qed

section \<open>The worst case\<close>

text \<open>What is assumed of the provider: it counts at most one token per UTF-8 byte of the payload plus the
  framing, and does not exceed the output limit it was given.  For the mock it is enough that the
  random draw is one of the 500 the code can make.\<close>

definition provider_within_limits :: "'v ctx \<Rightarrow> longjing_request \<Rightarrow> bool" where
  "provider_within_limits cx rq \<longleftrightarrow>
     (if is_set (cx_env cx) ''ANTHROPIC_API_KEY''
      then \<forall>m. cx_provider cx = Inr m \<longrightarrow> pm_input_tokens m \<le> byteLength (rq_payload rq) + MESSAGE_OVERHEAD_TOKENS
             \<and> pm_output_tokens m \<le> MAX_OUTPUT_TOKENS
      else cx_mock_random cx < 500)"

lemma usage_of_tokens:
  "usage_of m i t = Inr u \<Longrightarrow> us_internalInputTokens u = i \<and> us_internalOutputTokens u = t"
  by (auto simp: usage_of_def Let_def bind_eq_Inr)

lemma tokens_within_limits:
  assumes "provider_within_limits cx rq" "executeClaudeRequest cx (rq_payload rq) m = Inr (content, usage)"
  shows "us_internalInputTokens usage \<le> byteLength (rq_payload rq) + MESSAGE_OVERHEAD_TOKENS"
    "us_internalOutputTokens usage \<le> MAX_OUTPUT_TOKENS"
proof -
  have "us_internalInputTokens usage \<le> byteLength (rq_payload rq) + MESSAGE_OVERHEAD_TOKENS
     \<and> us_internalOutputTokens usage \<le> MAX_OUTPUT_TOKENS"
  proof (cases "is_set (cx_env cx) ''ANTHROPIC_API_KEY''")
    case True
    then obtain msg where "cx_provider cx = Inr msg" "usage_of m (pm_input_tokens msg) (pm_output_tokens msg) = Inr usage"
      using assms(2) by (auto simp: executeClaudeRequest_def bind_eq_Inr split: sum.splits)
    then show ?thesis using assms(1) True usage_of_tokens by (fastforce simp: provider_within_limits_def)
  next
    case False
    then have "usage_of m ((length (rq_payload rq) + 3) div 4) (cx_mock_random cx + 100) = Inr usage"
      using assms(2) by (auto simp: executeClaudeRequest_def mockClaudeRequest_def Let_def bind_eq_Inr)
    from usage_of_tokens [OF this] show ?thesis
      using assms(1) False byteLength_ge_length [of "rq_payload rq"]
      by (simp add: provider_within_limits_def MESSAGE_OVERHEAD_TOKENS_def MAX_OUTPUT_TOKENS_def)
  qed
  then show "us_internalInputTokens usage \<le> byteLength (rq_payload rq) + MESSAGE_OVERHEAD_TOKENS"
    "us_internalOutputTokens usage \<le> MAX_OUTPUT_TOKENS" by simp_all
qed

lemma getEthUsdRate_cached:
  "eo_cache eo = Some (rate, ts) \<Longrightarrow> rc_now c - ts < CACHE_TTL \<Longrightarrow> getEthUsdRate c eo = (eo, Inr rate)"
  by (simp add: getEthUsdRate_def Let_def)

lemma getEthUsdRate_caches:
  "getEthUsdRate c eo = (eo', Inr rate) \<Longrightarrow> \<exists>ts. eo_cache eo' = Some (rate, ts)"
  by (auto simp: getEthUsdRate_def chainlink_fallback_def Let_def split: option.splits prod.splits sum.splits if_splits)

text \<open>C3 The check before the call pays for the call: as long as the rate of the check is still cached
  when the cost is computed, and the provider keeps its limits, what the request cost is at most
  \<open>C_MAX\<close> and the refund is exactly \<open>C_MAX\<close> minus that cost, with nothing lost to the clamp.  The cost
  is the one of the tokens the call reported, at the prices of the model that was asked for (the
  default model when none was) and at the rate of the check; the answer is the text of that call.\<close>

theorem refund_is_exact:
  assumes "handleRequest cx rq w = (w', Inr r)" "parseFieldElement (rq_nullifier rq) = Inr n"
    "ns_get (w_store w) (dec_of_int n) = None" "getCMax (w_chain w) = Inr cMax" "ready_world cx key w"
    "provider_within_limits cx rq"
    "eo_cache (w_oracle (fst (check_request cx rq w))) = Some (rate, ts)" "rc_now (cx_rate_after cx) - ts < CACHE_TTL"
  shows "\<exists>content usage usd actual m. m = (case rq_model rq of None \<Rightarrow> DEFAULT_CLAUDE_MODEL | Some m' \<Rightarrow> m')
    \<and> executeClaudeRequest cx (rq_payload rq) m = Inr (content, usage) \<and> rs_response r = padResponse content
    \<and> claudeCostUSD m (jnat (us_internalInputTokens usage)) (jnat (us_internalOutputTokens usage)) = Inr usd
    \<and> wei_at_rate rate usd = Inr actual \<and> actual \<le> cMax \<and> rs_refund r = dec_of_int (cMax - actual)"
proof -
  let ?n = "dec_of_int n"
  from assms(1-3) obtain w1 ad x y where c: "check_request cx rq w = (w1, Inr ad)"
    and s: "serve cx rq ad \<lparr>st_x = dec_of_int x, st_y = dec_of_int y\<rparr>
       (w1\<lparr>w_store := fst (checkAndSet ?n \<lparr>st_x = dec_of_int x, st_y = dec_of_int y\<rparr> (w_store w1))\<rparr>) = (w', Inr r)"
    by (rule handleRequest_fresh)
  have cM: "ad_cMax ad = cMax" using c by (rule check_request_ok) (use assms(4) in simp)
  have m: "ad_model ad = (case rq_model rq of None \<Rightarrow> DEFAULT_CLAUDE_MODEL | Some m' \<Rightarrow> m')"
    using c by (rule check_request_ok)
  have inv: "eo_inv (w_oracle w)" and t: "rc_now (cx_rate_before cx) \<le> rc_saved (cx_rate_before cx)"
    using assms(5) oracle_run_inv by (auto simp: ready_world_def)
  from c inv t obtain usd0 rate0 worst where worst:
    "claudeCostUSD (ad_model ad) (jnat (byteLength (rq_payload rq) + MESSAGE_OVERHEAD_TOKENS)) (jnat MAX_OUTPUT_TOKENS) = Inr usd0"
    "positive_rate rate0" "getEthUsdRate (cx_rate_before cx) (w_oracle w) = (w_oracle w1, Inr rate0)"
    "wei_at_rate rate0 usd0 = Inr worst" "worst \<le> ad_cMax ad"
    by (rule check_oracle)
  have r0: "rate0 = rate" using getEthUsdRate_caches [OF worst(3)] assms(7) c by simp
  from s obtain content usage actual w2 w3 acc px py where
    ex: "executeClaudeRequest cx (rq_payload rq) (ad_model ad) = Inr (content, usage)"
    and cost: "calculateCostInETH (cx_rate_after cx) (us_internalInputTokens usage) (us_internalOutputTokens usage) (ad_model ad)
       (w1\<lparr>w_store := fst (checkAndSet ?n \<lparr>st_x = dec_of_int x, st_y = dec_of_int y\<rparr> (w_store w1)),
           w_calls := w_calls w1 @ [ad_nullifier ad]\<rparr>) = (w2, Inr actual)"
    and r: "rs_refund r = dec_of_int (if actual < ad_cMax ad then ad_cMax ad - actual else 0)" "rs_response r = padResponse content"
    by (rule serve_ok) simp
  from cost obtain usd rate1 eo' where u: "claudeCostUSD (ad_model ad) (jnat (us_internalInputTokens usage)) (jnat (us_internalOutputTokens usage)) = Inr usd"
    and g: "getEthUsdRate (cx_rate_after cx) (w_oracle w1) = (eo', Inr rate1)" and wei: "wei_at_rate rate1 usd = Inr actual"
    by (rule cost_run) simp
  have r1: "rate1 = rate" using g getEthUsdRate_cached [of "w_oracle w1" rate ts] assms(7,8) c by simp
  note lim = tokens_within_limits [OF assms(6) ex]
  have "jle usd usd0 \<and> jnonneg usd"
    using claudeCostUSD_mono [OF u worst(1)] lim by (simp add: jnat_mono)
  then have "actual \<le> worst"
    using wei_at_rate_mono [of rate usd usd0 actual worst] worst(2,4) wei r0 r1 by simp
  then have le: "actual \<le> cMax" using worst(5) cM by simp
  then have "rs_refund r = dec_of_int (cMax - actual)" using r(1) cM by auto
  then show ?thesis using ex u wei le r1 m r(2) by blast
qed

theorem refund_is_exact_witness:
  "\<exists>w' r content usage usd actual. handleRequest sample_ctx sample_request sample_world = (w', Inr r)
     \<and> executeClaudeRequest sample_ctx (rq_payload sample_request) ''claude-haiku-4-5'' = Inr (content, usage)
     \<and> claudeCostUSD ''claude-haiku-4-5'' (jnat (us_internalInputTokens usage)) (jnat (us_internalOutputTokens usage)) = Inr usd
     \<and> wei_at_rate (Fin 2000) usd = Inr actual \<and> actual \<le> sample_cMax \<and> rs_refund r = dec_of_int (sample_cMax - actual)"
proof -
  obtain w' r where h: "handleRequest sample_ctx sample_request sample_world = (w', Inr r)"
    by (rule sample_served)
  have l: "provider_within_limits sample_ctx sample_request"
    by (simp add: provider_within_limits_def sample_ctx_def is_set_def jm_get_Cons)
  have cache: "eo_cache (w_oracle (fst (check_request sample_ctx sample_request sample_world))) = Some (Fin 2000, 1000)"
    by (rule sample_check_init) simp
  have t: "rc_now (cx_rate_after sample_ctx) - 1000 < CACHE_TTL"
    by (simp add: sample_ctx_def sample_call_def CACHE_TTL_def)
  have m: "(case rq_model sample_request of None \<Rightarrow> DEFAULT_CLAUDE_MODEL | Some m' \<Rightarrow> m') = ''claude-haiku-4-5''"
    by (simp add: sample_request_def DEFAULT_CLAUDE_MODEL_def)
  from refund_is_exact [OF h sample_hyps(1-4) l cache t] h show ?thesis unfolding m by blast
qed

text \<open>The cost of a request that is served from a world: that of the tokens the call reports, at the prices of
  the model that was asked for and at the rate the oracle gives after the checks.\<close>

definition request_cost :: "'v ctx \<Rightarrow> longjing_request \<Rightarrow> 'v world \<Rightarrow> int \<Rightarrow> bool" where
  "request_cost cx rq w cost \<longleftrightarrow> (\<exists>m content usage usd eo' rate. m = (case rq_model rq of None \<Rightarrow> DEFAULT_CLAUDE_MODEL | Some m' \<Rightarrow> m')
     \<and> executeClaudeRequest cx (rq_payload rq) m = Inr (content, usage)
     \<and> claudeCostUSD m (jnat (us_internalInputTokens usage)) (jnat (us_internalOutputTokens usage)) = Inr usd
     \<and> getEthUsdRate (cx_rate_after cx) (w_oracle (fst (check_request cx rq w))) = (eo', Inr rate) \<and> wei_at_rate rate usd = Inr cost)"

lemma request_cost_unique: "request_cost cx rq w a \<Longrightarrow> request_cost cx rq w b \<Longrightarrow> a = b"
  by (auto simp: request_cost_def)

lemma served_cost:
  assumes "handleRequest cx rq w = (w', Inr r)" "parseFieldElement (rq_nullifier rq) = Inr n"
    "ns_get (w_store w) (dec_of_int n) = None" "getCMax (w_chain w) = Inr cMax" "ready_world cx key w"
  obtains cost where "request_cost cx rq w cost" "0 \<le> cost" "rs_refund r = dec_of_int (if cost < cMax then cMax - cost else 0)"
proof -
  let ?n = "dec_of_int n"
  from assms(1-3) obtain w1 ad x y where c: "check_request cx rq w = (w1, Inr ad)"
    and s: "serve cx rq ad \<lparr>st_x = dec_of_int x, st_y = dec_of_int y\<rparr>
       (w1\<lparr>w_store := fst (checkAndSet ?n \<lparr>st_x = dec_of_int x, st_y = dec_of_int y\<rparr> (w_store w1))\<rparr>) = (w', Inr r)"
    by (rule handleRequest_fresh)
  have cM: "ad_cMax ad = cMax" using c by (rule check_request_ok) (use assms(4) in simp)
  have m: "ad_model ad = (case rq_model rq of None \<Rightarrow> DEFAULT_CLAUDE_MODEL | Some m' \<Rightarrow> m')"
    using c by (rule check_request_ok)
  from s obtain content usage actual w2 where
    ex: "executeClaudeRequest cx (rq_payload rq) (ad_model ad) = Inr (content, usage)"
    and cost: "calculateCostInETH (cx_rate_after cx) (us_internalInputTokens usage) (us_internalOutputTokens usage) (ad_model ad)
       (w1\<lparr>w_store := fst (checkAndSet ?n \<lparr>st_x = dec_of_int x, st_y = dec_of_int y\<rparr> (w_store w1)),
           w_calls := w_calls w1 @ [ad_nullifier ad]\<rparr>) = (w2, Inr actual)"
    and r: "rs_refund r = dec_of_int (if actual < ad_cMax ad then ad_cMax ad - actual else 0)"
    by (rule serve_ok) simp
  from cost obtain usd rate eo' where u: "claudeCostUSD (ad_model ad) (jnat (us_internalInputTokens usage)) (jnat (us_internalOutputTokens usage)) = Inr usd"
    and g: "getEthUsdRate (cx_rate_after cx) (w_oracle w1) = (eo', Inr rate)" and wei: "wei_at_rate rate usd = Inr actual"
    by (rule cost_run) simp
  have "request_cost cx rq w actual"
    using ex u g wei c m unfolding request_cost_def by (intro exI [of _ "ad_model ad"]) auto
  moreover have "0 \<le> actual"
    using ready_after_check(2) [OF assms(5) c] assms(5) by (intro cost_nonneg [OF cost]) (simp_all add: ready_world_def)
  ultimately show thesis using that r cM by simp
qed

section \<open>Retries and failures\<close>

text \<open>A second request with the recorded signal is answered from what the store kept.\<close>

lemma handle_retry:
  assumes c: "check_request cx rq w = (w1, Inr ad)"
    and xy: "parseFieldElement (dto_x (rq_signal rq)) = Inr x" "parseFieldElement (dto_y (rq_signal rq)) = Inr y"
    and spent: "ns_get (w_store w) (ad_nullifier ad) = Some \<lparr>st_x = dec_of_int x, st_y = dec_of_int y\<rparr>"
  shows "handleRequest cx rq w = (w1,
    case recallResponse (cx_now_recall cx) (ad_nullifier ad) \<lparr>st_x = dec_of_int x, st_y = dec_of_int y\<rparr> (w_store w) of
      Some (Kept_response r) \<Rightarrow> Inr r | Some (Kept_failure e) \<Rightarrow> Inl e | None \<Rightarrow> Inl (Forbidden ''Nullifier already used''))"
proof -
  have led: "same_ledger w w1" by (rule keepsD [OF check_request_ledger c])
  then have "ns_get (w_store w1) (ad_nullifier ad) = Some \<lparr>st_x = dec_of_int x, st_y = dec_of_int y\<rparr>"
    "recallResponse t m s (w_store w1) = recallResponse t m s (w_store w)" for t m s
    using spent by (simp_all add: same_ledger_def ns_get_def recallResponse_def)
  then show ?thesis
    using c by (auto simp: handleRequest_def sbind_def record_signal_run [OF xy] split: option.split kept.split)
qed

lemma nullifier_of_check:
  "check_request cx rq w = (w1, Inr ad) \<Longrightarrow> parseFieldElement (rq_nullifier rq) = Inr n \<Longrightarrow> ad_nullifier ad = dec_of_int n"
  by (erule check_request_ok) simp

text \<open>C13 A client that lost its answer gets it again: within ten minutes, a second request with the same
  nullifier and signal that passes the checks is given the very same response, refund and
  accumulator included, without a second provider call; after that it is refused.\<close>

theorem retry_gets_first_answer:
  assumes "handleRequest cx rq w = (w', Inr r)" "parseFieldElement (rq_nullifier rq) = Inr n"
    "ns_get (w_store w) (dec_of_int n) = None"
    "check_request cx2 rq2 w' = (w2, Inr ad2)" "parseFieldElement (rq_nullifier rq2) = Inr n"
    "parseFieldElement (dto_x (rq_signal rq2)) = parseFieldElement (dto_x (rq_signal rq))"
    "parseFieldElement (dto_y (rq_signal rq2)) = parseFieldElement (dto_y (rq_signal rq))"
  shows "handleRequest cx2 rq2 w' =
      (w2, if cx_now_recall cx2 < cx_now_remember cx + RESPONSE_TTL_MS then Inr r
           else Inl (Forbidden ''Nullifier already used''))
    \<and> w_calls w2 = w_calls w'"
proof -
  from assms(1-3) obtain x y where xy: "parseFieldElement (dto_x (rq_signal rq)) = Inr x" "parseFieldElement (dto_y (rq_signal rq)) = Inr y"
    and put: "ns_get (w_store w') (dec_of_int n) = Some \<lparr>st_x = dec_of_int x, st_y = dec_of_int y\<rparr>"
    and rec: "\<forall>t. recallResponse t (dec_of_int n) \<lparr>st_x = dec_of_int x, st_y = dec_of_int y\<rparr> (w_store w') =
       (if t < cx_now_remember cx + RESPONSE_TTL_MS then Some (Kept_response r) else None)"
    by (rule first_answer_kept)
  have n2: "ad_nullifier ad2 = dec_of_int n" using assms(4,5) by (rule nullifier_of_check)
  have "w_calls w2 = w_calls w'" using keepsD [OF check_request_ledger assms(4)] by (simp add: same_ledger_def)
  moreover have "ns_get (w_store w') (ad_nullifier ad2) = Some \<lparr>st_x = dec_of_int x, st_y = dec_of_int y\<rparr>"
    using put n2 by simp
  ultimately show ?thesis
    using handle_retry [OF assms(4)] assms(6,7) xy n2 rec by auto
qed

theorem retry_gets_first_answer_witness:
  "\<exists>w' r w2. handleRequest sample_ctx sample_request sample_world = (w', Inr r)
     \<and> handleRequest sample_ctx sample_request w' = (w2, Inr r)"
proof -
  obtain w' r where h: "handleRequest sample_ctx sample_request sample_world = (w', Inr r)" "sample_up w'"
    by (rule sample_served)
  obtain w2 where c: "check_request sample_ctx sample_request w' = (w2, Inr sample_admission)"
    using sample_check [OF h(2) sample_signal(1,2,8,7), of "sample_call 2000"] sample_cx_same sample_req_same by metis
  from retry_gets_first_answer [OF h(1) sample_hyps(1,2) c sample_hyps(1) refl refl] h(1) show ?thesis
    by (auto simp: sample_ctx_def RESPONSE_TTL_MS_def)
qed

text \<open>C16 A failed provider call refunds everything: the service throws a 502 that carries, as the refund,
  the whole of the \<open>C_MAX\<close> the contract has and the signed accumulator that adds it, and this failure
  is what is kept under the nullifier and signal for ten minutes, and thrown again at a retry.  This is
  what the service throws: the exception filter in front of it forwards only the message, so the client
  is not given the refund (\<open>filter_drops_refund\<close>).\<close>

theorem provider_failure_refunds_all:
  assumes "check_request cx rq w = (w1, Inr ad)" "parseFieldElement (rq_nullifier rq) = Inr n"
    "ns_get (w_store w) (dec_of_int n) = None" "getCMax (w_chain w) = Inr cMax"
    "parseFieldElement (dto_x (rq_signal rq)) = Inr x" "parseFieldElement (dto_y (rq_signal rq)) = Inr y"
    "parseFieldElement (dto_x (rq_accumulator rq)) = Inr px" "parseFieldElement (dto_y (rq_accumulator rq)) = Inr py"
    "executeClaudeRequest cx (rq_payload rq) (case rq_model rq of None \<Rightarrow> DEFAULT_CLAUDE_MODEL | Some m \<Rightarrow> m) = Inl e"
    "ready_world cx key w" "eddsa_correct (cx_eddsa cx)"
  shows "\<exists>w' acc failure. handleRequest cx rq w = (w', Inl failure)
    \<and> failure = BadGateway ''The provider call failed. The whole of C_MAX is refunded.'' (dec_of_int cMax) acc
    \<and> acc_x acc = dec_of_int (fst (applyRefund (cx_generators cx) (px, py) cMax))
    \<and> acc_y acc = dec_of_int (snd (applyRefund (cx_generators cx) (px, py) cMax))
    \<and> verify (cx_eddsa cx) (hex64 (fst (prv2pub (cx_eddsa cx) key)), hex64 (snd (prv2pub (cx_eddsa cx) key)))
        (accumulatorMessage (cx_eddsa cx) (applyRefund (cx_generators cx) (px, py) cMax)) (acc_signature acc) = Inr True
    \<and> (\<forall>t. recallResponse t (dec_of_int n) \<lparr>st_x = dec_of_int x, st_y = dec_of_int y\<rparr> (w_store w') =
         (if t < cx_now_remember cx + RESPONSE_TTL_MS then Some (Kept_failure failure) else None))"
proof -
  from assms(1) have ad: "ad_nullifier ad = dec_of_int n" "ad_cMax ad = cMax"
    "ad_model ad = (case rq_model rq of None \<Rightarrow> DEFAULT_CLAUDE_MODEL | Some m \<Rightarrow> m)"
    by (rule check_request_ok; use assms(2,4) in simp)+
  let ?sg = "\<lparr>st_x = dec_of_int x, st_y = dec_of_int y\<rparr>"
  let ?w = "w1\<lparr>w_store := fst (checkAndSet (dec_of_int n) ?sg (w_store w1)), w_calls := w_calls w1 @ [dec_of_int n]\<rparr>"
  let ?a = "applyRefund (cx_generators cx) (px, py) cMax"
  let ?acc = "\<lparr>acc_x = dec_of_int (fst ?a), acc_y = dec_of_int (snd ?a),
     acc_signature = sign (cx_eddsa cx) key (accumulatorMessage (cx_eddsa cx) ?a)\<rparr>"
  let ?f = "BadGateway ''The provider call failed. The whole of C_MAX is refunded.'' (dec_of_int cMax) ?acc"
  have "ns_get (w_store w1) (dec_of_int n) = None"
    using keepsD [OF check_request_ledger assms(1)] assms(3) by (simp add: same_ledger_def ns_get_def)
  then have rec: "record_signal cx rq (dec_of_int n) w1 =
      (w1\<lparr>w_store := fst (checkAndSet (dec_of_int n) ?sg (w_store w1))\<rparr>, Inr (Fresh ?sg))"
    by (simp add: record_signal_run [OF assms(5,6)] Let_def)
  have "rs_ready (cx_eddsa cx) key (w_signer ?w)" using ready_after_check(1) [OF assms(10,1)] by simp
  from next_accumulator_ready [OF this] have nx: "next_accumulator cx (px, py) cMax ?w = (?w, Inr ?acc)" .
  have "handleRequest cx rq w =
      (?w\<lparr>w_store := rememberResponse (cx_now_remember cx) (dec_of_int n) ?sg (Kept_failure ?f) (w_store ?w)\<rparr>, Inl ?f)"
    using nx by (simp add: handleRequest_def sbind_def assms(1) rec serve_def settle_def assms(7-9) ad Let_def remember_def)
  moreover have "verify (cx_eddsa cx) (hex64 (fst (prv2pub (cx_eddsa cx) key)), hex64 (snd (prv2pub (cx_eddsa cx) key)))
        (accumulatorMessage (cx_eddsa cx) ?a) (acc_signature ?acc) = Inr True"
    using verify_sign [OF assms(11)] by simp
  ultimately show ?thesis by (intro exI [of _ ?acc] exI [of _ ?f] exI conjI) (auto simp: recall_remember)
qed

theorem provider_failure_refunds_all_witness:
  "\<exists>w' acc. handleRequest (sample_cx [(''NODE_ENV'', ''test''), (''ANTHROPIC_API_KEY'', ''k'')] (sample_call 2000))
     (sample_req ''12'' ''2'') sample_world =
     (w', Inl (BadGateway ''The provider call failed. The whole of C_MAX is refunded.'' (dec_of_int sample_cMax) acc))"
proof -
  let ?env = "[(''NODE_ENV'', ''test''), (''ANTHROPIC_API_KEY'', ''k'')]"
  let ?cx = "sample_cx ?env (sample_call 2000)" and ?rq = "sample_req ''12'' ''2''"
  have e: "isProd ?env = Inr False" by code_simp
  obtain w1 where c: "check_request ?cx ?rq sample_world = (w1, Inr sample_admission)"
    by (rule sample_check [OF sample_up_init sample_signal(1,2) e sample_signal(7)]) blast
  have p: "parseFieldElement (dto_x (rq_signal ?rq)) = Inr 12" "parseFieldElement (dto_y (rq_signal ?rq)) = Inr 2"
    "parseFieldElement (dto_x (rq_accumulator ?rq)) = Inr 0" "parseFieldElement (dto_y (rq_accumulator ?rq)) = Inr 1"
    by (simp_all add: sample_req_def sample_request_def sample_signal)
  have x: "executeClaudeRequest ?cx (rq_payload ?rq) (ad_model sample_admission) = Inl (Error ''Failed to execute Claude API request'')"
    by (simp add: executeClaudeRequest_def sample_cx_def sample_ctx_def is_set_def jm_get_Cons)
  have r: "ready_world ?cx [1] sample_world" "eddsa_correct (cx_eddsa ?cx)"
    using sample_hyps(4,5) by (simp_all add: ready_world_def sample_cx_def sample_ctx_def sample_call_def)
  have m: "(case rq_model ?rq of None \<Rightarrow> DEFAULT_CLAUDE_MODEL | Some m \<Rightarrow> m) = ad_model sample_admission"
    "parseFieldElement (rq_nullifier ?rq) = Inr 5"
    using sample_hyps(1) by (simp_all add: sample_req_def sample_request_def sample_admission_def DEFAULT_CLAUDE_MODEL_def)
  from provider_failure_refunds_all [OF c m(2) sample_hyps(2,3) p x [folded m(1)] r] show ?thesis by blast
qed

section \<open>Refusals\<close>

text \<open>C17 A request that fails before its signal is recorded (wrong model, unreadable nullifier, rate
  limit, signal that does not match, \<open>C_MAX\<close> unavailable or too small, proof rejected, or any
  service that throws) consumes nothing: the spent nullifiers, the kept responses, the slashing
  transactions and the provider calls are as before.\<close>

theorem rejected_consumes_nothing:
  assumes "check_request cx rq w = (w', Inl e)"
  shows "handleRequest cx rq w = (w', Inl e) \<and> same_ledger w w'"
  using assms keepsD [OF check_request_ledger assms] by (simp add: handleRequest_def sbind_def)

theorem rejected_consumes_nothing_witness:
  "\<exists>w' e. handleRequest sample_ctx (sample_req ''2'' ''2'') sample_world = (w', Inl e) \<and> same_ledger sample_world w'"
proof -
  have b: "parseFieldElement ''5'' = Inr 5" "isClaudeModel ''claude-haiku-4-5''"
    "\<not> signalXMatchesRequest (\<lambda>_. [7]) (\<lambda>xs. sum_list xs) ''2'' [104, 105] ''5''" by code_simp+
  obtain st where "checkRateLimit 1000 (dec_of_int 5) (w_store sample_world) = (st, True)"
    by (rule sample_attempt [OF sample_up_init])
  then have "\<exists>w' e. check_request sample_ctx (sample_req ''2'' ''2'') sample_world = (w', Inl e)"
    using b by (simp add: check_request_def sbind_def zoom_def total_def Let_def guard_def sample_req_def
        sample_request_def sample_ctx_def)
  then show ?thesis using rejected_consumes_nothing by blast
qed

section \<open>Double-spends\<close>

text \<open>C7 A second signal at a spent index loses the note: when the stored signal and the new one lie on the
  line of a secret key and differ in \<open>x\<close>, the request is refused, the provider is not called, the
  stored signal stays, and the secret key is submitted to the slashing contract whenever the
  contract and a signer are configured.\<close>

theorem double_spend_is_slashed:
  assumes "check_request cx rq w = (w1, Inr ad)"
    "parseFieldElement (dto_x (rq_signal rq)) = Inr x" "parseFieldElement (dto_y (rq_signal rq)) = Inr y"
    "ns_get (w_store w) (ad_nullifier ad) = Some (signal_text s1)"
    "on_line k a s1" "on_line k a \<lparr>sig_x = x, sig_y = y\<rparr>" "reduced k"
    "sig_x s1 mod FIELD_MODULUS \<noteq> x mod FIELD_MODULUS"
  shows "\<exists>w'. handleRequest cx rq w =
      (w', Inl (Forbidden ''Double-spend detected. Your secret key has been extracted and you will be slashed.''))
    \<and> w_slashed w' = (if isEnabled (w_chain w) then w_slashed w @ [k] else w_slashed w)
    \<and> w_calls w' = w_calls w \<and> ns_get (w_store w') (ad_nullifier ad) = Some (signal_text s1)"
proof -
  let ?s2 = "\<lparr>sig_x = x, sig_y = y\<rparr>"
  have led: "same_ledger w w1" by (rule keepsD [OF check_request_ledger assms(1)])
  then have get: "ns_get (w_store w1) (ad_nullifier ad) = Some (signal_text s1)"
    using assms(4) by (simp add: same_ledger_def ns_get_def)
  have ne: "sig_x s1 \<noteq> x" using assms(8) by blast
  have t: "signal_text ?s2 = \<lparr>st_x = dec_of_int x, st_y = dec_of_int y\<rparr>" by (simp add: signal_text_def)
  have sub: "slashRevealed (cx_slash cx) (w_chain w1) (signal_text s1) (signal_text ?s2) (w_slashed w1)
      = (if isEnabled (w_chain w1) then w_slashed w1 @ [k] else w_slashed w1)"
  proof -
    have "(sig_x ?s2 - sig_x s1) mod FIELD_MODULUS \<noteq> 0"
      using assms(8) by (metis mod_eq_dvd_iff dvd_eq_mod_eq_0 rln_signal.select_convs(1))
    from recover_on_line [OF assms(5,6) this] assms(7) show ?thesis by (simp add: slashRevealed_text)
  qed
  have "record_signal cx rq (ad_nullifier ad) w1 =
      (w1\<lparr>w_slashed := (if isEnabled (w_chain w1) then w_slashed w1 @ [k] else w_slashed w1)\<rparr>,
       Inl (Forbidden ''Double-spend detected. Your secret key has been extracted and you will be slashed.''))"
    using get ne sub [unfolded t] by (simp add: record_signal_run [OF assms(2,3)] Let_def signal_text_def)
  then have "handleRequest cx rq w =
      (w1\<lparr>w_slashed := (if isEnabled (w_chain w1) then w_slashed w1 @ [k] else w_slashed w1)\<rparr>,
       Inl (Forbidden ''Double-spend detected. Your secret key has been extracted and you will be slashed.''))"
    using assms(1) by (simp add: handleRequest_def sbind_def)
  then show ?thesis using led get by (simp add: same_ledger_def)
qed

theorem double_spend_is_slashed_witness:
  "\<exists>w'. handleRequest sample_ctx sample_request
      (sample_world\<lparr>w_store := ns_init\<lparr>ns_table := [(dec_of_int 5, signal_text \<lparr>sig_x = 3, sig_y = 2\<rparr>)]\<rparr>\<rparr>) =
      (w', Inl (Forbidden ''Double-spend detected. Your secret key has been extracted and you will be slashed.''))
    \<and> w_slashed w' = [2]"
proof -
  let ?s = "\<lparr>sig_x = 3, sig_y = 2\<rparr>"
  let ?w = "sample_world\<lparr>w_store := ns_init\<lparr>ns_table := [(dec_of_int 5, signal_text ?s)]\<rparr>\<rparr>"
  have up: "sample_up ?w" using sample_up_init by (simp add: sample_up_def attempts_of_def ns_init_def)
  obtain w1 where c: "check_request sample_ctx sample_request ?w = (w1, Inr sample_admission)"
    using sample_check [OF up sample_signal(1,2,8,7), of "sample_call 2000"] sample_cx_same sample_req_same by metis
  have p: "parseFieldElement (dto_x (rq_signal sample_request)) = Inr 12" "parseFieldElement (dto_y (rq_signal sample_request)) = Inr 2"
    by (simp_all add: sample_request_def sample_signal)
  have n: "ns_get (w_store ?w) (ad_nullifier sample_admission) = Some (signal_text ?s)"
    by (simp add: sample_admission_def ns_get_def jm_get_Cons)
  have big: "(12 :: int) < FIELD_MODULUS" by (simp add: FIELD_MODULUS_def)
  then have l: "on_line 2 0 ?s" "on_line 2 0 \<lparr>sig_x = 12, sig_y = 2\<rparr>" "reduced 2" "sig_x ?s mod FIELD_MODULUS \<noteq> 12 mod FIELD_MODULUS"
    by (simp_all add: on_line_def reduced_def)
  have en: "isEnabled (w_chain ?w)" "w_slashed ?w = []"
    by (simp_all add: isEnabled_def slashingContract_def getSigner_def getContractAddress_def sample_world_def sample_chain_def)
  from double_spend_is_slashed [OF c p n l] en show ?thesis by auto
qed

section \<open>A gap: pricing after the call\<close>

text \<open>C39 When the provider has answered but the ETH rate cannot be read, the request fails with the nullifier
  consumed and nothing kept: every later request with the same nullifier and signal that passes
  the checks is refused as already used, so the client loses \<open>C_MAX\<close> and the answer.\<close>

theorem pricing_failure_burns_credit:
  assumes "check_request cx rq w = (w1, Inr ad)" "ns_get (w_store w) (ad_nullifier ad) = None"
    "jm_get (ns_responses (w_store w)) (ad_nullifier ad) = None"
    "parseFieldElement (dto_x (rq_signal rq)) = Inr x" "parseFieldElement (dto_y (rq_signal rq)) = Inr y"
    "parseFieldElement (dto_x (rq_accumulator rq)) = Inr px" "parseFieldElement (dto_y (rq_accumulator rq)) = Inr py"
    "executeClaudeRequest cx (rq_payload rq) (ad_model ad) = Inr (content, usage)"
    "snd (getEthUsdRate (cx_rate_after cx) (w_oracle w1)) = Inl e" "handleRequest cx rq w = (w', res)"
    "check_request cx2 rq2 w' = (w2, Inr ad2)" "ad_nullifier ad2 = ad_nullifier ad"
    "parseFieldElement (dto_x (rq_signal rq2)) = Inr x" "parseFieldElement (dto_y (rq_signal rq2)) = Inr y"
  shows "\<not> is_ok res \<and> ad_nullifier ad \<in> set (w_calls w')
    \<and> handleRequest cx2 rq2 w' = (w2, Inl (Forbidden ''Nullifier already used''))"
proof -
  let ?sg = "\<lparr>st_x = dec_of_int x, st_y = dec_of_int y\<rparr>" and ?n = "ad_nullifier ad"
  let ?w = "w1\<lparr>w_store := fst (checkAndSet ?n ?sg (w_store w1)), w_calls := w_calls w1 @ [?n]\<rparr>"
  have led: "same_ledger w w1" by (rule keepsD [OF check_request_ledger assms(1)])
  then have none: "ns_get (w_store w1) ?n = None" using assms(2) by (simp add: same_ledger_def ns_get_def)
  then have rec: "record_signal cx rq ?n w1 = (w1\<lparr>w_store := fst (checkAndSet ?n ?sg (w_store w1))\<rparr>, Inr (Fresh ?sg))"
    by (simp add: record_signal_run [OF assms(4,5)] Let_def)
  obtain w3 e' where cost: "calculateCostInETH (cx_rate_after cx) (us_internalInputTokens usage) (us_internalOutputTokens usage) (ad_model ad) ?w = (w3, Inl e')"
  proof (cases "calculateCostInETH (cx_rate_after cx) (us_internalInputTokens usage) (us_internalOutputTokens usage) (ad_model ad) ?w")
    case (Pair w3 q)
    show thesis
    proof (cases q)
      case (Inr c)
      from Pair [unfolded Inr] show thesis by (rule cost_run) (use assms(9) in simp)
    qed (use Pair that in simp)
  qed
  have h: "w' = w3" "res = Inl e'"
    using assms(10) cost by (simp_all add: handleRequest_def sbind_def assms(1) rec serve_def settle_def assms(6-8) Let_def)
  note l3 = keepsD [OF keeps_cost cost]
  have "ns_get (w_store w') ?n = Some ?sg"
    using l3 store.cas_stores [of ?n ?sg "w_store w1"] store.cas_fresh [OF none, of ?sg]
    by (simp add: h same_ledger_def ns_get_def)
  moreover have "recallResponse t ?n s (w_store w') = None" for t s
  proof -
    have "ns_responses (w_store w') = ns_responses (w_store w)"
      using l3 led by (auto simp: h same_ledger_def checkAndSet_def split: option.splits)
    then show ?thesis using assms(3) by (simp add: recallResponse_def)
  qed
  ultimately have "handleRequest cx2 rq2 w' = (w2, Inl (Forbidden ''Nullifier already used''))"
    using handle_retry [OF assms(11,13,14)] assms(12) by simp
  moreover have "?n \<in> set (w_calls w')" using l3 by (simp add: h same_ledger_def)
  ultimately show ?thesis using h(2) by simp
qed

theorem pricing_failure_burns_credit_witness:
  "\<exists>w' res w2. handleRequest (sample_cx [(''NODE_ENV'', ''test'')] (sample_call 10000000)) sample_request sample_world = (w', res)
     \<and> \<not> is_ok res \<and> handleRequest sample_ctx sample_request w' = (w2, Inl (Forbidden ''Nullifier already used''))"
proof -
  let ?cx = "sample_cx [(''NODE_ENV'', ''test'')] (sample_call 10000000)"
  obtain pv st where c: "check_request ?cx (sample_req ''12'' ''2'') sample_world =
     (sample_world\<lparr>w_store := st, w_oracle := sample_oracle\<lparr>eo_cache := Some (Fin 2000, 1000)\<rparr>, w_verifier := pv\<rparr>, Inr sample_admission)"
    and st: "checkRateLimit 1000 (dec_of_int 5) (w_store sample_world) = (st, True)"
    and pv: "pv_snark pv = pv_snark (w_verifier sample_world)" "pv_limiter pv = pv_limiter (w_verifier sample_world)"
    by (rule sample_check [OF sample_up_init sample_signal(1,2,8,7)])
  note c = c [unfolded sample_req_same]
  let ?w1 = "sample_world\<lparr>w_store := st, w_oracle := sample_oracle\<lparr>eo_cache := Some (Fin 2000, 1000)\<rparr>, w_verifier := pv\<rparr>"
  let ?sg = "\<lparr>st_x = dec_of_int 12, st_y = dec_of_int 2\<rparr>" and ?n = "ad_nullifier sample_admission"
  have p: "parseFieldElement (dto_x (rq_signal sample_request)) = Inr 12" "parseFieldElement (dto_y (rq_signal sample_request)) = Inr 2"
    "parseFieldElement (dto_x (rq_accumulator sample_request)) = Inr 0" "parseFieldElement (dto_y (rq_accumulator sample_request)) = Inr 1"
    by (simp_all add: sample_request_def sample_signal)
  have n: "ns_get (w_store sample_world) ?n = None" "jm_get (ns_responses (w_store sample_world)) ?n = None"
    using sample_hyps(2) by (simp_all add: sample_admission_def sample_world_def ns_init_def)
  obtain content usage where x: "executeClaudeRequest ?cx (rq_payload sample_request) (ad_model sample_admission) = Inr (content, usage)"
    by (rule usd_bounded [of 1 107]) (auto simp: executeClaudeRequest_def mockClaudeRequest_def sample_cx_def sample_ctx_def
        is_set_def jm_get_Cons sample_request_def sample_admission_def usage_of_def Let_def)
  have r: "getEthUsdRate (cx_rate_after ?cx) (w_oracle ?w1) = (w_oracle ?w1,
      Inl (Error ''Unable to fetch ETH/USD rate from any source (Kraken, DB cache, or Chainlink)''))"
    by (simp add: sample_cx_def sample_call_def sample_oracle_def getEthUsdRate_def fetchFromKraken_def getLatestRateFromDb_def
        MAX_DB_RATE_AGE_def CACHE_TTL_def chainlink_fallback_def fetchFromChainlink_def)
  have none: "ns_get (w_store ?w1) ?n = None"
    using checkRateLimit_ledger [OF st] n by (simp add: ns_get_def)
  let ?w2 = "?w1\<lparr>w_store := fst (checkAndSet ?n ?sg (w_store ?w1)), w_calls := w_calls ?w1 @ [?n]\<rparr>"
  obtain e where h: "handleRequest ?cx sample_request sample_world = (?w2, Inl e)"
  proof (rule usd_bounded [of "us_internalInputTokens usage" "us_internalOutputTokens usage"])
    have "us_internalInputTokens usage = 1 \<and> us_internalOutputTokens usage = 107"
      using x usage_of_tokens by (fastforce simp: executeClaudeRequest_def mockClaudeRequest_def sample_cx_def sample_ctx_def
          is_set_def jm_get_Cons sample_request_def bind_eq_Inr)
    then show "us_internalInputTokens usage \<le> 2 ^ 20" "us_internalOutputTokens usage \<le> 2 ^ 20" by simp_all
    fix u
    assume u: "claudeCostUSD ''claude-haiku-4-5'' (jnat (us_internalInputTokens usage)) (jnat (us_internalOutputTokens usage)) = Inr (Fin u)"
    have rec: "record_signal ?cx sample_request ?n ?w1 = (?w1\<lparr>w_store := fst (checkAndSet ?n ?sg (w_store ?w1))\<rparr>, Inr (Fresh ?sg))"
      using none by (simp add: record_signal_run [OF p(1,2)] Let_def)
    have "calculateCostInETH (cx_rate_after ?cx) (us_internalInputTokens usage) (us_internalOutputTokens usage) (ad_model sample_admission) ?w2
        = (?w2, Inl (Error ''Unable to fetch ETH/USD rate from any source (Kraken, DB cache, or Chainlink)''))"
      using u r by (simp add: calculateCostInETH_def sbind_def zoom_def usdToWei_def sample_admission_def)
    then show thesis
      using c by (intro that) (simp add: handleRequest_def sbind_def rec serve_def settle_def p(3,4) x Let_def)
  qed
  have "sample_up ?w2"
    using pv sample_up_init st
    by (auto simp: sample_up_def checkRateLimit_def Let_def ns_init_def sample_world_def attempts_of_def recent_def
        checkAndSet_def ns_get_def RATE_LIMIT_MAX_ATTEMPTS_def jm_size_def jm_get_Cons split: option.split)
  then obtain w3 where c2: "check_request sample_ctx sample_request ?w2 = (w3, Inr sample_admission)"
    using sample_check [OF _ sample_signal(1,2,8,7), of ?w2 "sample_call 2000"] sample_cx_same sample_req_same by metis
  from pricing_failure_burns_credit [OF c n p x _ h c2 refl p(1,2)] r h show ?thesis by auto
qed

end
