(* ===== verification/ExitWatcher.thy ===== *)
theory ExitWatcher
  imports Settlement
begin

text \<open>
  \<open>src/src/longjing/exit-watcher.service.ts\<close>: exits announced by the contract are recorded in the
  table of spent nullifiers, and slashed when they reuse a spent one.

  The second half puts the service together: requests, exits, the clean-up timers, reconnections
  and restarts as interleaved steps.  A request takes three steps, \<open>check_request\<close>, \<open>record_signal\<close>
  and \<open>serve\<close>; anything may happen between them, which is what the awaits of \<open>handleRequest\<close>
  allow.  The table is read and written in one synchronous call (\<open>checkAndSet\<close>), so a step is never
  in the middle of it.
\<close>

section \<open>The watcher\<close>

definition exit_signal :: "withdrawal \<Rightarrow> stored_signal" where
  "exit_signal e = \<lparr>st_x = dec_of_int (wd_signalX e), st_y = dec_of_int (wd_signalY e)\<rparr>"

definition ingest :: "slash_chain \<Rightarrow> withdrawal \<Rightarrow> 'v world \<Rightarrow> 'v world" where
  "ingest sc e w =
     (case checkAndSet (dec_of_int (wd_nullifier e)) (exit_signal e) (w_store w) of
        (st, existing) \<Rightarrow>
          let w1 = w\<lparr>w_store := st\<rparr> in
          (case existing of
             Some ex \<Rightarrow>
               if st_x ex \<noteq> st_x (exit_signal e)
               then w1\<lparr>w_slashed := slashRevealed sc (w_chain w1) ex (exit_signal e) (w_slashed w1)\<rparr>
               else w1
           | None \<Rightarrow> w1))"

definition watch ::
  "slash_chain \<Rightarrow> nat res \<Rightarrow> (nat \<Rightarrow> withdrawal list res) \<Rightarrow> 'v world \<Rightarrow> 'v world \<times> bool \<times> unit res" where
  "watch sc getBlockNumber queryFilter w =
     watchWithdrawals getBlockNumber queryFilter (ingest sc) (w_chain w) w"

text \<open>The handler waits in \<open>bc_connectedHandlers\<close> until the contract answers, or runs at once.\<close>

definition onApplicationBootstrap ::
  "slash_chain \<Rightarrow> nat res \<Rightarrow> (nat \<Rightarrow> withdrawal list res) \<Rightarrow> 'v world \<Rightarrow> 'v world \<times> bool \<times> unit res" where
  "onApplicationBootstrap sc getBlockNumber queryFilter w =
     (case onConnected () (w_chain w) of
        (bc, []) \<Rightarrow> (w\<lparr>w_chain := bc\<rparr>, False, Inr ())
      | (bc, _) \<Rightarrow> watch sc getBlockNumber queryFilter (w\<lparr>w_chain := bc\<rparr>))"

lemma ingest_table:
  "ns_get (w_store (ingest sc e w)) n =
     (if n = dec_of_int (wd_nullifier e) \<and> ns_get (w_store w) n = None then Some (exit_signal e) else ns_get (w_store w) n)"
  using store.cas_lookup [of "dec_of_int (wd_nullifier e)" "exit_signal e" "w_store w" n]
  by (auto simp: ingest_def Let_def split: prod.split option.split)

lemma ingest_calls [simp]: "w_calls (ingest sc e w) = w_calls w" "w_chain (ingest sc e w) = w_chain w"
  by (auto simp: ingest_def Let_def split: prod.split option.split)

lemma ingest_responses [simp]: "ns_responses (w_store (ingest sc e w)) = ns_responses (w_store w)"
  by (auto simp: ingest_def checkAndSet_def Let_def split: prod.split option.split)

lemma fold_ingest_calls: "w_calls (fold (ingest sc) es w) = w_calls w \<and> w_chain (fold (ingest sc) es w) = w_chain w"
  by (induction es arbitrary: w) simp_all

lemma fold_ingest_keeps: "ns_get (w_store w) n = Some s \<Longrightarrow> ns_get (w_store (fold (ingest sc) es w)) n = Some s"
  by (induction es arbitrary: w) (simp_all add: ingest_table)

lemma fold_ingest_records:
  "e \<in> set es \<Longrightarrow> \<exists>s. ns_get (w_store (fold (ingest sc) es w)) (dec_of_int (wd_nullifier e)) = Some s"
proof (induction es arbitrary: w)
  case (Cons e' es)
  show ?case
  proof (cases "e' = e")
    case True
    have "\<exists>s. ns_get (w_store (ingest sc e w)) (dec_of_int (wd_nullifier e)) = Some s"
      by (cases "ns_get (w_store w) (dec_of_int (wd_nullifier e))") (simp_all add: ingest_table)
    with True show ?thesis using fold_ingest_keeps by fastforce
  next
    case False
    with Cons show ?thesis by simp
  qed
qed simp

text \<open>C9 An exit that understates usage is slashed: when the table holds a signal under the exit's
  nullifier, both on the line of the secret key \<open>k\<close> and with different \<open>x\<close>, ingesting the exit
  submits \<open>k\<close> to the slashing contract (if one and a signer are configured) and leaves the stored
  signal in place.\<close>

theorem understated_exit_is_slashed:
  assumes "ns_get (w_store w) (dec_of_int (wd_nullifier e)) = Some (signal_text s1)"
    "on_line k a s1" "on_line k a \<lparr>sig_x = wd_signalX e, sig_y = wd_signalY e\<rparr>" "reduced k"
    "sig_x s1 mod FIELD_MODULUS \<noteq> wd_signalX e mod FIELD_MODULUS"
  shows "w_slashed (ingest sc e w) = (if isEnabled (w_chain w) then w_slashed w @ [k] else w_slashed w)
    \<and> ns_table (w_store (ingest sc e w)) = ns_table (w_store w)"
proof -
  let ?s2 = "\<lparr>sig_x = wd_signalX e, sig_y = wd_signalY e\<rparr>"
  have ne: "sig_x s1 \<noteq> wd_signalX e" using assms(5) by metis
  have "(sig_x ?s2 - sig_x s1) mod FIELD_MODULUS \<noteq> 0"
    using assms(5) by (metis mod_eq_dvd_iff dvd_eq_mod_eq_0 rln_signal.select_convs(1))
  from recover_on_line [OF assms(2,3) this] assms(4)
  have "slashRevealed sc (w_chain w) (signal_text s1) (signal_text ?s2) (w_slashed w)
      = (if isEnabled (w_chain w) then w_slashed w @ [k] else w_slashed w)" by (simp add: slashRevealed_text)
  then show ?thesis
    using assms(1) ne by (simp add: ingest_def checkAndSet_def Let_def exit_signal_def signal_text_def)
qed

theorem understated_exit_is_slashed_witness:
  "w_slashed (ingest (cx_slash sample_ctx) \<lparr>wd_nullifier = 5, wd_signalX = 12, wd_signalY = 2\<rparr>
     (sample_world\<lparr>w_store := ns_init\<lparr>ns_table := [(dec_of_int 5, signal_text \<lparr>sig_x = 3, sig_y = 2\<rparr>)]\<rparr>\<rparr>)) = [2]"
proof -
  let ?s = "\<lparr>sig_x = 3, sig_y = 2\<rparr>"
  let ?w = "sample_world\<lparr>w_store := ns_init\<lparr>ns_table := [(dec_of_int 5, signal_text ?s)]\<rparr>\<rparr>"
  let ?e = "\<lparr>wd_nullifier = 5, wd_signalX = 12, wd_signalY = 2\<rparr>"
  have n: "ns_get (w_store ?w) (dec_of_int (wd_nullifier ?e)) = Some (signal_text ?s)"
    by (simp add: ns_get_def jm_get_Cons)
  have "(12 :: int) < FIELD_MODULUS" by (simp add: FIELD_MODULUS_def)
  then have l: "on_line 2 0 ?s" "on_line 2 0 \<lparr>sig_x = wd_signalX ?e, sig_y = wd_signalY ?e\<rparr>" "reduced 2"
    "sig_x ?s mod FIELD_MODULUS \<noteq> wd_signalX ?e mod FIELD_MODULUS"
    by (simp_all add: on_line_def reduced_def)
  have "isEnabled (w_chain ?w)" "w_slashed ?w = []"
    by (simp_all add: isEnabled_def slashingContract_def getSigner_def getContractAddress_def sample_world_def sample_chain_def)
  with understated_exit_is_slashed [OF n l] show ?thesis by simp
qed

section \<open>Interleaved requests\<close>

record 'v gateway =
  gw_world :: "'v world"
  gw_checked :: "('v ctx \<times> longjing_request \<times> admission) list"
  gw_fresh :: "('v ctx \<times> longjing_request \<times> admission \<times> stored_signal) list"

abbreviation fresh_nullifiers :: "'v gateway \<Rightarrow> string list" where
  "fresh_nullifiers g \<equiv> map (\<lambda>(cx, rq, ad, sg). ad_nullifier ad) (gw_fresh g)"

text \<open>A restart loses what is in memory (\<open>gw_checked\<close>, \<open>gw_fresh\<close>, kept responses, attempts) and keeps
  the table, which is on disk (\<open>DATA_DIR\<close> other than the \<open>:memory:\<close> of the tests, with which the table is
  lost as well); the other services come up in any state.  A connection attempt is as many steps as it
  has awaits.\<close>

inductive gw_step :: "'v gateway \<Rightarrow> 'v gateway \<Rightarrow> bool" where
  refused: "check_request cx rq (gw_world g) = (w', Inl e) \<Longrightarrow> gw_step g (g\<lparr>gw_world := w'\<rparr>)"
| checked: "check_request cx rq (gw_world g) = (w', Inr ad) \<Longrightarrow>
    gw_step g (g\<lparr>gw_world := w', gw_checked := gw_checked g @ [(cx, rq, ad)]\<rparr>)"
| fresh: "gw_checked g = as @ (cx, rq, ad) # bs \<Longrightarrow>
    record_signal cx rq (ad_nullifier ad) (gw_world g) = (w', Inr (Fresh sg)) \<Longrightarrow>
    gw_step g (g\<lparr>gw_world := w', gw_checked := as @ bs, gw_fresh := gw_fresh g @ [(cx, rq, ad, sg)]\<rparr>)"
| reused: "gw_checked g = as @ (cx, rq, ad) # bs \<Longrightarrow>
    record_signal cx rq (ad_nullifier ad) (gw_world g) = (w', r) \<Longrightarrow> (\<And>sg. r \<noteq> Inr (Fresh sg)) \<Longrightarrow>
    gw_step g (g\<lparr>gw_world := w', gw_checked := as @ bs\<rparr>)"
| served: "gw_fresh g = as @ (cx, rq, ad, sg) # bs \<Longrightarrow> serve cx rq ad sg (gw_world g) = (w', r) \<Longrightarrow>
    gw_step g (g\<lparr>gw_world := w', gw_fresh := as @ bs\<rparr>)"
| exit: "gw_step g (g\<lparr>gw_world := ingest sc e (gw_world g)\<rparr>)"
| timer: "gw_step g (g\<lparr>gw_world := (gw_world g)\<lparr>w_store :=
     cleanupRateLimitMap now (cleanupResponses now (w_store (gw_world g)))\<rparr>\<rparr>)"
| reconnect: "conn_step sigs config key url address (w_chain (gw_world g), ph) l (bc, ph') \<Longrightarrow>
    gw_step g (g\<lparr>gw_world := (gw_world g)\<lparr>w_chain := bc\<rparr>\<rparr>)"
| restart: "gw_step g \<lparr>gw_world = (gw_world g)\<lparr>w_store := (w_store (gw_world g))\<lparr>ns_attempts := [], ns_responses := []\<rparr>,
     w_oracle := eo, w_verifier := pv, w_signer := rs, w_chain := bc\<rparr>, gw_checked = [], gw_fresh = []\<rparr>"

text \<open>The service starts with any table, no request in progress and nothing called yet.\<close>

definition gw_start :: "'v gateway \<Rightarrow> bool" where
  "gw_start g \<longleftrightarrow> gw_checked g = [] \<and> gw_fresh g = [] \<and> w_calls (gw_world g) = []"

definition spent :: "'v gateway \<Rightarrow> string set" where
  "spent g = {n. ns_get (w_store (gw_world g)) n \<noteq> None}"

text \<open>Every nullifier that was served, or is about to be, is in the table, and is there once.\<close>

definition gw_inv :: "'v gateway \<Rightarrow> bool" where
  "gw_inv g \<longleftrightarrow> distinct (w_calls (gw_world g) @ fresh_nullifiers g)
     \<and> set (w_calls (gw_world g) @ fresh_nullifiers g) \<subseteq> spent g"

text \<open>What the three steps of a request do to the table and to the calls.\<close>

lemma record_signal_cases:
  assumes "record_signal cx rq n w = (w', r)"
  obtains (new) sg where "ns_get (w_store w) n = None" "r = Inr (Fresh sg)"
      "w' = w\<lparr>w_store := fst (checkAndSet n sg (w_store w))\<rparr>"
    | (old) "w_store w' = w_store w" "w_calls w' = w_calls w" "\<And>sg. r \<noteq> Inr (Fresh sg)"
proof (cases "parseFieldElement (dto_x (rq_signal rq))")
  case (Inl e)
  with assms show thesis by (intro old) (auto simp: record_signal_def sbind_def)
next
  case x: (Inr x)
  show thesis
  proof (cases "parseFieldElement (dto_y (rq_signal rq))")
    case (Inl e)
    with x assms show thesis by (intro old) (auto simp: record_signal_def sbind_def)
  next
    case (Inr y)
    with assms show thesis
      using new old by (cases "ns_get (w_store w) n")
        (auto simp: record_signal_run [OF x] Let_def split: if_splits option.splits)
  qed
qed

lemma record_signal_fresh:
  assumes "record_signal cx rq n w = (w', Inr (Fresh sg))"
  shows "ns_get (w_store w) n = None" "w_calls w' = w_calls w"
    "ns_get (w_store w') k = (if k = n then Some sg else ns_get (w_store w) k)"
  using assms store.cas_lookup [of n sg "w_store w" k] by (auto elim!: record_signal_cases)

lemma record_signal_keeps:
  assumes "record_signal cx rq n w = (w', r)"
  shows "w_calls w' = w_calls w" "ns_get (w_store w) k = Some s \<Longrightarrow> ns_get (w_store w') k = Some s"
  using assms store.cas_keeps [of "w_store w" k s n] by (auto elim!: record_signal_cases)

lemma keeps_remember: "keeps (\<lambda>u v. ns_table (w_store v) = ns_table (w_store u) \<and> w_calls v = w_calls u) (remember cx n s k)"
  by (simp add: remember_def keeps_def rememberResponse_def)

lemma keeps_ledger_weak:
  "keeps same_ledger m \<Longrightarrow> keeps (\<lambda>u v. ns_table (w_store v) = ns_table (w_store u) \<and> w_calls v = w_calls u) m"
  by (auto simp: keeps_def same_ledger_def)

lemma keeps_settle:
  "keeps (\<lambda>u v. ns_table (w_store v) = ns_table (w_store u) \<and> w_calls v = w_calls u) (settle cx ad sg p outcome)"
  unfolding settle_def Let_def
  by (auto split: sum.split intro!: keeps_sbind keeps_remember keeps_ledger_weak [OF keeps_cost] keeps_ledger_weak [OF keeps_next])

lemma serve_keeps:
  assumes "serve cx rq ad sg w = (w', r)"
  shows "ns_table (w_store w') = ns_table (w_store w)"
    "w_calls w' = w_calls w \<or> w_calls w' = w_calls w @ [ad_nullifier ad]"
  using assms keepsD [OF keeps_settle] unfolding serve_def
  by (fastforce simp: sbind_def split: sum.splits)+

text \<open>The invariant and the fact that a nullifier which is in the table without having been admitted is
  never called are both kept by every step.\<close>

definition gw_closed :: "string \<Rightarrow> 'v gateway \<Rightarrow> bool" where
  "gw_closed n g \<longleftrightarrow> n \<in> spent g \<and> n \<notin> set (w_calls (gw_world g) @ fresh_nullifiers g)"

lemma gw_inv_same:
  assumes "gw_inv g" "w_calls (gw_world g') = w_calls (gw_world g)" "gw_fresh g' = gw_fresh g"
    "spent g \<subseteq> spent g'"
  shows "gw_inv g'"
  using assms by (auto simp: gw_inv_def)

lemma gw_closed_same:
  assumes "gw_closed n g" "w_calls (gw_world g') = w_calls (gw_world g)" "gw_fresh g' = gw_fresh g"
    "spent g \<subseteq> spent g'"
  shows "gw_closed n g'"
  using assms by (auto simp: gw_closed_def)

text \<open>Every step is one of three kinds: it leaves the calls and the admitted requests alone, it admits a
  request whose nullifier was not in the table, or it serves or drops admitted requests.\<close>

lemma gw_step_kinds:
  assumes "gw_step g g'"
  obtains (idle) "w_calls (gw_world g') = w_calls (gw_world g)" "gw_fresh g' = gw_fresh g"
      "spent g \<subseteq> spent g'"
    | (admit) n where "n \<notin> spent g" "w_calls (gw_world g') = w_calls (gw_world g)"
      "fresh_nullifiers g' = fresh_nullifiers g @ [n]" "n \<in> spent g'"
      "spent g \<subseteq> spent g'"
    | (answer) as n bs where "spent g' = spent g"
      "fresh_nullifiers g = as @ n # bs" "fresh_nullifiers g' = as @ bs"
      "w_calls (gw_world g') \<in> {w_calls (gw_world g), w_calls (gw_world g) @ [n]}"
    | (lost) "spent g' = spent g"
      "w_calls (gw_world g') = w_calls (gw_world g)" "gw_fresh g' = []"
  using assms
proof cases
  case (refused cx rq w' e)
  from keepsD [OF check_request_ledger refused(2)] refused(1) show thesis
    by (intro idle) (simp_all add: same_ledger_def spent_def ns_get_def)
next
  case (checked cx rq w' ad)
  from keepsD [OF check_request_ledger checked(2)] checked(1) show thesis
    by (intro idle) (simp_all add: same_ledger_def spent_def ns_get_def)
next
  case (fresh as cx rq ad bs w' sg)
  note f = record_signal_fresh [OF fresh(3)]
  show thesis
    by (rule admit [of "ad_nullifier ad"]) (use f fresh(1) in \<open>auto simp: spent_def\<close>)
next
  case (reused as cx rq ad bs w' r)
  from record_signal_keeps [OF reused(3)] reused(1) show thesis by (intro idle) (auto simp: spent_def)
next
  case (served as cx rq ad sg bs w' r)
  let ?f = "map (\<lambda>(cx, rq, ad, sg). ad_nullifier ad)"
  from serve_keeps [OF served(3)] served(1,2) show thesis
    by (intro answer [of "?f as" "ad_nullifier ad" "?f bs"]) (auto simp: spent_def ns_get_def)
next
  case (exit sc e)
  then show thesis by (intro idle) (auto simp: spent_def ingest_table)
next
  case (timer now)
  then show thesis by (intro idle) (simp_all add: spent_def ns_get_def cleanupRateLimitMap_def cleanupResponses_def)
next
  case (reconnect sigs config key url address ph l bc ph')
  then show thesis by (intro idle) (simp_all add: spent_def)
next
  case (restart eo pv rs bc)
  then show thesis by (intro lost) (simp_all add: spent_def ns_get_def)
qed

lemma gw_inv_step:
  assumes "gw_step g g'" "gw_inv g"
  shows "gw_inv g'"
  using assms(1)
proof (cases rule: gw_step_kinds)
  case idle
  with assms(2) show ?thesis by (rule gw_inv_same)
next
  case (admit n)
  then show ?thesis using assms(2) by (auto simp: gw_inv_def)
next
  case (answer as n bs)
  then show ?thesis using assms(2) by (auto simp: gw_inv_def)
next
  case lost
  then show ?thesis using assms(2) by (auto simp: gw_inv_def)
qed

lemma gw_closed_step:
  assumes "gw_step g g'" "gw_closed n g"
  shows "gw_closed n g'"
  using assms(1)
proof (cases rule: gw_step_kinds)
  case idle
  with assms(2) show ?thesis by (rule gw_closed_same)
next
  case (admit k)
  then show ?thesis using assms(2) by (auto simp: gw_closed_def)
next
  case (answer as k bs)
  then show ?thesis using assms(2) by (auto simp: gw_closed_def)
next
  case lost
  then show ?thesis using assms(2) by (auto simp: gw_closed_def)
qed

interpretation inv: stable gw_step gw_inv
  by unfold_locales (rule gw_inv_step)

interpretation closed: stable gw_step "gw_closed n" for n
  by unfold_locales (rule gw_closed_step)

text \<open>C1 However requests, exits, timers, reconnections and restarts interleave, the provider is called
  at most once per nullifier.\<close>

theorem one_call_per_nullifier:
  assumes "gw_start g0" "gw_step\<^sup>*\<^sup>* g0 g"
  shows "distinct (w_calls (gw_world g))"
proof -
  have "gw_inv g0" using assms(1) by (simp add: gw_start_def gw_inv_def)
  with assms(2) have "gw_inv g" by (rule inv.steps_keep)
  then show ?thesis by (simp add: gw_inv_def)
qed

text \<open>A run: the sample request is checked, recorded and served.\<close>

definition sample_gateway :: "nat gateway" where
  "sample_gateway = \<lparr>gw_world = sample_world, gw_checked = [], gw_fresh = []\<rparr>"

lemma sample_start: "gw_start sample_gateway"
  by (simp add: gw_start_def sample_gateway_def sample_world_def)

lemma sample_run:
  obtains g where "gw_step\<^sup>*\<^sup>* sample_gateway g" "w_calls (gw_world g) = [dec_of_int 5]"
proof -
  let ?n = "dec_of_int 5"
  obtain w' r where h: "handleRequest sample_ctx sample_request sample_world = (w', Inr r)" by (rule sample_served)
  from handleRequest_fresh [OF h sample_hyps(1,2)] obtain w1 ad x y where
    c: "check_request sample_ctx sample_request sample_world = (w1, Inr ad)" and n: "ad_nullifier ad = ?n"
    and x: "parseFieldElement (dto_x (rq_signal sample_request)) = Inr x"
    and y: "parseFieldElement (dto_y (rq_signal sample_request)) = Inr y"
    and s: "serve sample_ctx sample_request ad \<lparr>st_x = dec_of_int x, st_y = dec_of_int y\<rparr>
       (w1\<lparr>w_store := fst (checkAndSet ?n \<lparr>st_x = dec_of_int x, st_y = dec_of_int y\<rparr> (w_store w1))\<rparr>) = (w', Inr r)"
    by metis
  let ?sg = "\<lparr>st_x = dec_of_int x, st_y = dec_of_int y\<rparr>"
  let ?w2 = "w1\<lparr>w_store := fst (checkAndSet ?n ?sg (w_store w1))\<rparr>"
  note led = keepsD [OF check_request_ledger c]
  have "ns_get (w_store w1) ?n = None" using led sample_hyps(2) by (simp add: same_ledger_def ns_get_def)
  then have rec: "record_signal sample_ctx sample_request (ad_nullifier ad) w1 = (?w2, Inr (Fresh ?sg))"
    by (simp add: record_signal_run [OF x y] Let_def n)
  have 1: "gw_step sample_gateway \<lparr>gw_world = w1, gw_checked = [(sample_ctx, sample_request, ad)], gw_fresh = []\<rparr>" (is "gw_step _ ?g1")
    using checked [of sample_ctx sample_request sample_gateway w1 ad] c by (simp add: sample_gateway_def)
  have 2: "gw_step ?g1 \<lparr>gw_world = ?w2, gw_checked = [], gw_fresh = [(sample_ctx, sample_request, ad, ?sg)]\<rparr>" (is "gw_step _ ?g2")
    using fresh [of ?g1 "[]" sample_ctx sample_request ad "[]" ?w2 ?sg] rec by simp
  have 3: "gw_step ?g2 \<lparr>gw_world = w', gw_checked = [], gw_fresh = []\<rparr>" (is "gw_step _ ?g3")
    using served [of ?g2 "[]" sample_ctx sample_request ad ?sg "[]" w' "Inr r"] s by simp
  have calls: "w_calls w1 = []" using led by (simp add: same_ledger_def sample_world_def)
  have "w_calls w' = w_calls w1 @ [?n]"
    using s
  proof (rule serve_ok)
    fix px py content usage actual w2 w3 acc
    assume a: "calculateCostInETH (cx_rate_after sample_ctx) (us_internalInputTokens usage) (us_internalOutputTokens usage) (ad_model ad)
        (?w2\<lparr>w_calls := w_calls ?w2 @ [ad_nullifier ad]\<rparr>) = (w2, Inr actual)"
      "next_accumulator sample_ctx (px, py) (if actual < ad_cMax ad then ad_cMax ad - actual else 0) w2 = (w3, Inr acc)"
      "w' = w3\<lparr>w_store := rememberResponse (cx_now_remember sample_ctx) (ad_nullifier ad) ?sg (Kept_response r) (w_store w3)\<rparr>"
    then show ?thesis using keepsD [OF keeps_cost a(1)] keepsD [OF keeps_next a(2)] n by (simp add: same_ledger_def)
  qed
  with calls have "w_calls (gw_world ?g3) = [?n]" by simp
  moreover from 1 2 3 have "gw_step\<^sup>*\<^sup>* sample_gateway ?g3" by (meson converse_rtranclp_into_rtranclp rtranclp.rtrancl_refl)
  ultimately show thesis by (intro that)
qed

theorem one_call_per_nullifier_witness:
  "\<exists>g. gw_step\<^sup>*\<^sup>* sample_gateway g \<and> w_calls (gw_world g) = [dec_of_int 5] \<and> distinct (w_calls (gw_world g))"
proof -
  obtain g where g: "gw_step\<^sup>*\<^sup>* sample_gateway g" "w_calls (gw_world g) = [dec_of_int 5]" by (rule sample_run)
  from one_call_per_nullifier [OF sample_start g(1)] g show ?thesis by blast
qed

text \<open>C8 An exit closes its index: after an exit whose nullifier was not yet in the table, no request
  with that nullifier is ever sent to the provider, whatever the service does next.\<close>

theorem exit_closes_index:
  assumes "gw_start g0" "gw_step\<^sup>*\<^sup>* g0 g" "ns_get (w_store (gw_world g)) (dec_of_int (wd_nullifier e)) = None"
    "gw_step\<^sup>*\<^sup>* (g\<lparr>gw_world := ingest sc e (gw_world g)\<rparr>) g'"
  shows "dec_of_int (wd_nullifier e) \<notin> set (w_calls (gw_world g'))"
proof -
  let ?n = "dec_of_int (wd_nullifier e)"
  have "gw_inv g0" using assms(1) by (simp add: gw_start_def gw_inv_def)
  with assms(2) have inv: "gw_inv g" by (rule inv.steps_keep)
  have "?n \<notin> set (w_calls (gw_world g) @ fresh_nullifiers g)" using inv assms(3) unfolding gw_inv_def spent_def by blast
  then have "gw_closed ?n (g\<lparr>gw_world := ingest sc e (gw_world g)\<rparr>)"
    using assms(3) by (simp add: gw_closed_def spent_def ingest_table)
  with assms(4) have "gw_closed ?n g'" by (rule closed.steps_keep)
  then show ?thesis by (simp add: gw_closed_def)
qed

theorem exit_closes_index_witness:
  "dec_of_int 5 \<notin> set (w_calls (gw_world (sample_gateway\<lparr>gw_world :=
     ingest (cx_slash sample_ctx) \<lparr>wd_nullifier = 5, wd_signalX = 12, wd_signalY = 2\<rparr> (gw_world sample_gateway)\<rparr>)))"
  using exit_closes_index [OF sample_start rtranclp.rtrancl_refl, of "\<lparr>wd_nullifier = 5, wd_signalX = 12, wd_signalY = 2\<rparr>",
      OF _ rtranclp.rtrancl_refl] sample_hyps(2)
  by (simp add: sample_gateway_def)

end
