(* ===== verification/Pricing.thy ===== *)
theory Pricing
  imports StateRes Json
begin

text \<open>
  \<open>src/src/pricing/\<close>: the pricing models (\<open>dto/pricing-model.dto.ts\<close>), their tables
  (\<open>pricing.repository.ts\<close>) and the oracle that caches and applies them
  (\<open>pricing-oracle.service.ts\<close>).

  The two SQLite tables are lists of rows in insertion order.  Dates are milliseconds: the tables
  hold ISO texts, all of one length, whose alphabetical order is that of the dates.  A rate column
  holds the JSON of the list (\<open>stringify_rates\<close>, \<open>parse_rates\<close>), in which a number that is not finite is
  written as \<open>null\<close>.  The methods are synchronous, so the clock is
  read once per call.
\<close>

section \<open>Data\<close>

datatype PricingType = Per_token | Per_call | Per_unit | Tiered | Composite

text \<open>A number that was read back from JSON may be \<open>null\<close> (\<open>None\<close>); in arithmetic \<open>null\<close> is 0.  The upper
  end of a tier may also be absent.\<close>

type_synonym num_field = "jsnum option"

definition num_val :: "num_field \<Rightarrow> jsnum" where
  "num_val v = (case v of None \<Rightarrow> Fin 0 | Some x \<Rightarrow> x)"

record tier =
  tr_from :: num_field
  tr_to :: "num_field option"
  tr_rate :: num_field

record pricing_rate =
  pr_type :: PricingType
  pr_rate :: num_field
  pr_unit :: "string option"
  pr_tiers :: "tier list option"

record pricing_model =
  pm_providerId :: string
  pm_endpoint :: "string option"
  pm_pricingType :: PricingType
  pm_rates :: "pricing_rate list"
  pm_currency :: string
  pm_effectiveFrom :: int
  pm_effectiveUntil :: "int option"

record usage_metrics =
  um_units :: jsnum
  um_unitType :: string
  um_costUSD :: jsnum
  um_breakdown :: "(string, jsnum) jmap option"

record pricing_model_row =
  row_provider_id :: string
  row_endpoint :: "string option"
  row_pricing_type :: PricingType
  row_currency :: string
  row_rates :: json
  row_effective_from :: int
  row_effective_until :: "int option"
  row_created_at :: int
  row_updated_at :: int

record pricing_history_row =
  hist_provider_id :: string
  hist_endpoint :: "string option"
  hist_old_rates :: "json option"
  hist_new_rates :: json
  hist_changed_by :: string
  hist_changed_at :: int
  hist_reason :: string

record pricing_db =
  pricing_models :: "pricing_model_row list"
  pricing_history :: "pricing_history_row list"

section \<open>Rates as JSON\<close>

fun type_text :: "PricingType \<Rightarrow> string" where
  "type_text Per_token = ''per-token''"
| "type_text Per_call = ''per-call''"
| "type_text Per_unit = ''per-unit''"
| "type_text Tiered = ''tiered''"
| "type_text Composite = ''composite''"

text \<open>\<open>JSON.stringify\<close>: NaN and the infinities become \<open>null\<close>, and a property that is \<open>undefined\<close> is left out.\<close>

fun json_num :: "num_field \<Rightarrow> json" where
  "json_num (Some (Fin a)) = JNum (Fin a)"
| "json_num _ = JNull"

definition json_tier :: "tier \<Rightarrow> json" where
  "json_tier t = JObj ((''from'', json_num (tr_from t))
     # (case tr_to t of None \<Rightarrow> [] | Some v \<Rightarrow> [(''to'', json_num v)]) @ [(''rate'', json_num (tr_rate t))])"

definition json_rate :: "pricing_rate \<Rightarrow> json" where
  "json_rate r = JObj ((''type'', JStr (type_text (pr_type r))) # (''rate'', json_num (pr_rate r))
     # (case pr_unit r of None \<Rightarrow> [] | Some u \<Rightarrow> [(''unit'', JStr u)])
     @ (case pr_tiers r of None \<Rightarrow> [] | Some ts \<Rightarrow> [(''tiers'', JArr (map json_tier ts))]))"

definition stringify_rates :: "pricing_rate list \<Rightarrow> json" where
  "stringify_rates rs = JArr (map json_rate rs)"

text \<open>\<open>JSON.parse\<close>, and the fields of what it gives.\<close>

fun num_of_json :: "json \<Rightarrow> num_field" where
  "num_of_json (JNum x) = Some x"
| "num_of_json _ = None"

fun items :: "json \<Rightarrow> json list" where
  "items (JArr xs) = xs"
| "items _ = []"

fun field :: "json \<Rightarrow> string \<Rightarrow> json option" where
  "field (JObj kvs) k = map_of kvs k"
| "field _ _ = None"

definition num_at :: "json \<Rightarrow> string \<Rightarrow> num_field" where
  "num_at j k = (case field j k of None \<Rightarrow> None | Some v \<Rightarrow> num_of_json v)"

definition type_of_text :: "json option \<Rightarrow> PricingType" where
  "type_of_text v = (if v = Some (JStr ''per-token'') then Per_token else if v = Some (JStr ''per-call'') then Per_call
     else if v = Some (JStr ''per-unit'') then Per_unit else if v = Some (JStr ''tiered'') then Tiered else Composite)"

definition tier_of_json :: "json \<Rightarrow> tier" where
  "tier_of_json j = \<lparr>tr_from = num_at j ''from'', tr_to = map_option num_of_json (field j ''to''), tr_rate = num_at j ''rate''\<rparr>"

definition rate_of_json :: "json \<Rightarrow> pricing_rate" where
  "rate_of_json j = \<lparr>pr_type = type_of_text (field j ''type''), pr_rate = num_at j ''rate'',
     pr_unit = (case field j ''unit'' of Some (JStr u) \<Rightarrow> Some u | _ \<Rightarrow> None),
     pr_tiers = map_option (\<lambda>v. map tier_of_json (items v)) (field j ''tiers'')\<rparr>"

definition parse_rates :: "json \<Rightarrow> pricing_rate list" where
  "parse_rates j = map rate_of_json (items j)"

section \<open>The repository\<close>

definition rowToPricingModel :: "pricing_model_row \<Rightarrow> pricing_model" where
  "rowToPricingModel row = \<lparr>pm_providerId = row_provider_id row, pm_endpoint = row_endpoint row,
     pm_pricingType = row_pricing_type row, pm_rates = parse_rates (row_rates row), pm_currency = row_currency row,
     pm_effectiveFrom = row_effective_from row, pm_effectiveUntil = row_effective_until row\<rparr>"

definition active :: "int \<Rightarrow> pricing_model_row \<Rightarrow> bool" where
  "active now row \<longleftrightarrow> row_effective_from row \<le> now
     \<and> (case row_effective_until row of None \<Rightarrow> True | Some u \<Rightarrow> now < u)"

text \<open>\<open>ORDER BY effective_from DESC LIMIT 1\<close>; among equal dates the first row.\<close>

fun latest :: "pricing_model_row list \<Rightarrow> pricing_model_row option" where
  "latest [] = None"
| "latest (r # rs) = (case latest rs of
     None \<Rightarrow> Some r
   | Some r' \<Rightarrow> if row_effective_from r < row_effective_from r' then Some r' else Some r)"

definition select_active :: "int \<Rightarrow> string \<Rightarrow> string option \<Rightarrow> pricing_db \<Rightarrow> pricing_model_row option" where
  "select_active now providerId endpoint db =
     latest (filter (\<lambda>r. row_provider_id r = providerId \<and> row_endpoint r = endpoint \<and> active now r) (pricing_models db))"

text \<open>An endpoint is used when it is given and not empty.\<close>

fun given :: "string option \<Rightarrow> bool" where
  "given None = False"
| "given (Some e) = (e \<noteq> [])"

definition repo_getPricing :: "int \<Rightarrow> string \<Rightarrow> string option \<Rightarrow> pricing_db \<Rightarrow> pricing_model option" where
  "repo_getPricing now providerId endpoint db =
     (case (if given endpoint then select_active now providerId endpoint db else None) of
        Some specific \<Rightarrow> Some (rowToPricingModel specific)
      | None \<Rightarrow> map_option rowToPricingModel (select_active now providerId None db))"

definition close_row :: "int \<Rightarrow> pricing_model \<Rightarrow> pricing_model_row \<Rightarrow> pricing_model_row" where
  "close_row now model r =
     (if row_provider_id r = pm_providerId model
         \<and> row_endpoint r = (if given (pm_endpoint model) then pm_endpoint model else None)
         \<and> row_effective_until r = None
      then r\<lparr>row_effective_until := Some now, row_updated_at := now\<rparr> else r)"

definition row_of_model :: "int \<Rightarrow> pricing_model \<Rightarrow> pricing_model_row" where
  "row_of_model now model = \<lparr>row_provider_id = pm_providerId model, row_endpoint = pm_endpoint model,
     row_pricing_type = pm_pricingType model, row_currency = pm_currency model, row_rates = stringify_rates (pm_rates model),
     row_effective_from = pm_effectiveFrom model, row_effective_until = pm_effectiveUntil model,
     row_created_at = now, row_updated_at = now\<rparr>"

definition upsertPricing :: "int \<Rightarrow> pricing_model \<Rightarrow> pricing_db \<Rightarrow> pricing_db" where
  "upsertPricing now model db =
     (let rows = (if repo_getPricing now (pm_providerId model) (pm_endpoint model) db \<noteq> None
                  then map (close_row now model) (pricing_models db) else pricing_models db)
      in db\<lparr>pricing_models := rows @ [row_of_model now model]\<rparr>)"

definition addHistory ::
  "int \<Rightarrow> string \<Rightarrow> string option \<Rightarrow> pricing_rate list option \<Rightarrow> pricing_rate list \<Rightarrow> string \<Rightarrow> string \<Rightarrow> pricing_db \<Rightarrow> pricing_db" where
  "addHistory now providerId endpoint oldRates newRates changedBy reason db =
     db\<lparr>pricing_history := pricing_history db @ [\<lparr>hist_provider_id = providerId, hist_endpoint = endpoint,
        hist_old_rates = map_option stringify_rates oldRates, hist_new_rates = stringify_rates newRates, hist_changed_by = changedBy,
        hist_changed_at = now, hist_reason = reason\<rparr>]\<rparr>"

text \<open>\<open>ORDER BY changed_at DESC LIMIT\<close>; equal dates stay in insertion order.\<close>

definition repo_getHistory :: "string \<Rightarrow> nat \<Rightarrow> pricing_db \<Rightarrow> pricing_history_row list" where
  "repo_getHistory providerId max_rows db =
     take max_rows (sort_key (\<lambda>h. - hist_changed_at h) (filter (\<lambda>h. hist_provider_id h = providerId) (pricing_history db)))"

section \<open>The oracle\<close>

record pricing_oracle =
  po_db :: pricing_db
  po_cache :: "(string, pricing_model \<times> int) jmap"

definition po_init :: pricing_oracle where
  "po_init = \<lparr>po_db = \<lparr>pricing_models = [], pricing_history = []\<rparr>, po_cache = []\<rparr>"

definition PRICING_CACHE_TTL_MS :: int where
  "PRICING_CACHE_TTL_MS = 60 * 60 * 1000"

definition pricing_key :: "string \<Rightarrow> string option \<Rightarrow> string" where
  "pricing_key providerId endpoint = providerId @ '':'' @ (case endpoint of None \<Rightarrow> [] | Some e \<Rightarrow> e)"

definition getPricing :: "int \<Rightarrow> string \<Rightarrow> string option \<Rightarrow> (pricing_oracle, pricing_model) act" where
  "getPricing now providerId endpoint po =
     (let cacheKey = pricing_key providerId endpoint;
          fetch = (case repo_getPricing now providerId endpoint (po_db po) of
             None \<Rightarrow> (po, Inl (NotFound (''No pricing model found for provider: '' @ providerId
                       @ (if given endpoint then '' ('' @ the endpoint @ '')'' else []))))
           | Some model \<Rightarrow> (po\<lparr>po_cache := jm_set (po_cache po) cacheKey (model, now + PRICING_CACHE_TTL_MS)\<rparr>, Inr model))
      in case jm_get (po_cache po) cacheKey of
           Some (model, expiry) \<Rightarrow> if now < expiry then (po, Inr model) else fetch
         | None \<Rightarrow> fetch)"

definition breakdown_of :: "usage_metrics \<Rightarrow> string \<Rightarrow> jsnum option" where
  "breakdown_of usage k = (case um_breakdown usage of None \<Rightarrow> None
     | Some b \<Rightarrow> (case jm_get b k of Some v \<Rightarrow> if jtruthy v then Some v else None | None \<Rightarrow> None))"

definition token_part :: "usage_metrics \<Rightarrow> pricing_rate \<Rightarrow> jsnum option" where
  "token_part usage rate =
     (if pr_unit rate = Some ''input_token'' then breakdown_of usage ''input''
      else if pr_unit rate = Some ''output_token'' then breakdown_of usage ''output''
      else if pr_unit rate = Some ''cache_read_token'' then breakdown_of usage ''cacheRead''
      else if pr_unit rate = Some ''cache_write_token'' then breakdown_of usage ''cacheWrite''
      else None)"

definition calculateTokenCost :: "usage_metrics \<Rightarrow> pricing_model \<Rightarrow> jsnum" where
  "calculateTokenCost usage pricing =
     foldl (\<lambda>cost rate. case token_part usage rate of
         None \<Rightarrow> cost
       | Some n \<Rightarrow> jadd cost (jmul (jdiv n (Fin 1000)) (num_val (pr_rate rate)))) (Fin 0) (pm_rates pricing)"

text \<open>\<open>pricing.rates[0]?.rate || 0\<close>\<close>

definition first_rate :: "pricing_model \<Rightarrow> jsnum" where
  "first_rate pricing = (case pm_rates pricing of [] \<Rightarrow> Fin 0 | r # _ \<Rightarrow> if jtruthy (num_val (pr_rate r)) then num_val (pr_rate r) else Fin 0)"

definition calculatePerCallCost :: "usage_metrics \<Rightarrow> pricing_model \<Rightarrow> jsnum" where
  "calculatePerCallCost usage pricing = first_rate pricing"

definition calculatePerUnitCost :: "usage_metrics \<Rightarrow> pricing_model \<Rightarrow> jsnum" where
  "calculatePerUnitCost usage pricing = jmul (um_units usage) (first_rate pricing)"

definition tier_size :: "tier \<Rightarrow> jsnum" where
  "tier_size t = (case tr_to t of
     Some hi \<Rightarrow> if jtruthy (num_val hi) then jsub (num_val hi) (num_val (tr_from t)) else PInf | None \<Rightarrow> PInf)"

fun tier_loop :: "tier list \<Rightarrow> jsnum \<Rightarrow> jsnum \<Rightarrow> jsnum" where
  "tier_loop [] cost remainingUnits = cost"
| "tier_loop (t # ts) cost remainingUnits =
     (if jle remainingUnits (Fin 0) then cost
      else let unitsInTier = jmin remainingUnits (tier_size t)
           in tier_loop ts (jadd cost (jmul unitsInTier (num_val (tr_rate t)))) (jsub remainingUnits unitsInTier))"

definition calculateTieredCost :: "usage_metrics \<Rightarrow> pricing_model \<Rightarrow> jsnum res" where
  "calculateTieredCost usage pricing =
     (case pm_rates pricing of
        r # _ \<Rightarrow> (case pr_tiers r of
            Some tiers \<Rightarrow> Inr (tier_loop tiers (Fin 0) (um_units usage))
          | None \<Rightarrow> Inl (Error ''Tiered pricing requires tiers configuration''))
      | [] \<Rightarrow> Inl (Error ''Tiered pricing requires tiers configuration''))"

definition calculateCompositeCost :: "usage_metrics \<Rightarrow> pricing_model \<Rightarrow> jsnum" where
  "calculateCompositeCost usage pricing =
     foldl (\<lambda>cost rate. case pr_unit rate of
         None \<Rightarrow> cost
       | Some u \<Rightarrow> if u = [] then cost else
           (case breakdown_of usage u of None \<Rightarrow> cost | Some n \<Rightarrow> jadd cost (jmul n (num_val (pr_rate rate))))) (Fin 0) (pm_rates pricing)"

definition calculateCostUSD ::
  "int \<Rightarrow> usage_metrics \<Rightarrow> string \<Rightarrow> string option \<Rightarrow> (pricing_oracle, jsnum) act" where
  "calculateCostUSD now usage providerId endpoint =
     sbind (getPricing now providerId endpoint) (\<lambda>pricing.
       slift (case pm_pricingType pricing of
           Per_token \<Rightarrow> Inr (calculateTokenCost usage pricing)
         | Per_call \<Rightarrow> Inr (calculatePerCallCost usage pricing)
         | Per_unit \<Rightarrow> Inr (calculatePerUnitCost usage pricing)
         | Tiered \<Rightarrow> calculateTieredCost usage pricing
         | Composite \<Rightarrow> Inr (calculateCompositeCost usage pricing)))"

fun validate_rates :: "pricing_rate list \<Rightarrow> unit res" where
  "validate_rates [] = Inr ()"
| "validate_rates (r # rs) =
     (if jle (num_val (pr_rate r)) (Fin 0) then Inl (Error ''Rate must be greater than 0'')
      else if pr_type r = Tiered \<and> pr_tiers r = None then Inl (Error ''Tiered pricing requires tiers configuration'')
      else validate_rates rs)"

definition validatePricingModel :: "int \<Rightarrow> pricing_model \<Rightarrow> unit res" where
  "validatePricingModel now model =
     (if pm_rates model = [] then Inl (Error ''Pricing model must have at least one rate'')
      else bind (validate_rates (pm_rates model)) (\<lambda>_.
        if pm_effectiveFrom model > (case pm_effectiveUntil model of None \<Rightarrow> now | Some u \<Rightarrow> u)
        then Inl (Error ''effectiveFrom must be before effectiveUntil'') else Inr ()))"

definition updatePricing :: "int \<Rightarrow> pricing_model \<Rightarrow> string \<Rightarrow> string \<Rightarrow> (pricing_oracle, unit) act" where
  "updatePricing now model changedBy reason po =
     (case validatePricingModel now model of
        Inl e \<Rightarrow> (po, Inl e)
      | Inr _ \<Rightarrow>
          let oldModel = repo_getPricing now (pm_providerId model) (pm_endpoint model) (po_db po);
              db = addHistory now (pm_providerId model) (pm_endpoint model) (map_option pm_rates oldModel)
                     (pm_rates model) changedBy reason (upsertPricing now model (po_db po))
          in (po\<lparr>po_db := db, po_cache := jm_delete (po_cache po) (pricing_key (pm_providerId model) (pm_endpoint model))\<rparr>, Inr ()))"

definition getPricingHistory :: "string \<Rightarrow> pricing_oracle \<Rightarrow> pricing_history_row list" where
  "getPricingHistory providerId po = repo_getHistory providerId 50 (po_db po)"

section \<open>What JSON keeps of a model\<close>

lemma num_val_simps [simp]: "num_val (Some x) = x" "num_val None = Fin 0"
  by (simp_all add: num_val_def)

definition kept_num :: "num_field \<Rightarrow> num_field" where
  "kept_num v = (case v of Some (Fin a) \<Rightarrow> Some (Fin a) | _ \<Rightarrow> None)"

definition kept_tier :: "tier \<Rightarrow> tier" where
  "kept_tier t = \<lparr>tr_from = kept_num (tr_from t), tr_to = map_option kept_num (tr_to t), tr_rate = kept_num (tr_rate t)\<rparr>"

definition kept_rate :: "pricing_rate \<Rightarrow> pricing_rate" where
  "kept_rate r = r\<lparr>pr_rate := kept_num (pr_rate r), pr_tiers := map_option (map kept_tier) (pr_tiers r)\<rparr>"

definition kept_model :: "pricing_model \<Rightarrow> pricing_model" where
  "kept_model m = m\<lparr>pm_rates := map kept_rate (pm_rates m)\<rparr>"

lemma num_json [simp]: "num_of_json (json_num v) = kept_num v"
  by (cases v rule: json_num.cases) (simp_all add: kept_num_def)

lemma tier_json [simp]: "tier_of_json (json_tier t) = kept_tier t"
  by (cases "tr_to t") (simp_all add: tier_of_json_def json_tier_def num_at_def kept_tier_def)

lemma type_json [simp]: "type_of_text (Some (JStr (type_text t))) = t"
  by (cases t) (simp_all add: type_of_text_def)

lemma rate_json [simp]: "rate_of_json (json_rate r) = kept_rate r"
  by (cases r; cases "pr_unit r"; cases "pr_tiers r")
    (simp_all add: rate_of_json_def json_rate_def num_at_def kept_rate_def o_def)

text \<open>Writing rates as JSON and reading them back keeps all of them but the numbers that are not finite.\<close>

lemma rates_roundtrip: "parse_rates (stringify_rates rs) = map kept_rate rs"
  by (simp add: parse_rates_def stringify_rates_def)

lemma row_roundtrip: "rowToPricingModel (row_of_model now m) = kept_model m"
  by (simp add: rowToPricingModel_def row_of_model_def kept_model_def rates_roundtrip)

fun finite_num :: "num_field \<Rightarrow> bool" where
  "finite_num (Some (Fin a)) = True"
| "finite_num _ = False"

definition finite_rate :: "pricing_rate \<Rightarrow> bool" where
  "finite_rate r \<longleftrightarrow> finite_num (pr_rate r) \<and> (case pr_tiers r of None \<Rightarrow> True | Some ts \<Rightarrow>
     (\<forall>t \<in> set ts. finite_num (tr_from t) \<and> finite_num (tr_rate t) \<and> (case tr_to t of None \<Rightarrow> True | Some v \<Rightarrow> finite_num v)))"

lemma kept_num_finite: "finite_num v \<Longrightarrow> kept_num v = v"
  by (cases v rule: finite_num.cases) (simp_all add: kept_num_def)

lemma kept_tier_finite:
  "finite_num (tr_from t) \<Longrightarrow> finite_num (tr_rate t) \<Longrightarrow> (case tr_to t of None \<Rightarrow> True | Some v \<Rightarrow> finite_num v) \<Longrightarrow> kept_tier t = t"
  by (cases "tr_to t") (simp_all add: kept_tier_def kept_num_finite)

lemma kept_rate_finite:
  assumes "finite_rate r"
  shows "kept_rate r = r"
proof -
  have "map_option (map kept_tier) (pr_tiers r) = pr_tiers r"
    using assms by (cases "pr_tiers r")
      (auto simp: finite_rate_def intro!: map_idI kept_tier_finite)
  then show ?thesis using assms by (simp add: kept_rate_def finite_rate_def kept_num_finite)
qed

lemma kept_model_finite: "\<forall>r \<in> set (pm_rates m). finite_rate r \<Longrightarrow> kept_model m = m"
  by (simp add: kept_model_def kept_rate_finite map_idI)

section \<open>Updates take effect\<close>

text \<open>The prices in force, as the updates say: the last model of every provider and endpoint.  Models
  that take effect at once (\<open>seedProviderPricing\<close> makes only those) and stay open; provider ids
  have no colon, and an endpoint is not the empty text.\<close>

type_synonym price_key = "string \<times> string option"

definition good_key :: "price_key \<Rightarrow> bool" where
  "good_key k \<longleftrightarrow> CHR '':'' \<notin> set (fst k) \<and> snd k \<noteq> Some []"

abbreviation model_key :: "pricing_model \<Rightarrow> price_key" where
  "model_key m \<equiv> (pm_providerId m, pm_endpoint m)"

inductive pricing_run :: "pricing_oracle \<Rightarrow> int \<Rightarrow> (price_key \<rightharpoonup> pricing_model) \<Rightarrow> bool" where
  start: "pricing_run po_init t Map.empty"
| update: "pricing_run po t cur \<Longrightarrow> t \<le> now \<Longrightarrow> good_key (model_key m) \<Longrightarrow> pm_effectiveFrom m = now \<Longrightarrow>
    pm_effectiveUntil m = None \<Longrightarrow> updatePricing now m by_whom reason po = (po', Inr ()) \<Longrightarrow>
    pricing_run po' now (cur(model_key m \<mapsto> m))"
| refused: "pricing_run po t cur \<Longrightarrow> t \<le> now \<Longrightarrow> updatePricing now m by_whom reason po = (po', Inl e) \<Longrightarrow>
    pricing_run po' now cur"
| read: "pricing_run po t cur \<Longrightarrow> t \<le> now \<Longrightarrow> good_key (p, e) \<Longrightarrow> getPricing now p e po = (po', r) \<Longrightarrow>
    pricing_run po' now cur"

definition open_at :: "price_key \<Rightarrow> pricing_model_row \<Rightarrow> bool" where
  "open_at k r \<longleftrightarrow> k = (row_provider_id r, row_endpoint r) \<and> row_effective_until r = None"

definition open_rows :: "pricing_db \<Rightarrow> price_key \<Rightarrow> pricing_model_row list" where
  "open_rows db k = filter (open_at k) (pricing_models db)"

definition pricing_inv :: "pricing_oracle \<Rightarrow> int \<Rightarrow> (price_key \<rightharpoonup> pricing_model) \<Rightarrow> bool" where
  "pricing_inv po t cur \<longleftrightarrow>
     (\<forall>k. map rowToPricingModel (open_rows (po_db po) k) = (case cur k of None \<Rightarrow> [] | Some m \<Rightarrow> [m]))
     \<and> (\<forall>r \<in> set (pricing_models (po_db po)). row_effective_from r \<le> t \<and> row_endpoint r \<noteq> Some []
          \<and> (case row_effective_until r of None \<Rightarrow> True | Some u \<Rightarrow> u \<le> t))
     \<and> (\<forall>k m x e. good_key k \<longrightarrow> cur k = Some m \<longrightarrow> jm_get (po_cache po) (pricing_key (fst k) (snd k)) = Some (x, e) \<longrightarrow> x = m)"

lemma split_at_first:
  "c \<notin> set xs \<Longrightarrow> c \<notin> set ys \<Longrightarrow> xs @ c # us = ys @ c # vs \<Longrightarrow> xs = ys \<and> us = vs"
proof (induction xs arbitrary: ys)
  case Nil
  then show ?case by (cases ys) auto
next
  case (Cons x xs)
  then show ?case by (cases ys) auto
qed

lemma pricing_key_inj:
  assumes "good_key (p, e)" "good_key (p', e')" "pricing_key p e = pricing_key p' e'"
  shows "p = p' \<and> e = e'"
proof -
  let ?x = "\<lambda>e :: string option. case e of None \<Rightarrow> [] | Some t \<Rightarrow> t"
  have "p = p' \<and> ?x e = ?x e'"
    using assms by (intro split_at_first [of "CHR '':''"]) (simp_all add: good_key_def pricing_key_def)
  then show ?thesis using assms(1,2) by (cases e; cases e') (simp_all add: good_key_def)
qed

lemma select_active_open:
  assumes "\<forall>r \<in> set (pricing_models db). row_effective_from r \<le> t \<and> (case row_effective_until r of None \<Rightarrow> True | Some u \<Rightarrow> u \<le> t)"
    "t \<le> now"
  shows "select_active now p e db = latest (open_rows db (p, e))"
proof -
  have "filter (\<lambda>r. row_provider_id r = p \<and> row_endpoint r = e \<and> active now r) (pricing_models db) = open_rows db (p, e)"
    unfolding open_rows_def using assms
    by (intro filter_cong refl) (fastforce simp: active_def open_at_def split: option.splits)
  then show ?thesis by (simp add: select_active_def)
qed

lemma select_active_cur:
  assumes "pricing_inv po t cur" "t \<le> now"
  shows "map_option rowToPricingModel (select_active now p e (po_db po)) = cur (p, e)"
proof -
  have "select_active now p e (po_db po) = latest (open_rows (po_db po) (p, e))"
    by (rule select_active_open [OF _ assms(2)]) (use assms(1) in \<open>auto simp: pricing_inv_def\<close>)
  moreover have "map rowToPricingModel (open_rows (po_db po) (p, e)) = (case cur (p, e) of None \<Rightarrow> [] | Some m \<Rightarrow> [m])"
    using assms(1) by (simp add: pricing_inv_def)
  ultimately show ?thesis by (auto split: option.splits)
qed

lemma repo_getPricing_cur:
  assumes "pricing_inv po t cur" "t \<le> now" "cur (p, e) = Some m" "good_key (p, e)"
  shows "repo_getPricing now p e (po_db po) = Some m"
  using select_active_cur [OF assms(1,2), of p e] assms(3,4)
  by (cases e) (auto simp: repo_getPricing_def good_key_def split: option.splits)

lemma getPricing_cur:
  assumes "pricing_inv po t cur" "t \<le> now" "cur (p, e) = Some m" "good_key (p, e)"
  shows "snd (getPricing now p e po) = Inr m"
proof -
  have "x = m" if "jm_get (po_cache po) (pricing_key p e) = Some (x, y)" for x y
    using assms(1,3,4) that unfolding pricing_inv_def by fastforce
  then show ?thesis
    using repo_getPricing_cur [OF assms] by (auto simp: getPricing_def Let_def split: option.split)
qed

text \<open>What an update does to the open rows: those of its key are closed, and one is added.\<close>

lemma open_at_close:
  assumes "good_key (model_key m)"
  shows "open_at k (close_row now m r) \<longleftrightarrow> k \<noteq> model_key m \<and> open_at k r"
    "open_at k (close_row now m r) \<Longrightarrow> close_row now m r = r"
proof -
  have "(if given (pm_endpoint m) then pm_endpoint m else None) = pm_endpoint m"
    using assms by (cases "pm_endpoint m") (auto simp: good_key_def)
  then show "open_at k (close_row now m r) \<longleftrightarrow> k \<noteq> model_key m \<and> open_at k r"
    "open_at k (close_row now m r) \<Longrightarrow> close_row now m r = r"
    by (auto simp: close_row_def open_at_def split: if_splits)
qed

lemma open_after_close:
  assumes "good_key (model_key m)"
  shows "filter (open_at k) (map (close_row now m) rows) = (if k = model_key m then [] else filter (open_at k) rows)"
  by (induction rows) (use open_at_close [OF assms] in auto)

lemma updatePricing_ok:
  assumes "updatePricing now m who why po = (po', Inr ())"
  shows "pricing_models (po_db po') = pricing_models (upsertPricing now m (po_db po))"
    "po_cache po' = jm_delete (po_cache po) (pricing_key (pm_providerId m) (pm_endpoint m))"
  using assms by (auto simp: updatePricing_def addHistory_def Let_def split: sum.splits)

lemma open_after_update:
  assumes "pricing_inv po t cur" "t \<le> now" "good_key (model_key m)" "pm_effectiveUntil m = None"
    "updatePricing now m who why po = (po', Inr ())"
  shows "open_rows (po_db po') k = (if k = model_key m then [row_of_model now m] else open_rows (po_db po) k)"
proof -
  have inv: "map rowToPricingModel (open_rows (po_db po) (model_key m)) = (case cur (model_key m) of None \<Rightarrow> [] | Some m \<Rightarrow> [m])"
    using assms(1) by (simp add: pricing_inv_def)
  have new: "open_at k (row_of_model now m) \<longleftrightarrow> k = model_key m" for k
    using assms(4) by (simp add: row_of_model_def open_at_def)
  show ?thesis
  proof (cases "repo_getPricing now (pm_providerId m) (pm_endpoint m) (po_db po) = None")
    case True
    then have "cur (model_key m) = None"
      using repo_getPricing_cur [OF assms(1,2) _ assms(3)] by (cases "cur (model_key m)") auto
    then have "open_rows (po_db po) (model_key m) = []" using inv by simp
    then show ?thesis
      using updatePricing_ok(1) [OF assms(5)] True new by (auto simp: open_rows_def upsertPricing_def)
  next
    case False
    then show ?thesis
      using updatePricing_ok(1) [OF assms(5)] new open_after_close [OF assms(3)]
      by (auto simp: open_rows_def upsertPricing_def)
  qed
qed

lemma pricing_inv_update:
  assumes "pricing_inv po t cur" "t \<le> now" "good_key (model_key m)" "pm_effectiveFrom m = now"
    "pm_effectiveUntil m = None" "updatePricing now m who why po = (po', Inr ())"
  shows "pricing_inv po' now (cur(model_key m \<mapsto> kept_model m))"
proof -
  note m = row_roundtrip [of now m]
  have opn0: "map rowToPricingModel (open_rows (po_db po) k) = (case cur k of None \<Rightarrow> [] | Some m \<Rightarrow> [m])" for k
    using assms(1) unfolding pricing_inv_def by blast
  have opn: "map rowToPricingModel (open_rows (po_db po') k) = (case (cur(model_key m \<mapsto> kept_model m)) k of None \<Rightarrow> [] | Some m \<Rightarrow> [m])" for k
    using opn0 [of k] m open_after_update [OF assms(1,2,3,5,6), of k] by simp
  have old: "row_effective_from r \<le> now \<and> row_endpoint r \<noteq> Some [] \<and> (case row_effective_until r of None \<Rightarrow> True | Some u \<Rightarrow> u \<le> now)"
    if "r \<in> set (pricing_models (po_db po))" for r
    using assms(1,2) that unfolding pricing_inv_def by (fastforce split: option.splits)
  have rows: "row_effective_from r \<le> now \<and> row_endpoint r \<noteq> Some [] \<and> (case row_effective_until r of None \<Rightarrow> True | Some u \<Rightarrow> u \<le> now)"
    if "r \<in> set (pricing_models (po_db po'))" for r
    using that old assms(3,4,5) unfolding updatePricing_ok(1) [OF assms(6)]
    by (auto simp: upsertPricing_def Let_def close_row_def row_of_model_def good_key_def split: if_splits)
  have cache: "x = m'" if "good_key k" "(cur(model_key m \<mapsto> kept_model m)) k = Some m'"
    "jm_get (po_cache po') (pricing_key (fst k) (snd k)) = Some (x, e)" for k m' x e
  proof -
    have "k \<noteq> model_key m" using that(3) updatePricing_ok(2) [OF assms(6)] by auto
    moreover have "jm_get (po_cache po) (pricing_key (fst k) (snd k)) = Some (x, e)"
      using that(3) updatePricing_ok(2) [OF assms(6)] by (auto split: if_splits)
    ultimately show ?thesis using assms(1) that(1,2) unfolding pricing_inv_def by fastforce
  qed
  from opn rows cache show ?thesis unfolding pricing_inv_def by blast
qed

lemma pricing_inv_read:
  assumes "pricing_inv po t cur" "t \<le> now" "good_key (p, e)" "getPricing now p e po = (po', r)"
  shows "pricing_inv po' now cur"
proof -
  have db: "po_db po' = po_db po"
    using assms(4) by (auto simp: getPricing_def Let_def split: option.splits if_splits prod.splits)
  have later: "row_effective_from r \<le> now \<and> row_endpoint r \<noteq> Some [] \<and> (case row_effective_until r of None \<Rightarrow> True | Some u \<Rightarrow> u \<le> now)"
    if "r \<in> set (pricing_models (po_db po))" for r
    using assms(1,2) that unfolding pricing_inv_def by (fastforce split: option.splits)
  have cache: "x = m" if k: "good_key k" "cur k = Some m" and g: "jm_get (po_cache po') (pricing_key (fst k) (snd k)) = Some (x, y)" for k m x y
  proof (cases "jm_get (po_cache po) (pricing_key (fst k) (snd k)) = Some (x, y)")
    case True
    then show ?thesis using assms(1) k unfolding pricing_inv_def by blast
  next
    case False
    then obtain m' where m': "repo_getPricing now p e (po_db po) = Some m'" "x = m'"
      and eq: "pricing_key p e = pricing_key (fst k) (snd k)"
      using g assms(4) by (auto simp: getPricing_def Let_def split: option.splits if_splits prod.splits)
    have "(p, e) = k" using pricing_key_inj [OF assms(3) _ eq] k(1) by (simp add: prod_eq_iff)
    then show ?thesis using repo_getPricing_cur [OF assms(1,2)] k m' by fastforce
  qed
  show ?thesis using assms(1) later cache unfolding pricing_inv_def db by blast
qed

lemma pricing_inv_later: "pricing_inv po t cur \<Longrightarrow> t \<le> now \<Longrightarrow> pricing_inv po now cur"
  unfolding pricing_inv_def by (fastforce split: option.splits)

lemma pricing_run_inv: "pricing_run po t cur \<Longrightarrow> pricing_inv po t (\<lambda>k. map_option kept_model (cur k))"
proof (induction rule: pricing_run.induct)
  case (start t)
  then show ?case by (simp add: pricing_inv_def po_init_def open_rows_def)
next
  case (update po t cur now m by_whom reason po')
  have "(\<lambda>k. map_option kept_model ((cur(model_key m \<mapsto> m)) k)) = (\<lambda>k. map_option kept_model (cur k))(model_key m \<mapsto> kept_model m)"
    by (rule ext) simp
  with pricing_inv_update [OF update.IH update.hyps(2-6)] show ?case by simp
next
  case (refused po t cur now m by_whom reason po' e)
  have "po' = po" using refused.hyps by (auto simp: updatePricing_def Let_def split: sum.splits)
  with refused show ?case by (auto intro: pricing_inv_later)
next
  case (read po t cur now p e po' r)
  then show ?case by (auto intro: pricing_inv_read)
qed

text \<open>C36 A price update takes effect at once and until the next one: in every run of refused updates, of
  updates whose model is effective from the moment it is given and has no end, and of reads, with a clock
  that does not go back, reading the price of a provider's endpoint returns the model of its last
  update, whether it comes from the cache or from the table.  The rates are those that JSON keeps: a
  number that is not finite comes back as \<open>null\<close>; a model with finite numbers comes back as it was given.\<close>

theorem pricing_is_current:
  assumes "pricing_run po t cur" "t \<le> now" "good_key (p, e)" "cur (p, e) = Some m"
  shows "snd (getPricing now p e po) = Inr (m\<lparr>pm_rates := map kept_rate (pm_rates m)\<rparr>)
    \<and> ((\<forall>r \<in> set (pm_rates m). finite_rate r) \<longrightarrow> snd (getPricing now p e po) = Inr m)"
proof -
  have "snd (getPricing now p e po) = Inr (kept_model m)"
    using pricing_run_inv [OF assms(1)] assms(2) _ assms(3) by (rule getPricing_cur) (simp add: assms(4))
  then show ?thesis by (auto simp: kept_model_def kept_model_finite [unfolded kept_model_def])
qed

definition sample_model :: pricing_model where
  "sample_model = \<lparr>pm_providerId = ''claude'', pm_endpoint = Some ''/v1/messages'', pm_pricingType = Per_unit,
     pm_rates = [\<lparr>pr_type = Per_unit, pr_rate = Some (Fin 2), pr_unit = None, pr_tiers = None\<rparr>], pm_currency = ''USD'',
     pm_effectiveFrom = 100, pm_effectiveUntil = None\<rparr>"

theorem pricing_is_current_witness:
  "snd (getPricing 200 ''claude'' (Some ''/v1/messages'') (fst (updatePricing 100 sample_model ''system'' ''seed'' po_init))) = Inr sample_model"
proof -
  have k: "good_key (''claude'', Some ''/v1/messages'')" by (simp add: good_key_def)
  have "updatePricing 100 sample_model ''system'' ''seed'' po_init
      = (fst (updatePricing 100 sample_model ''system'' ''seed'' po_init), Inr ())" by code_simp
  from pricing_run.update [OF pricing_run.start [of 0] _ _ _ _ this]
  have "pricing_run (fst (updatePricing 100 sample_model ''system'' ''seed'' po_init)) 100
      [(''claude'', Some ''/v1/messages'') \<mapsto> sample_model]"
    using k by (simp add: sample_model_def)
  note current = pricing_is_current [OF this _ k, of 200 sample_model, THEN conjunct2, rule_format]
  show ?thesis by (rule current) (simp_all add: finite_rate_def sample_model_def)
qed

text \<open>Found: validation asks whether the rate is at most 0, which NaN is not, so a model with a rate of NaN
  is stored; it is read back with \<open>null\<close> for a rate, and every use of it costs nothing.\<close>

theorem nan_rate_is_free:
  "let model = sample_model\<lparr>pm_pricingType := Per_call,
         pm_rates := [\<lparr>pr_type = Per_call, pr_rate = Some NaN, pr_unit = None, pr_tiers = None\<rparr>]\<rparr>;
       po = updatePricing 100 model ''system'' ''seed'' po_init in
   snd po = Inr () \<and> snd (calculateCostUSD 200 usage ''claude'' (Some ''/v1/messages'') (fst po)) = Inr (Fin 0)"
  by (simp add: updatePricing_def validatePricingModel_def sample_model_def num_val_def Let_def calculateCostUSD_def sbind_def
      getPricing_def po_init_def repo_getPricing_def select_active_def upsertPricing_def addHistory_def row_of_model_def
      active_def rowToPricingModel_def rates_roundtrip kept_rate_def kept_num_def calculatePerCallCost_def first_rate_def jtruthy_def)

end
