(* ===== verification/Providers.thy ===== *)
theory Providers
  imports Pricing ClaudePricing Json Config JsBounds
begin

text \<open>
  \<open>src/src/providers/\<close>: the provider interface and its base class (\<open>core/\<close>), the Claude provider
  (\<open>claude/\<close>) and the registry that seeds the pricing oracle (\<open>registry/\<close>).

  The Anthropic SDK is a parameter: a function from the parameters of \<open>messages.create\<close> to a
  message or what it threw.  \<open>String(v)\<close> of a JSON value that is not a text is the parameter
  \<open>text_of\<close> of the token estimate.
\<close>

section \<open>The interface\<close>

record provider_config =
  pc_apiKey :: "string option"
  pc_baseUrl :: "string option"
  pc_timeout :: "jsnum option"
  pc_retries :: "jsnum option"

record provider_request =
  pq_endpoint :: string
  pq_method :: string
  pq_headers :: "(string, string) jmap option"
  pq_body :: "json option"
  pq_metadata :: "(string \<times> json) list option"

record provider_response =
  ps_status :: nat
  ps_headers :: "(string, string) jmap"
  ps_body :: json
  ps_usage :: usage_metrics
  ps_metadata :: "(string \<times> json) list option"

record validation_result =
  vr_valid :: bool
  vr_errors :: "string list option"

record cost_estimate =
  ce_minCostUSD :: jsnum
  ce_maxCostUSD :: jsnum
  ce_estimatedCostUSD :: jsnum
  ce_confidence :: jsnum
  ce_breakdown :: "(string, jsnum) jmap option"

datatype health_status = healthy | degraded | down

record provider_health =
  ph_status :: health_status
  ph_latencyMs :: "int option"
  ph_lastCheck :: int
  ph_message :: "string option"

record rate_limit_config =
  rl_requestsPerMinute :: "nat option"
  rl_requestsPerHour :: "nat option"
  rl_requestsPerDay :: "nat option"
  rl_concurrentRequests :: "nat option"

section \<open>The base class\<close>

definition errors_result :: "string list \<Rightarrow> validation_result" where
  "errors_result errors = \<lparr>vr_valid = (errors = []), vr_errors = (if errors = [] then None else Some errors)\<rparr>"

definition base_validateRequest :: "provider_request \<Rightarrow> validation_result" where
  "base_validateRequest rq = errors_result
     ((if pq_endpoint rq = [] then [''endpoint is required''] else [])
      @ (if pq_method rq = [] then [''method is required''] else [])
      @ (if pq_method rq \<in> set [''GET'', ''POST'', ''PUT'', ''DELETE''] then []
         else [''method must be GET, POST, PUT, or DELETE'']))"

definition base_healthCheck :: "int \<Rightarrow> int \<Rightarrow> provider_health" where
  "base_healthCheck start now = \<lparr>ph_status = healthy, ph_latencyMs = Some (now - start), ph_lastCheck = now, ph_message = None\<rparr>"

definition provider_ensureInitialized :: "string \<Rightarrow> provider_config option \<Rightarrow> unit res" where
  "provider_ensureInitialized pid config =
     guard (config \<noteq> None) (Error (''Provider '' @ pid @ '' not initialized. Call initialize() first.''))"

definition sensitiveKeys :: "string list" where
  "sensitiveKeys = [''authorization'', ''api-key'', ''x-api-key'', ''x-auth-token'']"

definition sanitizeHeaders :: "(string, string) jmap \<Rightarrow> (string, string) jmap" where
  "sanitizeHeaders headers =
     fold (\<lambda>key m. if toLowerCase key \<in> set sensitiveKeys then jm_set m key ''[REDACTED]'' else m) (jm_keys headers) headers"

text \<open>What \<open>logRequest\<close> writes: the request with its headers sanitised and its body hidden, unless the
  caller asks for it as it is.\<close>

definition logRequest :: "bool \<Rightarrow> provider_request \<Rightarrow> provider_request" where
  "logRequest sanitize rq =
     (if sanitize
      then rq\<lparr>pq_headers := Some (sanitizeHeaders (case pq_headers rq of None \<Rightarrow> [] | Some h \<Rightarrow> h)),
              pq_body := (if truthy (pq_body rq) then Some (JStr ''[REDACTED]'') else None)\<rparr>
      else rq)"

definition calculateRetryDelay :: "nat \<Rightarrow> nat \<Rightarrow> nat" where
  "calculateRetryDelay baseDelay attempt = min (baseDelay * 2 ^ attempt) 10000"

text \<open>Something thrown: an object or not, with a code, an HTTP status, and a message when it is an \<open>Error\<close>.\<close>

record thrown =
  th_object :: bool
  th_code :: "string option"
  th_status :: "nat option"
  th_message :: "string option"

definition isRetryableError :: "thrown \<Rightarrow> bool" where
  "isRetryableError e =
     (th_object e \<and>
      (th_code e = Some ''ECONNRESET'' \<or> th_code e = Some ''ETIMEDOUT''
       \<or> (case th_status e of None \<Rightarrow> False | Some st \<Rightarrow> 500 \<le> st \<and> st < 600 \<or> st = 429)))"

section \<open>The Claude provider\<close>

definition CACHE_WRITE_MULTIPLIER :: jsnum where "CACHE_WRITE_MULTIPLIER = Fin (5 / 4)"
definition CACHE_READ_MULTIPLIER :: jsnum where "CACHE_READ_MULTIPLIER = fl (1 / 10)"

definition CLAUDE_ID :: string where "CLAUDE_ID = ''claude''"

definition perThousand :: "jsnum \<Rightarrow> jsnum" where
  "perThousand perMillion = jdiv perMillion (Fin 1000)"

definition token_rate :: "jsnum \<Rightarrow> string \<Rightarrow> pricing_rate" where
  "token_rate rate unit = \<lparr>pr_type = Per_token, pr_rate = Some rate, pr_unit = Some unit, pr_tiers = None\<rparr>"

definition getPricingConfig :: "string \<Rightarrow> pricing_model res" where
  "getPricingConfig model =
     (case jm_get CLAUDE_PRICING model of
        None \<Rightarrow> Inl TypeError
      | Some p \<Rightarrow> Inr \<lparr>pm_providerId = CLAUDE_ID, pm_endpoint = Some ''/v1/messages'', pm_pricingType = Per_token,
          pm_rates = [token_rate (perThousand (Fin (price_input p))) ''input_token'',
                      token_rate (perThousand (Fin (price_output p))) ''output_token'',
                      token_rate (perThousand (jmul (Fin (price_input p)) CACHE_WRITE_MULTIPLIER)) ''cache_creation_input_token'',
                      token_rate (perThousand (jmul (Fin (price_input p)) CACHE_READ_MULTIPLIER)) ''cache_read_input_token''],
          pm_currency = ''USD'', pm_effectiveFrom = 1735689600000, pm_effectiveUntil = None\<rparr>)"

text \<open>The client: the API key it was given, its timeout and its retries.\<close>

record anthropic_client =
  an_apiKey :: string
  an_timeout :: jsnum
  an_maxRetries :: jsnum

record claude_provider =
  cp_config :: "provider_config option"
  cp_anthropic :: "anthropic_client option"

definition cp_init :: claude_provider where
  "cp_init = \<lparr>cp_config = None, cp_anthropic = None\<rparr>"

definition claude_initialize :: "provider_config \<Rightarrow> claude_provider \<Rightarrow> claude_provider" where
  "claude_initialize config cp = cp\<lparr>cp_config := Some config, cp_anthropic := Some
     \<lparr>an_apiKey = (case pc_apiKey config of None \<Rightarrow> ''mock-key'' | Some k \<Rightarrow> if k = [] then ''mock-key'' else k),
      an_timeout = (case pc_timeout config of None \<Rightarrow> Fin 120000 | Some t \<Rightarrow> if jtruthy t then t else Fin 120000),
      an_maxRetries = (case pc_retries config of None \<Rightarrow> Fin 2 | Some t \<Rightarrow> if jtruthy t then t else Fin 2)\<rparr>\<rparr>"

fun is_array :: "json option \<Rightarrow> bool" where
  "is_array (Some (JArr _)) = True"
| "is_array _ = False"

text \<open>A model that is absent or a priced one.\<close>

fun model_ok :: "json option \<Rightarrow> bool" where
  "model_ok None = True"
| "model_ok (Some (JStr m)) = isClaudeModel m"
| "model_ok _ = False"

fun max_tokens_ok :: "json option \<Rightarrow> bool" where
  "max_tokens_ok None = True"
| "max_tokens_ok (Some (JNum (Fin a))) = (of_int \<lfloor>a\<rfloor> = a \<and> 0 < a)"
| "max_tokens_ok _ = False"

definition claude_validateRequest :: "provider_request \<Rightarrow> validation_result res" where
  "claude_validateRequest rq =
     (let baseValidation = base_validateRequest rq in
      if \<not> vr_valid baseValidation then Inr baseValidation
      else if \<not> truthy (pq_body rq) then Inr (errors_result [''request body is required''])
      else bind (jprop (pq_body rq) ''messages'') (\<lambda>messages.
           bind (jprop (pq_body rq) ''model'') (\<lambda>model.
           bind (jprop (pq_body rq) ''maxTokens'') (\<lambda>maxTokens.
             Inr (errors_result
               ((if \<not> truthy messages \<or> \<not> is_array messages \<or> messages = Some (JArr [])
                 then [''messages array is required and cannot be empty''] else [])
                @ (if model_ok model then [] else [''model must be one of: '' @ join '', '' CLAUDE_MODELS])
                @ (if max_tokens_ok maxTokens then [] else [''maxTokens must be a positive integer''])))))))"

record token_usage =
  tu_input_tokens :: nat
  tu_output_tokens :: nat
  tu_cache_creation :: "nat option"
  tu_cache_read :: "nat option"

record claude_message =
  cm_id :: string
  cm_type :: json
  cm_role :: json
  cm_content :: json
  cm_model :: string
  cm_stop_reason :: json
  cm_stop_sequence :: json
  cm_usage :: token_usage

definition tokenCostUSD :: "pricing_model \<Rightarrow> string \<Rightarrow> jsnum \<Rightarrow> jsnum" where
  "tokenCostUSD pricing unit tokens =
     (let rate = (case List.find (\<lambda>r. pr_unit r = Some unit) (pm_rates pricing) of None \<Rightarrow> Fin 0 | Some r \<Rightarrow> num_val (pr_rate r))
      in jdiv (jmul tokens rate) (Fin 1000))"

definition extractUsage :: "token_usage \<Rightarrow> string \<Rightarrow> usage_metrics res" where
  "extractUsage usage model =
     bind (getPricingConfig model) (\<lambda>pricing.
       let cw = jnat (case tu_cache_creation usage of None \<Rightarrow> 0 | Some n \<Rightarrow> n);
           cr = jnat (case tu_cache_read usage of None \<Rightarrow> 0 | Some n \<Rightarrow> n);
           i = jnat (tu_input_tokens usage); t = jnat (tu_output_tokens usage);
           inputCost = tokenCostUSD pricing ''input_token'' i;
           outputCost = tokenCostUSD pricing ''output_token'' t;
           cacheWriteCost = tokenCostUSD pricing ''cache_creation_input_token'' cw;
           cacheReadCost = tokenCostUSD pricing ''cache_read_input_token'' cr
       in Inr \<lparr>um_units = jadd (jadd (jadd i t) cw) cr, um_unitType = ''tokens'',
            um_costUSD = jadd (jadd (jadd inputCost outputCost) cacheWriteCost) cacheReadCost,
            um_breakdown = Some [(''input'', i), (''output'', t), (''cacheWrite'', cw), (''cacheRead'', cr)]\<rparr>)"

text \<open>The parameters of the call: a field of the body or its default.\<close>

definition or_default :: "json option \<Rightarrow> json \<Rightarrow> json option" where
  "or_default v d = (case v of None \<Rightarrow> Some d | Some x \<Rightarrow> Some x)"

definition call_params :: "json option \<Rightarrow> (string \<times> json option) list res" where
  "call_params body =
     bind (jprop body ''messages'') (\<lambda>messages. bind (jprop body ''model'') (\<lambda>model.
     bind (jprop body ''maxTokens'') (\<lambda>maxTokens. bind (jprop body ''temperature'') (\<lambda>temperature.
     bind (jprop body ''system'') (\<lambda>system. bind (jprop body ''topP'') (\<lambda>topP.
     bind (jprop body ''topK'') (\<lambda>topK. bind (jprop body ''stopSequences'') (\<lambda>stopSequences.
     bind (jprop body ''metadata'') (\<lambda>metadata. bind (jprop body ''stream'') (\<lambda>stream.
       Inr [(''model'', or_default model (JStr DEFAULT_CLAUDE_MODEL)), (''max_tokens'', or_default maxTokens (JNum (Fin 8192))),
            (''temperature'', or_default temperature (JNum (Fin 1))), (''system'', system), (''messages'', messages),
            (''top_p'', topP), (''top_k'', topK), (''stop_sequences'', stopSequences), (''metadata'', metadata),
            (''stream'', or_default stream (JBool False))]))))))))))"

definition model_of :: "(string \<times> json option) list \<Rightarrow> string" where
  "model_of params = (case map_of params ''model'' of Some (Some (JStr m)) \<Rightarrow> m | _ \<Rightarrow> [])"

definition claude_failure :: "thrown \<Rightarrow> exn" where
  "claude_failure e =
     (let errorMessage = (case th_message e of Some m \<Rightarrow> m | None \<Rightarrow> ''Unknown error'') in
      if isRetryableError e then Error (''Retryable error from Claude API: '' @ errorMessage)
      else Error (''Claude API error: '' @ errorMessage))"

definition execute ::
  "((string \<times> json option) list \<Rightarrow> thrown + claude_message) \<Rightarrow> provider_request \<Rightarrow> claude_provider \<Rightarrow> provider_response res" where
  "execute create rq cp =
     bind (provider_ensureInitialized CLAUDE_ID (cp_config cp)) (\<lambda>_.
     bind (guard (cp_anthropic cp \<noteq> None) (Error ''Anthropic client not initialized'')) (\<lambda>_.
     bind (claude_validateRequest rq) (\<lambda>validation.
     bind (guard (vr_valid validation) (Error (''Invalid request: '' @
             (case vr_errors validation of None \<Rightarrow> ''undefined'' | Some es \<Rightarrow> join '', '' es)))) (\<lambda>_.
     bind (call_params (pq_body rq)) (\<lambda>params.
     case create params of
       Inl e \<Rightarrow> Inl (claude_failure e)
     | Inr response \<Rightarrow>
         bind (extractUsage (cm_usage response) (model_of params)) (\<lambda>usage.
           Inr \<lparr>ps_status = 200, ps_headers = [(''content-type'', ''application/json'')],
                ps_body = JObj [(''id'', JStr (cm_id response)), (''type'', cm_type response), (''role'', cm_role response),
                  (''content'', cm_content response), (''model'', JStr (cm_model response)),
                  (''stopReason'', cm_stop_reason response), (''stopSequence'', cm_stop_sequence response)],
                ps_usage = usage,
                ps_metadata = Some [(''model'', JStr (cm_model response)), (''responseId'', JStr (cm_id response))]\<rparr>))))))"

section \<open>The estimate\<close>

definition part_text :: "(json \<Rightarrow> string) \<Rightarrow> json \<Rightarrow> string res" where
  "part_text text_of c = (case c of JStr s \<Rightarrow> Inr s
     | _ \<Rightarrow> bind (jprop (Some c) ''text'') (\<lambda>t. Inr (case t of
          Some (JStr s) \<Rightarrow> s | Some v \<Rightarrow> if truthy (Some v) then text_of v else [] | None \<Rightarrow> [])))"

fun concat_res :: "string res list \<Rightarrow> string res" where
  "concat_res [] = Inr []"
| "concat_res (r # rs) = bind r (\<lambda>s. bind (concat_res rs) (\<lambda>t. Inr (s @ t)))"

definition message_chars :: "(json \<Rightarrow> string) \<Rightarrow> json \<Rightarrow> nat res" where
  "message_chars text_of msg =
     (if \<not> truthy (Some msg) then Inr 0
      else bind (jprop (Some msg) ''content'') (\<lambda>content.
        if \<not> truthy content then Inr 0
        else case content of
            Some (JStr s) \<Rightarrow> Inr (length s)
          | Some (JArr cs) \<Rightarrow> bind (concat_res (map (part_text text_of) cs)) (\<lambda>s. Inr (length s))
          | _ \<Rightarrow> Inr 0))"

fun sum_chars :: "(json \<Rightarrow> string) \<Rightarrow> json list \<Rightarrow> nat res" where
  "sum_chars text_of [] = Inr 0"
| "sum_chars text_of (m # ms) = bind (message_chars text_of m) (\<lambda>a. bind (sum_chars text_of ms) (\<lambda>b. Inr (a + b)))"

definition estimateTokenCount :: "(json \<Rightarrow> string) \<Rightarrow> json option \<Rightarrow> nat res" where
  "estimateTokenCount text_of messages =
     (case messages of
        Some (JArr ms) \<Rightarrow> bind (sum_chars text_of ms) (\<lambda>totalChars. Inr ((totalChars + 3) div 4))
      | _ \<Rightarrow> Inr 0)"

text \<open>\<open>request.metadata || request.body || {}\<close>\<close>

definition estimate_hints :: "provider_request \<Rightarrow> json" where
  "estimate_hints rq = (case pq_metadata rq of
     Some kvs \<Rightarrow> JObj kvs
   | None \<Rightarrow> (case pq_body rq of Some b \<Rightarrow> if truthy (Some b) then b else JObj [] | None \<Rightarrow> JObj []))"

definition claude_estimateCost :: "(json \<Rightarrow> string) \<Rightarrow> provider_request \<Rightarrow> cost_estimate res" where
  "claude_estimateCost text_of rq =
     (let hints = Some (estimate_hints rq) in
      bind (jprop hints ''messages'') (\<lambda>messages.
      bind (jprop hints ''maxTokens'') (\<lambda>maxTokens.
      bind (jprop hints ''model'') (\<lambda>model.
      case (case model of None \<Rightarrow> JStr DEFAULT_CLAUDE_MODEL | Some m \<Rightarrow> m) of
        JStr m \<Rightarrow>
          if \<not> isClaudeModel m then Inl (BadRequest (''model must be one of: '' @ join '', '' CLAUDE_MODELS))
          else bind (estimateTokenCount text_of (if truthy messages then messages else Some (JArr []))) (\<lambda>estimatedInputTokens.
            bind (getPricingConfig m) (\<lambda>pricing.
            let inputCostUSD = tokenCostUSD pricing ''input_token'' (jnat estimatedInputTokens);
                outputCostUSD = tokenCostUSD pricing ''output_token''
                  (case maxTokens of None \<Rightarrow> Fin 1024 | Some v \<Rightarrow> to_number v);
                estimatedCostUSD = jadd inputCostUSD outputCostUSD
            in Inr \<lparr>ce_minCostUSD = jmul estimatedCostUSD (fl (7 / 10)), ce_maxCostUSD = jmul estimatedCostUSD (Fin (3 / 2)),
                 ce_estimatedCostUSD = estimatedCostUSD, ce_confidence = fl (8 / 10),
                 ce_breakdown = Some [(''input'', inputCostUSD), (''output'', outputCostUSD)]\<rparr>))
      | _ \<Rightarrow> Inl (BadRequest (''model must be one of: '' @ join '', '' CLAUDE_MODELS))))))"

definition calculateActualCost :: "provider_response \<Rightarrow> usage_metrics" where
  "calculateActualCost r = ps_usage r"

definition getRateLimits :: rate_limit_config where
  "getRateLimits = \<lparr>rl_requestsPerMinute = Some 50, rl_requestsPerHour = None, rl_requestsPerDay = Some 1000,
     rl_concurrentRequests = Some 5\<rparr>"

definition claude_healthCheck ::
  "((string \<times> json option) list \<Rightarrow> thrown + claude_message) \<Rightarrow> int \<Rightarrow> int \<Rightarrow> claude_provider \<Rightarrow> provider_health res" where
  "claude_healthCheck create start now cp =
     bind (provider_ensureInitialized CLAUDE_ID (cp_config cp)) (\<lambda>_.
       if cp_anthropic cp = None
       then Inr \<lparr>ph_status = down, ph_latencyMs = None, ph_lastCheck = now, ph_message = Some ''Anthropic client not initialized''\<rparr>
       else case create [(''model'', Some (JStr DEFAULT_CLAUDE_MODEL)), (''max_tokens'', Some (JNum (Fin 10))),
              (''messages'', Some (JArr [JObj [(''role'', JStr ''user''), (''content'', JStr ''ping'')]]))] of
           Inr _ \<Rightarrow> Inr \<lparr>ph_status = healthy, ph_latencyMs = Some (now - start), ph_lastCheck = now, ph_message = None\<rparr>
         | Inl e \<Rightarrow> Inr \<lparr>ph_status = down, ph_latencyMs = None, ph_lastCheck = now,
             ph_message = Some (case th_message e of Some m \<Rightarrow> m | None \<Rightarrow> ''Unknown error'')\<rparr>)"

section \<open>The registry\<close>

record api_provider =
  ap_id :: string
  ap_name :: string
  ap_version :: string
  ap_pricing :: "pricing_model res"
  ap_estimate :: "provider_request \<Rightarrow> cost_estimate res"
  ap_health :: "provider_health res"

record provider_registry =
  rg_providers :: "(string, api_provider) jmap"
  rg_pricing :: pricing_oracle

definition seedProviderPricing :: "int \<Rightarrow> api_provider \<Rightarrow> (provider_registry, unit) act" where
  "seedProviderPricing now provider =
     sbind (slift (ap_pricing provider)) (\<lambda>pricingConfig.
       zoom rg_pricing (\<lambda>po. rg_pricing_update (\<lambda>_. po))
         (updatePricing now (pricingConfig\<lparr>pm_effectiveFrom := now\<rparr>) ''system''
            (''Auto-seeded from provider '' @ ap_id provider @ '' v'' @ ap_version provider)))"

definition register :: "int \<Rightarrow> api_provider \<Rightarrow> (provider_registry, unit) act" where
  "register now provider =
     sbind (smodify (\<lambda>rg. rg\<lparr>rg_providers := jm_set (rg_providers rg) (ap_id provider) provider\<rparr>)) (\<lambda>_.
       seedProviderPricing now provider)"

definition registry_get :: "string \<Rightarrow> provider_registry \<Rightarrow> api_provider res" where
  "registry_get providerId rg = (case jm_get (rg_providers rg) providerId of
     None \<Rightarrow> Inl (NotFound (''Provider not found: '' @ providerId)) | Some p \<Rightarrow> Inr p)"

definition registry_has :: "string \<Rightarrow> provider_registry \<Rightarrow> bool" where
  "registry_has providerId rg = jm_has (rg_providers rg) providerId"

definition registry_list :: "provider_registry \<Rightarrow> api_provider list" where
  "registry_list rg = map snd (rg_providers rg)"

definition getProviderIds :: "provider_registry \<Rightarrow> string list" where
  "getProviderIds rg = jm_keys (rg_providers rg)"

definition healthCheckAll :: "int \<Rightarrow> provider_registry \<Rightarrow> (string, provider_health) jmap" where
  "healthCheckAll now rg = map (\<lambda>(pid, provider). (pid, case ap_health provider of
       Inr health \<Rightarrow> health
     | Inl e \<Rightarrow> \<lparr>ph_status = down, ph_latencyMs = None, ph_lastCheck = now, ph_message = Some (exn_text e)\<rparr>)) (rg_providers rg)"

definition unregister :: "string \<Rightarrow> provider_registry \<Rightarrow> provider_registry \<times> bool" where
  "unregister providerId rg =
     (rg\<lparr>rg_providers := jm_delete (rg_providers rg) providerId\<rparr>, jm_has (rg_providers rg) providerId)"

text \<open>The Claude provider as the registry sees it.\<close>

definition claude_api :: "(json \<Rightarrow> string) \<Rightarrow> provider_health res \<Rightarrow> api_provider" where
  "claude_api text_of health = \<lparr>ap_id = CLAUDE_ID, ap_name = ''Anthropic Claude API'', ap_version = ''1.0.0'',
     ap_pricing = getPricingConfig DEFAULT_CLAUDE_MODEL, ap_estimate = claude_estimateCost text_of, ap_health = health\<rparr>"

section \<open>Facts\<close>

text \<open>No secret header reaches the log: exactly the headers with a sensitive name, in any case, are
  replaced.\<close>

lemma jm_get_fold_redact:
  "jm_get (fold (\<lambda>key m. if P key then jm_set m key v else m) ks m) k =
     (if P k \<and> k \<in> set ks then Some v else jm_get m k)"
  by (induction ks arbitrary: m) auto

lemma sanitizeHeaders_get:
  "jm_get (sanitizeHeaders h) k =
     (if toLowerCase k \<in> set sensitiveKeys \<and> k \<in> set (jm_keys h) then Some ''[REDACTED]'' else jm_get h k)"
  unfolding sanitizeHeaders_def by (rule jm_get_fold_redact)

text \<open>The seeded rates are positive, so the oracle's validation accepts them.\<close>

lemma rate_positive:
  assumes "1 \<le> a" "a \<le> 1024"
  obtains r where "perThousand (Fin a) = Fin r" "0 < r"
proof -
  have "1 / 2 ^ 10 \<le> a / 1000" "a / 1000 \<le> 2 ^ 10" using assms by simp_all
  then obtain r where "fl (a / 1000) = Fin r" "1 / 2 ^ 10 \<le> r" by (rule fl_between) simp_all
  then show thesis by (intro that [of r]) (simp_all add: perThousand_def)
qed

lemma times_rate_positive:
  assumes "1 / 16 \<le> b" "b \<le> 2"
  obtains r where "perThousand (jmul (Fin 10) (Fin b)) = Fin r" "0 < r"
proof -
  have "1 / 2 ^ 1 \<le> 10 * b" "10 * b \<le> 2 ^ 5" using assms by simp_all
  then obtain c where c: "fl (10 * b) = Fin c" "1 / 2 ^ 1 \<le> c" "c \<le> 2 ^ 5" by (rule fl_between) simp_all
  then have "1 / 2 ^ 11 \<le> c / 1000" "c / 1000 \<le> 2 ^ 5" by simp_all
  then obtain r where "fl (c / 1000) = Fin r" "1 / 2 ^ 11 \<le> r" by (rule fl_between) simp_all
  then show thesis using c by (intro that [of r]) (simp_all add: perThousand_def)
qed

lemma claude_config:
  obtains i o' w r where "0 < i" "0 < o'" "0 < w" "0 < r"
    "getPricingConfig DEFAULT_CLAUDE_MODEL = Inr \<lparr>pm_providerId = ''claude'', pm_endpoint = Some ''/v1/messages'',
       pm_pricingType = Per_token, pm_rates = [token_rate (Fin i) ''input_token'', token_rate (Fin o') ''output_token'',
         token_rate (Fin w) ''cache_creation_input_token'', token_rate (Fin r) ''cache_read_input_token''],
       pm_currency = ''USD'', pm_effectiveFrom = 1735689600000, pm_effectiveUntil = None\<rparr>"
proof -
  obtain i where i: "perThousand (Fin 10) = Fin i" "0 < i" by (rule rate_positive [of 10]) simp_all
  obtain o' where o': "perThousand (Fin 50) = Fin o'" "0 < o'" by (rule rate_positive [of 50]) simp_all
  obtain w where w: "perThousand (jmul (Fin 10) CACHE_WRITE_MULTIPLIER) = Fin w" "0 < w"
    unfolding CACHE_WRITE_MULTIPLIER_def by (rule times_rate_positive [of "5 / 4"]) simp_all
  obtain b :: rat where b: "fl (1 / 10) = Fin b" "1 / 2 ^ 4 \<le> b" "b \<le> 2 ^ 1"
    by (rule fl_between [of 4 "1 / 10" 1]) simp_all
  have b16: "1 / 16 \<le> b" "b \<le> 2" using b(2,3) by simp_all
  from b16 obtain r where "perThousand (jmul (Fin 10) (Fin b)) = Fin r" and r0: "0 < r"
    by (rule times_rate_positive)
  then have r: "perThousand (jmul (Fin 10) CACHE_READ_MULTIPLIER) = Fin r" by (simp only: CACHE_READ_MULTIPLIER_def b(1))
  have p: "jm_get CLAUDE_PRICING DEFAULT_CLAUDE_MODEL = Some \<lparr>price_input = 10, price_output = 50\<rparr>"
    by (simp add: DEFAULT_CLAUDE_MODEL_def CLAUDE_PRICING_def jm_get_Cons)
  show thesis
    by (rule that [OF i(2) o'(2) w(2) r0])
      (simp only: getPricingConfig_def p option.case claude_price.select_convs i(1) o'(1) w(1) r CLAUDE_ID_def)
qed

text \<open>Registering a provider prices it: registering the Claude provider succeeds in any registry
  reached by updates and reads of prices, and from then on the registry returns the provider and the
  oracle prices its endpoint with its configuration, in force since the registration.\<close>

theorem register_prices_claude:
  assumes "pricing_run (rg_pricing rg) t cur" "t \<le> now" "now \<le> later" "getPricingConfig DEFAULT_CLAUDE_MODEL = Inr config"
  shows "\<exists>rg'. register now (claude_api text_of health) rg = (rg', Inr ())
     \<and> registry_get ''claude'' rg' = Inr (claude_api text_of health)
     \<and> snd (getPricing later ''claude'' (Some ''/v1/messages'') (rg_pricing rg')) = Inr (config\<lparr>pm_effectiveFrom := now\<rparr>)"
proof -
  let ?m = "config\<lparr>pm_effectiveFrom := now\<rparr>"
  have c: "validate_rates (pm_rates config) = Inr ()" "pm_rates config \<noteq> []" "pm_effectiveUntil config = None"
    "pm_providerId config = ''claude''" "pm_endpoint config = Some ''/v1/messages''"
    "\<forall>r \<in> set (pm_rates config). finite_rate r"
    by (rule claude_config, use assms(4) in \<open>simp add: token_rate_def finite_rate_def\<close>)+
  then have "validatePricingModel now ?m = Inr ()" by (simp add: validatePricingModel_def)
  then obtain po where po: "updatePricing now ?m ''system'' (''Auto-seeded from provider claude v1.0.0'') (rg_pricing rg) = (po, Inr ())"
    by (simp add: updatePricing_def Let_def)
  have k: "good_key (''claude'', Some ''/v1/messages'')" by (simp add: good_key_def)
  have "pricing_run po now (cur(model_key ?m \<mapsto> ?m))"
    by (rule pricing_run.update [OF assms(1,2) _ _ _ po]) (use c k in simp_all)
  then have "snd (getPricing later ''claude'' (Some ''/v1/messages'') po) = Inr ?m"
    using getPricing_cur [OF pricing_run_inv assms(3) _ k, of po _ ?m] c kept_model_finite [of ?m] by simp
  moreover have "register now (claude_api text_of health) rg =
      (rg\<lparr>rg_providers := jm_set (rg_providers rg) ''claude'' (claude_api text_of health), rg_pricing := po\<rparr>, Inr ())"
    using po assms(4)
    by (simp add: register_def seedProviderPricing_def sbind_def zoom_def claude_api_def CLAUDE_ID_def)
  ultimately show ?thesis by (simp add: registry_get_def)
qed

theorem register_prices_claude_witness:
  "\<exists>rg'. register 5 (claude_api (\<lambda>_. []) (Inl TypeError)) \<lparr>rg_providers = [], rg_pricing = po_init\<rparr> = (rg', Inr ())
     \<and> registry_get ''claude'' rg' = Inr (claude_api (\<lambda>_. []) (Inl TypeError))"
proof (rule claude_config)
  fix i o' w r :: rat
  assume "getPricingConfig DEFAULT_CLAUDE_MODEL = Inr \<lparr>pm_providerId = ''claude'', pm_endpoint = Some ''/v1/messages'',
       pm_pricingType = Per_token, pm_rates = [token_rate (Fin i) ''input_token'', token_rate (Fin o') ''output_token'',
         token_rate (Fin w) ''cache_creation_input_token'', token_rate (Fin r) ''cache_read_input_token''],
       pm_currency = ''USD'', pm_effectiveFrom = 1735689600000, pm_effectiveUntil = None\<rparr>"
  from register_prices_claude [of "\<lparr>rg_providers = [], rg_pricing = po_init\<rparr>" 0 Map.empty 5 6, OF _ _ _ this]
    pricing_run.start [of 0]
  show ?thesis by fastforce
qed

text \<open>The oracle does not bill cache tokens: the configuration names them by other units than the oracle
  looks for, so their counts do not matter, while \<open>extractUsage\<close> does charge them.\<close>

theorem oracle_ignores_cache_tokens:
  assumes "getPricingConfig m = Inr pricing"
  shows "calculateTokenCost (u\<lparr>um_breakdown := Some [(''input'', i), (''output'', t), (''cacheWrite'', cw), (''cacheRead'', cr)]\<rparr>) pricing
    = calculateTokenCost (u\<lparr>um_breakdown := Some [(''input'', i), (''output'', t)]\<rparr>) pricing"
  using assms
  by (auto simp: getPricingConfig_def calculateTokenCost_def token_part_def token_rate_def breakdown_of_def jm_get_Cons
      split: option.splits)

end
