(* ===== verification/CostEstimation.thy ===== *)
theory CostEstimation
  imports Providers EthRate Blockchain
begin

text \<open>
  \<open>src/src/longjing/cost-estimation.service.ts\<close> and its DTOs: the price of a request before it is
  made, cached for five minutes.

  The service's state is its cache with the registry and the rate oracle it calls.  A call reads the
  clock several times with awaits in between (record \<open>estimate_call\<close>).  How JavaScript writes a number
  inside the cache key is the parameter \<open>num_text\<close>.
\<close>

section \<open>Data\<close>

record estimate_request =
  eq_provider :: string
  eq_endpoint :: "string option"
  eq_estimatedUnits :: jsnum
  eq_unitType :: "string option"
  eq_metadata :: "(string \<times> json) list option"

record estimate_response =
  ep_provider :: string
  ep_endpoint :: "string option"
  ep_estimatedCostUSD :: jsnum
  ep_estimatedCostWei :: string
  ep_recommendedDepositWei :: string
  ep_baseCostUSD :: jsnum
  ep_safetyMarginUSD :: jsnum
  ep_currentEthRateUSD :: jsnum
  ep_confidence :: jsnum
  ep_pricingModel :: PricingType
  ep_timestamp :: int

record estimator =
  es_registry :: provider_registry
  es_oracle :: eth_rate_oracle
  es_cache :: "(string, estimate_response \<times> int) jmap"

record estimate_call =
  ec_lookup :: int
  ec_pricing :: int
  ec_wei :: rate_call
  ec_rate :: rate_call
  ec_store :: int

definition ESTIMATE_TTL_MS :: int where "ESTIMATE_TTL_MS = 5 * 60 * 1000"
definition MAX_CACHE_ENTRIES :: nat where "MAX_CACHE_ENTRIES = 1000"

section \<open>The service\<close>

definition getCacheKey :: "(jsnum \<Rightarrow> string) \<Rightarrow> estimate_request \<Rightarrow> string" where
  "getCacheKey num_text rq = eq_provider rq @ '':'' @ (case eq_endpoint rq of None \<Rightarrow> [] | Some e \<Rightarrow> e) @ '':''
     @ num_text (eq_estimatedUnits rq) @ '':'' @ (case eq_unitType rq of None \<Rightarrow> [] | Some u \<Rightarrow> u)"

text \<open>The loop over the map deletes the entry it is at, so what it has passed is gone.\<close>

fun evict :: "int \<Rightarrow> (string, 'e \<times> int) jmap \<Rightarrow> (string, 'e \<times> int) jmap" where
  "evict now [] = []"
| "evict now ((k, (e, expiry)) # m) =
     (if now < expiry \<and> jm_size ((k, (e, expiry)) # m) < MAX_CACHE_ENTRIES then (k, (e, expiry)) # m else evict now m)"

definition cacheEstimate :: "int \<Rightarrow> string \<Rightarrow> 'e \<Rightarrow> (string, 'e \<times> int) jmap \<Rightarrow> (string, 'e \<times> int) jmap" where
  "cacheEstimate now key estimate cache =
     jm_set (evict now (jm_delete cache key)) key (estimate, now + ESTIMATE_TTL_MS)"

text \<open>BigInt division rounds towards zero.\<close>

definition deposit_for :: "int \<Rightarrow> int" where
  "deposit_for cost = (if 0 \<le> cost then cost * 120 div 100 else - ((- cost) * 120 div 100))"

definition provider_hints :: "estimate_request \<Rightarrow> provider_request" where
  "provider_hints rq = \<lparr>pq_endpoint = (case eq_endpoint rq of None \<Rightarrow> [] | Some e \<Rightarrow> e), pq_method = ''POST'',
     pq_headers = None, pq_body = None,
     pq_metadata = Some ((''estimatedUnits'', JNum (eq_estimatedUnits rq))
       # (case eq_unitType rq of None \<Rightarrow> [] | Some u \<Rightarrow> [(''unitType'', JStr u)])
       @ filter (\<lambda>(k, v). k \<noteq> ''estimatedUnits'' \<and> k \<noteq> ''unitType'') (case eq_metadata rq of None \<Rightarrow> [] | Some m \<Rightarrow> m))\<rparr>"

definition fresh_estimate :: "(jsnum \<Rightarrow> string) \<Rightarrow> estimate_call \<Rightarrow> estimate_request \<Rightarrow> (estimator, estimate_response) act" where
  "fresh_estimate num_text c rq =
     sbind (\<lambda>es. (es, registry_get (eq_provider rq) (es_registry es))) (\<lambda>provider.
     sbind (slift (ap_estimate provider (provider_hints rq))) (\<lambda>providerEstimate.
     sbind (zoom (\<lambda>es. rg_pricing (es_registry es)) (\<lambda>po. es_registry_update (rg_pricing_update (\<lambda>_. po)))
              (getPricing (ec_pricing c) (eq_provider rq) (eq_endpoint rq))) (\<lambda>pricing.
     let costUSD = ce_estimatedCostUSD providerEstimate in
     sbind (zoom es_oracle (\<lambda>eo. es_oracle_update (\<lambda>_. eo)) (usdToWei (ec_wei c) costUSD)) (\<lambda>costWei.
     sbind (zoom es_oracle (\<lambda>eo. es_oracle_update (\<lambda>_. eo)) (getEthUsdRate (ec_rate c))) (\<lambda>ethRateUSD.
     let estimate = \<lparr>ep_provider = eq_provider rq, ep_endpoint = eq_endpoint rq, ep_estimatedCostUSD = costUSD,
           ep_estimatedCostWei = dec_of_int costWei, ep_recommendedDepositWei = dec_of_int (deposit_for costWei),
           ep_baseCostUSD = costUSD, ep_safetyMarginUSD = jmul costUSD (fl (1 / 5)), ep_currentEthRateUSD = ethRateUSD,
           ep_confidence = ce_confidence providerEstimate, ep_pricingModel = pm_pricingType pricing,
           ep_timestamp = ec_store c\<rparr> in
     sbind (smodify (\<lambda>es. es\<lparr>es_cache := cacheEstimate (ec_store c) (getCacheKey num_text rq) estimate (es_cache es)\<rparr>)) (\<lambda>_.
     sret estimate))))))"

definition estimateCost :: "(jsnum \<Rightarrow> string) \<Rightarrow> estimate_call \<Rightarrow> estimate_request \<Rightarrow> (estimator, estimate_response) act" where
  "estimateCost num_text c rq es =
     (case jm_get (es_cache es) (getCacheKey num_text rq) of
        Some (estimate, expiry) \<Rightarrow>
          if ec_lookup c < expiry then (es, Inr estimate) else fresh_estimate num_text c rq es
      | None \<Rightarrow> fresh_estimate num_text c rq es)"

section \<open>The controller\<close>

text \<open>The body of \<open>POST /longjing/estimate-cost\<close> under the ValidationPipe: only declared properties, the
  types the decorators of \<open>CostEstimateRequestDto\<close> ask for, \<open>null\<close> like an absent optional property.
  Spreading the hints gives an object's properties, a list's or a text's elements by index.\<close>

definition DTO_FIELDS :: "string list" where
  "DTO_FIELDS = [''provider'', ''endpoint'', ''estimatedUnits'', ''unitType'', ''metadata'']"

fun spread :: "json \<Rightarrow> (string \<times> json) list" where
  "spread (JObj kvs) = kvs"
| "spread (JArr xs) = map (\<lambda>i. (dec_of_nat i, xs ! i)) [0..<length xs]"
| "spread (JStr s) = map (\<lambda>i. (dec_of_nat i, JStr [s ! i])) [0..<length s]"
| "spread _ = []"

fun optional_string :: "json option \<Rightarrow> string option res" where
  "optional_string None = Inr None"
| "optional_string (Some JNull) = Inr None"
| "optional_string (Some (JStr s)) = Inr (Some s)"
| "optional_string (Some _) = Inl (BadRequest ''Bad Request'')"

definition estimate_dto :: "json \<Rightarrow> estimate_request res" where
  "estimate_dto body = (case body of
     JObj kvs \<Rightarrow>
       if \<not> list_all (\<lambda>(k, v). k \<in> set DTO_FIELDS) kvs then Inl (BadRequest ''Bad Request'')
       else (case (map_of kvs ''provider'', map_of kvs ''estimatedUnits'') of
         (Some (JStr provider), Some (JNum (Fin units))) \<Rightarrow>
           if provider = [] \<or> units < 1 then Inl (BadRequest ''Bad Request'')
           else bind (optional_string (map_of kvs ''endpoint'')) (\<lambda>endpoint.
                bind (optional_string (map_of kvs ''unitType'')) (\<lambda>unitType.
                Inr \<lparr>eq_provider = provider, eq_endpoint = endpoint, eq_estimatedUnits = Fin units,
                      eq_unitType = unitType, eq_metadata = map_option spread (map_of kvs ''metadata'')\<rparr>))
       | _ \<Rightarrow> Inl (BadRequest ''Bad Request''))
   | _ \<Rightarrow> Inl (BadRequest ''Bad Request''))"

definition post_estimateCost ::
  "env \<Rightarrow> 'h blockchain \<Rightarrow> (jsnum \<Rightarrow> string) \<Rightarrow> estimate_call \<Rightarrow> json \<Rightarrow> (estimator, estimate_response) act" where
  "post_estimateCost config bc num_text c body =
     sbind (slift (canActivate config bc)) (\<lambda>_.
     sbind (slift (estimate_dto body)) (\<lambda>rq. estimateCost num_text c rq))"

lemma estimate_dto_ok:
  assumes "estimate_dto body = Inr rq"
  shows "eq_provider rq \<noteq> [] \<and> (\<exists>u. eq_estimatedUnits rq = Fin u \<and> 1 \<le> u)"
  using assms
  by (auto simp: estimate_dto_def bind_eq_Inr split: json.splits if_splits option.splits jsnum.splits)

section \<open>The cache is bounded\<close>

lemma evict_bound: "evict now m = [] \<or> jm_size (evict now m) < MAX_CACHE_ENTRIES"
  by (induction now m rule: evict.induct) auto

lemma evict_suffix: "\<exists>pre. m = pre @ evict now m"
proof (induction now m rule: evict.induct)
  case (2 now k e expiry m)
  then obtain pre where "m = pre @ evict now m" if "\<not> (now < expiry \<and> jm_size ((k, e, expiry) # m) < MAX_CACHE_ENTRIES)"
    by blast
  then show ?case by (cases "now < expiry \<and> jm_size ((k, e, expiry) # m) < MAX_CACHE_ENTRIES") (auto intro: exI [of _ "(k, e, expiry) # pre"])
qed simp

lemma jm_wf_suffix: "jm_wf (pre @ m) \<Longrightarrow> jm_wf m"
  by (simp add: jm_wf_def)

text \<open>What the cache promises: one entry per key, at most 1000 of them, none that outlives five minutes.\<close>

definition cache_ok :: "int \<Rightarrow> (string, 'e \<times> int) jmap \<Rightarrow> bool" where
  "cache_ok t m \<longleftrightarrow> jm_wf m \<and> jm_size m \<le> MAX_CACHE_ENTRIES \<and> (\<forall>(k, e, expiry) \<in> set m. expiry \<le> t + ESTIMATE_TTL_MS)"

lemma cacheEstimate_ok:
  assumes "cache_ok t m" "t \<le> now"
  shows "cache_ok now (cacheEstimate now key e m)"
proof -
  let ?m = "evict now (jm_delete m key)"
  obtain pre where pre: "jm_delete m key = pre @ ?m" using evict_suffix by blast
  have "jm_wf (jm_delete m key)" using assms(1) by (simp add: cache_ok_def jm_wf_delete)
  then have wf: "jm_wf ?m" using pre jm_wf_suffix by metis
  have size: "Suc (jm_size ?m) \<le> MAX_CACHE_ENTRIES"
    using evict_bound [of now "jm_delete m key"] by (auto simp: jm_size_def MAX_CACHE_ENTRIES_def)
  have "set ?m \<subseteq> set m" using pre by (metis Un_upper2 jm_delete_def filter_is_subset order_trans set_append)
  then have "\<forall>(k, e, expiry) \<in> set ?m. expiry \<le> now + ESTIMATE_TTL_MS"
    using assms unfolding cache_ok_def by fastforce
  moreover have "set (jm_set n k v) \<subseteq> insert (k, v) (set n)" for n :: "(string, 'a \<times> int) jmap" and k v
    by (induction n k v rule: jm_set.induct) auto
  ultimately have "\<forall>(k, e, expiry) \<in> set (jm_set ?m key (e, now + ESTIMATE_TTL_MS)). expiry \<le> now + ESTIMATE_TTL_MS"
    by fastforce
  then show ?thesis
    using wf size jm_size_set_le [of ?m key "(e, now + ESTIMATE_TTL_MS)"]
    by (auto simp: cache_ok_def cacheEstimate_def)
qed

lemma cache_ok_later: "cache_ok t m \<Longrightarrow> t \<le> now \<Longrightarrow> cache_ok now m"
  by (fastforce simp: cache_ok_def)

lemma fresh_estimate_cache:
  "fresh_estimate num_text c rq es = (es', Inr e) \<Longrightarrow>
     es_cache es' = cacheEstimate (ec_store c) (getCacheKey num_text rq) e (es_cache es)"
  "fresh_estimate num_text c rq es = (es', Inl x) \<Longrightarrow> es_cache es' = es_cache es"
  by (auto simp: fresh_estimate_def act_simps zoom_eq Let_def)

lemma estimateCost_cache:
  assumes "estimateCost num_text c rq es = (es', r)"
  shows "es_cache es' = es_cache es \<or> (\<exists>key e. es_cache es' = cacheEstimate (ec_store c) key e (es_cache es))"
proof -
  consider "es' = es" | "fresh_estimate num_text c rq es = (es', r)"
    using assms by (auto simp: estimateCost_def split: option.splits if_splits prod.splits)
  then show ?thesis
  proof cases
    case 2
    then show ?thesis using fresh_estimate_cache by (cases r) blast+
  qed simp
qed

lemma post_estimateCost_cache:
  assumes "post_estimateCost config bc num_text c body es = (es', r)"
  shows "es_cache es' = es_cache es \<or> (\<exists>key e. es_cache es' = cacheEstimate (ec_store c) key e (es_cache es))"
proof -
  consider "es' = es" | rq where "estimateCost num_text c rq es = (es', r)"
    using assms by (cases r) (auto simp: post_estimateCost_def act_simps)
  then show ?thesis using estimateCost_cache by cases blast+
qed

inductive estimator_run :: "estimator \<Rightarrow> int \<Rightarrow> bool" where
  start: "es_cache es = [] \<Longrightarrow> estimator_run es t"
| estimate: "estimator_run es t \<Longrightarrow> t \<le> ec_store c \<Longrightarrow> post_estimateCost config (bc :: nat blockchain) num_text c body es = (es', r) \<Longrightarrow>
    estimator_run es' (ec_store c)"

text \<open>The estimate cache cannot be made to grow: over any sequence of posted bodies it holds at most 1000
  entries, one per key, and none that expires more than five minutes after it was stored.\<close>

theorem estimate_cache_bounded:
  assumes "estimator_run es t"
  shows "cache_ok t (es_cache es)"
  using assms
proof (induction rule: estimator_run.induct)
  case (start es t)
  then show ?case by (simp add: cache_ok_def jm_size_def)
next
  case (estimate es t c config bc num_text body es' r)
  then show ?case
    using post_estimateCost_cache [OF estimate.hyps(3)] by (auto intro: cacheEstimate_ok cache_ok_later)
qed

definition sample_estimator :: estimator where
  "sample_estimator = \<lparr>es_registry = \<lparr>rg_providers = [], rg_pricing = po_init\<rparr>, es_oracle = sample_oracle, es_cache = []\<rparr>"

theorem estimate_cache_bounded_witness: "cache_ok 7 (es_cache sample_estimator)"
  by (rule estimate_cache_bounded) (rule estimator_run.start, simp add: sample_estimator_def)

text \<open>The cache key leaves out the hints: for as long as an estimate is kept, a request that differs in
  its metadata (the model, the messages, the output limit) gets the first one's price.\<close>

lemma cacheEstimate_get: "jm_get (cacheEstimate now key e m) key = Some (e, now + ESTIMATE_TTL_MS)"
  by (simp add: cacheEstimate_def)

lemma fresh_estimate_cached:
  assumes "fresh_estimate num_text c rq es = (es', Inr e)"
  shows "jm_get (es_cache es') (getCacheKey num_text rq) = Some (e, ec_store c + ESTIMATE_TTL_MS)"
  using fresh_estimate_cache(1) [OF assms] by (simp add: cacheEstimate_get)

theorem estimate_ignores_hints:
  assumes "fresh_estimate num_text c rq es = (es', Inr e)" "ec_lookup c' < ec_store c + ESTIMATE_TTL_MS"
  shows "estimateCost num_text c' (rq\<lparr>eq_metadata := hints\<rparr>) es' = (es', Inr e)"
  using fresh_estimate_cached [OF assms(1)] assms(2) by (simp add: estimateCost_def getCacheKey_def)

end
