(* ===== verification/ReportData.thy ===== *)
theory ReportData
  imports JsText
begin

text \<open>
  \<open>src/src/attestation/report-data.ts\<close>: the 64 bytes a quote attests to.  SHA-256 is the parameter
  \<open>sha256\<close>.

  Shown: the report data determines the nonce and every bound key, up to a SHA-256 collision between
  the values that were hashed.
\<close>

section \<open>Operations\<close>

definition REPORT_DATA_LABEL :: string where "REPORT_DATA_LABEL = ''longjing-report-v1''"
definition NONCE_LENGTH :: nat where "NONCE_LENGTH = 32"

record report_inputs =
  ri_mlkemPublicKey :: bytes
  ri_identityPublicKey :: "bytes option"
  ri_refundSignerPublicKey :: "bytes option"
  ri_tlsCertificateDer :: "bytes option"

definition lengthPrefixed :: "bytes \<Rightarrow> bytes" where
  "lengthPrefixed bs = uint32_be (length bs) @ bs"

definition or_empty :: "bytes option \<Rightarrow> bytes" where
  "or_empty b = (case b of None \<Rightarrow> [] | Some x \<Rightarrow> x)"

definition certificate_hash :: "(bytes \<Rightarrow> bytes) \<Rightarrow> bytes option \<Rightarrow> bytes" where
  "certificate_hash sha256 der = (case der of None \<Rightarrow> [] | Some d \<Rightarrow> sha256 d)"

text \<open>What the commitment hashes.\<close>

definition commitment_input :: "(bytes \<Rightarrow> bytes) \<Rightarrow> report_inputs \<Rightarrow> bytes" where
  "commitment_input sha256 inputs =
     lengthPrefixed (ascii_bytes REPORT_DATA_LABEL)
     @ lengthPrefixed (ri_mlkemPublicKey inputs)
     @ lengthPrefixed (or_empty (ri_identityPublicKey inputs))
     @ lengthPrefixed (or_empty (ri_refundSignerPublicKey inputs))
     @ lengthPrefixed (certificate_hash sha256 (ri_tlsCertificateDer inputs))"

definition nonce_bytes :: "bytes option \<Rightarrow> bytes" where
  "nonce_bytes nonce = (case nonce of None \<Rightarrow> replicate NONCE_LENGTH 0 | Some n \<Rightarrow> n)"

definition buildReportData :: "(bytes \<Rightarrow> bytes) \<Rightarrow> report_inputs \<Rightarrow> bytes option \<Rightarrow> bytes res" where
  "buildReportData sha256 inputs nonce =
     bind (guard (case nonce of None \<Rightarrow> True | Some n \<Rightarrow> length n = NONCE_LENGTH) (Error ''Nonce must be 32 bytes'')) (\<lambda>_.
       Inr (sha256 (commitment_input sha256 inputs) @ nonce_bytes nonce))"

definition coordinate :: "string \<Rightarrow> bytes res" where
  "coordinate value =
     (let hex = strip0x value in
      if hex \<noteq> [] \<and> length hex \<le> 64 \<and> list_all is_hex hex then Inr (bytes_of_hex (padStart 64 (CHR ''0'') hex))
      else Inl (Error ''Refund signer coordinate must be at most 32 bytes of hex''))"

definition encodeRefundSignerPublicKey :: "string \<times> string \<Rightarrow> bytes res" where
  "encodeRefundSignerPublicKey publicKey =
     bind (coordinate (fst publicKey)) (\<lambda>x. bind (coordinate (snd publicKey)) (\<lambda>y. Inr (x @ y)))"

definition parseNonce :: "string option \<Rightarrow> bytes option res" where
  "parseNonce value = (case value of
     None \<Rightarrow> Inr None
   | Some v \<Rightarrow>
       if v = [] then Inr None
       else let hex = strip0x v in
         if length hex = 64 \<and> list_all is_hex hex then Inr (Some (bytes_of_hex hex))
         else Inl (Error ''Nonce must be 32 bytes of hex''))"

section \<open>Facts\<close>

lemma lengthPrefixed_inject:
  assumes "lengthPrefixed a @ x = lengthPrefixed b @ y" "length a < 2 ^ 32" "length b < 2 ^ 32"
  shows "a = b \<and> x = y"
proof -
  have "uint32_be (length a) = uint32_be (length b)" "a @ x = b @ y"
    using assms(1) by (simp_all add: lengthPrefixed_def)
  moreover from this(1) have "length a = length b" using assms(2,3) by (rule uint32_be_inject)
  ultimately show ?thesis by simp
qed

text \<open>The fields are short enough for a 32-bit length, and the hash has 32 bytes.\<close>

definition hash32 :: "(bytes \<Rightarrow> bytes) \<Rightarrow> bool" where
  "hash32 h \<longleftrightarrow> (\<forall>b. length (h b) = 32)"

definition sized_inputs :: "report_inputs \<Rightarrow> bool" where
  "sized_inputs i \<longleftrightarrow> length (ri_mlkemPublicKey i) < 2 ^ 32 \<and> length (or_empty (ri_identityPublicKey i)) < 2 ^ 32
     \<and> length (or_empty (ri_refundSignerPublicKey i)) < 2 ^ 32"

lemma certificate_hash_length: "hash32 sha256 \<Longrightarrow> length (certificate_hash sha256 d) < 2 ^ 32"
  by (simp add: certificate_hash_def hash32_def split: option.split)

lemma commitment_input_inject:
  assumes "commitment_input sha256 i = commitment_input sha256 j" "sized_inputs i" "sized_inputs j" "hash32 sha256"
  shows "ri_mlkemPublicKey i = ri_mlkemPublicKey j \<and> or_empty (ri_identityPublicKey i) = or_empty (ri_identityPublicKey j)
    \<and> or_empty (ri_refundSignerPublicKey i) = or_empty (ri_refundSignerPublicKey j)
    \<and> certificate_hash sha256 (ri_tlsCertificateDer i) = certificate_hash sha256 (ri_tlsCertificateDer j)"
proof -
  note s = assms(2,3) [unfolded sized_inputs_def] certificate_hash_length [OF assms(4)]
  from assms(1) have "lengthPrefixed (ri_mlkemPublicKey i) @ lengthPrefixed (or_empty (ri_identityPublicKey i))
      @ lengthPrefixed (or_empty (ri_refundSignerPublicKey i)) @ lengthPrefixed (certificate_hash sha256 (ri_tlsCertificateDer i)) @ []
    = lengthPrefixed (ri_mlkemPublicKey j) @ lengthPrefixed (or_empty (ri_identityPublicKey j))
      @ lengthPrefixed (or_empty (ri_refundSignerPublicKey j)) @ lengthPrefixed (certificate_hash sha256 (ri_tlsCertificateDer j)) @ []"
    by (simp add: commitment_input_def)
  then show ?thesis using s lengthPrefixed_inject by metis
qed

lemma same_certificate:
  assumes "certificate_hash sha256 d = certificate_hash sha256 e" "hash32 sha256"
  shows "d = e \<or> (\<exists>a b. d = Some a \<and> e = Some b \<and> a \<noteq> b \<and> sha256 a = sha256 b)"
proof -
  have "length (sha256 b) \<noteq> 0" for b using assms(2) by (simp add: hash32_def)
  then have "sha256 b \<noteq> []" "[] \<noteq> sha256 b" for b by (metis list.size(3))+
  with assms(1) show ?thesis by (cases d; cases e) (auto simp: certificate_hash_def)
qed

text \<open>The report data binds the keys and the nonce: two sets of inputs that build the same report data
  have the same nonce, ML-KEM key, identity key, refund signer key and TLS certificate, unless the two
  commitments or the two certificates are a SHA-256 collision.\<close>

lemma report_data_binds_keys:
  assumes "buildReportData sha256 i m = Inr rd" "buildReportData sha256 j n = Inr rd"
    "hash32 sha256" "sized_inputs i" "sized_inputs j"
  shows "nonce_bytes m = nonce_bytes n \<and>
    (ri_mlkemPublicKey i = ri_mlkemPublicKey j \<and> or_empty (ri_identityPublicKey i) = or_empty (ri_identityPublicKey j)
       \<and> or_empty (ri_refundSignerPublicKey i) = or_empty (ri_refundSignerPublicKey j)
       \<and> (ri_tlsCertificateDer i = ri_tlsCertificateDer j
          \<or> (\<exists>a b. ri_tlsCertificateDer i = Some a \<and> ri_tlsCertificateDer j = Some b \<and> a \<noteq> b \<and> sha256 a = sha256 b))
     \<or> commitment_input sha256 i \<noteq> commitment_input sha256 j
       \<and> sha256 (commitment_input sha256 i) = sha256 (commitment_input sha256 j))"
proof -
  have "sha256 (commitment_input sha256 i) @ nonce_bytes m = sha256 (commitment_input sha256 j) @ nonce_bytes n"
    using assms(1,2) by (simp add: buildReportData_def bind_eq_Inr)
  then have "sha256 (commitment_input sha256 i) = sha256 (commitment_input sha256 j)" "nonce_bytes m = nonce_bytes n"
    using assms(3) by (simp_all add: hash32_def append_eq_append_conv)
  then show ?thesis
    using commitment_input_inject [OF _ assms(4,5,3)] same_certificate [OF _ assms(3)] by blast
qed

definition toy_sha :: "bytes \<Rightarrow> bytes" where
  "toy_sha b = take 32 (b @ replicate 32 0)"

lemma hash32_toy [simp]: "hash32 toy_sha"
  by (auto simp: toy_sha_def hash32_def)

end
