(* ===== verification/Base64.thy ===== *)
theory Base64
  imports JsText
begin

text \<open>
  Base64 as Node's \<open>Buffer\<close> writes and reads it: \<open>toString('base64')\<close> pads with \<open>=\<close>;
  \<open>Buffer.from(s, 'base64')\<close> takes both alphabets, skips other characters and stops at the padding.
\<close>

definition b64_alphabet :: string where
  "b64_alphabet = ''ABCDEFGHIJKLMNOPQRSTUVWXYZabcdefghijklmnopqrstuvwxyz0123456789+/''"

definition b64_char :: "nat \<Rightarrow> char" where
  "b64_char n = b64_alphabet ! n"

fun index_of :: "'a \<Rightarrow> 'a list \<Rightarrow> nat option" where
  "index_of x [] = None"
| "index_of x (y # ys) = (if x = y then Some 0 else map_option Suc (index_of x ys))"

definition b64_val :: "char \<Rightarrow> nat option" where
  "b64_val c = index_of (if c = CHR ''-'' then CHR ''+'' else if c = CHR ''_'' then CHR ''/'' else c) b64_alphabet"

fun b64_digits :: "nat list \<Rightarrow> nat list" where
  "b64_digits (a # b # c # rest) =
     (a div 4) # ((a mod 4) * 16 + b div 16) # ((b mod 16) * 4 + c div 64) # (c mod 64) # b64_digits rest"
| "b64_digits [a, b] = [a div 4, (a mod 4) * 16 + b div 16, (b mod 16) * 4]"
| "b64_digits [a] = [a div 4, (a mod 4) * 16]"
| "b64_digits [] = []"

fun b64_undigits :: "nat list \<Rightarrow> nat list" where
  "b64_undigits (w # x # y # z # rest) =
     (w * 4 + x div 16) # ((x mod 16) * 16 + y div 4) # ((y mod 4) * 64 + z) # b64_undigits rest"
| "b64_undigits [w, x, y] = [w * 4 + x div 16, (x mod 16) * 16 + y div 4]"
| "b64_undigits [w, x] = [w * 4 + x div 16]"
| "b64_undigits _ = []"

definition b64_encode :: "bytes \<Rightarrow> string" where
  "b64_encode bs = map b64_char (b64_digits (map unat bs))
     @ replicate (if length bs mod 3 = 0 then 0 else 3 - length bs mod 3) (CHR ''='')"

definition b64_decode :: "string \<Rightarrow> bytes" where
  "b64_decode s = map of_nat (b64_undigits (List.map_filter b64_val (takeWhile (\<lambda>c. c \<noteq> CHR ''='') s)))"

lemma b64_group:
  fixes a b c :: nat
  assumes "b < 256" "c < 256"
  shows "(a div 4) * 4 + ((a mod 4) * 16 + b div 16) div 16 = a"
    "(((a mod 4) * 16 + b div 16) mod 16) * 16 + ((b mod 16) * 4 + c div 64) div 4 = b"
    "(((b mod 16) * 4 + c div 64) mod 4) * 64 + c mod 64 = c"
    "((a mod 4) * 16) div 16 = a mod 4" "((b mod 16) * 4) div 4 = b mod 16"
proof -
  have h: "b div 16 < 16" "c div 64 < 4" using assms by (simp_all add: less_mult_imp_div_less)
  have "((a mod 4) * 16 + b div 16) div 16 = a mod 4" "((a mod 4) * 16 + b div 16) mod 16 = b div 16"
    "((b mod 16) * 4 + c div 64) div 4 = b mod 16" "((b mod 16) * 4 + c div 64) mod 4 = c div 64"
    using h by simp_all
  then show "(a div 4) * 4 + ((a mod 4) * 16 + b div 16) div 16 = a"
    "(((a mod 4) * 16 + b div 16) mod 16) * 16 + ((b mod 16) * 4 + c div 64) div 4 = b"
    "(((b mod 16) * 4 + c div 64) mod 4) * 64 + c mod 64 = c"
    by (simp_all only: div_mod_decomp [symmetric])
qed simp_all

lemma b64_undigits_digits:
  "\<forall>n \<in> set ns. n < 256 \<Longrightarrow> b64_undigits (b64_digits ns) = ns"
proof (induction ns rule: b64_digits.induct)
  case (1 a b c rest)
  then show ?case using b64_group(1,2) [of b c a] b64_group(3) [of b c] by simp
next
  case (2 a b)
  then show ?case using b64_group(1,2) [of b 0 a] b64_group(5) [of b 0] by simp
next
  case (3 a)
  then show ?case using b64_group(4) [of 0 0 a] by simp
qed simp

lemma b64_digits_less: "\<forall>n \<in> set ns. n < 256 \<Longrightarrow> \<forall>d \<in> set (b64_digits ns). d < 64"
proof (induction ns rule: b64_digits.induct)
  case (1 a b c rest)
  then show ?case by auto
next
  case (2 a b)
  then show ?case by auto
next
  case (3 a)
  then show ?case by auto
qed simp

lemma b64_alphabet_ok: "\<forall>n \<in> set [0..<64]. b64_val (b64_char n) = Some n \<and> b64_char n \<noteq> CHR ''=''"
  by code_simp

lemma b64_val_char: "n < 64 \<Longrightarrow> b64_val (b64_char n) = Some n" "n < 64 \<Longrightarrow> b64_char n \<noteq> CHR ''=''"
  using b64_alphabet_ok by simp_all

lemma b64_decode_encode [simp]: "b64_decode (b64_encode bs) = bs"
proof -
  let ?d = "b64_digits (map unat bs)"
  have small: "\<forall>n \<in> set (map unat bs). n < 256" using unat_byte_less by auto
  then have d: "\<forall>d \<in> set ?d. d < 64" by (rule b64_digits_less)
  have "takeWhile (\<lambda>c. c \<noteq> CHR ''='') (map b64_char ?d @ replicate k (CHR ''='')) = map b64_char ?d" for k
    using d b64_val_char(2) by (subst takeWhile_append2) (auto simp: takeWhile_replicate)
  moreover have "List.map_filter b64_val (map b64_char ?d) = ?d"
    using d by (induction ?d) (auto simp: List.map_filter_def b64_val_char map_idI)
  ultimately have "b64_decode (b64_encode bs) = map of_nat (b64_undigits ?d)"
    by (simp add: b64_decode_def b64_encode_def)
  also have "\<dots> = bs" by (simp add: b64_undigits_digits [OF small] comp_def)
  finally show ?thesis .
qed

interpretation base64: codec b64_encode b64_decode
  by unfold_locales simp

lemmas b64_encode_inject [simp] = base64.enc_inject base64.map_option_enc_inject

end
