(* ===== verification/Keys.thy ===== *)
theory Keys
  imports Json StateRes RefundSigner ReportData Base64
begin

text \<open>
  \<open>src/src/keys/dstack-v1.client.ts\<close>, \<open>src/src/keys/key-derivation.service.ts\<close> and
  \<open>src/src/attestation/tee-key-manager.service.ts\<close>: the long-lived keys, derived inside the enclave
  from the dstack KMS.

  The guest agent's HTTP answers are the function \<open>ag_http\<close> (path and body to status and text, or a
  network error), with \<open>JSON.parse\<close>; HKDF, ML-KEM, secp256k1 and EIP-712 are the record \<open>key_lib\<close>.
  A signing key is its private bytes.

  Shown: in production the keys come from the KMS or start-up fails, never from the simulator; the key
  manifest always commits to the certificate being served.
\<close>

section \<open>The dstack client\<close>

record agent =
  ag_http :: "string \<Rightarrow> json \<Rightarrow> (nat \<times> string) res"
  ag_parse :: "string \<Rightarrow> json res"
  ag_x509_raw :: "string \<Rightarrow> bytes res"
  ag_getAddress :: "string \<Rightarrow> string res"

definition DSTACK_SOCKET_PATH :: string where "DSTACK_SOCKET_PATH = ''/var/run/dstack.sock''"

definition dstack_endpoint :: "env \<Rightarrow> string" where
  "dstack_endpoint env = (if is_set env ''DSTACK_SIMULATOR_ENDPOINT'' then the (jm_get env ''DSTACK_SIMULATOR_ENDPOINT'')
     else DSTACK_SOCKET_PATH)"

definition isSimulator :: "env \<Rightarrow> bool" where
  "isSimulator env = (dstack_endpoint env \<noteq> DSTACK_SOCKET_PATH)"

definition agent_call :: "agent \<Rightarrow> string \<Rightarrow> json \<Rightarrow> json res" where
  "agent_call ag path body =
     bind (ag_http ag path body) (\<lambda>(status, text).
       if status \<noteq> 200 then Inl (Error (''dstack '' @ path @ '' failed ('' @ dec_of_nat status @ ''): '' @ text))
       else case ag_parse ag text of
           Inl _ \<Rightarrow> Inl (Error (''dstack '' @ path @ '' returned invalid JSON''))
         | Inr v \<Rightarrow> Inr v)"

definition decodeHex :: "string \<Rightarrow> json option \<Rightarrow> bytes res" where
  "decodeHex field value = (case value of
     Some (JStr s) \<Rightarrow>
       let hex = strip0x s in
       if odd (length hex) \<or> \<not> list_all is_hex hex then Inl (Error (''dstack returned a malformed '' @ field))
       else Inr (bytes_of_hex hex)
   | _ \<Rightarrow> Inl (Error (''dstack returned no '' @ field)))"

fun decode_links :: "nat \<Rightarrow> json list \<Rightarrow> bytes list res" where
  "decode_links i [] = Inr []"
| "decode_links i (l # ls) =
     bind (decodeHex (''signature_chain['' @ dec_of_nat i @ '']'') (Some l)) (\<lambda>b.
     bind (decode_links (Suc i) ls) (\<lambda>bs. Inr (b # bs)))"

record get_key_response =
  gk_key :: bytes
  gk_publicKey :: bytes
  gk_signatureChain :: "bytes list"

definition getKey :: "agent \<Rightarrow> string \<Rightarrow> string \<Rightarrow> get_key_response res" where
  "getKey ag domain algorithm =
     bind (agent_call ag ''/v1/GetKey'' (JObj [(''domain'', JStr domain), (''algorithm'', JStr algorithm)])) (\<lambda>result.
     bind (jprop (Some result) ''signature_chain'') (\<lambda>sc.
     case sc of
       Some (JArr links) \<Rightarrow>
         bind (jprop (Some result) ''key'') (\<lambda>k. bind (decodeHex ''key'' k) (\<lambda>key.
         bind (jprop (Some result) ''public_key'') (\<lambda>p. bind (decodeHex ''public_key'' p) (\<lambda>publicKey.
         bind (decode_links 0 links) (\<lambda>signatureChain.
           Inr \<lparr>gk_key = key, gk_publicKey = publicKey, gk_signatureChain = signatureChain\<rparr>)))))
     | _ \<Rightarrow> Inl (Error ''dstack GetKey returned no signature_chain'')))"

record get_tls_key_response =
  gt_key :: string
  gt_certificateChain :: "string list"
  gt_leafCertificateDer :: bytes

fun all_strings :: "json list \<Rightarrow> string list option" where
  "all_strings [] = Some []"
| "all_strings (JStr s # js) = map_option ((#) s) (all_strings js)"
| "all_strings (_ # js) = None"

definition getTlsKey :: "agent \<Rightarrow> string list \<Rightarrow> get_tls_key_response res" where
  "getTlsKey ag altNames =
     bind (agent_call ag ''/GetTlsKey'' (JObj
       [(''subject'', JStr (case altNames of [] \<Rightarrow> ''longjing'' | n # _ \<Rightarrow> n)), (''alt_names'', JArr (map JStr altNames)),
        (''usage_ra_tls'', JBool True), (''usage_server_auth'', JBool True), (''usage_client_auth'', JBool False)])) (\<lambda>result.
     bind (jprop (Some result) ''certificate_chain'') (\<lambda>chain.
     bind (jprop (Some result) ''key'') (\<lambda>key.
     case (key, chain) of
       (Some (JStr k), Some (JArr pems)) \<Rightarrow>
         (case all_strings pems of
            Some (leaf # rest) \<Rightarrow>
              bind (ag_x509_raw ag leaf) (\<lambda>der.
                Inr \<lparr>gt_key = k, gt_certificateChain = leaf # rest, gt_leafCertificateDer = der\<rparr>)
          | _ \<Rightarrow> Inl (Error ''dstack GetTlsKey returned no key or certificate_chain''))
     | _ \<Rightarrow> Inl (Error ''dstack GetTlsKey returned no key or certificate_chain''))))"

definition getQuote :: "agent \<Rightarrow> bytes \<Rightarrow> (bytes \<times> string) res" where
  "getQuote ag reportData =
     (if length reportData > 64 then Inl (Error ''report_data must be at most 64 bytes'')
      else bind (agent_call ag ''/GetQuote'' (JObj [(''report_data'', JStr (hex_of_bytes reportData))])) (\<lambda>result.
        bind (jprop (Some result) ''event_log'') (\<lambda>l.
        case l of
          Some (JStr eventLog) \<Rightarrow>
            bind (jprop (Some result) ''quote'') (\<lambda>q. bind (decodeHex ''quote'' q) (\<lambda>quote. Inr (quote, eventLog)))
        | _ \<Rightarrow> Inl (Error ''dstack GetQuote returned no event_log''))))"

definition getAppId :: "agent \<Rightarrow> string res" where
  "getAppId ag =
     bind (agent_call ag ''/Info'' (JObj [])) (\<lambda>result.
     bind (jprop (Some result) ''app_id'') (\<lambda>a.
     case a of
       Some (JStr appId) \<Rightarrow> ag_getAddress ag (if startsWith appId ''0x'' then appId else ''0x'' @ appId)
     | _ \<Rightarrow> Inl (Error ''dstack Info returned no app_id'')))"

section \<open>Derivation\<close>

definition MLKEM_DOMAIN :: string where "MLKEM_DOMAIN = ''longjing/mlkem-1024/v1''"
definition REFUND_SIGNER_DOMAIN :: string where "REFUND_SIGNER_DOMAIN = ''longjing/refund-signer/babyjub/v1''"
definition IDENTITY_DOMAIN :: string where "IDENTITY_DOMAIN = ''longjing/identity/v1''"
definition TX_SIGNER_DOMAIN :: string where "TX_SIGNER_DOMAIN = ''longjing/tx-signer/v1''"
definition HKDF_SALT :: bytes where "HKDF_SALT = ascii_bytes ''longjing''"
definition MLKEM_SEED_INFO :: bytes where "MLKEM_SEED_INFO = lengthPrefixed (ascii_bytes ''longjing-mlkem-1024-seed-v1'')"
definition REFUND_SIGNER_INFO :: bytes where
  "REFUND_SIGNER_INFO = lengthPrefixed (ascii_bytes ''longjing-refund-signer-babyjub-v1'')"

record key_manifest =
  km_appId :: string
  km_mlkemPublicKeyHash :: string
  km_refundSignerX :: string
  km_refundSignerY :: string
  km_tlsCertificateHash :: string
  km_txSignerAddress :: string
  km_epoch :: nat

record signed_key_manifest =
  sk_manifest :: key_manifest
  sk_signature :: string

record key_lib =
  kl_hkdf :: "bytes \<Rightarrow> bytes \<Rightarrow> bytes \<Rightarrow> nat \<Rightarrow> bytes"
  kl_mlkem_derive :: "bytes \<Rightarrow> bytes \<times> bytes"
  kl_mlkem_decap :: "bytes \<Rightarrow> bytes \<Rightarrow> bytes"
  kl_eddsa :: eddsa_lib
  kl_public :: "bytes \<Rightarrow> bytes res"
  kl_address :: "bytes \<Rightarrow> string"
  kl_typed_hash :: "key_manifest \<Rightarrow> string"
  kl_sign :: "bytes \<Rightarrow> string \<Rightarrow> string"
  kl_sha256 :: "bytes \<Rightarrow> bytes"

record key_derivation =
  kd_mlkem :: "(bytes \<times> bytes) option"
  kd_refundSignerKey :: "bytes option"
  kd_refundSignerPublicKey :: "(string \<times> string) option"
  kd_refundSignerSignatureChain :: "bytes list"
  kd_identity :: "(bytes \<times> bytes) option"
  kd_identitySignatureChain :: "bytes list"
  kd_txSigner :: "(bytes \<times> bytes) option"
  kd_appId :: "string option"
  kd_keyManifest :: "signed_key_manifest option"

definition kd_init :: key_derivation where
  "kd_init = \<lparr>kd_mlkem = None, kd_refundSignerKey = None, kd_refundSignerPublicKey = None, kd_refundSignerSignatureChain = [],
     kd_identity = None, kd_identitySignatureChain = [], kd_txSigner = None, kd_appId = None, kd_keyManifest = None\<rparr>"

definition babyJubjubPublicKey :: "key_lib \<Rightarrow> bytes \<Rightarrow> string \<times> string" where
  "babyJubjubPublicKey lib privateKey =
     (hex64 (fst (prv2pub (kl_eddsa lib) privateKey)), hex64 (snd (prv2pub (kl_eddsa lib) privateKey)))"

text \<open>The fields are assigned once everything has been derived.\<close>

definition derive :: "key_lib \<Rightarrow> agent \<Rightarrow> key_derivation \<Rightarrow> key_derivation res" where
  "derive lib ag kd =
     bind (getKey ag MLKEM_DOMAIN ''ed25519'') (\<lambda>mlkemSource.
     let mlkem = kl_mlkem_derive lib (kl_hkdf lib (gk_key mlkemSource) HKDF_SALT MLKEM_SEED_INFO 64) in
     bind (getKey ag REFUND_SIGNER_DOMAIN ''ed25519'') (\<lambda>refundSigner.
     let refundSignerKey = kl_hkdf lib (gk_key refundSigner) HKDF_SALT REFUND_SIGNER_INFO 32 in
     bind (getKey ag IDENTITY_DOMAIN ''secp256k1'') (\<lambda>identity.
     bind (kl_public lib (gk_key identity)) (\<lambda>identityPublic.
     bind (getKey ag TX_SIGNER_DOMAIN ''secp256k1'') (\<lambda>txSigner.
     bind (kl_public lib (gk_key txSigner)) (\<lambda>txPublic.
     bind (getAppId ag) (\<lambda>appId.
       Inr (kd\<lparr>kd_mlkem := Some mlkem, kd_refundSignerKey := Some refundSignerKey,
          kd_refundSignerPublicKey := Some (babyJubjubPublicKey lib refundSignerKey),
          kd_refundSignerSignatureChain := gk_signatureChain refundSigner,
          kd_identity := Some (gk_key identity, identityPublic), kd_identitySignatureChain := gk_signatureChain identity,
          kd_txSigner := Some (gk_key txSigner, txPublic), kd_appId := Some appId\<rparr>))))))))"

definition kd_onModuleInit :: "key_lib \<Rightarrow> agent \<Rightarrow> env \<Rightarrow> (key_derivation, unit) act" where
  "kd_onModuleInit lib ag env kd =
     (case isProd env of
        Inl e \<Rightarrow> (kd, Inl e)
      | Inr p \<Rightarrow>
          let production = p \<and> \<not> keysOutsideEnclaveAllowed env in
          if production \<and> isSimulator env
          then (kd, Inl (Error ''DSTACK_SIMULATOR_ENDPOINT must not be set in production: its keys are public''))
          else (case derive lib ag kd of
              Inl e \<Rightarrow> (kd, if production then Inl (Error ''Key derivation from dstack v1 GetKey failed'') else Inr ())
            | Inr kd' \<Rightarrow> (kd', Inr ())))"

definition kd_isAvailable :: "key_derivation \<Rightarrow> bool" where
  "kd_isAvailable kd = (kd_mlkem kd \<noteq> None \<and> kd_refundSignerKey kd \<noteq> None \<and> kd_identity kd \<noteq> None \<and> kd_txSigner kd \<noteq> None)"

definition getMlKemPublicKey :: "key_derivation \<Rightarrow> bytes option" where
  "getMlKemPublicKey kd = map_option fst (kd_mlkem kd)"

definition kd_decapsulate :: "key_lib \<Rightarrow> bytes \<Rightarrow> key_derivation \<Rightarrow> bytes res" where
  "kd_decapsulate lib ciphertext kd = (case kd_mlkem kd of
     None \<Rightarrow> Inl (Error ''ML-KEM keys not derived'') | Some (_, secretKey) \<Rightarrow> Inr (kl_mlkem_decap lib ciphertext secretKey))"

definition getRefundSignerPrivateKey :: "key_derivation \<Rightarrow> bytes option" where
  "getRefundSignerPrivateKey kd = kd_refundSignerKey kd"

definition getRefundSignerPublicKey :: "key_derivation \<Rightarrow> (string \<times> string) option" where
  "getRefundSignerPublicKey kd = kd_refundSignerPublicKey kd"

definition getIdentityAddress :: "key_lib \<Rightarrow> key_derivation \<Rightarrow> string option" where
  "getIdentityAddress lib kd = map_option (\<lambda>(_, pub). kl_address lib pub) (kd_identity kd)"

definition getIdentityPublicKey :: "key_derivation \<Rightarrow> bytes option" where
  "getIdentityPublicKey kd = map_option snd (kd_identity kd)"

definition getTxSignerAddress :: "key_lib \<Rightarrow> key_derivation \<Rightarrow> string option" where
  "getTxSignerAddress lib kd = map_option (\<lambda>(_, pub). kl_address lib pub) (kd_txSigner kd)"

definition getRefundSignerSignatureChain :: "key_derivation \<Rightarrow> bytes list" where
  "getRefundSignerSignatureChain kd = kd_refundSignerSignatureChain kd"

definition getIdentitySignatureChain :: "key_derivation \<Rightarrow> bytes list" where
  "getIdentitySignatureChain kd = kd_identitySignatureChain kd"

text \<open>The wallet on a provider, as the pair of the signing key and the provider.\<close>

definition getTxSigner :: "'p \<Rightarrow> key_derivation \<Rightarrow> (bytes \<times> 'p) option" where
  "getTxSigner provider kd = map_option (\<lambda>(key, _). (key, provider)) (kd_txSigner kd)"

definition sha256_text :: "(bytes \<Rightarrow> bytes) \<Rightarrow> bytes \<Rightarrow> string" where
  "sha256_text h bs = ''0x'' @ hex_of_bytes (h bs)"

definition ZeroHash :: string where
  "ZeroHash = ''0x'' @ replicate 64 (CHR ''0'')"

definition signKeyManifest :: "key_lib \<Rightarrow> string \<Rightarrow> string \<Rightarrow> nat \<Rightarrow> key_derivation \<Rightarrow> signed_key_manifest res" where
  "signKeyManifest lib appId tlsCertificateHash epoch kd =
     (case (kd_identity kd, kd_txSigner kd, kd_mlkem kd, kd_refundSignerPublicKey kd) of
        (Some (idKey, _), Some (_, txPublic), Some (mlkemPublic, _), Some (rx, ry)) \<Rightarrow>
          let manifest = \<lparr>km_appId = appId, km_mlkemPublicKeyHash = sha256_text (kl_sha256 lib) mlkemPublic,
                km_refundSignerX = rx, km_refundSignerY = ry, km_tlsCertificateHash = tlsCertificateHash,
                km_txSignerAddress = kl_address lib txPublic, km_epoch = epoch\<rparr>
          in Inr \<lparr>sk_manifest = manifest, sk_signature = kl_sign lib idKey (kl_typed_hash lib manifest)\<rparr>
      | _ \<Rightarrow> Inl (Error ''Keys not derived''))"

definition served_hash :: "key_lib \<Rightarrow> bytes option \<Rightarrow> string" where
  "served_hash lib cert = (case cert of None \<Rightarrow> ZeroHash | Some c \<Rightarrow> sha256_text (kl_sha256 lib) c)"

definition getKeyManifest :: "key_lib \<Rightarrow> bytes option \<Rightarrow> (key_derivation, signed_key_manifest option) act" where
  "getKeyManifest lib cert kd =
     (case kd_appId kd of
        None \<Rightarrow> (kd, Inr None)
      | Some appId \<Rightarrow>
          if appId = [] then (kd, Inr None)
          else if map_option (\<lambda>s. km_tlsCertificateHash (sk_manifest s)) (kd_keyManifest kd) \<noteq> Some (served_hash lib cert)
          then (case signKeyManifest lib appId (served_hash lib cert) 1 kd of
              Inl e \<Rightarrow> (kd, Inl e)
            | Inr s \<Rightarrow> (kd\<lparr>kd_keyManifest := Some s\<rparr>, Inr (Some s)))
          else (kd, Inr (kd_keyManifest kd)))"

section \<open>The ML-KEM key manager\<close>

record tee_keys =
  tk_publicKey :: "bytes option"
  tk_envPrivateKey :: "bytes option"
  tk_derived :: bool

definition tk_init :: tee_keys where
  "tk_init = \<lparr>tk_publicKey = None, tk_envPrivateKey = None, tk_derived = False\<rparr>"

definition initializeEnvKeys :: "env \<Rightarrow> (tee_keys, unit) act" where
  "initializeEnvKeys env tk =
     (if \<not> is_set env ''ADMIN_MLKEM_PUBLIC_KEY'' \<or> \<not> is_set env ''ADMIN_MLKEM_PRIVATE_KEY'' then (tk, Inr ())
      else let publicKey = b64_decode (the (jm_get env ''ADMIN_MLKEM_PUBLIC_KEY''));
               privateKey = b64_decode (the (jm_get env ''ADMIN_MLKEM_PRIVATE_KEY'')) in
        if length publicKey \<noteq> 1568
        then (tk, Inl (Error (''Invalid ML-KEM-1024 public key size: '' @ dec_of_nat (length publicKey) @ '' (expected 1568)'')))
        else if length privateKey \<noteq> 3168
        then (tk, Inl (Error (''Invalid ML-KEM-1024 private key size: '' @ dec_of_nat (length privateKey) @ '' (expected 3168)'')))
        else (tk\<lparr>tk_publicKey := Some publicKey, tk_envPrivateKey := Some privateKey\<rparr>, Inr ()))"

definition tk_onModuleInit :: "env \<Rightarrow> key_derivation \<Rightarrow> (tee_keys, unit) act" where
  "tk_onModuleInit env kd tk = (case getMlKemPublicKey kd of
     Some pub \<Rightarrow> (tk\<lparr>tk_publicKey := Some pub, tk_derived := True\<rparr>, Inr ())
   | None \<Rightarrow> initializeEnvKeys env tk)"

definition tk_getPublicKey :: "tee_keys \<Rightarrow> string option" where
  "tk_getPublicKey tk = map_option b64_encode (tk_publicKey tk)"

definition getPublicKeyBytes :: "tee_keys \<Rightarrow> bytes option" where
  "getPublicKeyBytes tk = tk_publicKey tk"

definition tk_decapsulate :: "key_lib \<Rightarrow> bytes \<Rightarrow> key_derivation \<Rightarrow> tee_keys \<Rightarrow> bytes res" where
  "tk_decapsulate lib ciphertext kd tk =
     (if tk_derived tk then kd_decapsulate lib ciphertext kd
      else case tk_envPrivateKey tk of
          None \<Rightarrow> Inl (Error ''ML-KEM encryption not initialized'')
        | Some key \<Rightarrow> Inr (kl_mlkem_decap lib ciphertext key))"

definition tk_isAvailable :: "tee_keys \<Rightarrow> bool" where
  "tk_isAvailable tk = (tk_derived tk \<or> tk_envPrivateKey tk \<noteq> None)"

definition isTeeMode :: "tee_keys \<Rightarrow> bool" where
  "isTeeMode tk = tk_derived tk"

section \<open>Facts\<close>

lemma derive_ok:
  assumes "derive lib ag kd = Inr kd'"
  shows "\<exists>m r i t. getKey ag MLKEM_DOMAIN ''ed25519'' = Inr m \<and> getKey ag REFUND_SIGNER_DOMAIN ''ed25519'' = Inr r
    \<and> getKey ag IDENTITY_DOMAIN ''secp256k1'' = Inr i \<and> getKey ag TX_SIGNER_DOMAIN ''secp256k1'' = Inr t
    \<and> kd_mlkem kd' = Some (kl_mlkem_derive lib (kl_hkdf lib (gk_key m) HKDF_SALT MLKEM_SEED_INFO 64))
    \<and> kd_refundSignerKey kd' = Some (kl_hkdf lib (gk_key r) HKDF_SALT REFUND_SIGNER_INFO 32)
    \<and> map_option fst (kd_identity kd') = Some (gk_key i) \<and> map_option fst (kd_txSigner kd') = Some (gk_key t)
    \<and> kd_refundSignerPublicKey kd' = Some (babyJubjubPublicKey lib (kl_hkdf lib (gk_key r) HKDF_SALT REFUND_SIGNER_INFO 32))
    \<and> kd_keyManifest kd' = kd_keyManifest kd \<and> kd_appId kd' \<noteq> None"
  using assms by (auto simp: derive_def Let_def bind_eq_Inr)

text \<open>C31 In production, and without the compose opt-out, the keys come from the KMS or start-up fails: when
  the service starts, the agent is not the simulator and the ML-KEM, refund, identity and transaction
  keys are the ones the KMS returned for their own domains, the first two through HKDF.\<close>

theorem production_keys_from_kms:
  assumes "isProd env = Inr True" "\<not> keysOutsideEnclaveAllowed env" "kd_onModuleInit lib ag env kd_init = (kd, Inr ())"
  shows "\<not> isSimulator env \<and> kd_isAvailable kd
    \<and> (\<exists>m r i t. getKey ag MLKEM_DOMAIN ''ed25519'' = Inr m \<and> getKey ag REFUND_SIGNER_DOMAIN ''ed25519'' = Inr r
       \<and> getKey ag IDENTITY_DOMAIN ''secp256k1'' = Inr i \<and> getKey ag TX_SIGNER_DOMAIN ''secp256k1'' = Inr t
       \<and> kd_mlkem kd = Some (kl_mlkem_derive lib (kl_hkdf lib (gk_key m) HKDF_SALT MLKEM_SEED_INFO 64))
       \<and> getRefundSignerPrivateKey kd = Some (kl_hkdf lib (gk_key r) HKDF_SALT REFUND_SIGNER_INFO 32)
       \<and> map_option fst (kd_identity kd) = Some (gk_key i) \<and> map_option fst (kd_txSigner kd) = Some (gk_key t))"
proof -
  have d: "derive lib ag kd_init = Inr kd" and s: "\<not> isSimulator env"
    using assms by (auto simp: kd_onModuleInit_def Let_def split: if_splits sum.splits)
  from derive_ok [OF d] s show ?thesis by (fastforce simp: kd_isAvailable_def getRefundSignerPrivateKey_def)
qed

text \<open>The cached manifest is always the one the current keys sign for the certificate it names.\<close>

definition manifest_inv :: "key_lib \<Rightarrow> key_derivation \<Rightarrow> bool" where
  "manifest_inv lib kd \<longleftrightarrow> (\<forall>s. kd_keyManifest kd = Some s \<longrightarrow>
     (\<exists>appId. kd_appId kd = Some appId \<and> signKeyManifest lib appId (km_tlsCertificateHash (sk_manifest s)) 1 kd = Inr s))"

lemma signKeyManifest_hash:
  "signKeyManifest lib appId h n kd = Inr s \<Longrightarrow> km_tlsCertificateHash (sk_manifest s) = h"
  by (auto simp: signKeyManifest_def Let_def split: option.splits prod.splits)

lemma signKeyManifest_cache [simp]: "signKeyManifest lib appId h n (kd\<lparr>kd_keyManifest := m\<rparr>) = signKeyManifest lib appId h n kd"
  by (simp add: signKeyManifest_def)

inductive manifest_run :: "key_lib \<Rightarrow> key_derivation \<Rightarrow> key_derivation \<Rightarrow> bool" for lib kd0 where
  start: "kd_keyManifest kd0 = None \<Longrightarrow> manifest_run lib kd0 kd0"
| ask: "manifest_run lib kd0 kd \<Longrightarrow> getKeyManifest lib cert kd = (kd', r) \<Longrightarrow> manifest_run lib kd0 kd'"

lemma getKeyManifest_keys:
  "getKeyManifest lib cert kd = (kd', r) \<Longrightarrow> kd' = kd\<lparr>kd_keyManifest := kd_keyManifest kd'\<rparr>"
  by (auto simp: getKeyManifest_def split: option.splits if_splits sum.splits)

lemma manifest_inv_ask:
  assumes "manifest_inv lib kd" "getKeyManifest lib cert kd = (kd', r)"
  shows "manifest_inv lib kd'"
  using assms signKeyManifest_hash
  by (fastforce simp: getKeyManifest_def manifest_inv_def split: option.splits if_splits sum.splits)

lemma manifest_run_keys: "manifest_run lib kd0 kd \<Longrightarrow> kd = kd0\<lparr>kd_keyManifest := kd_keyManifest kd\<rparr> \<and> manifest_inv lib kd"
proof (induction rule: manifest_run.induct)
  case start
  then show ?case by (simp add: manifest_inv_def)
next
  case (ask kd cert kd' r)
  have "kd' = kd0\<lparr>kd_keyManifest := kd_keyManifest kd'\<rparr>"
    using ask.IH getKeyManifest_keys [OF ask.hyps(2)] by (metis key_derivation.surjective key_derivation.update_convs(9))
  then show ?case using ask.IH manifest_inv_ask ask.hyps(2) by blast
qed

text \<open>The key manifest follows the certificate: after any sequence of requests for it, under any changes
  of the served certificate, asking for the manifest returns exactly what the derived keys sign for the
  certificate served now.\<close>

theorem manifest_is_current:
  assumes "manifest_run lib kd0 kd" "kd_appId kd0 = Some appId" "appId \<noteq> []"
  shows "snd (getKeyManifest lib cert kd) = bind (signKeyManifest lib appId (served_hash lib cert) 1 kd0) (\<lambda>s. Inr (Some s))"
proof -
  from manifest_run_keys [OF assms(1)] have kd: "kd = kd0\<lparr>kd_keyManifest := kd_keyManifest kd\<rparr>" "manifest_inv lib kd" by simp_all
  have sg: "signKeyManifest lib a h n kd = signKeyManifest lib a h n kd0" for a h n
    by (subst kd(1)) simp
  have a: "kd_appId kd = Some appId" by (subst kd(1)) (simp add: assms(2))
  show ?thesis
  proof (cases "map_option (\<lambda>s. km_tlsCertificateHash (sk_manifest s)) (kd_keyManifest kd) = Some (served_hash lib cert)")
    case True
    then obtain s where "kd_keyManifest kd = Some s" "km_tlsCertificateHash (sk_manifest s) = served_hash lib cert" by auto
    with kd(2) a have "signKeyManifest lib appId (served_hash lib cert) 1 kd = Inr s" by (auto simp: manifest_inv_def)
    with True a \<open>kd_keyManifest kd = Some s\<close> assms(3) show ?thesis by (simp add: getKeyManifest_def sg)
  next
    case False
    then show ?thesis using a assms(3) by (auto simp: getKeyManifest_def sg split: sum.split)
  qed
qed

text \<open>An agent that returns the same key for every domain.\<close>

definition toy_key_lib :: key_lib where
  "toy_key_lib = \<lparr>kl_hkdf = \<lambda>k s i n. take n (k @ replicate n 0), kl_mlkem_derive = \<lambda>s. (s, s), kl_mlkem_decap = \<lambda>c k. c,
     kl_eddsa = toy_eddsa, kl_public = \<lambda>k. Inr k, kl_address = \<lambda>k. ''0xa'', kl_typed_hash = \<lambda>m. km_tlsCertificateHash m,
     kl_sign = \<lambda>k d. d, kl_sha256 = toy_sha\<rparr>"

definition toy_agent :: agent where
  "toy_agent = \<lparr>ag_http = \<lambda>p b. Inr (200, p), ag_parse = \<lambda>t. Inr (JObj [(''key'', JStr ''0102''), (''public_key'', JStr ''03''),
     (''signature_chain'', JArr []), (''app_id'', JStr ''0x1'')]), ag_x509_raw = \<lambda>_. Inl TypeError, ag_getAddress = \<lambda>a. Inr a\<rparr>"

lemma toy_derive:
  obtains kd where "derive toy_key_lib toy_agent kd_init = Inr kd" "kd_appId kd = Some ''0x1''" "kd_keyManifest kd = None"
proof -
  have h: "decodeHex ''key'' (Some (JStr ''0102'')) = Inr [1, 2]" "decodeHex ''public_key'' (Some (JStr ''03'')) = Inr [3]"
    "strip0x ''0x1'' = ''1''" "startsWith ''0x1'' ''0x''" by code_simp+
  have "\<exists>kd. derive toy_key_lib toy_agent kd_init = Inr kd \<and> kd_appId kd = Some ''0x1'' \<and> kd_keyManifest kd = None"
    by (simp add: derive_def getKey_def getAppId_def agent_call_def toy_agent_def toy_key_lib_def h Let_def kd_init_def)
  with that show thesis by blast
qed

lemma toy_prod_env:
  "isProd [(''NODE_ENV'', ''production'')] = Inr True" "\<not> keysOutsideEnclaveAllowed [(''NODE_ENV'', ''production'')]"
  "\<not> isSimulator [(''NODE_ENV'', ''production'')]"
  by code_simp+

theorem production_keys_from_kms_witness:
  "\<exists>kd. kd_onModuleInit toy_key_lib toy_agent [(''NODE_ENV'', ''production'')] kd_init = (kd, Inr ()) \<and> kd_isAvailable kd"
proof -
  obtain kd where "derive toy_key_lib toy_agent kd_init = Inr kd" by (rule toy_derive)
  then have "kd_onModuleInit toy_key_lib toy_agent [(''NODE_ENV'', ''production'')] kd_init = (kd, Inr ())"
    using toy_prod_env by (simp add: kd_onModuleInit_def)
  with production_keys_from_kms [OF toy_prod_env(1,2) this] show ?thesis by blast
qed

theorem manifest_is_current_witness:
  "\<exists>kd s. manifest_run toy_key_lib kd kd \<and> snd (getKeyManifest toy_key_lib (Some [7]) kd) = Inr (Some s)"
proof -
  obtain kd where kd: "derive toy_key_lib toy_agent kd_init = Inr kd" "kd_appId kd = Some ''0x1''" "kd_keyManifest kd = None"
    by (rule toy_derive)
  have r: "manifest_run toy_key_lib kd kd" using kd(3) by (rule manifest_run.start)
  obtain s where "signKeyManifest toy_key_lib ''0x1'' (served_hash toy_key_lib (Some [7])) 1 kd = Inr s"
    using derive_ok [OF kd(1)] by (auto simp: signKeyManifest_def babyJubjubPublicKey_def split_beta Let_def split: option.split)
  with manifest_is_current [OF r kd(2), of "Some [7]"] r show ?thesis by auto
qed

end
