(* ===== verification/TdxQuote.thy ===== *)
theory TdxQuote
  imports JsText JsNumber
begin

text \<open>
  \<open>src/src/attestation/tdx-quote.ts\<close> and the quote reader of
  \<open>src/src/attestation/platforms/phala.platform.ts\<close>: the fields of a TDX quote and the replay of the
  event log into the four run-time measurement registers.

  SHA-384 is the parameter \<open>sha384\<close>, and reading the text of the log as a list of events is
  \<open>parse_log\<close> (\<open>JSON.parse\<close>, which throws, or gives something that is not an array).  The cast to
  \<open>TdxEvent[]\<close> checks nothing, so every field of an entry may be missing or have another type, which is
  \<open>None\<close>; an entry that is no object has no field.  Texts that are hashed are ASCII.

  Shown: a log that matches a quote determines the digests extended into each register, up to a
  SHA-384 collision or a preimage of the initial register; but the name and the payload of an event
  that is not a dstack runtime event are not determined at all, and the compose hash is read from the
  first event of that name whatever its type.
\<close>

section \<open>The quote\<close>

definition QUOTE_HEADER_LENGTH :: nat where "QUOTE_HEADER_LENGTH = 48"
definition MEASUREMENT_LENGTH :: nat where "MEASUREMENT_LENGTH = 48"
definition TDX_QUOTE_MRTD_OFFSET :: nat where "TDX_QUOTE_MRTD_OFFSET = QUOTE_HEADER_LENGTH + 136"
definition TDX_QUOTE_RTMR_OFFSETS :: "nat list" where
  "TDX_QUOTE_RTMR_OFFSETS = map (\<lambda>offset. QUOTE_HEADER_LENGTH + offset) [328, 376, 424, 472]"
definition TDX_QUOTE_BODY_END :: nat where "TDX_QUOTE_BODY_END = QUOTE_HEADER_LENGTH + 584"
definition DSTACK_RUNTIME_EVENT_TYPE :: nat where "DSTACK_RUNTIME_EVENT_TYPE = 134217729"

definition TDX_REPORT_DATA_OFFSET :: nat where "TDX_REPORT_DATA_OFFSET = 48 + 520"
definition TDX_REPORT_DATA_LENGTH :: nat where "TDX_REPORT_DATA_LENGTH = 64"

record tdx_event =
  ev_imr :: "jsnum option"
  ev_event_type :: "nat option"
  ev_digest :: "string option"
  ev_event :: "string option"
  ev_event_payload :: "string option"

record tdx_measurements =
  tm_mrtd :: string
  tm_rtmrs :: "string list"

text \<open>\<open>subarray\<close>\<close>

definition subarray :: "nat \<Rightarrow> nat \<Rightarrow> bytes \<Rightarrow> bytes" where
  "subarray lo hi bs = take (hi - lo) (drop lo bs)"

definition too_short :: "bytes \<Rightarrow> exn" where
  "too_short quote = Error (''TDX quote too short: '' @ dec_of_nat (length quote) @ '' bytes'')"

definition measurement :: "bytes \<Rightarrow> nat \<Rightarrow> string" where
  "measurement quote offset = hex_of_bytes (subarray offset (offset + MEASUREMENT_LENGTH) quote)"

definition parseTdxMeasurements :: "bytes \<Rightarrow> tdx_measurements res" where
  "parseTdxMeasurements quote =
     (if length quote < TDX_QUOTE_BODY_END then Inl (too_short quote)
      else Inr \<lparr>tm_mrtd = measurement quote TDX_QUOTE_MRTD_OFFSET, tm_rtmrs = map (measurement quote) TDX_QUOTE_RTMR_OFFSETS\<rparr>)"

definition tdxQuoteReportData :: "bytes \<Rightarrow> bytes res" where
  "tdxQuoteReportData quote =
     (let stop = TDX_REPORT_DATA_OFFSET + TDX_REPORT_DATA_LENGTH in
      if length quote < stop then Inl (too_short quote) else Inr (subarray TDX_REPORT_DATA_OFFSET stop quote))"

section \<open>The event log\<close>

text \<open>\<open>update\<close> and \<open>Buffer.from\<close> throw on what is not a text.\<close>

definition runtimeEventDigest :: "(bytes \<Rightarrow> bytes) \<Rightarrow> tdx_event \<Rightarrow> bytes res" where
  "runtimeEventDigest sha384 event =
     (case (ev_event_type event, ev_event event, ev_event_payload event) of
        (Some t, Some name, Some payload) \<Rightarrow>
          Inr (sha384 (uint32_le t @ ascii_bytes '':'' @ ascii_bytes name @ ascii_bytes '':'' @ bytes_of_hex payload))
      | _ \<Rightarrow> Inl TypeError)"

definition zeros :: "nat \<Rightarrow> bytes" where
  "zeros n = replicate n 0"

definition padded :: "bytes \<Rightarrow> bytes" where
  "padded digest = digest @ zeros (MEASUREMENT_LENGTH - length digest)"

text \<open>The register an event extends.\<close>

definition imr_index :: "tdx_event \<Rightarrow> nat option" where
  "imr_index event = (case ev_imr event of
     Some (Fin a) \<Rightarrow> if of_int \<lfloor>a\<rfloor> = a \<and> 0 \<le> a \<and> a \<le> 3 then Some (nat \<lfloor>a\<rfloor>) else None | _ \<Rightarrow> None)"

definition check_event :: "(bytes \<Rightarrow> bytes) \<Rightarrow> tdx_event \<Rightarrow> (nat \<times> bytes) res" where
  "check_event sha384 event =
     (case (imr_index event, ev_digest event) of
        (None, _) \<Rightarrow> Inl (Error ''Event extends an unknown RTMR'')
      | (Some i, None) \<Rightarrow> Inl TypeError
      | (Some i, Some hex) \<Rightarrow>
          let digest = bytes_of_hex hex in
          if length digest > MEASUREMENT_LENGTH then Inl (Error ''Event digest is longer than 48 bytes'')
          else if ev_event_type event = Some DSTACK_RUNTIME_EVENT_TYPE
          then bind (runtimeEventDigest sha384 event) (\<lambda>own.
            if digest \<noteq> own
            then Inl (Error (''Runtime event '' @ (case ev_event event of None \<Rightarrow> ''undefined'' | Some name \<Rightarrow> name) @ '' does not match its digest''))
            else Inr (i, digest))
          else Inr (i, digest))"

fun replay_loop :: "(bytes \<Rightarrow> bytes) \<Rightarrow> tdx_event list \<Rightarrow> bytes list \<Rightarrow> bytes list res" where
  "replay_loop sha384 [] rtmrs = Inr rtmrs"
| "replay_loop sha384 (event # events) rtmrs =
     bind (check_event sha384 event) (\<lambda>(i, digest).
       replay_loop sha384 events (rtmrs[i := sha384 (rtmrs ! i @ padded digest)]))"

definition replayRtmrs :: "(bytes \<Rightarrow> bytes) \<Rightarrow> (string \<Rightarrow> tdx_event list res) \<Rightarrow> string \<Rightarrow> string list res" where
  "replayRtmrs sha384 parse_log eventLog =
     bind (parse_log eventLog) (\<lambda>events.
     bind (replay_loop sha384 events (replicate 4 (zeros MEASUREMENT_LENGTH))) (\<lambda>rtmrs. Inr (map hex_of_bytes rtmrs)))"

definition verifyEventLog :: "(bytes \<Rightarrow> bytes) \<Rightarrow> (string \<Rightarrow> tdx_event list res) \<Rightarrow> bytes \<Rightarrow> string \<Rightarrow> string list res" where
  "verifyEventLog sha384 parse_log quote eventLog =
     bind (parseTdxMeasurements quote) (\<lambda>m.
       Inr (case replayRtmrs sha384 parse_log eventLog of
           Inl e \<Rightarrow> [''The event log cannot be replayed: '' @ exn_text e]
         | Inr replayed \<Rightarrow> concat (map (\<lambda>i. if tm_rtmrs m ! i = replayed ! i then []
             else [''RTMR'' @ dec_of_nat i @ '' does not match the event log'']) [0..<length (tm_rtmrs m)])))"

text \<open>\<open>normalizeHash\<close> and \<open>composeHashFromEventLog\<close> of \<open>src/src/attestation/app-governance.ts\<close>.\<close>

definition normalizeHash :: "string \<Rightarrow> string" where
  "normalizeHash hash = ''0x'' @ toLowerCase (if startsWith hash ''0x'' then drop 2 hash else hash)"

definition composeHashFromEventLog :: "(string \<Rightarrow> tdx_event list res) \<Rightarrow> string \<Rightarrow> string option" where
  "composeHashFromEventLog parse_log eventLog =
     (case parse_log eventLog of
        Inl _ \<Rightarrow> None
      | Inr events \<Rightarrow> (case List.find (\<lambda>e. ev_event e = Some ''compose-hash'') events of
            None \<Rightarrow> None
          | Some e \<Rightarrow> (case ev_event_payload e of
              None \<Rightarrow> None
            | Some payload \<Rightarrow> if payload = [] then None else Some (normalizeHash payload))))"

section \<open>A chain of hashes\<close>

fun chain :: "(bytes \<Rightarrow> bytes) \<Rightarrow> bytes \<Rightarrow> bytes list \<Rightarrow> bytes" where
  "chain sha r [] = r"
| "chain sha r (d # ds) = chain sha (sha (r @ d)) ds"

text \<open>What was hashed on the way.\<close>

fun chain_inputs :: "(bytes \<Rightarrow> bytes) \<Rightarrow> bytes \<Rightarrow> bytes list \<Rightarrow> bytes set" where
  "chain_inputs sha r [] = {}"
| "chain_inputs sha r (d # ds) = insert (r @ d) (chain_inputs sha (sha (r @ d)) ds)"

lemma chain_snoc [simp]: "chain sha r (ds @ [d]) = sha (chain sha r ds @ d)"
  by (induction ds arbitrary: r) simp_all

lemma chain_inputs_snoc [simp]: "chain_inputs sha r (ds @ [d]) = insert (chain sha r ds @ d) (chain_inputs sha r ds)"
  by (induction ds arbitrary: r) auto

lemma chain_injective:
  assumes "chain sha z ds = chain sha z es" "\<forall>d \<in> set ds \<union> set es. length d = n"
  shows "ds = es
    \<or> (\<exists>x \<in> chain_inputs sha z ds. \<exists>y \<in> chain_inputs sha z es. x \<noteq> y \<and> sha x = sha y)
    \<or> (\<exists>x \<in> chain_inputs sha z ds \<union> chain_inputs sha z es. sha x = z)"
  using assms
proof (induction ds arbitrary: es rule: rev_induct)
  case Nil
  then show ?case by (cases es rule: rev_cases) auto
next
  case (snoc d ds)
  show ?case
  proof (cases es rule: rev_cases)
    case Nil
    with snoc.prems show ?thesis by auto
  next
    case (snoc es' e)
    let ?x = "chain sha z ds @ d" and ?y = "chain sha z es' @ e"
    have eq: "sha ?x = sha ?y" using snoc.prems(1) snoc by simp
    show ?thesis
    proof (cases "?x = ?y")
      case False
      with eq snoc show ?thesis by auto
    next
      case True
      moreover have "length d = length e" using snoc.prems(2) snoc by simp
      ultimately have "chain sha z ds = chain sha z es'" "d = e" by simp_all
      with snoc.IH [of es'] snoc.prems(2) snoc show ?thesis by auto
    qed
  qed
qed

text \<open>The digests an event log extends a register with, in order.\<close>

definition digests :: "nat \<Rightarrow> tdx_event list \<Rightarrow> bytes list" where
  "digests i events = map (\<lambda>e. padded (case ev_digest e of None \<Rightarrow> [] | Some hex \<Rightarrow> bytes_of_hex hex)) (filter (\<lambda>e. imr_index e = Some i) events)"

lemma imr_index_bound: "imr_index e = Some i \<Longrightarrow> i < 4"
  unfolding imr_index_def by (auto split: option.splits jsnum.splits if_splits)

lemma check_event_ok:
  assumes "check_event sha384 e = Inr (i, d)"
  shows "imr_index e = Some i" "length (padded d) = MEASUREMENT_LENGTH" "i < 4" "\<exists>hex. ev_digest e = Some hex \<and> d = bytes_of_hex hex"
proof -
  from assms obtain hex where "imr_index e = Some i" "ev_digest e = Some hex" "d = bytes_of_hex hex" "length d \<le> MEASUREMENT_LENGTH"
    unfolding check_event_def Let_def
    by (cases "imr_index e"; cases "ev_digest e") (auto simp: bind_eq_Inr not_less split: if_splits)
  then show "imr_index e = Some i" "length (padded d) = MEASUREMENT_LENGTH" "i < 4" "\<exists>hex. ev_digest e = Some hex \<and> d = bytes_of_hex hex"
    by (simp_all add: padded_def zeros_def imr_index_bound)
qed

lemma replay_loop_chain:
  assumes "replay_loop sha384 events rtmrs = Inr rtmrs'" "length rtmrs = 4" "i < 4"
  shows "length rtmrs' = 4 \<and> rtmrs' ! i = chain sha384 (rtmrs ! i) (digests i events)
    \<and> (\<forall>d \<in> set (digests i events). length d = MEASUREMENT_LENGTH)"
  using assms
proof (induction sha384 events rtmrs rule: replay_loop.induct)
  case (1 sha384 rtmrs)
  then show ?case by (simp add: digests_def)
next
  case (2 sha384 event events rtmrs)
  from "2.prems"(1) obtain j d where j: "check_event sha384 event = Inr (j, d)"
    and rest: "replay_loop sha384 events (rtmrs[j := sha384 (rtmrs ! j @ padded d)]) = Inr rtmrs'"
    by (auto simp: bind_eq_Inr)
  note c = check_event_ok [OF j]
  from "2.IH" [OF rest] "2.prems"(2,3)
  have ih: "length rtmrs' = 4 \<and> rtmrs' ! i =
      chain sha384 (rtmrs[j := sha384 (rtmrs ! j @ padded d)] ! i) (digests i events)
      \<and> (\<forall>d \<in> set (digests i events). length d = MEASUREMENT_LENGTH)" by simp
  show ?case
    using ih c "2.prems"(2,3) by (cases "j = i") (auto simp: digests_def)
qed

lemma verifyEventLog_ok:
  assumes "verifyEventLog sha384 parse_log quote eventLog = Inr []" "parse_log eventLog = Inr events" "i < 4"
  shows "measurement quote (TDX_QUOTE_RTMR_OFFSETS ! i) = hex_of_bytes (chain sha384 (zeros MEASUREMENT_LENGTH) (digests i events))"
    "\<forall>d \<in> set (digests i events). length d = MEASUREMENT_LENGTH"
proof -
  from assms(1,2) obtain rtmrs where r: "replay_loop sha384 events (replicate 4 (zeros MEASUREMENT_LENGTH)) = Inr rtmrs"
    and m: "\<forall>i \<in> {0..<length TDX_QUOTE_RTMR_OFFSETS}. map (measurement quote) TDX_QUOTE_RTMR_OFFSETS ! i = map hex_of_bytes rtmrs ! i"
    by (cases "replay_loop sha384 events (replicate 4 (zeros MEASUREMENT_LENGTH))")
      (auto simp: verifyEventLog_def replayRtmrs_def parseTdxMeasurements_def split: if_splits)
  from replay_loop_chain [OF r _ assms(3)] assms(3)
  have "length rtmrs = 4" "rtmrs ! i = chain sha384 (zeros MEASUREMENT_LENGTH) (digests i events)"
    "\<forall>d \<in> set (digests i events). length d = MEASUREMENT_LENGTH" by simp_all
  moreover have "length TDX_QUOTE_RTMR_OFFSETS = 4" by (simp add: TDX_QUOTE_RTMR_OFFSETS_def)
  ultimately show "measurement quote (TDX_QUOTE_RTMR_OFFSETS ! i) = hex_of_bytes (chain sha384 (zeros MEASUREMENT_LENGTH) (digests i events))"
    "\<forall>d \<in> set (digests i events). length d = MEASUREMENT_LENGTH" using m assms(3) by simp_all
qed

text \<open>C32 A quote determines what its event log extended: two logs that match the same quote extend each
  register with the same digests in the same order, unless two of the values hashed during the
  replays collide under SHA-384 or one of them hashes to the initial register.\<close>

theorem event_log_determined:
  assumes "verifyEventLog sha384 parse_log quote log1 = Inr []" "verifyEventLog sha384 parse_log quote log2 = Inr []"
    "parse_log log1 = Inr events1" "parse_log log2 = Inr events2" "i < 4"
  shows "digests i events1 = digests i events2
    \<or> (\<exists>x \<in> chain_inputs sha384 (zeros MEASUREMENT_LENGTH) (digests i events1).
        \<exists>y \<in> chain_inputs sha384 (zeros MEASUREMENT_LENGTH) (digests i events2). x \<noteq> y \<and> sha384 x = sha384 y)
    \<or> (\<exists>x \<in> chain_inputs sha384 (zeros MEASUREMENT_LENGTH) (digests i events1)
          \<union> chain_inputs sha384 (zeros MEASUREMENT_LENGTH) (digests i events2). sha384 x = zeros MEASUREMENT_LENGTH)"
proof (rule chain_injective)
  from verifyEventLog_ok(1) [OF assms(1,3,5)] verifyEventLog_ok(1) [OF assms(2,4,5)]
  show "chain sha384 (zeros MEASUREMENT_LENGTH) (digests i events1) = chain sha384 (zeros MEASUREMENT_LENGTH) (digests i events2)"
    by simp
  show "\<forall>d \<in> set (digests i events1) \<union> set (digests i events2). length d = MEASUREMENT_LENGTH"
    using verifyEventLog_ok(2) [OF assms(1,3,5)] verifyEventLog_ok(2) [OF assms(2,4,5)] by blast
qed

text \<open>C40 The compose hash of a verified log can be chosen freely: in a log that matches its quote, renaming
  any event that is not a dstack runtime event to \<open>compose-hash\<close>, with any payload, still matches the
  quote, and when no earlier event has that name the new payload is what is read as the compose hash.\<close>

theorem compose_hash_forgeable:
  assumes "verifyEventLog sha384 parse_log quote log1 = Inr []" "parse_log log1 = Inr (pre @ e # post)"
    "ev_event_type e \<noteq> Some DSTACK_RUNTIME_EVENT_TYPE" "\<forall>x \<in> set pre. ev_event x \<noteq> Some ''compose-hash''" "payload \<noteq> []"
    "parse_log log2 = Inr (pre @ e\<lparr>ev_event := Some ''compose-hash'', ev_event_payload := Some payload\<rparr> # post)"
  shows "verifyEventLog sha384 parse_log quote log2 = Inr []
    \<and> composeHashFromEventLog parse_log log2 = Some (normalizeHash payload)"
proof -
  let ?e = "e\<lparr>ev_event := Some ''compose-hash'', ev_event_payload := Some payload\<rparr>"
  have ce: "check_event sha384 ?e = check_event sha384 e"
    using assms(3) by (simp add: check_event_def imr_index_def cong: option.case_cong if_cong)
  have "replay_loop sha384 (pre @ ?e # post) rtmrs = replay_loop sha384 (pre @ e # post) rtmrs" for rtmrs
    by (induction pre arbitrary: rtmrs) (simp_all add: ce)
  then have "verifyEventLog sha384 parse_log quote log2 = verifyEventLog sha384 parse_log quote log1"
    by (simp add: verifyEventLog_def replayRtmrs_def assms(2,6))
  moreover have "List.find (\<lambda>e. ev_event e = Some ''compose-hash'') (pre @ ?e # post) = Some ?e"
    using assms(4) by (induction pre) auto
  ultimately show ?thesis using assms(1,5,6) by (simp add: composeHashFromEventLog_def)
qed

text \<open>A toy log for both: one boot event in register 0, under a hash that gives 48 zero bytes.\<close>

definition boot_event :: tdx_event where
  "boot_event = \<lparr>ev_imr = Some (Fin 0), ev_event_type = Some 1, ev_digest = Some ''ab'', ev_event = Some ''boot'', ev_event_payload = Some []\<rparr>"

definition toy_parse :: "string \<Rightarrow> tdx_event list res" where
  "toy_parse l = Inr [if l = ''forged'' then boot_event\<lparr>ev_event := Some ''compose-hash'', ev_event_payload := Some ''cd''\<rparr> else boot_event]"

lemma subarray_zeros [simp]: "subarray lo hi (zeros n) = zeros (min (hi - lo) (n - lo))"
  by (simp add: subarray_def zeros_def min.commute)

lemma toy_replay: "replay_loop (\<lambda>_. zeros 48) [boot_event] (replicate 4 (zeros 48)) = Inr (replicate 4 (zeros 48))"
proof -
  have "length (bytes_of_hex ''ab'') \<le> 48" by simp
  then have "check_event (\<lambda>_. zeros 48) boot_event = Inr (0, bytes_of_hex ''ab'')"
    by (simp add: check_event_def imr_index_def boot_event_def MEASUREMENT_LENGTH_def DSTACK_RUNTIME_EVENT_TYPE_def)
  then show ?thesis by (simp add: numeral_eq_Suc)
qed

lemma toy_log: "verifyEventLog (\<lambda>_. zeros 48) toy_parse (zeros 632) ''log'' = Inr []"
proof -
  have "measurement (zeros 632) (TDX_QUOTE_RTMR_OFFSETS ! i) = hex_of_bytes (zeros 48)" if "i < 4" for i
  proof -
    from that have "i = 0 \<or> i = 1 \<or> i = 2 \<or> i = 3" by arith
    then show ?thesis
      by (auto simp: measurement_def MEASUREMENT_LENGTH_def TDX_QUOTE_RTMR_OFFSETS_def QUOTE_HEADER_LENGTH_def simp del: hex_of_bytes_inject)
  qed
  moreover have "length TDX_QUOTE_RTMR_OFFSETS = 4" by (simp add: TDX_QUOTE_RTMR_OFFSETS_def)
  moreover have "length (zeros 632) = 632" by (simp add: zeros_def)
  ultimately show ?thesis
    by (simp add: verifyEventLog_def parseTdxMeasurements_def replayRtmrs_def toy_parse_def toy_replay MEASUREMENT_LENGTH_def
        TDX_QUOTE_BODY_END_def QUOTE_HEADER_LENGTH_def del: replay_loop.simps)
qed

theorem event_log_determined_witness:
  "digests 0 [boot_event] = digests 0 [boot_event]
    \<and> verifyEventLog (\<lambda>_. zeros 48) toy_parse (zeros 632) ''log'' = Inr []"
  using event_log_determined [OF toy_log toy_log, of "[boot_event]" "[boot_event]" 0] toy_log by (simp add: toy_parse_def)

theorem compose_hash_forgeable_witness:
  "verifyEventLog (\<lambda>_. zeros 48) toy_parse (zeros 632) ''forged'' = Inr []
    \<and> composeHashFromEventLog toy_parse ''forged'' = Some (normalizeHash ''cd'')"
  using compose_hash_forgeable [OF toy_log, of "[]" boot_event "[]" "''cd''" "''forged''"]
  by (simp add: toy_parse_def boot_event_def DSTACK_RUNTIME_EVENT_TYPE_def)

end
