(* ===== verification/KeyBinding.thy ===== *)
theory KeyBinding
  imports Keys TdxQuote
begin

text \<open>
  \<open>src/src/attestation/key-binding.ts\<close>: what a client checks of an attestation before it trusts the keys
  in it.  Hashes, the parser of the event log and ethers' signature recovery are the record
  \<open>verify_lib\<close>.

  Shown: keys that pass the check against a quote the enclave made are the enclave's own, with the
  client's nonce and the certificate of the client's TLS session.
\<close>

section \<open>Data\<close>

record bound_keys =
  bk_mlkemPublicKey :: string
  bk_identityPublicKey :: "string option"
  bk_refundSignerPublicKey :: "(string \<times> string) option"
  bk_tlsCertificate :: "string option"

record key_binding_evidence =
  kb_platform :: string
  kb_quote :: string
  kb_reportData :: string
  kb_keys :: bound_keys
  kb_eventLog :: "string option"

record binding_options =
  bo_nonce :: "bytes option"
  bo_servedCertificate :: "bytes option"
  bo_keyManifest :: "signed_key_manifest option"

record verify_lib =
  vl_sha256 :: "bytes \<Rightarrow> bytes"
  vl_sha384 :: "bytes \<Rightarrow> bytes"
  vl_parse_log :: "string \<Rightarrow> tdx_event list res"
  vl_verifyTypedData :: "key_manifest \<Rightarrow> string \<Rightarrow> string res"
  vl_getAddress :: "string \<Rightarrow> string res"
  vl_computeAddress :: "string \<Rightarrow> string res"

section \<open>Operations\<close>

text \<open>An empty text is falsy, like an absent one.\<close>

definition present :: "string option \<Rightarrow> string option" where
  "present v = (if v = Some [] then None else v)"

definition identity_of :: "bound_keys \<Rightarrow> bytes option" where
  "identity_of keys = map_option (\<lambda>s. bytes_of_hex (strip0x s)) (present (bk_identityPublicKey keys))"

definition certificate_of :: "bound_keys \<Rightarrow> bytes option" where
  "certificate_of keys = map_option b64_decode (present (bk_tlsCertificate keys))"

definition bound_inputs :: "bound_keys \<Rightarrow> report_inputs res" where
  "bound_inputs keys =
     bind (case bk_refundSignerPublicKey keys of
         None \<Rightarrow> Inr None | Some p \<Rightarrow> bind (encodeRefundSignerPublicKey p) (\<lambda>b. Inr (Some b))) (\<lambda>refund.
       Inr \<lparr>ri_mlkemPublicKey = b64_decode (bk_mlkemPublicKey keys), ri_identityPublicKey = identity_of keys,
            ri_refundSignerPublicKey = refund, ri_tlsCertificateDer = certificate_of keys\<rparr>)"

definition sha256Hex :: "(bytes \<Rightarrow> bytes) \<Rightarrow> bytes \<Rightarrow> string" where
  "sha256Hex sha256 bs = ''0x'' @ hex_of_bytes (sha256 bs)"

definition fails :: "bool \<Rightarrow> string \<Rightarrow> string list" where
  "fails b message = (if b then [message] else [])"

text \<open>The comparison of the refund signer stops at the first difference.\<close>

definition same_refund_signer :: "key_manifest \<Rightarrow> (string \<times> string) option \<Rightarrow> bool res" where
  "same_refund_signer manifest refundSigner = (case refundSigner of
     None \<Rightarrow> Inr False
   | Some (x, y) \<Rightarrow>
       bind (BigInt_of_string (km_refundSignerX manifest)) (\<lambda>mx. bind (BigInt_of_string x) (\<lambda>kx.
         if mx \<noteq> kx then Inr False
         else bind (BigInt_of_string (km_refundSignerY manifest)) (\<lambda>my. bind (BigInt_of_string y) (\<lambda>ky. Inr (my = ky))))))"

definition signature_failures :: "verify_lib \<Rightarrow> signed_key_manifest \<Rightarrow> bytes \<Rightarrow> string list" where
  "signature_failures lib sm identity =
     (case bind (vl_verifyTypedData lib (sk_manifest sm) (sk_signature sm)) (\<lambda>signer.
           bind (vl_getAddress lib signer) (\<lambda>a.
           bind (vl_computeAddress lib (''0x'' @ hex_of_bytes identity)) (\<lambda>b. Inr (a = b)))) of
        Inl _ \<Rightarrow> [''The key manifest signature is invalid'']
      | Inr same \<Rightarrow> fails (\<not> same) ''The key manifest is not signed by the identity key'')"

definition verifyManifest ::
  "verify_lib \<Rightarrow> signed_key_manifest \<Rightarrow> bytes \<Rightarrow> bound_keys \<Rightarrow> bytes option \<Rightarrow> bytes option \<Rightarrow> string list res" where
  "verifyManifest lib sm ek keys identity tlsCertificate =
     (let manifest = sk_manifest sm;
          tlsCertificateHash = (case tlsCertificate of Some c \<Rightarrow> sha256Hex (vl_sha256 lib) c | None \<Rightarrow> ZeroHash)
      in bind (same_refund_signer manifest (bk_refundSignerPublicKey keys)) (\<lambda>same.
           Inr (fails (toLowerCase (km_mlkemPublicKeyHash manifest) \<noteq> sha256Hex (vl_sha256 lib) ek)
                  ''The key manifest commits to a different ML-KEM key''
                @ fails (\<not> same) ''The key manifest commits to a different refund signer''
                @ fails (toLowerCase (km_tlsCertificateHash manifest) \<noteq> tlsCertificateHash)
                  ''The key manifest commits to a different TLS certificate''
                @ (case identity of None \<Rightarrow> [''The attestation binds no identity key'']
                   | Some i \<Rightarrow> signature_failures lib sm i))))"

definition certificate_failures :: "bytes option \<Rightarrow> bytes option \<Rightarrow> string list" where
  "certificate_failures served tlsCertificate = (case served of
     None \<Rightarrow> []
   | Some c \<Rightarrow> (case tlsCertificate of
        None \<Rightarrow> [''The attestation binds no TLS certificate: TLS terminates outside the enclave'']
      | Some t \<Rightarrow> fails (c \<noteq> t) ''The TLS session certificate is not the one bound by the attestation''))"

definition quote_failures :: "verify_lib \<Rightarrow> key_binding_evidence \<Rightarrow> bytes \<Rightarrow> string list res" where
  "quote_failures lib ev expected =
     (if kb_platform ev = ''phala'' \<or> kb_platform ev = ''intel-tdx''
      then let quote = b64_decode (kb_quote ev);
               f = (case tdxQuoteReportData quote of
                      Inl e \<Rightarrow> [exn_text e] | Inr d \<Rightarrow> fails (d \<noteq> expected) ''The quote report_data does not match'')
           in (case kb_eventLog ev of
                 None \<Rightarrow> Inr f
               | Some eventLog \<Rightarrow> bind (verifyEventLog (vl_sha384 lib) (vl_parse_log lib) quote eventLog) (\<lambda>g. Inr (f @ g)))
      else Inr [])"

definition verifyKeyBinding :: "verify_lib \<Rightarrow> key_binding_evidence \<Rightarrow> binding_options \<Rightarrow> string list res" where
  "verifyKeyBinding lib ev options =
     bind (bound_inputs (kb_keys ev)) (\<lambda>inputs.
     bind (buildReportData (vl_sha256 lib) inputs (bo_nonce options)) (\<lambda>expected.
     bind (quote_failures lib ev expected) (\<lambda>quoteFailures.
     bind (case bo_keyManifest options of
         None \<Rightarrow> Inr []
       | Some sm \<Rightarrow> verifyManifest lib sm (ri_mlkemPublicKey inputs) (kb_keys ev)
           (ri_identityPublicKey inputs) (ri_tlsCertificateDer inputs)) (\<lambda>manifestFailures.
       Inr (fails (bytes_of_hex (strip0x (kb_reportData ev)) \<noteq> expected)
              ''reportData does not commit to the returned keys and nonce''
            @ certificate_failures (bo_servedCertificate options) (ri_tlsCertificateDer inputs)
            @ quoteFailures @ manifestFailures)))))"

section \<open>Facts\<close>

lemma fails_Nil [simp]: "fails b m = [] \<longleftrightarrow> \<not> b"
  by (simp add: fails_def)

lemma exn_text_not_Nil: "exn_text (too_short q) \<noteq> []"
  by (simp add: too_short_def)

lemma certificate_failures_Nil: "certificate_failures (Some c) t = [] \<longleftrightarrow> t = Some c"
  by (cases t) (auto simp: certificate_failures_def)

lemma verifyKeyBinding_Nil:
  assumes "verifyKeyBinding lib ev options = Inr []"
  obtains inputs expected where "bound_inputs (kb_keys ev) = Inr inputs"
    "buildReportData (vl_sha256 lib) inputs (bo_nonce options) = Inr expected"
    "quote_failures lib ev expected = Inr []"
    "certificate_failures (bo_servedCertificate options) (ri_tlsCertificateDer inputs) = []"
  using assms by (auto simp: verifyKeyBinding_def bind_eq_Inr)

lemma quote_failures_Nil:
  assumes "quote_failures lib ev expected = Inr []" "kb_platform ev = ''phala'' \<or> kb_platform ev = ''intel-tdx''"
  shows "tdxQuoteReportData (b64_decode (kb_quote ev)) = Inr expected"
  using assms by (auto simp: quote_failures_def Let_def bind_eq_Inr split: sum.splits option.splits)

text \<open>Two different values with the same hash.\<close>

definition collide :: "(bytes \<Rightarrow> bytes) \<Rightarrow> bytes \<Rightarrow> bytes \<Rightarrow> bool" where
  "collide h a b \<longleftrightarrow> a \<noteq> b \<and> h a = h b"

lemma accepted_keys_bound:
  assumes "verifyKeyBinding lib ev options = Inr []" "kb_platform ev = ''phala'' \<or> kb_platform ev = ''intel-tdx''"
    "bound_inputs (kb_keys ev) = Inr j" "sized_inputs i" "sized_inputs j" "hash32 (vl_sha256 lib)"
    "buildReportData (vl_sha256 lib) i n = Inr rd" "tdxQuoteReportData (b64_decode (kb_quote ev)) = Inr rd"
  shows "nonce_bytes (bo_nonce options) = nonce_bytes n
    \<and> (collide (vl_sha256 lib) (commitment_input (vl_sha256 lib) i) (commitment_input (vl_sha256 lib) j)
       \<or> b64_decode (bk_mlkemPublicKey (kb_keys ev)) = ri_mlkemPublicKey i
         \<and> or_empty (identity_of (kb_keys ev)) = or_empty (ri_identityPublicKey i)
         \<and> or_empty (ri_refundSignerPublicKey j) = or_empty (ri_refundSignerPublicKey i)
         \<and> (\<forall>c. bo_servedCertificate options = Some c \<longrightarrow>
              (\<exists>d. ri_tlsCertificateDer i = Some d \<and> (d = c \<or> collide (vl_sha256 lib) d c))))"
proof -
  from verifyKeyBinding_Nil [OF assms(1)] obtain expected where
    j: "buildReportData (vl_sha256 lib) j (bo_nonce options) = Inr expected"
    and q: "quote_failures lib ev expected = Inr []"
    and c: "certificate_failures (bo_servedCertificate options) (ri_tlsCertificateDer j) = []"
    using assms(3) by (metis Inr_inject)
  from quote_failures_Nil [OF q assms(2)] assms(8) have rd: "expected = rd" by simp
  have jk: "ri_mlkemPublicKey j = b64_decode (bk_mlkemPublicKey (kb_keys ev))" "ri_identityPublicKey j = identity_of (kb_keys ev)"
    using assms(3) by (auto simp: bound_inputs_def bind_eq_Inr)
  have served: "ri_tlsCertificateDer j = Some d" if "bo_servedCertificate options = Some d" for d
    using c that certificate_failures_Nil by simp
  from report_data_binds_keys [OF assms(7) j [unfolded rd] assms(6,4,5)] show ?thesis
    unfolding jk [symmetric] collide_def using served by fastforce
qed

text \<open>C25 Accepted keys are the enclave's: when a client accepts an attestation on a TDX platform and the
  quote carries the report data the enclave built from its keys and a nonce, that nonce is the client's,
  the returned ML-KEM, identity and refund keys are the enclave's, and the certificate of the client's
  TLS session is the one the enclave bound, unless the two commitments or the two certificates are a
  SHA-256 collision.\<close>

theorem quote_binds_keys:
  assumes "verifyKeyBinding lib ev options = Inr []" "kb_platform ev = ''phala'' \<or> kb_platform ev = ''intel-tdx''"
    "bound_inputs (kb_keys ev) = Inr j" "sized_inputs i" "sized_inputs j" "hash32 (vl_sha256 lib)"
    "buildReportData (vl_sha256 lib) i n = Inr rd" "tdxQuoteReportData (b64_decode (kb_quote ev)) = Inr rd"
  shows "nonce_bytes (bo_nonce options) = nonce_bytes n
    \<and> (collide (vl_sha256 lib) (commitment_input (vl_sha256 lib) i) (commitment_input (vl_sha256 lib) j)
       \<or> b64_decode (bk_mlkemPublicKey (kb_keys ev)) = ri_mlkemPublicKey i
         \<and> or_empty (identity_of (kb_keys ev)) = or_empty (ri_identityPublicKey i)
         \<and> or_empty (ri_refundSignerPublicKey j) = or_empty (ri_refundSignerPublicKey i)
         \<and> (\<forall>c. bo_servedCertificate options = Some c \<longrightarrow>
              (\<exists>d. ri_tlsCertificateDer i = Some d \<and> (d = c \<or> collide (vl_sha256 lib) d c))))"
  using assms by (rule accepted_keys_bound)

text \<open>A quote around given report data, and an attestation with it.\<close>

definition quote_around :: "bytes \<Rightarrow> bytes" where
  "quote_around rd = replicate TDX_REPORT_DATA_OFFSET 0 @ rd"

lemma tdxQuoteReportData_around [simp]: "length rd = 64 \<Longrightarrow> tdxQuoteReportData (quote_around rd) = Inr rd"
  by (simp add: tdxQuoteReportData_def quote_around_def subarray_def TDX_REPORT_DATA_LENGTH_def)

lemma strip0x_prefix: "strip0x (''0x'' @ s) = s"
  by (simp add: strip0x_def startsWith_def)

lemmas strip0x_Cons [simp] = strip0x_prefix [simplified]

lemma strip0x_hex [simp]: "strip0x (hex_of_bytes bs) = hex_of_bytes bs"
proof -
  have "\<not> is_hex CHR ''x''" by (simp add: is_hex_def is_digit_def cval_def)
  then have "CHR ''x'' \<notin> set (hex_of_bytes bs)" using hex_of_bytes_hex [of bs] by (auto simp: list_all_iff)
  moreover have "CHR ''x'' \<in> set (hex_of_bytes bs)" if "take 2 (hex_of_bytes bs) = ''0x''"
    using that in_set_takeD [of "CHR ''x''" 2 "hex_of_bytes bs"] by simp
  ultimately have "take 2 (hex_of_bytes bs) \<noteq> ''0x''" by blast
  then show ?thesis by (simp add: strip0x_def startsWith_def numeral_2_eq_2)
qed

definition toy_verify :: verify_lib where
  "toy_verify = \<lparr>vl_sha256 = toy_sha, vl_sha384 = \<lambda>b. take 48 (b @ replicate 48 0), vl_parse_log = \<lambda>_. Inr [],
     vl_verifyTypedData = \<lambda>m sg. Inr sg, vl_getAddress = \<lambda>a. Inr a, vl_computeAddress = \<lambda>k. Inr k\<rparr>"

definition toy_inputs :: report_inputs where
  "toy_inputs = \<lparr>ri_mlkemPublicKey = [1, 2], ri_identityPublicKey = None, ri_refundSignerPublicKey = None,
     ri_tlsCertificateDer = Some [7]\<rparr>"

definition toy_report :: bytes where
  "toy_report = toy_sha (commitment_input toy_sha toy_inputs) @ replicate 32 0"

definition toy_evidence :: key_binding_evidence where
  "toy_evidence = \<lparr>kb_platform = ''phala'', kb_quote = b64_encode (quote_around toy_report), kb_reportData = hex_of_bytes toy_report,
     kb_keys = \<lparr>bk_mlkemPublicKey = b64_encode [1, 2], bk_identityPublicKey = None, bk_refundSignerPublicKey = None,
       bk_tlsCertificate = Some (b64_encode [7])\<rparr>, kb_eventLog = None\<rparr>"

definition toy_options :: binding_options where
  "toy_options = \<lparr>bo_nonce = None, bo_servedCertificate = Some [7], bo_keyManifest = None\<rparr>"

lemma b64_encode_Nil: "b64_encode [] = []"
  by (simp add: b64_encode_def)

lemma b64_encode_not_Nil: "bs \<noteq> [] \<Longrightarrow> b64_encode bs \<noteq> []"
  using b64_decode_encode [of bs] b64_decode_encode [of "[]"] by (metis b64_encode_Nil)

lemma toy_facts:
  "bound_inputs (kb_keys toy_evidence) = Inr toy_inputs" "buildReportData toy_sha toy_inputs None = Inr toy_report"
  "length toy_report = 64" "sized_inputs toy_inputs"
  by (simp_all add: bound_inputs_def toy_evidence_def toy_inputs_def identity_of_def certificate_of_def present_def
      b64_encode_not_Nil buildReportData_def toy_report_def nonce_bytes_def NONCE_LENGTH_def toy_sha_def sized_inputs_def or_empty_def)

theorem quote_binds_keys_witness:
  "verifyKeyBinding toy_verify toy_evidence toy_options = Inr []
   \<and> b64_decode (bk_mlkemPublicKey (kb_keys toy_evidence)) = ri_mlkemPublicKey toy_inputs"
proof -
  have q: "tdxQuoteReportData (b64_decode (kb_quote toy_evidence)) = Inr toy_report"
    using toy_facts(3) by (simp add: toy_evidence_def)
  have v: "verifyKeyBinding toy_verify toy_evidence toy_options = Inr []"
    using toy_facts(1,2) q
    by (simp add: verifyKeyBinding_def toy_verify_def toy_options_def quote_failures_def)
       (simp add: toy_evidence_def toy_inputs_def certificate_failures_def fails_def)
  have "hash32 (vl_sha256 toy_verify)" "buildReportData (vl_sha256 toy_verify) toy_inputs None = Inr toy_report"
    using toy_facts(2) by (simp_all add: toy_verify_def)
  from quote_binds_keys [OF v _ toy_facts(1,4,4) this q] v show ?thesis
    by (simp add: collide_def toy_evidence_def)
qed

end
