(* ===== verification/Tls.thy ===== *)
theory Tls
  imports StateRes Config
begin

text \<open>
  \<open>src/src/tls/tls-context.ts\<close> and \<open>src/src/tls/tee-tls.ts\<close>: where the key of the HTTPS server comes
  from, and the certificate registered for the attestation.

  The state is the module variable \<open>tlsLeafCertificateDer\<close>.  The file system, the X.509 parser and the
  dstack client are the record \<open>tls_world\<close>; a client that cannot be constructed is \<open>None\<close>.

  Shown: in production the server starts with a certificate of its own that is the one registered, or
  in plain HTTP under the explicit opt-out, or not at all.
\<close>

section \<open>Operations\<close>

datatype TlsSource = Dev_file | File_source | Dstack_source | External_proxy

record tls_material =
  ml_httpsOptions :: "(string \<times> string) option"
  ml_source :: TlsSource

record tls_world =
  tw_readFile :: "string \<Rightarrow> string res"
  tw_x509 :: "string \<Rightarrow> bytes res"
  tw_dstack :: "(string \<Rightarrow> string list option \<Rightarrow> (string \<times> string list) res) option"

definition setTlsLeafCertificate :: "bytes \<Rightarrow> (bytes option, unit) act" where
  "setTlsLeafCertificate der = smodify (\<lambda>_. Some der)"

definition getTlsLeafCertificate :: "(bytes option, bytes option) act" where
  "getTlsLeafCertificate leaf = (leaf, Inr leaf)"

definition clearTlsLeafCertificate :: "(bytes option, unit) act" where
  "clearTlsLeafCertificate = smodify (\<lambda>_. None)"

definition registerLeafCertificate :: "tls_world \<Rightarrow> string \<Rightarrow> (bytes option, unit) act" where
  "registerLeafCertificate w certPem = sbind (slift (tw_x509 w certPem)) (\<lambda>raw. setTlsLeafCertificate raw)"

definition loadFromDstack :: "tls_world \<Rightarrow> env \<Rightarrow> (bytes option, tls_material option) act" where
  "loadFromDstack w env =
     (case tw_dstack w of
        None \<Rightarrow> sret None
      | Some getTlsKey \<Rightarrow>
          let subject = (if is_set env ''TLS_CERT_SUBJECT'' then the (jm_get env ''TLS_CERT_SUBJECT'') else ''longjing'');
              altNames = (if is_set env ''TLS_CERT_ALT_NAMES''
                then Some (map trim (split_on CHR '','' (the (jm_get env ''TLS_CERT_ALT_NAMES'')))) else None)
          in scatch
               (sbind (slift (getTlsKey subject altNames)) (\<lambda>(key, certificate_chain).
                sbind (slift (guard (key \<noteq> [] \<and> certificate_chain \<noteq> []) (Error ''dstack returned empty TLS key material''))) (\<lambda>_.
                sbind (registerLeafCertificate w (hd certificate_chain)) (\<lambda>_.
                sret (Some \<lparr>ml_httpsOptions = Some (key, join ''\<newline>'' certificate_chain), ml_source = Dstack_source\<rparr>)))))
               (\<lambda>_. sret None))"

definition loadFromFiles :: "tls_world \<Rightarrow> string \<Rightarrow> string \<Rightarrow> (bytes option, tls_material) act" where
  "loadFromFiles w keyPath certPath =
     sbind (slift (tw_readFile w keyPath)) (\<lambda>key.
     sbind (slift (tw_readFile w certPath)) (\<lambda>cert.
     sbind (registerLeafCertificate w cert) (\<lambda>_.
     sret \<lparr>ml_httpsOptions = Some (key, cert), ml_source = File_source\<rparr>)))"

definition tls_fatal :: exn where
  "tls_fatal = Error (''FATAL: Cannot start in production without in-enclave TLS termination. ''
     @ ''Provide key material via dstack (mount /var/run/dstack.sock) or ''
     @ ''TLS_KEY_PATH/TLS_CERT_PATH in enclave storage. ''
     @ ''To explicitly accept an external TLS terminator (NOT recommended), ''
     @ ''set ALLOW_EXTERNAL_TLS_TERMINATION=true.'')"

definition loadTlsMaterial :: "tls_world \<Rightarrow> env \<Rightarrow> bool \<Rightarrow> (bytes option, tls_material) act" where
  "loadTlsMaterial w env is_prod =
     (if \<not> is_prod
      then sbind (loadFromFiles w ''./secrets/tls.key'' ''./secrets/tls.cert'') (\<lambda>material.
           sret (material\<lparr>ml_source := Dev_file\<rparr>))
      else if is_set env ''TLS_KEY_PATH'' \<and> is_set env ''TLS_CERT_PATH''
      then loadFromFiles w (the (jm_get env ''TLS_KEY_PATH'')) (the (jm_get env ''TLS_CERT_PATH''))
      else sbind (loadFromDstack w env) (\<lambda>dstackMaterial.
           case dstackMaterial of
             Some material \<Rightarrow> sret material
           | None \<Rightarrow>
               if jm_get env ''ALLOW_EXTERNAL_TLS_TERMINATION'' = Some ''true''
               then sret \<lparr>ml_httpsOptions = None, ml_source = External_proxy\<rparr>
               else slift (Inl tls_fatal)))"

section \<open>Facts\<close>

text \<open>The registered certificate is the leaf of what is served.\<close>

definition serves_leaf :: "tls_world \<Rightarrow> tls_material \<Rightarrow> bytes option \<Rightarrow> bool" where
  "serves_leaf w m leaf \<longleftrightarrow> (\<exists>key pem rest der. ml_httpsOptions m = Some (key, join ''\<newline>'' (pem # rest))
     \<and> tw_x509 w pem = Inr der \<and> leaf = Some der)"

lemma join_single [simp]: "join sep [x] = x"
  by (simp add: join_def)

lemma loadFromFiles_leaf:
  assumes "loadFromFiles w k c leaf = (leaf', Inr m)"
  shows "serves_leaf w m leaf' \<and> ml_source m = File_source"
proof -
  from assms obtain key cert der where "tw_x509 w cert = Inr der" "leaf' = Some der"
    "m = \<lparr>ml_httpsOptions = Some (key, cert), ml_source = File_source\<rparr>"
    by (auto simp: loadFromFiles_def registerLeafCertificate_def setTlsLeafCertificate_def act_simps)
  then show ?thesis unfolding serves_leaf_def
    by (auto intro!: exI [of _ cert] exI [of _ "[] :: string list"])
qed

lemma loadFromDstack_leaf:
  assumes "loadFromDstack w env leaf = (leaf', Inr (Some m))"
  shows "serves_leaf w m leaf' \<and> ml_source m = Dstack_source"
  using assms unfolding loadFromDstack_def serves_leaf_def
  by (auto simp: Let_def scatch_def registerLeafCertificate_def setTlsLeafCertificate_def sbind_def guard_def
        neq_Nil_conv
      split: option.splits prod.splits sum.splits if_splits) (blast+)

lemma loadFromDstack_none:
  assumes "loadFromDstack w env leaf = (leaf', Inr None)"
  shows "leaf' = leaf"
  using assms unfolding loadFromDstack_def
  by (auto simp: Let_def scatch_def registerLeafCertificate_def setTlsLeafCertificate_def sbind_def
      split: option.splits prod.splits sum.splits)

text \<open>TLS fails closed: a production start that gets its TLS configuration either serves HTTPS with a
  certificate chain whose leaf is exactly the certificate registered for the attestation, or serves
  plain HTTP because \<open>ALLOW_EXTERNAL_TLS_TERMINATION\<close> is \<open>true\<close>, with the registered certificate left
  as it was; in every other case it throws.\<close>

lemma tls_fails_closed:
  assumes "loadTlsMaterial w env True leaf = (leaf', Inr m)"
  shows "serves_leaf w m leaf' \<and> ml_source m \<in> {File_source, Dstack_source}
    \<or> ml_httpsOptions m = None \<and> ml_source m = External_proxy \<and> leaf' = leaf
      \<and> jm_get env ''ALLOW_EXTERNAL_TLS_TERMINATION'' = Some ''true''"
proof (cases "is_set env ''TLS_KEY_PATH'' \<and> is_set env ''TLS_CERT_PATH''")
  case True
  with assms loadFromFiles_leaf show ?thesis by (auto simp: loadTlsMaterial_def)
next
  case False
  with assms obtain leaf1 d where d: "loadFromDstack w env leaf = (leaf1, Inr d)"
    and r: "(case d of Some material \<Rightarrow> sret material
      | None \<Rightarrow> if jm_get env ''ALLOW_EXTERNAL_TLS_TERMINATION'' = Some ''true''
          then sret \<lparr>ml_httpsOptions = None, ml_source = External_proxy\<rparr>
          else slift (Inl tls_fatal)) leaf1 = (leaf', Inr m)"
    by (auto simp: loadTlsMaterial_def sbind_ok)
  show ?thesis
  proof (cases d)
    case None
    with d r loadFromDstack_none show ?thesis by (auto split: if_splits)
  next
    case (Some material)
    with d r loadFromDstack_leaf show ?thesis by auto
  qed
qed

definition toy_tls :: tls_world where
  "toy_tls = \<lparr>tw_readFile = \<lambda>p. Inr p, tw_x509 = \<lambda>pem. Inr [1], tw_dstack = Some (\<lambda>s a. Inr (''k'', [''leaf'', ''ca'']))\<rparr>"

end
