(* ===== verification/JsonText.thy ===== *)
theory JsonText
  imports Config
begin

text \<open>\<open>JSON.stringify\<close> of the objects the program writes itself: their texts need no escaping.\<close>

definition json_quoted :: "string \<Rightarrow> string" where
  "json_quoted s = CHR 0x22 # s @ [CHR 0x22]"

definition json_object :: "(string \<times> string) list \<Rightarrow> string" where
  "json_object kvs = ''{'' @ join '','' (map (\<lambda>(k, v). json_quoted k @ '':'' @ v) kvs) @ ''}''"

definition json_array :: "string list \<Rightarrow> string" where
  "json_array vs = ''['' @ join '','' vs @ '']''"

end
