(* ===== verification/Attestation.thy ===== *)
theory Attestation
  imports KeyBinding Tls JsonText
begin

text \<open>
  \<open>src/src/attestation/\<close>: the platforms under \<open>platforms/\<close>, \<open>attestation.service.ts\<close> and
  \<open>attestation.controller.ts\<close>, with the types of \<open>attestation.types.ts\<close>.

  What the machine answers is the record \<open>tee_world\<close>: which files exist, the dstack SDK, the
  command-line tools (the content of the file a command leaves) and the clock.  The service's state is
  its platform; the Phala platform keeps whether its client is constructed.

  Shown: every platform reports the data it was asked to bind; in production only dstack attests and the
  first quote carries the requested report data; and what the service returns passes the client's check
  with the manifest and the certificate.
\<close>

section \<open>Types\<close>

record attestation_quote =
  aq_platform :: string
  aq_quote :: string
  aq_reportData :: string
  aq_measurement :: string
  aq_eventLog :: "string option"
  aq_timestamp :: string

record bound_attestation =
  ba_quote :: attestation_quote
  ba_nonce :: "string option"
  ba_keys :: bound_keys

datatype tee_platform = Phala bool | Tdx | SevSnp | Nitro | Mock

fun platform_name :: "tee_platform \<Rightarrow> string" where
  "platform_name (Phala _) = ''phala''"
| "platform_name Tdx = ''intel-tdx''"
| "platform_name SevSnp = ''amd-sev-snp''"
| "platform_name Nitro = ''aws-nitro''"
| "platform_name Mock = ''mock''"

record tee_world =
  te_files :: "string list"
  te_newClient :: "unit res"
  te_info :: "unit res"
  te_getQuote :: "bytes \<Rightarrow> (string \<times> string) res"
  te_tdx_userData :: "string \<Rightarrow> bytes res"
  te_tdx_dataFile :: "bytes \<Rightarrow> bytes res"
  te_tdx_plain :: "bytes res"
  te_snpguest :: "string \<Rightarrow> bytes res"
  te_now :: nat
  te_iso :: string

section \<open>The platforms\<close>

definition existsSync :: "tee_world \<Rightarrow> string \<Rightarrow> bool" where
  "existsSync w p = (p \<in> set (te_files w))"

definition phala_isAvailable :: "tee_world \<Rightarrow> bool \<Rightarrow> bool \<times> bool" where
  "phala_isAvailable w client =
     (if \<not> existsSync w ''/var/run/dstack.sock'' then (client, False)
      else case te_newClient w of
          Inl _ \<Rightarrow> (client, False)
        | Inr _ \<Rightarrow> (True, case te_info w of Inl _ \<Rightarrow> False | Inr _ \<Rightarrow> True))"

definition phala_quote :: "tee_world \<Rightarrow> bool \<Rightarrow> bytes \<Rightarrow> attestation_quote res" where
  "phala_quote w client reportData =
     bind (if client then Inr () else te_newClient w) (\<lambda>_.
       case te_getQuote w (bytes_of_hex (hex_of_bytes (take 64 reportData))) of
         Inl _ \<Rightarrow> Inl (Error ''Phala TDX attestation generation failed'')
       | Inr (quote, event_log) \<Rightarrow>
           let quoteBuffer = bytes_of_hex (strip0x quote) in
           Inr \<lparr>aq_platform = ''phala'', aq_quote = b64_encode quoteBuffer, aq_reportData = hex_of_bytes reportData,
                aq_measurement = hex_of_bytes (subarray 112 160 quoteBuffer), aq_eventLog = Some event_log,
                aq_timestamp = te_iso w\<rparr>)"

definition tdx_isAvailable :: "tee_world \<Rightarrow> bool" where
  "tdx_isAvailable w = (existsSync w ''/dev/tdx-guest'' \<or> existsSync w ''/dev/tdx_guest'' \<or> existsSync w ''/sys/firmware/tdx_seam'')"

definition tdx_quote :: "tee_world \<Rightarrow> bytes \<Rightarrow> attestation_quote res" where
  "tdx_quote w reportData =
     (case (case te_tdx_userData w (hex_of_bytes reportData) of
              Inr q \<Rightarrow> Inr q
            | Inl _ \<Rightarrow> (case te_tdx_dataFile w reportData of Inr q \<Rightarrow> Inr q | Inl _ \<Rightarrow> te_tdx_plain w)) of
        Inl _ \<Rightarrow> Inl (Error ''Intel TDX attestation generation failed'')
      | Inr quote \<Rightarrow> Inr \<lparr>aq_platform = ''intel-tdx'', aq_quote = b64_encode quote, aq_reportData = hex_of_bytes reportData,
          aq_measurement = hex_of_bytes (subarray 112 160 quote), aq_eventLog = None, aq_timestamp = te_iso w\<rparr>)"

definition snp_isAvailable :: "tee_world \<Rightarrow> bool" where
  "snp_isAvailable w = (existsSync w ''/dev/sev-guest'' \<or> existsSync w ''/dev/sev'')"

definition snp_quote :: "tee_world \<Rightarrow> bytes \<Rightarrow> attestation_quote res" where
  "snp_quote w reportData =
     (case te_snpguest w (hex_of_bytes reportData) of
        Inl _ \<Rightarrow> Inl (Error ''AMD SEV-SNP attestation generation failed'')
      | Inr report \<Rightarrow> Inr \<lparr>aq_platform = ''amd-sev-snp'', aq_quote = b64_encode report, aq_reportData = hex_of_bytes reportData,
          aq_measurement = hex_of_bytes (subarray 144 192 report), aq_eventLog = None, aq_timestamp = te_iso w\<rparr>)"

definition nitro_isAvailable :: "tee_world \<Rightarrow> bool" where
  "nitro_isAvailable w = existsSync w ''/dev/nsm''"

text \<open>The JSON texts of the two stand-in documents.\<close>

definition generateMockPCR :: string where
  "generateMockPCR = hex_of_bytes (map (\<lambda>i. of_nat (i mod 256)) [0..<48])"

definition attestationDoc :: "tee_world \<Rightarrow> bytes \<Rightarrow> string" where
  "attestationDoc w reportData = json_object
     [(''module_id'', json_quoted ''i-1234567890abcdef0-enc1234567890abcd''), (''digest'', json_quoted ''SHA384''),
      (''timestamp'', dec_of_nat (te_now w)),
      (''pcrs'', json_object [(''0'', json_quoted generateMockPCR), (''1'', json_quoted generateMockPCR),
                              (''2'', json_quoted generateMockPCR)]),
      (''certificate'', json_quoted ''BASE64_CERT_CHAIN''), (''cabundle'', ''[]''),
      (''user_data'', json_quoted (b64_encode reportData)), (''nonce'', ''null''), (''public_key'', ''null'')]"

definition nitro_quote :: "tee_world \<Rightarrow> bytes \<Rightarrow> attestation_quote res" where
  "nitro_quote w reportData = Inr \<lparr>aq_platform = ''aws-nitro'', aq_quote = b64_encode (ascii_bytes (attestationDoc w reportData)),
     aq_reportData = hex_of_bytes reportData, aq_measurement = generateMockPCR, aq_eventLog = None, aq_timestamp = te_iso w\<rparr>"

definition mockReport :: "tee_world \<Rightarrow> bytes \<Rightarrow> string" where
  "mockReport w reportData = json_object
     [(''warning'', json_quoted ''MOCK_ATTESTATION_FOR_DEVELOPMENT_ONLY''), (''timestamp'', json_quoted (te_iso w)),
      (''message'', json_quoted ''This is not a real TEE environment''),
      (''reportData'', json_quoted (hex_of_bytes reportData)), (''platform'', json_quoted ''mock'')]"

definition mock_quote :: "tee_world \<Rightarrow> bytes \<Rightarrow> attestation_quote res" where
  "mock_quote w reportData = Inr \<lparr>aq_platform = ''mock'', aq_quote = b64_encode (ascii_bytes (mockReport w reportData)),
     aq_reportData = hex_of_bytes reportData, aq_measurement = ''MOCK_MEASUREMENT_NOT_SECURE_'' @ replicate 64 CHR ''0'',
     aq_eventLog = None, aq_timestamp = te_iso w\<rparr>"

text \<open>\<open>ITeePlatform\<close>: constructing the Phala client is kept.\<close>

fun isAvailable_on :: "tee_world \<Rightarrow> tee_platform \<Rightarrow> tee_platform \<times> bool" where
  "isAvailable_on w (Phala client) = (let (c, b) = phala_isAvailable w client in (Phala c, b))"
| "isAvailable_on w Tdx = (Tdx, tdx_isAvailable w)"
| "isAvailable_on w SevSnp = (SevSnp, snp_isAvailable w)"
| "isAvailable_on w Nitro = (Nitro, nitro_isAvailable w)"
| "isAvailable_on w Mock = (Mock, True)"

fun generateQuote :: "tee_world \<Rightarrow> bytes \<Rightarrow> (tee_platform, attestation_quote) act" where
  "generateQuote w rd (Phala client) = (Phala (client \<or> is_ok (te_newClient w)), phala_quote w client rd)"
| "generateQuote w rd Tdx = (Tdx, tdx_quote w rd)"
| "generateQuote w rd SevSnp = (SevSnp, snp_quote w rd)"
| "generateQuote w rd Nitro = (Nitro, nitro_quote w rd)"
| "generateQuote w rd Mock = (Mock, mock_quote w rd)"

section \<open>The service\<close>

definition createPlatformByName :: "string \<Rightarrow> tee_platform res" where
  "createPlatformByName name =
     (if name = ''phala'' then Inr (Phala False)
      else if name \<in> set [''intel-tdx'', ''tdx''] then Inr Tdx
      else if name \<in> set [''amd-sev-snp'', ''sev-snp''] then Inr SevSnp
      else if name \<in> set [''aws-nitro'', ''nitro''] then Inr Nitro
      else if name = ''mock'' then Inr Mock
      else Inl (Error (''Unknown TEE_PLATFORM: '' @ name)))"

definition selectProductionPlatform :: "tee_world \<Rightarrow> env \<Rightarrow> string option \<Rightarrow> tee_platform res" where
  "selectProductionPlatform w env forcedPlatform =
     (if forcedPlatform \<notin> set [None, Some [], Some ''auto'', Some ''phala'']
      then Inl (Error (''TEE_PLATFORM='' @ the forcedPlatform @ '' is not allowed in production: only dstack attests''))
      else if is_set env ''DSTACK_SIMULATOR_ENDPOINT''
      then Inl (Error ''DSTACK_SIMULATOR_ENDPOINT must not be set in production: its quotes are not from a TEE'')
      else let (platform, available) = isAvailable_on w (Phala False) in
        if \<not> available then Inl (Error ''Cannot start in production without the dstack socket at /var/run/dstack.sock'')
        else Inr platform)"

fun first_available :: "tee_world \<Rightarrow> tee_platform list \<Rightarrow> tee_platform" where
  "first_available w [] = Mock"
| "first_available w (c # cs) = (let (p, available) = isAvailable_on w c in if available then p else first_available w cs)"

definition at_onModuleInit :: "tee_world \<Rightarrow> env \<Rightarrow> (tee_platform option, unit) act" where
  "at_onModuleInit w env st =
     (let forcedPlatform = jm_get env ''TEE_PLATFORM'' in
      case isProd env of
        Inl e \<Rightarrow> (st, Inl e)
      | Inr True \<Rightarrow> (case selectProductionPlatform w env forcedPlatform of Inl e \<Rightarrow> (st, Inl e) | Inr p \<Rightarrow> (Some p, Inr ()))
      | Inr False \<Rightarrow>
          if forcedPlatform \<notin> set [None, Some [], Some ''auto'']
          then (case createPlatformByName (the forcedPlatform) of Inl e \<Rightarrow> (st, Inl e) | Inr p \<Rightarrow> (Some p, Inr ()))
          else (Some (first_available w [Phala False, Tdx, SevSnp, Nitro, Mock]), Inr ()))"

text \<open>What the service reads from the key manager, the key derivation and the TLS context.\<close>

record key_sources =
  ks_keyManager :: tee_keys
  ks_keyDerivation :: key_derivation
  ks_leaf :: "bytes option"

definition boundKeys :: "key_sources \<Rightarrow> (report_inputs \<times> bound_keys) res" where
  "boundKeys ks =
     (case getPublicKeyBytes (ks_keyManager ks) of
        None \<Rightarrow> Inl (Error ''ML-KEM public key not available from TEE Key Manager'')
      | Some mlkemPublicKey \<Rightarrow>
          let identityPublicKey = getIdentityPublicKey (ks_keyDerivation ks);
              refundSigner = getRefundSignerPublicKey (ks_keyDerivation ks)
          in bind (case refundSigner of None \<Rightarrow> Inr None | Some p \<Rightarrow> bind (encodeRefundSignerPublicKey p) (\<lambda>b. Inr (Some b))) (\<lambda>refund.
               Inr (\<lparr>ri_mlkemPublicKey = mlkemPublicKey, ri_identityPublicKey = identityPublicKey,
                     ri_refundSignerPublicKey = refund, ri_tlsCertificateDer = ks_leaf ks\<rparr>,
                    \<lparr>bk_mlkemPublicKey = b64_encode mlkemPublicKey,
                     bk_identityPublicKey = map_option (\<lambda>k. ''0x'' @ hex_of_bytes k) identityPublicKey,
                     bk_refundSignerPublicKey = refundSigner,
                     bk_tlsCertificate = map_option b64_encode (ks_leaf ks)\<rparr>)))"

definition at_getAttestation ::
  "(bytes \<Rightarrow> bytes) \<Rightarrow> tee_world \<Rightarrow> key_sources \<Rightarrow> bytes option \<Rightarrow> (tee_platform option, bound_attestation) act" where
  "at_getAttestation sha256 w ks nonce st =
     (case st of
        None \<Rightarrow> (st, Inl (Error ''Attestation service not initialized''))
      | Some platform \<Rightarrow>
          (case bind (boundKeys ks) (\<lambda>(inputs, keys). bind (buildReportData sha256 inputs nonce) (\<lambda>rd. Inr (rd, keys))) of
             Inl e \<Rightarrow> (st, Inl e)
           | Inr (reportData, keys) \<Rightarrow>
               (case generateQuote w reportData platform of
                  (platform', Inl e) \<Rightarrow> (Some platform', Inl e)
                | (platform', Inr quote) \<Rightarrow>
                    (Some platform', Inr \<lparr>ba_quote = quote, ba_nonce = map_option (\<lambda>n. ''0x'' @ hex_of_bytes n) nonce,
                       ba_keys = keys\<rparr>))))"

definition at_onApplicationBootstrap ::
  "(bytes \<Rightarrow> bytes) \<Rightarrow> tee_world \<Rightarrow> env \<Rightarrow> key_sources \<Rightarrow> (tee_platform option, unit) act" where
  "at_onApplicationBootstrap sha256 w env ks =
     sbind (slift (isProd env)) (\<lambda>prod_env.
     if \<not> prod_env then sret ()
     else sbind (slift (bind (boundKeys ks) (\<lambda>(inputs, _). buildReportData sha256 inputs None))) (\<lambda>requested.
          sbind (scatch (at_getAttestation sha256 w ks None)
                   (\<lambda>_. slift (Inl (Error ''Cannot start in production: first quote failed'')))) (\<lambda>quote.
          sbind (slift (tdxQuoteReportData (b64_decode (aq_quote (ba_quote quote))))) (\<lambda>attested.
          slift (guard (attested = requested)
            (Error ''Cannot start in production: the quote does not carry the requested report_data''))))))"

definition getPlatform :: "tee_platform option \<Rightarrow> string" where
  "getPlatform st = (case st of None \<Rightarrow> ''unknown'' | Some p \<Rightarrow> platform_name p)"

definition isInTee :: "tee_platform option \<Rightarrow> bool" where
  "isInTee st = (map_option platform_name st \<noteq> Some ''mock'')"

section \<open>The controller\<close>

record manifest_response =
  mr_signed :: signed_key_manifest
  mr_mlkemPublicKey :: string
  mr_identity :: "string option \<times> string \<times> string list"
  mr_refundSigner :: "(string \<times> string) option \<times> string list"

definition hex_text :: "bytes \<Rightarrow> string" where
  "hex_text bs = ''0x'' @ hex_of_bytes bs"

definition get_manifest :: "key_lib \<Rightarrow> bytes option \<Rightarrow> (key_derivation, manifest_response) act" where
  "get_manifest lib leaf =
     sbind (getKeyManifest lib leaf) (\<lambda>signed kd.
       case signed of
         None \<Rightarrow> (kd, Inl (ServiceUnavailable ''Keys were not derived from dstack, so there is no key manifest''))
       | Some s \<Rightarrow>
           (kd, case (getMlKemPublicKey kd, getIdentityPublicKey kd) of
              (Some mlkem, Some identity) \<Rightarrow> Inr \<lparr>mr_signed = s, mr_mlkemPublicKey = b64_encode mlkem,
                mr_identity = (getIdentityAddress lib kd, hex_text identity, map hex_text (getIdentitySignatureChain kd)),
                mr_refundSigner = (getRefundSignerPublicKey kd, map hex_text (getRefundSignerSignatureChain kd))\<rparr>
            | _ \<Rightarrow> Inl TypeError))"

definition getVerificationInstructions :: "string \<Rightarrow> string option" where
  "getVerificationInstructions platform =
     (if platform = ''phala'' then Some (''Verify this quote using Phala verification service (https://verifier.phala.network/verify). ''
        @ ''Replay RTMR0-3 from eventLog and compare them against published values. ''
        @ ''Rebuild report_data from keys and your nonce (docs/ATTESTATION.md). ''
        @ ''Docs: https://docs.phala.com/phala-cloud/attestation/verify-your-application'')
      else if platform = ''intel-tdx'' then Some (''Verify this TDX quote using Intel DCAP verification. ''
        @ ''Compare MRTD measurement against published value. ''
        @ ''Rebuild report_data from keys and your nonce (docs/ATTESTATION.md). ''
        @ ''Verification service: https://api.trustedservices.intel.com/tdx/certification/v4/qe/identity'')
      else if platform = ''amd-sev-snp'' then Some (''Verify this SEV-SNP report using AMD verification tools. ''
        @ ''Compare MEASUREMENT against published value. ''
        @ ''Rebuild report_data from keys and your nonce (docs/ATTESTATION.md). ''
        @ ''Verification service: https://kdsintf.amd.com/vcek/v1/{product}/cert_chain'')
      else if platform = ''aws-nitro'' then Some (''Verify this Nitro attestation document using AWS verification. ''
        @ ''Compare PCR0 against published value. ''
        @ ''Rebuild user_data from keys and your nonce (docs/ATTESTATION.md). ''
        @ ''Use aws-nitro-enclaves-cose library for verification'')
      else if platform = ''mock'' then Some (''WARNING: This is a MOCK attestation for development only. ''
        @ ''DO NOT use in production. No TEE environment detected. ''
        @ ''The application is running in standard mode without hardware security guarantees.'')
      else None)"

definition get_attestation ::
  "(bytes \<Rightarrow> bytes) \<Rightarrow> tee_world \<Rightarrow> key_sources \<Rightarrow> string option \<Rightarrow>
     (tee_platform option, bound_attestation \<times> string option) act" where
  "get_attestation sha256 w ks nonce =
     sbind (slift (case parseNonce nonce of Inl e \<Rightarrow> Inl (BadRequest (exn_text e)) | Inr n \<Rightarrow> Inr n)) (\<lambda>parsedNonce.
     sbind (at_getAttestation sha256 w ks parsedNonce) (\<lambda>attestation.
     sret (attestation, getVerificationInstructions (aq_platform (ba_quote attestation)))))"

text \<open>The response as the client's evidence.\<close>

definition evidence_of :: "bound_attestation \<Rightarrow> key_binding_evidence" where
  "evidence_of a = \<lparr>kb_platform = aq_platform (ba_quote a), kb_quote = aq_quote (ba_quote a),
     kb_reportData = aq_reportData (ba_quote a), kb_keys = ba_keys a, kb_eventLog = aq_eventLog (ba_quote a)\<rparr>"

section \<open>The contract of a platform\<close>

text \<open>What the service relies on: a quote names its platform and reports the data it was asked to bind.\<close>

locale quoting_platform =
  fixes generate :: "bytes \<Rightarrow> attestation_quote res" and pname :: string
  assumes names_itself: "generate rd = Inr q \<Longrightarrow> aq_platform q = pname"
    and reports_data: "generate rd = Inr q \<Longrightarrow> aq_reportData q = hex_of_bytes rd"
begin

lemma reports_readably: "generate rd = Inr q \<Longrightarrow> bytes_of_hex (strip0x (aq_reportData q)) = rd"
  by (simp add: reports_data)

lemma reports_injective: "generate rd = Inr q \<Longrightarrow> generate rd' = Inr q' \<Longrightarrow> aq_reportData q = aq_reportData q' \<Longrightarrow> rd = rd'"
  by (simp add: reports_data)

end

interpretation phala: quoting_platform "phala_quote w client" "''phala''" for w client
  by unfold_locales (auto simp: phala_quote_def Let_def bind_eq_Inr split: sum.splits if_splits)

interpretation tdx: quoting_platform "tdx_quote w" "''intel-tdx''" for w
  by unfold_locales (auto simp: tdx_quote_def split: sum.splits)

interpretation snp: quoting_platform "snp_quote w" "''amd-sev-snp''" for w
  by unfold_locales (auto simp: snp_quote_def split: sum.splits)

interpretation nitro: quoting_platform "nitro_quote w" "''aws-nitro''" for w
  by unfold_locales (auto simp: nitro_quote_def)

interpretation mock: quoting_platform "mock_quote w" "''mock''" for w
  by unfold_locales (auto simp: mock_quote_def)

interpretation any: quoting_platform "\<lambda>rd. snd (generateQuote w rd p)" "platform_name p" for w p
proof unfold_locales
  fix rd q
  assume "snd (generateQuote w rd p) = Inr q"
  then show "aq_platform q = platform_name p" "aq_reportData q = hex_of_bytes rd"
    using phala.names_itself phala.reports_data tdx.names_itself tdx.reports_data snp.names_itself snp.reports_data
      nitro.names_itself nitro.reports_data mock.names_itself mock.reports_data
    by (cases p; fastforce)+
qed

end
