(* ===== verification/AttestationFacts.thy ===== *)
theory AttestationFacts
  imports Attestation
begin

text \<open>
  The two ends of the attestation together: what \<open>GET /attestation\<close> and \<open>GET /attestation/manifest\<close>
  return for keys derived from the KMS passes \<open>verifyKeyBinding\<close> with the client's nonce and the
  certificate of its TLS session.  What dstack's quotes carry and how ethers' signing and recovery fit
  are the two named hypotheses.
\<close>

section \<open>Texts\<close>

lemma length_hex_of_nat: "n < 16 ^ Suc k \<Longrightarrow> length (hex_of_nat n) \<le> Suc k"
proof (induction k arbitrary: n)
  case 0
  then show ?case by (subst hex_of_nat.simps) simp
next
  case (Suc k)
  then have "n div 16 < 16 ^ Suc k" by (simp add: div_less_iff_less_mult)
  from Suc.IH [OF this] show ?case by (subst hex_of_nat.simps) simp
qed

lemma zero_is_hex: "is_hex CHR ''0''"
  by (simp add: is_hex_def is_digit_def cval_def)

lemma coordinate_hex64:
  assumes "0 \<le> n" "n < 2 ^ 256"
  shows "\<exists>b. coordinate (hex64 n) = Inr b"
proof -
  let ?h = "padStart 64 CHR ''0'' (hex_of_nat (nat n))"
  have "nat n < 16 ^ Suc 63" using assms by (simp add: nat_less_iff)
  from length_hex_of_nat [OF this] have "length ?h = 64" by (simp add: padStart_def)
  moreover have "list_all is_hex ?h" using hex_of_nat_hex [of "nat n"] zero_is_hex by (auto simp: padStart_def list_all_iff)
  moreover from \<open>length ?h = 64\<close> have "?h \<noteq> []" by auto
  moreover have "strip0x (hex64 n) = ?h" unfolding hex64_def by (rule strip0x_prefix)
  ultimately show ?thesis by (simp add: coordinate_def)
qed

lemma to_lower_hex_byte: "toLowerCase (hex_of_byte b) = hex_of_byte b"
proof -
  have "to_lower_char (digit_char n) = digit_char n" if "n < 16" for n
    using that by (simp add: digit_char_def to_lower_char_def)
  moreover have "unat b div 16 < 16" "unat b mod 16 < 16" using unat_byte_less [of b] by simp_all
  ultimately show ?thesis by (simp add: toLowerCase_def hex_of_byte_def)
qed

lemma toLowerCase_append: "toLowerCase (a @ b) = toLowerCase a @ toLowerCase b"
  by (simp add: toLowerCase_def)

lemma toLowerCase_hex [simp]: "toLowerCase (hex_of_bytes bs) = hex_of_bytes bs"
proof (induction bs)
  case (Cons b bs)
  then show ?case by (simp add: hex_of_bytes_def toLowerCase_append to_lower_hex_byte)
qed (simp add: hex_of_bytes_def toLowerCase_def)

lemma toLowerCase_0x: "toLowerCase ''0x'' = ''0x''"
  by code_simp

lemma toLowerCase_Zero [simp]: "toLowerCase ZeroHash = ZeroHash"
proof -
  have "to_lower_char CHR ''0'' = CHR ''0''" by code_simp
  then show ?thesis unfolding ZeroHash_def by (simp only: toLowerCase_append toLowerCase_0x) (simp add: toLowerCase_def)
qed

lemma toLowerCase_sha256 [simp]: "toLowerCase (sha256_text h b) = sha256_text h b" "sha256Hex h b = sha256_text h b"
  unfolding sha256_text_def sha256Hex_def by (simp_all only: toLowerCase_append toLowerCase_0x toLowerCase_hex)

section \<open>The hypotheses\<close>

text \<open>A dstack quote carries the report data it was asked for, with an event log that replays to its
  registers.\<close>

definition dstack_quotes :: "verify_lib \<Rightarrow> tee_world \<Rightarrow> bool" where
  "dstack_quotes vl w \<longleftrightarrow> (\<forall>rd. length rd = 64 \<longrightarrow> (\<exists>q log. te_getQuote w rd = Inr (hex_of_bytes q, log)
     \<and> tdxQuoteReportData q = Inr rd \<and> verifyEventLog (vl_sha384 vl) (vl_parse_log vl) q log = Inr []))"

text \<open>ethers recovers the address of the key that signed, and checksummed addresses stay as they are; both
  sides use the same SHA-256; EdDSA public keys are 256-bit coordinates.\<close>

definition ethers_agrees :: "key_lib \<Rightarrow> verify_lib \<Rightarrow> bool" where
  "ethers_agrees lib vl \<longleftrightarrow> vl_sha256 vl = kl_sha256 lib
     \<and> (\<forall>k p m. kl_public lib k = Inr p \<longrightarrow>
          vl_verifyTypedData vl m (kl_sign lib k (kl_typed_hash lib m)) = Inr (kl_address lib p))
     \<and> (\<forall>p. vl_computeAddress vl (''0x'' @ hex_of_bytes p) = Inr (kl_address lib p) \<and> vl_getAddress vl (kl_address lib p) = Inr (kl_address lib p))"

definition coordinates_fit :: "key_lib \<Rightarrow> bool" where
  "coordinates_fit lib \<longleftrightarrow> (\<forall>k. case prv2pub (kl_eddsa lib) k of (x, y) \<Rightarrow> 0 \<le> x \<and> x < 2 ^ 256 \<and> 0 \<le> y \<and> y < 2 ^ 256)"

section \<open>The keys\<close>

text \<open>What derivation leaves behind, as the attestation reads it.\<close>

definition derived_keys :: "key_lib \<Rightarrow> key_derivation \<Rightarrow> bytes \<Rightarrow> bytes \<Rightarrow> bytes \<Rightarrow> string \<times> string \<Rightarrow> bool" where
  "derived_keys lib kd mlkem idKey identity refund \<longleftrightarrow>
     getMlKemPublicKey kd = Some mlkem \<and> kd_identity kd = Some (idKey, identity) \<and> kl_public lib idKey = Inr identity
     \<and> getRefundSignerPublicKey kd = Some refund \<and> kd_txSigner kd \<noteq> None
     \<and> (\<exists>x y b. refund = (hex64 x, hex64 y) \<and> 0 \<le> x \<and> 0 \<le> y \<and> encodeRefundSignerPublicKey refund = Inr b)"

lemma derive_keys:
  assumes "derive lib ag kd_init = Inr kd" "coordinates_fit lib"
  obtains mlkem idKey identity refund where "derived_keys lib kd mlkem idKey identity refund"
proof -
  from assms(1) obtain m s ik ip t rk where kd: "kd_mlkem kd = Some (m, s)" "kd_identity kd = Some (ik, ip)" "kl_public lib ik = Inr ip"
    "kd_txSigner kd = Some t" "kd_refundSignerPublicKey kd = Some (babyJubjubPublicKey lib rk)"
    by (auto simp: derive_def Let_def bind_eq_Inr) (metis surj_pair)
  obtain x y where xy: "prv2pub (kl_eddsa lib) rk = (x, y)" "0 \<le> x" "x < 2 ^ 256" "0 \<le> y" "y < 2 ^ 256"
    using assms(2) unfolding coordinates_fit_def by (metis (mono_tags, lifting) case_prod_conv surj_pair)
  have "babyJubjubPublicKey lib rk = (hex64 x, hex64 y)" by (simp add: babyJubjubPublicKey_def xy(1))
  moreover have "\<exists>b. encodeRefundSignerPublicKey (hex64 x, hex64 y) = Inr b"
    using coordinate_hex64 [OF xy(2,3)] coordinate_hex64 [OF xy(4,5)] by (auto simp: encodeRefundSignerPublicKey_def)
  ultimately show thesis using kd xy
    by (intro that [of m ik ip "babyJubjubPublicKey lib rk"])
       (auto simp: derived_keys_def getMlKemPublicKey_def getRefundSignerPublicKey_def)
qed

lemma manifest_exists:
  assumes "derived_keys lib kd mlkem idKey identity refund" "kd_keyManifest kd = None" "kd_appId kd = Some appId" "appId \<noteq> []"
  obtains sm where "snd (getKeyManifest lib leaf kd) = Inr (Some sm)"
    "km_mlkemPublicKeyHash (sk_manifest sm) = sha256_text (kl_sha256 lib) mlkem"
    "(km_refundSignerX (sk_manifest sm), km_refundSignerY (sk_manifest sm)) = refund"
    "km_tlsCertificateHash (sk_manifest sm) = served_hash lib leaf"
    "sk_signature sm = kl_sign lib idKey (kl_typed_hash lib (sk_manifest sm))"
  using assms
  by (auto simp: derived_keys_def getKeyManifest_def signKeyManifest_def getMlKemPublicKey_def getRefundSignerPublicKey_def Let_def
      split: prod.splits)

lemma verifyManifest_ok:
  assumes "derived_keys lib kd mlkem idKey identity refund" "ethers_agrees lib vl"
    "km_mlkemPublicKeyHash (sk_manifest sm) = sha256_text (kl_sha256 lib) mlkem"
    "(km_refundSignerX (sk_manifest sm), km_refundSignerY (sk_manifest sm)) = refund"
    "km_tlsCertificateHash (sk_manifest sm) = served_hash lib leaf"
    "sk_signature sm = kl_sign lib idKey (kl_typed_hash lib (sk_manifest sm))" "bk_refundSignerPublicKey keys = Some refund"
  shows "verifyManifest vl sm mlkem keys (Some identity) leaf = Inr []"
proof -
  have "same_refund_signer (sk_manifest sm) (Some refund) = Inr True"
    using assms(1,4) by (auto simp: derived_keys_def same_refund_signer_def BigInt_hex64)
  moreover have "signature_failures vl sm identity = []"
    using assms(1,2,6) by (auto simp: derived_keys_def ethers_agrees_def signature_failures_def)
  moreover have "vl_sha256 vl = kl_sha256 lib" using assms(2) by (simp add: ethers_agrees_def)
  ultimately show ?thesis using assms(3,5,7)
    by (auto simp: verifyManifest_def served_hash_def fails_def split: option.splits)
qed

section \<open>The round trip\<close>

lemma present_encode: "leaf \<noteq> Some [] \<Longrightarrow> map_option b64_decode (present (map_option b64_encode leaf)) = leaf"
  by (cases leaf) (auto simp: present_def b64_encode_not_Nil)

lemma present_identity:
  "map_option (\<lambda>s. bytes_of_hex (strip0x s)) (present (map_option (\<lambda>k. CHR ''0'' # CHR ''x'' # hex_of_bytes k) i)) = i"
  by (cases i) (auto simp: present_def)

lemma parseNonce_length: "parseNonce v = Inr (Some n) \<Longrightarrow> length n = 32"
  by (auto simp: parseNonce_def Let_def length_bytes_of_hex split: option.splits if_splits)

text \<open>The client decodes the keys the server encoded.\<close>

lemma bound_inputs_boundKeys:
  assumes "boundKeys ks = Inr (inputs, keys)" "ks_leaf ks \<noteq> Some []"
  shows "bound_inputs keys = Inr inputs"
  using assms
  by (auto simp: boundKeys_def bound_inputs_def identity_of_def certificate_of_def present_encode present_identity bind_eq_Inr Let_def
      split: option.splits)

lemma boundKeys_derived:
  assumes "derived_keys lib kd mlkem idKey identity refund" "tk_publicKey tk = Some mlkem"
  obtains inputs keys where "boundKeys \<lparr>ks_keyManager = tk, ks_keyDerivation = kd, ks_leaf = leaf\<rparr> = Inr (inputs, keys)"
    "ri_mlkemPublicKey inputs = mlkem" "ri_identityPublicKey inputs = Some identity" "ri_tlsCertificateDer inputs = leaf"
    "bk_refundSignerPublicKey keys = Some refund"
  using assms
  by (auto simp: boundKeys_def derived_keys_def getPublicKeyBytes_def getIdentityPublicKey_def getRefundSignerPublicKey_def)

lemma report_length:
  assumes "hash32 sha256" "buildReportData sha256 i n = Inr rd"
  shows "length rd = 64"
  using assms by (auto simp: buildReportData_def bind_eq_Inr hash32_def nonce_bytes_def NONCE_LENGTH_def guard_def
      split: option.splits if_splits)

lemma phala_attests:
  assumes "boundKeys ks = Inr (inputs, keys)" "buildReportData sha256 inputs n = Inr rd" "length rd = 64" "dstack_quotes vl w"
  obtains a where "at_getAttestation sha256 w ks n (Some (Phala True)) = (Some (Phala True), Inr a)"
    "ba_keys a = keys" "aq_platform (ba_quote a) = ''phala''" "aq_reportData (ba_quote a) = hex_of_bytes rd"
    "quote_failures vl (evidence_of a) rd = Inr []"
proof -
  from assms(3,4) obtain q log where q: "te_getQuote w rd = Inr (hex_of_bytes q, log)" "tdxQuoteReportData q = Inr rd"
    "verifyEventLog (vl_sha384 vl) (vl_parse_log vl) q log = Inr []" by (auto simp: dstack_quotes_def)
  show thesis
    using that assms(1-3) q
    by (simp add: at_getAttestation_def phala_quote_def quote_failures_def evidence_of_def fails_def)
qed

text \<open>C26 An honest service verifies: with keys derived from the KMS, the attestation the service returns for
  a client's nonce and the manifest it returns pass the client's check without a single failure, with
  the certificate of the TLS session included.\<close>

theorem attestation_verifies:
  assumes "derive lib ag kd_init = Inr kd" "kd_appId kd \<noteq> Some []" "tk_onModuleInit env kd tk_init = (tk, Inr ())"
    "coordinates_fit lib" "ethers_agrees lib vl" "dstack_quotes vl w" "hash32 (kl_sha256 lib)" "leaf \<noteq> Some []"
    "parseNonce nonce = Inr n"
  shows "\<exists>a i sm. get_attestation (kl_sha256 lib) w \<lparr>ks_keyManager = tk, ks_keyDerivation = kd, ks_leaf = leaf\<rparr> nonce
        (Some (Phala True)) = (Some (Phala True), Inr (a, i))
    \<and> snd (getKeyManifest lib leaf kd) = Inr (Some sm)
    \<and> verifyKeyBinding vl (evidence_of a) \<lparr>bo_nonce = n, bo_servedCertificate = leaf, bo_keyManifest = Some sm\<rparr> = Inr []"
proof -
  let ?ks = "\<lparr>ks_keyManager = tk, ks_keyDerivation = kd, ks_leaf = leaf\<rparr>"
  obtain mlkem idKey identity refund where k: "derived_keys lib kd mlkem idKey identity refund"
    using assms(1,4) by (rule derive_keys)
  then have tk: "tk_publicKey tk = Some mlkem" using assms(3) by (auto simp: tk_onModuleInit_def derived_keys_def)
  obtain inputs keys where b: "boundKeys ?ks = Inr (inputs, keys)" "ri_mlkemPublicKey inputs = mlkem"
    "ri_identityPublicKey inputs = Some identity" "ri_tlsCertificateDer inputs = leaf" "bk_refundSignerPublicKey keys = Some refund"
    using k tk by (rule boundKeys_derived)
  obtain rd where rd: "buildReportData (kl_sha256 lib) inputs n = Inr rd"
    using assms(9) parseNonce_length by (cases n) (auto simp: buildReportData_def guard_def NONCE_LENGTH_def)
  obtain a where a: "at_getAttestation (kl_sha256 lib) w ?ks n (Some (Phala True)) = (Some (Phala True), Inr a)"
    "ba_keys a = keys" "aq_platform (ba_quote a) = ''phala''" "aq_reportData (ba_quote a) = hex_of_bytes rd"
    "quote_failures vl (evidence_of a) rd = Inr []"
    using b(1) rd report_length [OF assms(7) rd] assms(6) by (rule phala_attests)
  have kd0: "kd_keyManifest kd = None" "\<exists>appId. kd_appId kd = Some appId \<and> appId \<noteq> []"
    using derive_ok [OF assms(1)] assms(2) by (auto simp: kd_init_def)
  then obtain appId where app: "kd_appId kd = Some appId" "appId \<noteq> []" by blast
  obtain sm where sm: "snd (getKeyManifest lib leaf kd) = Inr (Some sm)"
    "km_mlkemPublicKeyHash (sk_manifest sm) = sha256_text (kl_sha256 lib) mlkem"
    "(km_refundSignerX (sk_manifest sm), km_refundSignerY (sk_manifest sm)) = refund"
    "km_tlsCertificateHash (sk_manifest sm) = served_hash lib leaf"
    "sk_signature sm = kl_sign lib idKey (kl_typed_hash lib (sk_manifest sm))"
    using k kd0(1) app by (rule manifest_exists)
  note vm = verifyManifest_ok [OF k assms(5) sm(2-5) b(5)]
  have sha: "vl_sha256 vl = kl_sha256 lib" using assms(5) by (simp add: ethers_agrees_def)
  have bi: "bound_inputs keys = Inr inputs" by (rule bound_inputs_boundKeys [OF b(1)]) (simp add: assms(8))
  have "certificate_failures leaf leaf = []" by (cases leaf) (simp_all add: certificate_failures_def)
  then have "verifyKeyBinding vl (evidence_of a) \<lparr>bo_nonce = n, bo_servedCertificate = leaf, bo_keyManifest = Some sm\<rparr> = Inr []"
    using bi rd a vm b sha by (simp add: verifyKeyBinding_def) (simp add: evidence_of_def)
  moreover have "\<exists>i. get_attestation (kl_sha256 lib) w ?ks nonce (Some (Phala True)) = (Some (Phala True), Inr (a, i))"
    using assms(9) a(1) by (simp add: get_attestation_def sbind_def)
  ultimately show ?thesis using sm(1) by blast
qed

section \<open>Production attests through dstack\<close>

text \<open>C27 Production attests only through dstack: when the service has started in production, its platform
  is the dstack one, the simulator is not configured, and the first quote was made and carries exactly
  the report data that commits to the service's keys.\<close>

theorem production_attests:
  assumes "isProd env = Inr True" "at_onModuleInit w env None = (st, Inr ())"
    "at_onApplicationBootstrap sha256 w env ks st = (st', Inr ())"
  shows "st = Some (Phala True) \<and> \<not> is_set env ''DSTACK_SIMULATOR_ENDPOINT'' \<and>
    (\<exists>inputs keys rd a. boundKeys ks = Inr (inputs, keys) \<and> buildReportData sha256 inputs None = Inr rd
       \<and> snd (at_getAttestation sha256 w ks None st) = Inr a
       \<and> tdxQuoteReportData (b64_decode (aq_quote (ba_quote a))) = Inr rd \<and> aq_reportData (ba_quote a) = hex_of_bytes rd)"
proof -
  have st: "st = Some (Phala True)" "\<not> is_set env ''DSTACK_SIMULATOR_ENDPOINT''"
    using assms(1,2)
    by (auto simp: at_onModuleInit_def selectProductionPlatform_def phala_isAvailable_def Let_def
        split: sum.splits if_splits prod.splits)
  from assms(1,3) obtain inputs keys rd a st1 where
    b: "boundKeys ks = Inr (inputs, keys)" "buildReportData sha256 inputs None = Inr rd"
    and c: "scatch (at_getAttestation sha256 w ks None)
      (\<lambda>_. slift (Inl (Error ''Cannot start in production: first quote failed''))) st = (st1, Inr a)"
    and d: "tdxQuoteReportData (b64_decode (aq_quote (ba_quote a))) = Inr rd"
    by (auto simp: at_onApplicationBootstrap_def sbind_ok bind_eq_Inr guard_def split: if_splits prod.splits)
  from c have a: "at_getAttestation sha256 w ks None st = (st1, Inr a)"
    by (auto simp: scatch_def split: prod.splits sum.splits)
  then have "\<exists>p'. generateQuote w rd (Phala True) = (p', Inr (ba_quote a))"
    using b st(1) by (auto simp: at_getAttestation_def split: sum.splits prod.splits)
  then have "aq_reportData (ba_quote a) = hex_of_bytes rd" using any.reports_data [of w rd "Phala True"] by auto
  with a b d st show ?thesis by (metis snd_conv)
qed

section \<open>A sample machine\<close>

definition sample_tee :: tee_world where
  "sample_tee = \<lparr>te_files = [''/var/run/dstack.sock''], te_newClient = Inr (), te_info = Inr (),
     te_getQuote = \<lambda>rd. Inr (hex_of_bytes (quote_around rd), ''[]''), te_tdx_userData = \<lambda>_. Inl TypeError,
     te_tdx_dataFile = \<lambda>_. Inl TypeError, te_tdx_plain = Inl TypeError, te_snpguest = \<lambda>_. Inl TypeError,
     te_now = 0, te_iso = ''1970-01-01T00:00:00.000Z''\<rparr>"

definition sample_verify :: verify_lib where
  "sample_verify = \<lparr>vl_sha256 = toy_sha, vl_sha384 = \<lambda>b. take 48 (b @ replicate 48 0), vl_parse_log = \<lambda>_. Inr [],
     vl_verifyTypedData = \<lambda>m sg. Inr ''0xa'', vl_getAddress = \<lambda>a. Inr a, vl_computeAddress = \<lambda>k. Inr ''0xa''\<rparr>"

lemma sample_measurements: "length rd = 64 \<Longrightarrow> parseTdxMeasurements (quote_around rd) =
    Inr \<lparr>tm_mrtd = hex_of_bytes (zeros 48), tm_rtmrs = replicate 4 (hex_of_bytes (zeros 48))\<rparr>"
  by (simp add: parseTdxMeasurements_def quote_around_def TDX_QUOTE_BODY_END_def QUOTE_HEADER_LENGTH_def TDX_REPORT_DATA_OFFSET_def
      measurement_def subarray_def zeros_def TDX_QUOTE_MRTD_OFFSET_def TDX_QUOTE_RTMR_OFFSETS_def MEASUREMENT_LENGTH_def numeral_eq_Suc)

lemma sample_event_log: "length rd = 64 \<Longrightarrow> verifyEventLog sha384 (\<lambda>_. Inr []) (quote_around rd) eventLog = Inr []"
  by (simp add: verifyEventLog_def sample_measurements replayRtmrs_def MEASUREMENT_LENGTH_def)

lemma sample_hypotheses:
  "dstack_quotes sample_verify sample_tee" "ethers_agrees toy_key_lib sample_verify" "coordinates_fit toy_key_lib"
  "hash32 (kl_sha256 toy_key_lib)"
  by (auto simp: dstack_quotes_def sample_verify_def sample_tee_def sample_event_log ethers_agrees_def toy_key_lib_def
      coordinates_fit_def toy_eddsa_def)

lemma toy_keys:
  obtains kd tk where "derive toy_key_lib toy_agent kd_init = Inr kd" "kd_appId kd = Some ''0x1''"
    "tk_onModuleInit [] kd tk_init = (tk, Inr ())"
proof -
  obtain kd where kd: "derive toy_key_lib toy_agent kd_init = Inr kd" "kd_appId kd = Some ''0x1''" by (rule toy_derive)
  from derive_ok [OF kd(1)] have "getMlKemPublicKey kd \<noteq> None" by (auto simp: getMlKemPublicKey_def)
  then obtain pub where "getMlKemPublicKey kd = Some pub" by blast
  then show thesis by (intro that [OF kd, of "tk_init\<lparr>tk_publicKey := Some pub, tk_derived := True\<rparr>"]) (simp add: tk_onModuleInit_def)
qed

theorem attestation_verifies_witness:
  "\<exists>kd tk a i sm. get_attestation toy_sha sample_tee \<lparr>ks_keyManager = tk, ks_keyDerivation = kd, ks_leaf = Some [7]\<rparr> None
      (Some (Phala True)) = (Some (Phala True), Inr (a, i))
    \<and> verifyKeyBinding sample_verify (evidence_of a) \<lparr>bo_nonce = None, bo_servedCertificate = Some [7], bo_keyManifest = Some sm\<rparr> = Inr []"
proof -
  obtain kd tk where kd: "derive toy_key_lib toy_agent kd_init = Inr kd" "kd_appId kd = Some ''0x1''"
    "tk_onModuleInit [] kd tk_init = (tk, Inr ())" by (rule toy_keys)
  have "kd_appId kd \<noteq> Some []" "Some [7] \<noteq> Some ([] :: bytes)" "parseNonce None = Inr None"
    using kd(2) by (simp_all add: parseNonce_def)
  from attestation_verifies [OF kd(1) this(1) kd(3) sample_hypotheses(3,2,1,4) this(2,3)]
  have "\<exists>a i sm. get_attestation (kl_sha256 toy_key_lib) sample_tee \<lparr>ks_keyManager = tk, ks_keyDerivation = kd, ks_leaf = Some [7]\<rparr> None
      (Some (Phala True)) = (Some (Phala True), Inr (a, i))
    \<and> verifyKeyBinding sample_verify (evidence_of a) \<lparr>bo_nonce = None, bo_servedCertificate = Some [7], bo_keyManifest = Some sm\<rparr> = Inr []"
    by blast
  moreover have "kl_sha256 toy_key_lib = toy_sha" by (simp add: toy_key_lib_def)
  ultimately show ?thesis by metis
qed

lemma sample_boots:
  assumes "boundKeys ks = Inr (inputs, keys)" "isProd env = Inr True"
  shows "at_onApplicationBootstrap toy_sha sample_tee env ks (Some (Phala True)) = (Some (Phala True), Inr ())"
proof -
  obtain rd where rd: "buildReportData toy_sha inputs None = Inr rd" by (auto simp: buildReportData_def)
  with report_length have l: "length rd = 64" using hash32_toy by blast
  show ?thesis using assms rd l
    by (simp add: at_onApplicationBootstrap_def at_getAttestation_def sbind_def scatch_def phala_quote_def sample_tee_def guard_def Let_def)
qed

theorem production_attests_witness:
  "\<exists>ks st st'. at_onModuleInit sample_tee [(''NODE_ENV'', ''production'')] None = (st, Inr ())
    \<and> at_onApplicationBootstrap toy_sha sample_tee [(''NODE_ENV'', ''production'')] ks st = (st', Inr ()) \<and> st = Some (Phala True)"
proof -
  let ?tk = "tk_init\<lparr>tk_publicKey := Some [1]\<rparr>"
  let ?ks = "\<lparr>ks_keyManager = ?tk, ks_keyDerivation = kd_init, ks_leaf = None\<rparr>"
  obtain inputs keys where b: "boundKeys ?ks = Inr (inputs, keys)"
    by (simp add: boundKeys_def getPublicKeyBytes_def getRefundSignerPublicKey_def kd_init_def Let_def)
  have e: "jm_get [(''NODE_ENV'', ''production'')] ''TEE_PLATFORM'' = None"
    "\<not> is_set [(''NODE_ENV'', ''production'')] ''DSTACK_SIMULATOR_ENDPOINT''" by code_simp+
  have m: "at_onModuleInit sample_tee [(''NODE_ENV'', ''production'')] None = (Some (Phala True), Inr ())"
    using toy_prod_env(1) e
    by (simp add: at_onModuleInit_def selectProductionPlatform_def phala_isAvailable_def sample_tee_def existsSync_def Let_def)
  note s = sample_boots [OF b toy_prod_env(1)]
  from production_attests [OF toy_prod_env(1) m s] m s show ?thesis by blast
qed

end
