(* ===== verification/Encryption.thy ===== *)
theory Encryption
  imports Keys
begin

unbundle bit_operations_syntax

text \<open>
  \<open>src/src/encryption/mlkem-encryption.service.ts\<close>: payloads encrypted to the enclave's ML-KEM key.

  AES-256-GCM and ML-KEM encapsulation are the record \<open>cipher_lib\<close>; a text is its UTF-8 bytes.  Outside
  tests every failure of a decryption is replaced by one message.

  Shown: what the service encrypts it decrypts, and what a client encrypts for several recipients in the
  documented layout is decrypted by the recipient's own entry.
\<close>

section \<open>Operations\<close>

record recipient_entry =
  re_publicKey :: string
  re_ciphertext :: string

record multi_payload =
  mp_recipients :: "recipient_entry list"
  mp_encryptedData :: string
  mp_iv :: string
  mp_authTag :: string

record encrypted_payload =
  ep_ciphertext :: string
  ep_encryptedData :: string
  ep_iv :: string
  ep_authTag :: string

record cipher_lib =
  ci_keys :: key_lib
  ci_encap :: "bytes \<Rightarrow> bytes \<Rightarrow> (bytes \<times> bytes) res"
  ci_gcm_encrypt :: "bytes \<Rightarrow> bytes \<Rightarrow> bytes \<Rightarrow> (bytes \<times> bytes) res"
  ci_gcm_decrypt :: "bytes \<Rightarrow> bytes \<Rightarrow> bytes \<Rightarrow> bytes \<Rightarrow> bytes res"

definition enc_getPublicKey :: "tee_keys \<Rightarrow> string option" where
  "enc_getPublicKey tk = tk_getPublicKey tk"

definition enc_isAvailable :: "tee_keys \<Rightarrow> bool" where
  "enc_isAvailable tk = tk_isAvailable tk"

text \<open>In tests the original error is thrown again.\<close>

definition hide_error :: "env \<Rightarrow> string \<Rightarrow> 'a res \<Rightarrow> 'a res" where
  "hide_error env message r = (case r of
     Inr v \<Rightarrow> Inr v
   | Inl e \<Rightarrow> if jm_get env ''NODE_ENV'' = Some ''test'' then Inl e else Inl (Error message))"

text \<open>\<open>a[i] ^ b[i]\<close> where a missing byte counts as zero.\<close>

definition byte_at :: "bytes \<Rightarrow> nat \<Rightarrow> byte" where
  "byte_at bs i = (if i < length bs then bs ! i else 0)"

definition xor32 :: "bytes \<Rightarrow> bytes \<Rightarrow> bytes" where
  "xor32 a b = map (\<lambda>i. byte_at a i XOR byte_at b i) [0..<32]"

definition decryptMultiRecipient :: "cipher_lib \<Rightarrow> env \<Rightarrow> key_derivation \<Rightarrow> tee_keys \<Rightarrow> multi_payload \<Rightarrow> bytes res" where
  "decryptMultiRecipient lib env kd tk payload =
     (case getPublicKeyBytes tk of
        None \<Rightarrow> Inl (Error ''ML-KEM encryption not initialized'')
      | Some publicKey \<Rightarrow>
          if \<not> tk_isAvailable tk then Inl (Error ''ML-KEM encryption not initialized'')
          else hide_error env ''Failed to decrypt multi-recipient data''
            (let serverPublicKeyBase64 = b64_encode publicKey in
             case List.find (\<lambda>r. re_publicKey r = serverPublicKeyBase64) (mp_recipients payload) of
               None \<Rightarrow> Inl (Error (''Server public key not found in recipients list (expected: ''
                 @ take 32 serverPublicKeyBase64 @ ''...)''))
             | Some entry \<Rightarrow>
                 let combined = b64_decode (re_ciphertext entry) in
                 if length combined \<noteq> 1568 + 32
                 then Inl (Error (''Invalid combined ciphertext size: '' @ dec_of_nat (length combined) @ '' (expected 1600)''))
                 else bind (tk_decapsulate (ci_keys lib) (take 1568 combined) kd tk) (\<lambda>sharedSecret.
                   let aesKey = xor32 (drop 1568 combined) (take 32 sharedSecret) in
                   ci_gcm_decrypt lib aesKey (b64_decode (mp_iv payload)) (b64_decode (mp_encryptedData payload))
                     (b64_decode (mp_authTag payload)))))"

definition decrypt :: "cipher_lib \<Rightarrow> env \<Rightarrow> key_derivation \<Rightarrow> tee_keys \<Rightarrow> encrypted_payload \<Rightarrow> bytes res" where
  "decrypt lib env kd tk payload =
     (if \<not> tk_isAvailable tk then Inl (Error ''ML-KEM encryption not initialized'')
      else hide_error env ''Failed to decrypt data''
        (let ciphertext = b64_decode (ep_ciphertext payload) in
         if length ciphertext \<noteq> 1568
         then Inl (Error (''Invalid ML-KEM ciphertext size: '' @ dec_of_nat (length ciphertext) @ '' (expected 1568)''))
         else bind (tk_decapsulate (ci_keys lib) ciphertext kd tk) (\<lambda>sharedSecret.
           ci_gcm_decrypt lib sharedSecret (b64_decode (ep_iv payload)) (b64_decode (ep_encryptedData payload))
             (b64_decode (ep_authTag payload)))))"

text \<open>The randomness of the encapsulation and the IV are arguments.\<close>

definition encrypt :: "cipher_lib \<Rightarrow> bytes \<Rightarrow> bytes \<Rightarrow> tee_keys \<Rightarrow> bytes \<Rightarrow> encrypted_payload res" where
  "encrypt lib coins iv tk plaintext =
     (case getPublicKeyBytes tk of
        None \<Rightarrow> Inl (Error ''ML-KEM encryption not initialized'')
      | Some publicKey \<Rightarrow>
          (case bind (ci_encap lib coins publicKey) (\<lambda>(ciphertext, sharedSecret).
                bind (ci_gcm_encrypt lib sharedSecret iv plaintext) (\<lambda>(encrypted, authTag).
                  Inr \<lparr>ep_ciphertext = b64_encode ciphertext, ep_encryptedData = b64_encode encrypted,
                       ep_iv = b64_encode iv, ep_authTag = b64_encode authTag\<rparr>)) of
             Inl _ \<Rightarrow> Inl (Error ''Failed to encrypt data'')
           | Inr p \<Rightarrow> Inr p))"

section \<open>The round trips\<close>

text \<open>The laws of the primitives: a decapsulation recovers the shared secret of an encapsulation to the key
  it belongs to, and an authenticated decryption recovers what was encrypted.\<close>

definition kem_correct :: "cipher_lib \<Rightarrow> key_derivation \<Rightarrow> tee_keys \<Rightarrow> bool" where
  "kem_correct lib kd tk \<longleftrightarrow> (\<forall>coins pk ct ss. getPublicKeyBytes tk = Some pk \<longrightarrow> ci_encap lib coins pk = Inr (ct, ss) \<longrightarrow>
     length ct = 1568 \<and> length ss = 32 \<and> tk_decapsulate (ci_keys lib) ct kd tk = Inr ss)"

definition gcm_correct :: "cipher_lib \<Rightarrow> bool" where
  "gcm_correct lib \<longleftrightarrow> (\<forall>k iv p c t. ci_gcm_encrypt lib k iv p = Inr (c, t) \<longrightarrow> ci_gcm_decrypt lib k iv c t = Inr p)"

lemma length_xor32 [simp]: "length (xor32 a b) = 32"
  by (simp add: xor32_def)

lemma xor32_twice:
  assumes "length k = 32"
  shows "xor32 (xor32 k s) s = k"
proof (rule nth_equalityI)
  fix i assume "i < length (xor32 (xor32 k s) s)"
  then have i: "i < 32" by simp
  then have "xor32 a b ! i = byte_at a i XOR byte_at b i" for a b by (simp add: xor32_def)
  moreover have "byte_at (xor32 k s) i = xor32 k s ! i" "byte_at k i = k ! i" using i assms by (simp_all add: byte_at_def)
  ultimately show "xor32 (xor32 k s) s ! i = k ! i" by (simp add: xor.assoc)
qed (simp add: assms)

text \<open>A payload for several recipients, as the client makes it: the data under a fresh AES key, and for each
  recipient the encapsulation with the AES key masked by the shared secret.\<close>

definition recipient_for :: "cipher_lib \<Rightarrow> bytes \<Rightarrow> bytes \<Rightarrow> bytes \<Rightarrow> recipient_entry res" where
  "recipient_for lib coins aesKey pk = bind (ci_encap lib coins pk) (\<lambda>(ct, ss).
     Inr \<lparr>re_publicKey = b64_encode pk, re_ciphertext = b64_encode (ct @ xor32 aesKey ss)\<rparr>)"

text \<open>Decryption undoes encryption: what the service encrypts decrypts to the same text, and a payload made
  for several recipients decrypts through the server's own entry, wherever it stands in the list, for
  any ML-KEM and AES-GCM that are correct.\<close>

theorem encryption_roundtrip:
  assumes "kem_correct lib kd tk" "gcm_correct lib" "tk_isAvailable tk" "getPublicKeyBytes tk = Some pk"
  shows "(encrypt lib coins iv tk plaintext = Inr payload \<longrightarrow> decrypt lib env kd tk payload = Inr plaintext)
    \<and> (recipient_for lib coins aesKey pk = Inr entry \<and> length aesKey = 32 \<and> ci_gcm_encrypt lib aesKey iv plaintext = Inr (c, t)
       \<and> (\<forall>r \<in> set others. re_publicKey r \<noteq> b64_encode pk)
       \<longrightarrow> decryptMultiRecipient lib env kd tk \<lparr>mp_recipients = others @ entry # rest, mp_encryptedData = b64_encode c,
             mp_iv = b64_encode iv, mp_authTag = b64_encode t\<rparr> = Inr plaintext)"
proof (intro conjI impI)
  assume "encrypt lib coins iv tk plaintext = Inr payload"
  then obtain ct ss e tag where x: "ci_encap lib coins pk = Inr (ct, ss)" "ci_gcm_encrypt lib ss iv plaintext = Inr (e, tag)"
    "payload = \<lparr>ep_ciphertext = b64_encode ct, ep_encryptedData = b64_encode e, ep_iv = b64_encode iv, ep_authTag = b64_encode tag\<rparr>"
    using assms(4) by (auto simp: encrypt_def bind_eq_Inr split: sum.splits)
  have "length ct = 1568" "tk_decapsulate (ci_keys lib) ct kd tk = Inr ss" "ci_gcm_decrypt lib ss iv e tag = Inr plaintext"
    using assms(1,2,4) x by (auto simp: kem_correct_def gcm_correct_def)
  then show "decrypt lib env kd tk payload = Inr plaintext"
    using assms(3) x(3) by (simp add: decrypt_def hide_error_def)
next
  assume a: "recipient_for lib coins aesKey pk = Inr entry \<and> length aesKey = 32 \<and> ci_gcm_encrypt lib aesKey iv plaintext = Inr (c, t)
       \<and> (\<forall>r \<in> set others. re_publicKey r \<noteq> b64_encode pk)"
  then obtain ct ss where x: "ci_encap lib coins pk = Inr (ct, ss)"
    "entry = \<lparr>re_publicKey = b64_encode pk, re_ciphertext = b64_encode (ct @ xor32 aesKey ss)\<rparr>"
    by (auto simp: recipient_for_def bind_eq_Inr)
  have l: "length ct = 1568" "length ss = 32" "tk_decapsulate (ci_keys lib) ct kd tk = Inr ss"
    "ci_gcm_decrypt lib aesKey iv c t = Inr plaintext"
    using assms(1,2,4) x a by (auto simp: kem_correct_def gcm_correct_def)
  have "List.find (\<lambda>r. re_publicKey r = b64_encode pk) others = None" using a by (auto simp: find_None_iff)
  then have "List.find (\<lambda>r. re_publicKey r = b64_encode pk) (others @ entry # rest) = Some entry"
    using x(2) by (induction others) (auto split: if_splits)
  then show "decryptMultiRecipient lib env kd tk \<lparr>mp_recipients = others @ entry # rest, mp_encryptedData = b64_encode c,
      mp_iv = b64_encode iv, mp_authTag = b64_encode t\<rparr> = Inr plaintext"
    using assms(3,4) x(2) l a by (simp add: decryptMultiRecipient_def hide_error_def xor32_twice)
qed

definition toy_cipher :: cipher_lib where
  "toy_cipher = \<lparr>ci_keys = toy_key_lib\<lparr>kl_mlkem_decap := \<lambda>c k. take 32 c\<rparr>,
     ci_encap = \<lambda>coins pk. Inr (take 1568 (coins @ replicate 1568 0), take 32 (coins @ replicate 1568 0)),
     ci_gcm_encrypt = \<lambda>k iv p. Inr (p, []), ci_gcm_decrypt = \<lambda>k iv c t. Inr c\<rparr>"

definition toy_tk :: tee_keys where
  "toy_tk = \<lparr>tk_publicKey = Some [1], tk_envPrivateKey = Some [2], tk_derived = False\<rparr>"

theorem encryption_roundtrip_witness:
  "\<exists>payload. encrypt toy_cipher [5] [9] toy_tk [104, 105] = Inr payload \<and> decrypt toy_cipher [] kd_init toy_tk payload = Inr [104, 105]"
proof -
  have h: "kem_correct toy_cipher kd_init toy_tk" "gcm_correct toy_cipher" "tk_isAvailable toy_tk" "getPublicKeyBytes toy_tk = Some [1]"
    by (auto simp: kem_correct_def gcm_correct_def toy_cipher_def toy_tk_def tk_isAvailable_def getPublicKeyBytes_def tk_decapsulate_def)
  obtain payload where p: "encrypt toy_cipher [5] [9] toy_tk [104, 105] = Inr payload"
    by (simp add: encrypt_def toy_cipher_def h(4))
  from encryption_roundtrip [OF h, of "[5]" "[9]" "[104, 105]" payload "[]"] p show ?thesis by blast
qed

end
