(* ===== verification/Http.thy ===== *)
theory Http
  imports JsBounds StateRes Blockchain
begin

text \<open>
  What every request passes through before and after its handler: the request sanitizer
  (\<open>src/src/middleware/\<close>), the throttler (\<open>src/src/guards/\<close>), the two interceptors
  (\<open>src/src/interceptors/\<close>), the exception filter (\<open>src/src/filters/\<close>), in the order
  \<open>src/src/app.module.ts\<close> and \<open>src/src/main.ts\<close> give them; the log (\<open>src/src/logging/\<close>) and the health
  routes (\<open>src/src/health/\<close>).

  Headers are insertion-ordered maps from lower-case names.  The handler, the base class of the
  throttler, the validation pipe and Express's writing of the response are arguments.

  Shown: no listed header or address that identifies the client reaches the handler; a successful response
  carries no revealing header, but for the tag that Express adds afterwards, and takes the minimum time; an error response is its status and message only, but is
  neither delayed nor stripped, and loses the refund a failed provider call comes with; the production log
  shows framework messages only.
\<close>

type_synonym headers = "(string, string) jmap"

section \<open>The request sanitizer\<close>

record socket =
  sk_remoteAddress :: string
  sk_remotePort :: nat
  sk_configurable :: bool

record http_request =
  hr_headers :: headers
  hr_ip :: string
  hr_ips :: "string list"
  hr_socket :: "socket option"
  hr_body :: string

definition IDENTIFYING_HEADERS :: "string list" where
  "IDENTIFYING_HEADERS = [''user-agent'', ''referer'', ''referrer'', ''origin'', ''x-forwarded-for'', ''x-real-ip'', ''x-client-ip'',
     ''cf-connecting-ip'', ''true-client-ip'', ''x-forwarded-proto'', ''x-forwarded-host'', ''forwarded'', ''via'',
     ''accept-language'', ''accept-encoding'', ''accept-charset'', ''dnt'', ''sec-ch-ua'', ''sec-ch-ua-mobile'',
     ''sec-ch-ua-platform'', ''sec-fetch-site'', ''sec-fetch-mode'', ''sec-fetch-dest'']"

definition remove_headers :: "string list \<Rightarrow> headers \<Rightarrow> headers" where
  "remove_headers names h = fold (\<lambda>name m. jm_delete m (toLowerCase name)) names h"

definition anonymize_socket :: "socket \<Rightarrow> socket" where
  "anonymize_socket s =
     (if sk_configurable s then \<lparr>sk_remoteAddress = ''0.0.0.0'', sk_remotePort = 0, sk_configurable = False\<rparr> else s)"

definition sanitize_request :: "http_request \<Rightarrow> http_request" where
  "sanitize_request rq = rq\<lparr>hr_headers := fold (\<lambda>name m. jm_delete m name) IDENTIFYING_HEADERS (hr_headers rq),
     hr_ip := ''0.0.0.0'', hr_ips := [], hr_socket := map_option anonymize_socket (hr_socket rq)\<rparr>"

section \<open>Responses\<close>

definition setHeader :: "string \<Rightarrow> string \<Rightarrow> headers \<Rightarrow> headers" where
  "setHeader name v h = jm_set h (toLowerCase name) v"

definition REVEALING_HEADERS :: "string list" where
  "REVEALING_HEADERS = [''x-powered-by'', ''x-request-id'', ''x-correlation-id'', ''x-response-time'', ''x-runtime'',
     ''x-transaction-id'', ''x-trace-id'', ''x-span-id'', ''server'', ''etag'', ''last-modified'', ''via'', ''x-cache'',
     ''x-cache-hits'', ''x-served-by'', ''x-timer'', ''x-backend-server'', ''x-varnish'', ''age'', ''cf-ray'',
     ''cf-cache-status'', ''x-amz-cf-id'', ''x-amz-cf-pop'', ''x-azure-ref'']"

definition sanitize_metadata :: "headers \<Rightarrow> headers" where
  "sanitize_metadata h =
     remove_headers [''Vary''] (setHeader ''Expires'' ''0'' (setHeader ''Pragma'' ''no-cache''
       (setHeader ''Cache-Control'' ''no-store, no-cache, must-revalidate, private'' (remove_headers REVEALING_HEADERS h))))"

text \<open>What runs under an interceptor: response headers before and after, and a result with the milliseconds
  it was held back.\<close>

type_synonym 'a handled = "headers \<Rightarrow> headers \<times> ('a \<times> jsnum) res"

definition metadata_intercept :: "'a handled \<Rightarrow> 'a handled" where
  "metadata_intercept handle h = (case handle h of
     (h', Inl e) \<Rightarrow> (h', Inl e) | (h', Inr r) \<Rightarrow> (sanitize_metadata h', Inr r))"

definition MIN_RESPONSE_TIME :: "env \<Rightarrow> int" where
  "MIN_RESPONSE_TIME env = (if jm_get env ''NODE_ENV'' = Some ''test'' then 10 else 100)"

definition response_delay :: "env \<Rightarrow> int \<Rightarrow> int \<Rightarrow> jsnum \<Rightarrow> jsnum" where
  "response_delay env startTime now random =
     jadd (Fin (of_int (max 0 (MIN_RESPONSE_TIME env - (now - startTime))))) (jmul random (Fin 20))"

definition timing_intercept :: "env \<Rightarrow> int \<Rightarrow> int \<Rightarrow> jsnum \<Rightarrow> 'a handled \<Rightarrow> 'a handled" where
  "timing_intercept env startTime now random handle h = (case handle h of
     (h', Inl e) \<Rightarrow> (h', Inl e) | (h', Inr (v, d)) \<Rightarrow> (h', Inr (v, response_delay env startTime now random)))"

section \<open>The throttler\<close>

definition RATE_LIMIT_HEADERS :: "string list" where
  "RATE_LIMIT_HEADERS = [''X-RateLimit-Limit'', ''X-RateLimit-Remaining'', ''X-RateLimit-Reset'', ''Retry-After'', ''X-Retry-After'',
     ''RateLimit-Limit'', ''RateLimit-Remaining'', ''RateLimit-Reset'']"

text \<open>The base class tracks requests by the fingerprint and says whether one is over the limit.\<close>

definition getTracker :: "(bytes \<Rightarrow> bytes) \<Rightarrow> int \<Rightarrow> http_request \<Rightarrow> string" where
  "getTracker sha256 now rq = hex_of_bytes (sha256 (ascii_bytes (hr_body rq @ dec_of_int (now div 60000))))"

definition throttle :: "(bytes \<Rightarrow> bytes) \<Rightarrow> int \<Rightarrow> (string \<Rightarrow> headers \<Rightarrow> headers \<times> bool) \<Rightarrow> http_request \<Rightarrow> headers \<Rightarrow> headers \<times> unit res" where
  "throttle sha256 now base rq h = (case base (getTracker sha256 now rq) h of
     (h', allowed) \<Rightarrow> (remove_headers RATE_LIMIT_HEADERS h',
        if allowed then Inr () else Inl (ThrottlerException ''Request temporarily unavailable'')))"

section \<open>The exception filter\<close>

text \<open>The status of a NestJS exception, and its message; anything else is a 500.\<close>

fun http_exception :: "exn \<Rightarrow> (nat \<times> string) option" where
  "http_exception (BadRequest m) = Some (400, m)"
| "http_exception (Unauthorized m) = Some (401, m)"
| "http_exception (Forbidden m) = Some (403, m)"
| "http_exception (NotFound m) = Some (404, m)"
| "http_exception (ThrottlerException m) = Some (429, m)"
| "http_exception (BadGateway m _ _) = Some (502, m)"
| "http_exception (ServiceUnavailable m) = Some (503, m)"
| "http_exception _ = None"

record error_body =
  er_statusCode :: nat
  er_message :: string

definition catch_exception :: "exn \<Rightarrow> error_body" where
  "catch_exception e = (case http_exception e of
     Some (status, message) \<Rightarrow> \<lparr>er_statusCode = status, er_message = (if status = 500 then ''Internal server error'' else message)\<rparr>
   | None \<Rightarrow> \<lparr>er_statusCode = 500, er_message = ''Internal server error''\<rparr>)"

section \<open>The pipeline\<close>

text \<open>One request at a given time: middleware, guard, the timing interceptor around the metadata one around
  the validation pipe and the handler, the exception filter, and then Express, which writes the value or
  the error and adds headers of its own (\<open>send\<close>).  The pipe maps the body to what the handler is given.
  The result is the response headers, and the value with the time it was held back or the body of the
  error.\<close>

record pipeline =
  pl_env :: env
  pl_sha256 :: "bytes \<Rightarrow> bytes"
  pl_base :: "string \<Rightarrow> headers \<Rightarrow> headers \<times> bool"
  pl_pipe :: "string \<Rightarrow> string res"
  pl_start :: int
  pl_done :: int
  pl_random :: jsnum

definition piped :: "(string \<Rightarrow> string res) \<Rightarrow> (http_request \<Rightarrow> headers \<Rightarrow> headers \<times> 'a res) \<Rightarrow> http_request \<Rightarrow> 'a handled" where
  "piped pipe handler rq h = (case pipe (hr_body rq) of
     Inl e \<Rightarrow> (h, Inl e)
   | Inr b \<Rightarrow> (case handler (rq\<lparr>hr_body := b\<rparr>) h of (h', r) \<Rightarrow> (h', bind r (\<lambda>v. Inr (v, Fin 0)))))"

definition respond :: "(error_body + 'a \<Rightarrow> headers \<Rightarrow> headers) \<Rightarrow> headers \<times> ('a \<times> jsnum) res \<Rightarrow> headers \<times> (error_body + 'a \<times> jsnum)" where
  "respond send r = (case r of
     (h, Inl e) \<Rightarrow> (send (Inl (catch_exception e)) h, Inl (catch_exception e))
   | (h, Inr (v, d)) \<Rightarrow> (send (Inr v) h, Inr (v, d)))"

definition http_pipeline ::
  "pipeline \<Rightarrow> (error_body + 'a \<Rightarrow> headers \<Rightarrow> headers) \<Rightarrow> (http_request \<Rightarrow> headers \<Rightarrow> headers \<times> 'a res) \<Rightarrow> http_request \<Rightarrow> headers
     \<Rightarrow> headers \<times> (error_body + 'a \<times> jsnum)" where
  "http_pipeline pl send handler rq0 h0 =
     (let rq = sanitize_request rq0 in
      respond send (case throttle (pl_sha256 pl) (pl_start pl) (pl_base pl) rq h0 of
          (h1, Inl e) \<Rightarrow> (h1, Inl e)
        | (h1, Inr _) \<Rightarrow>
            timing_intercept (pl_env pl) (pl_start pl) (pl_done pl) (pl_random pl)
              (metadata_intercept (piped (pl_pipe pl) handler rq)) h1))"

section \<open>The log\<close>

definition SAFE_PREFIXES :: "string list" where
  "SAFE_PREFIXES = [''NestFactory'', ''InstanceLoader'', ''RoutesResolver'', ''RouterExplorer'', ''NestApplication'']"

definition isSafe :: "string option \<Rightarrow> bool" where
  "isSafe context = (case context of None \<Rightarrow> False | Some c \<Rightarrow> list_ex (\<lambda>p. startsWith c p) SAFE_PREFIXES)"

definition first_line :: "string \<Rightarrow> string" where
  "first_line m = takeWhile (\<lambda>c. cval c \<noteq> 10) m"

text \<open>What each call writes to standard output.\<close>

datatype log_call = Log string "string option" | Log_error string "string option" "string option" | Warn string "string option"
  | Debug string | Verbose string

fun log_output :: "log_call \<Rightarrow> string" where
  "log_output (Log m c) = (if isSafe c then ''[LOG] '' @ the c @ '': '' @ m @ ''\<newline>'' else [])"
| "log_output (Log_error m trace c) = (if isSafe c then ''[ERR] '' @ the c @ '': '' @ first_line m @ ''\<newline>'' else [])"
| "log_output (Warn m c) = (if isSafe c then ''[WARN] '' @ the c @ '': '' @ m @ ''\<newline>'' else [])"
| "log_output (Debug m) = []"
| "log_output (Verbose m) = []"

section \<open>Health\<close>

definition health_check :: "string \<Rightarrow> string \<times> string" where
  "health_check timestamp = (''ok'', timestamp)"

definition health_ready :: "env \<Rightarrow> 'h blockchain \<Rightarrow> string \<Rightarrow> (string \<times> string) res" where
  "health_ready env bc timestamp =
     bind (isProd env) (\<lambda>p.
       if p \<and> \<not> isAvailable bc then Inl (ServiceUnavailable ''LongjingCredits does not answer yet'') else Inr (''ready'', timestamp))"

definition health_live :: "string \<Rightarrow> string \<times> string" where
  "health_live timestamp = (''alive'', timestamp)"

section \<open>Facts\<close>

lemma jm_get_fold_delete: "jm_get (fold (\<lambda>n m. jm_delete m (f n)) names h) k = (if k \<in> f ` set names then None else jm_get h k)"
  by (induction names arbitrary: h) auto

lemma remove_headers_get: "jm_get (remove_headers names h) k = (if k \<in> toLowerCase ` set names then None else jm_get h k)"
  unfolding remove_headers_def by (rule jm_get_fold_delete)

lemma identifying_removed: "jm_get (hr_headers (sanitize_request rq)) k = (if k \<in> set IDENTIFYING_HEADERS then None else jm_get (hr_headers rq) k)"
  using jm_get_fold_delete [of "\<lambda>x. x" IDENTIFYING_HEADERS "hr_headers rq" k] by (simp add: sanitize_request_def)

text \<open>The address of a request's connection is not to be read from it.  A socket that cannot be redefined is
  one that was anonymised for an earlier request.\<close>

definition anonymous_socket :: "socket option \<Rightarrow> bool" where
  "anonymous_socket so \<longleftrightarrow> (case so of None \<Rightarrow> True | Some s \<Rightarrow> sk_remoteAddress s = ''0.0.0.0'' \<and> sk_remotePort s = 0)"

definition fresh_or_anonymous :: "http_request \<Rightarrow> bool" where
  "fresh_or_anonymous rq \<longleftrightarrow> (case hr_socket rq of None \<Rightarrow> True
     | Some s \<Rightarrow> sk_configurable s \<or> sk_remoteAddress s = ''0.0.0.0'' \<and> sk_remotePort s = 0)"

lemma sanitize_anonymous:
  assumes "fresh_or_anonymous rq"
  shows "anonymous_socket (hr_socket (sanitize_request rq)) \<and> hr_ip (sanitize_request rq) = ''0.0.0.0''
    \<and> hr_ips (sanitize_request rq) = [] \<and> hr_body (sanitize_request rq) = hr_body rq"
  using assms
  by (auto simp: anonymous_socket_def fresh_or_anonymous_def sanitize_request_def anonymize_socket_def split: option.splits if_splits)

lemma identifying_names:
  "set [''user-agent'', ''referer'', ''referrer'', ''origin'', ''x-forwarded-for'', ''x-real-ip'', ''x-client-ip'',
     ''cf-connecting-ip'', ''true-client-ip'', ''x-forwarded-proto'', ''x-forwarded-host'', ''forwarded'', ''via'',
     ''accept-language'', ''accept-encoding'', ''accept-charset'', ''dnt'', ''sec-ch-ua'', ''sec-ch-ua-mobile'',
     ''sec-ch-ua-platform'', ''sec-fetch-site'', ''sec-fetch-mode'', ''sec-fetch-dest''] \<subseteq> set IDENTIFYING_HEADERS"
  using IDENTIFYING_HEADERS_def by (metis subset_refl)

lemma cache_headers:
  "toLowerCase ''Cache-Control'' = ''cache-control''" "toLowerCase ''Pragma'' = ''pragma''" "toLowerCase ''Expires'' = ''expires''"
  "toLowerCase ''Vary'' = ''vary''" "map toLowerCase REVEALING_HEADERS = REVEALING_HEADERS"
  "''cache-control'' \<notin> set REVEALING_HEADERS" "''pragma'' \<notin> set REVEALING_HEADERS" "''expires'' \<notin> set REVEALING_HEADERS"
  by code_simp+

lemma revealing_set: "toLowerCase ` set REVEALING_HEADERS = set REVEALING_HEADERS"
  using arg_cong [OF cache_headers(5), of set] by simp

lemma sanitize_metadata_get:
  "k \<in> set REVEALING_HEADERS \<Longrightarrow> jm_get (sanitize_metadata h) k = None"
  "jm_get (sanitize_metadata h) ''cache-control'' = Some ''no-store, no-cache, must-revalidate, private''"
  using cache_headers(6-8)
  by (auto simp: sanitize_metadata_def remove_headers_get setHeader_def cache_headers(1-4) revealing_set)

lemma response_delay_min:
  assumes "random = Fin r" "0 \<le> r" "r < 1" "start \<le> now" "now - start < 2 ^ 40"
  obtains d where "response_delay env start now random = Fin d" "of_int (MIN_RESPONSE_TIME env - (now - start)) \<le> d"
proof -
  let ?n = "max 0 (MIN_RESPONSE_TIME env - (now - start))"
  have n: "0 \<le> ?n" "?n \<le> 100" using assms(4) by (auto simp: MIN_RESPONSE_TIME_def)
  obtain j where j: "fl (r * 20) = Fin j" "0 \<le> j" "j \<le> 2 ^ 5"
    using fl_bounded [of "r * 20" 5] assms(2,3) by auto
  have "(0 :: rat) \<le> of_int ?n" "(of_int ?n :: rat) \<le> 100" using n by simp_all
  then have s: "0 \<le> of_int ?n + j" "of_int ?n + j \<le> 2 ^ 8" using j(2,3) by auto
  obtain d where d: "fl (of_int ?n + j) = Fin d" using fl_bounded [OF s] by auto
  have "rnd (of_int ?n) \<le> rnd (of_int ?n + j)" using j(2) by (intro rnd_mono) simp
  moreover have "rnd (of_int ?n) = of_int ?n" using n by (intro rnd_int) simp
  moreover have "d = rnd (of_int ?n + j)" using d by (auto simp: fl_def Let_def split: if_splits)
  ultimately have "of_int ?n \<le> d" by simp
  moreover have "response_delay env start now random = Fin d" using j(1) d assms(1) by (simp add: response_delay_def)
  moreover have "(of_int (MIN_RESPONSE_TIME env - (now - start)) :: rat) \<le> of_int ?n" by simp
  ultimately show thesis using that by fastforce
qed

lemma set_without: "R = A @ e # B \<Longrightarrow> N = A @ B \<Longrightarrow> set N \<subseteq> set R"
  by auto

lemma revealing_names:
  "set [''x-powered-by'', ''x-request-id'', ''x-correlation-id'', ''x-response-time'',
     ''x-runtime'', ''x-transaction-id'', ''x-trace-id'', ''x-span-id'', ''server'', ''last-modified'', ''via'', ''x-cache'',
     ''x-cache-hits'', ''x-served-by'', ''x-timer'', ''x-backend-server'', ''x-varnish'', ''age'', ''cf-ray'',
     ''cf-cache-status'', ''x-amz-cf-id'', ''x-amz-cf-pop'', ''x-azure-ref''] \<subseteq> set REVEALING_HEADERS - {''content-type'', ''content-length'', ''transfer-encoding'', ''etag''}"
    (is "set ?names \<subseteq> _")
proof -
  have "REVEALING_HEADERS = [''x-powered-by'', ''x-request-id'', ''x-correlation-id'', ''x-response-time'', ''x-runtime'', ''x-transaction-id'', ''x-trace-id'', ''x-span-id'', ''server''] @ ''etag'' #
      [''last-modified'', ''via'', ''x-cache'', ''x-cache-hits'', ''x-served-by'', ''x-timer'', ''x-backend-server'', ''x-varnish'', ''age'', ''cf-ray'', ''cf-cache-status'', ''x-amz-cf-id'', ''x-amz-cf-pop'', ''x-azure-ref'']"
    by (simp add: REVEALING_HEADERS_def)
  moreover have "?names = [''x-powered-by'', ''x-request-id'', ''x-correlation-id'', ''x-response-time'', ''x-runtime'', ''x-transaction-id'', ''x-trace-id'', ''x-span-id'', ''server''] @
      [''last-modified'', ''via'', ''x-cache'', ''x-cache-hits'', ''x-served-by'', ''x-timer'', ''x-backend-server'', ''x-varnish'', ''age'', ''cf-ray'', ''cf-cache-status'', ''x-amz-cf-id'', ''x-amz-cf-pop'', ''x-azure-ref'']"
    by simp
  ultimately have "set ?names \<subseteq> set REVEALING_HEADERS" by (rule set_without)
  moreover have "list_all (\<lambda>k. k \<notin> {''content-type'', ''content-length'', ''transfer-encoding'', ''etag''}) ?names" by simp
  ultimately show ?thesis unfolding list_all_iff by blast
qed

text \<open>What Express is used for: of the headers already set it touches at most those of the body and the tag.\<close>

definition express_send :: "(error_body + 'a \<Rightarrow> headers \<Rightarrow> headers) \<Rightarrow> bool" where
  "express_send send \<longleftrightarrow> (\<forall>b h k. k \<notin> {''content-type'', ''content-length'', ''transfer-encoding'', ''etag''} \<longrightarrow> jm_get (send b h) k = jm_get h k)"

lemma http_cases:
  assumes "http_pipeline pl send handler rq h = (h', out)"
  obtains (thrown) e where "out = Inl (catch_exception e)"
      "e = ThrottlerException ''Request temporarily unavailable'' \<or> pl_pipe pl (hr_body (sanitize_request rq)) = Inl e
       \<or> (\<exists>b h1 h2. pl_pipe pl (hr_body (sanitize_request rq)) = Inr b \<and> handler ((sanitize_request rq)\<lparr>hr_body := b\<rparr>) h1 = (h2, Inl e))"
    | (answered) v b h1 h2 where "out = Inr (v, response_delay (pl_env pl) (pl_start pl) (pl_done pl) (pl_random pl))"
      "pl_pipe pl (hr_body (sanitize_request rq)) = Inr b" "handler ((sanitize_request rq)\<lparr>hr_body := b\<rparr>) h1 = (h2, Inr v)"
      "h' = send (Inr v) (sanitize_metadata h2)"
  using assms
  by (auto simp: http_pipeline_def Let_def throttle_def timing_intercept_def metadata_intercept_def piped_def respond_def bind_def
      split: prod.splits sum.splits if_splits)

lemma http_core:
  assumes "fresh_or_anonymous rq" "pl_random pl = Fin r" "0 \<le> r" "r < 1" "pl_start pl \<le> pl_done pl" "pl_done pl - pl_start pl < 2 ^ 40"
    "express_send send" "http_pipeline pl send handler rq h = (h', out)"
    "I \<subseteq> set IDENTIFYING_HEADERS" "R \<subseteq> set REVEALING_HEADERS - {''content-type'', ''content-length'', ''transfer-encoding'', ''etag''}"
  shows "\<exists>rq'. hr_ip rq' = ''0.0.0.0'' \<and> hr_ips rq' = [] \<and> anonymous_socket (hr_socket rq')
    \<and> (\<forall>k \<in> I. jm_get (hr_headers rq') k = None)
    \<and> (case out of
       Inr (v, delay) \<Rightarrow> (\<exists>b h1 h2. pl_pipe pl (hr_body rq) = Inr b \<and> handler (rq'\<lparr>hr_body := b\<rparr>) h1 = (h2, Inr v))
         \<and> (\<forall>k \<in> R. jm_get h' k = None)
         \<and> jm_get h' ''cache-control'' = Some ''no-store, no-cache, must-revalidate, private''
         \<and> (\<exists>d. delay = Fin d \<and> of_int (MIN_RESPONSE_TIME (pl_env pl) - (pl_done pl - pl_start pl)) \<le> d)
     | Inl body \<Rightarrow> (\<exists>e. (e = ThrottlerException ''Request temporarily unavailable'' \<or> pl_pipe pl (hr_body rq) = Inl e
              \<or> (\<exists>b h1 h2. pl_pipe pl (hr_body rq) = Inr b \<and> handler (rq'\<lparr>hr_body := b\<rparr>) h1 = (h2, Inl e)))
         \<and> (er_statusCode body, er_message body) = (case e of
              BadRequest m \<Rightarrow> (400, m) | Unauthorized m \<Rightarrow> (401, m) | Forbidden m \<Rightarrow> (403, m) | NotFound m \<Rightarrow> (404, m)
            | ThrottlerException m \<Rightarrow> (429, m) | BadGateway m refund acc \<Rightarrow> (502, m) | ServiceUnavailable m \<Rightarrow> (503, m)
            | _ \<Rightarrow> (500, ''Internal server error''))))"
proof -
  let ?rq = "sanitize_request rq"
  have a: "anonymous_socket (hr_socket ?rq)" "hr_ip ?rq = ''0.0.0.0''" "hr_ips ?rq = []" "hr_body ?rq = hr_body rq"
    using sanitize_anonymous [OF assms(1)] by simp_all
  have i: "\<forall>k \<in> I. jm_get (hr_headers ?rq) k = None"
    using assms(9) identifying_removed by (metis subsetD)
  obtain d where d: "response_delay (pl_env pl) (pl_start pl) (pl_done pl) (pl_random pl) = Fin d"
    "of_int (MIN_RESPONSE_TIME (pl_env pl) - (pl_done pl - pl_start pl)) \<le> d"
    using assms(2-6) by (rule response_delay_min)
  from assms(8) show ?thesis
  proof (cases rule: http_cases)
    case (thrown e)
    have "(er_statusCode (catch_exception e), er_message (catch_exception e)) = (case e of
              BadRequest m \<Rightarrow> (400, m) | Unauthorized m \<Rightarrow> (401, m) | Forbidden m \<Rightarrow> (403, m) | NotFound m \<Rightarrow> (404, m)
            | ThrottlerException m \<Rightarrow> (429, m) | BadGateway m refund acc \<Rightarrow> (502, m) | ServiceUnavailable m \<Rightarrow> (503, m)
            | _ \<Rightarrow> (500, ''Internal server error''))"
      by (cases e) (simp_all add: catch_exception_def)
    with thrown(2) show ?thesis
      unfolding thrown(1) sum.case a(4) by (intro exI [of _ ?rq] conjI a(1-3) i exI [of _ e])
  next
    case (answered v b h1 h2)
    have k: "jm_get h' k = jm_get (sanitize_metadata h2) k" if "k \<notin> {''content-type'', ''content-length'', ''transfer-encoding'', ''etag''}" for k
      using assms(7) answered(4) that unfolding express_send_def by blast
    have n: "\<forall>k \<in> R. jm_get h' k = None"
    proof
      fix x assume "x \<in> R"
      then have "x \<notin> {''content-type'', ''content-length'', ''transfer-encoding'', ''etag''}" "x \<in> set REVEALING_HEADERS"
        using assms(10) by blast+
      from k [OF this(1)] sanitize_metadata_get(1) [OF this(2)] show "jm_get h' x = None" by (rule trans)
    qed
    have "jm_get h' ''cache-control'' = Some ''no-store, no-cache, must-revalidate, private''"
      using k [of "''cache-control''"] sanitize_metadata_get(2) by simp
    moreover have "\<exists>b h1 h2. pl_pipe pl (hr_body rq) = Inr b \<and> handler (?rq\<lparr>hr_body := b\<rparr>) h1 = (h2, Inr v)"
      using answered(2,3) unfolding a(4) by blast
    ultimately show ?thesis
      unfolding answered(1) sum.case prod.case d(1) by (intro exI [of _ ?rq] conjI a(1-3) i n exI [of _ d] refl d(2))
  qed
qed


text \<open>Express with a constant tag.\<close>

definition toy_send :: "error_body + string \<Rightarrow> headers \<Rightarrow> headers" where
  "toy_send b h = (let h' = jm_set h ''content-type'' ''application/json; charset=utf-8'' in
     if jm_get h' ''etag'' = None then jm_set h' ''etag'' ''W/1'' else h')"

definition toy_pipeline :: pipeline where
  "toy_pipeline = \<lparr>pl_env = [], pl_sha256 = \<lambda>_. [], pl_base = \<lambda>t h. (h, True), pl_pipe = Inr, pl_start = 0, pl_done = 5, pl_random = Fin 0\<rparr>"

definition toy_http :: http_request where
  "toy_http = \<lparr>hr_headers = [(''user-agent'', ''x'')], hr_ip = ''1.2.3.4'', hr_ips = [], hr_socket = None, hr_body = ''{}''\<rparr>"

lemma toy_express: "express_send toy_send"
  by (simp add: express_send_def toy_send_def Let_def)


section \<open>Where the protections stop\<close>

text \<open>Found: the tag is one of the headers the interceptor removes, but Express sets it after the interceptors
  when it is missing, so every successful response carries one.\<close>

theorem etag_returns:
  assumes "http_pipeline pl send handler rq h = (h', Inr (v, d))"
    "\<forall>b h. jm_get h ''etag'' = None \<longrightarrow> jm_get (send b h) ''etag'' \<noteq> None"
  shows "''etag'' \<in> set REVEALING_HEADERS \<and> jm_get h' ''etag'' \<noteq> None"
proof -
  have e: "''etag'' \<in> set REVEALING_HEADERS" by code_simp
  from assms(1) obtain h2 where "h' = send (Inr v) (sanitize_metadata h2)" by (cases rule: http_cases) auto
  with assms(2) sanitize_metadata_get(1) [OF e] e show ?thesis by blast
qed

theorem etag_returns_witness:
  "\<exists>h' d. http_pipeline toy_pipeline toy_send (\<lambda>rq h. (h, Inr ''ok'')) toy_http [] = (h', Inr (''ok'', d)) \<and> jm_get h' ''etag'' \<noteq> None"
proof -
  obtain h' d where o: "http_pipeline toy_pipeline toy_send (\<lambda>rq h. (h, Inr ''ok'')) toy_http [] = (h', Inr (''ok'', d))"
    by (auto simp: http_pipeline_def Let_def throttle_def timing_intercept_def metadata_intercept_def piped_def respond_def toy_pipeline_def)
  from etag_returns [OF o] o show ?thesis by (auto simp: toy_send_def Let_def)
qed

text \<open>An error is not delayed and keeps its headers: neither interceptor acts on it.\<close>

theorem errors_bypass_interceptors:
  assumes "pl_pipe pl (hr_body rq) = Inr b"
    "handler ((sanitize_request rq)\<lparr>hr_body := b\<rparr>) (remove_headers RATE_LIMIT_HEADERS h) = (h2, Inl e)" "pl_base pl = (\<lambda>t h. (h, True))"
  shows "http_pipeline pl send handler rq h = (send (Inl (catch_exception e)) h2, Inl (catch_exception e))"
proof -
  have "hr_body (sanitize_request rq) = hr_body rq" by (simp add: sanitize_request_def)
  with assms show ?thesis
    by (simp add: http_pipeline_def throttle_def timing_intercept_def metadata_intercept_def piped_def respond_def bind_def)
qed

text \<open>The refund and the signed accumulator of a failed provider call do not reach the client: two failures with
  different refunds and accumulators give the same body.\<close>

theorem filter_drops_refund: "catch_exception (BadGateway m refund acc) = catch_exception (BadGateway m refund' acc')"
  by (simp add: catch_exception_def)

text \<open>The production log shows framework messages only.\<close>

lemma log_framework_only:
  "log_output c \<noteq> [] \<Longrightarrow> \<exists>m context p. (c = Log m (Some context) \<or> (\<exists>t. c = Log_error m t (Some context)) \<or> c = Warn m (Some context))
     \<and> p \<in> set SAFE_PREFIXES \<and> startsWith context p"
  by (cases c) (auto simp: isSafe_def list_ex_iff split: if_splits option.splits)

end
