(* ===== verification/Startup.thy ===== *)
theory Startup
  imports ProofVerifier Providers Attestation
begin

text \<open>
  Start-up: \<open>src/src/main.ts\<close>, what \<open>src/src/app.module.ts\<close> imports, the hook of
  \<open>src/src/longjing/longjing.module.ts\<close> and \<open>src/src/config/secrets.service.ts\<close>.

  NestJS is the record \<open>nest\<close>: what creating the application gives, the proof verifier it holds, and
  listening, which runs the lifecycle hooks.  The environment is \<open>process.env\<close> with the \<open>.env\<close> file
  merged in; the state is the registered TLS certificate.

  Shown: a production start is refused before the application is created unless the environment, the key
  material and the TLS material pass their checks; and, since NestJS runs the hook that loads the
  verification key while listening, the readiness check before it never passes.
\<close>

section \<open>The application module\<close>

text \<open>The configuration is validated and the throttler sized when the module is loaded.\<close>

definition throttler_limit :: "env \<Rightarrow> nat res" where
  "throttler_limit env = bind (isProd env) (\<lambda>p. Inr (if p then 10 else 100))"

definition throttler_ttl :: nat where
  "throttler_ttl = 60000"

definition app_module :: "(string \<Rightarrow> string option) \<Rightarrow> (env \<Rightarrow> string list) \<Rightarrow> env \<Rightarrow> (nat \<times> nat) res" where
  "app_module url_hostname validateSync env =
     bind (validateEnvironment url_hostname validateSync env) (\<lambda>_.
     bind (throttler_limit env) (\<lambda>limit. Inr (throttler_ttl, limit)))"

section \<open>Bootstrap\<close>

record helmet_options =
  he_hidePoweredBy :: bool
  he_contentSecurityPolicy :: "(string \<times> string list) list"
  he_hsts :: "nat \<times> bool \<times> bool"
  he_frameguard :: string
  he_ieNoOpen :: bool
  he_noSniff :: bool

definition quoted :: "string \<Rightarrow> string" where
  "quoted s = CHR 0x27 # s @ [CHR 0x27]"

definition helmet :: helmet_options where
  "helmet = \<lparr>he_hidePoweredBy = True,
     he_contentSecurityPolicy = [(''defaultSrc'', [quoted ''self'']), (''scriptSrc'', [quoted ''self'']),
       (''styleSrc'', [quoted ''self'', quoted ''unsafe-inline'']), (''imgSrc'', [quoted ''self'', ''data:''])],
     he_hsts = (31536000, True, True), he_frameguard = ''deny'', he_ieNoOpen = True, he_noSniff = True\<rparr>"

text \<open>The validation pipe: \<open>whitelist\<close>, \<open>forbidNonWhitelisted\<close> and \<open>transform\<close>.\<close>

record app_setup =
  as_httpsOptions :: "(string \<times> string) option"
  as_sanitizedLogger :: bool
  as_helmet :: helmet_options
  as_corsOrigin :: "string option"
  as_validationPipe :: "bool \<times> bool \<times> bool"
  as_exceptionFilter :: bool
  as_shutdownHooks :: bool
  as_port :: nat

record ('a, 'v) nest =
  nest_create :: "(string \<times> string) option \<Rightarrow> bool \<Rightarrow> 'a res"
  nest_verifier :: "'a \<Rightarrow> 'v proof_verifier"
  nest_listen :: "'a \<Rightarrow> app_setup \<Rightarrow> unit res"

definition not_ready :: exn where
  "not_ready = Error (''FATAL: Cannot start in production mode without real proof verification. ''
     @ ''Configure circuit artifacts (verification key) before deploying.'')"

definition app_setup_for :: "bool \<Rightarrow> tls_material \<Rightarrow> app_setup" where
  "app_setup_for is_prod tls = \<lparr>as_httpsOptions = ml_httpsOptions tls, as_sanitizedLogger = is_prod, as_helmet = helmet,
     as_corsOrigin = (if is_prod then None else Some ''*''), as_validationPipe = (True, True, True),
     as_exceptionFilter = True, as_shutdownHooks = True, as_port = 3000\<rparr>"

definition bootstrap ::
  "('a, 'v) nest \<Rightarrow> tls_world \<Rightarrow> env \<Rightarrow> (bytes option, app_setup \<times> TlsSource) act" where
  "bootstrap nest w env =
     sbind (slift (isProd env)) (\<lambda>is_prod.
     sbind (slift (assertNoKeyMaterialInEnv env)) (\<lambda>_.
     sbind (loadTlsMaterial w env is_prod) (\<lambda>tls.
     sbind (slift (nest_create nest (ml_httpsOptions tls) is_prod)) (\<lambda>app.
     sbind (slift (guard (is_prod \<longrightarrow> isProductionReady (nest_verifier nest app)) not_ready)) (\<lambda>_.
     sbind (slift (nest_listen nest app (app_setup_for is_prod tls))) (\<lambda>_.
     sret (app_setup_for is_prod tls, ml_source tls)))))))"

text \<open>Loading \<open>main.ts\<close> loads the module, then runs \<open>bootstrap\<close>.\<close>

definition run_main ::
  "(string \<Rightarrow> string option) \<Rightarrow> (env \<Rightarrow> string list) \<Rightarrow> ('a, 'v) nest \<Rightarrow> tls_world \<Rightarrow> env \<Rightarrow>
     (bytes option, (nat \<times> nat) \<times> app_setup \<times> TlsSource) act" where
  "run_main url_hostname validateSync nest w env =
     sbind (slift (app_module url_hostname validateSync env)) (\<lambda>throttler.
     sbind (bootstrap nest w env) (\<lambda>started. sret (throttler, started)))"

section \<open>The hook of the Longjing module\<close>

definition longjing_onModuleInit ::
  "(json \<Rightarrow> string) \<Rightarrow> (claude_provider \<Rightarrow> provider_health res) \<Rightarrow> int \<Rightarrow> env \<Rightarrow> (claude_provider \<times> provider_registry, unit) act" where
  "longjing_onModuleInit text_of health now env st =
     (case st of (cp, rg) \<Rightarrow>
        let cp' = claude_initialize \<lparr>pc_apiKey = jm_get env ''ANTHROPIC_API_KEY'', pc_baseUrl = None,
              pc_timeout = Some (Fin 120000), pc_retries = Some (Fin 2)\<rparr> cp
        in case register now (claude_api text_of (health cp')) rg of (rg', r) \<Rightarrow> ((cp', rg'), r))"

section \<open>Secrets\<close>

text \<open>The KMS answers a quote with a status and the entries of its JSON body.\<close>

type_synonym secrets = "(string, string) jmap"

definition load_entries :: "(string \<times> string) list \<Rightarrow> secrets \<Rightarrow> secrets" where
  "load_entries es m = fold (\<lambda>(key, value) m. jm_set m key value) es m"

record kms_response =
  kr_ok :: bool
  kr_json :: "(string \<times> string) list res"

definition loadFromKms ::
  "(string \<Rightarrow> string \<Rightarrow> kms_response res) \<Rightarrow> (tee_platform option, bound_attestation) act \<Rightarrow> env \<Rightarrow>
     (tee_platform option \<times> secrets, unit) act" where
  "loadFromKms fetch getAttestation env =
     sbind (slift (guard (is_set env ''KMS_URL'') (Error ''KMS_URL environment variable is required in production''))) (\<lambda>_.
     sbind (zoom fst (\<lambda>p (_, m). (p, m)) getAttestation) (\<lambda>attestation.
     sbind (slift (fetch (the (jm_get env ''KMS_URL''))
        (json_object [(''attestation'', json_stringify (aq_quote (ba_quote attestation)))]))) (\<lambda>response.
     sbind (slift (guard (kr_ok response) (Error ''KMS refused to release secrets - attestation failed''))) (\<lambda>_.
     sbind (slift (kr_json response)) (\<lambda>secretsData.
     smodify (\<lambda>(p, m). (p, load_entries secretsData m)))))))"

definition secrets_onModuleInit ::
  "(string \<Rightarrow> string \<Rightarrow> kms_response res) \<Rightarrow> (tee_platform option, bound_attestation) act \<Rightarrow> env \<Rightarrow>
     (tee_platform option \<times> secrets, unit) act" where
  "secrets_onModuleInit fetch getAttestation env =
     sbind (slift (isProd env)) (\<lambda>is_prod.
       if is_prod \<and> is_set env ''KMS_URL'' \<and> \<not> is_set env ''ADMIN_MLKEM_PUBLIC_KEY''
       then loadFromKms fetch getAttestation env
       else smodify (\<lambda>(p, m). (p, load_entries env m)))"

definition get_secret :: "string \<Rightarrow> secrets \<Rightarrow> string res" where
  "get_secret key m = (case jm_get m key of
     None \<Rightarrow> Inl (Error (''Secret \"'' @ key @ ''\" not found''))
   | Some val \<Rightarrow> if val = [] then Inl (Error (''Secret \"'' @ key @ ''\" not found'')) else Inr val)"

section \<open>Facts\<close>

lemma isProd_production [simp]: "jm_get env ''NODE_ENV'' = Some ''production'' \<Longrightarrow> isProd env = Inr True"
  by (simp add: isProd_def profile_def)

text \<open>What a bootstrap that listens went through.\<close>

lemma bootstrap_listens:
  assumes "bootstrap nest w env leaf = (leaf', Inr (conf, source))" "jm_get env ''NODE_ENV'' = Some ''production''"
  obtains tls app where "assertNoKeyMaterialInEnv env = Inr ()" "loadTlsMaterial w env True leaf = (leaf', Inr tls)"
    "nest_create nest (ml_httpsOptions tls) True = Inr app" "isProductionReady (nest_verifier nest app)"
    "nest_listen nest app conf = Inr ()" "conf = app_setup_for True tls" "source = ml_source tls"
  using assms by (auto simp: bootstrap_def act_simps guard_eq_Inr)

text \<open>Without the opt-out no key material is in the environment, so the TLS key is not read from files.\<close>

lemma no_key_files:
  assumes "assertNoKeyMaterialInEnv env = Inr ()" "jm_get env ''NODE_ENV'' = Some ''production''"
    "\<not> keysOutsideEnclaveAllowed env"
  shows "\<not> is_set env ''TLS_KEY_PATH''"
  using assms by (simp add: assertNoKeyMaterialInEnv_def Let_def KEY_MATERIAL_ENV_def guard_eq_Inr split: if_splits)

lemma loadTlsMaterial_enclave:
  assumes "loadTlsMaterial w env True leaf = (leaf', Inr m)" "\<not> is_set env ''TLS_KEY_PATH''"
  shows "ml_source m \<in> {Dstack_source, External_proxy}"
  using assms loadFromDstack_leaf
  by (fastforce simp: loadTlsMaterial_def sbind_ok split: option.splits if_splits)


text \<open>A framework that hands out a verifier in the given state.\<close>

definition toy_nest :: "'v proof_verifier \<Rightarrow> ('v proof_verifier, 'v) nest" where
  "toy_nest pv = \<lparr>nest_create = \<lambda>_ _. Inr pv, nest_verifier = \<lambda>app. app, nest_listen = \<lambda>_ _. Inr ()\<rparr>"

lemma toy_loadTls:
  "loadTlsMaterial toy_tls sample_prod_env True None =
    (Some [1], Inr \<lparr>ml_httpsOptions = Some (''k'', ''leaf\<newline>ca''), ml_source = Dstack_source\<rparr>)"
  by (simp add: loadTlsMaterial_def loadFromDstack_def toy_tls_def is_set_def scatch_def sbind_def registerLeafCertificate_def
      setTlsLeafCertificate_def join_def sample_prod_env_def jm_get_Cons)

lemma sample_prod: "isProd sample_prod_env = Inr True" "assertNoKeyMaterialInEnv sample_prod_env = Inr ()"
  "jm_get sample_prod_env ''NODE_ENV'' = Some ''production''"
  by (simp_all add: isProd_def profile_def assertNoKeyMaterialInEnv_def sample_prod_env_def Let_def
      KEY_MATERIAL_ENV_def is_set_def jm_get_Cons)

text \<open>A key in the environment is refused; without it the same start gets as far as creating the
  application, which here throws.\<close>

definition refusing_nest :: "string \<Rightarrow> (nat, nat) nest" where
  "refusing_nest m = \<lparr>nest_create = \<lambda>_ _. Inl (Error m), nest_verifier = \<lambda>_. sample_verifier, nest_listen = \<lambda>_ _. Inr ()\<rparr>"


text \<open>C29 A production process never serves: the readiness check runs between creating the application
  and listening.  When creating it leaves the snarkjs service as its constructor made it, which is what
  NestJS does since hooks run in \<open>listen\<close>, the check fails and \<open>bootstrap\<close> throws, whatever the circuit
  artifacts, the environment and the TLS material are.\<close>

theorem production_never_listens:
  assumes "\<And>https logger app. nest_create nest https logger = Inr app \<Longrightarrow> pv_snark (nest_verifier nest app) = ss_init"
    "jm_get env ''NODE_ENV'' = Some ''production''"
  shows "\<exists>leaf' e. run_main h vs nest w env leaf = (leaf', Inl e)"
proof (rule ccontr)
  assume "\<not> ?thesis"
  then obtain leaf' throttler conf source where "run_main h vs nest w env leaf = (leaf', Inr (throttler, conf, source))"
    by (metis prod.collapse sum.exhaust_sel sum.collapse)
  then have "bootstrap nest w env leaf = (leaf', Inr (conf, source))" by (auto simp: run_main_def act_simps)
  then obtain https app where "nest_create nest https True = Inr app" "isProductionReady (nest_verifier nest app)"
    by (rule bootstrap_listens [OF _ assms(2)]) blast
  with assms(1) [of https True app] show False by (simp add: isProductionReady_def snark_isAvailable_def ss_init_def)
qed

theorem production_never_listens_witness:
  "\<exists>leaf' e. run_main (\<lambda>_. None) (\<lambda>_. []) (toy_nest (sample_verifier\<lparr>pv_snark := ss_init\<rparr>)) toy_tls sample_prod_env None
     = (leaf', Inl e)"
  by (rule production_never_listens) (simp_all add: toy_nest_def sample_prod)

text \<open>Outside the KMS path every non-empty variable is a secret under its own name.\<close>

lemma load_entries_get:
  "jm_wf es \<Longrightarrow> jm_get (load_entries es m) k = (case jm_get es k of None \<Rightarrow> jm_get m k | Some v \<Rightarrow> Some v)"
proof (induction es arbitrary: m)
  case (Cons e es)
  obtain key v where e: "e = (key, v)" by (cases e)
  with Cons.prems have "jm_wf es" "jm_get es key = None" by (auto simp: jm_wf_def jm_get_def map_of_eq_None_iff)
  with Cons.IH [of "jm_set m key v"] e show ?case
    by (auto simp: load_entries_def jm_get_Cons split: option.splits)
qed (simp add: load_entries_def)

lemma secrets_from_env:
  assumes "jm_wf env" "isProd env = Inr p" "\<not> p \<or> \<not> is_set env ''KMS_URL'' \<or> is_set env ''ADMIN_MLKEM_PUBLIC_KEY''"
    "is_set env key"
  shows "\<exists>m. secrets_onModuleInit fetch att env (platform, []) = ((platform, m), Inr ())
     \<and> get_secret key m = Inr (the (jm_get env key))"
  using assms by (auto simp: secrets_onModuleInit_def sbind_def get_secret_def load_entries_get is_set_def)

text \<open>With a KMS, a refusal leaves no secret behind.\<close>

lemma kms_refusal:
  assumes "isProd env = Inr True" "is_set env ''KMS_URL''" "\<not> is_set env ''ADMIN_MLKEM_PUBLIC_KEY''"
    "\<And>url body r. fetch url body = Inr r \<Longrightarrow> \<not> kr_ok r"
  shows "\<exists>platform' e. secrets_onModuleInit fetch att env (platform, m) = ((platform', m), Inl e)"
  using assms
  by (auto simp: secrets_onModuleInit_def loadFromKms_def sbind_def zoom_def guard_def split: sum.splits prod.splits)

end
