(* ===== verification/ClientNote.thy ===== *)
theory ClientNote
  imports Longjing JsonText Slashing
begin

text \<open>
  \<open>src/scripts/client/note.ts\<close> and the commands of \<open>src/scripts/client/prove.ts\<close>: the user's side of a
  note.

  The contract's views are the record \<open>note_chain\<close>; Poseidon, EdDSA, the generators and the Groth16
  prover are \<open>client_lib\<close>, where the prover is a function from the circuit's inputs to the proof and the
  public outputs the code reads.  Random draws are arguments.
\<close>

section \<open>Data\<close>

record opening_file =
  of_refunds :: string
  of_index :: string
  of_blinding :: string

record request_body =
  bd_payload :: jsstr
  bd_nonce :: string
  bd_nullifier :: string
  bd_signal :: "string \<times> string"
  bd_proof :: string
  bd_merkleRoot :: string
  bd_accumulator :: "string \<times> string"
  bd_model :: "string option"

record pending_request =
  pd_rerandomizer :: string
  pd_body :: request_body

record note_file =
  nf_secretKey :: string
  nf_rpcUrl :: string
  nf_contract :: string
  nf_opening :: opening_file
  nf_signature :: "signature option"
  nf_signedBy :: "(string \<times> string) option"
  nf_pending :: "pending_request option"

record request_answer =
  an_refund :: string
  an_accumulator :: signed_accumulator

record withdrawal_args =
  wa_commitment :: string
  wa_recipient :: string
  wa_refundKey :: "string \<times> string"
  wa_proof :: "string list"
  wa_nullifier :: string
  wa_signalY :: string
  wa_payout :: string

record onchain_note =
  oc_amount :: int
  oc_leafIndex :: int
  oc_status :: int

record note_chain =
  nc_getNote :: "string \<Rightarrow> onchain_note res"
  nc_getMerkleProof :: "int \<Rightarrow> (string list \<times> int list) res"
  nc_merkleRoot :: "string res"
  nc_cMax :: "int res"
  nc_serverPublicKey :: "(string \<times> string) res"
  nc_withdrawalSignalX :: "string \<Rightarrow> int res"

text \<open>The accumulator part of the inputs, shared by the two circuits.\<close>

record accumulator_inputs =
  ai_isGenesis :: string
  ai_refunds :: string
  ai_index :: string
  ai_blinding :: string
  ai_signatureR8x :: string
  ai_signatureR8y :: string
  ai_signatureS :: string

record request_inputs =
  qi_secretKey :: string
  qi_deposit :: string
  qi_merklePathElements :: "string list"
  qi_merklePathIndices :: "string list"
  qi_accumulator :: accumulator_inputs
  qi_rerandomizer :: string
  qi_merkleRoot :: string
  qi_maxCost :: string
  qi_signalX :: string
  qi_serverPublicKey :: "string \<times> string"

record settlement_inputs =
  si_secretKey :: string
  si_accumulator :: accumulator_inputs
  si_claimedIndex :: string
  si_commitment :: string
  si_deposit :: string
  si_maxCost :: string
  si_serverPublicKey :: "string \<times> string"
  si_recipient :: string
  si_signalX :: string

record groth16_proof =
  gp_a :: "string \<times> string"
  gp_b :: "(string \<times> string) \<times> (string \<times> string)"
  gp_c :: "string \<times> string"

record request_outputs =
  qo_proof :: groth16_proof
  qo_nullifier :: string
  qo_signalY :: string
  qo_accumulator :: "string \<times> string"

text \<open>The settlement proof as \<open>exportSolidityCallData\<close> writes it.\<close>

record settlement_outputs =
  so_a :: "string list"
  so_b :: "string list list"
  so_c :: "string list"
  so_nullifier :: string
  so_signalY :: string
  so_payout :: string

record client_lib =
  cl_poseidon :: "int list \<Rightarrow> int"
  cl_sha256_utf8 :: "jsstr \<Rightarrow> bytes"
  cl_eddsa :: eddsa_lib
  cl_generators :: generators
  cl_proveRequest :: "request_inputs \<Rightarrow> request_outputs res"
  cl_proveSettlement :: "settlement_inputs \<Rightarrow> settlement_outputs res"
  cl_getAddress :: "string \<Rightarrow> string res"

section \<open>Notes\<close>

text \<open>A draw of 48 random bytes, reduced.\<close>

definition randomBelow :: "bytes \<Rightarrow> int \<Rightarrow> int" where
  "randomBelow bs bound = int (radix_val 16 (hex_of_bytes bs)) mod bound"

text \<open>\<open>ethers.toBeHex(v, 32)\<close>\<close>

definition toBeHex32 :: "int \<Rightarrow> string res" where
  "toBeHex32 v = (if 0 \<le> v \<and> v < 2 ^ 256 then Inr (hex64 v) else Inl (Error ''value out-of-bounds''))"

definition newNote :: "bytes \<Rightarrow> string \<Rightarrow> string \<Rightarrow> note_file" where
  "newNote draw rpcUrl contract = \<lparr>nf_secretKey = dec_of_int (randomBelow draw FIELD_MODULUS), nf_rpcUrl = rpcUrl,
     nf_contract = contract, nf_opening = \<lparr>of_refunds = ''0'', of_index = ''0'', of_blinding = ''0''\<rparr>,
     nf_signature = None, nf_signedBy = None, nf_pending = None\<rparr>"

definition commitmentOf :: "client_lib \<Rightarrow> note_file \<Rightarrow> string res" where
  "commitmentOf lib note = bind (BigInt_of_string (nf_secretKey note)) (\<lambda>k. toBeHex32 (cl_poseidon lib [k]))"

definition onchainNote :: "client_lib \<Rightarrow> note_chain \<Rightarrow> note_file \<Rightarrow> (string \<times> int \<times> int) res" where
  "onchainNote lib chain note =
     bind (commitmentOf lib note) (\<lambda>c.
     bind (nc_getNote chain c) (\<lambda>n.
       if oc_status n \<noteq> 1 then Inl (Error (''Note '' @ c @ '' is not active''))
       else Inr (c, oc_amount n, oc_leafIndex n)))"

definition serverKey :: "note_chain \<Rightarrow> (string \<times> string) res" where
  "serverKey chain =
     bind (nc_serverPublicKey chain) (\<lambda>(x, y).
     bind (BigInt_of_string x) (\<lambda>kx. bind (BigInt_of_string y) (\<lambda>ky. Inr (dec_of_int kx, dec_of_int ky))))"

definition accumulatorInputs :: "note_file \<Rightarrow> accumulator_inputs" where
  "accumulatorInputs note = \<lparr>ai_isGenesis = (if nf_signature note \<noteq> None then ''0'' else ''1''),
     ai_refunds = of_refunds (nf_opening note), ai_index = of_index (nf_opening note), ai_blinding = of_blinding (nf_opening note),
     ai_signatureR8x = (case nf_signature note of Some s \<Rightarrow> R8x s | None \<Rightarrow> ''0''),
     ai_signatureR8y = (case nf_signature note of Some s \<Rightarrow> R8y s | None \<Rightarrow> ''1''),
     ai_signatureS = (case nf_signature note of Some s \<Rightarrow> sigS s | None \<Rightarrow> ''0'')\<rparr>"

definition openingOf :: "note_file \<Rightarrow> int \<Rightarrow> accOpening res" where
  "openingOf note c =
     bind (BigInt_of_string (of_refunds (nf_opening note))) (\<lambda>r.
     bind (BigInt_of_string (of_index (nf_opening note))) (\<lambda>i.
     bind (BigInt_of_string (of_blinding (nf_opening note))) (\<lambda>b.
       Inr \<lparr>refunds = r, index = i, commitment = c, blinding = b\<rparr>)))"

section \<open>Requests\<close>

text \<open>Decimal texts of contract values that come as text.\<close>

definition dec_text :: "string \<Rightarrow> string res" where
  "dec_text v = bind (BigInt_of_string v) (\<lambda>n. Inr (dec_of_int n))"

fun dec_texts :: "string list \<Rightarrow> string list res" where
  "dec_texts [] = Inr []"
| "dec_texts (v # vs) = bind (dec_text v) (\<lambda>d. bind (dec_texts vs) (\<lambda>ds. Inr (d # ds)))"

definition wire_text :: "groth16_proof \<Rightarrow> string" where
  "wire_text p =
     (let q = json_quoted; ((b00, b01), (b10, b11)) = gp_b p in
      json_object
       [(''pi_a'', json_array [q (fst (gp_a p)), q (snd (gp_a p)), q ''1'']),
        (''pi_b'', json_array [json_array [q b01, q b00, q ''1''], json_array [q b11, q b10, q ''1'']]),
        (''pi_c'', json_array [q (fst (gp_c p)), q (snd (gp_c p)), q ''1'']),
        (''protocol'', q ''groth16'')])"

definition proveRequest ::
  "client_lib \<Rightarrow> note_chain \<Rightarrow> bytes \<Rightarrow> bytes \<Rightarrow> jsstr \<Rightarrow> string option \<Rightarrow> note_file \<Rightarrow> (request_body \<times> note_file) res" where
  "proveRequest lib chain drawNonce drawBlind payload model note =
     (case nf_pending note of
        Some p \<Rightarrow> Inr (pd_body p, note)
      | None \<Rightarrow>
          bind (onchainNote lib chain note) (\<lambda>(_, amount, leafIndex).
          bind (nc_getMerkleProof chain leafIndex) (\<lambda>(pathElements, pathIndices).
          bind (nc_merkleRoot chain) (\<lambda>root_hex.
          bind (nc_cMax chain) (\<lambda>cMax.
          bind (serverKey chain) (\<lambda>key.
          let nonce = randomBelow drawNonce FIELD_MODULUS;
              rerandomizer = randomBelow drawBlind SUBGROUP_ORDER;
              signalX = payloadSignalX (cl_sha256_utf8 lib) (cl_poseidon lib) payload nonce
          in bind (dec_texts pathElements) (\<lambda>elements.
             bind (dec_text root_hex) (\<lambda>rootText.
             bind (cl_proveRequest lib \<lparr>qi_secretKey = nf_secretKey note, qi_deposit = dec_of_int amount,
                 qi_merklePathElements = elements, qi_merklePathIndices = map dec_of_int pathIndices,
                 qi_accumulator = accumulatorInputs note, qi_rerandomizer = dec_of_int rerandomizer, qi_merkleRoot = rootText,
                 qi_maxCost = dec_of_int cMax, qi_signalX = dec_of_int signalX, qi_serverPublicKey = key\<rparr>) (\<lambda>out.
             let body = \<lparr>bd_payload = payload, bd_nonce = dec_of_int nonce, bd_nullifier = qo_nullifier out,
                   bd_signal = (dec_of_int signalX, qo_signalY out), bd_proof = wire_text (qo_proof out),
                   bd_merkleRoot = rootText, bd_accumulator = qo_accumulator out,
                   bd_model = (if model = Some [] then None else model)\<rparr>
             in Inr (body, note\<lparr>nf_pending := Some \<lparr>pd_rerandomizer = dec_of_int rerandomizer, pd_body = body\<rparr>\<rparr>))))))))))"

definition signature_valid :: "client_lib \<Rightarrow> string \<times> string \<Rightarrow> point \<Rightarrow> signature \<Rightarrow> bool res" where
  "signature_valid lib key received sig =
     bind (BigInt_of_string (R8x sig)) (\<lambda>r8x. bind (BigInt_of_string (R8y sig)) (\<lambda>r8y.
     bind (BigInt_of_string (sigS sig)) (\<lambda>s.
     bind (BigInt_of_string (fst key)) (\<lambda>kx. bind (BigInt_of_string (snd key)) (\<lambda>ky.
       Inr (verifyPoseidon (cl_eddsa lib) (F_e (cl_eddsa lib) (cl_poseidon lib [fst received, snd received]))
              ((F_e (cl_eddsa lib) r8x, F_e (cl_eddsa lib) r8y), s) (F_e (cl_eddsa lib) kx, F_e (cl_eddsa lib) ky)))))))"

definition receive :: "client_lib \<Rightarrow> note_chain \<Rightarrow> note_file \<Rightarrow> request_answer \<Rightarrow> note_file res" where
  "receive lib chain note answer =
     (case nf_pending note of
        None \<Rightarrow> Inl (Error ''No request is pending for this note'')
      | Some pending \<Rightarrow>
          bind (commitmentOf lib note) (\<lambda>ct. bind (BigInt_of_string ct) (\<lambda>c.
          bind (BigInt_of_string (pd_rerandomizer pending)) (\<lambda>rerandomizer.
          bind (BigInt_of_string (an_refund answer)) (\<lambda>refund.
          bind (openingOf note c) (\<lambda>op.
          let expected = applyRefund (cl_generators lib) (rerandomize (cl_generators lib) (commit (cl_generators lib) op) rerandomizer) refund;
              sig = acc_signature (an_accumulator answer)
          in bind (BigInt_of_string (acc_x (an_accumulator answer))) (\<lambda>ax. bind (BigInt_of_string (acc_y (an_accumulator answer))) (\<lambda>ay.
             if expected \<noteq> (ax, ay) then Inl (Error ''The server's accumulator doesn't add up to the refund'')
             else bind (serverKey chain) (\<lambda>key.
                  bind (signature_valid lib key (ax, ay) sig) (\<lambda>valid.
                  if \<not> valid then Inl (Error ''The accumulator isn't signed by the key registered onchain'')
                  else bind (dec_text (R8x sig)) (\<lambda>x8. bind (dec_text (R8y sig)) (\<lambda>y8. bind (dec_text (sigS sig)) (\<lambda>s8.
                    Inr (note\<lparr>nf_opening := \<lparr>of_refunds = dec_of_int (refunds op + refund), of_index = dec_of_int (index op + 1),
                           of_blinding = dec_of_int (js_rem (blinding op + rerandomizer) SUBGROUP_ORDER)\<rparr>,
                         nf_signature := Some \<lparr>R8x = x8, R8y = y8, sigS = s8\<rparr>, nf_signedBy := Some key, nf_pending := None\<rparr>))))))))))))))"

section \<open>Exits\<close>

definition proveWithdrawal :: "client_lib \<Rightarrow> note_chain \<Rightarrow> string \<Rightarrow> int option \<Rightarrow> note_file \<Rightarrow> withdrawal_args res" where
  "proveWithdrawal lib chain recipient claimedIndex note =
     bind (onchainNote lib chain note) (\<lambda>(c, amount, _).
     bind (BigInt_of_string (of_index (nf_opening note))) (\<lambda>idx.
     let n = (case claimedIndex of Some m \<Rightarrow> m | None \<Rightarrow> idx + (if nf_pending note \<noteq> None then 1 else 0)) in
     if n < idx then Inl (Error ''The claim must cover every index the accumulator used'')
     else bind (nc_cMax chain) (\<lambda>cMax.
          bind (nc_withdrawalSignalX chain recipient) (\<lambda>signalX.
          bind (case nf_signedBy note of Some k \<Rightarrow> Inr k | None \<Rightarrow> serverKey chain) (\<lambda>key.
          bind (dec_text c) (\<lambda>ct. bind (dec_text recipient) (\<lambda>rt.
          bind (cl_proveSettlement lib \<lparr>si_secretKey = nf_secretKey note, si_accumulator = accumulatorInputs note,
              si_claimedIndex = dec_of_int n, si_commitment = ct, si_deposit = dec_of_int amount, si_maxCost = dec_of_int cMax,
              si_serverPublicKey = key, si_recipient = rt, si_signalX = dec_of_int signalX\<rparr>) (\<lambda>out.
          bind (cl_getAddress lib recipient) (\<lambda>to.
          bind (BigInt_of_string (fst key)) (\<lambda>kx. bind (toBeHex32 kx) (\<lambda>hx.
          bind (BigInt_of_string (snd key)) (\<lambda>ky. bind (toBeHex32 ky) (\<lambda>hy.
          bind (dec_texts (so_a out @ concat (so_b out) @ so_c out)) (\<lambda>prf.
            Inr \<lparr>wa_commitment = c, wa_recipient = to, wa_refundKey = (hx, hy), wa_proof = prf, wa_nullifier = so_nullifier out,
                 wa_signalY = so_signalY out, wa_payout = so_payout out\<rparr>))))))))))))))"

definition nullifierAt :: "client_lib \<Rightarrow> note_file \<Rightarrow> int \<Rightarrow> int res" where
  "nullifierAt lib note idx =
     bind (BigInt_of_string (nf_secretKey note)) (\<lambda>k. Inr (cl_poseidon lib [cl_poseidon lib [k, idx]]))"

section \<open>The commands\<close>

text \<open>The user's files: notes and saved answers by path.  A command that needs an argument it was not given
  prints the usage and exits with code 1.\<close>

record client_files =
  cf_notes :: "(string, note_file) jmap"
  cf_answers :: "(string, request_answer) jmap"
  cf_signals :: "(string, (string \<times> string) \<times> (string \<times> string)) jmap"

definition usage_error :: exn where
  "usage_error = Error ''Usage: pnpm prove <note|request|receive|withdrawal|slashing> ...''"

definition read_file :: "(string, 'a) jmap \<Rightarrow> string \<Rightarrow> 'a res" where
  "read_file m p = (case jm_get m p of None \<Rightarrow> Inl (Error ''ENOENT: no such file or directory'') | Some v \<Rightarrow> Inr v)"

definition writeNote :: "string \<Rightarrow> note_file \<Rightarrow> (client_files, unit) act" where
  "writeNote p note = smodify (\<lambda>f. f\<lparr>cf_notes := jm_set (cf_notes f) p note\<rparr>)"

definition cmd_note :: "client_lib \<Rightarrow> bytes \<Rightarrow> string \<Rightarrow> string \<Rightarrow> string option \<Rightarrow> (client_files, string) act" where
  "cmd_note lib draw p rpcUrl contract f =
     (case contract of
        None \<Rightarrow> (f, Inl usage_error)
      | Some c \<Rightarrow>
          if c = [] then (f, Inl usage_error)
          else if jm_has (cf_notes f) p then (f, Inl (Error (p @ '' already exists'')))
          else sbind (writeNote p (newNote draw rpcUrl c)) (\<lambda>_. slift (commitmentOf lib (newNote draw rpcUrl c))) f)"

definition cmd_request ::
  "client_lib \<Rightarrow> note_chain \<Rightarrow> bytes \<Rightarrow> bytes \<Rightarrow> string \<Rightarrow> jsstr option \<Rightarrow> string option \<Rightarrow> (client_files, request_body) act" where
  "cmd_request lib chain d1 d2 p payload model f =
     (case payload of
        None \<Rightarrow> (f, Inl usage_error)
      | Some t \<Rightarrow>
          (case bind (read_file (cf_notes f) p) (proveRequest lib chain d1 d2 t model) of
             Inl e \<Rightarrow> (f, Inl e)
           | Inr (body, note) \<Rightarrow> sbind (writeNote p note) (\<lambda>_. sret body) f))"

definition cmd_receive :: "client_lib \<Rightarrow> note_chain \<Rightarrow> string \<Rightarrow> string \<Rightarrow> (client_files, opening_file) act" where
  "cmd_receive lib chain p responsePath f =
     (if responsePath = [] then (f, Inl usage_error)
      else case bind (read_file (cf_notes f) p) (\<lambda>note. bind (read_file (cf_answers f) responsePath) (receive lib chain note)) of
          Inl e \<Rightarrow> (f, Inl e)
        | Inr note \<Rightarrow> sbind (writeNote p note) (\<lambda>_. sret (nf_opening note)) f)"

definition cmd_withdrawal :: "client_lib \<Rightarrow> note_chain \<Rightarrow> string \<Rightarrow> string \<Rightarrow> string option \<Rightarrow> (client_files, withdrawal_args) act" where
  "cmd_withdrawal lib chain p recipient n f =
     (f, if recipient = [] then Inl usage_error
         else bind (read_file (cf_notes f) p) (\<lambda>note.
              bind (case n of None \<Rightarrow> Inr None | Some t \<Rightarrow> bind (BigInt_of_string t) (\<lambda>m. Inr (Some m))) (\<lambda>claimed.
                proveWithdrawal lib chain recipient claimed note)))"

definition cmd_slashing :: "string \<Rightarrow> (client_files, string) act" where
  "cmd_slashing p f =
     (f, if p = [] then Inl usage_error
         else bind (read_file (cf_signals f) p) (\<lambda>((x1, y1), (x2, y2)).
              bind (BigInt_of_string x1) (\<lambda>a. bind (BigInt_of_string y1) (\<lambda>b.
              bind (BigInt_of_string x2) (\<lambda>c. bind (BigInt_of_string y2) (\<lambda>d.
              bind (recoverSecretKey \<lparr>sig_x = a, sig_y = b\<rparr> \<lparr>sig_x = c, sig_y = d\<rparr>) toBeHex32))))))"

end
