(* ===== verification/ClientFacts.thy ===== *)
theory ClientFacts
  imports ClientNote Settlement
begin

text \<open>
  The two ends of a request together: the body the client proves, the server that serves it, and the
  client that folds the answer into its note.  What the request circuit outputs is the named hypothesis
  \<open>circuit_law\<close>.
\<close>

section \<open>The hypotheses\<close>

definition request_of :: "request_body \<Rightarrow> longjing_request" where
  "request_of b = \<lparr>rq_payload = bd_payload b, rq_nonce = bd_nonce b, rq_nullifier = bd_nullifier b,
     rq_signal = \<lparr>dto_x = fst (bd_signal b), dto_y = snd (bd_signal b)\<rparr>, rq_proof = bd_proof b, rq_merkleRoot = bd_merkleRoot b,
     rq_accumulator = \<lparr>dto_x = fst (bd_accumulator b), dto_y = snd (bd_accumulator b)\<rparr>, rq_model = bd_model b\<rparr>"

text \<open>The accumulator the request circuit outputs, on inputs that are residues of the field: the note's own,
  rerandomized.  \<open>NoteLife\<close> derives it from the circuit.\<close>

definition circuit_law :: "client_lib \<Rightarrow> bool" where
  "circuit_law lib \<longleftrightarrow> (\<forall>inp out k r i b s. cl_proveRequest lib inp = Inr out \<longrightarrow> BigInt_of_string (qi_secretKey inp) = Inr k \<longrightarrow>
     BigInt_of_string (ai_refunds (qi_accumulator inp)) = Inr r \<longrightarrow> BigInt_of_string (ai_index (qi_accumulator inp)) = Inr i \<longrightarrow>
     BigInt_of_string (ai_blinding (qi_accumulator inp)) = Inr b \<longrightarrow> BigInt_of_string (qi_rerandomizer inp) = Inr s \<longrightarrow>
     reduced k \<longrightarrow> reduced r \<longrightarrow> reduced i \<longrightarrow> reduced b \<longrightarrow> reduced s \<longrightarrow>
     (case rerandomize (cl_generators lib) (commit (cl_generators lib)
         \<lparr>refunds = r, index = i, commitment = cl_poseidon lib [k], blinding = b\<rparr>) s of
        (x, y) \<Rightarrow> qo_accumulator out = (dec_of_int x, dec_of_int y)))"

text \<open>Client and server use the same curve and hash, and the key registered on chain is the server's.\<close>

definition same_setup :: "client_lib \<Rightarrow> note_chain \<Rightarrow> 'v ctx \<Rightarrow> bytes \<Rightarrow> bool" where
  "same_setup lib chain cx key \<longleftrightarrow> cl_eddsa lib = cx_eddsa cx \<and> cl_generators lib = cx_generators cx \<and>
     (\<forall>x y. cl_poseidon lib [x, y] = poseidon2 (cx_eddsa cx) [x, y]) \<and>
     nc_serverPublicKey chain = Inr (hex64 (fst (prv2pub (cx_eddsa cx) key)), hex64 (snd (prv2pub (cx_eddsa cx) key)))"

text \<open>The numbers of a note are residues of the field.\<close>

definition note_reduced :: "note_file \<Rightarrow> bool" where
  "note_reduced note \<longleftrightarrow> (\<exists>k r i b. BigInt_of_string (nf_secretKey note) = Inr k \<and> BigInt_of_string (of_refunds (nf_opening note)) = Inr r
     \<and> BigInt_of_string (of_index (nf_opening note)) = Inr i \<and> BigInt_of_string (of_blinding (nf_opening note)) = Inr b
     \<and> reduced k \<and> reduced r \<and> reduced i \<and> reduced b)"

section \<open>The answer is accepted\<close>

lemma reduced_randomBelow: "reduced (randomBelow bs SUBGROUP_ORDER)"
proof -
  have "0 < SUBGROUP_ORDER" "SUBGROUP_ORDER < FIELD_MODULUS" by (simp_all add: SUBGROUP_ORDER_def FIELD_MODULUS_def)
  then show ?thesis
    unfolding randomBelow_def reduced_def by (meson pos_mod_bound pos_mod_sign less_trans)
qed

lemma rerandomize_nonneg: "rerandomize g p s = (x, y) \<Longrightarrow> 0 \<le> x \<and> 0 \<le> y"
  using addPoints_reduced [of p "mulPoint (gen_H g) s"] by (simp add: rerandomize_def reduced_point_def reduced_def)

lemma proveRequest_fresh:
  assumes "proveRequest lib chain d1 d2 payload model note = Inr (body, note1)" "nf_pending note = None"
  obtains ct inp out s where "commitmentOf lib note = Inr ct"
    "cl_proveRequest lib inp = Inr out" "qi_secretKey inp = nf_secretKey note" "qi_accumulator inp = accumulatorInputs note"
    "qi_rerandomizer inp = dec_of_int s" "bd_accumulator body = qo_accumulator out"
    "note1 = note\<lparr>nf_pending := Some \<lparr>pd_rerandomizer = dec_of_int s, pd_body = body\<rparr>\<rparr>" "reduced s"
proof -
  from assms obtain ct amount leaf where oc: "onchainNote lib chain note = Inr (ct, amount, leaf)"
    by (auto simp: proveRequest_def bind_eq_Inr)
  then have "commitmentOf lib note = Inr ct" by (auto simp: onchainNote_def bind_eq_Inr split: if_splits)
  with assms oc that show thesis using reduced_randomBelow [of d2] by (auto simp: proveRequest_def bind_eq_Inr Let_def)
qed

lemma commitment_read:
  assumes "commitmentOf lib note = Inr ct"
  obtains k where "BigInt_of_string (nf_secretKey note) = Inr k" "BigInt_of_string ct = Inr (cl_poseidon lib [k])"
  using assms by (auto simp: commitmentOf_def toBeHex32_def bind_eq_Inr BigInt_hex64 split: if_splits)

lemma server_signature_valid:
  assumes "same_setup lib chain cx key" "eddsa_correct (cx_eddsa cx)"
    "verify (cx_eddsa cx) (hex64 (fst (prv2pub (cx_eddsa cx) key)), hex64 (snd (prv2pub (cx_eddsa cx) key)))
       (accumulatorMessage (cx_eddsa cx) p) sig = Inr True"
  obtains k where "serverKey chain = Inr k" "signature_valid lib k p sig = Inr True"
    "is_ok (dec_text (R8x sig))" "is_ok (dec_text (R8y sig))" "is_ok (dec_text (sigS sig))"
proof -
  let ?x = "fst (prv2pub (cx_eddsa cx) key)" and ?y = "snd (prv2pub (cx_eddsa cx) key)"
  have nn: "0 \<le> ?x" "0 \<le> ?y" using assms(2) unfolding eddsa_correct_def by metis+
  have sk: "serverKey chain = Inr (dec_of_int ?x, dec_of_int ?y)"
    using assms(1) nn by (simp add: same_setup_def serverKey_def BigInt_hex64)
  from assms(3) nn obtain a b c where v: "BigInt_of_string (R8x sig) = Inr a" "BigInt_of_string (R8y sig) = Inr b"
    "BigInt_of_string (sigS sig) = Inr c"
    "verifyPoseidon (cx_eddsa cx) (F_e (cx_eddsa cx) (accumulatorMessage (cx_eddsa cx) p)) ((F_e (cx_eddsa cx) a, F_e (cx_eddsa cx) b), c)
       (F_e (cx_eddsa cx) ?x, F_e (cx_eddsa cx) ?y)"
    by (auto simp: verify_def bind_eq_Inr BigInt_hex64)
  then have "signature_valid lib (dec_of_int ?x, dec_of_int ?y) p sig = Inr True"
    using assms(1) by (simp add: signature_valid_def same_setup_def accumulatorMessage_def)
  with sk v(1-3) that show thesis by (simp add: dec_text_def is_ok_def)
qed

lemma served_note_step:
  assumes "proveRequest lib chain d1 d2 payload model note = Inr (body, note1)" "nf_pending note = None" "openingOf note 0 = Inr op"
    "circuit_law lib" "same_setup lib chain cx key"
    "handleRequest cx (request_of body) w = (w', Inr r)" "parseFieldElement (bd_nullifier body) = Inr n"
    "ns_get (w_store w) (dec_of_int n) = None" "getCMax (w_chain w) = Inr cMax" "0 \<le> cMax"
    "ready_world cx key w" "eddsa_correct (cx_eddsa cx)" "note_reduced note"
  shows "\<exists>note2 v. receive lib chain note1 \<lparr>an_refund = rs_refund r, an_accumulator = rs_accumulator r\<rparr> = Inr note2
    \<and> rs_refund r = dec_of_int v \<and> 0 \<le> v \<and> v \<le> cMax
    \<and> of_refunds (nf_opening note2) = dec_of_int (refunds op + v) \<and> of_index (nf_opening note2) = dec_of_int (index op + 1)
    \<and> nf_signature note2 \<noteq> None \<and> nf_pending note2 = None \<and> nf_secretKey note2 = nf_secretKey note
    \<and> (\<exists>s. reduced s \<and> of_blinding (nf_opening note2) = dec_of_int (js_rem (blinding op + s) SUBGROUP_ORDER))"
proof -
  obtain ct inp out s where p: "commitmentOf lib note = Inr ct"
    "cl_proveRequest lib inp = Inr out" "qi_secretKey inp = nf_secretKey note" "qi_accumulator inp = accumulatorInputs note"
    "qi_rerandomizer inp = dec_of_int s" "bd_accumulator body = qo_accumulator out"
    "note1 = note\<lparr>nf_pending := Some \<lparr>pd_rerandomizer = dec_of_int s, pd_body = body\<rparr>\<rparr>" "reduced s"
    using assms(1,2) by (rule proveRequest_fresh)
  obtain k where k: "BigInt_of_string (nf_secretKey note) = Inr k" "BigInt_of_string ct = Inr (cl_poseidon lib [k])"
    using p(1) by (rule commitment_read)
  from assms(3) have o: "BigInt_of_string (of_refunds (nf_opening note)) = Inr (refunds op)"
    "BigInt_of_string (of_index (nf_opening note)) = Inr (index op)" "BigInt_of_string (of_blinding (nf_opening note)) = Inr (blinding op)"
    by (auto simp: openingOf_def bind_eq_Inr)
  from assms(13) k(1) o have red: "reduced k" "reduced (refunds op)" "reduced (index op)" "reduced (blinding op)"
    by (auto simp: note_reduced_def)
  let ?op = "\<lparr>refunds = refunds op, index = index op, commitment = cl_poseidon lib [k], blinding = blinding op\<rparr>"
  obtain x y where xy: "rerandomize (cl_generators lib) (commit (cl_generators lib) ?op) s = (x, y)" by (metis surj_pair)
  have "qo_accumulator out = (dec_of_int x, dec_of_int y)"
    using assms(4) [unfolded circuit_law_def, rule_format, OF p(2), of k "refunds op" "index op" "blinding op" s] xy k(1) o p(3-5,8) red
    by (simp add: accumulatorInputs_def)
  with p(6) rerandomize_nonneg [OF xy] have pf: "parseFieldElement (dto_x (rq_accumulator (request_of body))) = Inr x"
    "parseFieldElement (dto_y (rq_accumulator (request_of body))) = Inr y"
    by (simp_all add: request_of_def parseFieldElement_dec)
  have "parseFieldElement (rq_nullifier (request_of body)) = Inr n" using assms(7) by (simp add: request_of_def)
  from served_answer [OF assms(6) this assms(8-12)] pf obtain v where
    v: "rs_refund r = dec_of_int v" "0 \<le> v" "v \<le> cMax"
    and a: "acc_x (rs_accumulator r) = dec_of_int (fst (applyRefund (cx_generators cx) (x, y) v))"
      "acc_y (rs_accumulator r) = dec_of_int (snd (applyRefund (cx_generators cx) (x, y) v))"
    and sg: "verify (cx_eddsa cx) (hex64 (fst (prv2pub (cx_eddsa cx) key)), hex64 (snd (prv2pub (cx_eddsa cx) key)))
        (accumulatorMessage (cx_eddsa cx) (applyRefund (cx_generators cx) (x, y) v)) (acc_signature (rs_accumulator r)) = Inr True"
    by auto
  obtain sk where sk: "serverKey chain = Inr sk"
    "signature_valid lib sk (applyRefund (cx_generators cx) (x, y) v) (acc_signature (rs_accumulator r)) = Inr True"
    "is_ok (dec_text (R8x (acc_signature (rs_accumulator r))))" "is_ok (dec_text (R8y (acc_signature (rs_accumulator r))))"
    "is_ok (dec_text (sigS (acc_signature (rs_accumulator r))))"
    using assms(5,12) sg by (rule server_signature_valid)
  have c1: "commitmentOf lib note1 = Inr ct" using p(1) by (simp add: p(7) commitmentOf_def)
  have o1: "openingOf note1 (cl_poseidon lib [k]) = Inr ?op" using o by (simp add: p(7) openingOf_def)
  have g: "cl_generators lib = cx_generators cx" using assms(5) by (simp add: same_setup_def)
  show ?thesis using sk v a xy c1 o1 k(2) g p(8)
    by (auto simp: receive_def p(7) is_ok_def split: sum.splits)
qed

text \<open>C14 A served request is a step of the note: when the server serves the body the client proved, the client
  accepts the answer, and its note moves to the next index with exactly the refund added and nothing
  pending, ready for the next request.\<close>

theorem client_server_roundtrip:
  assumes "proveRequest lib chain d1 d2 payload model note = Inr (body, note1)" "nf_pending note = None" "openingOf note 0 = Inr op"
    "circuit_law lib" "same_setup lib chain cx key"
    "handleRequest cx (request_of body) w = (w', Inr r)" "parseFieldElement (bd_nullifier body) = Inr n"
    "ns_get (w_store w) (dec_of_int n) = None" "getCMax (w_chain w) = Inr cMax" "0 \<le> cMax"
    "ready_world cx key w" "eddsa_correct (cx_eddsa cx)" "note_reduced note"
  shows "\<exists>note2 v. receive lib chain note1 \<lparr>an_refund = rs_refund r, an_accumulator = rs_accumulator r\<rparr> = Inr note2
    \<and> rs_refund r = dec_of_int v \<and> 0 \<le> v \<and> v \<le> cMax
    \<and> of_refunds (nf_opening note2) = dec_of_int (refunds op + v) \<and> of_index (nf_opening note2) = dec_of_int (index op + 1)
    \<and> nf_signature note2 \<noteq> None \<and> nf_pending note2 = None \<and> nf_secretKey note2 = nf_secretKey note"
  using served_note_step [OF assms] by blast

section \<open>A sample round trip\<close>

definition sample_gens :: generators where
  "sample_gens = \<lparr>gen_G = (0, 1), gen_J = (0, 1), gen_K = (0, 1), gen_H = (0, 1)\<rparr>"

lemma IDENTITY_add: "addPoints (0, 1) (0, 1) = (0, 1)"
  using addPoints_IDENTITY [of 0 1] by (simp add: IDENTITY_def)

lemma mul_loop_IDENTITY: "mul_loop (0, 1) (0, 1) e = (0, 1)"
proof (induction "(0, 1) :: point" "(0, 1) :: point" e rule: mul_loop.induct)
  case (1 e)
  then show ?case by (subst mul_loop.simps) (simp add: IDENTITY_add Let_def)
qed

lemma sample_commit: "rerandomize sample_gens (commit sample_gens op) s = (0, 1)"
  by (simp add: rerandomize_def commit_def sample_gens_def mulPoint_def IDENTITY_def mul_loop_IDENTITY IDENTITY_add)

definition sample_outputs :: request_outputs where
  "sample_outputs = \<lparr>qo_proof = \<lparr>gp_a = (''1'', ''2''), gp_b = ((''1'', ''2''), (''3'', ''4'')), gp_c = (''1'', ''2'')\<rparr>,
     qo_nullifier = ''5'', qo_signalY = ''2'', qo_accumulator = (''0'', ''1'')\<rparr>"

definition sample_client :: client_lib where
  "sample_client = \<lparr>cl_poseidon = \<lambda>xs. sum_list xs, cl_sha256_utf8 = \<lambda>_. [7], cl_eddsa = toy_eddsa, cl_generators = sample_gens,
     cl_proveRequest = \<lambda>_. Inr sample_outputs,
     cl_proveSettlement = \<lambda>_. Inl TypeError, cl_getAddress = \<lambda>a. Inr a\<rparr>"

definition sample_note_chain :: note_chain where
  "sample_note_chain = \<lparr>nc_getNote = \<lambda>_. Inr \<lparr>oc_amount = 10, oc_leafIndex = 0, oc_status = 1\<rparr>, nc_getMerkleProof = \<lambda>_. Inr ([], []),
     nc_merkleRoot = Inr ''5'', nc_cMax = Inr sample_cMax, nc_serverPublicKey = Inr (hex64 3, hex64 4),
     nc_withdrawalSignalX = \<lambda>_. Inr 1\<rparr>"

definition sample_note :: note_file where
  "sample_note = \<lparr>nf_secretKey = ''0'', nf_rpcUrl = ''http://localhost'', nf_contract = ''0xc'',
     nf_opening = \<lparr>of_refunds = ''0'', of_index = ''0'', of_blinding = ''0''\<rparr>, nf_signature = None, nf_signedBy = None, nf_pending = None\<rparr>"

lemma sample_law: "circuit_law sample_client"
proof -
  have "dec_of_int 0 = ''0''" "dec_of_int 1 = ''1''" by code_simp+
  then show ?thesis by (auto simp: circuit_law_def sample_client_def sample_outputs_def sample_commit)
qed

lemma sample_same_setup: "same_setup sample_client sample_note_chain sample_ctx [1]"
  by (simp add: same_setup_def sample_client_def sample_note_chain_def sample_ctx_def sample_gens_def toy_eddsa_def)

lemma sample_texts:
  "BigInt_of_string ''0'' = Inr 0" "randomBelow [5] FIELD_MODULUS = 5" "randomBelow [0] SUBGROUP_ORDER = 0" "dec_of_int 5 = ''5''"
  "BigInt_of_string ''5'' = Inr 5" "dec_of_int 12 = ''12''" "payloadDigest (\<lambda>_. [7]) [104, 105] = 7"
  by code_simp+

lemma sample_proof_text:
  assumes "10 \<le> length t" "10 \<le> length t'"
  shows "check_request sample_ctx (rq\<lparr>rq_proof := t\<rparr>) = check_request sample_ctx (rq\<lparr>rq_proof := t'\<rparr>)"
proof -
  have p: "json_parse sample_snark u = Inr sample_proof" for u by (simp add: sample_snark_def)
  have v: "verify_request (cx_snark sample_ctx) a b c d t = verify_request (cx_snark sample_ctx) a b c d t'" for a b c d
    using assms by (intro ext) (simp add: verify_request_def sample_ctx_def p split: sum.split)
  have sel: "rq_proof (rq\<lparr>rq_proof := u\<rparr>) = u" "rq_model (rq\<lparr>rq_proof := u\<rparr>) = rq_model rq"
    "rq_nullifier (rq\<lparr>rq_proof := u\<rparr>) = rq_nullifier rq" "rq_signal (rq\<lparr>rq_proof := u\<rparr>) = rq_signal rq"
    "rq_payload (rq\<lparr>rq_proof := u\<rparr>) = rq_payload rq" "rq_nonce (rq\<lparr>rq_proof := u\<rparr>) = rq_nonce rq"
    "rq_accumulator (rq\<lparr>rq_proof := u\<rparr>) = rq_accumulator rq" "rq_merkleRoot (rq\<lparr>rq_proof := u\<rparr>) = rq_merkleRoot rq" for u
    by simp_all
  show ?thesis unfolding check_request_def sel v ..
qed

lemma sample_handle_text:
  assumes "10 \<le> length t" "10 \<le> length t'"
  shows "handleRequest sample_ctx (rq\<lparr>rq_proof := t\<rparr>) w = handleRequest sample_ctx (rq\<lparr>rq_proof := t'\<rparr>) w"
proof -
  have "serve sample_ctx (rq\<lparr>rq_proof := t\<rparr>) = serve sample_ctx (rq\<lparr>rq_proof := t'\<rparr>)"
    "record_signal sample_ctx (rq\<lparr>rq_proof := t\<rparr>) = record_signal sample_ctx (rq\<lparr>rq_proof := t'\<rparr>)"
    by (intro ext; simp add: serve_def record_signal_def)+
  then show ?thesis unfolding handleRequest_def sample_proof_text [OF assms] by simp
qed

lemma sample_proved:
  obtains body note1 t where
    "proveRequest sample_client sample_note_chain [5] [0] [104, 105] (Some ''claude-haiku-4-5'') sample_note = Inr (body, note1)"
    "request_of body = sample_request\<lparr>rq_proof := t\<rparr>" "bd_nullifier body = ''5''" "10 \<le> length t"
proof -
  have oc: "onchainNote sample_client sample_note_chain sample_note = Inr (hex64 0, 10, 0)"
    by (simp add: onchainNote_def commitmentOf_def toBeHex32_def sample_client_def sample_note_chain_def sample_note_def sample_texts)
  have sk: "serverKey sample_note_chain = Inr (dec_of_int 3, dec_of_int 4)"
    by (simp add: serverKey_def sample_note_chain_def BigInt_hex64)
  have sx: "payloadSignalX (\<lambda>_. [7]) (\<lambda>xs. sum_list xs) [104, 105] 5 = 12" by (simp add: payloadSignalX_def sample_texts)
  have np: "nf_pending sample_note = None" by (simp add: sample_note_def)
  have lib: "cl_sha256_utf8 sample_client = (\<lambda>_. [7])" "cl_poseidon sample_client = (\<lambda>xs. sum_list xs)"
    "cl_proveRequest sample_client inp = Inr sample_outputs" for inp by (simp_all add: sample_client_def)
  have len: "10 \<le> length (wire_text (qo_proof sample_outputs))" by (simp add: wire_text_def json_object_def sample_outputs_def join_def json_quoted_def)
  have ch: "nc_getMerkleProof sample_note_chain x = Inr ([], [])" "nc_merkleRoot sample_note_chain = Inr ''5''"
    "nc_cMax sample_note_chain = Inr sample_cMax" for x by (simp_all add: sample_note_chain_def)
  define body where "body = \<lparr>bd_payload = [104, 105], bd_nonce = ''5'', bd_nullifier = ''5'', bd_signal = (''12'', ''2''),
    bd_proof = wire_text (qo_proof sample_outputs), bd_merkleRoot = ''5'', bd_accumulator = (''0'', ''1''), bd_model = Some ''claude-haiku-4-5''\<rparr>"
  have "proveRequest sample_client sample_note_chain [5] [0] [104, 105] (Some ''claude-haiku-4-5'') sample_note =
    Inr (body, sample_note\<lparr>nf_pending := Some \<lparr>pd_rerandomizer = dec_of_int 0, pd_body = body\<rparr>\<rparr>)"
    by (simp add: proveRequest_def np oc ch sk lib sx sample_texts dec_text_def Let_def body_def) (simp add: sample_outputs_def)
  moreover have "request_of body = sample_request\<lparr>rq_proof := wire_text (qo_proof sample_outputs)\<rparr>"
    by (simp add: request_of_def sample_request_def body_def)
  moreover have "bd_nullifier body = ''5''" by (simp add: body_def)
  ultimately show thesis using len by (rule that)
qed

theorem client_server_roundtrip_witness:
  "\<exists>body note1 w' r note2. proveRequest sample_client sample_note_chain [5] [0] [104, 105] (Some ''claude-haiku-4-5'') sample_note = Inr (body, note1)
    \<and> handleRequest sample_ctx (request_of body) sample_world = (w', Inr r)
    \<and> receive sample_client sample_note_chain note1 \<lparr>an_refund = rs_refund r, an_accumulator = rs_accumulator r\<rparr> = Inr note2
    \<and> of_index (nf_opening note2) = dec_of_int 1"
proof -
  obtain body note1 t where b:
    "proveRequest sample_client sample_note_chain [5] [0] [104, 105] (Some ''claude-haiku-4-5'') sample_note = Inr (body, note1)"
    "request_of body = sample_request\<lparr>rq_proof := t\<rparr>" "bd_nullifier body = ''5''" "10 \<le> length t" by (rule sample_proved)
  obtain w' r where "handleRequest sample_ctx sample_request sample_world = (w', Inr r)" by (rule sample_served)
  moreover have "10 \<le> length (rq_proof sample_request)" by (simp add: sample_request_def)
  ultimately have h: "handleRequest sample_ctx (request_of body) sample_world = (w', Inr r)"
    using sample_handle_text [OF b(4), of "rq_proof sample_request" sample_request] b(2) by simp
  have o: "openingOf sample_note 0 = Inr \<lparr>refunds = 0, index = 0, commitment = 0, blinding = 0\<rparr>" "nf_pending sample_note = None"
    by (simp_all add: openingOf_def sample_note_def sample_texts)
  have n: "parseFieldElement (bd_nullifier body) = Inr 5" using sample_hyps(1) b(3) by (simp add: sample_request_def)
  have red: "note_reduced sample_note" by (simp add: note_reduced_def sample_note_def sample_texts)
  from client_server_roundtrip [OF b(1) o(2,1) sample_law sample_same_setup h n sample_hyps(2,3) sample_cMax_nonneg sample_hyps(4,5) red] b(1) h
  show ?thesis by fastforce
qed

end
