(* ===== verification/Tonelli.thy ===== *)
theory Tonelli
  imports Accumulator
begin

text \<open>
  The square root of \<open>src/src/longjing/accumulator.ts\<close> (Tonelli-Shanks) always returns, and its
  answer is right: a root of its argument when there is one, and \<open>undefined\<close> exactly when there
  is none.  Each of its four loops is shown to end: the first two on the constants of the field
  ($2^{28}$ divides the group order; an element of order $2^{28}$ is exhibited, so the search for a
  non-residue stops), the inner order search because the order divides a known power of two,
  and the main loop because that exponent strictly falls.
\<close>

section \<open>Arithmetic in the field\<close>

lemma mod_square_cases:
  assumes "a * a mod FIELD_MODULUS = 1"
  shows "a mod FIELD_MODULUS = 1 \<or> a mod FIELD_MODULUS = FIELD_MODULUS - 1"
proof -
  define b where "b = a mod FIELD_MODULUS"
  have b: "reduced b" "b * b mod FIELD_MODULUS = 1"
    using assms by (simp_all add: b_def mod_mult_eq)
  have "FIELD_MODULUS dvd b * b - 1"
    using b(2) by (metis mod_eq_dvd_iff mod_pos_pos_trivial FIELD_MODULUS_pos(2) zero_le_one)
  then have "FIELD_MODULUS dvd (b + 1) * (b - 1)" by (simp add: algebra_simps)
  then have "nat FIELD_MODULUS dvd nat \<bar>(b + 1) * (b - 1)\<bar>"
    by (simp add: nat_dvd_iff del: abs_mult)
  then have "nat FIELD_MODULUS dvd nat \<bar>b + 1\<bar> * nat \<bar>b - 1\<bar>"
    by (simp add: abs_mult nat_mult_distrib)
  then have "nat FIELD_MODULUS dvd nat \<bar>b + 1\<bar> \<or> nat FIELD_MODULUS dvd nat \<bar>b - 1\<bar>"
    by (simp add: is_prime_dvd_mult [OF field_prime])
  then consider "FIELD_MODULUS dvd b + 1" | "FIELD_MODULUS dvd b - 1"
    by (auto simp: nat_dvd_iff)
  then show ?thesis
  proof cases
    case 1
    have "FIELD_MODULUS \<le> b + 1" using 1 b(1) by (intro zdvd_imp_le) (simp_all add: reduced_def)
    with b(1) have "b = FIELD_MODULUS - 1" unfolding reduced_def by linarith
    then show ?thesis by (simp add: b_def)
  next
    case 2
    have "b = 1"
    proof (rule ccontr)
      assume "b \<noteq> 1"
      have "b \<noteq> 0"
      proof
        assume "b = 0"
        with b(2) show False by simp
      qed
      with \<open>b \<noteq> 1\<close> b(1) have "0 < b - 1" by (simp add: reduced_def)
      with 2 have "FIELD_MODULUS \<le> b - 1" by (rule zdvd_imp_le)
      with b(1) show False by (simp add: reduced_def)
    qed
    then show ?thesis by (simp add: b_def)
  qed
qed

lemma mod_minus_one_square: "a mod FIELD_MODULUS = FIELD_MODULUS - 1 \<Longrightarrow> b mod FIELD_MODULUS = FIELD_MODULUS - 1
   \<Longrightarrow> a * b mod FIELD_MODULUS = 1"
proof -
  assume a: "a mod FIELD_MODULUS = FIELD_MODULUS - 1" and b: "b mod FIELD_MODULUS = FIELD_MODULUS - 1"
  have "a * b mod FIELD_MODULUS = (FIELD_MODULUS - 1) * (FIELD_MODULUS - 1) mod FIELD_MODULUS"
    using a b by (metis mod_mult_eq)
  also have "(FIELD_MODULUS - 1) * (FIELD_MODULUS - 1) = 1 + FIELD_MODULUS * (FIELD_MODULUS - 2)"
    by (simp add: algebra_simps)
  also have "\<dots> mod FIELD_MODULUS = 1" by (simp only: mod_mult_self2) simp
  finally show ?thesis .
qed

lemma pow_mod_cong: "a mod FIELD_MODULUS = b mod FIELD_MODULUS \<Longrightarrow> a ^ k mod FIELD_MODULUS = b ^ k mod FIELD_MODULUS"
  for a b :: int
  by (metis power_mod)

section \<open>The group order\<close>

definition odd_part :: int where
  "odd_part = 81540058820840996586704275553141814055101440848469862132140264610111"

lemma odd_part_odd: "odd odd_part" and odd_part_pos: "0 < odd_part"
  by (simp_all add: odd_part_def)

lemma odd_part_half: "\<exists>h. odd_part = 2 * int h + 1"
proof
  show "odd_part = 2 * int (nat (odd_part div 2)) + 1"
    using odd_part_odd odd_part_pos by (simp add: odd_two_times_div_two_succ)
qed

lemma group_order: "FIELD_MODULUS - 1 = 2 ^ 28 * odd_part"
  by (simp add: FIELD_MODULUS_def odd_part_def)

lemma half_group_order: "(FIELD_MODULUS - 1) div 2 = 2 ^ 27 * odd_part"
  by (simp add: group_order)

lemma strip_twos_eq: "odd q \<Longrightarrow> strip_twos (2 ^ k * q) s = Some (q, s + int k)"
proof (induction k arbitrary: s)
  case 0
  then show ?case by (subst strip_twos.simps) simp
next
  case (Suc k)
  have "strip_twos (2 ^ Suc k * q) s = strip_twos (2 ^ k * q) (s + 1)"
    by (subst strip_twos.simps) simp
  then show ?case by (simp add: Suc.IH [OF Suc.prems])
qed

lemma strip_twos_group: "strip_twos (FIELD_MODULUS - 1) 0 = Some (odd_part, 28)"
  unfolding group_order using strip_twos_eq [OF odd_part_odd, of 28 0] by simp

text \<open>An element of order $2^{28}$, by twenty-seven squarings.\<close>

definition root_of_unity :: nat where
  "root_of_unity = 19103219067921713944291392827692070036145651957329286315305642004821462161904"

definition root_chain :: "(bool \<times> nat \<times> nat) list" where
  "root_chain =
  [(False, 16672557084356874012651953139829525463057504866793717780751343799479068144828, 2082940218526944230311718225077035922214683169814847712455127909555749686340),
   (False, 198217827687714114126275464786318396108164869989857940457871390719981903870, 7419588552507395652481651088034484897579724952953562618697845598160172257810),
   (False, 2515062292155245027069864333963322505919293137084736079961582785656570533418, 19200870435978225707111062059747084165650991997241425080699860725083300967194),
   (False, 16843445481571583430227885364460874020001252829742532869269498935021226449481, 5709868443893258075976348696661355716898495876243883251619397131511003808859),
   (False, 1489502736124766463390393674700237947022058754416888917930396911647706067644, 934650972362265999028062457054462628285482693704334323590406443310927365533),
   (False, 39910578718113555993165701453307131754816696752738973614033766035366198731, 12143866164239048021030917283424216263377309185099704096317235600302831912062),
   (False, 6737566202935584050794569747950519725015498739685143347432835735052917569761, 13536764371732269273912573961853310557438878140379554347802702086337840854307),
   (False, 8371799907774053986441269690360542829230568067858398985743985845792998361714, 17220337697351015657950521176323262483320249231368149235373741788599650842711),
   (False, 13547913925622945070431920400596411406900026260347035540648758368232353317076, 15549849457946371566896172786938980432421851627449396898353380550861104573629),
   (False, 11046926863000251731949665838047889186531977171501126998425904394322351506089, 11699596668367776675346610687704220591435078791727316319397053191800576917728),
   (False, 6253611265369711584577570298389666242657110490156066321537873852415837563675, 12650941915662020058015862023665998998969191525479888727406889100124684769509),
   (False, 7311977132680887666919112337312485366035861344977569222884081406616502008098, 421743594562400382753388642386256516545992082196004333756405989743524594615),
   (False, 8126173516799436175753176591810588407911105611305434511656385899525726166, 20402931748843538985151001264530049874871572933694634836567070693966133783803),
   (False, 19018412139584760463302058803488828214798745105558745409486914808582576230292, 20619701001583904760601357484951574588621083236087856586626117568842480512645),
   (False, 19424677982796567728361873563865850263252824252129332680410457715389974494729, 197302210312744933010843010704445784068657690384188106020011018676818793232),
   (False, 1778496447715242687608028032830735818407159063530376256336898723078507718, 4158865282786404163413953114870269622875596290766033564087307867933865333818),
   (False, 790203240234451776713197109817938542187136886744547052794430954663220997698, 1120550406532664055539694724667294622065367841900378087843176726913374367458),
   (False, 57365646979181544077046827509516816920958182236918040098956763040731604594, 3161067157621608152362653341354432744960400845131437947728257924963983317266),
   (False, 456516570722531153192819861264884875902520782487157749003120722497387113846, 6837567842312086091520287814181175430087169027974246751610506942214842701774),
   (False, 2135956470876446593359947062647111995017670062556736186509066251312223760206, 3478517300119284901893091970156912948790432420133812234316178878452092729974),
   (False, 552811967505931911077480175926022109607232560434870357042358802337152341587, 10359452186428527605436343203440067497552205259388878191021578220384701716497),
   (False, 4903008899858795211276705245240256617044142993777020929384679199057145376487, 9088801421649573101014283686030284801466796108869023335878462724291607593530),
   (False, 3774003777546619915214788881498883203705823661196401766653898994770377433684, 4419234939496763621076330863786513495701855246241724391626358375488475697872),
   (False, 892243272555933727136496954981132583515142470848341894421126000032742089461, 14940766826517323942636479241147756311199852622225275649687664389641784935947),
   (False, 10198466577303779716174263455274497776553713679034007698197024499811553945081, 19540430494807482326159819597004422086093766032135589407132600596362845576832),
   (False, 17444452995066617625487937660570427516240463878249347913698484080455254673866, 21888242871839275217838484774961031246007050428528088939761107053157389710902),
   (False, 21888242871839275213430563804664787404353416997930879449828600104561791390564, 21888242871839275222246405745257275088548364400416034343698204186575808495616)]"

lemma root_chain_run: "pow_run 21888242871839275222246405745257275088548364400416034343698204186575808495617 root_of_unity root_chain root_of_unity = Some 21888242871839275222246405745257275088548364400416034343698204186575808495616"
  by (simp only: root_chain_def root_of_unity_def pow_run_eval)

lemma pow_exp_squares: "\<forall>t \<in> set st. \<not> fst t \<Longrightarrow> pow_exp st e = 2 ^ length st * e"
  by (induction st arbitrary: e) auto

lemma root_chain_exp: "pow_exp root_chain 1 = 2 ^ 27"
proof -
  have "length root_chain = 27" "\<forall>t \<in> set root_chain. \<not> fst t"
    by (simp_all add: root_chain_def)
  then show ?thesis using pow_exp_squares [of root_chain 1] by (simp only: mult_1_right)
qed

lemma root_of_unity_bounds: "2 \<le> int root_of_unity" "int root_of_unity < FIELD_MODULUS"
  by (simp_all add: root_of_unity_def FIELD_MODULUS_def)

lemma root_of_unity_order: "int root_of_unity ^ (2 ^ 27) mod FIELD_MODULUS = FIELD_MODULUS - 1"
proof -
  have "root_of_unity mod 21888242871839275222246405745257275088548364400416034343698204186575808495617 = root_of_unity ^ 1 mod 21888242871839275222246405745257275088548364400416034343698204186575808495617" by (simp only: power_one_right)
  from pow_run_sound [OF root_chain_run this]
  have "21888242871839275222246405745257275088548364400416034343698204186575808495616 mod 21888242871839275222246405745257275088548364400416034343698204186575808495617 = root_of_unity ^ (2 ^ 27) mod 21888242871839275222246405745257275088548364400416034343698204186575808495617"
    unfolding root_chain_exp .
  moreover have "(21888242871839275222246405745257275088548364400416034343698204186575808495616 :: nat) mod 21888242871839275222246405745257275088548364400416034343698204186575808495617 = 21888242871839275222246405745257275088548364400416034343698204186575808495616" by (rule mod_less) simp
  ultimately have "int (root_of_unity ^ (2 ^ 27) mod 21888242871839275222246405745257275088548364400416034343698204186575808495617) = 21888242871839275222246405745257275088548364400416034343698204186575808495616" by simp
  then have "int root_of_unity ^ (2 ^ 27) mod 21888242871839275222246405745257275088548364400416034343698204186575808495617 = 21888242871839275222246405745257275088548364400416034343698204186575808495616"
    by (simp only: zmod_int of_nat_power of_nat_numeral)
  then show ?thesis unfolding FIELD_MODULUS_def by simp
qed

section \<open>The loops end\<close>

lemma find_nonresidue_returns:
  assumes "z \<le> w" "pow w ((FIELD_MODULUS - 1) div 2) \<noteq> 1"
  shows "\<exists>z'. find_nonresidue z = Some z' \<and> z \<le> z' \<and> z' \<le> w \<and> pow z' ((FIELD_MODULUS - 1) div 2) \<noteq> 1"
  using assms(1)
proof (induction "nat (w - z)" arbitrary: z)
  case 0
  then have "z = w" by simp
  with assms(2) show ?case by (subst find_nonresidue.simps) auto
next
  case (Suc k)
  show ?case
  proof (cases "pow z ((FIELD_MODULUS - 1) div 2) = 1")
    case False
    with Suc.prems show ?thesis by (subst find_nonresidue.simps) auto
  next
    case True
    have "k = nat (w - (z + 1))" "z + 1 \<le> w" using Suc.hyps(2) by simp_all
    from Suc.hyps(1) [OF this] obtain z' where
      "find_nonresidue (z + 1) = Some z'" "z + 1 \<le> z'" "z' \<le> w" "pow z' ((FIELD_MODULUS - 1) div 2) \<noteq> 1"
      by blast
    with True show ?thesis by (subst find_nonresidue.simps) auto
  qed
qed

lemma root_of_unity_nonresidue: "pow (int root_of_unity) ((FIELD_MODULUS - 1) div 2) \<noteq> 1"
proof -
  from odd_part_half obtain h where h: "odd_part = 2 * int h + 1" by blast
  define r where "r = int root_of_unity ^ (2 ^ 27)"
  have r: "r mod FIELD_MODULUS = FIELD_MODULUS - 1"
    unfolding r_def by (rule root_of_unity_order)
  have n: "nat (2 ^ 27 * odd_part) = 2 ^ 27 * (2 * h + 1)"
    by (simp only: h) (simp add: nat_mult_distrib)
  have "pow (int root_of_unity) ((FIELD_MODULUS - 1) div 2) = r ^ (2 * h + 1) mod FIELD_MODULUS"
    by (simp only: half_group_order pow_eq n power_mult r_def)
  also have "r ^ (2 * h + 1) = r * (r * r) ^ h"
    by (simp add: power_mult power2_eq_square power_mult_distrib)
  also have "\<dots> mod FIELD_MODULUS = r * ((r * r) ^ h mod FIELD_MODULUS) mod FIELD_MODULUS"
    by (rule mod_mult_right_eq [symmetric])
  also have "(r * r) ^ h mod FIELD_MODULUS = 1"
    using pow_mod_cong [of "r * r" 1 h] mod_minus_one_square [OF r r] by simp
  also have "r * 1 mod FIELD_MODULUS = FIELD_MODULUS - 1"
    by (simp add: r)
  finally show ?thesis using FIELD_MODULUS_pos(3) by linarith
qed

lemma least_square_order_returns:
  assumes "reduced t" "t ^ (2 ^ k) mod FIELD_MODULUS = 1"
  shows "\<exists>j \<le> k. least_square_order t i = Some (i + int j) \<and> t ^ (2 ^ j) mod FIELD_MODULUS = 1 \<and>
     (\<forall>l < j. t ^ (2 ^ l) mod FIELD_MODULUS \<noteq> 1)"
  using assms
proof (induction k arbitrary: t i)
  case 0
  then have "t = 1" by simp
  then show ?case by (subst least_square_order.simps) simp
next
  case (Suc k)
  show ?case
  proof (cases "t = 1")
    case True
    then show ?thesis by (intro exI [of _ 0]) (subst least_square_order.simps, simp)
  next
    case False
    let ?u = "js_rem (t * t) FIELD_MODULUS"
    have u: "?u = t * t mod FIELD_MODULUS" using Suc.prems(1) by (simp add: reduced_def)
    have sq: "?u ^ (2 ^ l) mod FIELD_MODULUS = t ^ (2 ^ Suc l) mod FIELD_MODULUS" for l
      by (simp add: u power_mod power_mult power2_eq_square power_mult_distrib flip: power_add)
    have "\<exists>j \<le> k. least_square_order ?u (i + 1) = Some (i + 1 + int j) \<and> ?u ^ (2 ^ j) mod FIELD_MODULUS = 1 \<and>
       (\<forall>l < j. ?u ^ (2 ^ l) mod FIELD_MODULUS \<noteq> 1)"
      using Suc.prems by (intro Suc.IH) (simp_all only: sq, simp add: u)
    then obtain j where j: "j \<le> k" "least_square_order ?u (i + 1) = Some (i + 1 + int j)"
      "t ^ (2 ^ Suc j) mod FIELD_MODULUS = 1" "\<forall>l < j. t ^ (2 ^ Suc l) mod FIELD_MODULUS \<noteq> 1"
      unfolding sq by blast
    have "least_square_order t i = Some (i + int (Suc j))"
      using False j(2) by (subst least_square_order.simps) (simp add: add_ac)
    moreover have "\<forall>l < Suc j. t ^ (2 ^ l) mod FIELD_MODULUS \<noteq> 1"
      using False Suc.prems(1) j(4) by (auto simp: less_Suc_eq_0_disj)
    ultimately show ?thesis using j(1,3) by (intro exI [of _ "Suc j"]) simp
  qed
qed

text \<open>What every iteration of the main loop keeps: \<open>c\<close> has order exactly $2^m$, \<open>t\<close> has order
  dividing $2^{m-1}$, and \<open>r\<close> is a root of \<open>t\<close> times the argument.\<close>

definition tonelli_inv :: "int \<Rightarrow> nat \<Rightarrow> int \<Rightarrow> int \<Rightarrow> int \<Rightarrow> bool" where
  "tonelli_inv n M c t r \<longleftrightarrow> reduced c \<and> reduced t \<and> reduced r \<and>
     c ^ (2 ^ M) mod FIELD_MODULUS = FIELD_MODULUS - 1 \<and> t ^ (2 ^ M) mod FIELD_MODULUS = 1 \<and>
     r * r mod FIELD_MODULUS = t * n mod FIELD_MODULUS"

lemma tonelli_step:
  assumes inv: "tonelli_inv n M c t r" and "t \<noteq> 1"
  obtains j where "j < M" "least_square_order t 0 = Some (int (Suc j))"
    "tonelli_inv n j (pow c (2 ^ (M - Suc j)) * pow c (2 ^ (M - Suc j)) mod FIELD_MODULUS)
       (t * (pow c (2 ^ (M - Suc j)) * pow c (2 ^ (M - Suc j)) mod FIELD_MODULUS) mod FIELD_MODULUS)
       (r * pow c (2 ^ (M - Suc j)) mod FIELD_MODULUS)"
proof -
  have red: "reduced t" using inv by (simp add: tonelli_inv_def)
  have "t ^ (2 ^ M) mod FIELD_MODULUS = 1" using inv by (simp add: tonelli_inv_def)
  from least_square_order_returns [OF red this, of 0] obtain i where
    i: "i \<le> M" "least_square_order t 0 = Some (int i)" "t ^ (2 ^ i) mod FIELD_MODULUS = 1"
    and least: "\<forall>l < i. t ^ (2 ^ l) mod FIELD_MODULUS \<noteq> 1" by auto
  have "i \<noteq> 0" using i(3) red \<open>t \<noteq> 1\<close> by (intro notI) simp
  then obtain j where j: "i = Suc j" by (cases i) auto
  have half: "t ^ (2 ^ j) mod FIELD_MODULUS = FIELD_MODULUS - 1"
    using mod_square_cases [of "t ^ (2 ^ j)"] i(3) least
    by (simp add: j flip: power_add mult_2)
  let ?b = "pow c (2 ^ (M - Suc j))"
  have b: "?b * ?b mod FIELD_MODULUS = c ^ (2 ^ (M - j)) mod FIELD_MODULUS"
  proof -
    have "M - j = Suc (M - Suc j)" using i(1) j by simp
    then show ?thesis by (simp add: pow_eq mod_mult_eq nat_power_eq mult_2 flip: power_add)
  qed
  have c': "(?b * ?b mod FIELD_MODULUS) ^ (2 ^ j) mod FIELD_MODULUS = FIELD_MODULUS - 1"
  proof -
    have "(2::nat) ^ (M - j) * 2 ^ j = 2 ^ M"
      using i(1) j by (simp flip: power_add)
    then have "(c ^ (2 ^ (M - j))) ^ (2 ^ j) = c ^ (2 ^ M)"
      by (simp flip: power_mult)
    then show ?thesis using inv by (simp add: b power_mod tonelli_inv_def)
  qed
  have "tonelli_inv n j (?b * ?b mod FIELD_MODULUS)
       (t * (?b * ?b mod FIELD_MODULUS) mod FIELD_MODULUS) (r * ?b mod FIELD_MODULUS)"
    unfolding tonelli_inv_def
  proof (intro conjI)
    show "(t * (?b * ?b mod FIELD_MODULUS) mod FIELD_MODULUS) ^ (2 ^ j) mod FIELD_MODULUS = 1"
      using mod_minus_one_square [OF half c'] by (simp add: power_mod power_mult_distrib)
    have "r * ?b mod FIELD_MODULUS * (r * ?b mod FIELD_MODULUS) mod FIELD_MODULUS
        = (r * r mod FIELD_MODULUS) * (?b * ?b) mod FIELD_MODULUS"
      by (subst mod_mult_eq, simp only: mod_mult_left_eq, simp only: mult_ac)
    also have "\<dots> = t * n * (?b * ?b) mod FIELD_MODULUS"
      using inv by (simp only: tonelli_inv_def mod_mult_left_eq)
    finally show "r * ?b mod FIELD_MODULUS * (r * ?b mod FIELD_MODULUS) mod FIELD_MODULUS
        = t * (?b * ?b mod FIELD_MODULUS) mod FIELD_MODULUS * n mod FIELD_MODULUS"
      by (simp only: mod_mult_right_eq mod_mult_left_eq) (simp only: mult_ac)
  qed (simp_all add: c')
  with i(1,2) j show thesis by (intro that [of j]) simp_all
qed

lemma tonelli_loop_returns:
  "tonelli_inv n M c t r \<Longrightarrow>
   \<exists>y. tonelli_loop (int (Suc M)) c t r = Some y \<and> y * y mod FIELD_MODULUS = n mod FIELD_MODULUS"
proof (induction M arbitrary: c t r rule: less_induct)
  case (less M)
  show ?case
  proof (cases "t = 1")
    case True
    with less.prems show ?thesis by (subst tonelli_loop.simps) (simp add: tonelli_inv_def)
  next
    case False
    let ?b = "\<lambda>j. pow c (2 ^ (M - Suc j))"
    from less.prems False obtain j where j: "j < M" "least_square_order t 0 = Some (int (Suc j))" and
      inv: "tonelli_inv n j (?b j * ?b j mod FIELD_MODULUS)
         (t * (?b j * ?b j mod FIELD_MODULUS) mod FIELD_MODULUS) (r * ?b j mod FIELD_MODULUS)"
      by (rule tonelli_step)
    have e: "nat (int (Suc M) - int (Suc j) - 1) = M - Suc j" using j(1) by simp
    have nn: "0 \<le> t" "0 \<le> r" "0 \<le> pow c k" for k
      using less.prems pow_reduced [of c k] by (simp_all add: tonelli_inv_def reduced_def)
    have "tonelli_loop (int (Suc M)) c t r =
        tonelli_loop (int (Suc j)) (?b j * ?b j mod FIELD_MODULUS)
         (t * (?b j * ?b j mod FIELD_MODULUS) mod FIELD_MODULUS) (r * ?b j mod FIELD_MODULUS)"
      using False j(2) nn by (subst tonelli_loop.simps) (simp add: Let_def e del: of_nat_Suc)
    with less.IH [OF j(1) inv] show ?thesis by simp
  qed
qed

section \<open>The square root\<close>

lemma euler_minus_one:
  assumes "z mod FIELD_MODULUS \<noteq> 0" "pow z ((FIELD_MODULUS - 1) div 2) \<noteq> 1"
  shows "pow z ((FIELD_MODULUS - 1) div 2) = FIELD_MODULUS - 1"
proof -
  let ?h = "z ^ nat (2 ^ 27 * odd_part)"
  have "?h * ?h = z ^ nat (FIELD_MODULUS - 1)"
    by (simp add: group_order nat_mult_distrib flip: power_add)
  with fermat_field [OF assms(1)] have "?h * ?h mod FIELD_MODULUS = 1" by simp
  from mod_square_cases [OF this] assms(2) show ?thesis
    by (simp add: half_group_order pow_eq)
qed

lemma sqrt_residue:
  assumes "n mod FIELD_MODULUS \<noteq> 0" "pow n ((FIELD_MODULUS - 1) div 2) = 1"
  shows "\<exists>y. sqrt n = Some (Some y) \<and> y * y mod FIELD_MODULUS = n mod FIELD_MODULUS"
proof -
  let ?n = "n mod FIELD_MODULUS"
  from find_nonresidue_returns [OF root_of_unity_bounds(1) root_of_unity_nonresidue] obtain z where
    z: "find_nonresidue 2 = Some z" "2 \<le> z" "z \<le> int root_of_unity" "pow z ((FIELD_MODULUS - 1) div 2) \<noteq> 1"
    by blast
  have zm: "z mod FIELD_MODULUS \<noteq> 0" using z(2,3) root_of_unity_bounds(2) by simp
  have exp: "nat ((FIELD_MODULUS - 1) div 2) = nat odd_part * 2 ^ 27"
    using odd_part_pos by (simp add: half_group_order nat_mult_distrib)
  have raise: "pow u odd_part ^ (2 ^ 27) mod FIELD_MODULUS = pow u ((FIELD_MODULUS - 1) div 2)" for u
    by (simp only: pow_eq exp power_mod power_mult)
  have q1: "nat ((odd_part + 1) div 2) + nat ((odd_part + 1) div 2) = Suc (nat odd_part)"
  proof -
    from odd_part_half obtain h where h: "odd_part = 2 * int h + 1" by blast
    then have "(odd_part + 1) div 2 = int h + 1" by (simp only: h)
    then show ?thesis by (simp add: h)
  qed
  have "tonelli_inv ?n 27 (pow z odd_part) (pow ?n odd_part) (pow ?n ((odd_part + 1) div 2))"
    unfolding tonelli_inv_def
  proof (intro conjI)
    show "pow z odd_part ^ (2 ^ 27) mod FIELD_MODULUS = FIELD_MODULUS - 1"
      using euler_minus_one [OF zm z(4)] by (simp only: raise)
    show "pow ?n odd_part ^ (2 ^ 27) mod FIELD_MODULUS = 1"
      using assms(2) by (simp only: raise) (simp add: pow_eq power_mod)
    show "pow ?n ((odd_part + 1) div 2) * pow ?n ((odd_part + 1) div 2) mod FIELD_MODULUS
        = pow ?n odd_part * ?n mod FIELD_MODULUS"
      unfolding pow_eq
      by (subst mod_mult_eq) (simp only: mod_mult_left_eq power_add [symmetric] q1 power_Suc2)
  qed simp_all
  from tonelli_loop_returns [OF this] obtain y where
    y: "tonelli_loop 28 (pow z odd_part) (pow ?n odd_part) (pow ?n ((odd_part + 1) div 2)) = Some y"
      "y * y mod FIELD_MODULUS = ?n"
    by auto
  have "pow ?n ((FIELD_MODULUS - 1) div 2) = 1" using assms(2) by (simp add: pow_eq power_mod)
  then have "sqrt n = Some (Some y)"
    using assms(1) by (simp add: sqrt_def Let_def strip_twos_group z(1) y(1))
  with y(2) show ?thesis by blast
qed

lemma square_euler:
  assumes "y * y mod FIELD_MODULUS = n mod FIELD_MODULUS" "n mod FIELD_MODULUS \<noteq> 0"
  shows "pow n ((FIELD_MODULUS - 1) div 2) = 1"
proof -
  have nz: "y mod FIELD_MODULUS \<noteq> 0"
  proof
    assume "y mod FIELD_MODULUS = 0"
    then have "y * y mod FIELD_MODULUS = 0" by (metis mod_mult_left_eq mod_0 mult_zero_left)
    with assms show False by simp
  qed
  let ?h = "nat (2 ^ 27 * odd_part)"
  have "pow n ((FIELD_MODULUS - 1) div 2) = (y * y) ^ ?h mod FIELD_MODULUS"
    by (simp only: half_group_order pow_eq pow_mod_cong [OF assms(1)])
  also have "(y * y) ^ ?h = y ^ nat (FIELD_MODULUS - 1)"
    by (simp add: group_order nat_mult_distrib power_mult_distrib flip: power_add)
  finally show ?thesis using fermat_field [OF nz] by simp
qed

lemma sqrt_nonresidue:
  "n mod FIELD_MODULUS \<noteq> 0 \<Longrightarrow> pow n ((FIELD_MODULUS - 1) div 2) \<noteq> 1 \<Longrightarrow> sqrt n = Some None"
  by (simp add: sqrt_def Let_def pow_eq power_mod)

lemma sqrt_0: "n mod FIELD_MODULUS = 0 \<Longrightarrow> sqrt n = Some (Some 0)"
  by (simp add: sqrt_def Let_def)

text \<open>C23 \<open>sqrt\<close> of \<open>accumulator.ts\<close> always returns, and its answer is right: either a value whose
  square is its argument in the field, or \<open>undefined\<close> when no value squares to the argument.\<close>

theorem sqrt_correct:
  "(\<exists>y. sqrt n = Some (Some y) \<and> y * y mod FIELD_MODULUS = n mod FIELD_MODULUS)
   \<or> (sqrt n = Some None \<and> (\<nexists>y. y * y mod FIELD_MODULUS = n mod FIELD_MODULUS))"
proof (cases "n mod FIELD_MODULUS = 0")
  case True
  then show ?thesis by (intro disjI1) (simp add: sqrt_0)
next
  case nz: False
  show ?thesis
  proof (cases "pow n ((FIELD_MODULUS - 1) div 2) = 1")
    case True
    then show ?thesis using sqrt_residue nz by blast
  next
    case False
    then show ?thesis using sqrt_nonresidue nz square_euler by blast
  qed
qed

end
