(* ===== verification/BabyJubjub.thy ===== *)
theory BabyJubjub
  imports Tonelli
begin

text \<open>
  The curve of \<open>src/src/longjing/accumulator.ts\<close> is complete: its coefficient \<open>A\<close> is a square of the field
  and \<open>D\<close> is not, so the addition formula never divides by zero on points of the curve, and the sum is on
  the curve again.  Every point the module computes, from \<open>hashToCurve\<close> to \<open>applyRefund\<close>, is therefore on
  the curve.  Polynomial identities are left to the \<open>algebra\<close> method, on divisibility by the modulus.
\<close>

section \<open>A is a square, D is not\<close>

definition sqrt_A :: int where
  "sqrt_A = 7214280148105020021932206872019688659210616427216992810330019057549499971851"

text \<open>A root of \<open>D\<close> times the element of \<open>Tonelli\<close> that is not a square.\<close>

definition sqrt_D_twist :: int where
  "sqrt_D_twist = 10436233772232380301971051176129034603027311321911990571573217841723891622208"

lemma dvd_mod_eq: "FIELD_MODULUS dvd x - y \<longleftrightarrow> x mod FIELD_MODULUS = y mod FIELD_MODULUS"
  by (simp add: mod_eq_dvd_iff)

lemma sqrt_A_square: "FIELD_MODULUS dvd sqrt_A * sqrt_A - EDWARDS_A"
  by (simp add: dvd_eq_mod_eq_0 sqrt_A_def EDWARDS_A_def FIELD_MODULUS_def)

lemma sqrt_D_twist_square: "FIELD_MODULUS dvd sqrt_D_twist * sqrt_D_twist - EDWARDS_D * int root_of_unity"
  by (simp add: dvd_eq_mod_eq_0 sqrt_D_twist_def EDWARDS_D_def root_of_unity_def FIELD_MODULUS_def)

lemma not_dvd_small: "0 < n \<Longrightarrow> n < FIELD_MODULUS \<Longrightarrow> \<not> FIELD_MODULUS dvd n"
  by (rule zdvd_not_zless)

lemma dvd_inverse: "\<not> FIELD_MODULUS dvd x \<Longrightarrow> FIELD_MODULUS dvd x * inv x - 1"
  using inv_eq [of x] unfolding dvd_mod_eq by (simp add: dvd_eq_mod_eq_0)

lemma D_not_square:
  assumes "FIELD_MODULUS dvd u * u - EDWARDS_D * (v * v)"
  shows "FIELD_MODULUS dvd v"
proof (rule ccontr)
  let ?r = "int root_of_unity"
  assume v: "\<not> FIELD_MODULUS dvd v"
  have u: "\<not> FIELD_MODULUS dvd u"
  proof
    assume "FIELD_MODULUS dvd u"
    with assms dvd_inverse [OF v] have "FIELD_MODULUS dvd EDWARDS_D" by algebra
    then show False using not_dvd_small [of EDWARDS_D] by (simp add: EDWARDS_D_def FIELD_MODULUS_def)
  qed
  have "FIELD_MODULUS dvd (sqrt_D_twist * v * inv u) * (sqrt_D_twist * v * inv u) - ?r"
    using assms sqrt_D_twist_square dvd_inverse [OF u] by algebra
  then have "(sqrt_D_twist * v * inv u) * (sqrt_D_twist * v * inv u) mod FIELD_MODULUS = ?r mod FIELD_MODULUS"
    by (simp only: dvd_mod_eq)
  moreover have "?r mod FIELD_MODULUS \<noteq> 0" using root_of_unity_bounds by simp
  ultimately show False using square_euler root_of_unity_nonresidue by blast
qed

section \<open>Addition is complete\<close>

definition curve_eq :: "int \<Rightarrow> int \<Rightarrow> int" where
  "curve_eq x y = EDWARDS_A * x * x + y * y - 1 - EDWARDS_D * x * x * y * y"

lemma isOnCurve_dvd: "isOnCurve (x, y) \<longleftrightarrow> FIELD_MODULUS dvd curve_eq x y"
proof -
  have "curve_eq x y = EDWARDS_A * x * x + y * y - (1 + EDWARDS_D * x * x * y * y)" by (simp add: curve_eq_def)
  then show ?thesis by (simp only: isOnCurve_def prod.case modp_eq dvd_mod_eq)
qed

text \<open>A point of constants, with the quotient of its equation by the modulus.\<close>

lemma on_curve_quotient:
  assumes "EDWARDS_A * x * x + y * y + FIELD_MODULUS * q = 1 + EDWARDS_D * x * x * y * y"
  shows "isOnCurve (x, y)"
proof -
  have "curve_eq x y = FIELD_MODULUS * - q" using assms by (simp add: curve_eq_def)
  then show ?thesis by (simp only: isOnCurve_dvd dvd_triv_left)
qed

lemmas numeral_eval = numeral_times_numeral numeral_plus_numeral one_plus_numeral one_plus_numeral_commute add_num_simps mult_num_simps

lemma product_not_unit:
  assumes "FIELD_MODULUS dvd curve_eq x1 y1" "FIELD_MODULUS dvd curve_eq x2 y2" "e * e = 1"
  shows "\<not> FIELD_MODULUS dvd e - EDWARDS_D * x1 * x2 * y1 * y2"
proof
  assume k: "FIELD_MODULUS dvd e - EDWARDS_D * x1 * x2 * y1 * y2"
  note c = assms(1,2) [unfolded curve_eq_def] assms(3) k sqrt_A_square
  have "FIELD_MODULUS dvd (sqrt_A * x1 + e * y1) * (sqrt_A * x1 + e * y1)
      - EDWARDS_D * ((x1 * y1 * (sqrt_A * x2 + y2)) * (x1 * y1 * (sqrt_A * x2 + y2)))"
    using c by algebra
  then have plus: "FIELD_MODULUS dvd x1 * y1 * (sqrt_A * x2 + y2)" by (rule D_not_square)
  have "FIELD_MODULUS dvd (sqrt_A * x1 - e * y1) * (sqrt_A * x1 - e * y1)
      - EDWARDS_D * ((x1 * y1 * (sqrt_A * x2 - y2)) * (x1 * y1 * (sqrt_A * x2 - y2)))"
    using c by algebra
  then have "FIELD_MODULUS dvd x1 * y1 * (sqrt_A * x2 - y2)" by (rule D_not_square)
  with plus c(3-5) have "FIELD_MODULUS dvd 2 * EDWARDS_A" by algebra
  then show False using not_dvd_small [of "2 * EDWARDS_A"] by (simp add: EDWARDS_A_def FIELD_MODULUS_def)
qed

lemma sum_identity:
  "p dvd (a*x1*x1 + y1*y1 - 1 - d*x1*x1*y1*y1) \<Longrightarrow> p dvd (a*x2*x2 + y2*y2 - 1 - d*x2*x2*y2*y2) \<Longrightarrow>
   p dvd (a*(x1*y2+y1*x2)^2*(1-d*x1*x2*y1*y2)^2 + (y1*y2-a*x1*x2)^2*(1+d*x1*x2*y1*y2)^2
     - (1+d*x1*x2*y1*y2)^2*(1-d*x1*x2*y1*y2)^2 - d*(x1*y2+y1*x2)^2*(y1*y2-a*x1*x2)^2)"
  for p a d x1 x2 y1 y2 :: int
  by algebra

lemma quotient_identity:
  "p dvd (a*X^2*D2^2 + Y^2*D1^2 - D1^2*D2^2 - d*X^2*Y^2) \<Longrightarrow> p dvd D1*i1 - 1 \<Longrightarrow> p dvd D2*i2 - 1 \<Longrightarrow>
   p dvd x3 - X*i1 \<Longrightarrow> p dvd y3 - Y*i2 \<Longrightarrow> p dvd a*x3*x3 + y3*y3 - 1 - d*x3*x3*y3*y3"
  for p a d X Y D1 D2 i1 i2 x3 y3 :: int
  by algebra

text \<open>The denominators of \<open>addPoints\<close>.\<close>

definition denominators :: "point \<Rightarrow> point \<Rightarrow> int \<times> int" where
  "denominators p q = (let k = modp (EDWARDS_D * fst p * fst q * snd p * snd q) in (1 + k, 1 - k))"

lemma denominators_unit:
  assumes "isOnCurve (x1, y1)" "isOnCurve (x2, y2)"
  shows "\<not> FIELD_MODULUS dvd 1 + modp (EDWARDS_D * x1 * x2 * y1 * y2)" "\<not> FIELD_MODULUS dvd 1 - modp (EDWARDS_D * x1 * x2 * y1 * y2)"
proof -
  let ?k = "EDWARDS_D * x1 * x2 * y1 * y2"
  have k: "FIELD_MODULUS dvd modp ?k - ?k" by (simp add: dvd_mod_eq)
  have on: "FIELD_MODULUS dvd curve_eq x1 y1" "FIELD_MODULUS dvd curve_eq x2 y2" using assms by (simp_all add: isOnCurve_dvd)
  have "\<not> FIELD_MODULUS dvd - 1 - ?k" "\<not> FIELD_MODULUS dvd 1 - ?k"
    using product_not_unit [OF on, of "- 1"] product_not_unit [OF on, of 1] by simp_all
  moreover have "FIELD_MODULUS dvd - 1 - ?k" if "FIELD_MODULUS dvd 1 + modp ?k" using k that by algebra
  moreover have "FIELD_MODULUS dvd 1 - ?k" if "FIELD_MODULUS dvd 1 - modp ?k" using k that by algebra
  ultimately show "\<not> FIELD_MODULUS dvd 1 + modp ?k" "\<not> FIELD_MODULUS dvd 1 - modp ?k" by blast+
qed

lemma addPoints_on_curve:
  assumes "isOnCurve p" "isOnCurve q"
  shows "isOnCurve (addPoints p q)"
proof -
  obtain x1 y1 x2 y2 where p: "p = (x1, y1)" "q = (x2, y2)" by (cases p, cases q)
  let ?k = "modp (EDWARDS_D * x1 * x2 * y1 * y2)" and ?X = "x1 * y2 + y1 * x2" and ?Y = "y1 * y2 - EDWARDS_A * x1 * x2"
  let ?x = "modp (?X * inv (1 + ?k))" and ?y = "modp (?Y * inv (1 - ?k))"
  have k: "FIELD_MODULUS dvd ?k - EDWARDS_D * x1 * x2 * y1 * y2" by (simp add: dvd_mod_eq)
  note den = denominators_unit [OF assms [unfolded p]]
  have "FIELD_MODULUS dvd curve_eq x1 y1" "FIELD_MODULUS dvd curve_eq x2 y2" using assms by (simp_all add: p isOnCurve_dvd)
  from sum_identity [OF this [unfolded curve_eq_def]] k
  have "FIELD_MODULUS dvd EDWARDS_A*?X^2*(1-?k)^2 + ?Y^2*(1+?k)^2 - (1+?k)^2*(1-?k)^2 - EDWARDS_D*?X^2*?Y^2" by algebra
  then have "FIELD_MODULUS dvd curve_eq ?x ?y"
    unfolding curve_eq_def using dvd_inverse [OF den(1)] dvd_inverse [OF den(2)] by (rule quotient_identity) (simp_all add: dvd_mod_eq)
  then show ?thesis by (simp only: p addPoints_def prod.case Let_def isOnCurve_dvd)
qed

lemma mul_loop_on_curve: "isOnCurve r \<Longrightarrow> isOnCurve b \<Longrightarrow> isOnCurve (mul_loop r b e)"
proof (induction r b e rule: mul_loop.induct)
  case (1 r b e)
  have "isOnCurve (if odd e then addPoints r b else r)" "isOnCurve (addPoints b b)" using 1 by (simp_all add: addPoints_on_curve)
  with 1 show ?case by (subst mul_loop.simps) (simp split: if_splits)
qed

lemma IDENTITY_isOnCurve: "isOnCurve IDENTITY"
  by (simp add: isOnCurve_def IDENTITY_def)

lemma mulPoint_on_curve: "isOnCurve p \<Longrightarrow> isOnCurve (mulPoint p n)"
  by (simp add: mulPoint_def mul_loop_on_curve IDENTITY_isOnCurve)

section \<open>The points of the module\<close>

lemma sqrt_value: "sqrt n = Some (Some y) \<Longrightarrow> FIELD_MODULUS dvd y * y - n"
proof -
  assume s: "sqrt n = Some (Some y)"
  consider "n mod FIELD_MODULUS = 0" | "n mod FIELD_MODULUS \<noteq> 0" "pow n ((FIELD_MODULUS - 1) div 2) = 1"
    | "n mod FIELD_MODULUS \<noteq> 0" "pow n ((FIELD_MODULUS - 1) div 2) \<noteq> 1" by blast
  then show ?thesis
  proof cases
    case 1
    with s have "y = 0" by (simp add: sqrt_0)
    moreover have "FIELD_MODULUS dvd n" using 1 by (rule mod_0_imp_dvd)
    ultimately show ?thesis by simp
  next
    case 2
    from sqrt_residue [OF this] s show ?thesis unfolding dvd_mod_eq by auto
  next
    case 3
    with s show ?thesis by (simp add: sqrt_nonresidue)
  qed
qed

text \<open>The abscissa of a candidate: \<open>1 - D x x\<close> is never zero, so a root of the quotient solves the curve's
  equation.\<close>

lemma candidate_on_curve:
  assumes "sqrt ((1 - EDWARDS_A * x * x) * inv (1 - EDWARDS_D * x * x)) = Some (Some y)" "z = y \<or> z = FIELD_MODULUS - y"
  shows "isOnCurve (x, z)"
proof -
  have "\<not> FIELD_MODULUS dvd 1 - EDWARDS_D * x * x"
  proof
    assume "FIELD_MODULUS dvd 1 - EDWARDS_D * x * x"
    then have "FIELD_MODULUS dvd 1 * 1 - EDWARDS_D * (x * x)" by (simp add: mult.assoc)
    then have "FIELD_MODULUS dvd x" by (rule D_not_square)
    with \<open>FIELD_MODULUS dvd 1 - EDWARDS_D * x * x\<close> have "FIELD_MODULUS dvd 1" by algebra
    then show False using not_dvd_small [OF zero_less_one FIELD_MODULUS_pos(2)] by blast
  qed
  note i = dvd_inverse [OF this]
  have "z * z - y * y = (z - y) * (z + y)" by (simp add: algebra_simps)
  moreover have "z - y = 0 \<or> z + y = FIELD_MODULUS" using assms(2) by auto
  ultimately have "FIELD_MODULUS dvd z * z - y * y" by auto
  with sqrt_value [OF assms(1)] i have "FIELD_MODULUS dvd curve_eq x z" unfolding curve_eq_def by algebra
  then show ?thesis by (simp add: isOnCurve_dvd)
qed

lemma hashToCurve_from_on_curve:
  assumes "hashToCurve_from sha256 seed counter = Some p"
  shows "isOnCurve p"
proof (rule hashToCurve_from.raw_induct [where P = "\<lambda>_ _ _. isOnCurve", OF _ assms])
  fix again :: "(bytes \<Rightarrow> bytes) \<Rightarrow> bytes \<Rightarrow> nat \<Rightarrow> point option" and sha256 seed counter p
  assume IH: "\<And>a b c q. again a b c = Some q \<Longrightarrow> isOnCurve q"
  assume body: "(let digest = sha256 (seed @ uint32_be counter); x = modp (int (radix_val 16 (hex_of_bytes digest)))
      in Option.bind (sqrt ((1 - EDWARDS_A * x * x) * inv (1 - EDWARDS_D * x * x)))
        (\<lambda>r. case r of None \<Rightarrow> again sha256 seed (counter + 1)
          | Some y \<Rightarrow> let point = mulPoint (x, if y < FIELD_MODULUS - y then y else FIELD_MODULUS - y) COFACTOR
              in if \<not> isIdentity point then Some point else again sha256 seed (counter + 1))) = Some p"
  let ?x = "modp (int (radix_val 16 (hex_of_bytes (sha256 (seed @ uint32_be counter)))))"
  let ?n = "(1 - EDWARDS_A * ?x * ?x) * inv (1 - EDWARDS_D * ?x * ?x)"
  from body obtain r where r: "sqrt ?n = Some r" "(case r of None \<Rightarrow> again sha256 seed (counter + 1)
      | Some y \<Rightarrow> let point = mulPoint (?x, if y < FIELD_MODULUS - y then y else FIELD_MODULUS - y) COFACTOR
          in if \<not> isIdentity point then Some point else again sha256 seed (counter + 1)) = Some p"
    unfolding Let_def bind_eq_Some_conv by blast
  show "isOnCurve p"
  proof (cases r)
    case None
    with r(2) have "again sha256 seed (counter + 1) = Some p" by simp
    then show ?thesis by (rule IH)
  next
    case (Some y)
    let ?q = "mulPoint (?x, if y < FIELD_MODULUS - y then y else FIELD_MODULUS - y) COFACTOR"
    have "isOnCurve ?q" by (intro mulPoint_on_curve candidate_on_curve [OF r(1) [unfolded Some]]) simp
    moreover have "p = ?q \<or> again sha256 seed (counter + 1) = Some p" using r(2) unfolding Some Let_def by (simp split: if_splits)
    ultimately show ?thesis using IH by blast
  qed
qed

text \<open>C22 The curve is complete: on points of the curve the addition of \<open>accumulator.ts\<close> never divides by zero
  and stays on the curve, as does multiplication by any scalar; whatever \<open>hashToCurve\<close> returns is on the
  curve; and with generators on the curve every commitment is, and \<open>rerandomize\<close> and \<open>applyRefund\<close> keep
  points on it.\<close>

theorem curve_complete:
  assumes "isOnCurve p" "isOnCurve q" "isOnCurve (gen_G g)" "isOnCurve (gen_J g)" "isOnCurve (gen_K g)" "isOnCurve (gen_H g)"
  shows "fst (denominators p q) mod FIELD_MODULUS \<noteq> 0 \<and> snd (denominators p q) mod FIELD_MODULUS \<noteq> 0
    \<and> isOnCurve (addPoints p q) \<and> isOnCurve (mulPoint p n)
    \<and> (\<forall>sha256 seed r. hashToCurve sha256 seed = Some r \<longrightarrow> isOnCurve r)
    \<and> isOnCurve (commit g op) \<and> isOnCurve (rerandomize g p b) \<and> isOnCurve (applyRefund g p v)"
proof -
  obtain x1 y1 x2 y2 where pq: "p = (x1, y1)" "q = (x2, y2)" by (cases p, cases q)
  have "fst (denominators p q) mod FIELD_MODULUS \<noteq> 0 \<and> snd (denominators p q) mod FIELD_MODULUS \<noteq> 0"
    using denominators_unit [OF assms(1,2) [unfolded pq]]
    by (simp only: pq denominators_def Let_def fst_conv snd_conv dvd_eq_mod_eq_0 simp_thms)
  moreover have "isOnCurve (commit g op)" "isOnCurve (rerandomize g p b)" "isOnCurve (applyRefund g p v)"
    unfolding commit_def rerandomize_def applyRefund_def foldl.simps by (intro addPoints_on_curve mulPoint_on_curve assms)+
  moreover have "isOnCurve r" if "hashToCurve sha256 seed = Some r" for sha256 seed r
    using that unfolding hashToCurve_def by (rule hashToCurve_from_on_curve)
  ultimately show ?thesis using addPoints_on_curve [OF assms(1,2)] mulPoint_on_curve [OF assms(1), of n] by (intro conjI allI impI) simp_all
qed

text \<open>The generators the circuits carry are on the curve.\<close>

definition sample_point :: point where
  "sample_point = (18891097169288653087893319358176119911434283417707569988321287040614592813441,
     7860657952746490641010431794884102523135412871148967527117598022318856757355)"

lemma sample_point_on_curve: "isOnCurve sample_point"
  unfolding sample_point_def
  by (rule on_curve_quotient [where q = 169951909141275721912066149260764321773983455391741275304701101636840179941795663407674550911654619159542252521759806320341515438340003128738390923393129230555264450955027695056797606791816142684209938172509519095765637019390180772228])
    (simp only: EDWARDS_A_def EDWARDS_D_def FIELD_MODULUS_def numeral_eval)

theorem curve_complete_witness:
  "isOnCurve (addPoints sample_point IDENTITY)
   \<and> isOnCurve (commit \<lparr>gen_G = sample_point, gen_J = sample_point, gen_K = sample_point, gen_H = sample_point\<rparr>
       \<lparr>refunds = 3, index = 1, commitment = 5, blinding = 7\<rparr>)"
  using curve_complete [of sample_point IDENTITY
      "\<lparr>gen_G = sample_point, gen_J = sample_point, gen_K = sample_point, gen_H = sample_point\<rparr>"] sample_point_on_curve IDENTITY_isOnCurve
  by simp

end
