(* ===== verification/MerkleTree.thy ===== *)
theory MerkleTree
  imports Prelude
begin

text \<open>
  The Merkle tree of notes, in the contract (\<open>contracts/src/LongjingCredits.sol\<close>: \<open>_sibling\<close>, \<open>_node\<close>,
  \<open>_updateLeaf\<close>, \<open>getMerkleProof\<close>, the zeros of the constructor) and in the request circuit
  (\<open>circuits/templates/merkle_tree.circom\<close>).  Poseidon on two inputs is the parameter \<open>hash\<close>.

  \<open>subtree\<close> is the reference: the root of the full subtree over a list of leaves padded with zeros.  The
  contract stores only the nodes it has written and recomputes one path per update; it takes a stored
  zero for a node never written, so it agrees with the reference as long as no inner node of the tree
  hashes to zero (\<open>tree_nonzero\<close>), which would be a Poseidon preimage of zero.

  Shown: after any update the stored nodes and the root are those of the reference, and the path the
  contract returns for a leaf leads the circuit from that leaf to the root.
\<close>

section \<open>Operations\<close>

definition TREE_DEPTH :: nat where
  "TREE_DEPTH = 20"

text \<open>\<open>zeros\<close>: the roots of empty subtrees, by height.\<close>

fun zero_root :: "(nat \<Rightarrow> nat \<Rightarrow> nat) \<Rightarrow> nat \<Rightarrow> nat" where
  "zero_root hash 0 = 0"
| "zero_root hash (Suc l) = hash (zero_root hash l) (zero_root hash l)"

definition zeros_of :: "(nat \<Rightarrow> nat \<Rightarrow> nat) \<Rightarrow> nat list" where
  "zeros_of hash = map (zero_root hash) [0..<TREE_DEPTH]"

definition sibling :: "nat \<Rightarrow> nat" where
  "sibling index = (if index mod 2 = 0 then index + 1 else index - 1)"

type_synonym tree_nodes = "nat \<Rightarrow> nat \<Rightarrow> nat"

definition node :: "nat list \<Rightarrow> tree_nodes \<Rightarrow> nat \<Rightarrow> nat \<Rightarrow> nat" where
  "node zs nodes level index = (if nodes level index \<noteq> 0 then nodes level index else zs ! level)"

definition set_node :: "nat \<Rightarrow> nat \<Rightarrow> nat \<Rightarrow> tree_nodes \<Rightarrow> tree_nodes" where
  "set_node level index v nodes = nodes(level := (nodes level)(index := v))"

text \<open>The loop of \<open>_updateLeaf\<close>, with the levels left to climb as its first argument.\<close>

fun climb :: "nat \<Rightarrow> (nat \<Rightarrow> nat \<Rightarrow> nat) \<Rightarrow> nat list \<Rightarrow> nat \<Rightarrow> nat \<Rightarrow> nat \<Rightarrow> tree_nodes \<Rightarrow> tree_nodes \<times> nat" where
  "climb 0 hash zs level index current nodes = (nodes, current)"
| "climb (Suc k) hash zs level index current nodes =
     (let sib = node zs nodes level (sibling index);
          above = (if index mod 2 = 0 then hash current sib else hash sib current)
      in climb k hash zs (level + 1) (index div 2) above (set_node (level + 1) (index div 2) above nodes))"

definition updateLeaf :: "(nat \<Rightarrow> nat \<Rightarrow> nat) \<Rightarrow> nat list \<Rightarrow> nat list \<Rightarrow> nat \<Rightarrow> tree_nodes \<Rightarrow> tree_nodes \<times> nat" where
  "updateLeaf hash zs leaves leafIndex nodes =
     climb TREE_DEPTH hash zs 0 leafIndex (leaves ! leafIndex) (set_node 0 leafIndex (leaves ! leafIndex) nodes)"

text \<open>The loop of \<open>getMerkleProof\<close>: the siblings and the directions.\<close>

fun merkle_path :: "nat \<Rightarrow> nat list \<Rightarrow> tree_nodes \<Rightarrow> nat \<Rightarrow> nat \<Rightarrow> (nat \<times> nat) list" where
  "merkle_path 0 zs nodes level index = []"
| "merkle_path (Suc k) zs nodes level index =
     (node zs nodes level (sibling index), index mod 2) # merkle_path k zs nodes (level + 1) (index div 2)"

text \<open>\<open>MerkleTreeChecker\<close>: the hash at the top of a path; \<open>None\<close> when a direction is not a bit.\<close>

fun MerkleTreeChecker :: "(nat \<Rightarrow> nat \<Rightarrow> nat) \<Rightarrow> nat \<Rightarrow> (nat \<times> nat) list \<Rightarrow> nat option" where
  "MerkleTreeChecker hash leaf [] = Some leaf"
| "MerkleTreeChecker hash leaf ((element, dir) # path) =
     (if dir = 0 then MerkleTreeChecker hash (hash leaf element) path
      else if dir = 1 then MerkleTreeChecker hash (hash element leaf) path
      else None)"

section \<open>The reference tree\<close>

definition leaf_at :: "nat list \<Rightarrow> nat \<Rightarrow> nat" where
  "leaf_at leaves i = (if i < length leaves then leaves ! i else 0)"

fun subtree :: "(nat \<Rightarrow> nat \<Rightarrow> nat) \<Rightarrow> nat list \<Rightarrow> nat \<Rightarrow> nat \<Rightarrow> nat" where
  "subtree hash leaves 0 i = leaf_at leaves i"
| "subtree hash leaves (Suc l) i = hash (subtree hash leaves l (2 * i)) (subtree hash leaves l (2 * i + 1))"

definition tree_nonzero :: "(nat \<Rightarrow> nat \<Rightarrow> nat) \<Rightarrow> nat list \<Rightarrow> bool" where
  "tree_nonzero hash leaves \<longleftrightarrow> (\<forall>l i. 0 < l \<and> l < TREE_DEPTH \<longrightarrow> subtree hash leaves l i \<noteq> 0)"

text \<open>A subtree only depends on the leaves below it.\<close>

lemma subtree_cong:
  "(\<And>k. k div 2 ^ l = i \<Longrightarrow> leaf_at ls k = leaf_at ls' k) \<Longrightarrow> subtree hash ls l i = subtree hash ls' l i"
proof (induction l arbitrary: i)
  case (Suc l)
  have "leaf_at ls k = leaf_at ls' k" if "k div 2 ^ l = 2 * i \<or> k div 2 ^ l = 2 * i + 1" for k
  proof -
    have "k div 2 ^ Suc l = k div 2 ^ l div 2" by (metis div_mult2_eq power_Suc2)
    with that Suc.prems [of k] show ?thesis by auto
  qed
  then show ?case using Suc.IH [of "2 * i"] Suc.IH [of "2 * i + 1"] by simp
qed simp

lemma subtree_empty: "length ls \<le> i * 2 ^ l \<Longrightarrow> subtree hash ls l i = zero_root hash l"
  by (induction l arbitrary: i) (simp_all add: leaf_at_def algebra_simps)

section \<open>The stored tree is the reference\<close>

text \<open>What is stored below level \<open>n\<close>, apart from the path of the leaf that is being written.\<close>

definition nodes_ok :: "(nat \<Rightarrow> nat \<Rightarrow> nat) \<Rightarrow> nat list \<Rightarrow> tree_nodes \<Rightarrow> bool" where
  "nodes_ok hash ls nodes \<longleftrightarrow> (\<forall>l < TREE_DEPTH. \<forall>i. node (zeros_of hash) nodes l i = subtree hash ls l i)"

lemma nodes_ok_empty: "nodes_ok hash [] (\<lambda>_ _. 0)"
  by (simp add: nodes_ok_def node_def zeros_of_def subtree_empty)

lemma sibling_cases:
  obtains (left) j where "index = 2 * j" "sibling index = 2 * j + 1" | (right) j where "index = 2 * j + 1" "sibling index = 2 * j"
proof (cases "even index")
  case True
  then obtain j where "index = 2 * j" by blast
  then show thesis using left by (simp add: sibling_def)
next
  case False
  then obtain j where "index = 2 * j + 1" by (blast elim: oddE)
  then show thesis using right by (simp add: sibling_def)
qed

lemma node_set_node:
  "node zs (set_node l i v nodes) l' i' = (if l' = l \<and> i' = i then if v \<noteq> 0 then v else zs ! l else node zs nodes l' i')"
  by (simp add: node_def set_node_def)

lemma climb_ok:
  assumes "tree_nonzero hash ls" "level + k = TREE_DEPTH" "index < 2 ^ k" "current = subtree hash ls level index"
    "\<forall>l < TREE_DEPTH. \<forall>i. (level < l \<longrightarrow> i \<noteq> index div 2 ^ (l - level)) \<longrightarrow> node (zeros_of hash) nodes l i = subtree hash ls l i"
  shows "nodes_ok hash ls (fst (climb k hash (zeros_of hash) level index current nodes))
    \<and> snd (climb k hash (zeros_of hash) level index current nodes) = subtree hash ls TREE_DEPTH 0"
  using assms
proof (induction k arbitrary: level index current nodes)
  case 0
  then show ?case by (auto simp: nodes_ok_def)
next
  case (Suc k)
  let ?sib = "node (zeros_of hash) nodes level (sibling index)"
  let ?above = "if index mod 2 = 0 then hash current ?sib else hash ?sib current"
  let ?nodes = "set_node (level + 1) (index div 2) ?above nodes"
  have "?sib = subtree hash ls level (sibling index)" using Suc.prems(2,5) by simp
  then have a: "?above = subtree hash ls (level + 1) (index div 2)"
    using Suc.prems(4) by (cases index rule: sibling_cases) simp_all
  have "node (zeros_of hash) ?nodes l i = subtree hash ls l i"
    if l: "l < TREE_DEPTH" and i: "level + 1 < l \<longrightarrow> i \<noteq> index div 2 div 2 ^ (l - (level + 1))" for l i
  proof (cases "l = level + 1 \<and> i = index div 2")
    case True
    then have "subtree hash ls (level + 1) (index div 2) \<noteq> 0"
      using l Suc.prems(1) unfolding tree_nonzero_def by (metis add_gr_0 zero_less_one)
    then have "?above \<noteq> 0" using a by simp
    then show ?thesis using a True by (simp add: node_set_node)
  next
    case False
    have "i \<noteq> index div 2 ^ (l - level)" if lt: "level < l"
    proof (cases "l = level + 1")
      case True
      with False show ?thesis by simp
    next
      case no: False
      with lt have "l - level = Suc (l - (level + 1))" "level + 1 < l" by simp_all
      with i show ?thesis by (simp add: div_mult2_eq)
    qed
    then show ?thesis using Suc.prems(5) l False by (auto simp: node_set_node)
  qed
  then have "\<forall>l < TREE_DEPTH. \<forall>i. (level + 1 < l \<longrightarrow> i \<noteq> index div 2 div 2 ^ (l - (level + 1)))
      \<longrightarrow> node (zeros_of hash) ?nodes l i = subtree hash ls l i" by blast
  moreover have "index div 2 < 2 ^ k" "level + 1 + k = TREE_DEPTH" using Suc.prems(2,3) by simp_all
  ultimately have "nodes_ok hash ls (fst (climb k hash (zeros_of hash) (level + 1) (index div 2) ?above ?nodes))
    \<and> snd (climb k hash (zeros_of hash) (level + 1) (index div 2) ?above ?nodes) = subtree hash ls TREE_DEPTH 0"
    using Suc.prems(1) a by (intro Suc.IH) simp_all
  then show ?case by (simp only: climb.simps Let_def)
qed

text \<open>Writing one leaf of a tree: the leaves differ in that leaf only.\<close>

lemma updateLeaf_ok:
  assumes "tree_nonzero hash ls'" "nodes_ok hash ls nodes" "index < length ls'" "index < 2 ^ TREE_DEPTH"
    "\<And>k. k \<noteq> index \<Longrightarrow> leaf_at ls' k = leaf_at ls k" "updateLeaf hash (zeros_of hash) ls' index nodes = (nodes', root)"
  shows "nodes_ok hash ls' nodes' \<and> root = subtree hash ls' TREE_DEPTH 0"
proof -
  let ?v = "ls' ! index"
  let ?nodes = "set_node 0 index ?v nodes"
  have v: "?v = subtree hash ls' 0 index" using assms(3) by (simp add: leaf_at_def)
  have "node (zeros_of hash) ?nodes l i = subtree hash ls' l i"
    if l: "l < TREE_DEPTH" and i: "0 < l \<longrightarrow> i \<noteq> index div 2 ^ l" for l i
  proof (cases "l = 0 \<and> i = index")
    case True
    have "zeros_of hash ! 0 = 0" by (simp add: zeros_of_def TREE_DEPTH_def)
    with True v show ?thesis by (simp add: node_set_node)
  next
    case False
    then have "i \<noteq> index div 2 ^ l" using i by (cases l) auto
    then have "subtree hash ls' l i = subtree hash ls l i" by (intro subtree_cong assms(5)) auto
    then show ?thesis using assms(2) l False by (auto simp: node_set_node nodes_ok_def)
  qed
  then have "\<forall>l < TREE_DEPTH. \<forall>i. (0 < l \<longrightarrow> i \<noteq> index div 2 ^ (l - 0)) \<longrightarrow> node (zeros_of hash) ?nodes l i = subtree hash ls' l i"
    by simp
  from climb_ok [OF assms(1) _ assms(4) v this] assms(6) show ?thesis by (simp add: updateLeaf_def)
qed

section \<open>Paths lead to the root\<close>

lemma merkle_path_ok:
  assumes "nodes_ok hash ls nodes" "level + k = TREE_DEPTH"
  shows "MerkleTreeChecker hash (subtree hash ls level index) (merkle_path k (zeros_of hash) nodes level index)
    = Some (subtree hash ls TREE_DEPTH (index div 2 ^ k))"
  using assms(2)
proof (induction k arbitrary: level index)
  case (Suc k)
  let ?sib = "node (zeros_of hash) nodes level (sibling index)"
  have "?sib = subtree hash ls level (sibling index)" using assms(1) Suc.prems by (simp add: nodes_ok_def)
  then have "MerkleTreeChecker hash (subtree hash ls level index) (merkle_path (Suc k) (zeros_of hash) nodes level index)
    = MerkleTreeChecker hash (subtree hash ls (level + 1) (index div 2)) (merkle_path k (zeros_of hash) nodes (level + 1) (index div 2))"
    by (cases index rule: sibling_cases) simp_all
  also have "\<dots> = Some (subtree hash ls TREE_DEPTH (index div 2 div 2 ^ k))" using Suc.prems by (intro Suc.IH) simp
  finally show ?case by (simp add: div_mult2_eq)
qed simp

end
