(* ===== verification/Circuits.thy ===== *)
theory Circuits
  imports BabyJubjub MerkleTree
begin

text \<open>
  The two circuits (\<open>circuits/request.circom\<close>, \<open>circuits/settlement.circom\<close>) and their templates.

  A template is a function from its input signals to its output signals, \<open>None\<close> when its constraints
  cannot be met; a signal is a residue of the field and \<open>+\<close>, \<open>-\<close>, \<open>*\<close> are taken modulo \<open>FIELD_MODULUS\<close>.
  The templates of circomlib are the record \<open>circomlib\<close>, and what their documentation says of them is
  \<open>circomlib_law\<close>: a template whose constraints hold computes what it is named for.

  Shown: although the circuits compute modulo the field, the amounts they prove are the integers meant.  A
  request proof shows \<open>(i + 1) * C_MAX \<le> D + R\<close> and an exit proof a payout of exactly \<open>D + R - n * C_MAX\<close>,
  not negative, with \<open>n\<close> at least the index of the accumulator.
\<close>

section \<open>circomlib\<close>

record circomlib =
  ct_Poseidon :: "int list \<Rightarrow> int"
  ct_Num2Bits :: "nat \<Rightarrow> int \<Rightarrow> int list option"
  ct_Num2Bits_strict :: "int \<Rightarrow> int list option"
  ct_LessEqThan :: "nat \<Rightarrow> int \<Rightarrow> int \<Rightarrow> int option"
  ct_EscalarMulFix :: "nat \<Rightarrow> point \<Rightarrow> int list \<Rightarrow> point option"
  ct_BabyAdd :: "point \<Rightarrow> point \<Rightarrow> point option"
  ct_EdDSAPoseidonVerifier :: "int \<Rightarrow> point \<Rightarrow> point \<Rightarrow> int \<Rightarrow> int \<Rightarrow> bool"

definition fadd :: "int \<Rightarrow> int \<Rightarrow> int" where
  "fadd a b = (a + b) mod FIELD_MODULUS"

definition fsub :: "int \<Rightarrow> int \<Rightarrow> int" where
  "fsub a b = (a - b) mod FIELD_MODULUS"

definition fmul :: "int \<Rightarrow> int \<Rightarrow> int" where
  "fmul a b = (a * b) mod FIELD_MODULUS"

section \<open>The accumulator templates\<close>

definition GENERATOR_G :: point where
  "GENERATOR_G = (18891097169288653087893319358176119911434283417707569988321287040614592813441,
     7860657952746490641010431794884102523135412871148967527117598022318856757355)"

definition GENERATOR_J :: point where
  "GENERATOR_J = (9355242946826564246596339623000927660947180691373501561174839848920096889098,
     5781297037533749164671578987434977586939883164721324158318402311010617548447)"

definition GENERATOR_K :: point where
  "GENERATOR_K = (10091301215100818316994948506512801193726841756990533464310239660356987896404,
     18942670726857660232249921857623130179002007525955879997549966126382094771891)"

definition GENERATOR_H :: point where
  "GENERATOR_H = (13556252777791168262952330903992668184110251936673810894841963303519998714808,
     6394268297776531876912426155015605865041308032211543906119719637484169236582)"

definition circuit_generators :: generators where
  "circuit_generators = \<lparr>gen_G = GENERATOR_G, gen_J = GENERATOR_J, gen_K = GENERATOR_K, gen_H = GENERATOR_H\<rparr>"

lemma GENERATOR_G_on_curve: "isOnCurve GENERATOR_G"
  unfolding GENERATOR_G_def
  by (rule on_curve_quotient [where q = 169951909141275721912066149260764321773983455391741275304701101636840179941795663407674550911654619159542252521759806320341515438340003128738390923393129230555264450955027695056797606791816142684209938172509519095765637019390180772228])
    (simp only: EDWARDS_A_def EDWARDS_D_def FIELD_MODULUS_def numeral_eval)

lemma GENERATOR_J_on_curve: "isOnCurve GENERATOR_J"
  unfolding GENERATOR_J_def
  by (rule on_curve_quotient [where q = 22545226022939026312740792778361915422470778897221071277948759821634694277478430176561553987876396616488375103453175106933889520260226864677615001502778277086876879225267922290990642767735142207225327351462284856148510337974835277744])
    (simp only: EDWARDS_A_def EDWARDS_D_def FIELD_MODULUS_def numeral_eval)

lemma GENERATOR_K_on_curve: "isOnCurve GENERATOR_K"
  unfolding GENERATOR_K_def
  by (rule on_curve_quotient [where q = 281624637408579121689095609110195929478195932442886030452601238580913925337226445557694276212604080083980746628556706786761319383221438209209076281310193128545731299174972703798362802898043221053529958689520572849201768082227555450008])
    (simp only: EDWARDS_A_def EDWARDS_D_def FIELD_MODULUS_def numeral_eval)

lemma GENERATOR_H_on_curve: "isOnCurve GENERATOR_H"
  unfolding GENERATOR_H_def
  by (rule on_curve_quotient [where q = 57910179699319374606989696477344951265324880387748635467043157588904732710858877032929277127241895438206261623838590086358551913955681804650213735561747346624523558786499994877078732576471390451503457761924143972669125716784089849949])
    (simp only: EDWARDS_A_def EDWARDS_D_def FIELD_MODULUS_def numeral_eval)

lemma generators_on_curve: "base \<in> {GENERATOR_G, GENERATOR_J, GENERATOR_K, GENERATOR_H} \<Longrightarrow> isOnCurve base"
  using GENERATOR_G_on_curve GENERATOR_J_on_curve GENERATOR_K_on_curve GENERATOR_H_on_curve by auto

definition FixedBaseMul :: "circomlib \<Rightarrow> nat \<Rightarrow> point \<Rightarrow> int \<Rightarrow> point option" where
  "FixedBaseMul lib BITS BASE scalar = Option.bind (ct_Num2Bits lib BITS scalar) (ct_EscalarMulFix lib BITS BASE)"

definition FieldBaseMul :: "circomlib \<Rightarrow> point \<Rightarrow> int \<Rightarrow> point option" where
  "FieldBaseMul lib BASE scalar = Option.bind (ct_Num2Bits_strict lib scalar) (ct_EscalarMulFix lib 254 BASE)"

definition AccumulatorCommitment :: "circomlib \<Rightarrow> accOpening \<Rightarrow> point option" where
  "AccumulatorCommitment lib op =
     Option.bind (FixedBaseMul lib 128 GENERATOR_G (refunds op)) (\<lambda>refundsTerm.
     Option.bind (FixedBaseMul lib 32 GENERATOR_J (index op)) (\<lambda>indexTerm.
     Option.bind (FieldBaseMul lib GENERATOR_K (commitment op)) (\<lambda>commitmentTerm.
     Option.bind (FieldBaseMul lib GENERATOR_H (blinding op)) (\<lambda>blindingTerm.
     Option.bind (ct_BabyAdd lib refundsTerm indexTerm) (\<lambda>sum1.
     Option.bind (ct_BabyAdd lib sum1 commitmentTerm) (\<lambda>sum2.
     ct_BabyAdd lib sum2 blindingTerm))))))"

record acc_signals =
  as_isGenesis :: int
  as_refunds :: int
  as_index :: int
  as_blinding :: int
  as_R8 :: point
  as_S :: int

definition opening_of :: "acc_signals \<Rightarrow> int \<Rightarrow> accOpening" where
  "opening_of a c = \<lparr>refunds = as_refunds a, index = as_index a, commitment = c, blinding = as_blinding a\<rparr>"

lemma opening_of_simps [simp]:
  "refunds (opening_of a c) = as_refunds a" "index (opening_of a c) = as_index a"
  "commitment (opening_of a c) = c" "blinding (opening_of a c) = as_blinding a"
  by (simp_all add: opening_of_def)

definition SignedAccumulator :: "circomlib \<Rightarrow> point \<Rightarrow> acc_signals \<Rightarrow> int \<Rightarrow> point option" where
  "SignedAccumulator lib serverKey a c =
     (let g = as_isGenesis a in
      if fmul g (fsub 1 g) = 0 \<and> fmul g (as_refunds a) = 0 \<and> fmul g (as_index a) = 0 \<and> fmul g (as_blinding a) = 0
      then Option.bind (AccumulatorCommitment lib (opening_of a c)) (\<lambda>out.
        if ct_EdDSAPoseidonVerifier lib (fsub 1 g) serverKey (as_R8 a) (as_S a) (ct_Poseidon lib [fst out, snd out])
        then Some out else None)
      else None)"

definition Rerandomize :: "circomlib \<Rightarrow> point \<Rightarrow> int \<Rightarrow> point option" where
  "Rerandomize lib p b = Option.bind (FieldBaseMul lib GENERATOR_H b) (ct_BabyAdd lib p)"

definition RlnSignal :: "circomlib \<Rightarrow> int \<Rightarrow> int \<Rightarrow> int \<Rightarrow> int \<times> int" where
  "RlnSignal lib secretKey idx signalX =
     (let a = ct_Poseidon lib [secretKey, idx]
      in (ct_Poseidon lib [a], fadd secretKey (fmul a signalX)))"

section \<open>The circuits\<close>

record request_signals =
  rs_secretKey :: int
  rs_deposit :: int
  rs_path :: "(int \<times> int) list"
  rs_acc :: acc_signals
  rs_rerandomizer :: int
  rs_merkleRoot :: int
  rs_maxCost :: int
  rs_signalX :: int
  rs_serverKey :: point

text \<open>The tree template on the residues of the field.\<close>

definition tree_root :: "circomlib \<Rightarrow> int \<Rightarrow> (int \<times> int) list \<Rightarrow> int option" where
  "tree_root lib leaf path = map_option int
     (MerkleTreeChecker (\<lambda>a b. nat (ct_Poseidon lib [int a, int b])) (nat leaf) (map (\<lambda>(e, d). (nat e, nat d)) path))"

definition Request :: "circomlib \<Rightarrow> request_signals \<Rightarrow> (int \<times> int \<times> point) option" where
  "Request lib w =
     (let c = ct_Poseidon lib [rs_secretKey w]; a = rs_acc w in
      if tree_root lib (ct_Poseidon lib [c, rs_deposit w]) (rs_path w) \<noteq> Some (rs_merkleRoot w) then None
      else Option.bind (SignedAccumulator lib (rs_serverKey w) a c) (\<lambda>acc.
        Option.bind (Rerandomize lib acc (rs_rerandomizer w)) (\<lambda>published.
        Option.bind (ct_Num2Bits lib 128 (rs_deposit w)) (\<lambda>_.
        Option.bind (ct_Num2Bits lib 128 (rs_maxCost w)) (\<lambda>_.
        Option.bind (ct_LessEqThan lib 161 (fmul (fadd (as_index a) 1) (rs_maxCost w)) (fadd (rs_deposit w) (as_refunds a))) (\<lambda>ok.
        if ok = 1 then (case RlnSignal lib (rs_secretKey w) (as_index a) (rs_signalX w) of (n, y) \<Rightarrow> Some (n, y, published)) else None))))))"

record settlement_signals =
  ss_secretKey :: int
  ss_acc :: acc_signals
  ss_claimedIndex :: int
  ss_commitment :: int
  ss_deposit :: int
  ss_maxCost :: int
  ss_serverKey :: point
  ss_recipient :: int
  ss_signalX :: int

definition Settlement :: "circomlib \<Rightarrow> settlement_signals \<Rightarrow> (int \<times> int \<times> int) option" where
  "Settlement lib w =
     (let a = ss_acc w in
      if ct_Poseidon lib [ss_secretKey w] = ss_commitment w then
        Option.bind (SignedAccumulator lib (ss_serverKey w) a (ss_commitment w)) (\<lambda>_.
        Option.bind (ct_Num2Bits lib 32 (ss_claimedIndex w)) (\<lambda>_.
        Option.bind (ct_LessEqThan lib 32 (as_index a) (ss_claimedIndex w)) (\<lambda>ok.
        if ok = 1 then
          Option.bind (ct_Num2Bits lib 128 (ss_deposit w)) (\<lambda>_.
          Option.bind (ct_Num2Bits lib 128 (ss_maxCost w)) (\<lambda>_.
          let payout = fsub (fadd (ss_deposit w) (as_refunds a)) (fmul (ss_claimedIndex w) (ss_maxCost w))
          in Option.bind (ct_Num2Bits lib 129 payout) (\<lambda>_.
            case RlnSignal lib (ss_secretKey w) (ss_claimedIndex w) (ss_signalX w) of (n, y) \<Rightarrow> Some (n, y, payout))))
        else None)))
      else None)"

section \<open>What circomlib documents\<close>

definition bits_of :: "nat \<Rightarrow> int \<Rightarrow> int list" where
  "bits_of n x = map (\<lambda>i. x div 2 ^ i mod 2) [0..<n]"

definition num2bits_law :: "circomlib \<Rightarrow> bool" where
  "num2bits_law lib \<longleftrightarrow> (\<forall>n x bs. n \<le> 253 \<longrightarrow> reduced x \<longrightarrow> ct_Num2Bits lib n x = Some bs \<longrightarrow> x < 2 ^ n \<and> bs = bits_of n x)"

definition num2bits_strict_law :: "circomlib \<Rightarrow> bool" where
  "num2bits_strict_law lib \<longleftrightarrow> (\<forall>x bs. reduced x \<longrightarrow> ct_Num2Bits_strict lib x = Some bs \<longrightarrow> bs = bits_of 254 x)"

definition lesseq_law :: "circomlib \<Rightarrow> bool" where
  "lesseq_law lib \<longleftrightarrow> (\<forall>n a b r. n \<le> 252 \<longrightarrow> 0 \<le> a \<longrightarrow> a < 2 ^ n \<longrightarrow> 0 \<le> b \<longrightarrow> b < 2 ^ n \<longrightarrow>
     ct_LessEqThan lib n a b = Some r \<longrightarrow> r = (if a \<le> b then 1 else 0))"

definition mulfix_law :: "circomlib \<Rightarrow> bool" where
  "mulfix_law lib \<longleftrightarrow> (\<forall>n base x p. base \<in> {GENERATOR_G, GENERATOR_J, GENERATOR_K, GENERATOR_H} \<longrightarrow> 0 \<le> x \<longrightarrow> x < 2 ^ n \<longrightarrow>
     ct_EscalarMulFix lib n base (bits_of n x) = Some p \<longrightarrow> p = mulPoint base x)"

definition babyadd_law :: "circomlib \<Rightarrow> bool" where
  "babyadd_law lib \<longleftrightarrow> (\<forall>p q r. isOnCurve p \<longrightarrow> isOnCurve q \<longrightarrow> ct_BabyAdd lib p q = Some r \<longrightarrow> r = addPoints p q)"

definition circomlib_law :: "circomlib \<Rightarrow> bool" where
  "circomlib_law lib \<longleftrightarrow> (\<forall>xs. reduced (ct_Poseidon lib xs)) \<and> num2bits_law lib \<and> num2bits_strict_law lib \<and> lesseq_law lib
     \<and> mulfix_law lib \<and> babyadd_law lib"

definition acc_reduced :: "acc_signals \<Rightarrow> bool" where
  "acc_reduced a \<longleftrightarrow> reduced (as_isGenesis a) \<and> reduced (as_refunds a) \<and> reduced (as_index a) \<and> reduced (as_blinding a)"

lemma field_gt_bits: "2 ^ 253 < FIELD_MODULUS" "FIELD_MODULUS < 2 ^ 254"
  by (simp_all add: FIELD_MODULUS_def)

lemma Poseidon_reduced: "circomlib_law lib \<Longrightarrow> reduced (ct_Poseidon lib xs)"
  by (simp add: circomlib_law_def)

lemma Num2Bits_bound:
  assumes "circomlib_law lib" "ct_Num2Bits lib n x = Some bs" "n \<le> 253" "reduced x"
  shows "x < 2 ^ n" "bs = bits_of n x"
  using assms [unfolded circomlib_law_def num2bits_law_def] by simp_all

lemma Num2Bits_strict_value:
  assumes "circomlib_law lib" "ct_Num2Bits_strict lib x = Some bs" "reduced x"
  shows "bs = bits_of 254 x"
  using assms [unfolded circomlib_law_def num2bits_strict_law_def] by simp

lemma LessEqThan_value:
  assumes "circomlib_law lib" "ct_LessEqThan lib n a b = Some r" "n \<le> 252" "0 \<le> a" "a < 2 ^ n" "0 \<le> b" "b < 2 ^ n"
  shows "r = (if a \<le> b then 1 else 0)"
proof -
  have "lesseq_law lib" using assms(1) by (simp add: circomlib_law_def)
  then show ?thesis using assms(2-) unfolding lesseq_law_def by metis
qed

lemma BabyAdd_value:
  assumes "circomlib_law lib" "ct_BabyAdd lib p q = Some r" "isOnCurve p" "isOnCurve q"
  shows "r = addPoints p q" "isOnCurve r"
proof -
  have "babyadd_law lib" using assms(1) by (simp add: circomlib_law_def)
  then show "r = addPoints p q" using assms(2-) unfolding babyadd_law_def by metis
  then show "isOnCurve r" using assms(3,4) by (simp add: addPoints_on_curve)
qed

lemma EscalarMulFix_value:
  assumes "circomlib_law lib" "ct_EscalarMulFix lib n base (bits_of n x) = Some p"
    "base \<in> {GENERATOR_G, GENERATOR_J, GENERATOR_K, GENERATOR_H}" "0 \<le> x" "x < 2 ^ n"
  shows "p = mulPoint base x" "isOnCurve p"
proof -
  have "mulfix_law lib" using assms(1) by (simp add: circomlib_law_def)
  then show "p = mulPoint base x" using assms(2-) unfolding mulfix_law_def by metis
  then show "isOnCurve p" using generators_on_curve [OF assms(3)] by (simp add: mulPoint_on_curve)
qed

section \<open>The accumulator is the one of the service\<close>

lemma FixedBaseMul_value:
  assumes "circomlib_law lib" "FixedBaseMul lib n base x = Some p" "n \<le> 253" "reduced x"
    "base \<in> {GENERATOR_G, GENERATOR_J, GENERATOR_K, GENERATOR_H}"
  shows "x < 2 ^ n" "p = mulPoint base x" "isOnCurve p"
proof -
  from assms(2) obtain bs where b: "ct_Num2Bits lib n x = Some bs" "ct_EscalarMulFix lib n base bs = Some p"
    by (auto simp: FixedBaseMul_def bind_eq_Some_conv)
  note n = Num2Bits_bound [OF assms(1) b(1) assms(3,4)]
  show "x < 2 ^ n" by (rule n(1))
  have "0 \<le> x" using assms(4) by (simp add: reduced_def)
  from EscalarMulFix_value [OF assms(1) b(2) [unfolded n(2)] assms(5) this n(1)] show "p = mulPoint base x" "isOnCurve p" .
qed

lemma FieldBaseMul_value:
  assumes "circomlib_law lib" "FieldBaseMul lib base x = Some p" "reduced x"
    "base \<in> {GENERATOR_G, GENERATOR_J, GENERATOR_K, GENERATOR_H}"
  shows "p = mulPoint base x" "isOnCurve p"
proof -
  from assms(2) obtain bs where b: "ct_Num2Bits_strict lib x = Some bs" "ct_EscalarMulFix lib 254 base bs = Some p"
    by (auto simp: FieldBaseMul_def bind_eq_Some_conv)
  note n = Num2Bits_strict_value [OF assms(1) b(1) assms(3)]
  have "0 \<le> x" "x < 2 ^ 254" using assms(3) field_gt_bits(2) unfolding reduced_def by (blast intro: less_trans)+
  from EscalarMulFix_value [OF assms(1) b(2) [unfolded n] assms(4) this] show "p = mulPoint base x" "isOnCurve p" .
qed

lemma AccumulatorCommitment_value:
  assumes "circomlib_law lib" "AccumulatorCommitment lib op = Some p"
    "reduced (refunds op)" "reduced (index op)" "reduced (commitment op)" "reduced (blinding op)"
  shows "refunds op < 2 ^ 128 \<and> index op < 2 ^ 32 \<and> p = commit circuit_generators op \<and> isOnCurve p"
proof -
  from assms(2) obtain a b c d s1 s2 where t: "FixedBaseMul lib 128 GENERATOR_G (refunds op) = Some a"
    "FixedBaseMul lib 32 GENERATOR_J (index op) = Some b" "FieldBaseMul lib GENERATOR_K (commitment op) = Some c"
    "FieldBaseMul lib GENERATOR_H (blinding op) = Some d"
    and s: "ct_BabyAdd lib a b = Some s1" "ct_BabyAdd lib s1 c = Some s2" "ct_BabyAdd lib s2 d = Some p"
    by (auto simp: AccumulatorCommitment_def bind_eq_Some_conv)
  note G = FixedBaseMul_value [OF assms(1) t(1) _ assms(3), simplified]
  note J = FixedBaseMul_value [OF assms(1) t(2) _ assms(4), simplified]
  note K = FieldBaseMul_value [OF assms(1) t(3) assms(5), simplified]
  note H = FieldBaseMul_value [OF assms(1) t(4) assms(6), simplified]
  note s1 = BabyAdd_value [OF assms(1) s(1) G(3) J(3)]
  note s2 = BabyAdd_value [OF assms(1) s(2) s1(2) K(2)]
  note s3 = BabyAdd_value [OF assms(1) s(3) s2(2) H(2)]
  have "p = commit circuit_generators op"
    by (simp add: s3(1) s2(1) s1(1) G(2) J(2) K(1) H(1) commit_def circuit_generators_def)
  with G(1) J(1) s3(2) show ?thesis by simp
qed

lemma field_zero_product:
  assumes "fmul a b = 0" "reduced a" "reduced b"
  shows "a = 0 \<or> b = 0"
proof (rule ccontr)
  assume "\<not> (a = 0 \<or> b = 0)"
  with assms have a: "a mod FIELD_MODULUS \<noteq> 0" and b: "b mod FIELD_MODULUS \<noteq> 0" by simp_all
  from assms(1) have "a * b * inv a mod FIELD_MODULUS = 0" unfolding fmul_def by (metis mod_mult_left_eq mod_0 mult_zero_left)
  moreover have "a * b * inv a = b * (a * inv a)" by (simp add: mult_ac)
  moreover have "b * (a * inv a) mod FIELD_MODULUS = b mod FIELD_MODULUS"
    using inv_eq [OF a] by (metis mod_mult_right_eq mult.right_neutral)
  ultimately show False using b by simp
qed

lemma field_bit:
  assumes "fmul g (fsub 1 g) = 0" "reduced g"
  shows "g = 0 \<or> g = 1"
proof -
  have "g = 0 \<or> fsub 1 g = 0" using field_zero_product assms by (metis fsub_def reduced_mod)
  moreover have "g = 1" if "fsub 1 g = 0"
    using that assms(2) unfolding fsub_def by (metis mod_eq_dvd_iff dvd_eq_mod_eq_0 reduced_mod_eq reduced_1)
  ultimately show ?thesis by blast
qed

text \<open>The accumulator a proof opens: genesis with everything zero, or one whose signature is checked.\<close>

definition opened :: "circomlib \<Rightarrow> point \<Rightarrow> acc_signals \<Rightarrow> int \<Rightarrow> bool" where
  "opened lib serverKey a c \<longleftrightarrow> as_isGenesis a = 1 \<and> as_refunds a = 0 \<and> as_index a = 0 \<and> as_blinding a = 0
     \<or> as_isGenesis a = 0 \<and> ct_EdDSAPoseidonVerifier lib 1 serverKey (as_R8 a) (as_S a)
         (ct_Poseidon lib [fst (commit circuit_generators (opening_of a c)), snd (commit circuit_generators (opening_of a c))])"

lemma SignedAccumulator_value:
  assumes "circomlib_law lib" "SignedAccumulator lib key a c = Some p" "acc_reduced a" "reduced c"
  shows "as_refunds a < 2 ^ 128" "as_index a < 2 ^ 32" "p = commit circuit_generators (opening_of a c)" "isOnCurve p" "opened lib key a c"
proof -
  let ?g = "as_isGenesis a"
  from assms(2) have b: "fmul ?g (fsub 1 ?g) = 0" "fmul ?g (as_refunds a) = 0" "fmul ?g (as_index a) = 0" "fmul ?g (as_blinding a) = 0"
    and q: "AccumulatorCommitment lib (opening_of a c) = Some p"
    and v: "ct_EdDSAPoseidonVerifier lib (fsub 1 ?g) key (as_R8 a) (as_S a) (ct_Poseidon lib [fst p, snd p])"
    by (auto simp: SignedAccumulator_def Let_def bind_eq_Some_conv split: if_splits)
  have r: "reduced ?g" "reduced (as_refunds a)" "reduced (as_index a)" "reduced (as_blinding a)" using assms(3) by (simp_all add: acc_reduced_def)
  have "refunds (opening_of a c) < 2 ^ 128 \<and> index (opening_of a c) < 2 ^ 32 \<and> p = commit circuit_generators (opening_of a c) \<and> isOnCurve p"
    by (rule AccumulatorCommitment_value [OF assms(1) q]) (simp_all add: r assms(4))
  then show "as_refunds a < 2 ^ 128" "as_index a < 2 ^ 32" and p: "p = commit circuit_generators (opening_of a c)" and "isOnCurve p"
    unfolding opening_of_simps by blast+
  from field_bit [OF b(1) r(1)] show "opened lib key a c"
  proof
    assume "?g = 0"
    with v p show ?thesis by (simp add: opened_def fsub_def)
  next
    assume "?g = 1"
    with b r show ?thesis by (simp add: opened_def fmul_def)
  qed
qed

lemma Rerandomize_value:
  assumes "circomlib_law lib" "Rerandomize lib p b = Some q" "isOnCurve p" "reduced b"
  shows "q = rerandomize circuit_generators p b"
proof -
  from assms(2) obtain t where t: "FieldBaseMul lib GENERATOR_H b = Some t" "ct_BabyAdd lib p t = Some q"
    by (auto simp: Rerandomize_def bind_eq_Some_conv)
  note h = FieldBaseMul_value [OF assms(1) t(1) assms(4), simplified]
  show ?thesis using BabyAdd_value(1) [OF assms(1) t(2) assms(3) h(2)] h(1) by (simp add: rerandomize_def circuit_generators_def)
qed

section \<open>The amounts are integers\<close>

text \<open>Below \<open>2 ^ 253\<close> nothing wraps.\<close>

lemma no_wrap: "0 \<le> x \<Longrightarrow> x < 2 ^ 253 \<Longrightarrow> x mod FIELD_MODULUS = x"
  using field_gt_bits(1) by (intro mod_pos_pos_trivial) linarith+

lemma product_bound: "0 \<le> a \<Longrightarrow> a < 2 ^ k \<Longrightarrow> 0 \<le> b \<Longrightarrow> b < 2 ^ l \<Longrightarrow> a * b < 2 ^ (k + l)" for a b :: int
  by (metis mult_strict_mono' power_add)

text \<open>A difference of small amounts is a small residue only when it is not negative.\<close>

lemma small_difference:
  assumes "0 \<le> a" "a < 2 ^ 129" "0 \<le> b" "b < 2 ^ 160" "fsub a b < 2 ^ 129"
  shows "fsub a b = a - b" "b \<le> a"
proof -
  show le: "b \<le> a"
  proof (rule ccontr)
    assume "\<not> b \<le> a"
    then have "a - b + FIELD_MODULUS < FIELD_MODULUS" "2 ^ 129 \<le> a - b + FIELD_MODULUS"
      using assms(1,4) field_gt_bits(1) by simp_all
    then have "fsub a b = a - b + FIELD_MODULUS"
      unfolding fsub_def by (metis mod_add_self2 mod_pos_pos_trivial order_trans zero_le_numeral zero_le_power)
    with assms(5) \<open>2 ^ 129 \<le> a - b + FIELD_MODULUS\<close> show False by simp
  qed
  show "fsub a b = a - b" unfolding fsub_def using le assms by (intro no_wrap) simp_all
qed

definition request_reduced :: "request_signals \<Rightarrow> bool" where
  "request_reduced w \<longleftrightarrow> acc_reduced (rs_acc w) \<and> reduced (rs_deposit w) \<and> reduced (rs_maxCost w) \<and> reduced (rs_rerandomizer w)"

definition settlement_reduced :: "settlement_signals \<Rightarrow> bool" where
  "settlement_reduced w \<longleftrightarrow> acc_reduced (ss_acc w) \<and> reduced (ss_deposit w) \<and> reduced (ss_maxCost w) \<and> reduced (ss_claimedIndex w)
     \<and> reduced (ss_commitment w)"

lemma solvency_integer:
  assumes "circomlib_law lib" "ct_LessEqThan lib 161 (fmul (fadd i 1) c) (fadd d r) = Some 1"
    "0 \<le> i" "i < 2 ^ 32" "0 \<le> c" "c < 2 ^ 128" "0 \<le> d" "d < 2 ^ 128" "0 \<le> r" "r < 2 ^ 128"
  shows "(i + 1) * c \<le> d + r"
proof -
  have i: "fadd i 1 = i + 1" unfolding fadd_def using assms(3,4) by (intro no_wrap) simp_all
  have b: "(i + 1) * c < 2 ^ 161" using product_bound [of "i + 1" 33 c 128] assms(3-6) by simp
  then have "(i + 1) * c < 2 ^ 253" by simp
  with i assms(3,5) have l: "fmul (fadd i 1) c = (i + 1) * c" unfolding fmul_def i by (intro no_wrap) simp_all
  have r: "fadd d r = d + r" unfolding fadd_def using assms(7-10) by (intro no_wrap) simp_all
  from LessEqThan_value [OF assms(1,2)] b assms(3,5,7-10) show ?thesis unfolding l r by (simp split: if_splits)
qed

lemma Request_value:
  assumes "circomlib_law lib" "Request lib w = Some (n, y, published)" "request_reduced w"
  shows "let a = rs_acc w; c = ct_Poseidon lib [rs_secretKey w] in
    tree_root lib (ct_Poseidon lib [c, rs_deposit w]) (rs_path w) = Some (rs_merkleRoot w)
    \<and> opened lib (rs_serverKey w) a c
    \<and> published = rerandomize circuit_generators (commit circuit_generators (opening_of a c)) (rs_rerandomizer w)
    \<and> as_index a < 2 ^ 32 \<and> as_refunds a < 2 ^ 128 \<and> rs_deposit w < 2 ^ 128
    \<and> (as_index a + 1) * rs_maxCost w \<le> rs_deposit w + as_refunds a
    \<and> n = ct_Poseidon lib [ct_Poseidon lib [rs_secretKey w, as_index a]]
    \<and> y = (rs_secretKey w + ct_Poseidon lib [rs_secretKey w, as_index a] * rs_signalX w) mod FIELD_MODULUS"
proof -
  let ?a = "rs_acc w" and ?c = "ct_Poseidon lib [rs_secretKey w]"
  from assms(2) obtain acc b1 b2 where t: "tree_root lib (ct_Poseidon lib [?c, rs_deposit w]) (rs_path w) = Some (rs_merkleRoot w)"
    and acc: "SignedAccumulator lib (rs_serverKey w) ?a ?c = Some acc" and pub: "Rerandomize lib acc (rs_rerandomizer w) = Some published"
    and bits: "ct_Num2Bits lib 128 (rs_deposit w) = Some b1" "ct_Num2Bits lib 128 (rs_maxCost w) = Some b2"
    and ok: "ct_LessEqThan lib 161 (fmul (fadd (as_index ?a) 1) (rs_maxCost w)) (fadd (rs_deposit w) (as_refunds ?a)) = Some 1"
    and out: "RlnSignal lib (rs_secretKey w) (as_index ?a) (rs_signalX w) = (n, y)"
    by (auto simp: Request_def Let_def bind_eq_Some_conv split: if_splits prod.splits)
  have r: "acc_reduced ?a" "reduced (rs_deposit w)" "reduced (rs_maxCost w)" "reduced (rs_rerandomizer w)"
    using assms(3) by (simp_all add: request_reduced_def)
  note s = SignedAccumulator_value [OF assms(1) acc r(1) Poseidon_reduced [OF assms(1)]]
  have d: "rs_deposit w < 2 ^ 128" "rs_maxCost w < 2 ^ 128"
    by (rule Num2Bits_bound [OF assms(1) bits(1) _ r(2)] Num2Bits_bound [OF assms(1) bits(2) _ r(3)], simp)+
  have nn: "0 \<le> as_index ?a" "0 \<le> rs_maxCost w" "0 \<le> rs_deposit w" "0 \<le> as_refunds ?a" using r by (simp_all add: reduced_def acc_reduced_def)
  note sol = solvency_integer [OF assms(1) ok nn(1) s(2) nn(2) d(2) nn(3) d(1) nn(4) s(1)]
  have "published = rerandomize circuit_generators (commit circuit_generators (opening_of ?a ?c)) (rs_rerandomizer w)"
    using Rerandomize_value [OF assms(1) pub s(4) r(4)] unfolding s(3) .
  moreover have "n = ct_Poseidon lib [ct_Poseidon lib [rs_secretKey w, as_index ?a]]"
    "y = (rs_secretKey w + ct_Poseidon lib [rs_secretKey w, as_index ?a] * rs_signalX w) mod FIELD_MODULUS"
    using out by (auto simp: RlnSignal_def Let_def fadd_def fmul_def mod_add_right_eq)
  ultimately show ?thesis using t s(1,2,5) d(1) sol unfolding Let_def by blast
qed

text \<open>C11 A request proof is of a solvent note: when the circuit's constraints hold, the note's leaf is under the
  published root, the accumulator is genesis or carries a checked signature, the published one is that
  accumulator rerandomized, the amounts are below their bounds, the ticket is covered, that is
  \<open>(i + 1) * C_MAX \<le> D + R\<close> as integers, and the signal is the one of index \<open>i\<close>.\<close>

theorem request_circuit_sound:
  assumes "circomlib_law lib" "Request lib w = Some (n, y, published)" "request_reduced w"
  shows "let a = rs_acc w; c = ct_Poseidon lib [rs_secretKey w] in
    tree_root lib (ct_Poseidon lib [c, rs_deposit w]) (rs_path w) = Some (rs_merkleRoot w)
    \<and> opened lib (rs_serverKey w) a c
    \<and> published = rerandomize circuit_generators (commit circuit_generators (opening_of a c)) (rs_rerandomizer w)
    \<and> as_index a < 2 ^ 32 \<and> as_refunds a < 2 ^ 128 \<and> rs_deposit w < 2 ^ 128
    \<and> (as_index a + 1) * rs_maxCost w \<le> rs_deposit w + as_refunds a
    \<and> n = ct_Poseidon lib [ct_Poseidon lib [rs_secretKey w, as_index a]]
    \<and> y = (rs_secretKey w + ct_Poseidon lib [rs_secretKey w, as_index a] * rs_signalX w) mod FIELD_MODULUS"
  using assms by (rule Request_value)

lemma Settlement_Some:
  assumes "Settlement lib w = Some (n, y, payout)"
  shows "ct_Poseidon lib [ss_secretKey w] = ss_commitment w"
    "\<exists>acc. SignedAccumulator lib (ss_serverKey w) (ss_acc w) (ss_commitment w) = Some acc"
    "\<exists>bs. ct_Num2Bits lib 32 (ss_claimedIndex w) = Some bs" "\<exists>bs. ct_Num2Bits lib 128 (ss_deposit w) = Some bs"
    "\<exists>bs. ct_Num2Bits lib 128 (ss_maxCost w) = Some bs" "\<exists>bs. ct_Num2Bits lib 129 payout = Some bs"
    "ct_LessEqThan lib 32 (as_index (ss_acc w)) (ss_claimedIndex w) = Some 1"
    "payout = fsub (fadd (ss_deposit w) (as_refunds (ss_acc w))) (fmul (ss_claimedIndex w) (ss_maxCost w))"
    "RlnSignal lib (ss_secretKey w) (ss_claimedIndex w) (ss_signalX w) = (n, y)"
  using assms by (auto simp: Settlement_def Let_def bind_eq_Some_conv split: if_splits prod.splits)

lemma Settlement_value:
  assumes "circomlib_law lib" "Settlement lib w = Some (n, y, payout)" "settlement_reduced w"
  shows "ct_Poseidon lib [ss_secretKey w] = ss_commitment w \<and> opened lib (ss_serverKey w) (ss_acc w) (ss_commitment w)
    \<and> as_index (ss_acc w) \<le> ss_claimedIndex w \<and> ss_claimedIndex w < 2 ^ 32 \<and> as_refunds (ss_acc w) < 2 ^ 128
    \<and> payout = ss_deposit w + as_refunds (ss_acc w) - ss_claimedIndex w * ss_maxCost w \<and> 0 \<le> payout
    \<and> n = ct_Poseidon lib [ct_Poseidon lib [ss_secretKey w, ss_claimedIndex w]]
    \<and> y = (ss_secretKey w + ct_Poseidon lib [ss_secretKey w, ss_claimedIndex w] * ss_signalX w) mod FIELD_MODULUS"
proof -
  let ?a = "ss_acc w" and ?n = "ss_claimedIndex w"
  note c = Settlement_Some [OF assms(2)]
  note k = c(1) and ok = c(7) and p = c(8) and out = c(9)
  from c(2-6) obtain acc b0 b1 b2 b3 where acc: "SignedAccumulator lib (ss_serverKey w) ?a (ss_commitment w) = Some acc"
    and bits: "ct_Num2Bits lib 32 ?n = Some b0" "ct_Num2Bits lib 128 (ss_deposit w) = Some b1"
      "ct_Num2Bits lib 128 (ss_maxCost w) = Some b2" "ct_Num2Bits lib 129 payout = Some b3" by blast
  have r: "acc_reduced ?a" "reduced (ss_deposit w)" "reduced (ss_maxCost w)" "reduced ?n" "reduced (ss_commitment w)"
    using assms(3) by (simp_all add: settlement_reduced_def)
  note s = SignedAccumulator_value [OF assms(1) acc r(1,5)]
  have rp: "reduced payout" by (simp add: p fsub_def)
  have d: "?n < 2 ^ 32" "ss_deposit w < 2 ^ 128" "ss_maxCost w < 2 ^ 128" "payout < 2 ^ 129"
    using Num2Bits_bound(1) [OF assms(1) bits(1) _ r(4)] Num2Bits_bound(1) [OF assms(1) bits(2) _ r(2)]
      Num2Bits_bound(1) [OF assms(1) bits(3) _ r(3)] Num2Bits_bound(1) [OF assms(1) bits(4) _ rp] by simp_all
  have nn: "0 \<le> as_index ?a" "0 \<le> ss_maxCost w" "0 \<le> ss_deposit w" "0 \<le> as_refunds ?a" "0 \<le> ?n"
    using r by (simp_all add: reduced_def acc_reduced_def)
  from LessEqThan_value [OF assms(1) ok _ nn(1) s(2) nn(5) d(1)] have cov: "as_index ?a \<le> ?n" by (simp split: if_splits)
  have m: "fmul ?n (ss_maxCost w) = ?n * ss_maxCost w" "?n * ss_maxCost w < 2 ^ 160" "0 \<le> ?n * ss_maxCost w"
  proof -
    show b: "?n * ss_maxCost w < 2 ^ 160" using product_bound [OF nn(5) d(1) nn(2) d(3)] by simp
    show z: "0 \<le> ?n * ss_maxCost w" using nn by simp
    show "fmul ?n (ss_maxCost w) = ?n * ss_maxCost w" unfolding fmul_def using b z by (intro no_wrap) simp_all
  qed
  have a: "fadd (ss_deposit w) (as_refunds ?a) = ss_deposit w + as_refunds ?a"
    unfolding fadd_def using nn d(2) s(1) by (intro no_wrap) simp_all
  have "0 \<le> ss_deposit w + as_refunds ?a" "ss_deposit w + as_refunds ?a < 2 ^ 129" using nn d(2) s(1) by simp_all
  from small_difference [OF this m(3,2) d(4) [unfolded p m(1) a]]
  have "payout = ss_deposit w + as_refunds ?a - ?n * ss_maxCost w" "0 \<le> payout" by (simp_all add: p m(1) a)
  moreover have "n = ct_Poseidon lib [ct_Poseidon lib [ss_secretKey w, ?n]]"
    "y = (ss_secretKey w + ct_Poseidon lib [ss_secretKey w, ?n] * ss_signalX w) mod FIELD_MODULUS"
    using out by (auto simp: RlnSignal_def Let_def fadd_def fmul_def mod_add_right_eq)
  ultimately show ?thesis using k s(1,5) cov d(1) by blast
qed

text \<open>C12 An exit proof pays what the note is worth: when the circuit's constraints hold, the key is the note's,
  the accumulator is genesis or carries a checked signature, the claimed index \<open>n\<close> covers the accumulator's,
  the payout is the integer \<open>D + R - n * C_MAX\<close>, not negative, and the signal is the one of index \<open>n\<close>.\<close>

theorem settlement_circuit_sound:
  assumes "circomlib_law lib" "Settlement lib w = Some (n, y, payout)" "settlement_reduced w"
  shows "ct_Poseidon lib [ss_secretKey w] = ss_commitment w \<and> opened lib (ss_serverKey w) (ss_acc w) (ss_commitment w)
    \<and> as_index (ss_acc w) \<le> ss_claimedIndex w \<and> ss_claimedIndex w < 2 ^ 32 \<and> as_refunds (ss_acc w) < 2 ^ 128
    \<and> payout = ss_deposit w + as_refunds (ss_acc w) - ss_claimedIndex w * ss_maxCost w \<and> 0 \<le> payout
    \<and> n = ct_Poseidon lib [ct_Poseidon lib [ss_secretKey w, ss_claimedIndex w]]
    \<and> y = (ss_secretKey w + ct_Poseidon lib [ss_secretKey w, ss_claimedIndex w] * ss_signalX w) mod FIELD_MODULUS"
  using assms by (rule Settlement_value)

section \<open>A sample instance\<close>

fun bits_val :: "int list \<Rightarrow> int" where
  "bits_val [] = 0"
| "bits_val (b # bs) = b + 2 * bits_val bs"

lemma bits_of_Suc: "bits_of (Suc n) x = x mod 2 # bits_of n (x div 2)"
proof -
  have "x div 2 ^ Suc i mod 2 = x div 2 div 2 ^ i mod 2" for i by (simp add: zdiv_zmult2_eq)
  then have "map (\<lambda>i. x div 2 ^ i mod 2) (map Suc [0..<n]) = map (\<lambda>i. x div 2 div 2 ^ i mod 2) [0..<n]"
    unfolding map_map by (intro map_cong) (simp_all only: comp_def)
  moreover have "[0..<Suc n] = 0 # map Suc [0..<n]" by (simp add: map_Suc_upt upt_conv_Cons del: upt_Suc)
  ultimately show ?thesis by (simp add: bits_of_def del: upt_Suc)
qed

lemma bits_val_of: "0 \<le> x \<Longrightarrow> x < 2 ^ n \<Longrightarrow> bits_val (bits_of n x) = x"
proof (induction n arbitrary: x)
  case (Suc n)
  then have "0 \<le> x div 2" "x div 2 < 2 ^ n" by simp_all
  with Suc.IH show ?case by (simp add: bits_of_Suc)
qed (simp add: bits_of_def)

definition sample_circomlib :: circomlib where
  "sample_circomlib = \<lparr>ct_Poseidon = (\<lambda>_. 0), ct_Num2Bits = (\<lambda>n x. if x < 2 ^ n then Some (bits_of n x) else None),
     ct_Num2Bits_strict = (\<lambda>x. Some (bits_of 254 x)), ct_LessEqThan = (\<lambda>n a b. Some (if a \<le> b then 1 else 0)),
     ct_EscalarMulFix = (\<lambda>n base bs. Some (mulPoint base (bits_val bs))), ct_BabyAdd = (\<lambda>p q. Some (addPoints p q)),
     ct_EdDSAPoseidonVerifier = (\<lambda>enabled key r8 sg m. enabled = 0)\<rparr>"

lemma sample_circomlib_simps:
  "ct_Poseidon sample_circomlib xs = 0" "ct_Num2Bits sample_circomlib n x = (if x < 2 ^ n then Some (bits_of n x) else None)"
  "ct_LessEqThan sample_circomlib n a b = Some (if a \<le> b then 1 else 0)"
  by (simp_all add: sample_circomlib_def)

lemma sample_circomlib_law: "circomlib_law sample_circomlib"
  by (auto simp: circomlib_law_def num2bits_law_def num2bits_strict_law_def lesseq_law_def mulfix_law_def babyadd_law_def
      sample_circomlib_def bits_val_of split: if_splits)

definition sample_acc :: acc_signals where
  "sample_acc = \<lparr>as_isGenesis = 1, as_refunds = 0, as_index = 0, as_blinding = 0, as_R8 = (0, 1), as_S = 0\<rparr>"

definition sample_request_signals :: request_signals where
  "sample_request_signals = \<lparr>rs_secretKey = 7, rs_deposit = 100, rs_path = replicate 20 (0, 0), rs_acc = sample_acc, rs_rerandomizer = 0,
     rs_merkleRoot = 0, rs_maxCost = 10, rs_signalX = 5, rs_serverKey = (1, 2)\<rparr>"

definition sample_settlement_signals :: settlement_signals where
  "sample_settlement_signals = \<lparr>ss_secretKey = 7, ss_acc = sample_acc, ss_claimedIndex = 3, ss_commitment = 0, ss_deposit = 100,
     ss_maxCost = 10, ss_serverKey = (1, 2), ss_recipient = 4, ss_signalX = 6\<rparr>"

lemma IDENTITY_twice: "addPoints IDENTITY IDENTITY = IDENTITY"
  using addPoints_IDENTITY [of 0 1] by (simp add: IDENTITY_def)

lemma sample_signed: "SignedAccumulator sample_circomlib key sample_acc 0 = Some IDENTITY"
  by (simp add: SignedAccumulator_def AccumulatorCommitment_def FixedBaseMul_def FieldBaseMul_def sample_acc_def sample_circomlib_def
      fmul_def fsub_def bits_val_of opening_of_def IDENTITY_twice)

lemma sample_felts: "reduced 100" "reduced 10" "reduced 7" "reduced 3" "reduced 30" "reduced 70"
  by (simp_all add: reduced_def FIELD_MODULUS_def)

lemma sample_request_proof: "\<exists>y. Request sample_circomlib sample_request_signals = Some (0, y, IDENTITY)"
proof -
  let ?w = sample_request_signals
  have t: "tree_root sample_circomlib 0 (rs_path ?w) = Some 0"
    by (simp add: tree_root_def sample_request_signals_def sample_circomlib_def numeral_eq_Suc)
  have "Rerandomize sample_circomlib IDENTITY 0 = Some IDENTITY"
    by (simp add: Rerandomize_def FieldBaseMul_def sample_circomlib_def bits_val_of IDENTITY_twice)
  with t sample_signed [of "(1, 2)"] show ?thesis
    by (simp add: Request_def sample_request_signals_def RlnSignal_def sample_circomlib_simps Let_def)
      (simp add: sample_acc_def fmul_def fadd_def sample_felts)
qed

theorem request_circuit_sound_witness:
  "\<exists>y. Request sample_circomlib sample_request_signals = Some (0, y, IDENTITY) \<and> (0 + 1) * rs_maxCost sample_request_signals \<le> 100 + 0"
proof -
  let ?w = sample_request_signals
  from sample_request_proof obtain y where y: "Request sample_circomlib ?w = Some (0, y, IDENTITY)" by blast
  have "request_reduced ?w" by (simp add: request_reduced_def sample_request_signals_def acc_reduced_def sample_acc_def sample_felts)
  from request_circuit_sound [OF sample_circomlib_law y this] y show ?thesis
    by (auto simp: Let_def sample_request_signals_def sample_acc_def)
qed

theorem settlement_circuit_sound_witness:
  "\<exists>y. Settlement sample_circomlib sample_settlement_signals = Some (0, y, 70) \<and> (70 :: int) = 100 + 0 - 3 * 10"
proof -
  let ?w = sample_settlement_signals
  have "\<exists>y. Settlement sample_circomlib ?w = Some (0, y, 70)"
    using sample_signed [of "(1, 2)"]
    by (simp add: Settlement_def sample_settlement_signals_def RlnSignal_def sample_circomlib_simps Let_def)
      (simp add: sample_acc_def fmul_def fadd_def fsub_def sample_felts)
  then obtain y where y: "Settlement sample_circomlib ?w = Some (0, y, 70)" by blast
  have "settlement_reduced ?w" by (simp add: settlement_reduced_def sample_settlement_signals_def acc_reduced_def sample_acc_def sample_felts)
  from settlement_circuit_sound [OF sample_circomlib_law y this] y show ?thesis
    by (auto simp: sample_settlement_signals_def sample_acc_def)
qed

end
