(* ===== verification/NoteLife.thy ===== *)
theory NoteLife
  imports ClientFacts Circuits
begin

text \<open>
  The life of a note, from \<open>newNote\<close> through served requests to its exit, over the client
  (\<open>ClientNote\<close>), the service (\<open>Longjing\<close>) and the circuits (\<open>Circuits\<close>).

  \<open>prover_law\<close> is what snarkjs documents of \<open>fullProve\<close>: it succeeds only when the circuit's constraints
  hold for the inputs, taken modulo the field, and the public signals it returns are the circuit's outputs.
  From it follows the hypothesis \<open>circuit_law\<close> of \<open>ClientFacts\<close>.  A \<open>session\<close> is a sequence of requests that
  the client proved, the service served, and the client received.
\<close>

section \<open>The prover runs the circuits\<close>

definition felt :: "string \<Rightarrow> int res" where
  "felt t = bind (BigInt_of_string t) (\<lambda>n. Inr (n mod FIELD_MODULUS))"

fun felts :: "string list \<Rightarrow> int list res" where
  "felts [] = Inr []"
| "felts (t # ts) = bind (felt t) (\<lambda>x. bind (felts ts) (\<lambda>xs. Inr (x # xs)))"

definition acc_witness :: "accumulator_inputs \<Rightarrow> acc_signals res" where
  "acc_witness ai =
     bind (felt (ai_isGenesis ai)) (\<lambda>g. bind (felt (ai_refunds ai)) (\<lambda>r. bind (felt (ai_index ai)) (\<lambda>i.
     bind (felt (ai_blinding ai)) (\<lambda>b. bind (felt (ai_signatureR8x ai)) (\<lambda>x. bind (felt (ai_signatureR8y ai)) (\<lambda>y.
     bind (felt (ai_signatureS ai)) (\<lambda>s.
       Inr \<lparr>as_isGenesis = g, as_refunds = r, as_index = i, as_blinding = b, as_R8 = (x, y), as_S = s\<rparr>)))))))"

definition request_witness :: "request_inputs \<Rightarrow> request_signals res" where
  "request_witness inp =
     bind (felt (qi_secretKey inp)) (\<lambda>k. bind (felt (qi_deposit inp)) (\<lambda>d.
     bind (felts (qi_merklePathElements inp)) (\<lambda>es. bind (felts (qi_merklePathIndices inp)) (\<lambda>ds.
     bind (acc_witness (qi_accumulator inp)) (\<lambda>a. bind (felt (qi_rerandomizer inp)) (\<lambda>s.
     bind (felt (qi_merkleRoot inp)) (\<lambda>m. bind (felt (qi_maxCost inp)) (\<lambda>c. bind (felt (qi_signalX inp)) (\<lambda>x.
     bind (felt (fst (qi_serverPublicKey inp))) (\<lambda>kx. bind (felt (snd (qi_serverPublicKey inp))) (\<lambda>ky.
       Inr \<lparr>rs_secretKey = k, rs_deposit = d, rs_path = zip es ds, rs_acc = a, rs_rerandomizer = s, rs_merkleRoot = m,
            rs_maxCost = c, rs_signalX = x, rs_serverKey = (kx, ky)\<rparr>)))))))))))"

definition settlement_witness :: "settlement_inputs \<Rightarrow> settlement_signals res" where
  "settlement_witness inp =
     bind (felt (si_secretKey inp)) (\<lambda>k. bind (acc_witness (si_accumulator inp)) (\<lambda>a. bind (felt (si_claimedIndex inp)) (\<lambda>n.
     bind (felt (si_commitment inp)) (\<lambda>c. bind (felt (si_deposit inp)) (\<lambda>d. bind (felt (si_maxCost inp)) (\<lambda>m.
     bind (felt (fst (si_serverPublicKey inp))) (\<lambda>kx. bind (felt (snd (si_serverPublicKey inp))) (\<lambda>ky.
     bind (felt (si_recipient inp)) (\<lambda>r. bind (felt (si_signalX inp)) (\<lambda>x.
       Inr \<lparr>ss_secretKey = k, ss_acc = a, ss_claimedIndex = n, ss_commitment = c, ss_deposit = d, ss_maxCost = m,
            ss_serverKey = (kx, ky), ss_recipient = r, ss_signalX = x\<rparr>))))))))))"

definition prover_law :: "client_lib \<Rightarrow> circomlib \<Rightarrow> bool" where
  "prover_law lib cl \<longleftrightarrow>
     (\<forall>inp out. cl_proveRequest lib inp = Inr out \<longrightarrow> (\<exists>w n y X Y. request_witness inp = Inr w \<and> Request cl w = Some (n, y, (X, Y))
        \<and> qo_nullifier out = dec_of_int n \<and> qo_signalY out = dec_of_int y \<and> qo_accumulator out = (dec_of_int X, dec_of_int Y)))
   \<and> (\<forall>inp out. cl_proveSettlement lib inp = Inr out \<longrightarrow> (\<exists>w n y p. settlement_witness inp = Inr w \<and> Settlement cl w = Some (n, y, p)
        \<and> so_nullifier out = dec_of_int n \<and> so_signalY out = dec_of_int y \<and> so_payout out = dec_of_int p))"

text \<open>The client and the circuits use one Poseidon and one set of generators.\<close>

definition same_circuit :: "client_lib \<Rightarrow> circomlib \<Rightarrow> bool" where
  "same_circuit lib cl \<longleftrightarrow> circomlib_law cl \<and> prover_law lib cl \<and> cl_poseidon lib = ct_Poseidon cl \<and> cl_generators lib = circuit_generators"

lemma felt_reduced: "felt t = Inr x \<Longrightarrow> reduced x"
  by (auto simp: felt_def bind_eq_Inr)

lemma felt_value: "felt t = Inr x \<Longrightarrow> BigInt_of_string t = Inr n \<Longrightarrow> reduced n \<Longrightarrow> x = n"
  by (auto simp: felt_def)

lemma acc_witness_reduced: "acc_witness ai = Inr a \<Longrightarrow> acc_reduced a"
  by (auto simp: acc_witness_def bind_eq_Inr acc_reduced_def felt_reduced)

lemma acc_witness_value:
  "acc_witness ai = Inr a \<Longrightarrow> felt (ai_refunds ai) = Inr (as_refunds a) \<and> felt (ai_index ai) = Inr (as_index a)
    \<and> felt (ai_blinding ai) = Inr (as_blinding a)"
  by (auto simp: acc_witness_def bind_eq_Inr)

lemma request_witness_value:
  assumes "request_witness inp = Inr w"
  shows "request_reduced w" "felt (qi_secretKey inp) = Inr (rs_secretKey w)" "acc_witness (qi_accumulator inp) = Inr (rs_acc w)"
    "felt (qi_rerandomizer inp) = Inr (rs_rerandomizer w)" "felt (qi_maxCost inp) = Inr (rs_maxCost w)"
  using assms by (auto simp: request_witness_def bind_eq_Inr request_reduced_def felt_reduced acc_witness_reduced)

lemma settlement_witness_value:
  assumes "settlement_witness inp = Inr w"
  shows "settlement_reduced w" "felt (si_deposit inp) = Inr (ss_deposit w)" "acc_witness (si_accumulator inp) = Inr (ss_acc w)"
    "felt (si_claimedIndex inp) = Inr (ss_claimedIndex w)" "felt (si_maxCost inp) = Inr (ss_maxCost w)"
    "felt (si_secretKey inp) = Inr (ss_secretKey w)"
  using assms by (auto simp: settlement_witness_def bind_eq_Inr settlement_reduced_def felt_reduced acc_witness_reduced)

text \<open>What a proved request says of the note's numbers.\<close>

lemma proved_request:
  assumes "same_circuit lib cl" "cl_proveRequest lib inp = Inr out" "BigInt_of_string (qi_secretKey inp) = Inr k"
    "BigInt_of_string (ai_refunds (qi_accumulator inp)) = Inr r" "BigInt_of_string (ai_index (qi_accumulator inp)) = Inr i"
    "BigInt_of_string (ai_blinding (qi_accumulator inp)) = Inr b" "BigInt_of_string (qi_rerandomizer inp) = Inr s"
    "reduced k" "reduced r" "reduced i" "reduced b" "reduced s"
  shows "r < 2 ^ 128" "i < 2 ^ 32"
    "\<exists>X Y. qo_accumulator out = (dec_of_int X, dec_of_int Y) \<and> (X, Y) = rerandomize (cl_generators lib)
       (commit (cl_generators lib) \<lparr>refunds = r, index = i, commitment = cl_poseidon lib [k], blinding = b\<rparr>) s"
proof -
  have law: "circomlib_law cl" "prover_law lib cl" and same: "cl_poseidon lib = ct_Poseidon cl" "cl_generators lib = circuit_generators"
    using assms(1) by (simp_all add: same_circuit_def)
  from law(2) assms(2) obtain w n y X Y where w: "request_witness inp = Inr w" "Request cl w = Some (n, y, (X, Y))"
    "qo_accumulator out = (dec_of_int X, dec_of_int Y)" unfolding prover_law_def by blast
  note v = request_witness_value [OF w(1)] and a = acc_witness_value [OF request_witness_value(3) [OF w(1)]]
  have e: "rs_secretKey w = k" "as_refunds (rs_acc w) = r" "as_index (rs_acc w) = i" "as_blinding (rs_acc w) = b" "rs_rerandomizer w = s"
    using felt_value [OF v(2) assms(3,8)] felt_value [OF _ assms(4,9)] felt_value [OF _ assms(5,10)] felt_value [OF _ assms(6,11)]
      felt_value [OF v(4) assms(7,12)] a by blast+
  note c = Request_value [OF law(1) w(2) v(1), unfolded Let_def]
  from c show "r < 2 ^ 128" "i < 2 ^ 32" unfolding e by blast+
  from c w(3) show "\<exists>X Y. qo_accumulator out = (dec_of_int X, dec_of_int Y) \<and> (X, Y) = rerandomize (cl_generators lib)
       (commit (cl_generators lib) \<lparr>refunds = r, index = i, commitment = cl_poseidon lib [k], blinding = b\<rparr>) s"
    unfolding opening_of_def e same by blast
qed

lemma circuit_law_holds: "same_circuit lib cl \<Longrightarrow> circuit_law lib"
  unfolding circuit_law_def using proved_request(3) by (fastforce split: prod.split)

section \<open>Sessions\<close>

definition answer_of :: "longjing_response \<Rightarrow> request_answer" where
  "answer_of r = \<lparr>an_refund = rs_refund r, an_accumulator = rs_accumulator r\<rparr>"

text \<open>A step lists the service's context and the cost of one served request.\<close>

inductive session :: "client_lib \<Rightarrow> int \<Rightarrow> note_file \<Rightarrow> ('v ctx \<times> int) list \<Rightarrow> note_file \<Rightarrow> bool" for lib cMax note0 where
  Start: "session lib cMax note0 [] note0"
| Served: "session lib cMax note0 steps note \<Longrightarrow>
    proveRequest lib chain d1 d2 payload model note = Inr (body, note1) \<Longrightarrow>
    handleRequest cx (request_of body) w = (w', Inr r) \<Longrightarrow>
    parseFieldElement (bd_nullifier body) = Inr n \<Longrightarrow> ns_get (w_store w) (dec_of_int n) = None \<Longrightarrow>
    getCMax (w_chain w) = Inr cMax \<Longrightarrow> same_setup lib chain cx key \<Longrightarrow> ready_world cx key w \<Longrightarrow> eddsa_correct (cx_eddsa cx) \<Longrightarrow>
    receive lib chain note1 (answer_of r) = Inr note2 \<Longrightarrow> request_cost cx (request_of body) w cost \<Longrightarrow>
    session lib cMax note0 (steps @ [(cx, cost)]) note2"

text \<open>What comes back of \<open>C_MAX\<close> when a request cost so much.\<close>

definition refund_of :: "int \<Rightarrow> int \<Rightarrow> int" where
  "refund_of cMax cost = (if cost < cMax then cMax - cost else 0)"

text \<open>A note in a session: the sum of the refunds, the number of requests, nothing in flight.\<close>

definition note_after :: "string \<Rightarrow> int \<Rightarrow> int list \<Rightarrow> note_file \<Rightarrow> bool" where
  "note_after key cMax vs note \<longleftrightarrow> nf_secretKey note = key \<and> nf_pending note = None \<and> note_reduced note
     \<and> BigInt_of_string (of_refunds (nf_opening note)) = Inr (sum_list vs)
     \<and> BigInt_of_string (of_index (nf_opening note)) = Inr (int (length vs))
     \<and> (\<forall>v \<in> set vs. 0 \<le> v \<and> v \<le> cMax)"

lemma newNote_start: "note_after (nf_secretKey (newNote draw url contract)) cMax [] (newNote draw url contract)"
proof -
  have "BigInt_of_string ''0'' = Inr 0" by code_simp
  moreover have "reduced (randomBelow draw FIELD_MODULUS)" by (simp add: randomBelow_def)
  ultimately show ?thesis by (simp add: note_after_def note_reduced_def newNote_def)
qed

text \<open>The accumulator inputs the client proves with are the note's opening.\<close>

lemma proved_note_small:
  assumes "same_circuit lib cl" "proveRequest lib chain d1 d2 payload model note = Inr (body, note1)" "nf_pending note = None" "note_reduced note"
    "BigInt_of_string (of_refunds (nf_opening note)) = Inr r" "BigInt_of_string (of_index (nf_opening note)) = Inr i"
  shows "r < 2 ^ 128" "i < 2 ^ 32"
proof -
  obtain ct inp out s where p: "cl_proveRequest lib inp = Inr out" "qi_secretKey inp = nf_secretKey note"
    "qi_accumulator inp = accumulatorInputs note" "qi_rerandomizer inp = dec_of_int s" "reduced s"
    using assms(2,3) by (rule proveRequest_fresh)
  obtain k r' i' b where n: "BigInt_of_string (nf_secretKey note) = Inr k" "BigInt_of_string (of_refunds (nf_opening note)) = Inr r'"
    "BigInt_of_string (of_index (nf_opening note)) = Inr i'" "BigInt_of_string (of_blinding (nf_opening note)) = Inr b"
    "reduced k" "reduced r'" "reduced i'" "reduced b" using assms(4) unfolding note_reduced_def by blast
  have "r' = r" "i' = i" using n assms(5,6) by simp_all
  with proved_request(1,2) [OF assms(1) p(1), of k r i b s] n p show "r < 2 ^ 128" "i < 2 ^ 32" by (simp_all add: accumulatorInputs_def)
qed

lemma reduced_small: "0 \<le> x \<Longrightarrow> x < 2 ^ 253 \<Longrightarrow> reduced x"
  using field_gt_bits(1) by (simp add: reduced_def)

lemma reduced_blinding: "reduced b \<Longrightarrow> reduced s \<Longrightarrow> reduced (js_rem (b + s) SUBGROUP_ORDER)"
proof -
  assume "reduced b" "reduced s"
  moreover have l: "0 < SUBGROUP_ORDER" "SUBGROUP_ORDER < FIELD_MODULUS" by (simp_all add: SUBGROUP_ORDER_def FIELD_MODULUS_def)
  ultimately have "js_rem (b + s) SUBGROUP_ORDER = (b + s) mod SUBGROUP_ORDER" by (simp add: reduced_def)
  then show ?thesis using l unfolding reduced_def by (metis pos_mod_bound pos_mod_sign less_trans)
qed

lemma session_state:
  assumes "session lib cMax note0 steps note" "same_circuit lib cl" "note_after key cMax [] note0" "0 \<le> cMax" "cMax < 2 ^ 128"
  shows "note_after key cMax (map (refund_of cMax \<circ> snd) steps) note \<and> (\<forall>(cx, cost) \<in> set steps. 0 \<le> cost)"
  using assms(1)
proof (induction rule: session.induct)
  case Start
  show ?case using assms(3) by simp
next
  case (Served steps nt chain d1 d2 payload model body note1 cx w w' r n ky note2 cost)
  define vs where "vs = map (refund_of cMax \<circ> snd) steps"
  from Served.IH have IH: "note_after key cMax vs nt" "\<forall>(cx, cost) \<in> set steps. 0 \<le> cost" unfolding vs_def by blast+
  from IH(1) have nt: "nf_secretKey nt = key" "nf_pending nt = None" "note_reduced nt"
    "BigInt_of_string (of_refunds (nf_opening nt)) = Inr (sum_list vs)" "BigInt_of_string (of_index (nf_opening nt)) = Inr (int (length vs))"
    "\<forall>v \<in> set vs. 0 \<le> v \<and> v \<le> cMax" by (simp_all add: note_after_def)
  obtain k b where kb: "BigInt_of_string (nf_secretKey nt) = Inr k" "BigInt_of_string (of_blinding (nf_opening nt)) = Inr b"
    "reduced k" "reduced b" "reduced (sum_list vs)" using nt(3-5) by (auto simp: note_reduced_def)
  let ?op = "\<lparr>refunds = sum_list vs, index = int (length vs), commitment = 0, blinding = b\<rparr>"
  have op: "openingOf nt 0 = Inr ?op" using nt(4,5) kb(2) by (simp add: openingOf_def)
  note small = proved_note_small [OF assms(2) Served.hyps(2) nt(2,3,4,5)]
  from served_note_step [OF Served.hyps(2) nt(2) op circuit_law_holds [OF assms(2)] Served.hyps(7,3,4,5,6) assms(4) Served.hyps(8,9) nt(3)]
  obtain v' s where a: "rs_refund r = dec_of_int v'" "0 \<le> v'" "v' \<le> cMax" "of_refunds (nf_opening note2) = dec_of_int (sum_list vs + v')"
    "of_index (nf_opening note2) = dec_of_int (int (length vs) + 1)" "nf_pending note2 = None" "nf_secretKey note2 = nf_secretKey nt"
    "reduced s" "of_blinding (nf_opening note2) = dec_of_int (js_rem (b + s) SUBGROUP_ORDER)"
    using Served.hyps(10) by (auto simp: answer_of_def)
  have "parseFieldElement (rq_nullifier (request_of body)) = Inr n" using Served.hyps(4) by (simp add: request_of_def)
  from Served.hyps(3) this Served.hyps(5,6,8) obtain cost' where "request_cost cx (request_of body) w cost'" and c0: "0 \<le> cost'"
    and v: "rs_refund r = dec_of_int (if cost' < cMax then cMax - cost' else 0)" by (rule served_cost)
  then have "cost' = cost" using request_cost_unique Served.hyps(11) by blast
  with v c0 have cost: "0 \<le> cost" "rs_refund r = dec_of_int (refund_of cMax cost)" by (simp_all add: refund_of_def)
  have "v' = refund_of cMax cost" using a(1) cost(2) by (metis BigInt_of_string_dec sum.inject(2))
  moreover have "0 \<le> sum_list vs" using kb(5) by (simp add: reduced_def)
  then have "reduced (sum_list vs + v')" "reduced (int (length vs) + 1)" using small a(2,3) assms(5) by (auto intro!: reduced_small)
  moreover note reduced_blinding [OF kb(4) a(8)]
  ultimately show ?case using a nt kb cost(1) IH(2) unfolding map_append vs_def [symmetric] by (simp add: note_after_def note_reduced_def add.commute)
qed

lemmas session_note = session_state [THEN conjunct1] session_state [THEN conjunct2]

section \<open>The exit\<close>

lemma spent_sum: "(\<Sum>v\<leftarrow>vs. c - v) = int (length vs) * c - sum_list vs" for c :: int
  by (induction vs) (simp_all add: algebra_simps)

lemma spent_nonneg: "\<forall>v \<in> set vs. 0 \<le> v \<and> v \<le> c \<Longrightarrow> 0 \<le> (\<Sum>v\<leftarrow>vs. c - v)" for c :: int
  by (induction vs) auto

lemma proved_exit:
  assumes "same_circuit lib cl" "proveWithdrawal lib chain recipient None note = Inr args" "note_after key cMax vs note"
    "nc_cMax chain = Inr cMax" "0 \<le> cMax" "cMax < 2 ^ 128"
    "nc_getNote chain (wa_commitment args) = Inr oc" "0 \<le> oc_amount oc" "oc_amount oc < 2 ^ 128"
  obtains p where "wa_payout args = dec_of_int p" "0 \<le> p" "p = oc_amount oc + sum_list vs - int (length vs) * cMax"
proof -
  have law: "circomlib_law cl" "prover_law lib cl" using assms(1) by (simp_all add: same_circuit_def)
  have nt: "nf_pending note = None" "BigInt_of_string (of_refunds (nf_opening note)) = Inr (sum_list vs)"
    "BigInt_of_string (of_index (nf_opening note)) = Inr (int (length vs))" "note_reduced note" using assms(3) by (simp_all add: note_after_def)
  then have red: "reduced (sum_list vs)" "reduced (int (length vs))" by (auto simp: note_reduced_def)
  from assms(2,4,7) nt(1,3) obtain inp out where u: "cl_proveSettlement lib inp = Inr out" "wa_payout args = so_payout out"
    "si_accumulator inp = accumulatorInputs note" "si_claimedIndex inp = dec_of_int (int (length vs))"
    "si_deposit inp = dec_of_int (oc_amount oc)" "si_maxCost inp = dec_of_int cMax"
    by (auto simp: proveWithdrawal_def onchainNote_def bind_eq_Inr Let_def split: if_splits option.splits)
  from law(2) u(1) obtain w n y p where w: "settlement_witness inp = Inr w" "Settlement cl w = Some (n, y, p)" "so_payout out = dec_of_int p"
    unfolding prover_law_def by blast
  note v = settlement_witness_value [OF w(1)] and a = acc_witness_value [OF settlement_witness_value(3) [OF w(1)], unfolded u(3) accumulatorInputs_def]
  have "reduced (oc_amount oc)" "reduced cMax" using assms(5,6,8,9) by (auto intro!: reduced_small)
  then have e: "ss_deposit w = oc_amount oc" "ss_maxCost w = cMax" "ss_claimedIndex w = int (length vs)" "as_refunds (ss_acc w) = sum_list vs"
    using v(2,4,5) a nt red felt_value by (simp_all add: u felt_def)
  from Settlement_value [OF law(1) w(2) v(1)] have "p = oc_amount oc + sum_list vs - int (length vs) * cMax" "0 \<le> p" unfolding e by blast+
  with u(2) w(3) that show thesis by simp
qed

lemma refund_spends: "0 \<le> cost \<Longrightarrow> c - refund_of c cost = min cost c"
  by (simp add: refund_of_def)

text \<open>C6 An exit pays the balance: for a note made by \<open>newNote\<close>, after any number of served requests, the
  payout of the exit the client proves is the deposit minus what the requests cost, each counted up to
  \<open>C_MAX\<close>, and it lies between zero and the deposit, so the contract accepts it.  The cost of a request is
  that of the tokens the provider reported, at the prices of the model asked for and the rate of the oracle.\<close>

theorem exit_pays_the_balance:
  assumes "same_circuit lib cl" "session lib cMax (newNote draw url contract) steps note" "0 \<le> cMax" "cMax < 2 ^ 128"
    "proveWithdrawal lib chain recipient None note = Inr args" "nc_cMax chain = Inr cMax"
    "nc_getNote chain (wa_commitment args) = Inr oc" "0 \<le> oc_amount oc" "oc_amount oc < 2 ^ 128"
  shows "\<exists>p. wa_payout args = dec_of_int p \<and> p = oc_amount oc - (\<Sum>(cx, cost)\<leftarrow>steps. min cost cMax)
    \<and> 0 \<le> p \<and> p \<le> oc_amount oc \<and> (\<forall>(cx, cost) \<in> set steps. 0 \<le> cost)"
proof -
  let ?vs = "map (refund_of cMax \<circ> snd) steps"
  note s = session_note [OF assms(2,1) newNote_start assms(3,4)]
  obtain p where p: "wa_payout args = dec_of_int p" "0 \<le> p" "p = oc_amount oc + sum_list ?vs - int (length ?vs) * cMax"
    using assms(1,5) s(1) assms(6,3,4,7-9) by (rule proved_exit)
  have "(\<Sum>(cx, cost)\<leftarrow>steps. min cost cMax) = (\<Sum>v\<leftarrow>?vs. cMax - v)"
    using s(2) by (induction steps) (auto simp: refund_spends)
  with p spent_sum [of cMax ?vs] spent_nonneg [of ?vs cMax] s show ?thesis by (auto simp: note_after_def)
qed

section \<open>A sample life\<close>

text \<open>A prover that runs both circuits.  The circuit library is the sample one, whose signature verifier accepts
  the one signature the toy signer makes; the service and the client use its Poseidon and the generators of
  the circuits.\<close>

definition run_request :: "circomlib \<Rightarrow> request_inputs \<Rightarrow> request_outputs res" where
  "run_request cl inp = bind (request_witness inp) (\<lambda>w. case Request cl w of
     None \<Rightarrow> Inl (Error ''Assert Failed'')
   | Some (n, y, (X, Y)) \<Rightarrow> Inr \<lparr>qo_proof = qo_proof sample_outputs, qo_nullifier = dec_of_int n, qo_signalY = dec_of_int y,
       qo_accumulator = (dec_of_int X, dec_of_int Y)\<rparr>)"

definition run_settlement :: "circomlib \<Rightarrow> settlement_inputs \<Rightarrow> settlement_outputs res" where
  "run_settlement cl inp = bind (settlement_witness inp) (\<lambda>w. case Settlement cl w of
     None \<Rightarrow> Inl (Error ''Assert Failed'')
   | Some (n, y, p) \<Rightarrow> Inr \<lparr>so_a = [], so_b = [], so_c = [], so_nullifier = dec_of_int n, so_signalY = dec_of_int y, so_payout = dec_of_int p\<rparr>)"

definition life_circomlib :: circomlib where
  "life_circomlib = sample_circomlib\<lparr>ct_EdDSAPoseidonVerifier :=
     \<lambda>enabled key r8 sg m. enabled = 0 \<or> key = (3, 4) \<and> r8 = (1, 2) \<and> sg = 5\<rparr>"

definition life_eddsa :: eddsa_lib where
  "life_eddsa = toy_eddsa\<lparr>poseidon2 := \<lambda>_. 0\<rparr>"

definition life_prover :: client_lib where
  "life_prover = \<lparr>cl_poseidon = (\<lambda>_. 0), cl_sha256_utf8 = (\<lambda>_. [7]), cl_eddsa = life_eddsa, cl_generators = circuit_generators,
     cl_proveRequest = run_request life_circomlib, cl_proveSettlement = run_settlement life_circomlib, cl_getAddress = Inr\<rparr>"

definition life_deposit :: int where
  "life_deposit = 2 ^ 85"

definition life_chain :: note_chain where
  "life_chain = \<lparr>nc_getNote = (\<lambda>_. Inr \<lparr>oc_amount = life_deposit, oc_leafIndex = 0, oc_status = 1\<rparr>),
     nc_getMerkleProof = (\<lambda>_. Inr (replicate 20 ''0'', replicate 20 0)), nc_merkleRoot = Inr ''0'', nc_cMax = Inr sample_cMax,
     nc_serverPublicKey = Inr (hex64 3, hex64 4), nc_withdrawalSignalX = (\<lambda>_. Inr 6)\<rparr>"

definition life_ctx :: "nat ctx" where
  "life_ctx = sample_ctx\<lparr>cx_poseidon := (\<lambda>_. 0), cx_eddsa := life_eddsa, cx_generators := circuit_generators\<rparr>"

definition life_note :: note_file where
  "life_note = newNote [7] ''http://localhost'' ''0xc''"

definition life_body :: request_body where
  "life_body = \<lparr>bd_payload = [104, 105], bd_nonce = dec_of_int 5, bd_nullifier = dec_of_int 0, bd_signal = (dec_of_int 0, dec_of_int 7),
     bd_proof = wire_text (qo_proof sample_outputs), bd_merkleRoot = dec_of_int 0, bd_accumulator = (dec_of_int 0, dec_of_int 1),
     bd_model = Some ''claude-haiku-4-5''\<rparr>"

lemma life_circomlib_simps:
  "ct_Poseidon life_circomlib xs = 0" "ct_Num2Bits life_circomlib n x = (if x < 2 ^ n then Some (bits_of n x) else None)"
  "ct_LessEqThan life_circomlib n a b = Some (if a \<le> b then 1 else 0)" "ct_Num2Bits_strict life_circomlib x = Some (bits_of 254 x)"
  "ct_EscalarMulFix life_circomlib n base bs = Some (mulPoint base (bits_val bs))" "ct_BabyAdd life_circomlib p q = Some (addPoints p q)"
  "ct_EdDSAPoseidonVerifier life_circomlib enabled key r8 sg m \<longleftrightarrow> enabled = 0 \<or> key = (3, 4) \<and> r8 = (1, 2) \<and> sg = 5"
  by (simp_all add: life_circomlib_def sample_circomlib_def)

lemma life_circomlib_law: "circomlib_law life_circomlib"
  using sample_circomlib_law
  by (simp add: life_circomlib_def circomlib_law_def num2bits_law_def num2bits_strict_law_def lesseq_law_def mulfix_law_def babyadd_law_def)

lemma life_same_circuit: "same_circuit life_prover life_circomlib"
  by (auto simp: same_circuit_def life_circomlib_law prover_law_def life_prover_def run_settlement_def run_request_def bind_eq_Inr
      life_circomlib_simps fun_eq_iff split: option.splits)

lemma life_texts:
  "BigInt_of_string ''0'' = Inr 0" "BigInt_of_string ''1'' = Inr 1" "BigInt_of_string ''4'' = Inr 4" "randomBelow [7] FIELD_MODULUS = 7"
  "randomBelow [5] FIELD_MODULUS = 5" "randomBelow [0] SUBGROUP_ORDER = 0" "dec_of_int 0 = ''0''"
  by code_simp+

lemma life_felt: "reduced n \<Longrightarrow> felt (dec_of_int n) = Inr n"
  by (simp add: felt_def)

lemma life_reduced: "reduced 0" "reduced 1" "reduced 2" "reduced 3" "reduced 4" "reduced 5" "reduced 6" "reduced 7"
  "reduced life_deposit" "reduced sample_cMax"
  by (simp_all add: reduced_def FIELD_MODULUS_def sample_cMax_def life_deposit_def)

lemma life_server: "serverKey life_chain = Inr (dec_of_int 3, dec_of_int 4)"
  by (simp add: life_chain_def serverKey_def BigInt_hex64)

lemma life_onchain: "nf_secretKey note = dec_of_int 7 \<Longrightarrow> onchainNote life_prover life_chain note = Inr (hex64 0, life_deposit, 0)"
  by (simp add: onchainNote_def commitmentOf_def toBeHex32_def life_prover_def life_chain_def)

lemma felts_zeros: "felts (replicate n ''0'') = Inr (replicate n 0)"
  by (induction n) (simp_all add: felt_def life_texts)

lemma dec_texts_zeros: "dec_texts (replicate n ''0'') = Inr (replicate n ''0'')"
  by (induction n) (simp_all add: dec_text_def life_texts)

text \<open>The request circuit on the new note.\<close>

lemma life_request_circuit:
  "Request life_circomlib \<lparr>rs_secretKey = 7, rs_deposit = life_deposit, rs_path = replicate 20 (0, 0), rs_acc = sample_acc, rs_rerandomizer = 0,
     rs_merkleRoot = 0, rs_maxCost = sample_cMax, rs_signalX = 0, rs_serverKey = (3, 4)\<rparr> = Some (0, 7, (0, 1))"
proof -
  have t: "tree_root life_circomlib 0 (replicate 20 (0, 0)) = Some 0"
    by (simp add: tree_root_def life_circomlib_simps numeral_eq_Suc)
  have "SignedAccumulator life_circomlib key sample_acc 0 = Some IDENTITY" for key
    by (simp add: SignedAccumulator_def AccumulatorCommitment_def FixedBaseMul_def FieldBaseMul_def sample_acc_def life_circomlib_simps
      fmul_def fsub_def bits_val_of opening_of_def IDENTITY_twice)
  moreover have "Rerandomize life_circomlib IDENTITY 0 = Some IDENTITY"
    by (simp add: Rerandomize_def FieldBaseMul_def life_circomlib_simps bits_val_of IDENTITY_twice)
  ultimately show ?thesis using t
    by (simp add: Request_def RlnSignal_def life_circomlib_simps Let_def)
      (simp add: sample_acc_def fmul_def fadd_def sample_cMax_def life_deposit_def IDENTITY_def FIELD_MODULUS_def)
qed

lemma life_proved:
  "proveRequest life_prover life_chain [5] [0] [104, 105] (Some ''claude-haiku-4-5'') life_note =
     Inr (life_body, life_note\<lparr>nf_pending := Some \<lparr>pd_rerandomizer = dec_of_int 0, pd_body = life_body\<rparr>\<rparr>)"
proof -
  have sel: "nf_secretKey life_note = dec_of_int 7" "nf_pending life_note = None" by (simp_all add: life_note_def newNote_def life_texts)
  have acc: "acc_witness (accumulatorInputs life_note) = Inr sample_acc"
    by (simp add: acc_witness_def accumulatorInputs_def life_note_def newNote_def felt_def life_texts sample_acc_def)
  have sx: "payloadSignalX (\<lambda>_. [7]) (\<lambda>_. 0) p n = 0" for p n by (simp add: payloadSignalX_def)
  have lib: "cl_sha256_utf8 life_prover = (\<lambda>_. [7])" "cl_poseidon life_prover = (\<lambda>_. 0)" "cl_proveRequest life_prover = run_request life_circomlib"
    by (simp_all add: life_prover_def)
  have ch: "nc_getMerkleProof life_chain x = Inr (replicate 20 ''0'', replicate 20 0)" "nc_merkleRoot life_chain = Inr ''0''"
    "nc_cMax life_chain = Inr sample_cMax" for x by (simp_all add: life_chain_def)
  let ?inp = "\<lparr>qi_secretKey = dec_of_int 7, qi_deposit = dec_of_int life_deposit, qi_merklePathElements = replicate 20 ''0'',
    qi_merklePathIndices = map dec_of_int (replicate 20 0), qi_accumulator = accumulatorInputs life_note, qi_rerandomizer = dec_of_int 0,
    qi_merkleRoot = dec_of_int 0, qi_maxCost = dec_of_int sample_cMax, qi_signalX = dec_of_int 0,
    qi_serverPublicKey = (dec_of_int 3, dec_of_int 4)\<rparr>"
  have z: "map dec_of_int (replicate 20 0) = replicate 20 ''0''" by (simp only: map_replicate life_texts)
  have "request_witness ?inp = Inr \<lparr>rs_secretKey = 7, rs_deposit = life_deposit, rs_path = replicate 20 (0, 0), rs_acc = sample_acc, rs_rerandomizer = 0,
     rs_merkleRoot = 0, rs_maxCost = sample_cMax, rs_signalX = 0, rs_serverKey = (3, 4)\<rparr>"
    unfolding request_witness_def z by (simp add: life_felt life_reduced felts_zeros acc zip_replicate)
  then have r: "run_request life_circomlib ?inp = Inr \<lparr>qo_proof = qo_proof sample_outputs, qo_nullifier = dec_of_int 0, qo_signalY = dec_of_int 7,
       qo_accumulator = (dec_of_int 0, dec_of_int 1)\<rparr>"
    by (simp add: run_request_def life_request_circuit)
  have d: "dec_text ''0'' = Inr (dec_of_int 0)" by (simp add: dec_text_def life_texts)
  show ?thesis
    unfolding proveRequest_def sel option.case life_onchain [OF sel(1)] ch life_server lib life_texts(5,6)
    using r by (simp add: sx Let_def dec_texts_zeros d life_body_def)
qed

text \<open>The service verifies the request and serves it.\<close>

lemma life_request:
  "rq_model (request_of life_body) = Some ''claude-haiku-4-5''" "rq_nullifier (request_of life_body) = dec_of_int 0"
  "rq_payload (request_of life_body) = [104, 105]" "rq_nonce (request_of life_body) = dec_of_int 5"
  "rq_signal (request_of life_body) = \<lparr>dto_x = dec_of_int 0, dto_y = dec_of_int 7\<rparr>"
  "rq_accumulator (request_of life_body) = \<lparr>dto_x = dec_of_int 0, dto_y = dec_of_int 1\<rparr>"
  "rq_merkleRoot (request_of life_body) = dec_of_int 0" "rq_proof (request_of life_body) = wire_text (qo_proof sample_outputs)"
  by (simp_all add: request_of_def life_body_def)

lemma life_context:
  "cx_now_attempt life_ctx = 1000" "cx_sha256_utf8 life_ctx = (\<lambda>_. [7])" "cx_poseidon life_ctx = (\<lambda>_. 0)" "cx_rate_before life_ctx = sample_call 1000"
  "cx_rate_after life_ctx = sample_call 2000" "cx_eddsa life_ctx = life_eddsa" "cx_snark life_ctx = sample_snark" "cx_reads life_ctx = sample_reads"
  "cx_env life_ctx = [(''NODE_ENV'', ''test'')]" "cx_generators life_ctx = circuit_generators" "cx_mock_random life_ctx = 7"
  by (simp_all add: life_ctx_def sample_ctx_def)

lemma life_world:
  "w_chain sample_world = sample_chain" "w_signer sample_world = sample_signer" "w_verifier sample_world = sample_verifier"
  "w_oracle sample_world = sample_oracle" "w_store sample_world = ns_init" "w_calls sample_world = []"
  by (simp_all add: sample_world_def)

lemma life_ready: "rs_ready life_eddsa [1] sample_signer"
  by (simp add: rs_ready_def sample_signer_def life_eddsa_def toy_eddsa_def)

lemma life_key: "getPublicKey life_eddsa s e d sample_signer = (sample_signer, Inr (hex64 3, hex64 4))"
  using ensureInitialized_ready [OF life_ready] by (simp add: getPublicKey_def sample_signer_def)

lemma life_verified:
  obtains pv where "verify_request sample_snark sample_reads [(''NODE_ENV'', ''test'')] sample_chain (Inr (hex64 3, hex64 4))
     (rq_proof (request_of life_body)) (request_inputs (request_of life_body) sample_cMax) sample_verifier = (pv, Inr True)"
proof -
  obtain sg where sg: "public_signals (request_inputs (request_of life_body) sample_cMax) (hex64 3, hex64 4) = Inr sg"
    by (simp add: public_signals_def request_inputs_def life_request toBigInt_dec toBigInt_hex64)
  obtain p where p: "to_snarkjs sample_proof = Inr p"
    using sample_structure(2) by (cases "to_snarkjs sample_proof") auto
  have known: "verifier_isKnownRoot sample_reads e sample_chain (pi_merkleRoot (request_inputs (request_of life_body) sample_cMax)) = Inr (Some True)" for e
    by (simp add: verifier_isKnownRoot_def isAvailable_def isKnownRoot_def connected_def request_inputs_def life_request sample_reads_def sample_chain_def)
  have len: "\<not> length (rq_proof (request_of life_body)) < 10" unfolding life_request by code_simp
  have lib: "json_parse sample_snark pr = Inr sample_proof" "groth16_verify sample_snark k ss q = Inr True" for pr k ss q
    by (simp_all add: sample_snark_def)
  have "\<exists>pv. verify_request sample_snark sample_reads [(''NODE_ENV'', ''test'')] sample_chain (Inr (hex64 3, hex64 4))
     (rq_proof (request_of life_body)) (request_inputs (request_of life_body) sample_cMax) sample_verifier = (pv, Inr True)"
    using known len
    by (simp add: verify_request_def sample_signal(8) snark_isAvailable_def lib sample_structure(1) sample_verifier_def Let_def
        run_task_def run_enter_def run_exit_def verifyAgainstChainAndCircuit_def sg verifyProof_def p)
  then show thesis using that by blast
qed

definition life_admission :: admission where
  "life_admission = \<lparr>ad_model = ''claude-haiku-4-5'', ad_nullifier = dec_of_int 0, ad_cMax = sample_cMax\<rparr>"

lemma life_checked:
  obtains pv st where "check_request life_ctx (request_of life_body) sample_world =
     (sample_world\<lparr>w_store := st, w_oracle := sample_oracle\<lparr>eo_cache := Some (Fin 2000, 1000)\<rparr>, w_verifier := pv\<rparr>, Inr life_admission)"
    "ns_table st = []"
proof -
  have m: "isClaudeModel ''claude-haiku-4-5''" by code_simp
  obtain st :: "kept nullifier_store" where st: "checkRateLimit 1000 (dec_of_int 0) ns_init = (st, True)"
    by (auto simp: checkRateLimit_def Let_def attempts_of_def ns_init_def recent_def RATE_LIMIT_MAX_ATTEMPTS_def)
  let ?w = "sample_world\<lparr>w_store := st\<rparr>" and ?eo = "sample_oracle\<lparr>eo_cache := Some (Fin 2000, 1000)\<rparr>"
  have o: "getEthUsdRate (sample_call 1000) (w_oracle ?w) = (?eo, Inr (Fin 2000))" using sample_rates(1) by (simp add: life_world)
  obtain worst where worst: "calculateCostInETH (sample_call 1000) (byteLength [104, 105] + MESSAGE_OVERHEAD_TOKENS)
      MAX_OUTPUT_TOKENS ''claude-haiku-4-5'' ?w = (?w\<lparr>w_oracle := ?eo\<rparr>, Inr worst)" "worst \<le> 2 ^ 84"
    by (rule sample_cost [of "byteLength [104, 105] + MESSAGE_OVERHEAD_TOKENS" MAX_OUTPUT_TOKENS "sample_call 1000" ?w, OF _ _ o])
      (simp_all add: MESSAGE_OVERHEAD_TOKENS_def MAX_OUTPUT_TOKENS_def unit_bytes_def high_surrogate_def)
  have le: "\<not> worst > sample_cMax" using worst(2) by (simp add: sample_cMax_def)
  obtain pv where pv: "verify_request sample_snark sample_reads [(''NODE_ENV'', ''test'')] sample_chain (Inr (hex64 3, hex64 4))
     (rq_proof (request_of life_body)) (request_inputs (request_of life_body) sample_cMax) sample_verifier = (pv, Inr True)"
    by (rule life_verified)
  have cM: "getCMax sample_chain = Inr sample_cMax" by (simp add: getCMax_def connected_def sample_chain_def)
  have s: "signalXMatchesRequest (\<lambda>_. [7]) (\<lambda>_. 0) (dec_of_int 0) [104, 105] (dec_of_int 5)"
    by (simp add: signalXMatchesRequest_def parseFieldElement_dec payloadSignalX_def BN254_SCALAR_FIELD_def)
  let ?w1 = "sample_world\<lparr>w_store := st, w_oracle := ?eo, w_verifier := pv\<rparr>"
  have "check_request life_ctx (request_of life_body) sample_world = (?w1\<lparr>w_signer := sample_signer\<rparr>, Inr life_admission)"
    using st worst(1) le pv [unfolded request_inputs_def] s
    by (simp add: check_request_def Let_def sbind_def zoom_def total_def m parseFieldElement_dec cM life_key worstCaseCostInETH_def
        service_cMax_def life_context life_request life_admission_def life_world)
  moreover have "?w1\<lparr>w_signer := sample_signer\<rparr> = ?w1" by (rule world.equality) (simp_all add: life_world)
  ultimately have "check_request life_ctx (request_of life_body) sample_world = (?w1, Inr life_admission)" by simp
  moreover have "ns_table st = []" using checkRateLimit_ledger [OF st] by (simp add: ns_init_def)
  ultimately show thesis by (rule that)
qed

lemma life_served:
  obtains w' r where "handleRequest life_ctx (request_of life_body) sample_world = (w', Inr r)"
    "acc_signature (rs_accumulator r) = \<lparr>R8x = hex64 1, R8y = hex64 2, sigS = hex64 5\<rparr>"
proof -
  obtain pv st where c: "check_request life_ctx (request_of life_body) sample_world =
     (sample_world\<lparr>w_store := st, w_oracle := sample_oracle\<lparr>eo_cache := Some (Fin 2000, 1000)\<rparr>, w_verifier := pv\<rparr>, Inr life_admission)"
    and st: "ns_table st = []" by (rule life_checked)
  let ?w = "sample_world\<lparr>w_store := st, w_oracle := sample_oracle\<lparr>eo_cache := Some (Fin 2000, 1000)\<rparr>, w_verifier := pv\<rparr>"
  let ?sg = "\<lparr>st_x = dec_of_int 0, st_y = dec_of_int 7\<rparr>" and ?n = "dec_of_int 0"
  have ad: "ad_nullifier life_admission = ?n" "ad_model life_admission = ''claude-haiku-4-5''"
    by (simp_all add: life_admission_def)
  have rec: "record_signal life_ctx (request_of life_body) ?n ?w = (?w\<lparr>w_store := fst (checkAndSet ?n ?sg st)\<rparr>, Inr (Fresh ?sg))"
    using st record_signal_run [of "request_of life_body" 0 7 life_ctx]
    by (simp add: life_request parseFieldElement_dec ns_get_def Let_def)
  obtain usage where u: "usage_of ''claude-haiku-4-5'' 1 107 = Inr usage"
    "us_internalInputTokens usage = 1" "us_internalOutputTokens usage = 107"
    by (rule usd_bounded [of 1 107]) (auto simp: usage_of_def Let_def)
  obtain content where ex: "executeClaudeRequest life_ctx [104, 105] ''claude-haiku-4-5'' = Inr (content, usage)"
    using u(1) by (simp add: executeClaudeRequest_def mockClaudeRequest_def life_context is_set_def jm_get_Cons)
  let ?w2 = "?w\<lparr>w_store := fst (checkAndSet ?n ?sg st), w_calls := [?n]\<rparr>"
  let ?w3 = "?w2\<lparr>w_oracle := sample_oracle\<lparr>eo_cache := Some (Fin 2000, 1000)\<rparr>\<rparr>"
  obtain cost where cost: "calculateCostInETH (cx_rate_after life_ctx) 1 107 ''claude-haiku-4-5'' ?w2 = (?w3, Inr cost)"
    by (rule sample_cost [of 1 107 "cx_rate_after life_ctx" ?w2]) (simp_all add: life_context sample_rates)
  have "rs_ready (cx_eddsa life_ctx) [1] (w_signer ?w3)" using life_ready by (simp add: life_context life_world)
  define v where "v = (if cost < ad_cMax life_admission then ad_cMax life_admission - cost else 0)"
  from next_accumulator_ready [OF \<open>rs_ready (cx_eddsa life_ctx) [1] (w_signer ?w3)\<close>]
  obtain acc where nx: "next_accumulator life_ctx (0, 1) v ?w3 = (?w3, Inr acc)"
    and sg: "acc_signature acc = \<lparr>R8x = hex64 1, R8y = hex64 2, sigS = hex64 5\<rparr>"
    by (simp add: sign_def life_context life_eddsa_def toy_eddsa_def)
  have "\<exists>r. serve life_ctx (request_of life_body) life_admission ?sg (?w\<lparr>w_store := fst (checkAndSet ?n ?sg st)\<rparr>)
      = (?w3\<lparr>w_store := rememberResponse (cx_now_remember life_ctx) ?n ?sg (Kept_response r) (w_store ?w3)\<rparr>, Inr r) \<and> rs_accumulator r = acc"
    using ex cost nx
    by (simp add: serve_def settle_def sbind_def Let_def u(2,3) remember_def ad life_request parseFieldElement_dec life_world v_def [symmetric] split del: if_split)
  with c rec sg show thesis by (auto simp: handleRequest_def sbind_def ad intro: that)
qed

text \<open>The client takes the answer: the note after one request.\<close>

definition life_next :: "int \<Rightarrow> note_file" where
  "life_next v = life_note\<lparr>nf_opening := \<lparr>of_refunds = dec_of_int v, of_index = dec_of_int 1, of_blinding = dec_of_int 0\<rparr>,
     nf_signature := Some \<lparr>R8x = dec_of_int 1, R8y = dec_of_int 2, sigS = dec_of_int 5\<rparr>, nf_signedBy := Some (dec_of_int 3, dec_of_int 4),
     nf_pending := None\<rparr>"

lemma life_hyps:
  "same_setup life_prover life_chain life_ctx [1]" "eddsa_correct (cx_eddsa life_ctx)" "ready_world life_ctx [1] sample_world"
  "parseFieldElement (bd_nullifier life_body) = Inr 0" "ns_get (w_store sample_world) (dec_of_int 0) = None"
  "nf_pending life_note = None" "note_reduced life_note" "openingOf life_note c = Inr \<lparr>refunds = 0, index = 0, commitment = c, blinding = 0\<rparr>"
proof -
  show "same_setup life_prover life_chain life_ctx [1]"
    by (simp add: same_setup_def life_prover_def life_context life_chain_def life_eddsa_def toy_eddsa_def)
  show "eddsa_correct (cx_eddsa life_ctx)" by (simp add: eddsa_correct_def life_context life_eddsa_def toy_eddsa_def)
  show "ready_world life_ctx [1] sample_world"
    using sample_hyps(4) life_ready by (simp add: ready_world_def life_context life_world sample_ctx_def)
  show "parseFieldElement (bd_nullifier life_body) = Inr 0" by (simp add: life_body_def parseFieldElement_dec)
  show "ns_get (w_store sample_world) (dec_of_int 0) = None" by (simp add: life_world ns_get_def ns_init_def)
  show "nf_pending life_note = None" by (simp add: life_note_def newNote_def)
  show "note_reduced life_note" unfolding life_note_def using newNote_start by (simp add: note_after_def)
  show "openingOf life_note c = Inr \<lparr>refunds = 0, index = 0, commitment = c, blinding = 0\<rparr>"
    by (simp add: openingOf_def life_note_def newNote_def life_texts)
qed

lemma life_step:
  obtains cost where "session life_prover sample_cMax life_note [(life_ctx, cost)] (life_next (refund_of sample_cMax cost))" "0 \<le> cost"
proof -
  obtain w' r where h: "handleRequest life_ctx (request_of life_body) sample_world = (w', Inr r)"
    and sg: "acc_signature (rs_accumulator r) = \<lparr>R8x = hex64 1, R8y = hex64 2, sigS = hex64 5\<rparr>" by (rule life_served)
  have cM: "getCMax (w_chain sample_world) = Inr sample_cMax" by (rule sample_hyps(3))
  have n: "parseFieldElement (rq_nullifier (request_of life_body)) = Inr 0" using life_hyps(4) by (simp add: request_of_def)
  obtain cost where cost: "request_cost life_ctx (request_of life_body) sample_world cost" "0 \<le> cost"
    "rs_refund r = dec_of_int (refund_of sample_cMax cost)"
    using h n life_hyps(5) cM life_hyps(3) unfolding refund_of_def by (rule served_cost)
  let ?note1 = "life_note\<lparr>nf_pending := Some \<lparr>pd_rerandomizer = dec_of_int 0, pd_body = life_body\<rparr>\<rparr>"
  obtain note2 where "receive life_prover life_chain ?note1 (answer_of r) = Inr note2"
    using served_note_step [OF life_proved life_hyps(6,8) circuit_law_holds [OF life_same_circuit] life_hyps(1) h life_hyps(4,5) cM
        sample_cMax_nonneg life_hyps(3,2,7)] by (auto simp: answer_of_def)
  moreover have "js_rem 0 SUBGROUP_ORDER = 0" by code_simp
  with calculation have "note2 = life_next (refund_of sample_cMax cost)"
    using life_hyps(8) unfolding receive_def
    by (auto simp: bind_eq_Inr openingOf_def answer_of_def cost(3) sg life_server dec_text_def BigInt_hex64 Let_def life_next_def split: if_splits)
  ultimately have "receive life_prover life_chain ?note1 (answer_of r) = Inr (life_next (refund_of sample_cMax cost))" by simp
  from session.Served [OF session.Start life_proved h life_hyps(4,5) cM life_hyps(1,3,2) this cost(1)] that cost(2) show thesis by simp
qed

text \<open>The settlement circuit on that note, and the exit it proves.\<close>

lemma life_settlement_circuit:
  assumes "0 \<le> v" "v \<le> sample_cMax"
  shows "\<exists>y. Settlement life_circomlib \<lparr>ss_secretKey = 7, ss_acc = \<lparr>as_isGenesis = 0, as_refunds = v, as_index = 1, as_blinding = 0,
     as_R8 = (1, 2), as_S = 5\<rparr>, ss_claimedIndex = 1, ss_commitment = 0, ss_deposit = life_deposit, ss_maxCost = sample_cMax,
     ss_serverKey = (3, 4), ss_recipient = 4, ss_signalX = 6\<rparr> = Some (0, y, life_deposit + v - sample_cMax)"
proof -
  let ?a = "\<lparr>as_isGenesis = 0, as_refunds = v, as_index = 1, as_blinding = 0, as_R8 = (1, 2), as_S = 5\<rparr>"
  have bounds: "v < 2 ^ 128" "life_deposit + v - sample_cMax < 2 ^ 129" "0 \<le> life_deposit + v - sample_cMax"
    "life_deposit + v < FIELD_MODULUS" using assms by (simp_all add: sample_cMax_def life_deposit_def FIELD_MODULUS_def)
  have "\<exists>p. SignedAccumulator life_circomlib (3, 4) ?a 0 = Some p"
    using bounds(1) by (simp add: SignedAccumulator_def AccumulatorCommitment_def FixedBaseMul_def FieldBaseMul_def life_circomlib_simps
      fmul_def fsub_def opening_of_def Let_def)
  then obtain p where p: "SignedAccumulator life_circomlib (3, 4) ?a 0 = Some p" by blast
  have pay: "fsub (fadd life_deposit v) (fmul 1 sample_cMax) = life_deposit + v - sample_cMax"
    using assms bounds(3,4) life_reduced by (simp add: fsub_def fadd_def fmul_def reduced_def mod_diff_left_eq)
  have d: "life_deposit < 2 ^ 128" "sample_cMax < 2 ^ 128" by (simp_all add: life_deposit_def sample_cMax_def)
  show ?thesis using bounds(2) d
    by (simp add: Settlement_def RlnSignal_def life_circomlib_simps Let_def p pay del: One_nat_def)
qed

lemma life_exit:
  assumes "0 \<le> v" "v \<le> sample_cMax"
  obtains args where "proveWithdrawal life_prover life_chain ''4'' None (life_next v) = Inr args"
    "nc_getNote life_chain (wa_commitment args) = Inr \<lparr>oc_amount = life_deposit, oc_leafIndex = 0, oc_status = 1\<rparr>"
proof -
  let ?w = "\<lparr>ss_secretKey = 7, ss_acc = \<lparr>as_isGenesis = 0, as_refunds = v, as_index = 1, as_blinding = 0, as_R8 = (1, 2), as_S = 5\<rparr>,
     ss_claimedIndex = 1, ss_commitment = 0, ss_deposit = life_deposit, ss_maxCost = sample_cMax,
     ss_serverKey = (3, 4), ss_recipient = 4, ss_signalX = 6\<rparr>"
  obtain y where y: "Settlement life_circomlib ?w = Some (0, y, life_deposit + v - sample_cMax)"
    using life_settlement_circuit [OF assms] by blast
  have v: "reduced v" using assms life_reduced(10) by (simp add: reduced_def)
  have acc: "acc_witness (accumulatorInputs (life_next v)) = Inr (ss_acc ?w)"
    by (simp add: acc_witness_def accumulatorInputs_def life_next_def life_felt life_reduced v) (simp add: felt_def life_texts)
  have sel: "nf_secretKey (life_next v) = dec_of_int 7" "of_index (nf_opening (life_next v)) = dec_of_int 1" "nf_pending (life_next v) = None"
    "nf_signedBy (life_next v) = Some (dec_of_int 3, dec_of_int 4)" by (simp_all add: life_next_def life_note_def newNote_def life_texts)
  have ch: "nc_cMax life_chain = Inr sample_cMax" "nc_withdrawalSignalX life_chain a = Inr 6" for a by (simp_all add: life_chain_def)
  let ?inp = "\<lparr>si_secretKey = dec_of_int 7, si_accumulator = accumulatorInputs (life_next v), si_claimedIndex = dec_of_int 1,
    si_commitment = dec_of_int 0, si_deposit = dec_of_int life_deposit, si_maxCost = dec_of_int sample_cMax,
    si_serverPublicKey = (dec_of_int 3, dec_of_int 4), si_recipient = dec_of_int 4, si_signalX = dec_of_int 6\<rparr>"
  have "settlement_witness ?inp = Inr ?w" by (simp add: settlement_witness_def life_felt life_reduced acc)
  with y have r: "run_settlement life_circomlib ?inp = Inr \<lparr>so_a = [], so_b = [], so_c = [], so_nullifier = dec_of_int 0,
      so_signalY = dec_of_int y, so_payout = dec_of_int (life_deposit + v - sample_cMax)\<rparr>" by (simp add: run_settlement_def)
  have lib: "cl_proveSettlement life_prover = run_settlement life_circomlib" "cl_getAddress life_prover a = Inr a" for a
    by (simp_all add: life_prover_def)
  have "is_ok (proveWithdrawal life_prover life_chain ''4'' None (life_next v))"
    by (simp add: proveWithdrawal_def life_onchain sel ch lib dec_text_def BigInt_hex64 life_texts(3) Let_def r toBeHex32_def)
  then obtain args where "proveWithdrawal life_prover life_chain ''4'' None (life_next v) = Inr args" by (auto simp: is_ok_def split: sum.splits)
  then show thesis by (rule that) (simp add: life_chain_def)
qed

theorem exit_pays_the_balance_witness:
  "\<exists>cost note args. session life_prover sample_cMax life_note [(life_ctx, cost)] note
     \<and> proveWithdrawal life_prover life_chain ''4'' None note = Inr args
     \<and> wa_payout args = dec_of_int (life_deposit - min cost sample_cMax)"
proof -
  obtain cost where s: "session life_prover sample_cMax life_note [(life_ctx, cost)] (life_next (refund_of sample_cMax cost))" "0 \<le> cost"
    by (rule life_step)
  have "0 \<le> refund_of sample_cMax cost" "refund_of sample_cMax cost \<le> sample_cMax" using s(2) by (simp_all add: refund_of_def)
  then obtain args where a: "proveWithdrawal life_prover life_chain ''4'' None (life_next (refund_of sample_cMax cost)) = Inr args"
    "nc_getNote life_chain (wa_commitment args) = Inr \<lparr>oc_amount = life_deposit, oc_leafIndex = 0, oc_status = 1\<rparr>" by (rule life_exit)
  have "nc_cMax life_chain = Inr sample_cMax" "sample_cMax < 2 ^ 128" "0 \<le> life_deposit" "life_deposit < 2 ^ 128"
    by (simp_all add: life_chain_def sample_cMax_def life_deposit_def)
  with exit_pays_the_balance [OF life_same_circuit s(1) [unfolded life_note_def] sample_cMax_nonneg _ a(1) _ a(2)] a(1) s(1) show ?thesis
    by auto
qed

end
