(* ===== verification/Credits.thy ===== *)
theory Credits
  imports MerkleTree
begin

text \<open>
  \<open>contracts/src/LongjingCredits.sol\<close>, the contract that holds the deposits.

  The storage is the record \<open>credits\<close>, with the Ether balance of the contract and the log of what it
  emits and pays.  A \<open>uint256\<close> is a natural number and every addition and subtraction of the source is
  checked, as the compiler checks it (\<open>u_add\<close>, \<open>u_sub\<close>); a revert is \<open>Inl\<close>, and then nothing of the call
  remains.  A mapping is a function with the zero value as its default.

  Parameters: Poseidon, keccak over a key, the verifier contracts (by address), and the OpenZeppelin
  bases, of which \<open>Ownable\<close> and \<open>Pausable\<close> keep the state \<open>lc_base\<close>.  A call carries its sender, the Ether
  sent, the block time, and which addresses accept Ether.  \<open>nonReentrant\<close> refuses a nested call of the
  operations that pay, and each of these pays last; so an owner's call made by a payee during the payment
  is the same as one made right after, and calls are atomic steps.

  \<open>exec\<close> is one call, \<open>run\<close> a sequence of them, in which a call that reverts leaves the state.
\<close>

section \<open>State\<close>

datatype status = StNone | Active | Exiting | Closed | Slashed | Expired

record note_info =
  nt_amount :: nat
  nt_depositedAt :: nat
  nt_leafIndex :: nat
  nt_status :: status

datatype target = TSettlementVerifier | TServerAddress | TRefundKey

record pending_change =
  pc_value :: nat
  pc_keyX :: nat
  pc_keyY :: nat
  pc_eta :: nat

record exit_info =
  ex_nullifier :: nat
  ex_signalX :: nat
  ex_signalY :: nat
  ex_payout :: nat
  ex_recipient :: nat
  ex_exitAt :: nat

datatype event =
    Deposited nat nat nat
  | WithdrawalInitiated nat nat nat nat nat nat nat
  | WithdrawalFinalized nat nat nat
  | SlashedNote nat nat nat
  | MerkleRootUpdated nat nat
  | NoteExpiredClaimed nat nat
  | OperatorBalanceWithdrawn nat nat
  | ServerAddressUpdated nat nat
  | RefundKeyProposed nat nat nat
  | RefundKeyUpdated nat nat
  | ChangeProposed target nat nat
  | ChangeExecuted target nat
  | ChangeCancelled target nat
  | Paid nat nat

record 'b credits =
  lc_C_MAX :: nat
  lc_SLASH_BOUNTY :: nat
  lc_notes :: "nat \<Rightarrow> note_info"
  lc_exits :: "nat \<Rightarrow> exit_info"
  lc_acceptedRefundKeys :: "nat \<Rightarrow> bool"
  lc_leaves :: "nat list"
  lc_zeros :: "nat list"
  lc_treeNodes :: tree_nodes
  lc_merkleRoot :: nat
  lc_roots :: "nat list"
  lc_currentRootIndex :: nat
  lc_serverAddress :: nat
  lc_serverPublicKey :: "nat \<times> nat"
  lc_operatorBalance :: nat
  lc_settlementVerifier :: nat
  lc_pendingChanges :: "target \<Rightarrow> pending_change"
  lc_totalPausedTime :: nat
  lc_pausedAt :: nat
  lc_pausedTimeAtDeposit :: "nat \<Rightarrow> nat"
  lc_base :: 'b
  lc_balance :: nat
  lc_log :: "event list"

text \<open>The code outside the contract: the OpenZeppelin bases first.\<close>

record 'b credits_lib =
  cb_construct :: "nat \<Rightarrow> 'b"
  cb_onlyOwner :: "nat \<Rightarrow> 'b \<Rightarrow> unit res"
  cb_transferOwnership :: "nat \<Rightarrow> nat \<Rightarrow> 'b \<Rightarrow> 'b res"
  cb_renounceOwnership :: "nat \<Rightarrow> 'b \<Rightarrow> 'b res"
  cb_paused :: "'b \<Rightarrow> bool"
  cb_whenNotPaused :: "'b \<Rightarrow> unit res"
  cb_pause :: "'b \<Rightarrow> 'b res"
  cb_unpause :: "'b \<Rightarrow> 'b res"
  cb_poseidon1 :: "nat \<Rightarrow> nat"
  cb_poseidon2 :: "nat \<Rightarrow> nat \<Rightarrow> nat"
  cb_keccak :: "nat \<Rightarrow> nat \<Rightarrow> nat"
  cb_newVerifier :: nat
  cb_verify :: "nat \<Rightarrow> nat list \<Rightarrow> nat list \<Rightarrow> bool res"
  cb_chainid :: nat
  cb_this :: nat

record tx =
  tx_sender :: nat
  tx_value :: nat
  tx_time :: nat
  tx_accepts :: "nat \<Rightarrow> bool"

definition ROOT_HISTORY_SIZE :: nat where
  "ROOT_HISTORY_SIZE = 30"

definition ADMIN_DELAY :: nat where
  "ADMIN_DELAY = 7 * 86400"

definition NOTE_TTL :: nat where
  "NOTE_TTL = 365 * 86400"

definition CHALLENGE_WINDOW :: nat where
  "CHALLENGE_WINDOW = 3 * 86400"

definition FIELD_MODULUS :: nat where
  "FIELD_MODULUS = 21888242871839275222246405745257275088548364400416034343698204186575808495617"

section \<open>Checked arithmetic, payment and the tree\<close>

definition u_add :: "nat \<Rightarrow> nat \<Rightarrow> nat res" where
  "u_add a b = (if a + b < 2 ^ 256 then Inr (a + b) else Inl (Error ''Panic''))"

definition u_sub :: "nat \<Rightarrow> nat \<Rightarrow> nat res" where
  "u_sub a b = (if b \<le> a then Inr (a - b) else Inl (Error ''Panic''))"

definition emit :: "event \<Rightarrow> 'b credits \<Rightarrow> 'b credits" where
  "emit e s = s\<lparr>lc_log := lc_log s @ [e]\<rparr>"

text \<open>A call with more Ether than the balance fails, and so does one to the contract itself, which has no
  \<open>receive\<close> function.\<close>

definition pay :: "'b credits_lib \<Rightarrow> tx \<Rightarrow> nat \<Rightarrow> nat \<Rightarrow> 'b credits \<Rightarrow> 'b credits res" where
  "pay lib tx to amount s =
     (if amount \<le> lc_balance s \<and> to \<noteq> cb_this lib \<and> tx_accepts tx to
      then Inr (emit (Paid to amount) (s\<lparr>lc_balance := lc_balance s - amount\<rparr>))
      else Inl (Error ''TransferFailed''))"

definition pushRoot :: "nat \<Rightarrow> 'b credits \<Rightarrow> 'b credits" where
  "pushRoot r s =
     (let i = (lc_currentRootIndex s + 1) mod ROOT_HISTORY_SIZE
      in emit (MerkleRootUpdated r (length (lc_leaves s)))
           (s\<lparr>lc_currentRootIndex := i, lc_roots := (lc_roots s)[i := r], lc_merkleRoot := r\<rparr>))"

definition write_leaf :: "'b credits_lib \<Rightarrow> nat \<Rightarrow> 'b credits \<Rightarrow> 'b credits" where
  "write_leaf lib i s =
     (let (nodes, r) = updateLeaf (cb_poseidon2 lib) (lc_zeros s) (lc_leaves s) i (lc_treeNodes s)
      in pushRoot r (s\<lparr>lc_treeNodes := nodes\<rparr>))"

definition removeLeaf :: "'b credits_lib \<Rightarrow> nat \<Rightarrow> 'b credits \<Rightarrow> 'b credits res" where
  "removeLeaf lib i s =
     (if i < length (lc_leaves s) then Inr (write_leaf lib i (s\<lparr>lc_leaves := (lc_leaves s)[i := 0]\<rparr>))
      else Inl (Error ''Panic''))"

definition pausedTime :: "'b credits_lib \<Rightarrow> nat \<Rightarrow> 'b credits \<Rightarrow> nat res" where
  "pausedTime lib now s =
     (if cb_paused lib (lc_base s) then bind (u_add (lc_totalPausedTime s) now) (\<lambda>t. u_sub t (lc_pausedAt s))
      else Inr (lc_totalPausedTime s))"

definition set_status :: "nat \<Rightarrow> status \<Rightarrow> 'b credits \<Rightarrow> 'b credits" where
  "set_status c st s = s\<lparr>lc_notes := (lc_notes s)(c := (lc_notes s c)\<lparr>nt_status := st\<rparr>)\<rparr>"

definition earn :: "nat \<Rightarrow> 'b credits \<Rightarrow> 'b credits res" where
  "earn amount s = bind (u_add (lc_operatorBalance s) amount) (\<lambda>v. Inr (s\<lparr>lc_operatorBalance := v\<rparr>))"

section \<open>Deployment\<close>

definition no_note :: note_info where
  "no_note = \<lparr>nt_amount = 0, nt_depositedAt = 0, nt_leafIndex = 0, nt_status = StNone\<rparr>"

definition no_exit :: exit_info where
  "no_exit = \<lparr>ex_nullifier = 0, ex_signalX = 0, ex_signalY = 0, ex_payout = 0, ex_recipient = 0, ex_exitAt = 0\<rparr>"

definition no_change :: pending_change where
  "no_change = \<lparr>pc_value = 0, pc_keyX = 0, pc_keyY = 0, pc_eta = 0\<rparr>"

definition constructor ::
  "'b credits_lib \<Rightarrow> tx \<Rightarrow> nat \<Rightarrow> nat \<Rightarrow> nat \<Rightarrow> nat \<Rightarrow> nat \<Rightarrow> 'b credits res" where
  "constructor lib tx server keyX keyY cMax bounty =
     (if server = 0 then Inl (Error ''ZeroAddress'')
      else Inr (pushRoot (zero_root (cb_poseidon2 lib) TREE_DEPTH)
        \<lparr>lc_C_MAX = cMax, lc_SLASH_BOUNTY = bounty, lc_notes = (\<lambda>_. no_note), lc_exits = (\<lambda>_. no_exit),
         lc_acceptedRefundKeys = (\<lambda>_. False)(cb_keccak lib keyX keyY := True), lc_leaves = [],
         lc_zeros = zeros_of (cb_poseidon2 lib), lc_treeNodes = (\<lambda>_ _. 0), lc_merkleRoot = 0,
         lc_roots = replicate ROOT_HISTORY_SIZE 0, lc_currentRootIndex = 0, lc_serverAddress = server,
         lc_serverPublicKey = (keyX, keyY), lc_operatorBalance = 0, lc_settlementVerifier = cb_newVerifier lib,
         lc_pendingChanges = (\<lambda>_. no_change), lc_totalPausedTime = 0, lc_pausedAt = 0,
         lc_pausedTimeAtDeposit = (\<lambda>_. 0), lc_base = cb_construct lib (tx_sender tx), lc_balance = 0, lc_log = []\<rparr>))"

section \<open>Notes\<close>

definition deposit :: "'b credits_lib \<Rightarrow> tx \<Rightarrow> nat \<Rightarrow> 'b credits \<Rightarrow> 'b credits res" where
  "deposit lib tx c s =
     bind (cb_whenNotPaused lib (lc_base s)) (\<lambda>_.
     if tx_value tx < lc_C_MAX s \<or> 2 ^ 128 \<le> tx_value tx then Inl (Error ''InvalidDepositAmount'')
     else if FIELD_MODULUS \<le> c then Inl (Error ''InvalidCommitment'')
     else if nt_status (lc_notes s c) \<noteq> StNone then Inl (Error ''NoteAlreadyExists'')
     else if length (lc_leaves s) = 2 ^ TREE_DEPTH then Inl (Error ''TreeFull'')
     else bind (pausedTime lib (tx_time tx) s) (\<lambda>p.
       let i = length (lc_leaves s);
           s1 = s\<lparr>lc_notes := (lc_notes s)(c := \<lparr>nt_amount = tx_value tx, nt_depositedAt = tx_time tx,
                    nt_leafIndex = i, nt_status = Active\<rparr>),
                  lc_pausedTimeAtDeposit := (lc_pausedTimeAtDeposit s)(c := p),
                  lc_leaves := lc_leaves s @ [cb_poseidon2 lib c (tx_value tx)]\<rparr>
       in Inr (emit (Deposited c (tx_value tx) i) (write_leaf lib i s1))))"

definition hash3 :: "'b credits_lib \<Rightarrow> nat \<Rightarrow> nat \<Rightarrow> nat \<Rightarrow> nat" where
  "hash3 lib a b c = cb_poseidon2 lib (cb_poseidon2 lib a b) c"

definition withdrawalSignalX :: "'b credits_lib \<Rightarrow> nat \<Rightarrow> nat" where
  "withdrawalSignalX lib recipient = hash3 lib recipient (cb_chainid lib) (cb_this lib)"

definition initiateWithdrawal ::
  "'b credits_lib \<Rightarrow> tx \<Rightarrow> nat \<Rightarrow> nat \<Rightarrow> nat \<times> nat \<Rightarrow> nat list \<Rightarrow> nat \<Rightarrow> nat \<Rightarrow> nat \<Rightarrow> 'b credits \<Rightarrow> 'b credits res" where
  "initiateWithdrawal lib tx c recipient refundKey proof nullifier signalY payout s =
     (if recipient = 0 then Inl (Error ''ZeroAddress'')
      else if nt_status (lc_notes s c) \<noteq> Active then Inl (Error ''NoteNotActive'')
      else if \<not> lc_acceptedRefundKeys s (cb_keccak lib (fst refundKey) (snd refundKey)) then Inl (Error ''UnknownRefundKey'')
      else if nt_amount (lc_notes s c) < payout then Inl (Error ''PayoutExceedsDeposit'')
      else let signalX = withdrawalSignalX lib recipient in
        bind (cb_verify lib (lc_settlementVerifier s) proof
          [nullifier, signalY, payout, c, nt_amount (lc_notes s c), lc_C_MAX s, fst refundKey, snd refundKey, recipient, signalX]) (\<lambda>valid.
        if \<not> valid then Inl (Error ''InvalidProof'')
        else bind (u_add (tx_time tx) CHALLENGE_WINDOW) (\<lambda>exitAt.
        let s1 = set_status c Exiting s;
            s2 = s1\<lparr>lc_exits := (lc_exits s1)(c := \<lparr>ex_nullifier = nullifier, ex_signalX = signalX, ex_signalY = signalY,
                   ex_payout = payout, ex_recipient = recipient, ex_exitAt = exitAt\<rparr>)\<rparr>
        in bind (removeLeaf lib (nt_leafIndex (lc_notes s c)) s2) (\<lambda>s3.
           Inr (emit (WithdrawalInitiated c nullifier signalX signalY payout recipient exitAt) s3)))))"

definition finalizeWithdrawal :: "'b credits_lib \<Rightarrow> tx \<Rightarrow> nat \<Rightarrow> 'b credits \<Rightarrow> 'b credits res" where
  "finalizeWithdrawal lib tx c s =
     (if nt_status (lc_notes s c) \<noteq> Exiting then Inl (Error ''NoteNotExiting'')
      else let e = lc_exits s c in
        if tx_time tx < ex_exitAt e then Inl (Error ''ChallengeWindowOpen'')
        else bind (u_sub (nt_amount (lc_notes s c)) (ex_payout e)) (\<lambda>rest.
          bind (earn rest (set_status c Closed s)) (\<lambda>s1.
          bind (pay lib tx (ex_recipient e) (ex_payout e) s1) (\<lambda>s2.
          Inr (emit (WithdrawalFinalized c (ex_recipient e) (ex_payout e)) s2)))))"

definition slash :: "'b credits_lib \<Rightarrow> tx \<Rightarrow> nat \<Rightarrow> 'b credits \<Rightarrow> 'b credits res" where
  "slash lib tx secretKey s =
     (if FIELD_MODULUS \<le> secretKey then Inl (Error ''InvalidSecretKey'')
      else let c = cb_poseidon1 lib secretKey; note = lc_notes s c in
        bind (if nt_status note = Active then removeLeaf lib (nt_leafIndex note) s
              else if nt_status note \<noteq> Exiting then Inl (Error ''NoteNotActive'') else Inr s) (\<lambda>s1.
        let bounty = (if nt_amount note < lc_SLASH_BOUNTY s then nt_amount note else lc_SLASH_BOUNTY s) in
        bind (u_sub (nt_amount note) bounty) (\<lambda>rest.
        bind (earn rest (set_status c Slashed s1)) (\<lambda>s2.
        bind (pay lib tx (tx_sender tx) bounty s2) (\<lambda>s3.
        Inr (emit (SlashedNote c (tx_sender tx) bounty) s3))))))"

definition noteExpiry :: "'b credits_lib \<Rightarrow> nat \<Rightarrow> nat \<Rightarrow> 'b credits \<Rightarrow> nat res" where
  "noteExpiry lib now c s =
     (if nt_status (lc_notes s c) = StNone then Inl (Error ''NoteNotActive'')
      else bind (u_add (nt_depositedAt (lc_notes s c)) NOTE_TTL) (\<lambda>t.
        bind (pausedTime lib now s) (\<lambda>p. bind (u_add t p) (\<lambda>u. u_sub u (lc_pausedTimeAtDeposit s c)))))"

definition claimExpired :: "'b credits_lib \<Rightarrow> tx \<Rightarrow> nat \<Rightarrow> 'b credits \<Rightarrow> 'b credits res" where
  "claimExpired lib tx c s =
     bind (cb_whenNotPaused lib (lc_base s)) (\<lambda>_.
     if tx_sender tx \<noteq> lc_serverAddress s then Inl (Error ''Unauthorized'')
     else if nt_status (lc_notes s c) \<noteq> Active then Inl (Error ''NoteNotActive'')
     else bind (noteExpiry lib (tx_time tx) c s) (\<lambda>expiry.
       if tx_time tx < expiry then Inl (Error ''NoteNotExpired'')
       else bind (removeLeaf lib (nt_leafIndex (lc_notes s c)) (set_status c Expired s)) (\<lambda>s1.
         bind (earn (nt_amount (lc_notes s c)) s1) (\<lambda>s2.
         Inr (emit (NoteExpiredClaimed c (nt_amount (lc_notes s c))) s2)))))"

definition withdrawOperatorBalance :: "'b credits_lib \<Rightarrow> tx \<Rightarrow> 'b credits \<Rightarrow> 'b credits res" where
  "withdrawOperatorBalance lib tx s =
     (if tx_sender tx \<noteq> lc_serverAddress s then Inl (Error ''Unauthorized'')
      else let amount = lc_operatorBalance s in
        bind (pay lib tx (lc_serverAddress s) amount (s\<lparr>lc_operatorBalance := 0\<rparr>)) (\<lambda>s1.
        Inr (emit (OperatorBalanceWithdrawn (lc_serverAddress s) amount) s1)))"

section \<open>Views\<close>

definition isKnownRoot :: "nat \<Rightarrow> 'b credits \<Rightarrow> bool" where
  "isKnownRoot r s = (if r = 0 then False else list_ex (\<lambda>i. lc_roots s ! i = r) [0..<ROOT_HISTORY_SIZE])"

definition getMerkleProof :: "nat \<Rightarrow> 'b credits \<Rightarrow> (nat \<times> nat) list res" where
  "getMerkleProof i s =
     (if i < length (lc_leaves s) then Inr (merkle_path TREE_DEPTH (lc_zeros s) (lc_treeNodes s) 0 i)
      else Inl (Error ''Leaf index out of bounds''))"

section \<open>Settings\<close>

definition set_pending :: "target \<Rightarrow> pending_change \<Rightarrow> 'b credits \<Rightarrow> 'b credits" where
  "set_pending target change s = s\<lparr>lc_pendingChanges := (lc_pendingChanges s)(target := change)\<rparr>"

definition proposeChange :: "'b credits_lib \<Rightarrow> tx \<Rightarrow> target \<Rightarrow> nat \<Rightarrow> 'b credits \<Rightarrow> 'b credits res" where
  "proposeChange lib tx target v s =
     bind (cb_onlyOwner lib (tx_sender tx) (lc_base s)) (\<lambda>_.
     if target = TRefundKey then Inl (Error ''UseProposeRefundKey'')
     else if v = 0 then Inl (Error ''ZeroAddress'')
     else bind (u_add (tx_time tx) ADMIN_DELAY) (\<lambda>eta.
       Inr (emit (ChangeProposed target v eta)
         (set_pending target \<lparr>pc_value = v, pc_keyX = 0, pc_keyY = 0, pc_eta = eta\<rparr> s))))"

definition proposeRefundKey :: "'b credits_lib \<Rightarrow> tx \<Rightarrow> nat \<Rightarrow> nat \<Rightarrow> 'b credits \<Rightarrow> 'b credits res" where
  "proposeRefundKey lib tx x y s =
     bind (cb_onlyOwner lib (tx_sender tx) (lc_base s)) (\<lambda>_.
     if x = 0 \<and> y = 0 then Inl (Error ''ZeroKey'')
     else bind (u_add (tx_time tx) ADMIN_DELAY) (\<lambda>eta.
       Inr (emit (RefundKeyProposed x y eta)
         (set_pending TRefundKey \<lparr>pc_value = 0, pc_keyX = x, pc_keyY = y, pc_eta = eta\<rparr> s))))"

definition executeChange :: "'b credits_lib \<Rightarrow> tx \<Rightarrow> target \<Rightarrow> 'b credits \<Rightarrow> 'b credits res" where
  "executeChange lib tx target s =
     bind (cb_onlyOwner lib (tx_sender tx) (lc_base s)) (\<lambda>_.
     let change = lc_pendingChanges s target in
     if pc_eta change = 0 then Inl (Error ''NoPendingChange'')
     else if tx_time tx < pc_eta change then Inl (Error ''TimelockNotExpired'')
     else let s1 = set_pending target no_change s;
              s2 = (case target of
                  TSettlementVerifier \<Rightarrow> s1\<lparr>lc_settlementVerifier := pc_value change\<rparr>
                | TRefundKey \<Rightarrow> emit (RefundKeyUpdated (pc_keyX change) (pc_keyY change))
                    (s1\<lparr>lc_serverPublicKey := (pc_keyX change, pc_keyY change),
                        lc_acceptedRefundKeys := (lc_acceptedRefundKeys s1)(cb_keccak lib (pc_keyX change) (pc_keyY change) := True)\<rparr>)
                | TServerAddress \<Rightarrow> (emit (ServerAddressUpdated (lc_serverAddress s1) (pc_value change)) s1)
                    \<lparr>lc_serverAddress := pc_value change\<rparr>)
          in Inr (emit (ChangeExecuted target (pc_value change)) s2))"

definition cancelChange :: "'b credits_lib \<Rightarrow> tx \<Rightarrow> target \<Rightarrow> 'b credits \<Rightarrow> 'b credits res" where
  "cancelChange lib tx target s =
     bind (cb_onlyOwner lib (tx_sender tx) (lc_base s)) (\<lambda>_.
     let change = lc_pendingChanges s target in
     if pc_eta change = 0 then Inl (Error ''NoPendingChange'')
     else Inr (emit (ChangeCancelled target (pc_value change)) (set_pending target no_change s)))"

definition pause :: "'b credits_lib \<Rightarrow> tx \<Rightarrow> 'b credits \<Rightarrow> 'b credits res" where
  "pause lib tx s =
     bind (cb_onlyOwner lib (tx_sender tx) (lc_base s)) (\<lambda>_.
     bind (cb_pause lib (lc_base s)) (\<lambda>b. Inr (s\<lparr>lc_base := b, lc_pausedAt := tx_time tx\<rparr>)))"

definition unpause :: "'b credits_lib \<Rightarrow> tx \<Rightarrow> 'b credits \<Rightarrow> 'b credits res" where
  "unpause lib tx s =
     bind (cb_onlyOwner lib (tx_sender tx) (lc_base s)) (\<lambda>_.
     bind (cb_unpause lib (lc_base s)) (\<lambda>b.
     bind (u_sub (tx_time tx) (lc_pausedAt s)) (\<lambda>d.
     bind (u_add (lc_totalPausedTime s) d) (\<lambda>t.
     Inr (s\<lparr>lc_base := b, lc_totalPausedTime := t, lc_pausedAt := 0\<rparr>)))))"

section \<open>Calls\<close>

datatype action =
    Deposit nat
  | InitiateWithdrawal nat nat "nat \<times> nat" "nat list" nat nat nat
  | FinalizeWithdrawal nat
  | Slash nat
  | ClaimExpired nat
  | WithdrawOperatorBalance
  | ProposeChange target nat
  | ProposeRefundKey nat nat
  | ExecuteChange target
  | CancelChange target
  | Pause
  | Unpause
  | TransferOwnership nat
  | RenounceOwnership
  | ForceEther

text \<open>Only \<open>deposit\<close> is payable.  \<open>ForceEther\<close> is Ether that arrives without a call, as from a
  self-destructing contract.\<close>

fun payable :: "action \<Rightarrow> bool" where
  "payable (Deposit c) = True"
| "payable ForceEther = True"
| "payable _ = False"

fun body :: "'b credits_lib \<Rightarrow> tx \<Rightarrow> action \<Rightarrow> 'b credits \<Rightarrow> 'b credits res" where
  "body lib tx (Deposit c) s = deposit lib tx c s"
| "body lib tx (InitiateWithdrawal c r key pf n y p) s = initiateWithdrawal lib tx c r key pf n y p s"
| "body lib tx (FinalizeWithdrawal c) s = finalizeWithdrawal lib tx c s"
| "body lib tx (Slash k) s = slash lib tx k s"
| "body lib tx (ClaimExpired c) s = claimExpired lib tx c s"
| "body lib tx WithdrawOperatorBalance s = withdrawOperatorBalance lib tx s"
| "body lib tx (ProposeChange target v) s = proposeChange lib tx target v s"
| "body lib tx (ProposeRefundKey x y) s = proposeRefundKey lib tx x y s"
| "body lib tx (ExecuteChange target) s = executeChange lib tx target s"
| "body lib tx (CancelChange target) s = cancelChange lib tx target s"
| "body lib tx Pause s = pause lib tx s"
| "body lib tx Unpause s = unpause lib tx s"
| "body lib tx (TransferOwnership new) s =
     bind (cb_transferOwnership lib (tx_sender tx) new (lc_base s)) (\<lambda>b. Inr (s\<lparr>lc_base := b\<rparr>))"
| "body lib tx RenounceOwnership s =
     bind (cb_renounceOwnership lib (tx_sender tx) (lc_base s)) (\<lambda>b. Inr (s\<lparr>lc_base := b\<rparr>))"
| "body lib tx ForceEther s = Inr s"

definition exec :: "'b credits_lib \<Rightarrow> tx \<times> action \<Rightarrow> 'b credits \<Rightarrow> 'b credits res" where
  "exec lib = (\<lambda>(tx, a) s.
     if \<not> payable a \<and> tx_value tx \<noteq> 0 then Inl (Error ''nonpayable'')
     else body lib tx a (s\<lparr>lc_balance := lc_balance s + tx_value tx\<rparr>))"

definition step :: "'b credits_lib \<Rightarrow> 'b credits \<Rightarrow> tx \<times> action \<Rightarrow> 'b credits" where
  "step lib = after_call (exec lib)"

definition run :: "'b credits_lib \<Rightarrow> 'b credits \<Rightarrow> (tx \<times> action) list \<Rightarrow> 'b credits" where
  "run lib s calls = foldl (step lib) s calls"

end
