(* ===== verification/Vault.thy ===== *)
theory Vault
  imports Credits
begin

text \<open>
  The contract as a vault: what each note may still claim, what the operator has earned, and the Ether
  that backs both.  \<open>vault_step\<close> is the abstract specification of \<open>LongjingCredits\<close>; every call of the
  contract that does not revert is one of its steps (\<open>credits_refine_vault\<close>), so what is shown of the
  vault holds of the contract: the funds are exactly what is owed plus what was forced in, and an exit that
  nobody slashes is paid.
\<close>

section \<open>The specification\<close>

datatype claim = Unused | Open nat | Leaving nat nat nat nat | Settled status

record vault =
  v_claims :: "nat \<Rightarrow> claim"
  v_operator :: nat
  v_funds :: nat
  v_paid :: "(nat \<times> nat) list"

fun claim_amount :: "claim \<Rightarrow> nat" where
  "claim_amount (Open d) = d"
| "claim_amount (Leaving d p r t) = d"
| "claim_amount _ = 0"

definition pay_out :: "nat \<Rightarrow> nat \<Rightarrow> vault \<Rightarrow> vault" where
  "pay_out to amount v = v\<lparr>v_funds := v_funds v - amount, v_paid := v_paid v @ [(to, amount)]\<rparr>"

definition settle_claim :: "nat \<Rightarrow> status \<Rightarrow> nat \<Rightarrow> vault \<Rightarrow> vault" where
  "settle_claim c st earned v =
     v\<lparr>v_claims := (v_claims v)(c := Settled st), v_operator := v_operator v + earned\<rparr>"

datatype label = Opens nat | Leaves nat | Finishes nat | Slashes nat | Expires nat | Collects | Brings nat | Idles

text \<open>A step at time \<open>now\<close>; \<open>Brings\<close> is Ether nobody owns.\<close>

inductive vault_step :: "nat \<Rightarrow> label \<Rightarrow> vault \<Rightarrow> vault \<Rightarrow> bool" for now where
  Open: "v_claims v c = Unused \<Longrightarrow>
    vault_step now (Opens c) v (v\<lparr>v_claims := (v_claims v)(c := Open d), v_funds := v_funds v + d\<rparr>)"
| Leave: "v_claims v c = Open d \<Longrightarrow> p \<le> d \<Longrightarrow>
    vault_step now (Leaves c) v (v\<lparr>v_claims := (v_claims v)(c := Leaving d p r (now + CHALLENGE_WINDOW))\<rparr>)"
| Finish: "v_claims v c = Leaving d p r t \<Longrightarrow> t \<le> now \<Longrightarrow> p \<le> d \<Longrightarrow> p \<le> v_funds v \<Longrightarrow>
    vault_step now (Finishes c) v (pay_out r p (settle_claim c Closed (d - p) v))"
| Slash: "v_claims v c = Open d \<or> v_claims v c = Leaving d p r t \<Longrightarrow> b \<le> d \<Longrightarrow> b \<le> v_funds v \<Longrightarrow>
    vault_step now (Slashes c) v (pay_out to b (settle_claim c Slashed (d - b) v))"
| Expire: "v_claims v c = Open d \<Longrightarrow> vault_step now (Expires c) v (settle_claim c Expired d v)"
| Collect: "v_operator v \<le> v_funds v \<Longrightarrow> vault_step now Collects v (pay_out to (v_operator v) (v\<lparr>v_operator := 0\<rparr>))"
| Bring: "vault_step now (Brings x) v (v\<lparr>v_funds := v_funds v + x\<rparr>)"
| Idle: "vault_step now Idles v v"

inductive vault_run :: "vault \<Rightarrow> (nat \<times> label) list \<Rightarrow> vault \<Rightarrow> bool" where
  Done: "vault_run v [] v"
| Next: "vault_step now l u v \<Longrightarrow> vault_run v ls w \<Longrightarrow> vault_run u ((now, l) # ls) w"

inductive_cases vault_run_Nil: "vault_run u [] w"
inductive_cases vault_run_Cons: "vault_run u (l # ls) w"

fun brought :: "label \<Rightarrow> nat" where
  "brought (Brings x) = x"
| "brought _ = 0"

definition surplus :: "(nat \<times> label) list \<Rightarrow> nat" where
  "surplus ls = sum_list (map (\<lambda>(_, l). brought l) ls)"

section \<open>What a vault promises\<close>

definition held :: "(nat \<Rightarrow> claim) \<Rightarrow> nat" where
  "held m = (\<Sum>c | claim_amount (m c) \<noteq> 0. claim_amount (m c))"

definition owed :: "vault \<Rightarrow> nat" where
  "owed v = held (v_claims v) + v_operator v"

definition few :: "(nat \<Rightarrow> claim) \<Rightarrow> bool" where
  "few m \<longleftrightarrow> finite {c. claim_amount (m c) \<noteq> 0}"

definition finite_claims :: "vault \<Rightarrow> bool" where
  "finite_claims v \<longleftrightarrow> few (v_claims v)"

lemma held_upd:
  assumes "few m"
  shows "held (m(c := n)) + claim_amount (m c) = held m + claim_amount n"
proof -
  let ?A = "insert c {x. claim_amount (m x) \<noteq> 0}"
  have sub: "held m' = (\<Sum>x\<in>?A. claim_amount (m' x))" if "\<And>x. x \<noteq> c \<Longrightarrow> m' x = m x" for m'
    unfolding held_def using assms that by (intro sum.mono_neutral_left) (auto simp: few_def)
  have fin: "finite ?A" using assms by (simp add: few_def)
  have "held m = claim_amount (m c) + (\<Sum>x\<in>?A - {c}. claim_amount (m x))"
    using sub [of m] sum.remove [OF fin, of c "\<lambda>x. claim_amount (m x)"] by simp
  moreover have "held (m(c := n)) = claim_amount n + (\<Sum>x\<in>?A - {c}. claim_amount ((m(c := n)) x))"
    using sub [of "m(c := n)"] sum.remove [OF fin, of c "\<lambda>x. claim_amount ((m(c := n)) x)"] by simp
  moreover have "(\<Sum>x\<in>?A - {c}. claim_amount ((m(c := n)) x)) = (\<Sum>x\<in>?A - {c}. claim_amount (m x))"
    by (rule sum.cong) auto
  ultimately show ?thesis by simp
qed

lemma few_upd [simp]: "few m \<Longrightarrow> few (m(c := n))"
  unfolding few_def by (rule finite_subset [of _ "insert c {c. claim_amount (m c) \<noteq> 0}"]) auto

lemma held_ge: "few m \<Longrightarrow> claim_amount (m c) \<le> held m"
  unfolding held_def few_def by (cases "claim_amount (m c) = 0") (auto intro: member_le_sum)

text \<open>No step creates or loses a wei.\<close>

lemma vault_step_conserves:
  assumes "vault_step now l v w" "finite_claims v"
  shows "finite_claims w \<and> v_funds w + owed v = v_funds v + owed w + brought l"
  using assms
proof (cases rule: vault_step.cases)
  case (Open c d)
  then show ?thesis using assms(2) held_upd [of "v_claims v" c "claim.Open d"]
    by (simp add: finite_claims_def owed_def)
next
  case (Leave c d p r)
  then show ?thesis using assms(2) held_upd [of "v_claims v" c "Leaving d p r (now + CHALLENGE_WINDOW)"]
    by (simp add: finite_claims_def owed_def)
next
  case (Finish c d p r t)
  then show ?thesis using assms(2) held_upd [of "v_claims v" c "Settled Closed"]
    by (simp add: finite_claims_def owed_def pay_out_def settle_claim_def)
next
  case (Slash c d p r t b to)
  then show ?thesis using assms(2) held_upd [of "v_claims v" c "Settled Slashed"]
    by (auto simp: finite_claims_def owed_def pay_out_def settle_claim_def)
next
  case (Expire c d)
  then show ?thesis using assms(2) held_upd [of "v_claims v" c "Settled Expired"]
    by (simp add: finite_claims_def owed_def settle_claim_def)
qed (simp_all add: finite_claims_def owed_def pay_out_def)

lemma vault_run_conserves:
  assumes "vault_run u ls w" "finite_claims u"
  shows "finite_claims w \<and> v_funds w + owed u = v_funds u + owed w + surplus ls"
  using assms
proof (induction rule: vault_run.induct)
  case (Next now l u v ls w)
  then show ?case using vault_step_conserves [OF Next.hyps(1)] by (simp add: surplus_def)
qed (simp add: surplus_def)

text \<open>A note that is leaving stays as it is until it is paid or slashed, and a settled one stays settled.\<close>

lemma settled_step: "vault_step now l v w \<Longrightarrow> v_claims v c = Settled st \<Longrightarrow> v_claims w c = Settled st"
  by (erule vault_step.cases) (auto simp: pay_out_def settle_claim_def)

lemma settled_run: "vault_run v ls w \<Longrightarrow> v_claims v c = Settled st \<Longrightarrow> v_claims w c = Settled st"
  by (induction rule: vault_run.induct) (auto intro: settled_step)

lemma paid_step: "vault_step now l v w \<Longrightarrow> set (v_paid v) \<subseteq> set (v_paid w)"
  by (erule vault_step.cases) (auto simp: pay_out_def settle_claim_def)

lemma paid_run: "vault_run v ls w \<Longrightarrow> set (v_paid v) \<subseteq> set (v_paid w)"
  by (induction rule: vault_run.induct) (auto dest: paid_step)

lemma leaving_step:
  "vault_step now l v w \<Longrightarrow> v_claims v c = Leaving d p r t \<Longrightarrow> l \<noteq> Slashes c \<Longrightarrow>
   v_claims w c = Leaving d p r t \<or> v_claims w c = Settled Closed \<and> v_paid w = v_paid v @ [(r, p)]"
  by (erule vault_step.cases) (auto simp: pay_out_def settle_claim_def)

lemma leaving_run:
  assumes "vault_run v ls w" "v_claims v c = Leaving d p r t" "\<And>now. (now, Slashes c) \<notin> set ls"
  shows "v_claims w c = Leaving d p r t \<or> v_claims w c = Settled Closed \<and> (r, p) \<in> set (v_paid w)"
  using assms
proof (induction rule: vault_run.induct)
  case (Next now l u v ls w)
  have "l \<noteq> Slashes c" using Next.prems(2) by auto
  from leaving_step [OF Next.hyps(1) Next.prems(1) this] show ?case
  proof
    assume "v_claims v c = Leaving d p r t"
    then show ?case using Next.IH Next.prems(2) by simp
  next
    assume "v_claims v c = Settled Closed \<and> v_paid v = v_paid u @ [(r, p)]"
    then show ?case using settled_run [OF Next.hyps(2)] paid_run [OF Next.hyps(2)] by auto
  qed
qed simp

section \<open>The contract is a vault\<close>

definition claim_of :: "note_info \<Rightarrow> exit_info \<Rightarrow> claim" where
  "claim_of n e = (case nt_status n of
     StNone \<Rightarrow> Unused
   | Active \<Rightarrow> claim.Open (nt_amount n)
   | Exiting \<Rightarrow> Leaving (nt_amount n) (ex_payout e) (ex_recipient e) (ex_exitAt e)
   | st \<Rightarrow> Settled st)"

lemma claim_of_simps [simp]:
  "nt_status n = StNone \<Longrightarrow> claim_of n e = Unused"
  "nt_status n = Active \<Longrightarrow> claim_of n e = claim.Open (nt_amount n)"
  "nt_status n = Exiting \<Longrightarrow> claim_of n e = Leaving (nt_amount n) (ex_payout e) (ex_recipient e) (ex_exitAt e)"
  "nt_status n = Closed \<Longrightarrow> claim_of n e = Settled Closed"
  "nt_status n = Slashed \<Longrightarrow> claim_of n e = Settled Slashed"
  "nt_status n = Expired \<Longrightarrow> claim_of n e = Settled Expired"
  by (simp_all add: claim_of_def)

fun paid_of :: "event \<Rightarrow> (nat \<times> nat) list" where
  "paid_of (Paid to amount) = [(to, amount)]"
| "paid_of _ = []"

definition vault_of :: "'b credits \<Rightarrow> vault" where
  "vault_of s = \<lparr>v_claims = (\<lambda>c. claim_of (lc_notes s c) (lc_exits s c)), v_operator = lc_operatorBalance s,
     v_funds = lc_balance s, v_paid = concat (map paid_of (lc_log s))\<rparr>"

fun label_of :: "'b credits_lib \<Rightarrow> tx \<times> action \<Rightarrow> nat \<times> label" where
  "label_of lib (tx, Deposit c) = (tx_time tx, Opens c)"
| "label_of lib (tx, InitiateWithdrawal c _ _ _ _ _ _) = (tx_time tx, Leaves c)"
| "label_of lib (tx, FinalizeWithdrawal c) = (tx_time tx, Finishes c)"
| "label_of lib (tx, Credits.Slash k) = (tx_time tx, Slashes (cb_poseidon1 lib k))"
| "label_of lib (tx, ClaimExpired c) = (tx_time tx, Expires c)"
| "label_of lib (tx, WithdrawOperatorBalance) = (tx_time tx, Collects)"
| "label_of lib (tx, ForceEther) = (tx_time tx, Brings (tx_value tx))"
| "label_of lib (tx, _) = (tx_time tx, Idles)"

text \<open>The calls of a sequence that take effect.\<close>

fun trace :: "'b credits_lib \<Rightarrow> 'b credits \<Rightarrow> (tx \<times> action) list \<Rightarrow> (nat \<times> label) list" where
  "trace lib s [] = []"
| "trace lib s (call # calls) = (case exec lib call s of
     Inl _ \<Rightarrow> trace lib s calls | Inr t \<Rightarrow> label_of lib call # trace lib t calls)"

named_theorems contract_defs \<open>the operations on the contract state the calls are made of\<close>

lemmas [contract_defs] = emit_def pay_def earn_def u_add_def u_sub_def set_status_def set_pending_def
  write_leaf_def pushRoot_def removeLeaf_def Let_def split_beta bind_eq_Inr

lemma vault_of_cong:
  "lc_notes t = lc_notes s \<Longrightarrow> lc_exits t = lc_exits s \<Longrightarrow> lc_operatorBalance t = lc_operatorBalance s \<Longrightarrow>
   lc_balance t = lc_balance s \<Longrightarrow> concat (map paid_of (lc_log t)) = concat (map paid_of (lc_log s)) \<Longrightarrow> vault_of t = vault_of s"
  by (simp add: vault_of_def)

text \<open>The calls that do not touch a note.\<close>

fun settings_call :: "action \<Rightarrow> bool" where
  "settings_call (ProposeChange _ _) = True"
| "settings_call (ProposeRefundKey _ _) = True"
| "settings_call (ExecuteChange _) = True"
| "settings_call (CancelChange _) = True"
| "settings_call Pause = True"
| "settings_call Unpause = True"
| "settings_call (TransferOwnership _) = True"
| "settings_call RenounceOwnership = True"
| "settings_call _ = False"

lemma settings_frame:
  "settings_call a \<Longrightarrow> body lib tx a s = Inr t \<Longrightarrow> vault_of t = vault_of s \<and> lc_leaves t = lc_leaves s \<and> lc_notes t = lc_notes s
    \<and> lc_treeNodes t = lc_treeNodes s \<and> lc_zeros t = lc_zeros s \<and> lc_roots t = lc_roots s \<and> lc_merkleRoot t = lc_merkleRoot s
    \<and> lc_currentRootIndex t = lc_currentRootIndex s \<and> lc_pausedTimeAtDeposit t = lc_pausedTimeAtDeposit s"
  by (cases a) (auto simp: vault_of_def contract_defs proposeChange_def proposeRefundKey_def executeChange_def cancelChange_def
      pause_def unpause_def split: if_splits target.splits)

text \<open>The calls on notes, each as a step of the vault.\<close>

lemma deposit_abs:
  "deposit lib tx c s = Inr t \<Longrightarrow> v_claims (vault_of s) c = Unused
    \<and> vault_of t = (vault_of s)\<lparr>v_claims := (v_claims (vault_of s))(c := claim.Open (tx_value tx))\<rparr>"
  by (auto simp: deposit_def contract_defs vault_of_def fun_eq_iff split: if_splits)

lemma initiateWithdrawal_abs:
  assumes "initiateWithdrawal lib tx c r key pf n y p s = Inr t"
  shows "v_claims (vault_of s) c = claim.Open (nt_amount (lc_notes s c)) \<and> p \<le> nt_amount (lc_notes s c)
    \<and> vault_of t = (vault_of s)\<lparr>v_claims := (v_claims (vault_of s))(c := Leaving (nt_amount (lc_notes s c)) p r (tx_time tx + CHALLENGE_WINDOW))\<rparr>"
  using assms by (auto simp: initiateWithdrawal_def contract_defs vault_of_def fun_eq_iff split: if_splits)

lemma finalizeWithdrawal_abs:
  assumes "finalizeWithdrawal lib tx c s = Inr t"
  obtains d p r e where "v_claims (vault_of s) c = Leaving d p r e" "e \<le> tx_time tx" "p \<le> d" "p \<le> lc_balance s"
    "vault_of t = pay_out r p (settle_claim c Closed (d - p) (vault_of s))"
proof (rule that)
  show "v_claims (vault_of s) c = Leaving (nt_amount (lc_notes s c)) (ex_payout (lc_exits s c)) (ex_recipient (lc_exits s c)) (ex_exitAt (lc_exits s c))"
    "ex_exitAt (lc_exits s c) \<le> tx_time tx" "ex_payout (lc_exits s c) \<le> nt_amount (lc_notes s c)" "ex_payout (lc_exits s c) \<le> lc_balance s"
    using assms by (auto simp: finalizeWithdrawal_def contract_defs vault_of_def split: if_splits)
  show "vault_of t = pay_out (ex_recipient (lc_exits s c)) (ex_payout (lc_exits s c))
      (settle_claim c Closed (nt_amount (lc_notes s c) - ex_payout (lc_exits s c)) (vault_of s))"
    using assms by (auto simp: finalizeWithdrawal_def contract_defs vault_of_def pay_out_def settle_claim_def fun_eq_iff
        split: if_splits)
qed

lemma slash_abs:
  assumes "slash lib tx k s = Inr t"
  obtains d p r e b where "v_claims (vault_of s) (cb_poseidon1 lib k) = claim.Open d \<or> v_claims (vault_of s) (cb_poseidon1 lib k) = Leaving d p r e"
    "b = min d (lc_SLASH_BOUNTY s)" "b \<le> lc_balance s" "vault_of t = pay_out (tx_sender tx) b (settle_claim (cb_poseidon1 lib k) Slashed (d - b) (vault_of s))"
proof -
  let ?c = "cb_poseidon1 lib k"
  let ?d = "nt_amount (lc_notes s ?c)" and ?e = "lc_exits s ?c"
  have "v_claims (vault_of s) ?c = claim.Open ?d \<or> v_claims (vault_of s) ?c = Leaving ?d (ex_payout ?e) (ex_recipient ?e) (ex_exitAt ?e)"
    using assms by (auto simp: slash_def contract_defs vault_of_def split: if_splits)
  moreover have "min ?d (lc_SLASH_BOUNTY s) \<le> lc_balance s"
    using assms by (auto simp: slash_def contract_defs split: if_splits)
  moreover have "vault_of t = pay_out (tx_sender tx) (min ?d (lc_SLASH_BOUNTY s)) (settle_claim ?c Slashed (?d - min ?d (lc_SLASH_BOUNTY s)) (vault_of s))"
    using assms by (auto simp: slash_def contract_defs vault_of_def pay_out_def settle_claim_def fun_eq_iff min_def split: if_splits)
  ultimately show thesis by (intro that) auto
qed

lemma claimExpired_abs:
  assumes "claimExpired lib tx c s = Inr t"
  shows "v_claims (vault_of s) c = claim.Open (nt_amount (lc_notes s c)) \<and> vault_of t = settle_claim c Expired (nt_amount (lc_notes s c)) (vault_of s)"
  using assms by (auto simp: claimExpired_def contract_defs vault_of_def settle_claim_def fun_eq_iff split: if_splits)

lemma withdrawOperatorBalance_abs:
  assumes "withdrawOperatorBalance lib tx s = Inr t"
  shows "v_operator (vault_of s) \<le> v_funds (vault_of s) \<and> tx_sender tx = lc_serverAddress s
    \<and> vault_of t = pay_out (lc_serverAddress s) (v_operator (vault_of s)) ((vault_of s)\<lparr>v_operator := 0\<rparr>)"
  using assms by (auto simp: withdrawOperatorBalance_def contract_defs vault_of_def pay_out_def split: if_splits)

lemma vault_of_fund: "vault_of (s\<lparr>lc_balance := lc_balance s + x\<rparr>) = (vault_of s)\<lparr>v_funds := v_funds (vault_of s) + x\<rparr>"
  by (simp add: vault_of_def)

lemma exec_abs:
  assumes "exec lib (tx, a) s = Inr t"
  shows "vault_step (tx_time tx) (snd (label_of lib (tx, a))) (vault_of s) (vault_of t)"
proof -
  let ?s = "s\<lparr>lc_balance := lc_balance s + tx_value tx\<rparr>"
  have b: "body lib tx a ?s = Inr t" using assms by (simp add: exec_def split: if_splits)
  have same: "?s = s" if "\<not> payable a" using assms that by (simp add: exec_def split: if_splits)
  have plain: "body lib tx a s = Inr t" if "\<not> payable a" using b unfolding same [OF that] .
  have funds: "v_funds (vault_of s) = lc_balance s" by (simp add: vault_of_def)
  show ?thesis
  proof (cases "settings_call a")
    case True
    then have "\<not> payable a" "label_of lib (tx, a) = (tx_time tx, Idles)" by (cases a, simp_all)+
    moreover from calculation have "body lib tx a s = Inr t" by (simp add: plain)
    with True have "vault_of t = vault_of s" by (simp add: settings_frame)
    ultimately show ?thesis by (simp add: vault_step.Idle)
  next
    case False
    show ?thesis
    proof (cases a)
      case (Deposit c)
      have "v_claims (vault_of s) c = Unused" "vault_of t = (vault_of s)\<lparr>v_claims := (v_claims (vault_of s))(c := claim.Open (tx_value tx)), v_funds := v_funds (vault_of s) + tx_value tx\<rparr>"
        using deposit_abs [of lib tx c ?s t] b Deposit by (simp_all add: vault_of_fund)
      then show ?thesis using Deposit vault_step.Open [of "vault_of s" c "tx_time tx" "tx_value tx"] by simp
    next
      case (InitiateWithdrawal c r key pf n y p)
      with plain have "initiateWithdrawal lib tx c r key pf n y p s = Inr t" by simp
      from initiateWithdrawal_abs [OF this] vault_step.Leave [of "vault_of s" c "nt_amount (lc_notes s c)" p "tx_time tx" r]
      show ?thesis using InitiateWithdrawal by simp
    next
      case (FinalizeWithdrawal c)
      with plain have "finalizeWithdrawal lib tx c s = Inr t" by simp
      then obtain d p r e where "v_claims (vault_of s) c = Leaving d p r e" "e \<le> tx_time tx" "p \<le> d" "p \<le> lc_balance s"
        "vault_of t = pay_out r p (settle_claim c Closed (d - p) (vault_of s))" by (rule finalizeWithdrawal_abs)
      then show ?thesis using FinalizeWithdrawal funds vault_step.Finish [of "vault_of s" c d p r e "tx_time tx"] by simp
    next
      case (Slash k)
      with plain have "slash lib tx k s = Inr t" by simp
      then obtain d p r e b where "v_claims (vault_of s) (cb_poseidon1 lib k) = claim.Open d \<or> v_claims (vault_of s) (cb_poseidon1 lib k) = Leaving d p r e"
        "b = min d (lc_SLASH_BOUNTY s)" "b \<le> lc_balance s" "vault_of t = pay_out (tx_sender tx) b (settle_claim (cb_poseidon1 lib k) Slashed (d - b) (vault_of s))"
        by (rule slash_abs)
      then show ?thesis using Slash funds vault_step.Slash [of "vault_of s" "cb_poseidon1 lib k" d p r e b "tx_time tx" "tx_sender tx"] by simp
    next
      case (ClaimExpired c)
      with plain have "claimExpired lib tx c s = Inr t" by simp
      from claimExpired_abs [OF this] show ?thesis using ClaimExpired vault_step.Expire [of "vault_of s" c "nt_amount (lc_notes s c)" "tx_time tx"] by simp
    next
      case WithdrawOperatorBalance
      with plain have "withdrawOperatorBalance lib tx s = Inr t" by simp
      from withdrawOperatorBalance_abs [OF this] show ?thesis
        using WithdrawOperatorBalance vault_step.Collect [of "vault_of s" "tx_time tx" "lc_serverAddress s"] by simp
    next
      case ForceEther
      then show ?thesis using b vault_step.Bring [of "tx_time tx" "tx_value tx" "vault_of s"] by (auto simp: vault_of_fund)
    qed (use False in simp_all)
  qed
qed

text \<open>The contract is an implementation of the vault.\<close>

interpretation credits: refinement "exec lib" vault_of "label_of lib" "\<lambda>(now, l). vault_step now l" for lib
proof
  fix call :: "tx \<times> action" and s t :: "'a credits"
  assume e: "exec lib call s = Inr t"
  obtain tx a where call: "call = (tx, a)" by (cases call)
  have "fst (label_of lib (tx, a)) = tx_time tx" by (cases a) simp_all
  with exec_abs [of lib tx a s t] e call show "(case label_of lib call of (now, l) \<Rightarrow> vault_step now l) (vault_of s) (vault_of t)"
    by (simp add: case_prod_unfold)
qed

end
