(* ===== verification/CreditsFacts.thy ===== *)
theory CreditsFacts
  imports Vault
begin

text \<open>
  What the contract guarantees over any sequence of calls, reverted ones included: its funds are what it
  owes, an exit completes, settings change only after their delay, a note's expiry never comes nearer, and
  the tree holds the active notes.
\<close>

section \<open>Runs\<close>

lemma run_Nil [simp]: "run lib s [] = s"
  by (simp add: run_def)

lemma run_Cons [simp]: "run lib s (call # calls) = run lib (step lib s call) calls"
  by (simp add: run_def)

lemma run_append: "run lib s (xs @ ys) = run lib (run lib s xs) ys"
  by (simp add: run_def)

lemma run_trace: "vault_run (vault_of s) (trace lib s calls) (vault_of (run lib s calls))"
proof (induction calls arbitrary: s)
  case (Cons call calls)
  obtain now l where lab: "label_of lib call = (now, l)" by fastforce
  show ?case
  proof (cases "exec lib call s")
    case (Inr t)
    from credits.simulates [OF this] lab have "vault_step now l (vault_of s) (vault_of t)" by simp
    then show ?thesis using Cons.IH [of t] Inr lab by (simp add: step_def after_call_def vault_run.Next)
  qed (use Cons.IH [of s] in \<open>simp add: step_def after_call_def\<close>)
qed (simp add: vault_run.Done)

lemma deployed_vault:
  assumes "constructor lib tx server x y cMax bounty = Inr s"
  shows "vault_of s = \<lparr>v_claims = (\<lambda>_. Unused), v_operator = 0, v_funds = 0, v_paid = []\<rparr>"
  using assms by (auto simp: constructor_def contract_defs vault_of_def no_note_def split: if_splits)

text \<open>An invariant of single calls is one of runs.\<close>

lemma run_induct [consumes 1, case_names call]:
  assumes "P s" "\<And>s tx a t. P s \<Longrightarrow> exec lib (tx, a) s = Inr t \<Longrightarrow> (tx, a) \<in> set calls \<Longrightarrow> P t"
  shows "P (run lib s calls)"
  using assms
proof (induction calls arbitrary: s)
  case (Cons call calls)
  obtain tx a where call: "call = (tx, a)" by (cases call)
  have "P (step lib s call)"
  proof (cases "exec lib (tx, a) s")
    case (Inr t)
    then have "P t" by (intro Cons.prems(2) [OF Cons.prems(1), of tx a]) (auto simp: call)
    with Inr show ?thesis by (simp add: step_def after_call_def call)
  qed (use Cons.prems(1) in \<open>simp add: step_def after_call_def call\<close>)
  moreover have "P t" if "P s" "exec lib (tx, a) s = Inr t" "(tx, a) \<in> set calls" for s tx a t
    using Cons.prems(2) [OF that(1,2)] that(3) by simp
  ultimately show ?case using Cons.IH [of "step lib s call"] by simp
qed simp

section \<open>A sample contract\<close>

text \<open>Owner 5, operator 6; the note of key 7 (commitment 8) is opened with 100 wei and leaves with 60.\<close>

definition sample_credits_lib :: "(bool \<times> nat) credits_lib" where
  "sample_credits_lib = \<lparr>cb_construct = (\<lambda>who. (False, who)),
     cb_onlyOwner = (\<lambda>who b. guard (who = snd b) (Error ''OwnableUnauthorizedAccount'')),
     cb_transferOwnership = (\<lambda>who new b. if who = snd b then Inr (fst b, new) else Inl (Error ''OwnableUnauthorizedAccount'')),
     cb_renounceOwnership = (\<lambda>who b. if who = snd b then Inr (fst b, 0) else Inl (Error ''OwnableUnauthorizedAccount'')),
     cb_paused = fst, cb_whenNotPaused = (\<lambda>b. guard (\<not> fst b) (Error ''EnforcedPause'')),
     cb_pause = (\<lambda>b. if fst b then Inl (Error ''EnforcedPause'') else Inr (True, snd b)),
     cb_unpause = (\<lambda>b. if fst b then Inr (False, snd b) else Inl (Error ''ExpectedPause'')),
     cb_poseidon1 = (\<lambda>k. k + 1), cb_poseidon2 = (\<lambda>a b. a + b + 1), cb_keccak = (\<lambda>x y. x + y), cb_newVerifier = 77,
     cb_verify = (\<lambda>_ _ _. Inr True), cb_chainid = 1, cb_this = 99\<rparr>"

definition sample_tx :: "nat \<Rightarrow> nat \<Rightarrow> nat \<Rightarrow> tx" where
  "sample_tx who v now = \<lparr>tx_sender = who, tx_value = v, tx_time = now, tx_accepts = (\<lambda>_. True)\<rparr>"

definition sample_deployed :: "(bool \<times> nat) credits" where
  "sample_deployed = (case constructor sample_credits_lib (sample_tx 5 0 1) 6 1 2 10 3 of Inr s \<Rightarrow> s)"

definition sample_calls :: "(tx \<times> action) list" where
  "sample_calls = [(sample_tx 4 100 10, Deposit 8), (sample_tx 4 0 20, InitiateWithdrawal 8 4 (1, 2) [] 11 12 60)]"

lemma sample_deploy: "constructor sample_credits_lib (sample_tx 5 0 1) 6 1 2 10 3 = Inr sample_deployed"
  by (simp add: sample_deployed_def constructor_def)

lemmas sample_contract = sample_credits_lib_def sample_tx_def sample_deployed_def sample_calls_def constructor_def no_note_def no_change_def
  step_def after_call_def exec_def deposit_def initiateWithdrawal_def pausedTime_def withdrawalSignalX_def hash3_def contract_defs
  FIELD_MODULUS_def TREE_DEPTH_def CHALLENGE_WINDOW_def

lemma sample_open:
  "nt_status (lc_notes (run sample_credits_lib sample_deployed (take 1 sample_calls)) 8) = Active"
  by (simp add: sample_contract)

lemma sample_leaving:
  "nt_status (lc_notes (run sample_credits_lib sample_deployed sample_calls) 8) = Exiting"
  "lc_exits (run sample_credits_lib sample_deployed sample_calls) 8 = \<lparr>ex_nullifier = 11, ex_signalX = 106, ex_signalY = 12,
     ex_payout = 60, ex_recipient = 4, ex_exitAt = 259220\<rparr>"
  "lc_balance (run sample_credits_lib sample_deployed sample_calls) = 100"
  by (simp_all add: sample_contract)

section \<open>Solvency\<close>

fun claim_fits :: "claim \<Rightarrow> bool" where
  "claim_fits (Leaving d p r t) = (p \<le> d)"
| "claim_fits _ = True"

definition claims_ok :: "vault \<Rightarrow> bool" where
  "claims_ok v \<longleftrightarrow> (\<forall>c. claim_fits (v_claims v c))"

lemma claims_ok_step: "vault_step now l v w \<Longrightarrow> claims_ok v \<Longrightarrow> claims_ok w"
  unfolding claims_ok_def by (erule vault_step.cases) (auto simp: pay_out_def settle_claim_def)

lemma claims_ok_run: "claims_ok (vault_of s) \<Longrightarrow> claims_ok (vault_of (run lib s calls))"
  unfolding run_def step_def by (rule credits.calls_keep) (auto simp: case_prod_unfold intro: claims_ok_step)

lemma claims_ok_exit:
  assumes "claims_ok (vault_of s)" "nt_status (lc_notes s c) = Exiting"
  shows "ex_payout (lc_exits s c) \<le> nt_amount (lc_notes s c)"
proof -
  have "claim_fits (v_claims (vault_of s) c)" using assms(1) unfolding claims_ok_def by blast
  with assms(2) show ?thesis by (simp add: vault_of_def)
qed

lemma deployed_solvent:
  assumes "constructor lib tx0 server x y cMax bounty = Inr s0" "s = run lib s0 calls"
  shows "lc_balance s = owed (vault_of s) + surplus (trace lib s0 calls)" "claims_ok (vault_of s)" "finite_claims (vault_of s)"
proof -
  note d = deployed_vault [OF assms(1)]
  have f: "finite_claims (vault_of s0)" "owed (vault_of s0) = 0" "claims_ok (vault_of s0)" "v_funds (vault_of s0) = 0"
    by (simp_all add: d finite_claims_def few_def owed_def held_def claims_ok_def)
  have r: "vault_run (vault_of s0) (trace lib s0 calls) (vault_of s)" unfolding assms(2) by (rule run_trace)
  from vault_run_conserves [OF r f(1)] f show "lc_balance s = owed (vault_of s) + surplus (trace lib s0 calls)" "finite_claims (vault_of s)"
    by (simp_all add: vault_of_def)
  from claims_ok_run [OF f(3)] show "claims_ok (vault_of s)" unfolding assms(2) .
qed

text \<open>C18 The contract refines the vault: over any sequence of calls, the calls that take effect are steps of
  the specification, from the vault the contract starts as to the one it ends as.\<close>

theorem credits_refine_vault:
  "vault_run (vault_of s) (trace lib s calls) (vault_of (run lib s calls))"
  by (rule run_trace)

text \<open>C4 The contract is solvent: after any sequence of calls, whoever made them, its balance is exactly what
  live notes and the operator are owed plus the Ether forced into it; and no pending exit claims more than
  its deposit.\<close>

theorem contract_solvent:
  assumes "constructor lib tx0 server x y cMax bounty = Inr s0" "s = run lib s0 calls"
  shows "lc_balance s = owed (vault_of s) + surplus (trace lib s0 calls)
    \<and> (\<forall>c. nt_status (lc_notes s c) = Exiting \<longrightarrow> ex_payout (lc_exits s c) \<le> nt_amount (lc_notes s c))"
proof (intro conjI allI impI)
  fix c
  assume "nt_status (lc_notes s c) = Exiting"
  with deployed_solvent(2) [OF assms] show "ex_payout (lc_exits s c) \<le> nt_amount (lc_notes s c)" by (rule claims_ok_exit)
qed (rule deployed_solvent(1) [OF assms])

theorem contract_solvent_witness:
  "lc_balance (run sample_credits_lib sample_deployed sample_calls)
     = owed (vault_of (run sample_credits_lib sample_deployed sample_calls)) + surplus (trace sample_credits_lib sample_deployed sample_calls)
   \<and> 60 \<le> nt_amount (lc_notes (run sample_credits_lib sample_deployed sample_calls) 8)"
  using contract_solvent [OF sample_deploy refl, of sample_calls] sample_leaving by (metis exit_info.select_convs(4))

section \<open>Exits complete\<close>

lemma owed_ge:
  assumes "finite_claims (vault_of s)" "nt_status (lc_notes s c) = Exiting"
  shows "lc_operatorBalance s + nt_amount (lc_notes s c) \<le> owed (vault_of s)"
  using held_ge [of "v_claims (vault_of s)" c] assms by (simp add: finite_claims_def owed_def vault_of_def)

lemma finalize_runs:
  assumes "nt_status (lc_notes s c) = Exiting" "finite_claims (vault_of s)" "claims_ok (vault_of s)"
    "owed (vault_of s) \<le> lc_balance s" "lc_balance s < 2 ^ 256" "tx_value tx = 0" "ex_exitAt (lc_exits s c) \<le> tx_time tx"
    "ex_recipient (lc_exits s c) \<noteq> cb_this lib" "tx_accepts tx (ex_recipient (lc_exits s c))"
  obtains t where "exec lib (tx, FinalizeWithdrawal c) s = Inr t" "nt_status (lc_notes t c) = Closed"
    "v_paid (vault_of t) = v_paid (vault_of s) @ [(ex_recipient (lc_exits s c), ex_payout (lc_exits s c))]"
proof -
  have "ex_payout (lc_exits s c) \<le> nt_amount (lc_notes s c)" using assms(3,1) by (rule claims_ok_exit)
  moreover have "lc_operatorBalance s + nt_amount (lc_notes s c) \<le> lc_balance s" using owed_ge [OF assms(2,1)] assms(4) by simp
  ultimately have "\<exists>t. exec lib (tx, FinalizeWithdrawal c) s = Inr t \<and> nt_status (lc_notes t c) = Closed \<and>
      v_paid (vault_of t) = v_paid (vault_of s) @ [(ex_recipient (lc_exits s c), ex_payout (lc_exits s c))]"
    using assms by (simp add: exec_def finalizeWithdrawal_def contract_defs vault_of_def)
  then show thesis using that by blast
qed

lemma trace_slashes: "(now, Slashes c) \<in> set (trace lib s calls) \<Longrightarrow> \<exists>tx k. (tx, Credits.Slash k) \<in> set calls \<and> cb_poseidon1 lib k = c"
proof (induction calls arbitrary: s)
  case (Cons call calls)
  then show ?case by (cases "(lib, call)" rule: label_of.cases) (fastforce split: sum.splits)+
qed simp

text \<open>C5 Exits complete: whatever anyone calls after an exit has started, the owner and the operator included,
  as long as nobody shows a key of that note, the exit has been paid in full to its recipient, or it is
  still as it was started and any call of \<open>finalizeWithdrawal\<close> from its date on pays it.  The balance is
  below \<open>2 ^ 256\<close>, as all Ether is, and the recipient takes Ether.\<close>

theorem exit_completes:
  assumes "constructor lib tx0 server x y cMax bounty = Inr s0" "s = run lib s0 before" "nt_status (lc_notes s c) = Exiting"
    "t = run lib s later" "\<forall>(tx, a) \<in> set later. \<forall>k. a = Credits.Slash k \<longrightarrow> cb_poseidon1 lib k \<noteq> c" "lc_balance t < 2 ^ 256"
  shows "nt_status (lc_notes t c) = Closed \<and> (ex_recipient (lc_exits s c), ex_payout (lc_exits s c)) \<in> set (v_paid (vault_of t))
    \<or> nt_status (lc_notes t c) = Exiting \<and> (\<forall>tx. tx_value tx = 0 \<and> ex_exitAt (lc_exits s c) \<le> tx_time tx
        \<and> ex_recipient (lc_exits s c) \<noteq> cb_this lib \<and> tx_accepts tx (ex_recipient (lc_exits s c)) \<longrightarrow>
        (\<exists>u. exec lib (tx, FinalizeWithdrawal c) t = Inr u \<and> nt_status (lc_notes u c) = Closed
           \<and> v_paid (vault_of u) = v_paid (vault_of t) @ [(ex_recipient (lc_exits s c), ex_payout (lc_exits s c))]))"
proof -
  let ?e = "lc_exits s c"
  have t: "t = run lib s0 (before @ later)" by (simp add: assms(2,4) run_append)
  note ok = deployed_solvent [OF assms(1) t]
  have "v_claims (vault_of s) c = Leaving (nt_amount (lc_notes s c)) (ex_payout ?e) (ex_recipient ?e) (ex_exitAt ?e)"
    using assms(3) by (simp add: vault_of_def)
  moreover have "(now, Slashes c) \<notin> set (trace lib s later)" for now using assms(5) trace_slashes by fastforce
  ultimately have "v_claims (vault_of t) c = Leaving (nt_amount (lc_notes s c)) (ex_payout ?e) (ex_recipient ?e) (ex_exitAt ?e)
      \<or> v_claims (vault_of t) c = Settled Closed \<and> (ex_recipient ?e, ex_payout ?e) \<in> set (v_paid (vault_of t))"
    unfolding assms(4) by (intro leaving_run [OF run_trace])
  then show ?thesis
  proof
    assume l: "v_claims (vault_of t) c = Leaving (nt_amount (lc_notes s c)) (ex_payout ?e) (ex_recipient ?e) (ex_exitAt ?e)"
    then have "nt_status (lc_notes t c) = Exiting" and e: "ex_recipient (lc_exits t c) = ex_recipient ?e"
      "ex_payout (lc_exits t c) = ex_payout ?e" "ex_exitAt (lc_exits t c) = ex_exitAt ?e"
      by (simp_all add: vault_of_def claim_of_def split: status.splits)
    moreover from finalize_runs [OF this(1) ok(3,2) _ assms(6)] ok(1) e show ?thesis
      using calculation by (intro disjI2 conjI allI impI) (simp, metis le_add1)
  next
    assume "v_claims (vault_of t) c = Settled Closed \<and> (ex_recipient ?e, ex_payout ?e) \<in> set (v_paid (vault_of t))"
    then show ?thesis by (simp add: vault_of_def claim_of_def split: status.splits)
  qed
qed

definition sample_paused :: "(tx \<times> action) list" where
  "sample_paused = [(sample_tx 5 0 30, Pause)]"

theorem exit_completes_witness:
  "\<exists>u. exec sample_credits_lib (sample_tx 1 0 259220, FinalizeWithdrawal 8)
       (run sample_credits_lib (run sample_credits_lib sample_deployed sample_calls) sample_paused) = Inr u
     \<and> nt_status (lc_notes u 8) = Closed"
proof -
  let ?s = "run sample_credits_lib sample_deployed sample_calls" and ?tx = "sample_tx 1 0 259220"
  let ?t = "run sample_credits_lib ?s sample_paused"
  have st: "nt_status (lc_notes ?t 8) = Exiting" "lc_balance ?t < 2 ^ 256"
    by (simp_all add: sample_paused_def pause_def sample_contract)
  have "\<forall>(tx, a) \<in> set sample_paused. \<forall>k. a = Credits.Slash k \<longrightarrow> cb_poseidon1 sample_credits_lib k \<noteq> 8"
    by (simp add: sample_paused_def)
  from exit_completes [OF sample_deploy refl sample_leaving(1) refl this st(2)] st(1)
  have "\<forall>tx. tx_value tx = 0 \<and> ex_exitAt (lc_exits ?s 8) \<le> tx_time tx \<and> ex_recipient (lc_exits ?s 8) \<noteq> cb_this sample_credits_lib
      \<and> tx_accepts tx (ex_recipient (lc_exits ?s 8)) \<longrightarrow>
      (\<exists>u. exec sample_credits_lib (tx, FinalizeWithdrawal 8) ?t = Inr u \<and> nt_status (lc_notes u 8) = Closed)"
    by auto
  from this [rule_format, of ?tx] show ?thesis
    by (simp add: sample_leaving sample_tx_def) (simp add: sample_credits_lib_def)
qed

section \<open>Settings change only after their delay\<close>

lemma notes_frame:
  "\<not> settings_call a \<Longrightarrow> body lib tx a s = Inr t \<Longrightarrow> lc_pendingChanges t = lc_pendingChanges s
    \<and> lc_settlementVerifier t = lc_settlementVerifier s \<and> lc_serverAddress t = lc_serverAddress s
    \<and> lc_serverPublicKey t = lc_serverPublicKey s \<and> lc_acceptedRefundKeys t = lc_acceptedRefundKeys s
    \<and> lc_base t = lc_base s \<and> lc_totalPausedTime t = lc_totalPausedTime s \<and> lc_pausedAt t = lc_pausedAt s"
  by (cases a) (auto simp: contract_defs deposit_def initiateWithdrawal_def finalizeWithdrawal_def slash_def claimExpired_def
      withdrawOperatorBalance_def split: if_splits)

text \<open>The proposal a pending change comes from.\<close>

fun proposes :: "target \<Rightarrow> action \<Rightarrow> pending_change \<Rightarrow> bool" where
  "proposes TRefundKey (ProposeRefundKey x y) change = (pc_keyX change = x \<and> pc_keyY change = y)"
| "proposes target (ProposeChange target' v) change = (target' = target \<and> target \<noteq> TRefundKey \<and> pc_value change = v)"
| "proposes _ _ _ = False"

definition proposed_in :: "(tx \<times> action) list \<Rightarrow> target \<Rightarrow> pending_change \<Rightarrow> bool" where
  "proposed_in calls target change \<longleftrightarrow> (\<exists>(tx, a) \<in> set calls. proposes target a change \<and> pc_eta change = tx_time tx + ADMIN_DELAY)"

definition pending_ok :: "(tx \<times> action) list \<Rightarrow> 'b credits \<Rightarrow> bool" where
  "pending_ok calls s \<longleftrightarrow> (\<forall>target. pc_eta (lc_pendingChanges s target) \<noteq> 0 \<longrightarrow> proposed_in calls target (lc_pendingChanges s target))"

lemma exec_body:
  assumes "exec lib (tx, a) s = Inr t"
  shows "body lib tx a (s\<lparr>lc_balance := lc_balance s + tx_value tx\<rparr>) = Inr t"
  using assms by (simp add: exec_def split: if_splits)

lemma proposeChange_pending:
  assumes "proposeChange lib tx target v s = Inr t"
  shows "target \<noteq> TRefundKey \<and> lc_pendingChanges t = (lc_pendingChanges s)(target :=
    \<lparr>pc_value = v, pc_keyX = 0, pc_keyY = 0, pc_eta = tx_time tx + ADMIN_DELAY\<rparr>)"
  using assms by (auto simp: proposeChange_def contract_defs split: if_splits)

lemma proposeRefundKey_pending:
  assumes "proposeRefundKey lib tx x y s = Inr t"
  shows "lc_pendingChanges t = (lc_pendingChanges s)(TRefundKey :=
    \<lparr>pc_value = 0, pc_keyX = x, pc_keyY = y, pc_eta = tx_time tx + ADMIN_DELAY\<rparr>)"
  using assms by (auto simp: proposeRefundKey_def contract_defs split: if_splits)

lemma other_pending:
  assumes "body lib tx a s = Inr t" "\<And>target v. a \<noteq> ProposeChange target v" "\<And>x y. a \<noteq> ProposeRefundKey x y"
  shows "lc_pendingChanges t target = lc_pendingChanges s target \<or> lc_pendingChanges t target = no_change"
proof (cases "settings_call a")
  case True
  with assms show ?thesis by (cases a) (auto simp: executeChange_def cancelChange_def pause_def unpause_def contract_defs
      split: if_splits target.splits)
qed (use notes_frame assms(1) in force)

lemma pending_ok_exec:
  assumes "exec lib (tx, a) s = Inr t" "pending_ok calls s" "(tx, a) \<in> set calls"
  shows "pending_ok calls t"
proof -
  note b = exec_body [OF assms(1)]
  have old: "proposed_in calls target (lc_pendingChanges s target)" if "pc_eta (lc_pendingChanges s target) \<noteq> 0" for target
    using assms(2) that by (simp add: pending_ok_def)
  consider (change) target v where "a = ProposeChange target v" | (key) x y where "a = ProposeRefundKey x y"
    | (other) "\<And>target v. a \<noteq> ProposeChange target v" "\<And>x y. a \<noteq> ProposeRefundKey x y" by metis
  then show ?thesis
  proof cases
    case change
    with b have "target \<noteq> TRefundKey \<and> lc_pendingChanges t = (lc_pendingChanges s)(target :=
        \<lparr>pc_value = v, pc_keyX = 0, pc_keyY = 0, pc_eta = tx_time tx + ADMIN_DELAY\<rparr>)"
      using proposeChange_pending by fastforce
    with old assms(3) change show ?thesis
      unfolding pending_ok_def proposed_in_def by (auto intro!: bexI [of _ "(tx, a)"])
  next
    case key
    with b have "lc_pendingChanges t = (lc_pendingChanges s)(TRefundKey :=
        \<lparr>pc_value = 0, pc_keyX = x, pc_keyY = y, pc_eta = tx_time tx + ADMIN_DELAY\<rparr>)"
      using proposeRefundKey_pending by fastforce
    with old assms(3) key show ?thesis
      unfolding pending_ok_def proposed_in_def by (auto intro!: bexI [of _ "(tx, a)"])
  next
    case other
    have "lc_pendingChanges t target = lc_pendingChanges s target \<or> lc_pendingChanges t target = no_change" for target
      using other_pending [OF b other, of target] by simp
    then show ?thesis using old unfolding pending_ok_def by (metis no_change_def pending_change.select_convs(4))
  qed
qed

lemma pending_ok_run:
  assumes "constructor lib tx0 server x y cMax bounty = Inr s0"
  shows "pending_ok calls (run lib s0 calls)"
proof (rule run_induct [where P = "pending_ok calls"])
  show "pending_ok calls s0"
    using assms by (auto simp: pending_ok_def constructor_def contract_defs no_change_def split: if_splits)
qed (rule pending_ok_exec)

text \<open>The settings behind the timelock, and what a call does to them.\<close>

definition settings :: "'b credits \<Rightarrow> nat \<times> nat \<times> nat \<times> nat" where
  "settings s = (lc_settlementVerifier s, lc_serverAddress s, lc_serverPublicKey s)"

definition apply_change :: "target \<Rightarrow> pending_change \<Rightarrow> 'b credits \<Rightarrow> nat \<times> nat \<times> nat \<times> nat" where
  "apply_change target change s = (case target of
     TSettlementVerifier \<Rightarrow> (pc_value change, lc_serverAddress s, lc_serverPublicKey s)
   | TServerAddress \<Rightarrow> (lc_settlementVerifier s, pc_value change, lc_serverPublicKey s)
   | TRefundKey \<Rightarrow> (lc_settlementVerifier s, lc_serverAddress s, pc_keyX change, pc_keyY change))"

lemma executeChange_settings:
  assumes "executeChange lib tx target s = Inr t"
  shows "cb_onlyOwner lib (tx_sender tx) (lc_base s) = Inr () \<and> pc_eta (lc_pendingChanges s target) \<noteq> 0
    \<and> pc_eta (lc_pendingChanges s target) \<le> tx_time tx \<and> settings t = apply_change target (lc_pendingChanges s target) s
    \<and> (\<forall>k. lc_acceptedRefundKeys s k \<longrightarrow> lc_acceptedRefundKeys t k)"
  using assms by (auto simp: executeChange_def contract_defs settings_def apply_change_def split: if_splits target.splits)

lemma other_settings:
  assumes "body lib tx a s = Inr t" "\<And>target. a \<noteq> ExecuteChange target"
  shows "settings t = settings s \<and> lc_acceptedRefundKeys t = lc_acceptedRefundKeys s"
proof (cases "settings_call a")
  case True
  with assms show ?thesis by (cases a) (auto simp: settings_def proposeChange_def proposeRefundKey_def cancelChange_def
      pause_def unpause_def contract_defs split: if_splits)
qed (use notes_frame [of a lib tx s t] assms(1) in \<open>simp add: settings_def\<close>)

text \<open>C19 Settings change only behind the timelock: a call that changes the verifier, the operator's address or
  the refund key is the owner's execution of a change that an earlier call proposed at least seven days
  before, with exactly the proposed value, so that an exit started by the time of the proposal can be paid
  before; and a refund key once accepted for exits stays accepted.\<close>

theorem settings_are_timelocked:
  assumes "constructor lib tx0 server x y cMax bounty = Inr s0" "s = run lib s0 calls" "exec lib (tx, a) s = Inr t"
  shows "(settings t \<noteq> settings s \<longrightarrow> (\<exists>target tx' p change. a = ExecuteChange target
      \<and> cb_onlyOwner lib (tx_sender tx) (lc_base s) = Inr () \<and> settings t = apply_change target change s
      \<and> (tx', p) \<in> set calls \<and> proposes target p change \<and> tx_time tx' + ADMIN_DELAY \<le> tx_time tx
      \<and> (\<forall>started \<le> tx_time tx'. started + CHALLENGE_WINDOW < tx_time tx)))
    \<and> (\<forall>k. lc_acceptedRefundKeys s k \<longrightarrow> lc_acceptedRefundKeys t k)"
proof (cases "\<exists>target. a = ExecuteChange target")
  case True
  then obtain target where a: "a = ExecuteChange target" by blast
  let ?s = "s\<lparr>lc_balance := lc_balance s + tx_value tx\<rparr>" and ?change = "lc_pendingChanges s target"
  from exec_body [OF assms(3)] a have "executeChange lib tx target ?s = Inr t" by simp
  from executeChange_settings [OF this] have e: "cb_onlyOwner lib (tx_sender tx) (lc_base s) = Inr ()" "pc_eta ?change \<noteq> 0"
    "pc_eta ?change \<le> tx_time tx" "settings t = apply_change target ?change s" "\<forall>k. lc_acceptedRefundKeys s k \<longrightarrow> lc_acceptedRefundKeys t k"
    by (simp_all add: apply_change_def split: target.splits)
  have "proposed_in calls target ?change" using pending_ok_run [OF assms(1), of calls] e(2) assms(2) by (simp add: pending_ok_def)
  then obtain tx' p where p: "(tx', p) \<in> set calls" "proposes target p ?change" "pc_eta ?change = tx_time tx' + ADMIN_DELAY"
    by (auto simp: proposed_in_def)
  have "\<forall>started \<le> tx_time tx'. started + CHALLENGE_WINDOW < tx_time tx"
    using p(3) e(3) by (auto simp: ADMIN_DELAY_def CHALLENGE_WINDOW_def)
  with a e p show ?thesis by metis
next
  case False
  from exec_body [OF assms(3)] False have "settings t = settings (s\<lparr>lc_balance := lc_balance s + tx_value tx\<rparr>)
      \<and> lc_acceptedRefundKeys t = lc_acceptedRefundKeys (s\<lparr>lc_balance := lc_balance s + tx_value tx\<rparr>)"
    by (intro other_settings) auto
  then show ?thesis by (simp add: settings_def)
qed

definition sample_proposal :: "(tx \<times> action) list" where
  "sample_proposal = [(sample_tx 5 0 10, ProposeChange TServerAddress 9)]"

theorem settings_are_timelocked_witness:
  "\<exists>t. exec sample_credits_lib (sample_tx 5 0 604810, ExecuteChange TServerAddress)
       (run sample_credits_lib sample_deployed sample_proposal) = Inr t \<and> lc_serverAddress t = 9
     \<and> (\<exists>tx' p. (tx', p) \<in> set sample_proposal \<and> tx_time tx' + ADMIN_DELAY \<le> 604810) \<and> lc_acceptedRefundKeys t 3"
proof -
  let ?s = "run sample_credits_lib sample_deployed sample_proposal"
  have s: "lc_serverAddress ?s = 6" "lc_acceptedRefundKeys ?s 3"
    by (simp_all add: sample_proposal_def proposeChange_def sample_contract ADMIN_DELAY_def)
  obtain t where t: "exec sample_credits_lib (sample_tx 5 0 604810, ExecuteChange TServerAddress) ?s = Inr t" "lc_serverAddress t = 9"
    by (simp add: sample_proposal_def proposeChange_def executeChange_def sample_contract ADMIN_DELAY_def)
  have "settings t \<noteq> settings ?s" using s t(2) by (simp add: settings_def)
  with settings_are_timelocked [OF sample_deploy refl t(1)] s(2)
  have "\<exists>tx' p. (tx', p) \<in> set sample_proposal \<and> tx_time tx' + ADMIN_DELAY \<le> tx_time (sample_tx 5 0 604810)"
    "lc_acceptedRefundKeys t 3" by blast+
  with t show ?thesis by (auto simp: sample_tx_def)
qed

section \<open>Expiry\<close>

text \<open>What OpenZeppelin documents of \<open>Pausable\<close> and \<open>Ownable\<close>.\<close>

definition pausable_law :: "'b credits_lib \<Rightarrow> bool" where
  "pausable_law lib \<longleftrightarrow>
     (\<forall>b b'. cb_pause lib b = Inr b' \<longrightarrow> \<not> cb_paused lib b \<and> cb_paused lib b') \<and>
     (\<forall>b b'. cb_unpause lib b = Inr b' \<longrightarrow> cb_paused lib b \<and> \<not> cb_paused lib b') \<and>
     (\<forall>b b' who new. cb_transferOwnership lib who new b = Inr b' \<longrightarrow> cb_paused lib b' = cb_paused lib b) \<and>
     (\<forall>b b' who. cb_renounceOwnership lib who b = Inr b' \<longrightarrow> cb_paused lib b' = cb_paused lib b)"

text \<open>The seconds spent paused by the time \<open>now\<close>.\<close>

definition paused_by :: "'b credits_lib \<Rightarrow> nat \<Rightarrow> 'b credits \<Rightarrow> nat" where
  "paused_by lib now s = lc_totalPausedTime s + (if cb_paused lib (lc_base s) then now - lc_pausedAt s else 0)"

definition pause_ok :: "'b credits_lib \<Rightarrow> nat \<Rightarrow> 'b credits \<Rightarrow> bool" where
  "pause_ok lib now s \<longleftrightarrow> (cb_paused lib (lc_base s) \<longrightarrow> lc_pausedAt s \<le> now)"

lemma pausedTime_value: "pause_ok lib now s \<Longrightarrow> pausedTime lib now s = Inr p \<Longrightarrow> p = paused_by lib now s"
  by (auto simp: pausedTime_def paused_by_def pause_ok_def bind_eq_Inr u_add_def u_sub_def split: if_splits)

lemma paused_ownership:
  "pausable_law lib \<Longrightarrow> cb_transferOwnership lib who new b = Inr b' \<Longrightarrow> cb_paused lib b' = cb_paused lib b"
  "pausable_law lib \<Longrightarrow> cb_renounceOwnership lib who b = Inr b' \<Longrightarrow> cb_paused lib b' = cb_paused lib b"
  unfolding pausable_law_def by metis+

lemma pausing_frame:
  assumes "body lib tx a s = Inr t" "a \<noteq> Pause" "a \<noteq> Unpause" "pausable_law lib"
  shows "cb_paused lib (lc_base t) = cb_paused lib (lc_base s) \<and> lc_totalPausedTime t = lc_totalPausedTime s \<and> lc_pausedAt t = lc_pausedAt s"
proof (cases "settings_call a")
  case True
  with assms show ?thesis by (cases a) (auto simp: proposeChange_def proposeRefundKey_def executeChange_def cancelChange_def
      contract_defs paused_ownership split: if_splits target.splits)
qed (use notes_frame [of a lib tx s t] assms(1) in simp)

lemma paused_by_exec:
  assumes "exec lib (tx, a) s = Inr t" "pausable_law lib" "pause_ok lib now s" "now \<le> tx_time tx" "tx_time tx \<le> later"
  shows "pause_ok lib later t \<and> paused_by lib now s \<le> paused_by lib later t"
proof -
  note b = exec_body [OF assms(1)]
  consider "a = Pause" | "a = Unpause" | "a \<noteq> Pause" "a \<noteq> Unpause" by blast
  then show ?thesis
  proof cases
    case 3
    with pausing_frame [OF b _ _ assms(2)] assms(3-5) show ?thesis by (auto simp: pause_ok_def paused_by_def)
  qed (use b assms in \<open>auto simp: pause_def unpause_def contract_defs pause_ok_def paused_by_def pausable_law_def split: if_splits\<close>)
qed

lemma paused_by_later: "pause_ok lib now s \<Longrightarrow> now \<le> later \<Longrightarrow> pause_ok lib later s \<and> paused_by lib now s \<le> paused_by lib later s"
  by (auto simp: pause_ok_def paused_by_def)

lemma paused_by_run:
  assumes "pausable_law lib" "pause_ok lib now s" "sorted (now # map (tx_time \<circ> fst) calls @ [later])"
  shows "pause_ok lib later (run lib s calls) \<and> paused_by lib now s \<le> paused_by lib later (run lib s calls)"
  using assms(2,3)
proof (induction calls arbitrary: s now)
  case Nil
  then show ?case using paused_by_later by fastforce
next
  case (Cons call calls)
  obtain tx a where call: "call = (tx, a)" by (cases call)
  have one: "pause_ok lib (tx_time tx) (step lib s call)" "paused_by lib now s \<le> paused_by lib (tx_time tx) (step lib s call)"
    using Cons.prems assms(1) paused_by_exec [of lib tx a s _ now "tx_time tx"] paused_by_later [of lib now s "tx_time tx"]
    by (auto simp: step_def after_call_def call split: sum.split)
  have "sorted (tx_time tx # map (tx_time \<circ> fst) calls @ [later])" using Cons.prems(2) call by (simp add: comp_def)
  from Cons.IH [OF one(1) this] one(2) show ?case unfolding run_Cons by (auto intro: order_trans)
qed

text \<open>The parts of a note's expiry that no call changes once the note exists.\<close>

lemma deposited_exec:
  assumes "exec lib (tx, a) s = Inr t" "nt_status (lc_notes s c) \<noteq> StNone"
  shows "nt_status (lc_notes t c) \<noteq> StNone \<and> nt_depositedAt (lc_notes t c) = nt_depositedAt (lc_notes s c)
    \<and> lc_pausedTimeAtDeposit t c = lc_pausedTimeAtDeposit s c"
proof (cases "settings_call a")
  case True
  from settings_frame [OF this exec_body [OF assms(1)]] assms(2) show ?thesis by simp
next
  case False
  with exec_body [OF assms(1)] assms(2) show ?thesis
    by (cases a) (auto simp: contract_defs deposit_def initiateWithdrawal_def finalizeWithdrawal_def slash_def claimExpired_def
      withdrawOperatorBalance_def split: if_splits)
qed

lemma deposited_run:
  "nt_status (lc_notes s c) \<noteq> StNone \<Longrightarrow> t = run lib s calls \<Longrightarrow>
   nt_status (lc_notes t c) \<noteq> StNone \<and> nt_depositedAt (lc_notes t c) = nt_depositedAt (lc_notes s c)
    \<and> lc_pausedTimeAtDeposit t c = lc_pausedTimeAtDeposit s c"
  by (hypsubst, rule run_induct [where P = "\<lambda>t. nt_status (lc_notes t c) \<noteq> StNone \<and>
      nt_depositedAt (lc_notes t c) = nt_depositedAt (lc_notes s c) \<and> lc_pausedTimeAtDeposit t c = lc_pausedTimeAtDeposit s c"])
    (use deposited_exec in fastforce)+

lemma noteExpiry_value:
  assumes "noteExpiry lib now c s = Inr e" "pause_ok lib now s"
  shows "nt_status (lc_notes s c) \<noteq> StNone
    \<and> e = nt_depositedAt (lc_notes s c) + NOTE_TTL + paused_by lib now s - lc_pausedTimeAtDeposit s c"
  using assms pausedTime_value [OF assms(2)]
  by (auto simp: noteExpiry_def bind_eq_Inr u_add_def u_sub_def split: if_splits)

lemma deployed_paused:
  "constructor lib tx0 server x y cMax bounty = Inr s0 \<Longrightarrow> \<not> cb_paused lib (cb_construct lib (tx_sender tx0)) \<Longrightarrow> pause_ok lib now s0"
  by (auto simp: constructor_def contract_defs pause_ok_def split: if_splits)

text \<open>C21 Pausing never brings a note's expiry nearer: along any calls in the order of time, the expiry of a
  note read later is no earlier than the one read before, and the operator can claim the note only once
  that expiry has passed.\<close>

theorem expiry_never_nearer:
  assumes "pausable_law lib" "\<not> cb_paused lib (cb_construct lib (tx_sender tx0))"
    "constructor lib tx0 server x y cMax bounty = Inr s0" "s = run lib s0 before" "t = run lib s later"
    "sorted (0 # map (tx_time \<circ> fst) before @ [now])" "sorted (now # map (tx_time \<circ> fst) later @ [now'])"
    "noteExpiry lib now c s = Inr e" "noteExpiry lib now' c t = Inr e'"
  shows "e \<le> e' \<and> (\<forall>tx u. tx_time tx = now' \<longrightarrow> exec lib (tx, ClaimExpired c) t = Inr u \<longrightarrow> e \<le> now')"
proof -
  have p: "pause_ok lib now s"
    using paused_by_run [OF assms(1) deployed_paused [OF assms(3,2)] assms(6)] by (simp add: assms(4))
  have q: "pause_ok lib now' t \<and> paused_by lib now s \<le> paused_by lib now' t"
    using paused_by_run [OF assms(1) p assms(7)] by (simp add: assms(5))
  have d: "nt_depositedAt (lc_notes t c) = nt_depositedAt (lc_notes s c)" "lc_pausedTimeAtDeposit t c = lc_pausedTimeAtDeposit s c"
    using deposited_run [OF _ assms(5), of c] noteExpiry_value [OF assms(8) p] by auto
  have le: "e \<le> e'" using noteExpiry_value [OF assms(8) p] noteExpiry_value [OF assms(9)] q d by auto
  moreover have "e' \<le> now'" if "tx_time tx = now'" "exec lib (tx, ClaimExpired c) t = Inr u" for tx u
    using that assms(9) by (auto simp: exec_def claimExpired_def bind_eq_Inr split: if_splits)
  ultimately show ?thesis by fastforce
qed

lemma sample_pausable: "pausable_law sample_credits_lib"
  by (auto simp: pausable_law_def sample_credits_lib_def split: if_splits)

definition sample_pauses :: "(tx \<times> action) list" where
  "sample_pauses = [(sample_tx 5 0 20, Pause), (sample_tx 5 0 50, Unpause)]"

theorem expiry_never_nearer_witness:
  "noteExpiry sample_credits_lib 15 8 (run sample_credits_lib sample_deployed (take 1 sample_calls)) = Inr 31536010
   \<and> noteExpiry sample_credits_lib 60 8 (run sample_credits_lib (run sample_credits_lib sample_deployed (take 1 sample_calls)) sample_pauses)
      = Inr 31536040 \<and> (31536010::nat) \<le> 31536040"
proof -
  let ?s = "run sample_credits_lib sample_deployed (take 1 sample_calls)"
  have e: "noteExpiry sample_credits_lib 15 8 ?s = Inr 31536010"
    by (simp add: noteExpiry_def NOTE_TTL_def sample_contract)
  have e': "noteExpiry sample_credits_lib 60 8 (run sample_credits_lib ?s sample_pauses) = Inr 31536040"
    by (simp add: noteExpiry_def NOTE_TTL_def sample_pauses_def pause_def unpause_def sample_contract)
  have "\<not> cb_paused sample_credits_lib (cb_construct sample_credits_lib (tx_sender (sample_tx 5 0 1)))"
    by (simp add: sample_credits_lib_def)
  from expiry_never_nearer [OF sample_pausable this sample_deploy refl refl _ _ e e'] e e' show ?thesis
    by (simp add: sample_calls_def sample_pauses_def sample_tx_def)
qed

end
