(* ===== verification/NoteTree.thy ===== *)
theory NoteTree
  imports CreditsFacts
begin

text \<open>
  The tree of the contract over any sequence of calls.  Its leaves are those of the active notes and
  nothing else; its root is the reference root of these leaves; and the path the contract gives for an
  active note is one the request circuit accepts under a root the contract knows.
\<close>

section \<open>Leaves\<close>

text \<open>Every note has a leaf of its own, which holds \<open>Poseidon(c, D)\<close> as long as it is active and the empty
  value otherwise.\<close>

definition leaf_of :: "'b credits_lib \<Rightarrow> 'b credits \<Rightarrow> nat \<Rightarrow> nat" where
  "leaf_of lib s c = (if nt_status (lc_notes s c) = Active then cb_poseidon2 lib c (nt_amount (lc_notes s c)) else 0)"

definition leaves_ok :: "'b credits_lib \<Rightarrow> 'b credits \<Rightarrow> bool" where
  "leaves_ok lib s \<longleftrightarrow> length (lc_leaves s) \<le> 2 ^ TREE_DEPTH
     \<and> (\<forall>c. nt_status (lc_notes s c) \<noteq> StNone \<longrightarrow> nt_leafIndex (lc_notes s c) < length (lc_leaves s)
          \<and> lc_leaves s ! nt_leafIndex (lc_notes s c) = leaf_of lib s c)
     \<and> (\<forall>c c'. nt_status (lc_notes s c) \<noteq> StNone \<longrightarrow> nt_status (lc_notes s c') \<noteq> StNone \<longrightarrow>
          nt_leafIndex (lc_notes s c) = nt_leafIndex (lc_notes s c') \<longrightarrow> c = c')
     \<and> (\<forall>i < length (lc_leaves s). \<exists>c. nt_status (lc_notes s c) \<noteq> StNone \<and> nt_leafIndex (lc_notes s c) = i)"

definition tree_part :: "'b credits \<Rightarrow> nat list \<times> tree_nodes \<times> nat \<times> nat list \<times> nat" where
  "tree_part s = (lc_zeros s, lc_treeNodes s, lc_merkleRoot s, lc_roots s, lc_currentRootIndex s)"

text \<open>How a call changes the notes, the leaves and the tree.\<close>

inductive leaf_change :: "'b credits_lib \<Rightarrow> 'b credits \<Rightarrow> 'b credits \<Rightarrow> bool" for lib where
  Same: "lc_leaves t = lc_leaves s \<Longrightarrow> tree_part t = tree_part s \<Longrightarrow> (\<And>c. leaf_of lib t c = leaf_of lib s c) \<Longrightarrow>
    (\<And>c. nt_leafIndex (lc_notes t c) = nt_leafIndex (lc_notes s c)) \<Longrightarrow>
    (\<And>c. nt_status (lc_notes t c) = StNone \<longleftrightarrow> nt_status (lc_notes s c) = StNone) \<Longrightarrow> leaf_change lib s t"
| Add: "nt_status (lc_notes s c) = StNone \<Longrightarrow> length (lc_leaves s) \<noteq> 2 ^ TREE_DEPTH \<Longrightarrow>
    lc_leaves t = lc_leaves s @ [cb_poseidon2 lib c d] \<Longrightarrow>
    lc_notes t = (lc_notes s)(c := \<lparr>nt_amount = d, nt_depositedAt = now, nt_leafIndex = length (lc_leaves s), nt_status = Active\<rparr>) \<Longrightarrow>
    tree_part t = tree_part (write_leaf lib (length (lc_leaves s)) (s\<lparr>lc_leaves := lc_leaves t\<rparr>)) \<Longrightarrow> leaf_change lib s t"
| Remove: "nt_status (lc_notes s c) = Active \<Longrightarrow> st \<noteq> StNone \<Longrightarrow> st \<noteq> Active \<Longrightarrow>
    lc_leaves t = (lc_leaves s)[nt_leafIndex (lc_notes s c) := 0] \<Longrightarrow>
    lc_notes t = (lc_notes s)(c := (lc_notes s c)\<lparr>nt_status := st\<rparr>) \<Longrightarrow>
    tree_part t = tree_part (write_leaf lib (nt_leafIndex (lc_notes s c)) (s\<lparr>lc_leaves := lc_leaves t\<rparr>)) \<Longrightarrow> leaf_change lib s t"

lemma leaf_change_ok:
  assumes "leaf_change lib s t" "leaves_ok lib s"
  shows "leaves_ok lib t"
  using assms
proof (cases rule: leaf_change.cases)
  case Same
  with assms(2) show ?thesis unfolding leaves_ok_def by simp
next
  case (Add c d now)
  note ok = assms(2) [unfolded leaves_ok_def]
  have l: "leaf_of lib t x = (if x = c then cb_poseidon2 lib c d else leaf_of lib s x)" for x
    by (simp add: leaf_of_def Add)
  have st: "nt_status (lc_notes t x) \<noteq> StNone \<longleftrightarrow> x = c \<or> nt_status (lc_notes s x) \<noteq> StNone"
    and ix: "nt_leafIndex (lc_notes t x) = (if x = c then length (lc_leaves s) else nt_leafIndex (lc_notes s x))" for x
    by (simp_all add: Add(4))
  have old: "nt_leafIndex (lc_notes s x) < length (lc_leaves s)" "lc_leaves s ! nt_leafIndex (lc_notes s x) = leaf_of lib s x"
    if "nt_status (lc_notes s x) \<noteq> StNone" for x using ok that by blast+
  have inj: "x = x'" if "nt_status (lc_notes s x) \<noteq> StNone" "nt_status (lc_notes s x') \<noteq> StNone"
    "nt_leafIndex (lc_notes s x) = nt_leafIndex (lc_notes s x')" for x x' using ok that by blast
  have "\<exists>x. nt_status (lc_notes t x) \<noteq> StNone \<and> nt_leafIndex (lc_notes t x) = i" if "i < length (lc_leaves t)" for i
  proof (cases "i = length (lc_leaves s)")
    case False
    with that have "i < length (lc_leaves s)" by (simp add: Add(3))
    then obtain x where "nt_status (lc_notes s x) \<noteq> StNone" "nt_leafIndex (lc_notes s x) = i" using ok by blast
    then show ?thesis using Add(1) by (intro exI [of _ x]) (auto simp: st ix)
  qed (metis st ix)
  moreover have "nt_leafIndex (lc_notes t x) < length (lc_leaves t) \<and> lc_leaves t ! nt_leafIndex (lc_notes t x) = leaf_of lib t x"
    if "nt_status (lc_notes t x) \<noteq> StNone" for x using that old [of x] by (auto simp: st ix l Add(3) nth_append)
  moreover have "x = x'" if "nt_status (lc_notes t x) \<noteq> StNone" "nt_status (lc_notes t x') \<noteq> StNone"
    "nt_leafIndex (lc_notes t x) = nt_leafIndex (lc_notes t x')" for x x'
    using that inj old(1) unfolding st ix by (metis less_irrefl)
  moreover have "length (lc_leaves t) \<le> 2 ^ TREE_DEPTH" using ok Add(2,3) by auto
  ultimately show ?thesis unfolding leaves_ok_def by blast
next
  case (Remove c st)
  note ok = assms(2) [unfolded leaves_ok_def]
  have l: "leaf_of lib t x = (if x = c then 0 else leaf_of lib s x)" for x
    using Remove(3) by (simp add: leaf_of_def Remove(5))
  have n: "nt_status (lc_notes t x) = StNone \<longleftrightarrow> nt_status (lc_notes s x) = StNone" "nt_leafIndex (lc_notes t x) = nt_leafIndex (lc_notes s x)" for x
    using Remove by simp_all
  have "lc_leaves t ! nt_leafIndex (lc_notes s x) = leaf_of lib t x" if "nt_status (lc_notes s x) \<noteq> StNone" for x
  proof (cases "x = c")
    case True
    with ok that show ?thesis by (simp add: l Remove(4))
  next
    case False
    then have "nt_leafIndex (lc_notes s x) \<noteq> nt_leafIndex (lc_notes s c)" using ok that Remove(1) by (metis status.distinct(1))
    with False ok that show ?thesis by (simp add: l Remove(4))
  qed
  then show ?thesis unfolding leaves_ok_def n using ok by (simp add: Remove(4))
qed

lemma exec_leaf_change:
  assumes "exec lib (tx, a) s = Inr t"
  shows "leaf_change lib s t"
proof (cases "settings_call a")
  case True
  from settings_frame [OF this exec_body [OF assms]] show ?thesis by (intro leaf_change.Same) (simp_all add: leaf_of_def tree_part_def)
next
  case False
  let ?s = "s\<lparr>lc_balance := lc_balance s + tx_value tx\<rparr>"
  note b = exec_body [OF assms]
  show ?thesis
  proof (cases a)
    case (Deposit c)
    with b show ?thesis by (intro leaf_change.Add [of s c t lib "tx_value tx" "tx_time tx"]) (auto simp: deposit_def contract_defs tree_part_def split: if_splits)
  next
    case (InitiateWithdrawal c r key pf n y p)
    with b show ?thesis by (intro leaf_change.Remove [of s c Exiting]) (auto simp: initiateWithdrawal_def contract_defs tree_part_def split: if_splits)
  next
    case (FinalizeWithdrawal c)
    with b show ?thesis by (intro leaf_change.Same) (auto simp: finalizeWithdrawal_def contract_defs leaf_of_def tree_part_def split: if_splits)
  next
    case (Slash k)
    let ?c = "cb_poseidon1 lib k"
    show ?thesis
    proof (cases "nt_status (lc_notes s ?c) = Active")
      case True
      with b Slash show ?thesis by (intro leaf_change.Remove [of s ?c Slashed]) (auto simp: slash_def contract_defs tree_part_def split: if_splits)
    next
      case False
      with b Slash show ?thesis by (intro leaf_change.Same) (auto simp: slash_def contract_defs leaf_of_def tree_part_def split: if_splits)
    qed
  next
    case (ClaimExpired c)
    with b show ?thesis by (intro leaf_change.Remove [of s c Expired]) (auto simp: claimExpired_def contract_defs tree_part_def split: if_splits)
  next
    case WithdrawOperatorBalance
    with b show ?thesis by (intro leaf_change.Same) (auto simp: withdrawOperatorBalance_def contract_defs leaf_of_def tree_part_def split: if_splits)
  next
    case ForceEther
    with b show ?thesis by (intro leaf_change.Same) (auto simp: leaf_of_def tree_part_def)
  qed (use False in simp_all)
qed

lemma deployed_leaves: "constructor lib tx0 server x y cMax bounty = Inr s0 \<Longrightarrow> leaves_ok lib s0"
  by (auto simp: constructor_def contract_defs leaves_ok_def no_note_def split: if_splits)

lemma leaves_ok_run:
  assumes "constructor lib tx0 server x y cMax bounty = Inr s0"
  shows "leaves_ok lib (run lib s0 calls)"
  by (rule run_induct [where P = "leaves_ok lib"])
    (use deployed_leaves [OF assms] exec_leaf_change leaf_change_ok in blast)+

section \<open>The root\<close>

definition tree_ok :: "'b credits_lib \<Rightarrow> 'b credits \<Rightarrow> bool" where
  "tree_ok lib s \<longleftrightarrow> lc_zeros s = zeros_of (cb_poseidon2 lib) \<and> nodes_ok (cb_poseidon2 lib) (lc_leaves s) (lc_treeNodes s)
     \<and> lc_merkleRoot s = subtree (cb_poseidon2 lib) (lc_leaves s) TREE_DEPTH 0
     \<and> length (lc_roots s) = ROOT_HISTORY_SIZE \<and> lc_currentRootIndex s < ROOT_HISTORY_SIZE
     \<and> lc_roots s ! lc_currentRootIndex s = lc_merkleRoot s"

lemma tree_ok_cong: "tree_part t = tree_part s \<Longrightarrow> lc_leaves t = lc_leaves s \<Longrightarrow> tree_ok lib t = tree_ok lib s"
  by (simp add: tree_ok_def tree_part_def)

lemma write_leaf_leaves [simp]: "lc_leaves (write_leaf lib i s) = lc_leaves s"
  by (simp add: contract_defs)

lemma write_leaf_ok:
  assumes "tree_ok lib s" "i < length ls" "i < 2 ^ TREE_DEPTH" "\<And>k. k \<noteq> i \<Longrightarrow> leaf_at ls k = leaf_at (lc_leaves s) k"
    "tree_nonzero (cb_poseidon2 lib) ls"
  shows "tree_ok lib (write_leaf lib i (s\<lparr>lc_leaves := ls\<rparr>))"
proof -
  obtain nodes r where u: "updateLeaf (cb_poseidon2 lib) (zeros_of (cb_poseidon2 lib)) ls i (lc_treeNodes s) = (nodes, r)" by fastforce
  have z: "lc_zeros s = zeros_of (cb_poseidon2 lib)" and n: "nodes_ok (cb_poseidon2 lib) (lc_leaves s) (lc_treeNodes s)"
    and h: "length (lc_roots s) = ROOT_HISTORY_SIZE" using assms(1) by (simp_all add: tree_ok_def)
  have "write_leaf lib i (s\<lparr>lc_leaves := ls\<rparr>) = pushRoot r (s\<lparr>lc_leaves := ls, lc_treeNodes := nodes\<rparr>)"
    using u by (simp add: write_leaf_def z)
  moreover have "0 < ROOT_HISTORY_SIZE" by (simp add: ROOT_HISTORY_SIZE_def)
  ultimately show ?thesis using updateLeaf_ok [OF assms(5) n assms(2,3) assms(4) u] z h
    by (simp add: tree_ok_def pushRoot_def emit_def Let_def)
qed

lemma leaf_change_tree_ok:
  assumes "leaf_change lib s t" "leaves_ok lib s" "tree_ok lib s" "tree_nonzero (cb_poseidon2 lib) (lc_leaves t)"
  shows "tree_ok lib t"
  using assms(1)
proof (cases rule: leaf_change.cases)
  case Same
  from tree_ok_cong [OF Same(2,1)] assms(3) show ?thesis by blast
next
  case (Add c d now)
  have len: "length (lc_leaves s) < 2 ^ TREE_DEPTH" using assms(2) Add(2) by (auto simp: leaves_ok_def)
  have "leaf_at (lc_leaves t) k = leaf_at (lc_leaves s) k" if "k \<noteq> length (lc_leaves s)" for k
    using that by (simp add: leaf_at_def Add(3) nth_append)
  then have "tree_ok lib (write_leaf lib (length (lc_leaves s)) (s\<lparr>lc_leaves := lc_leaves t\<rparr>))"
    using len by (intro write_leaf_ok [OF assms(3) _ _ _ assms(4)]) (simp_all add: Add(3))
  with tree_ok_cong [OF Add(5)] show ?thesis by simp
next
  case (Remove c st)
  let ?i = "nt_leafIndex (lc_notes s c)"
  have i: "?i < length (lc_leaves s)" "length (lc_leaves s) \<le> 2 ^ TREE_DEPTH" using assms(2) Remove(1) by (auto simp: leaves_ok_def)
  have "leaf_at (lc_leaves t) k = leaf_at (lc_leaves s) k" if "k \<noteq> ?i" for k
    using that by (simp add: leaf_at_def Remove(4))
  then have "tree_ok lib (write_leaf lib ?i (s\<lparr>lc_leaves := lc_leaves t\<rparr>))"
    using i by (intro write_leaf_ok [OF assms(3) _ _ _ assms(4)]) (simp_all add: Remove(4))
  with tree_ok_cong [OF Remove(6)] show ?thesis by simp
qed

lemma deployed_tree: "constructor lib tx0 server x y cMax bounty = Inr s0 \<Longrightarrow> tree_ok lib s0"
  by (auto simp: constructor_def tree_ok_def contract_defs nodes_ok_empty subtree_empty ROOT_HISTORY_SIZE_def split: if_splits)

text \<open>No inner node of the tree is zero at any point of the run.\<close>

definition trees_nonzero :: "'b credits_lib \<Rightarrow> 'b credits \<Rightarrow> (tx \<times> action) list \<Rightarrow> bool" where
  "trees_nonzero lib s calls \<longleftrightarrow> (\<forall>n \<le> length calls. tree_nonzero (cb_poseidon2 lib) (lc_leaves (run lib s (take n calls))))"

lemma tree_ok_run:
  assumes "leaves_ok lib s" "tree_ok lib s" "trees_nonzero lib s calls"
  shows "tree_ok lib (run lib s calls)"
  using assms
proof (induction calls arbitrary: s)
  case (Cons call calls)
  obtain tx a where call: "call = (tx, a)" by (cases call)
  let ?t = "step lib s call"
  have later: "trees_nonzero lib ?t calls"
    unfolding trees_nonzero_def
  proof (intro allI impI)
    fix n assume "n \<le> length calls"
    then show "tree_nonzero (cb_poseidon2 lib) (lc_leaves (run lib ?t (take n calls)))"
      using Cons.prems(3) [unfolded trees_nonzero_def, rule_format, of "Suc n"] by simp
  qed
  have now: "tree_nonzero (cb_poseidon2 lib) (lc_leaves ?t)" using later unfolding trees_nonzero_def by fastforce
  have "leaves_ok lib ?t \<and> tree_ok lib ?t"
  proof (cases "exec lib (tx, a) s")
    case (Inr t)
    then have "?t = t" by (simp add: step_def after_call_def call)
    with exec_leaf_change [OF Inr] Cons.prems(1,2) now show ?thesis by (metis leaf_change_ok leaf_change_tree_ok)
  qed (use Cons.prems in \<open>simp add: step_def after_call_def call\<close>)
  then show ?case using Cons.IH later by simp
qed simp

lemma length_merkle_path: "length (merkle_path k zs nodes level index) = k"
  by (induction k arbitrary: level index) simp_all

lemma subtree_root_leaf:
  assumes "tree_ok lib s" "i < length (lc_leaves s)" "length (lc_leaves s) \<le> 2 ^ TREE_DEPTH"
  shows "MerkleTreeChecker (cb_poseidon2 lib) (lc_leaves s ! i) (merkle_path TREE_DEPTH (lc_zeros s) (lc_treeNodes s) 0 i) = Some (lc_merkleRoot s)"
  using merkle_path_ok [of "cb_poseidon2 lib" "lc_leaves s" "lc_treeNodes s" 0 TREE_DEPTH i] assms
  by (simp add: tree_ok_def leaf_at_def)

text \<open>C20 The tree is the reference tree of the active notes: after any sequence of calls the root is the root
  of the full tree over the leaves, a leaf is \<open>Poseidon(c, D)\<close> of the active note it belongs to or empty,
  and for every active note \<open>getMerkleProof\<close> returns a path along which the request circuit computes the
  current root, which the contract knows.  No inner node of a tree on the way hashes to zero.\<close>

theorem active_notes_provable:
  assumes "constructor lib tx0 server x y cMax bounty = Inr s0" "s = run lib s0 calls" "trees_nonzero lib s0 calls"
  shows "lc_merkleRoot s = subtree (cb_poseidon2 lib) (lc_leaves s) TREE_DEPTH 0
    \<and> (\<forall>i < length (lc_leaves s). \<exists>c. nt_leafIndex (lc_notes s c) = i \<and> lc_leaves s ! i = leaf_of lib s c)
    \<and> (\<forall>c. nt_status (lc_notes s c) = Active \<longrightarrow> (\<exists>path. getMerkleProof (nt_leafIndex (lc_notes s c)) s = Inr path
         \<and> length path = TREE_DEPTH
         \<and> MerkleTreeChecker (cb_poseidon2 lib) (cb_poseidon2 lib c (nt_amount (lc_notes s c))) path = Some (lc_merkleRoot s)))
    \<and> (lc_merkleRoot s \<noteq> 0 \<longrightarrow> isKnownRoot (lc_merkleRoot s) s)"
proof -
  have l: "leaves_ok lib s" unfolding assms(2) by (rule leaves_ok_run [OF assms(1)])
  have t: "tree_ok lib s" unfolding assms(2) by (intro tree_ok_run deployed_leaves [OF assms(1)] deployed_tree [OF assms(1)] assms(3))
  have "\<exists>c. nt_leafIndex (lc_notes s c) = i \<and> lc_leaves s ! i = leaf_of lib s c" if "i < length (lc_leaves s)" for i
    using l that unfolding leaves_ok_def by blast
  moreover have "\<exists>path. getMerkleProof (nt_leafIndex (lc_notes s c)) s = Inr path \<and> length path = TREE_DEPTH
      \<and> MerkleTreeChecker (cb_poseidon2 lib) (cb_poseidon2 lib c (nt_amount (lc_notes s c))) path = Some (lc_merkleRoot s)"
    if a: "nt_status (lc_notes s c) = Active" for c
  proof -
    have "nt_leafIndex (lc_notes s c) < length (lc_leaves s)" "lc_leaves s ! nt_leafIndex (lc_notes s c) = leaf_of lib s c"
      "length (lc_leaves s) \<le> 2 ^ TREE_DEPTH" using l a unfolding leaves_ok_def by (metis status.distinct(1))+
    with subtree_root_leaf [OF t this(1)] a show ?thesis by (simp add: getMerkleProof_def length_merkle_path leaf_of_def)
  qed
  moreover have "isKnownRoot (lc_merkleRoot s) s" if "lc_merkleRoot s \<noteq> 0"
    using t that by (auto simp: isKnownRoot_def tree_ok_def list_ex_iff)
  ultimately show ?thesis using t unfolding tree_ok_def by blast
qed

lemma sample_trees_nonzero: "trees_nonzero sample_credits_lib s calls"
proof -
  have "subtree (cb_poseidon2 sample_credits_lib) ls l i \<noteq> 0" if "0 < l" for ls l i
    using that by (cases l) (simp_all add: sample_credits_lib_def)
  then show ?thesis by (simp add: trees_nonzero_def tree_nonzero_def)
qed

theorem active_notes_provable_witness:
  "\<exists>path. getMerkleProof 0 (run sample_credits_lib sample_deployed (take 1 sample_calls)) = Inr path \<and> length path = 20
     \<and> MerkleTreeChecker (cb_poseidon2 sample_credits_lib) 109 path
        = Some (lc_merkleRoot (run sample_credits_lib sample_deployed (take 1 sample_calls)))"
proof -
  let ?s = "run sample_credits_lib sample_deployed (take 1 sample_calls)"
  have "nt_leafIndex (lc_notes ?s 8) = 0" "cb_poseidon2 sample_credits_lib 8 (nt_amount (lc_notes ?s 8)) = 109"
    by (simp_all add: sample_contract)
  with active_notes_provable [OF sample_deploy refl sample_trees_nonzero, of "take 1 sample_calls"] sample_open
  show ?thesis unfolding TREE_DEPTH_def by metis
qed

section \<open>Old roots\<close>

text \<open>A root stays known by the number of later roots, not by time: an exit that is started and paid leaves
  every root but the oldest known, the ones that still hold the note's leaf included.\<close>

lemma final_exit_keeps_roots:
  assumes "finalizeWithdrawal lib tx c s = Inr t" "isKnownRoot r s"
  shows "isKnownRoot r t"
proof -
  have "lc_roots t = lc_roots s" using assms(1) by (auto simp: finalizeWithdrawal_def contract_defs split: if_splits)
  with assms(2) show ?thesis by (simp add: isKnownRoot_def split: if_splits)
qed

lemma started_exit_keeps_roots:
  assumes "initiateWithdrawal lib tx c recipient key pf n y p s = Inr t" "isKnownRoot r s" "length (lc_roots s) = ROOT_HISTORY_SIZE"
    "r \<noteq> lc_roots s ! ((lc_currentRootIndex s + 1) mod ROOT_HISTORY_SIZE)"
  shows "isKnownRoot r t"
proof -
  obtain new where "lc_roots t = (lc_roots s)[(lc_currentRootIndex s + 1) mod ROOT_HISTORY_SIZE := new]"
    using assms(1) by (auto simp: initiateWithdrawal_def contract_defs split: if_splits)
  moreover obtain i where "r \<noteq> 0" "i < ROOT_HISTORY_SIZE" "lc_roots s ! i = r"
    using assms(2) by (auto simp: isKnownRoot_def list_ex_iff split: if_splits)
  moreover from this assms(4) have "(lc_currentRootIndex s + 1) mod ROOT_HISTORY_SIZE \<noteq> i" by blast
  ultimately show ?thesis using assms(3) by (auto simp: isKnownRoot_def list_ex_iff intro!: bexI [of _ i])
qed

end
