(* ===== verification/Protocol.thy ===== *)
theory Protocol
  imports NoteTree Circuits Slashing
begin

text \<open>
  The circuits, the recovery of a key and the contract together: an exit that claims an index whose ticket
  was already spent gives the operator the note's key, and with it the contract takes the note's deposit
  before the exit can be paid.
\<close>

text \<open>The contract's Poseidon is the circuits', on natural numbers.\<close>

definition same_poseidon :: "'b credits_lib \<Rightarrow> circomlib \<Rightarrow> bool" where
  "same_poseidon lib cl \<longleftrightarrow> (\<forall>k \<ge> 0. cb_poseidon1 lib (nat k) = nat (ct_Poseidon cl [k]))"

lemma same_modulus: "int Credits.FIELD_MODULUS = Accumulator.FIELD_MODULUS"
  by (simp add: Credits.FIELD_MODULUS_def Accumulator.FIELD_MODULUS_def)

text \<open>Whoever knows the key of a note that is leaving can slash it.\<close>

lemma slash_runs:
  assumes "nt_status (lc_notes s (cb_poseidon1 lib k)) = Exiting" "k < Credits.FIELD_MODULUS" "finite_claims (vault_of s)"
    "owed (vault_of s) \<le> lc_balance s" "lc_balance s < 2 ^ 256" "tx_value tx = 0" "tx_sender tx \<noteq> cb_this lib" "tx_accepts tx (tx_sender tx)"
  obtains t where "exec lib (tx, Credits.Slash k) s = Inr t" "nt_status (lc_notes t (cb_poseidon1 lib k)) = Slashed"
    "v_paid (vault_of t) = v_paid (vault_of s) @ [(tx_sender tx, min (nt_amount (lc_notes s (cb_poseidon1 lib k))) (lc_SLASH_BOUNTY s))]"
proof -
  let ?c = "cb_poseidon1 lib k"
  have "lc_operatorBalance s + nt_amount (lc_notes s ?c) \<le> lc_balance s" using owed_ge [OF assms(3,1)] assms(4) by simp
  then have "\<exists>t. exec lib (tx, Credits.Slash k) s = Inr t \<and> nt_status (lc_notes t ?c) = Slashed \<and>
      v_paid (vault_of t) = v_paid (vault_of s) @ [(tx_sender tx, min (nt_amount (lc_notes s ?c)) (lc_SLASH_BOUNTY s))]"
    using assms by (simp add: exec_def Credits.slash_def contract_defs vault_of_def min_def) linarith
  then show thesis using that by blast
qed

text \<open>C10 A stale exit is slashed: when a request proof and an exit proof of one key use the same index with
  different \<open>x\<close>, they carry the same nullifier, the two signals give the key, and any account that submits
  it while the exit is pending takes the bounty, leaves the note slashed, and the exit is never paid.\<close>

theorem stale_exit_is_slashed:
  assumes "circomlib_law cl" "Request cl w1 = Some (n1, y1, published)" "request_reduced w1"
    "Settlement cl w2 = Some (n2, y2, payout)" "settlement_reduced w2"
    "rs_secretKey w1 = k" "ss_secretKey w2 = k" "reduced k" "as_index (rs_acc w1) = ss_claimedIndex w2"
    "rs_signalX w1 \<noteq> ss_signalX w2" "reduced (rs_signalX w1)" "reduced (ss_signalX w2)"
    "same_poseidon lib cl" "constructor lib tx0 server kx ky cMax bounty = Inr s0" "s = run lib s0 calls"
    "nt_status (lc_notes s (nat (ss_commitment w2))) = Exiting" "lc_balance s < 2 ^ 256"
    "tx_value tx = 0" "tx_sender tx \<noteq> cb_this lib" "tx_accepts tx (tx_sender tx)"
  shows "n1 = n2 \<and> recoverSecretKey \<lparr>sig_x = rs_signalX w1, sig_y = y1\<rparr> \<lparr>sig_x = ss_signalX w2, sig_y = y2\<rparr> = Inr k
    \<and> (\<exists>t. exec lib (tx, Credits.Slash (nat k)) s = Inr t \<and> nt_status (lc_notes t (nat (ss_commitment w2))) = Slashed
        \<and> (\<forall>later. nt_status (lc_notes (run lib t later) (nat (ss_commitment w2))) = Slashed))"
proof -
  let ?a = "ct_Poseidon cl [k, ss_claimedIndex w2]" and ?c = "nat (ss_commitment w2)"
  note q = Request_value [OF assms(1-3), unfolded Let_def assms(6,9)] and e = Settlement_value [OF assms(1,4,5), unfolded assms(7)]
  have n: "n1 = n2" using q e by simp
  have l: "on_line k ?a \<lparr>sig_x = rs_signalX w1, sig_y = y1\<rparr>" "on_line k ?a \<lparr>sig_x = ss_signalX w2, sig_y = y2\<rparr>"
    using q e by (simp_all add: on_line_def)
  have "(ss_signalX w2 - rs_signalX w1) mod Accumulator.FIELD_MODULUS \<noteq> 0"
    using assms(10-12) by (metis mod_eq_dvd_iff dvd_eq_mod_eq_0 reduced_mod_eq)
  with recover_on_line [OF l] assms(8) have r: "recoverSecretKey \<lparr>sig_x = rs_signalX w1, sig_y = y1\<rparr> \<lparr>sig_x = ss_signalX w2, sig_y = y2\<rparr> = Inr k"
    by simp
  have k: "0 \<le> k" "nat k < Credits.FIELD_MODULUS" using assms(8) same_modulus by (auto simp: reduced_def nat_less_iff)
  have c: "cb_poseidon1 lib (nat k) = ?c" using assms(13) k(1) e by (simp add: same_poseidon_def)
  note ok = deployed_solvent [OF assms(14,15)]
  have "owed (vault_of s) \<le> lc_balance s" using ok(1) by simp
  with slash_runs [of s lib "nat k" tx] k(2) ok(3) assms(16-20) c obtain t where
    t: "exec lib (tx, Credits.Slash (nat k)) s = Inr t" "nt_status (lc_notes t ?c) = Slashed" by metis
  have "nt_status (lc_notes (run lib t later) ?c) = Slashed" for later
    using settled_run [OF run_trace [of t lib later], of ?c Slashed] t(2)
    by (simp add: vault_of_def claim_of_def split: status.splits)
  with n r t show ?thesis by blast
qed

section \<open>A sample\<close>

definition sample_zero_lib :: "(bool \<times> nat) credits_lib" where
  "sample_zero_lib = sample_credits_lib\<lparr>cb_poseidon1 := (\<lambda>_. 0)\<rparr>"

definition sample_zero_calls :: "(tx \<times> action) list" where
  "sample_zero_calls = [(sample_tx 4 100 10, Deposit 0), (sample_tx 4 0 20, InitiateWithdrawal 0 4 (1, 2) [] 0 7 100)]"

definition sample_stale :: settlement_signals where
  "sample_stale = sample_settlement_signals\<lparr>ss_claimedIndex := 0\<rparr>"

lemma sample_stale_proof: "Settlement sample_circomlib sample_stale = Some (0, 7, 100)"
proof -
  have "7 mod Accumulator.FIELD_MODULUS = 7" "100 mod Accumulator.FIELD_MODULUS = 100" by (simp_all add: Accumulator.FIELD_MODULUS_def)
  then show ?thesis using sample_signed [of "(1, 2)"]
    by (simp add: Settlement_def sample_stale_def sample_settlement_signals_def RlnSignal_def sample_circomlib_simps Let_def)
      (simp add: sample_acc_def fmul_def fadd_def fsub_def)
qed

lemma sample_zero_deploy: "constructor sample_zero_lib (sample_tx 5 0 1) 6 1 2 10 3 = Inr sample_deployed"
  by (simp add: sample_deployed_def constructor_def sample_zero_lib_def)

lemma sample_zero_leaving:
  "nt_status (lc_notes (run sample_zero_lib sample_deployed sample_zero_calls) 0) = Exiting"
  "lc_balance (run sample_zero_lib sample_deployed sample_zero_calls) = 100"
  by (simp_all add: sample_zero_lib_def sample_zero_calls_def sample_contract)

theorem stale_exit_is_slashed_witness:
  "\<exists>y1 published t. Request sample_circomlib sample_request_signals = Some (0, y1, published)
    \<and> Settlement sample_circomlib sample_stale = Some (0, 7, 100)
    \<and> recoverSecretKey \<lparr>sig_x = 5, sig_y = y1\<rparr> \<lparr>sig_x = 6, sig_y = 7\<rparr> = Inr 7
    \<and> exec sample_zero_lib (sample_tx 1 0 30, Credits.Slash 7) (run sample_zero_lib sample_deployed sample_zero_calls) = Inr t
    \<and> nt_status (lc_notes t 0) = Slashed"
proof -
  obtain y1 where q: "Request sample_circomlib sample_request_signals = Some (0, y1, IDENTITY)" using sample_request_proof by blast
  have red: "request_reduced sample_request_signals" "settlement_reduced sample_stale" "reduced 7" "reduced 5" "reduced 6"
    by (simp_all add: request_reduced_def settlement_reduced_def sample_request_signals_def sample_stale_def sample_settlement_signals_def
        acc_reduced_def sample_acc_def reduced_def Accumulator.FIELD_MODULUS_def)
  have sel: "rs_secretKey sample_request_signals = 7" "ss_secretKey sample_stale = 7" "rs_signalX sample_request_signals = 5"
    "ss_signalX sample_stale = 6" "as_index (rs_acc sample_request_signals) = ss_claimedIndex sample_stale" "nat (ss_commitment sample_stale) = 0"
    by (simp_all add: sample_request_signals_def sample_stale_def sample_settlement_signals_def sample_acc_def)
  have p: "same_poseidon sample_zero_lib sample_circomlib" by (simp add: same_poseidon_def sample_zero_lib_def sample_circomlib_simps)
  have tx: "tx_value (sample_tx 1 0 30) = 0" "tx_sender (sample_tx 1 0 30) \<noteq> cb_this sample_zero_lib"
    "tx_accepts (sample_tx 1 0 30) (tx_sender (sample_tx 1 0 30))"
    by (simp_all add: sample_tx_def sample_zero_lib_def sample_credits_lib_def)
  have b: "nt_status (lc_notes (run sample_zero_lib sample_deployed sample_zero_calls) (nat (ss_commitment sample_stale))) = Exiting"
    "lc_balance (run sample_zero_lib sample_deployed sample_zero_calls) < 2 ^ 256" by (simp_all add: sample_zero_leaving sel(6))
  have r: "reduced (rs_signalX sample_request_signals)" "reduced (ss_signalX sample_stale)"
    "rs_signalX sample_request_signals \<noteq> ss_signalX sample_stale" by (simp_all add: sel red)
  from stale_exit_is_slashed [OF sample_circomlib_law q red(1) sample_stale_proof red(2) sel(1,2) red(3) sel(5) r(3,1,2) p
      sample_zero_deploy refl b tx] q sample_stale_proof show ?thesis unfolding sel nat_numeral by blast
qed

end
