(* ===== verification/Governance.thy ===== *)
theory Governance
  imports TdxQuote JsBounds JsParse Config
begin

text \<open>
  \<open>src/src/attestation/app-governance.ts\<close> and \<open>src/src/attestation/credits-governance.ts\<close>: who can
  change the enclave's build and the credits contract, and how fast.

  A view call on a contract, with its ABI encoding, is a field of the record \<open>chain_reader\<close>, indexed by
  address and method; \<open>Promise.all\<close> fails with its first failing call.  Block numbers are JavaScript
  numbers.  The loop over block ranges is a partial function: a range that never reaches the latest
  block would not return.

  Shown: the paged history is the history, whatever the range, and it returns; an app that passes the
  check is governed as the documentation promises.
\<close>

section \<open>The chain\<close>

datatype app_event = ComposeHashAdded string | ComposeHashRemoved string | Upgraded string

record app_log =
  al_event :: "app_event option"
  al_blockNumber :: nat

record chain_reader =
  cr_getAddress :: "string \<Rightarrow> string res"
  cr_address :: "string \<Rightarrow> string \<Rightarrow> string res"
  cr_bool :: "string \<Rightarrow> string \<Rightarrow> string list \<Rightarrow> bool res"
  cr_uint :: "string \<Rightarrow> string \<Rightarrow> nat res"
  cr_getLogs :: "string \<Rightarrow> jsnum \<Rightarrow> jsnum \<Rightarrow> app_log list res"
  cr_getBlockNumber :: "nat res"

definition ZeroAddress :: string where
  "ZeroAddress = ''0x'' @ replicate 40 CHR ''0''"

definition DEFAULT_ADMIN_ROLE :: string where
  "DEFAULT_ADMIN_ROLE = ''0x'' @ replicate 64 CHR ''0''"

definition DEFAULT_MIN_DELAY_SECONDS :: nat where
  "DEFAULT_MIN_DELAY_SECONDS = 7 * 24 * 60 * 60"

section \<open>The app\<close>

record compose_hash_record =
  ch_composeHash :: string
  ch_allowed :: bool
  ch_added :: "nat list"
  ch_removed :: "nat list"

record app_owner =
  ao_address :: string
  ao_timelock :: string
  ao_guardian :: string
  ao_minDelay :: nat
  ao_timelockSelfAdministered :: bool

record app_governance =
  ag_app :: string
  ag_owner :: string
  ag_pendingOwner :: string
  ag_requireTcbUpToDate :: bool
  ag_appOwner :: "app_owner option"
  ag_composeHashes :: "compose_hash_record list"
  ag_upgrades :: "(string \<times> nat) list"

definition readTimelock :: "chain_reader \<Rightarrow> string \<Rightarrow> (nat \<times> bool) res" where
  "readTimelock reader timelock =
     bind (cr_uint reader timelock ''getMinDelay'') (\<lambda>minDelay.
     bind (cr_bool reader timelock ''hasRole'' [DEFAULT_ADMIN_ROLE, timelock]) (\<lambda>selfAdministered.
       Inr (minDelay, selfAdministered)))"

definition readAppOwner :: "chain_reader \<Rightarrow> string \<Rightarrow> string \<Rightarrow> app_owner option res" where
  "readAppOwner reader app owner =
     (case bind (cr_address reader owner ''app'') (\<lambda>governed.
           bind (cr_address reader owner ''timelock'') (\<lambda>timelock.
           bind (cr_address reader owner ''guardian'') (\<lambda>guardian. Inr (governed, timelock, guardian)))) of
        Inl _ \<Rightarrow> Inr None
      | Inr (governed, timelock, guardian) \<Rightarrow>
          if governed \<noteq> app then Inr None
          else bind (readTimelock reader timelock) (\<lambda>(minDelay, selfAdministered).
            Inr (Some \<lparr>ao_address = owner, ao_timelock = timelock, ao_guardian = guardian, ao_minDelay = minDelay,
                       ao_timelockSelfAdministered = selfAdministered\<rparr>)))"

text \<open>The records by compose hash, in the order of their first event, and the upgrades.\<close>

type_synonym history = "(string, compose_hash_record) jmap \<times> (string \<times> nat) list"

definition record_for :: "string \<Rightarrow> (string, compose_hash_record) jmap \<Rightarrow> compose_hash_record" where
  "record_for h records = (case jm_get records h of Some r \<Rightarrow> r
     | None \<Rightarrow> \<lparr>ch_composeHash = h, ch_allowed = False, ch_added = [], ch_removed = []\<rparr>)"

fun add_log :: "app_log \<Rightarrow> history \<Rightarrow> history" where
  "add_log l (records, upgrades) = (case al_event l of
     None \<Rightarrow> (records, upgrades)
   | Some (Upgraded implementation) \<Rightarrow> (records, upgrades @ [(implementation, al_blockNumber l)])
   | Some (ComposeHashAdded h) \<Rightarrow>
       (jm_set records h ((record_for h records)\<lparr>ch_added := ch_added (record_for h records) @ [al_blockNumber l]\<rparr>), upgrades)
   | Some (ComposeHashRemoved h) \<Rightarrow>
       (jm_set records h ((record_for h records)\<lparr>ch_removed := ch_removed (record_for h records) @ [al_blockNumber l]\<rparr>), upgrades))"

partial_function (option) history_loop ::
  "chain_reader \<Rightarrow> string \<Rightarrow> jsnum \<Rightarrow> jsnum \<Rightarrow> jsnum \<Rightarrow> history \<Rightarrow> history res option" where
  "history_loop reader app latest blockRange start h =
     (if jle start latest
      then (case cr_getLogs reader app start (jmin (jsub (jadd start blockRange) (Fin 1)) latest) of
              Inl e \<Rightarrow> Some (Inl e)
            | Inr logs \<Rightarrow> history_loop reader app latest blockRange (jadd start blockRange) (fold add_log logs h))
      else Some (Inr h))"

fun set_allowed :: "chain_reader \<Rightarrow> string \<Rightarrow> compose_hash_record list \<Rightarrow> compose_hash_record list res" where
  "set_allowed reader app [] = Inr []"
| "set_allowed reader app (r # rs) =
     bind (cr_bool reader app ''allowedComposeHashes'' [ch_composeHash r]) (\<lambda>allowed.
     bind (set_allowed reader app rs) (\<lambda>rs'. Inr (r\<lparr>ch_allowed := allowed\<rparr> # rs')))"

definition readHistory ::
  "chain_reader \<Rightarrow> string \<Rightarrow> jsnum option \<Rightarrow> jsnum option \<Rightarrow> (compose_hash_record list \<times> (string \<times> nat) list) res option" where
  "readHistory reader app fromBlock blockRange =
     (let fromB = (case fromBlock of None \<Rightarrow> Fin 0 | Some b \<Rightarrow> b);
          range = (case blockRange of None \<Rightarrow> Fin 10000 | Some b \<Rightarrow> b)
      in case cr_getBlockNumber reader of
           Inl e \<Rightarrow> Some (Inl e)
         | Inr latest \<Rightarrow>
             (case history_loop reader app (jnat latest) range fromB ([], []) of
                None \<Rightarrow> None
              | Some (Inl e) \<Rightarrow> Some (Inl e)
              | Some (Inr (records, upgrades)) \<Rightarrow>
                  Some (bind (set_allowed reader app (map snd records)) (\<lambda>composeHashes. Inr (composeHashes, upgrades)))))"

definition readAppGovernance ::
  "chain_reader \<Rightarrow> string \<Rightarrow> jsnum option \<Rightarrow> jsnum option \<Rightarrow> app_governance res option" where
  "readAppGovernance reader app0 fromBlock blockRange =
     (case bind (cr_getAddress reader app0) (\<lambda>app.
           bind (cr_address reader app ''owner'') (\<lambda>owner.
           bind (cr_address reader app ''pendingOwner'') (\<lambda>pendingOwner.
           bind (cr_bool reader app ''requireTcbUpToDate'' []) (\<lambda>requireTcbUpToDate.
           bind (readAppOwner reader app owner) (\<lambda>appOwner.
             Inr (app, owner, pendingOwner, requireTcbUpToDate, appOwner)))))) of
        Inl e \<Rightarrow> Some (Inl e)
      | Inr (app, owner, pendingOwner, requireTcbUpToDate, appOwner) \<Rightarrow>
          map_option (\<lambda>r. bind r (\<lambda>(composeHashes, upgrades).
            Inr \<lparr>ag_app = app, ag_owner = owner, ag_pendingOwner = pendingOwner, ag_requireTcbUpToDate = requireTcbUpToDate,
                 ag_appOwner = appOwner, ag_composeHashes = composeHashes, ag_upgrades = upgrades\<rparr>))
            (readHistory reader app fromBlock blockRange))"

text \<open>The failures, then the warnings.\<close>

definition owner_failures :: "nat \<Rightarrow> app_governance \<Rightarrow> string list" where
  "owner_failures minDelay g = (case ag_appOwner g of
     None \<Rightarrow> [''The app is owned by '' @ ag_owner g @ '', not a LongjingAppOwner behind a timelock: it can add builds without delay'']
   | Some o' \<Rightarrow> if ao_minDelay o' < minDelay
       then [''The timelock delay is '' @ dec_of_nat (ao_minDelay o') @ ''s, under the required '' @ dec_of_nat minDelay @ ''s'']
       else [])"

definition owner_warnings :: "app_governance \<Rightarrow> string list" where
  "owner_warnings g = (case ag_appOwner g of
     None \<Rightarrow> []
   | Some o' \<Rightarrow>
       (if ao_timelockSelfAdministered o' then []
        else [''The timelock does not administer itself: check no other admin can change its roles without delay''])
       @ (if ao_guardian o' = ZeroAddress then [''No guardian: compose hashes cannot be removed without delay''] else []))"

definition running_failures :: "string option \<Rightarrow> app_governance \<Rightarrow> string list" where
  "running_failures composeHash g = (case composeHash of
     None \<Rightarrow> []
   | Some h \<Rightarrow>
       if h = [] then []
       else (case List.find (\<lambda>r. ch_composeHash r = normalizeHash h) (ag_composeHashes g) of
           None \<Rightarrow> [''The running compose hash '' @ h @ '' is not allowed'']
         | Some r \<Rightarrow> if ch_allowed r then [] else [''The running compose hash '' @ h @ '' is not allowed'']))"

definition checkAppGovernance :: "nat option \<Rightarrow> string option \<Rightarrow> app_governance \<Rightarrow> string list \<times> string list" where
  "checkAppGovernance minDelay composeHash g =
     (let required = (case minDelay of None \<Rightarrow> DEFAULT_MIN_DELAY_SECONDS | Some d \<Rightarrow> d);
          allowed = filter ch_allowed (ag_composeHashes g)
      in (owner_failures required g
            @ (if ag_requireTcbUpToDate g then [] else [''requireTcbUpToDate is off: out-of-date TCBs can boot the app''])
            @ running_failures composeHash g,
          owner_warnings g
            @ (if ag_pendingOwner g \<noteq> ZeroAddress
               then [''An ownership transfer to '' @ ag_pendingOwner g @ '' is pending: that address can take the app over at any time'']
               else [])
            @ (if length allowed > 1
               then [dec_of_nat (length allowed) @ '' compose hashes are allowed: every one of them can derive the keys'']
               else [])))"

section \<open>The credits contract\<close>

record credits_governance =
  cg_credits :: string
  cg_owner :: string
  cg_paused :: bool
  cg_timelock :: "(nat \<times> bool) option"

definition readCreditsGovernance :: "chain_reader \<Rightarrow> string \<Rightarrow> credits_governance res" where
  "readCreditsGovernance reader credits0 =
     bind (cr_getAddress reader credits0) (\<lambda>credits.
     bind (cr_address reader credits ''owner'') (\<lambda>owner.
     bind (cr_bool reader credits ''paused'' []) (\<lambda>paused.
       Inr \<lparr>cg_credits = credits, cg_owner = owner, cg_paused = paused,
            cg_timelock = (case readTimelock reader owner of Inl _ \<Rightarrow> None | Inr t \<Rightarrow> Some t)\<rparr>)))"

definition checkCreditsGovernance :: "nat option \<Rightarrow> credits_governance \<Rightarrow> string list \<times> string list" where
  "checkCreditsGovernance minDelay g =
     (let required = (case minDelay of None \<Rightarrow> DEFAULT_MIN_DELAY_SECONDS | Some d \<Rightarrow> d) in
      (case cg_timelock g of
         None \<Rightarrow> [''LongjingCredits is owned by '' @ cg_owner g
           @ '', not a timelock: a single account can queue verifier, serverAddress and refund key changes'']
       | Some (delay, _) \<Rightarrow>
           if delay < required
           then [''The LongjingCredits timelock delay is '' @ dec_of_nat delay @ ''s, under the required '' @ dec_of_nat required @ ''s'']
           else [],
       (case cg_timelock g of
          Some (_, False) \<Rightarrow> [''The LongjingCredits timelock does not administer itself: check no other admin can change its roles without delay'']
        | _ \<Rightarrow> [])
       @ (if cg_paused g then [''LongjingCredits is paused: deposits are closed, exits stay open''] else [])))"

section \<open>The history does not depend on the range\<close>

text \<open>What \<open>eth_getLogs\<close> documents: the logs of a range of blocks, in their order.\<close>

definition serves_logs :: "chain_reader \<Rightarrow> string \<Rightarrow> app_log list \<Rightarrow> bool" where
  "serves_logs reader app logs \<longleftrightarrow> sorted (map al_blockNumber logs) \<and>
     (\<forall>a b. cr_getLogs reader app (Fin (of_nat a)) (Fin (of_nat b)) =
        Inr (filter (\<lambda>l. a \<le> al_blockNumber l \<and> al_blockNumber l \<le> b) logs))"

lemma filter_ranges:
  assumes "sorted (map f xs)" "a \<le> m" "m \<le> Suc c"
  shows "filter (\<lambda>l. a \<le> f l \<and> f l < m) xs @ filter (\<lambda>l. m \<le> f l \<and> f l \<le> c) xs = filter (\<lambda>l. a \<le> f l \<and> f l \<le> (c :: nat)) xs"
  using assms
proof (induction xs)
  case (Cons x xs)
  show ?case
  proof (cases "m \<le> f x")
    case True
    with Cons.prems(1) have "filter (\<lambda>l. a \<le> f l \<and> f l < m) xs = []" by (fastforce simp: filter_empty_conv)
    with Cons True show ?thesis by auto
  qed (use Cons in auto)
qed simp

lemma page_append:
  assumes "sorted (map f xs)" "0 < r" "a \<le> c"
  shows "filter (\<lambda>l. a \<le> f l \<and> f l \<le> min (a + r - 1) c) xs @ filter (\<lambda>l. a + r \<le> f l \<and> f l \<le> (c :: nat)) xs =
    filter (\<lambda>l. a \<le> f l \<and> f l \<le> c) xs"
proof (cases "a + r \<le> Suc c")
  case True
  then have "(\<lambda>l. a \<le> f l \<and> f l \<le> min (a + r - 1) c) = (\<lambda>l. a \<le> f l \<and> f l < a + r)" using assms(2) by (intro ext) auto
  then show ?thesis using filter_ranges [OF assms(1) _ True, of a] by simp
next
  case False
  then have "filter (\<lambda>l. a + r \<le> f l \<and> f l \<le> c) xs = []" "min (a + r - 1) c = c" by (auto simp: filter_empty_conv)
  then show ?thesis by simp
qed

lemma jadd_nat: "a + b < 2 ^ 53 \<Longrightarrow> jadd (Fin (of_nat a)) (Fin (of_nat b)) = Fin (of_nat (a + b))"
  by (drule jnat_exact) (simp only: jadd.simps jnat_def of_nat_add)

lemma jpred_nat:
  assumes "0 < n" "n < 2 ^ 53"
  shows "jsub (Fin (of_nat n)) (Fin 1) = Fin (of_nat (n - 1))"
proof -
  have "jnat (n - 1) = Fin (of_nat (n - 1))" by (rule jnat_exact) (rule le_less_trans [OF diff_le_self assms(2)])
  moreover have "(of_nat (n - 1) :: rat) = of_nat n + - 1" using assms(1) by (simp add: of_nat_diff)
  ultimately show ?thesis by (simp only: jsub_def jneg.simps jadd.simps jnat_def)
qed

lemma history_loop_complete:
  assumes "serves_logs reader app logs" "0 < step" "latest + step < 2 ^ 53" "start \<le> latest + step"
  shows "history_loop reader app (Fin (of_nat latest)) (Fin (of_nat step)) (Fin (of_nat start)) h =
    Some (Inr (fold add_log (filter (\<lambda>l. start \<le> al_blockNumber l \<and> al_blockNumber l \<le> latest) logs) h))"
  using assms(4)
proof (induction "Suc latest - start" arbitrary: start h rule: less_induct)
  case less
  show ?case
  proof (cases "start \<le> latest")
    case False
    then have "filter (\<lambda>l. start \<le> al_blockNumber l \<and> al_blockNumber l \<le> latest) logs = []" by (auto simp: filter_empty_conv)
    with False show ?thesis by (subst history_loop.simps) simp
  next
    case True
    let ?to = "min (start + step - 1) latest"
    have n: "start + step < 2 ^ 53" "0 < start + step" using True assms(2,3) by linarith+
    have to: "jmin (jsub (Fin (of_nat (start + step))) (Fin 1)) (Fin (of_nat latest)) = Fin (of_nat ?to)"
      unfolding jpred_nat [OF n(2,1)] by (auto simp: jmin_def)
    have lg: "cr_getLogs reader app (Fin (of_nat start)) (Fin (of_nat ?to)) =
        Inr (filter (\<lambda>l. start \<le> al_blockNumber l \<and> al_blockNumber l \<le> ?to) logs)"
      using assms(1) unfolding serves_logs_def by blast
    have ih: "history_loop reader app (Fin (of_nat latest)) (Fin (of_nat step)) (Fin (of_nat (start + step))) h' =
        Some (Inr (fold add_log (filter (\<lambda>l. start + step \<le> al_blockNumber l \<and> al_blockNumber l \<le> latest) logs) h'))" for h'
      by (rule less.hyps) (use True assms(2) in linarith)+
    have pages: "filter (\<lambda>l. start \<le> al_blockNumber l \<and> al_blockNumber l \<le> ?to) logs
        @ filter (\<lambda>l. start + step \<le> al_blockNumber l \<and> al_blockNumber l \<le> latest) logs
      = filter (\<lambda>l. start \<le> al_blockNumber l \<and> al_blockNumber l \<le> latest) logs"
      by (rule page_append) (use assms(1,2) True in \<open>auto simp: serves_logs_def\<close>)
    show ?thesis
      unfolding pages [symmetric] using True
      by (subst history_loop.simps) (simp only: to lg jadd_nat [OF n(1)] ih jle.simps of_nat_le_iff if_True sum.case fold_append o_apply)
  qed
qed

text \<open>C34 The paged history terminates and is complete: with a node that answers log queries as documented and
  any range of at least one block, reading the history of an app returns, and its records and upgrades
  are exactly those of all the logs from the first block to the latest, in order; the range does not
  matter.\<close>

theorem history_is_complete:
  assumes "serves_logs reader app logs" "cr_getBlockNumber reader = Inr latest"
    "0 < step" "latest + step < 2 ^ 53" "start \<le> latest + step"
  shows "readHistory reader app (Some (Fin (of_nat start))) (Some (Fin (of_nat step))) =
    (let (records, upgrades) =
           fold add_log (filter (\<lambda>l. start \<le> al_blockNumber l \<and> al_blockNumber l \<le> latest) logs) ([], [])
     in Some (bind (set_allowed reader app (map snd records)) (\<lambda>composeHashes. Inr (composeHashes, upgrades))))"
proof -
  have "jnat latest = Fin (of_nat latest)" by (rule jnat_exact) (use assms(4) in linarith)
  then show ?thesis
    unfolding readHistory_def Let_def assms(2) sum.case option.case
    using history_loop_complete [OF assms(1,3,4,5), of "([], [])"] by (simp split: prod.split)
qed

definition quiet_logs :: "app_log list" where
  "quiet_logs = [\<lparr>al_event = Some (ComposeHashAdded ''0x01''), al_blockNumber = 3\<rparr>,
     \<lparr>al_event = Some (ComposeHashAdded ''0x02''), al_blockNumber = 7\<rparr>,
     \<lparr>al_event = Some (ComposeHashRemoved ''0x01''), al_blockNumber = 7\<rparr>]"

text \<open>A node that serves those logs, for an app owned by a timelocked owner.\<close>

definition nat_of_num :: "jsnum \<Rightarrow> nat" where
  "nat_of_num x = (case x of Fin a \<Rightarrow> nat \<lfloor>a\<rfloor> | _ \<Rightarrow> 0)"

definition sample_reader :: chain_reader where
  "sample_reader = \<lparr>cr_getAddress = \<lambda>a. Inr a, cr_address = \<lambda>to m. Inr (if m = ''app'' then ''0xapp'' else if m = ''timelock'' then ''0xt''
       else if m = ''pendingOwner'' then ZeroAddress else ''0xo''),
     cr_bool = \<lambda>to m args. Inr (args \<noteq> [''0x01'']), cr_uint = \<lambda>to m. Inr 604800,
     cr_getLogs = \<lambda>app a b. Inr (filter (\<lambda>l. nat_of_num a \<le> al_blockNumber l \<and> al_blockNumber l \<le> nat_of_num b) quiet_logs),
     cr_getBlockNumber = Inr 9\<rparr>"

lemma sample_serves: "serves_logs sample_reader app quiet_logs"
  by (simp add: serves_logs_def sample_reader_def nat_of_num_def) (simp add: quiet_logs_def)

lemma sample_history:
  "fold add_log (filter (\<lambda>l. 0 \<le> al_blockNumber l \<and> al_blockNumber l \<le> 9) quiet_logs) ([], []) =
     ([(''0x01'', \<lparr>ch_composeHash = ''0x01'', ch_allowed = False, ch_added = [3], ch_removed = [7]\<rparr>),
       (''0x02'', \<lparr>ch_composeHash = ''0x02'', ch_allowed = False, ch_added = [7], ch_removed = []\<rparr>)], [])"
  by (simp add: quiet_logs_def record_for_def jm_get_def)

definition sample_records :: "compose_hash_record list" where
  "sample_records = [\<lparr>ch_composeHash = ''0x01'', ch_allowed = False, ch_added = [3], ch_removed = [7]\<rparr>,
     \<lparr>ch_composeHash = ''0x02'', ch_allowed = True, ch_added = [7], ch_removed = []\<rparr>]"

lemma sample_history_read:
  "readHistory sample_reader ''0xapp'' (Some (Fin (of_nat 0))) (Some (Fin (of_nat 4))) = Some (Inr (sample_records, []))"
proof -
  have n: "cr_getBlockNumber sample_reader = Inr 9" "jnat 9 = Fin (of_nat 9)" by (simp add: sample_reader_def) (rule jnat_exact, simp)
  show ?thesis
    unfolding readHistory_def Let_def n sum.case option.case
    using history_loop_complete [OF sample_serves, of 4 9 0 "''0xapp''" "([], [])", unfolded sample_history]
    by (simp add: sample_reader_def sample_records_def)
qed

theorem history_is_complete_witness:
  "readHistory sample_reader ''0xapp'' (Some (Fin (of_nat 0))) (Some (Fin (of_nat 4))) = Some (Inr (sample_records, []))"
proof -
  have "cr_getBlockNumber sample_reader = Inr 9" by (simp add: sample_reader_def)
  from history_is_complete [OF sample_serves this, of 4 0 "''0xapp''"] show ?thesis
    unfolding sample_history by (simp add: sample_reader_def sample_records_def)
qed

section \<open>What a passed check means\<close>

lemma set_allowed_ok:
  assumes "set_allowed reader app rs = Inr rs'" "r \<in> set rs'"
  shows "cr_bool reader app ''allowedComposeHashes'' [ch_composeHash r] = Inr (ch_allowed r)"
  using assms by (induction rs arbitrary: rs') (auto simp: bind_eq_Inr)

lemma readHistory_allowed:
  assumes "readHistory reader app f b = Some (Inr (hs, us))" "r \<in> set hs"
  shows "cr_bool reader app ''allowedComposeHashes'' [ch_composeHash r] = Inr (ch_allowed r)"
  using assms set_allowed_ok by (auto simp: readHistory_def Let_def bind_eq_Inr split: sum.splits option.splits)

lemma readAppOwner_ok:
  assumes "readAppOwner reader app owner = Inr (Some a)"
  shows "cr_address reader owner ''app'' = Inr app \<and> cr_address reader owner ''timelock'' = Inr (ao_timelock a)
    \<and> cr_uint reader (ao_timelock a) ''getMinDelay'' = Inr (ao_minDelay a) \<and> ao_address a = owner"
  using assms by (auto simp: readAppOwner_def readTimelock_def bind_eq_Inr split: sum.splits if_splits prod.splits)

text \<open>A passed governance check means what the documentation promises: when the app read from the chain
  has no failed check, its owner is a contract that governs this app behind a timelock whose delay is at
  least the required one, up-to-date TCBs are required, and the contract allows the compose hash of the
  running build.\<close>

theorem governance_check_sound:
  assumes "readAppGovernance reader app0 f b = Some (Inr g)" "fst (checkAppGovernance minDelay composeHash g) = []"
  shows "\<exists>app owner timelock delay. cr_getAddress reader app0 = Inr app \<and> cr_address reader app ''owner'' = Inr owner
    \<and> cr_address reader owner ''app'' = Inr app \<and> cr_address reader owner ''timelock'' = Inr timelock
    \<and> cr_uint reader timelock ''getMinDelay'' = Inr delay
    \<and> (case minDelay of None \<Rightarrow> DEFAULT_MIN_DELAY_SECONDS | Some d \<Rightarrow> d) \<le> delay
    \<and> cr_bool reader app ''requireTcbUpToDate'' [] = Inr True
    \<and> (\<forall>h. composeHash = Some h \<longrightarrow> h \<noteq> [] \<longrightarrow> cr_bool reader app ''allowedComposeHashes'' [normalizeHash h] = Inr True)"
proof -
  from assms(1) obtain app owner where
    r: "cr_getAddress reader app0 = Inr app" "cr_address reader app ''owner'' = Inr owner"
      "cr_bool reader app ''requireTcbUpToDate'' [] = Inr (ag_requireTcbUpToDate g)"
      "readAppOwner reader app owner = Inr (ag_appOwner g)"
      "readHistory reader app f b = Some (Inr (ag_composeHashes g, ag_upgrades g))"
    by (auto simp: readAppGovernance_def bind_eq_Inr split: sum.splits prod.splits)
  from assms(2) have c: "owner_failures (case minDelay of None \<Rightarrow> DEFAULT_MIN_DELAY_SECONDS | Some d \<Rightarrow> d) g = []"
    "ag_requireTcbUpToDate g" "running_failures composeHash g = []"
    by (auto simp: checkAppGovernance_def Let_def split: if_splits)
  from c(1) obtain a where a: "ag_appOwner g = Some a"
    "(case minDelay of None \<Rightarrow> DEFAULT_MIN_DELAY_SECONDS | Some d \<Rightarrow> d) \<le> ao_minDelay a"
    by (auto simp: owner_failures_def split: option.splits if_splits)
  have "cr_bool reader app ''allowedComposeHashes'' [normalizeHash h] = Inr True" if h: "composeHash = Some h" "h \<noteq> []" for h
  proof -
    from c(3) h obtain x where "List.find (\<lambda>r. ch_composeHash r = normalizeHash h) (ag_composeHashes g) = Some x" "ch_allowed x"
      by (auto simp: running_failures_def split: option.splits if_splits)
    then show ?thesis using readHistory_allowed [OF r(5), of x] by (auto simp: find_Some_iff)
  qed
  with r a c(2) readAppOwner_ok [of reader app owner a] show ?thesis by auto
qed

theorem governance_check_sound_witness:
  "\<exists>g. readAppGovernance sample_reader ''0xapp'' (Some (Fin (of_nat 0))) (Some (Fin (of_nat 4))) = Some (Inr g)
    \<and> fst (checkAppGovernance None (Some ''02'') g) = []
    \<and> cr_bool sample_reader ''0xapp'' ''allowedComposeHashes'' [normalizeHash ''02''] = Inr True"
proof -
  have h: "normalizeHash ''02'' = ''0x02''" by code_simp
  define g where "g = \<lparr>ag_app = ''0xapp'', ag_owner = ''0xo'', ag_pendingOwner = ZeroAddress, ag_requireTcbUpToDate = True,
    ag_appOwner = Some \<lparr>ao_address = ''0xo'', ao_timelock = ''0xt'', ao_guardian = ''0xo'', ao_minDelay = 604800,
      ao_timelockSelfAdministered = True\<rparr>, ag_composeHashes = sample_records, ag_upgrades = []\<rparr>"
  have f: "cr_getAddress sample_reader x = Inr x" "cr_address sample_reader t ''owner'' = Inr ''0xo''"
    "cr_address sample_reader t ''pendingOwner'' = Inr ZeroAddress" "cr_bool sample_reader t m [] = Inr True" for x t m
    by (simp_all add: sample_reader_def)
  have own: "readAppOwner sample_reader ''0xapp'' ''0xo'' = Inr (ag_appOwner g)"
    by (simp add: readAppOwner_def readTimelock_def sample_reader_def g_def)
  have hist: "readHistory sample_reader ''0xapp'' (Some (Fin (of_nat 0))) (Some (Fin (of_nat 4))) = Some (Inr (sample_records, []))"
    by (rule sample_history_read)
  have r: "readAppGovernance sample_reader ''0xapp'' (Some (Fin (of_nat 0))) (Some (Fin (of_nat 4))) = Some (Inr g)"
    unfolding readAppGovernance_def by (simp add: f own hist [simplified] g_def)
  have c: "fst (checkAppGovernance None (Some ''02'') g) = []"
    by (simp add: checkAppGovernance_def owner_failures_def running_failures_def g_def h sample_records_def DEFAULT_MIN_DELAY_SECONDS_def)
  from governance_check_sound [OF r c] r c h show ?thesis by (auto simp: sample_reader_def)
qed

text \<open>The credits contract likewise.\<close>

lemma credits_check_sound:
  assumes "readCreditsGovernance reader credits0 = Inr g" "fst (checkCreditsGovernance minDelay g) = []"
  shows "\<exists>credits owner delay. cr_getAddress reader credits0 = Inr credits \<and> cr_address reader credits ''owner'' = Inr owner
    \<and> cr_uint reader owner ''getMinDelay'' = Inr delay
    \<and> (case minDelay of None \<Rightarrow> DEFAULT_MIN_DELAY_SECONDS | Some d \<Rightarrow> d) \<le> delay"
proof -
  from assms(1) obtain credits owner where r: "cr_getAddress reader credits0 = Inr credits" "cr_address reader credits ''owner'' = Inr owner"
    "cg_timelock g = (case readTimelock reader owner of Inl _ \<Rightarrow> None | Inr t \<Rightarrow> Some t)"
    by (auto simp: readCreditsGovernance_def bind_eq_Inr)
  from assms(2) obtain d b where d: "cg_timelock g = Some (d, b)" "(case minDelay of None \<Rightarrow> DEFAULT_MIN_DELAY_SECONDS | Some d \<Rightarrow> d) \<le> d"
    by (auto simp: checkCreditsGovernance_def Let_def not_less split: option.splits if_splits prod.splits)
  from r(3) d(1) have "cr_uint reader owner ''getMinDelay'' = Inr d"
    by (auto simp: readTimelock_def bind_eq_Inr split: sum.splits)
  with r d show ?thesis by auto
qed

end
