(* ===== verification/Release.thy ===== *)
theory Release
  imports Governance Json
begin

text \<open>
  \<open>src/src/governance/release-batch.ts\<close> and \<open>src/scripts/governance/propose-release.ts\<close>: the timelock
  batch that allows a new build.

  ethers' ABI encoders and keccak-256 are the record \<open>abi\<close>.  The script is a function of its arguments,
  the files it reads and the chain, that returns the files it writes; a printed failure with exit code 1
  is an error.

  Shown: the two transactions carry one batch, and executing it leaves the new build as the only allowed
  one, when it was built from every allowed one; but a \<open>--from-block\<close> that is not a number reads no history, and then nothing is retired.
\<close>

section \<open>The compose file\<close>

definition composeHashOf :: "(bytes \<Rightarrow> bytes) \<Rightarrow> bytes \<Rightarrow> string" where
  "composeHashOf sha256 appCompose = ''0x'' @ hex_of_bytes (sha256 appCompose)"

text \<open>A match of \<open>/^\s*image:\s*(\S+)/\<close> at a line start, with what follows it.\<close>

definition image_match :: "string \<Rightarrow> (string \<times> string) option" where
  "image_match s =
     (let r = dropWhile is_ws s in
      if \<not> startsWith r ''image:'' then None
      else let t = dropWhile is_ws (drop 6 r) in
        if t = [] then None else Some (takeWhile (\<lambda>c. \<not> is_ws c) t, dropWhile (\<lambda>c. \<not> is_ws c) t))"

lemma image_match_shorter:
  assumes "image_match s = Some (i, r)"
  shows "length r < length s"
proof -
  have p: "startsWith (dropWhile is_ws s) ''image:''"
  proof (rule ccontr)
    assume "\<not> startsWith (dropWhile is_ws s) ''image:''"
    then have "image_match s = None" unfolding image_match_def Let_def by (simp only: if_P not_False_eq_True)
    with assms show False by simp
  qed
  obtain t where t: "dropWhile is_ws (drop 6 (dropWhile is_ws s)) = t" by blast
  have "image_match s = (if t = [] then None else Some (takeWhile (\<lambda>c. \<not> is_ws c) t, dropWhile (\<lambda>c. \<not> is_ws c) t))"
    unfolding image_match_def Let_def t using p by (simp only: not_True_eq_False if_False)
  with assms have r: "r = dropWhile (\<lambda>c. \<not> is_ws c) (dropWhile is_ws (drop 6 (dropWhile is_ws s)))"
    unfolding t by (cases t) simp_all
  have "take (length ''image:'') (dropWhile is_ws s) = ''image:''" using p unfolding startsWith_def .
  then have "dropWhile is_ws s \<noteq> []" by (metis take_Nil list.distinct(1))
  have "length r \<le> length (drop 6 (dropWhile is_ws s))" unfolding r by (rule order_trans [OF length_dropWhile_le length_dropWhile_le])
  also have "\<dots> < length (dropWhile is_ws s)" using \<open>dropWhile is_ws s \<noteq> []\<close> by simp
  also have "\<dots> \<le> length s" by (rule length_dropWhile_le)
  finally show ?thesis .
qed

text \<open>\<open>matchAll\<close> with the flags \<open>gm\<close>: the flag says that the position is at a line start.\<close>

function images :: "bool \<Rightarrow> string \<Rightarrow> string list" where
  "images bol s = (case s of
     [] \<Rightarrow> []
   | c # s' \<Rightarrow> (case (if bol then image_match s else None) of
        Some (img, rest) \<Rightarrow> img # images False rest
      | None \<Rightarrow> images (cval c = 10 \<or> cval c = 13) s'))"
  by pat_completeness auto
termination
  by (relation "measure (\<lambda>(_, s). length s)") (auto dest: image_match_shorter split: if_splits)

declare images.simps [simp del]

text \<open>\<open>/@sha256:[0-9a-f]{64}$/\<close>\<close>

definition is_lower_hex :: "char \<Rightarrow> bool" where
  "is_lower_hex c = (is_digit c \<or> 97 \<le> cval c \<and> cval c \<le> 102)"

definition pinned :: "string \<Rightarrow> bool" where
  "pinned img = (let tail = drop (length img - 72) img in
     length tail = 72 \<and> startsWith tail ''@sha256:'' \<and> list_all is_lower_hex (drop 8 tail))"

definition checkAppCompose :: "(bytes \<Rightarrow> json res) \<Rightarrow> bytes \<Rightarrow> string \<Rightarrow> string list res" where
  "checkAppCompose parse appCompose dockerCompose =
     (case parse appCompose of
        Inl _ \<Rightarrow> Inr [''app-compose.json is not JSON'']
      | Inr parsed \<Rightarrow>
          bind (jprop (Some parsed) ''docker_compose_file'') (\<lambda>file.
          let imgs = images True dockerCompose in
          Inr ((if file \<noteq> Some (JStr dockerCompose)
                then [''app-compose.json's docker_compose_file is not this repository's docker-compose.yml''] else [])
               @ (if imgs = [] then [''docker-compose.yml has no image''] else [])
               @ map (\<lambda>i. i @ '' is not pinned by digest'') (filter (\<lambda>i. \<not> pinned i) imgs))))"

section \<open>The batch\<close>

record batch_args =
  bt_targets :: "string list"
  bt_values :: "nat list"
  bt_payloads :: "string list"
  bt_predecessor :: string
  bt_salt :: string

record abi =
  ab_addComposeHash :: "string \<Rightarrow> string res"
  ab_removeComposeHash :: "string \<Rightarrow> string res"
  ab_execute :: "string \<Rightarrow> string res"
  ab_operationId :: "batch_args \<Rightarrow> string res"
  ab_scheduleBatch :: "batch_args \<Rightarrow> nat \<Rightarrow> string res"
  ab_executeBatch :: "batch_args \<Rightarrow> string res"

record transaction =
  tx_to :: string
  tx_data :: string

record release_batch =
  rb_composeHash :: string
  rb_retired :: "string list"
  rb_operationId :: string
  rb_schedule :: transaction
  rb_execute :: transaction

record release_options =
  ro_appOwner :: string
  ro_timelock :: string
  ro_delay :: nat
  ro_composeHash :: string
  ro_allowed :: "string list"

fun map_res :: "('a \<Rightarrow> 'b res) \<Rightarrow> 'a list \<Rightarrow> 'b list res" where
  "map_res f [] = Inr []"
| "map_res f (x # xs) = bind (f x) (\<lambda>y. bind (map_res f xs) (\<lambda>ys. Inr (y # ys)))"

definition retired_hashes :: "release_options \<Rightarrow> string list" where
  "retired_hashes ro = filter (\<lambda>h. h \<noteq> toLowerCase (ro_composeHash ro)) (map toLowerCase (ro_allowed ro))"

definition batch_payloads :: "abi \<Rightarrow> release_options \<Rightarrow> string list res" where
  "batch_payloads ab ro =
     bind (ab_addComposeHash ab (toLowerCase (ro_composeHash ro))) (\<lambda>add.
     bind (map_res (ab_removeComposeHash ab) (retired_hashes ro)) (\<lambda>removes.
       map_res (ab_execute ab) (add # removes)))"

definition buildReleaseBatch :: "abi \<Rightarrow> release_options \<Rightarrow> release_batch res" where
  "buildReleaseBatch ab ro =
     bind (batch_payloads ab ro) (\<lambda>payloads.
     let composeHash = toLowerCase (ro_composeHash ro);
         args = \<lparr>bt_targets = map (\<lambda>_. ro_appOwner ro) payloads, bt_values = map (\<lambda>_. 0) payloads, bt_payloads = payloads,
                 bt_predecessor = DEFAULT_ADMIN_ROLE, bt_salt = composeHash\<rparr>
     in bind (ab_operationId ab args) (\<lambda>operationId.
        bind (ab_scheduleBatch ab args (ro_delay ro)) (\<lambda>schedule.
        bind (ab_executeBatch ab args) (\<lambda>execute.
          Inr \<lparr>rb_composeHash = composeHash, rb_retired = retired_hashes ro, rb_operationId = operationId,
               rb_schedule = \<lparr>tx_to = ro_timelock ro, tx_data = schedule\<rparr>,
               rb_execute = \<lparr>tx_to = ro_timelock ro, tx_data = execute\<rparr>\<rparr>))))"

record safe_file =
  sf_chainId :: string
  sf_createdAt :: nat
  sf_name :: string
  sf_description :: string
  sf_transactions :: "transaction list"

definition safeTransactionBuilderFile :: "nat \<Rightarrow> nat \<Rightarrow> string \<Rightarrow> string \<Rightarrow> transaction \<Rightarrow> safe_file" where
  "safeTransactionBuilderFile now chainId name description tx =
     \<lparr>sf_chainId = dec_of_nat chainId, sf_createdAt = now, sf_name = name, sf_description = description, sf_transactions = [tx]\<rparr>"

section \<open>The script\<close>

fun index_flag :: "string \<Rightarrow> string list \<Rightarrow> (string list \<times> string option) option" where
  "index_flag name [] = None"
| "index_flag name (a # as) =
     (if a = name then Some (drop 1 as, case as of [] \<Rightarrow> None | v # _ \<Rightarrow> Some v)
      else map_option (\<lambda>(rest, v). (a # rest, v)) (index_flag name as))"

definition flag :: "string \<Rightarrow> string list \<Rightarrow> string list \<times> string option" where
  "flag name args = (case index_flag name args of None \<Rightarrow> (args, None) | Some r \<Rightarrow> r)"

record script_world =
  sw_env :: env
  sw_readFile :: "string \<Rightarrow> bytes res"
  sw_dockerCompose :: "string res"
  sw_parse :: "bytes \<Rightarrow> json res"
  sw_sha256 :: "bytes \<Rightarrow> bytes"
  sw_reader :: "string \<Rightarrow> chain_reader"
  sw_chainId :: "string \<Rightarrow> nat res"
  sw_now :: nat
  sw_join :: "string \<Rightarrow> string \<Rightarrow> string"

definition allowed_hashes :: "app_governance \<Rightarrow> string list" where
  "allowed_hashes g = map ch_composeHash (filter ch_allowed (ag_composeHashes g))"

definition release_files ::
  "abi \<Rightarrow> script_world \<Rightarrow> string \<Rightarrow> string \<Rightarrow> nat res \<Rightarrow> string \<Rightarrow> app_governance \<Rightarrow>
     (string \<times> safe_file) list res" where
  "release_files ab w app out network composeHash g = (case ag_appOwner g of
     None \<Rightarrow> Inl (Error (app @ '' is owned by '' @ ag_owner g @ '', not a LongjingAppOwner: set up governance first (docs/GOVERNANCE.md#setup)''))
   | Some appOwner \<Rightarrow>
       bind (buildReleaseBatch ab \<lparr>ro_appOwner = ao_address appOwner, ro_timelock = ao_timelock appOwner,
           ro_delay = ao_minDelay appOwner, ro_composeHash = composeHash, ro_allowed = allowed_hashes g\<rparr>) (\<lambda>batch.
       bind network (\<lambda>chainId.
       let short = take 8 (drop 2 composeHash);
           description = join '', '' ((''Allow compose hash '' @ composeHash) # map (\<lambda>h. ''remove '' @ h) (rb_retired batch))
       in Inr (map (\<lambda>(step, tx). (sw_join w out (''release-'' @ short @ ''-'' @ step @ ''.json''),
              safeTransactionBuilderFile (sw_now w) chainId (''Longjing release '' @ short @ '': '' @ step) description tx))
            [(''schedule'', rb_schedule batch), (''execute'', rb_execute batch)]))))"

definition checked_compose :: "script_world \<Rightarrow> string \<Rightarrow> string res" where
  "checked_compose w appComposePath =
     bind (sw_readFile w appComposePath) (\<lambda>appCompose.
     bind (sw_dockerCompose w) (\<lambda>dockerCompose.
     bind (checkAppCompose (sw_parse w) appCompose dockerCompose) (\<lambda>failures.
       if failures \<noteq> [] then Inl (Error (join ''\<newline>'' failures)) else Inr (composeHashOf (sw_sha256 w) appCompose))))"

definition from_block :: "string option \<Rightarrow> jsnum option" where
  "from_block v = (case v of None \<Rightarrow> None | Some t \<Rightarrow> if t = [] then None else Some (Number_of_string t))"

definition propose_release :: "abi \<Rightarrow> script_world \<Rightarrow> string list \<Rightarrow> (string \<times> safe_file) list res option" where
  "propose_release ab w argv =
     (let (args1, app) = flag ''--app'' argv; (args2, rpcFlag) = flag ''--rpc'' args1;
          rpc = (case rpcFlag of Some r \<Rightarrow> r | None \<Rightarrow>
            (case jm_get (sw_env w) ''BASE_RPC_URL'' of Some r \<Rightarrow> r | None \<Rightarrow> ''https://mainnet.base.org''));
          (args3, fromB) = flag ''--from-block'' args2; (args4, outFlag) = flag ''--out'' args3;
          out = (case outFlag of Some d \<Rightarrow> d | None \<Rightarrow> ''.'')
      in case (args4, app) of
           (appComposePath # _, Some app') \<Rightarrow>
             if appComposePath = [] \<or> app' = [] then Some (Inl (Error ''Usage''))
             else (case checked_compose w appComposePath of
                 Inl e \<Rightarrow> Some (Inl e)
               | Inr composeHash \<Rightarrow>
                   map_option (\<lambda>r. bind r (release_files ab w app' out (sw_chainId w rpc) composeHash))
                     (readAppGovernance (sw_reader w rpc) app' (from_block fromB) None))
         | _ \<Rightarrow> Some (Inl (Error ''Usage'')))"

section \<open>What the batch does\<close>

text \<open>The calls the app owner forwards to the app, and their documented effect on the allowed hashes.\<close>

datatype app_call = Add string | Remove string

fun run_call :: "app_call \<Rightarrow> string set \<Rightarrow> string set" where
  "run_call (Add h) allowed = insert h allowed"
| "run_call (Remove h) allowed = allowed - {h}"

text \<open>Decoding a forwarded payload gives the call that was encoded.\<close>

definition decodes :: "abi \<Rightarrow> (string \<Rightarrow> app_call) \<Rightarrow> bool" where
  "decodes ab dec \<longleftrightarrow> (\<forall>h d p. ab_addComposeHash ab h = Inr d \<longrightarrow> ab_execute ab d = Inr p \<longrightarrow> dec p = Add h)
     \<and> (\<forall>h d p. ab_removeComposeHash ab h = Inr d \<longrightarrow> ab_execute ab d = Inr p \<longrightarrow> dec p = Remove h)"

lemma map_res_append: "map_res f xs = Inr ys \<Longrightarrow> map_res g ys = Inr zs \<Longrightarrow> (\<And>x y z. f x = Inr y \<Longrightarrow> g y = Inr z \<Longrightarrow> h z = k x) \<Longrightarrow> map h zs = map k xs"
  by (induction xs arbitrary: ys zs) (auto simp: bind_eq_Inr)

lemma batch_calls:
  assumes "batch_payloads ab ro = Inr payloads" "decodes ab dec"
  shows "map dec payloads = Add (toLowerCase (ro_composeHash ro)) # map Remove (retired_hashes ro)"
proof -
  from assms(1) obtain add removes p ps where
    a: "ab_addComposeHash ab (toLowerCase (ro_composeHash ro)) = Inr add" "ab_execute ab add = Inr p"
    and r: "map_res (ab_removeComposeHash ab) (retired_hashes ro) = Inr removes" "map_res (ab_execute ab) removes = Inr ps"
    and eq: "payloads = p # ps"
    by (auto simp: batch_payloads_def bind_eq_Inr)
  have "map dec ps = map Remove (retired_hashes ro)"
    by (rule map_res_append [OF r]) (use assms(2) in \<open>auto simp: decodes_def\<close>)
  moreover have "dec p = Add (toLowerCase (ro_composeHash ro))" using assms(2) a by (auto simp: decodes_def)
  ultimately show ?thesis by (simp add: eq)
qed

lemma run_removes: "fold run_call (map Remove hs) allowed = allowed - set hs"
  by (induction hs arbitrary: allowed) auto

text \<open>What the timelock does with the two transactions of a batch.  It reads the arguments from the call
  data; \<open>executeBatch\<close> wants as many values and payloads as targets, and calls each target with its
  value and payload, in order.  Only a call of the app owner with no Ether is known here.\<close>

record timelock_decoder =
  td_schedule :: "string \<Rightarrow> (batch_args \<times> nat) option"
  td_execute :: "string \<Rightarrow> batch_args option"

definition decodes_batch :: "abi \<Rightarrow> timelock_decoder \<Rightarrow> bool" where
  "decodes_batch ab td \<longleftrightarrow> (\<forall>args d s. ab_scheduleBatch ab args d = Inr s \<longrightarrow> td_schedule td s = Some (args, d))
     \<and> (\<forall>args s. ab_executeBatch ab args = Inr s \<longrightarrow> td_execute td s = Some args)"

fun call_targets :: "(string \<Rightarrow> app_call) \<Rightarrow> string \<Rightarrow> (string \<times> nat \<times> string) list \<Rightarrow> string set \<Rightarrow> string set option" where
  "call_targets dec appOwner [] allowed = Some allowed"
| "call_targets dec appOwner ((target, ether, payload) # rest) allowed =
     (if target = appOwner \<and> ether = 0 then call_targets dec appOwner rest (run_call (dec payload) allowed) else None)"

definition run_batch :: "(string \<Rightarrow> app_call) \<Rightarrow> string \<Rightarrow> batch_args \<Rightarrow> string set \<Rightarrow> string set option" where
  "run_batch dec appOwner args allowed =
     (if length (bt_values args) \<noteq> length (bt_targets args) \<or> length (bt_payloads args) \<noteq> length (bt_targets args) then None
      else call_targets dec appOwner (zip (bt_targets args) (zip (bt_values args) (bt_payloads args))) allowed)"

lemma run_batch_owner:
  assumes "bt_targets args = map (\<lambda>_. appOwner) (bt_payloads args)" "bt_values args = map (\<lambda>_. 0) (bt_payloads args)"
  shows "run_batch dec appOwner args allowed = Some (fold run_call (map dec (bt_payloads args)) allowed)"
proof -
  have "call_targets dec appOwner (zip (map (\<lambda>_. appOwner) ps) (zip (map (\<lambda>_. 0) ps) ps)) allowed
      = Some (fold run_call (map dec ps) allowed)" for ps
    by (induction ps arbitrary: allowed) auto
  with assms show ?thesis by (simp add: run_batch_def)
qed

text \<open>C35 A release leaves one build.  When a batch is built from every compose hash the app allows (in lower
  case, as the chain returns them), then what the two transactions for the timelock carry, decoded from
  their call data, is one and the same batch, scheduled with the delay that was asked for and under the
  operation id of the release; and calling its targets with its payloads in order leaves the new
  compose hash as the only one the app allows.\<close>

theorem release_leaves_one_build:
  assumes "buildReleaseBatch ab ro = Inr batch" "decodes ab dec" "decodes_batch ab td"
    "allowed = set (ro_allowed ro)" "\<forall>h \<in> allowed. toLowerCase h = h"
  shows "\<exists>args. td_schedule td (tx_data (rb_schedule batch)) = Some (args, ro_delay ro)
    \<and> td_execute td (tx_data (rb_execute batch)) = Some args
    \<and> tx_to (rb_schedule batch) = ro_timelock ro \<and> tx_to (rb_execute batch) = ro_timelock ro
    \<and> ab_operationId ab args = Inr (rb_operationId batch)
    \<and> run_batch dec (ro_appOwner ro) args allowed = Some {toLowerCase (ro_composeHash ro)}"
proof -
  obtain payloads where p: "batch_payloads ab ro = Inr payloads"
    using assms(1) by (auto simp: buildReleaseBatch_def bind_eq_Inr)
  define args where "args = \<lparr>bt_targets = map (\<lambda>_. ro_appOwner ro) payloads, bt_values = map (\<lambda>_. 0) payloads, bt_payloads = payloads,
    bt_predecessor = DEFAULT_ADMIN_ROLE, bt_salt = toLowerCase (ro_composeHash ro)\<rparr>"
  have a: "bt_targets args = map (\<lambda>_. ro_appOwner ro) (bt_payloads args)" "bt_values args = map (\<lambda>_. 0) (bt_payloads args)"
    "bt_payloads args = payloads"
    by (simp_all add: args_def)
  have e: "ab_operationId ab args = Inr (rb_operationId batch)" "ab_scheduleBatch ab args (ro_delay ro) = Inr (tx_data (rb_schedule batch))"
      "ab_executeBatch ab args = Inr (tx_data (rb_execute batch))"
      "tx_to (rb_schedule batch) = ro_timelock ro" "tx_to (rb_execute batch) = ro_timelock ro"
    using assms(1) unfolding buildReleaseBatch_def Let_def p by (auto simp: bind_eq_Inr args_def)
  have "set (retired_hashes ro) = allowed - {toLowerCase (ro_composeHash ro)}"
    using assms(4,5) by (force simp: retired_hashes_def)
  then have "fold run_call (map dec payloads) allowed = {toLowerCase (ro_composeHash ro)}"
    unfolding batch_calls [OF p assms(2)] by (auto simp: run_removes)
  then have "run_batch dec (ro_appOwner ro) args allowed = Some {toLowerCase (ro_composeHash ro)}"
    using run_batch_owner [OF a(1,2)] a(3) by simp
  with e assms(3) show ?thesis unfolding decodes_batch_def by blast
qed

text \<open>A concrete ABI: a forwarded call is a letter and the hash; of batches it encodes the one that a release
  of \<open>0xAB\<close> over two allowed builds needs, and refuses any other.\<close>

definition toy_args :: batch_args where
  "toy_args = \<lparr>bt_targets = [''0xo'', ''0xo'', ''0xo''], bt_values = [0, 0, 0], bt_payloads = [''a0xab'', ''r0x01'', ''r0x02''],
     bt_predecessor = DEFAULT_ADMIN_ROLE, bt_salt = ''0xab''\<rparr>"

definition toy_abi :: abi where
  "toy_abi = \<lparr>ab_addComposeHash = \<lambda>h. Inr (CHR ''a'' # h), ab_removeComposeHash = \<lambda>h. Inr (CHR ''r'' # h), ab_execute = \<lambda>d. Inr d,
     ab_operationId = \<lambda>a. Inr ''id'',
     ab_scheduleBatch = \<lambda>a d. if a = toy_args \<and> d = 604800 then Inr ''s'' else Inl TypeError,
     ab_executeBatch = \<lambda>a. if a = toy_args then Inr ''e'' else Inl TypeError\<rparr>"

definition toy_timelock :: timelock_decoder where
  "toy_timelock = \<lparr>td_schedule = \<lambda>s. if s = ''s'' then Some (toy_args, 604800) else None,
     td_execute = \<lambda>s. if s = ''e'' then Some toy_args else None\<rparr>"

definition toy_decode :: "string \<Rightarrow> app_call" where
  "toy_decode p = (if hd p = CHR ''a'' then Add (tl p) else Remove (tl p))"

definition toy_release :: release_options where
  "toy_release = \<lparr>ro_appOwner = ''0xo'', ro_timelock = ''0xt'', ro_delay = 604800, ro_composeHash = ''0xAB'', ro_allowed = [''0x01'', ''0x02'']\<rparr>"

theorem release_leaves_one_build_witness:
  "\<exists>batch args. buildReleaseBatch toy_abi toy_release = Inr batch
    \<and> td_execute toy_timelock (tx_data (rb_execute batch)) = Some args
    \<and> run_batch toy_decode ''0xo'' args {''0x01'', ''0x02''} = Some {''0xab''}"
proof -
  have lc: "toLowerCase ''0xAB'' = ''0xab''" "toLowerCase ''0x01'' = ''0x01''" "toLowerCase ''0x02'' = ''0x02''" by code_simp+
  have d: "decodes toy_abi toy_decode" by (auto simp: decodes_def toy_abi_def toy_decode_def)
  have t: "decodes_batch toy_abi toy_timelock" by (auto simp: decodes_batch_def toy_abi_def toy_timelock_def split: if_splits)
  have p: "batch_payloads toy_abi toy_release = Inr [''a0xab'', ''r0x01'', ''r0x02'']"
    by (simp add: batch_payloads_def retired_hashes_def toy_abi_def toy_release_def lc)
  obtain batch where b: "buildReleaseBatch toy_abi toy_release = Inr batch"
    using p lc by (simp add: buildReleaseBatch_def toy_abi_def toy_release_def Let_def toy_args_def)
  have s: "{''0x01'', ''0x02''} = set (ro_allowed toy_release)" "\<forall>h \<in> {''0x01'', ''0x02''}. toLowerCase h = h"
    "ro_appOwner toy_release = ''0xo''" "toLowerCase (ro_composeHash toy_release) = ''0xab''"
    using lc by (simp_all add: toy_release_def)
  from release_leaves_one_build [OF b d t s(1,2)] b show ?thesis unfolding s(3,4) by blast
qed

section \<open>A start block that is not a number\<close>

lemma from_block_text: "from_block (Some ''latest'') = Some NaN"
  by code_simp

lemma history_NaN: "history_loop reader app latest step NaN h = Some (Inr h)"
  by (subst history_loop.simps) simp

text \<open>A start block that is not a number reads no history at all, so no compose hash counts as allowed and
  the batch of the release retires none of them.\<close>

theorem bad_from_block_retires_nothing:
  assumes "readAppGovernance reader app (Some NaN) None = Some (Inr g)"
  shows "allowed_hashes g = [] \<and> retired_hashes (ro\<lparr>ro_allowed := allowed_hashes g\<rparr>) = []"
  using assms
  by (auto simp: readAppGovernance_def readHistory_def history_NaN bind_eq_Inr allowed_hashes_def retired_hashes_def
      split: sum.splits prod.splits)

end
