(* ===== verification/VerifyTool.thy ===== *)
theory VerifyTool
  imports KeyBinding Release
begin

text \<open>
  \<open>scripts/testing/verify-attestation.ts\<close>, the command-line client that checks a server before anything is
  sent to it.

  A run prints lines and ends, or exits with code 1; a line is a verdict with its text, and the informative
  lines are left out, as are the marks before the lines and the value of an unexpected TEE type.  \<open>process.exit(1)\<close> and an exception that reaches the outer \<open>catch\<close> are both an error
  value.  A run whose reading of the chain's history does not return has no result.  The URL parser,
  \<open>fetch\<close>, the file system, TLS, \<open>Date\<close>, \<open>JSON.parse\<close> and the RPC nodes are arguments.  Certificates are read
  byte by byte; the tool decodes them as UTF-8 first, which differs only outside the base64 alphabet.
  \<open>flag\<close> and the reading of \<open>--from-block\<close> are the same code as in \<open>Release\<close>.

  Shown: what a passed run on a server means, composed from the check of the key binding and of the
  governance; and what it does not mean: a stale attestation is reported as fresh, a run without a
  compose-hash event is reported as running an allowed build, a quote of a platform other than TDX is not
  looked at, and the registers it prints are not those of the quote.
\<close>

section \<open>State and arguments\<close>

datatype line = Warning string | Failure string | Success string

type_synonym 'a tool = "(line list, 'a) act"

definition say :: "line \<Rightarrow> unit tool" where
  "say l = smodify (\<lambda>ls. ls @ [l])"

definition say_all :: "line list \<Rightarrow> unit tool" where
  "say_all new = smodify (\<lambda>ls. ls @ new)"

definition exit_1 :: "string list \<Rightarrow> 'a tool" where
  "exit_1 messages = sbind (say_all (map Failure messages)) (\<lambda>_. slift (Inl (Error (hd messages))))"

record served_attestation = key_binding_evidence +
  sv_nonce :: "string option"
  sv_measurement :: string
  sv_timestamp :: string

record governance_options =
  go_app :: string
  go_rpc :: string
  go_fromBlock :: "jsnum option"
  go_minDelay :: int

record credits_options =
  co_credits :: string
  co_rpc :: string
  co_minDelay :: int

record http_response =
  hr_status :: nat
  hr_statusText :: string
  hr_body :: string

record verify_world =
  vw_lib :: verify_lib
  vw_fetch :: "string \<Rightarrow> http_response res"
  vw_readFile :: "string \<Rightarrow> string res"
  vw_parse_attestation :: "string \<Rightarrow> served_attestation res"
  vw_parse_manifest :: "string \<Rightarrow> signed_key_manifest res"
  vw_origin :: "string \<Rightarrow> string res"
  vw_with_nonce :: "string \<Rightarrow> string \<Rightarrow> string res"
  vw_manifest_url :: "string \<Rightarrow> string res"
  vw_url_parts :: "string \<Rightarrow> (string \<times> string \<times> string) res"
  vw_peer_certificate :: "string \<Rightarrow> string \<Rightarrow> bytes option"
  vw_reader :: "string \<Rightarrow> chain_reader"
  vw_nonce :: bytes
  vw_date :: "string \<Rightarrow> jsnum"
  vw_now :: jsnum

section \<open>Fetching\<close>

definition is_url :: "string \<Rightarrow> bool" where
  "is_url source = (startsWith source ''http://'' \<or> startsWith source ''https://'')"

definition ok_body :: "http_response res \<Rightarrow> string res" where
  "ok_body r = bind r (\<lambda>response.
     if 200 \<le> hr_status response \<and> hr_status response < 300 then Inr (hr_body response)
     else Inl (Error (''HTTP '' @ dec_of_nat (hr_status response) @ '': '' @ hr_statusText response)))"

definition fetchAttestation :: "verify_world \<Rightarrow> string \<Rightarrow> served_attestation res" where
  "fetchAttestation w source =
     (if is_url source then bind (ok_body (vw_fetch w source)) (vw_parse_attestation w)
      else bind (vw_readFile w source) (vw_parse_attestation w))"

text \<open>The URL of the manifest is built outside the \<open>try\<close>.\<close>

definition fetchKeyManifest :: "verify_world \<Rightarrow> string \<Rightarrow> signed_key_manifest option tool" where
  "fetchKeyManifest w baseUrl =
     sbind (slift (vw_manifest_url w baseUrl)) (\<lambda>url.
     case bind (ok_body (vw_fetch w url)) (vw_parse_manifest w) of
       Inr manifest \<Rightarrow> sret (Some manifest)
     | Inl e \<Rightarrow> sbind (say (Warning (''Could not fetch key manifest: '' @ exn_text e))) (\<lambda>_. sret None))"

definition fetchServedTlsCertificate :: "verify_world \<Rightarrow> string \<Rightarrow> bytes option res" where
  "fetchServedTlsCertificate w baseUrl =
     bind (vw_url_parts w baseUrl) (\<lambda>(protocol, hostname, port).
       Inr (if protocol \<noteq> ''https:'' then None
            else vw_peer_certificate w hostname (if port \<noteq> [] then port else ''443'')))"

section \<open>The checks\<close>

definition verifyBinding ::
  "verify_lib \<Rightarrow> served_attestation \<Rightarrow> bytes option \<Rightarrow> bytes option \<Rightarrow> signed_key_manifest option \<Rightarrow> bool tool" where
  "verifyBinding lib att nonce servedCertificate keyManifest =
     sbind (slift (verifyKeyBinding lib (key_binding_evidence.truncate att)
         \<lparr>bo_nonce = nonce, bo_servedCertificate = servedCertificate, bo_keyManifest = keyManifest\<rparr>)) (\<lambda>failures.
     if failures \<noteq> [] then sbind (say_all (map Failure failures)) (\<lambda>_. sret False)
     else sbind (say_all ([Success ''report_data commits to the returned keys and the nonce'']
         @ (if present (bk_tlsCertificate (kb_keys att)) = None then [Warning ''No TLS certificate is bound: TLS terminates OUTSIDE the TEE'']
            else if servedCertificate \<noteq> None then [Success ''TLS terminates inside the attested enclave''] else [])
         @ (if kb_eventLog att \<noteq> None then [Success ''The event log replays to RTMR0-3''] else [])
         @ (if keyManifest \<noteq> None then [Success ''The key manifest signs the same keys''] else []))) (\<lambda>_. sret True))"

record tdx_quote_body =
  qb_mrtd :: bytes
  qb_mrconfigid :: bytes
  qb_mrowner :: bytes
  qb_mrownerconfig :: bytes
  qb_rtmrs :: "bytes list"
  qb_reportData :: bytes

definition parseTdxQuoteBody :: "bytes \<Rightarrow> tdx_quote_body" where
  "parseTdxQuoteBody quote =
     (let tdReport = drop 48 quote in
      \<lparr>qb_mrtd = subarray (112 - 48) (160 - 48) tdReport, qb_mrconfigid = subarray (160 - 48) (208 - 48) tdReport,
       qb_mrowner = subarray (208 - 48) (256 - 48) tdReport, qb_mrownerconfig = subarray (256 - 48) (304 - 48) tdReport,
       qb_rtmrs = [subarray (304 - 48) (352 - 48) tdReport, subarray (352 - 48) (400 - 48) tdReport,
         subarray (400 - 48) (448 - 48) tdReport, subarray (448 - 48) (496 - 48) tdReport],
       qb_reportData = subarray (536 - 48) (600 - 48) tdReport\<rparr>)"

definition le_value :: "bytes \<Rightarrow> nat" where
  "le_value bs = foldr (\<lambda>b n. unat b + 256 * n) bs 0"

record tdx_quote_header =
  qh_version :: nat
  qh_attestKeyType :: nat
  qh_teeType :: nat
  qh_qeSvn :: nat
  qh_pceSvn :: nat
  qh_qeVendorId :: bytes
  qh_userData :: bytes

definition parseTdxQuoteHeader :: "bytes \<Rightarrow> tdx_quote_header" where
  "parseTdxQuoteHeader quote =
     \<lparr>qh_version = le_value (subarray 0 2 quote), qh_attestKeyType = le_value (subarray 2 4 quote),
      qh_teeType = le_value (subarray 4 8 quote), qh_qeSvn = le_value (subarray 8 10 quote),
      qh_pceSvn = le_value (subarray 10 12 quote), qh_qeVendorId = subarray 12 28 quote, qh_userData = subarray 28 48 quote\<rparr>"

fun offset_of :: "'a list \<Rightarrow> 'a list \<Rightarrow> nat option" where
  "offset_of needle [] = (if needle = [] then Some 0 else None)"
| "offset_of needle (x # xs) =
     (if take (length needle) (x # xs) = needle then Some 0 else map_option Suc (offset_of needle xs))"

definition BEGIN_CERTIFICATE :: bytes where
  "BEGIN_CERTIFICATE = ascii_bytes ''-----BEGIN CERTIFICATE-----''"

definition END_CERTIFICATE :: bytes where
  "END_CERTIFICATE = ascii_bytes ''-----END CERTIFICATE-----''"

text \<open>What the pattern matches: from a begin marker, over at least one character, to the next end marker.  The
  middle of each match is kept, which is what \<open>parseCertificate\<close> decodes.\<close>

function extractCertificateChain :: "bytes \<Rightarrow> bytes list" where
  "extractCertificateChain text = (case offset_of BEGIN_CERTIFICATE text of
     None \<Rightarrow> []
   | Some i \<Rightarrow>
       let rest = drop (i + length BEGIN_CERTIFICATE) text in
       (case offset_of END_CERTIFICATE (drop 1 rest) of
          None \<Rightarrow> []
        | Some j \<Rightarrow> take (Suc j) rest # extractCertificateChain (drop (Suc j + length END_CERTIFICATE) rest)))"
  by pat_completeness auto

lemma offset_of_bound: "offset_of needle xs = Some i \<Longrightarrow> i + length needle \<le> length xs"
proof (induction xs arbitrary: i)
  case (Cons x xs)
  then show ?case
    by (auto split: if_splits dest: arg_cong[where f = length])
qed (auto split: if_splits)

termination extractCertificateChain
  by (relation "measure length")
    (auto dest!: offset_of_bound simp: BEGIN_CERTIFICATE_def END_CERTIFICATE_def ascii_bytes_def)

declare extractCertificateChain.simps [simp del]

definition INTEL_ROOT_CA_FINGERPRINTS :: "string list" where
  "INTEL_ROOT_CA_FINGERPRINTS = [''9f0ca0dfd1d60b81a2c1b89ae7e0f000c8b1f46b63c3c4d34ae9f3c9e6a5d5b4'',
     ''8d41a8e2c5e9e9f4e3e9f2c4b7c1c9d0f3e4c8b2a9d7e6f1c2b4a3d8e7f6c5d4'']"

definition fingerprint :: "(bytes \<Rightarrow> bytes) \<Rightarrow> bytes \<Rightarrow> string" where
  "fingerprint sha256 cert = hex_of_bytes (sha256 (b64_decode (map (\<lambda>b. char_of (unat b)) cert)))"

definition verifyCertificateChain :: "(bytes \<Rightarrow> bytes) \<Rightarrow> bytes list \<Rightarrow> bool tool" where
  "verifyCertificateChain sha256 certs =
     (if certs = [] then sbind (say (Warning ''No certificates found in quote'')) (\<lambda>_. sret False)
      else if list_ex (\<lambda>fp. startsWith (fingerprint sha256 (last certs)) (take 16 fp)) INTEL_ROOT_CA_FINGERPRINTS then sret True
      else sbind (say_all [Warning ''Root certificate fingerprint does not match known Intel Root CAs'',
          Warning ''This may be expected for Phala-specific certificate chains'']) (\<lambda>_. sret True))"

text \<open>The age in seconds; an unreadable time gives NaN, and every comparison with NaN is false.\<close>

definition verifyTimestamp :: "verify_world \<Rightarrow> string \<Rightarrow> bool tool" where
  "verifyTimestamp w timestamp =
     (let ageSeconds = jdiv (jsub (vw_now w) (vw_date w timestamp)) (Fin 1000) in
      if jlt (Fin 300) ageSeconds
      then sbind (say_all [Warning ''Attestation is older than 300 seconds'',
          Warning ''This may indicate a replay attack or cached attestation'']) (\<lambda>_. sret False)
      else if jlt ageSeconds (Fin (- 60))
      then sbind (say (Failure ''Attestation timestamp is in the future!'')) (\<lambda>_. sret False)
      else sbind (say (Success ''Timestamp is fresh'')) (\<lambda>_. sret True))"

definition measurement_lines :: "tdx_quote_body \<Rightarrow> string \<Rightarrow> line list" where
  "measurement_lines body provided =
     (if list_all (\<lambda>b. b = 0) (qb_mrtd body)
      then [Warning ''MRTD is all zeros - measurement may not have been extracted correctly'',
            Warning ''This could indicate an issue with quote parsing or generation'']
      else if hex_of_bytes (qb_mrtd body) = provided then [Success ''MRTD matches provided measurement'']
      else [Warning ''MRTD does not match provided measurement'', Warning ''This may be due to different extraction offsets''])"

definition verifyTdxQuote :: "verify_world \<Rightarrow> served_attestation \<Rightarrow> unit tool" where
  "verifyTdxQuote w att =
     (let quoteBuffer = b64_decode (kb_quote att); header = parseTdxQuoteHeader quoteBuffer; body = parseTdxQuoteBody quoteBuffer in
      if length quoteBuffer < 600 then exit_1 [''Quote is too small to be a valid TDX quote'',
        ''Expected at least 600 bytes, got '' @ dec_of_nat (length quoteBuffer)]
      else sbind (say (if qh_teeType header \<noteq> 129 then Warning ''Unexpected TEE type. Expected 0x00000081 (TDX)'' else Success ''TEE type is TDX (0x00000081)'')) (\<lambda>_.
        sbind (say_all (measurement_lines body (sv_measurement att))) (\<lambda>_.
        sbind (verifyCertificateChain (vl_sha256 (vw_lib w)) (extractCertificateChain quoteBuffer)) (\<lambda>_.
        sbind (verifyTimestamp w (sv_timestamp att)) (\<lambda>_.
        say_all [Success ''Platform: Intel TDX'', Success ''Quote structure: Valid'', Success ''Certificate chain: Present'',
          Success ''Timestamp: Fresh''])))))"

definition verifySevSnpQuote :: "served_attestation \<Rightarrow> unit tool" where
  "verifySevSnpQuote att =
     (let reportBuffer = b64_decode (kb_quote att) in
      sbind (say_all (if length reportBuffer < 1184 then [Warning ''Report is smaller than expected SEV-SNP report size (1184 bytes)''] else [])) (\<lambda>_.
      say (Success ''SEV-SNP report structure appears valid'')))"

definition verifyNitroQuote :: "unit tool" where
  "verifyNitroQuote = say (Success ''Nitro attestation document appears valid'')"

section \<open>Governance\<close>

definition running_hash :: "verify_world \<Rightarrow> string option \<Rightarrow> string option" where
  "running_hash w eventLog = (case present eventLog of
     None \<Rightarrow> None | Some text \<Rightarrow> composeHashFromEventLog (vl_parse_log (vw_lib w)) text)"

definition governance_verdict :: "governance_options \<Rightarrow> string option \<Rightarrow> app_governance \<Rightarrow> unit tool" where
  "governance_verdict options composeHash g =
     (let (failures, warnings) = checkAppGovernance (Some (nat (go_minDelay options))) composeHash g in
      sbind (say_all ((if ag_composeHashes g = [] then [Warning ''No ComposeHashAdded event found: check --from-block''] else [])
        @ map (\<lambda>(implementation, blockNumber). Warning (''Implementation upgraded to '' @ implementation
            @ '' at block '' @ dec_of_nat blockNumber)) (ag_upgrades g)
        @ map Warning warnings)) (\<lambda>_.
      if failures \<noteq> []
      then exit_1 (failures @ [''Builds can be added to this app without the published governance.''])
      else say (Success ''Only timelocked builds can be added, and the running build is allowed'')))"

definition manifest_names_app :: "verify_lib \<Rightarrow> signed_key_manifest \<Rightarrow> string \<Rightarrow> bool res" where
  "manifest_names_app lib sm app =
     bind (vl_getAddress lib (km_appId (sk_manifest sm))) (\<lambda>named.
     bind (vl_getAddress lib app) (\<lambda>address. Inr (named = address)))"

definition verifyGovernance ::
  "verify_world \<Rightarrow> governance_options \<Rightarrow> signed_key_manifest option \<Rightarrow> string option
   \<Rightarrow> line list \<Rightarrow> (line list \<times> unit res) option" where
  "verifyGovernance w options keyManifest eventLog ls = (case keyManifest of
     None \<Rightarrow> Some (exit_1 [''No key manifest: cannot tell which app these keys belong to''] ls)
   | Some sm \<Rightarrow>
     (case manifest_names_app (vw_lib w) sm (go_app options) of
        Inl e \<Rightarrow> Some (ls, Inl e)
      | Inr names \<Rightarrow>
          if \<not> names
          then Some (exit_1 [''The key manifest names app '' @ km_appId (sk_manifest sm) @ '', not '' @ go_app options
            @ '': these are another app's keys''] ls)
          else let composeHash = running_hash w eventLog;
              ls1 = ls @ [Success ''The key manifest names this app'']
                @ (if composeHash = None then [Warning ''No compose-hash event: the running build is not checked''] else [])
            in map_option (\<lambda>r. sbind (slift r) (governance_verdict options composeHash) ls1)
               (readAppGovernance (vw_reader w (go_rpc options)) (go_app options) (go_fromBlock options) None)))"

definition verifyCreditsGovernance :: "verify_world \<Rightarrow> credits_options \<Rightarrow> unit tool" where
  "verifyCreditsGovernance w options =
     sbind (slift (readCreditsGovernance (vw_reader w (co_rpc options)) (co_credits options))) (\<lambda>g.
     let (failures, warnings) = checkCreditsGovernance (Some (nat (co_minDelay options))) g in
     sbind (say_all (map Warning warnings)) (\<lambda>_.
     if failures \<noteq> []
     then exit_1 (failures @ [''LongjingCredits can be changed without the published governance.''])
     else say (Success ''Only the timelock can change LongjingCredits'')))"

section \<open>The run\<close>

text \<open>Steps 1 to 3: the attestation, the manifest, and the binding of the keys.\<close>

definition verify_keys :: "verify_world \<Rightarrow> string \<Rightarrow> (served_attestation \<times> signed_key_manifest option) tool" where
  "verify_keys w source =
     sbind (slift (if is_url source
         then bind (vw_origin w source) (\<lambda>baseUrl.
              bind (vw_with_nonce w source (hex_of_bytes (vw_nonce w))) (\<lambda>url. Inr (baseUrl, url)))
         else Inr ([], source))) (\<lambda>(baseUrl, from).
     sbind (slift (fetchAttestation w from)) (\<lambda>att.
     if kb_platform att = ''mock'' then exit_1 [''Server is NOT running in a TEE!'', ''This is a development/mock attestation.'',
       ''DO NOT send sensitive data to this server.'']
     else sbind (say (Success (''Platform: '' @ kb_platform att))) (\<lambda>_.
       sbind (if is_url source then fetchKeyManifest w baseUrl else sret None) (\<lambda>keyManifest.
       sbind (slift (if is_url source then fetchServedTlsCertificate w baseUrl else Inr None)) (\<lambda>servedCertificate.
       sbind (say_all (if is_url source then [] else [Warning ''Local file mode: the nonce in the file cannot prove freshness''])) (\<lambda>_.
       sbind (verifyBinding (vw_lib w) att
           (if is_url source then Some (vw_nonce w)
            else case present (sv_nonce att) of None \<Rightarrow> None | Some n \<Rightarrow> Some (bytes_of_hex (drop 2 n)))
           servedCertificate keyManifest) (\<lambda>bindingValid.
       if bindingValid then sret (att, keyManifest) else exit_1 [''CRITICAL: key binding verification FAILED'',
         ''This could indicate a man-in-the-middle attack or misconfiguration'', ''DO NOT trust this server!''])))))))"

definition verify_quote :: "verify_world \<Rightarrow> served_attestation \<Rightarrow> unit tool" where
  "verify_quote w att =
     sbind (if kb_platform att = ''intel-tdx'' \<or> kb_platform att = ''phala'' then verifyTdxQuote w att
       else if kb_platform att = ''amd-sev-snp'' then verifySevSnpQuote att
       else if kb_platform att = ''aws-nitro'' then verifyNitroQuote
       else sret ()) (\<lambda>_.
     sbind (verifyTimestamp w (sv_timestamp att)) (\<lambda>_. sret ()))"

definition summary :: "served_attestation \<Rightarrow> bool \<Rightarrow> bool \<Rightarrow> line list" where
  "summary att governed credited =
     [Success (''Platform: '' @ kb_platform att), Success ''Key binding: Valid'', Success ''Quote structure: Valid'',
      Success ''Timestamp: Fresh'']
     @ (if governed then [Success ''Governance: Timelocked''] else [])
     @ (if credited then [Success ''LongjingCredits: Timelocked''] else [])"

definition verify_credits :: "verify_world \<Rightarrow> served_attestation \<Rightarrow> bool \<Rightarrow> credits_options option \<Rightarrow> unit tool" where
  "verify_credits w att governed creditsOptions =
     sbind (case creditsOptions of
         Some options \<Rightarrow> verifyCreditsGovernance w options
       | None \<Rightarrow> say (Warning ''Skipped LongjingCredits: pass --credits <address> to check who can change its verifiers'')) (\<lambda>_.
     say_all (summary att governed (creditsOptions \<noteq> None)))"

definition verifyAttestation ::
  "verify_world \<Rightarrow> string \<Rightarrow> governance_options option \<Rightarrow> credits_options option \<Rightarrow> (line list \<times> unit res) option" where
  "verifyAttestation w source governanceOptions creditsOptions =
     (case sbind (verify_keys w source) (\<lambda>(att, keyManifest). sbind (verify_quote w att) (\<lambda>_. sret (att, keyManifest))) [] of
        (ls, Inl e) \<Rightarrow> Some (ls, Inl e)
      | (ls, Inr (att, keyManifest)) \<Rightarrow>
          (case (case governanceOptions of
                   Some options \<Rightarrow> verifyGovernance w options keyManifest (kb_eventLog att) ls
                 | None \<Rightarrow> Some (say (Warning ''Skipped governance: pass --app <DstackApp> to check who can add builds'') ls)) of
             None \<Rightarrow> None
           | Some (ls1, Inl e) \<Rightarrow> Some (ls1, Inl e)
           | Some (ls1, Inr _) \<Rightarrow> Some (verify_credits w att (governanceOptions \<noteq> None) creditsOptions ls1)))"

text \<open>The options of the command line; \<open>BigInt\<close> of a bad \<open>--min-delay\<close> throws before anything runs.\<close>

definition min_delay :: "string option \<Rightarrow> int res" where
  "min_delay v = (case present v of None \<Rightarrow> Inr (int DEFAULT_MIN_DELAY_SECONDS) | Some t \<Rightarrow> BigInt_of_string t)"

definition tool_options ::
  "env \<Rightarrow> string list \<Rightarrow> (string \<times> governance_options option \<times> credits_options option) res" where
  "tool_options env argv =
     (let (args1, app) = flag ''--app'' argv; (args2, rpcFlag) = flag ''--rpc'' args1;
          (args3, fromBlock) = flag ''--from-block'' args2; (args4, minDelay) = flag ''--min-delay'' args3;
          (args5, credits) = flag ''--credits'' args4; (args6, creditsRpcFlag) = flag ''--credits-rpc'' args5;
          rpc = (case rpcFlag of Some r \<Rightarrow> r | None \<Rightarrow>
            (case jm_get env ''BASE_RPC_URL'' of Some r \<Rightarrow> r | None \<Rightarrow> ''https://mainnet.base.org''));
          creditsRpc = (case creditsRpcFlag of Some r \<Rightarrow> r | None \<Rightarrow>
            (case jm_get env ''ETHEREUM_RPC_URLS'' of Some r \<Rightarrow> hd (split_on CHR '','' r) | None \<Rightarrow> ''https://ethereum-rpc.publicnode.com''))
      in bind (case present app of None \<Rightarrow> Inr None
           | Some a \<Rightarrow> bind (min_delay minDelay) (\<lambda>d. Inr (Some
               \<lparr>go_app = a, go_rpc = rpc, go_fromBlock = from_block fromBlock, go_minDelay = d\<rparr>))) (\<lambda>governanceOptions.
         bind (case present credits of None \<Rightarrow> Inr None
           | Some c \<Rightarrow> bind (min_delay minDelay) (\<lambda>d. Inr (Some \<lparr>co_credits = c, co_rpc = creditsRpc, co_minDelay = d\<rparr>))) (\<lambda>creditsOptions.
         Inr (case args6 of [] \<Rightarrow> ''http://localhost:3000/attestation'' | source # _ \<Rightarrow> source, governanceOptions, creditsOptions))))"

definition tool_main :: "verify_world \<Rightarrow> env \<Rightarrow> string list \<Rightarrow> (line list \<times> unit res) option" where
  "tool_main w env argv = (case tool_options env argv of
     Inl e \<Rightarrow> Some ([], Inl e)
   | Inr (source, governanceOptions, creditsOptions) \<Rightarrow> verifyAttestation w source governanceOptions creditsOptions)"

section \<open>What a passed run means\<close>

lemma tool_run [act_simps]:
  "say l ls = (ls @ [l], Inr ())" "say_all new ls = (ls @ new, Inr ())"
  "exit_1 messages ls = (ls @ map Failure messages, Inl (Error (hd messages)))"
  by (simp_all add: say_def say_all_def exit_1_def sbind_def)

lemma exit_1_not_ok [simp]: "exit_1 messages ls \<noteq> (ls', Inr v)"
  by (simp add: tool_run)

lemma verifyBinding_ok:
  assumes "verifyBinding lib att nonce served manifest ls = (ls', Inr True)"
  shows "verifyKeyBinding lib (key_binding_evidence.truncate att)
     \<lparr>bo_nonce = nonce, bo_servedCertificate = served, bo_keyManifest = manifest\<rparr> = Inr []"
  using assms by (auto simp: verifyBinding_def sbind_ok tool_run split: if_splits)

lemma verify_keys_ok:
  assumes "verify_keys w source ls = (ls', Inr (att, manifest))" "is_url source"
  obtains base url served where "vw_origin w source = Inr base"
    "vw_with_nonce w source (hex_of_bytes (vw_nonce w)) = Inr url" "fetchAttestation w url = Inr att"
    "kb_platform att \<noteq> ''mock''" "fetchServedTlsCertificate w base = Inr served"
    "verifyKeyBinding (vw_lib w) (key_binding_evidence.truncate att)
       \<lparr>bo_nonce = Some (vw_nonce w), bo_servedCertificate = served, bo_keyManifest = manifest\<rparr> = Inr []"
  using assms unfolding verify_keys_def
  by (auto simp: sbind_ok bind_eq_Inr split: if_splits dest!: verifyBinding_ok)

lemma governance_verdict_ok:
  assumes "governance_verdict opts composeHash g ls = (ls', Inr ())"
  shows "fst (checkAppGovernance (Some (nat (go_minDelay opts))) composeHash g) = []"
  using assms by (auto simp: governance_verdict_def sbind_ok Let_def split: prod.splits if_splits)

lemma verifyGovernance_ok:
  assumes "verifyGovernance w opts manifest eventLog ls = Some (ls', Inr ())"
  obtains sm g where "manifest = Some sm" "manifest_names_app (vw_lib w) sm (go_app opts) = Inr True"
    "readAppGovernance (vw_reader w (go_rpc opts)) (go_app opts) (go_fromBlock opts) None = Some (Inr g)"
    "fst (checkAppGovernance (Some (nat (go_minDelay opts))) (running_hash w eventLog) g) = []"
  using assms unfolding verifyGovernance_def Let_def
  by (auto simp: sbind_ok split: option.splits sum.splits if_splits dest!: governance_verdict_ok)

lemma verifyAttestation_ok:
  assumes "verifyAttestation w source gov credits = Some (ls, Inr ())"
  obtains ls1 ls2 ls3 att manifest where "verify_keys w source [] = (ls1, Inr (att, manifest))"
    "verify_quote w att ls1 = (ls2, Inr ())"
    "case gov of None \<Rightarrow> True | Some opts \<Rightarrow> verifyGovernance w opts manifest (kb_eventLog att) ls2 = Some (ls3, Inr ())"
    "verify_credits w att (gov \<noteq> None) credits ls3 = (ls, Inr ())"
proof -
  let ?keys = "sbind (verify_keys w source) (\<lambda>(att, keyManifest). sbind (verify_quote w att) (\<lambda>_. sret (att, keyManifest))) []"
  from assms obtain ls2 att manifest where run: "?keys = (ls2, Inr (att, manifest))"
    unfolding verifyAttestation_def by (auto split: prod.splits sum.splits)
  then obtain ls1 where k: "verify_keys w source [] = (ls1, Inr (att, manifest))" and q: "verify_quote w att ls1 = (ls2, Inr ())"
    by (auto simp: sbind_ok)
  from assms obtain ls3 where "case gov of None \<Rightarrow> True | Some opts \<Rightarrow> verifyGovernance w opts manifest (kb_eventLog att) ls2 = Some (ls3, Inr ())"
    "verify_credits w att (gov \<noteq> None) credits ls3 = (ls, Inr ())"
    unfolding verifyAttestation_def run by (auto split: option.splits sum.splits prod.splits)
  with k q show thesis by (rule that)
qed

text \<open>What the key manifest adds: it names the app, and the identity key of the attestation signed it.\<close>

definition vouched :: "verify_lib \<Rightarrow> bound_keys \<Rightarrow> string \<Rightarrow> bool" where
  "vouched lib keys app \<longleftrightarrow> (\<exists>sm identity. manifest_names_app lib sm app = Inr True
     \<and> identity_of keys = Some identity \<and> signature_failures lib sm identity = [])"

lemma verified_manifest_vouches:
  assumes "verifyKeyBinding lib ev \<lparr>bo_nonce = n, bo_servedCertificate = c, bo_keyManifest = Some sm\<rparr> = Inr []"
    "manifest_names_app lib sm app = Inr True"
  shows "vouched lib (kb_keys ev) app"
proof -
  from assms(1) obtain inputs where "bound_inputs (kb_keys ev) = Inr inputs"
    "verifyManifest lib sm (ri_mlkemPublicKey inputs) (kb_keys ev) (ri_identityPublicKey inputs) (ri_tlsCertificateDer inputs) = Inr []"
    by (auto simp: verifyKeyBinding_def bind_eq_Inr)
  then show ?thesis
    using assms(2) unfolding vouched_def
    by (auto simp: bound_inputs_def verifyManifest_def Let_def bind_eq_Inr split: option.splits)
qed

definition same_keys :: "verify_world \<Rightarrow> string \<Rightarrow> served_attestation \<Rightarrow> report_inputs \<Rightarrow> report_inputs \<Rightarrow> bool" where
  "same_keys w source att i j \<longleftrightarrow>
     b64_decode (bk_mlkemPublicKey (kb_keys att)) = ri_mlkemPublicKey i
     \<and> or_empty (identity_of (kb_keys att)) = or_empty (ri_identityPublicKey i)
     \<and> or_empty (ri_refundSignerPublicKey j) = or_empty (ri_refundSignerPublicKey i)
     \<and> (\<forall>base c. vw_origin w source = Inr base \<longrightarrow> fetchServedTlsCertificate w base = Inr (Some c) \<longrightarrow>
          (\<exists>d. ri_tlsCertificateDer i = Some d \<and> (d = c \<or> collide (vl_sha256 (vw_lib w)) d c)))"

definition governed :: "verify_world \<Rightarrow> governance_options \<Rightarrow> string option \<Rightarrow> bool" where
  "governed w opts eventLog \<longleftrightarrow>
     (let reader = vw_reader w (go_rpc opts) in
      \<exists>app owner timelock delay. cr_getAddress reader (go_app opts) = Inr app \<and> cr_address reader app ''owner'' = Inr owner
        \<and> cr_address reader owner ''app'' = Inr app \<and> cr_address reader owner ''timelock'' = Inr timelock
        \<and> cr_uint reader timelock ''getMinDelay'' = Inr delay \<and> go_minDelay opts \<le> int delay
        \<and> cr_bool reader app ''requireTcbUpToDate'' [] = Inr True
        \<and> (\<forall>h. running_hash w eventLog = Some h \<longrightarrow> cr_bool reader app ''allowedComposeHashes'' [h] = Inr True))"

lemma to_lower_char_idem [simp]: "to_lower_char (to_lower_char c) = to_lower_char c"
  by (simp add: to_lower_char_def)

lemma normalizeHash_idem: "normalizeHash (normalizeHash h) = normalizeHash h"
  by (simp add: normalizeHash_def startsWith_def toLowerCase_def)

lemma running_hash_normal:
  assumes "running_hash w eventLog = Some h"
  shows "normalizeHash h = h" "h \<noteq> []"
proof -
  from assms obtain p where "h = normalizeHash p"
    by (auto simp: running_hash_def composeHashFromEventLog_def split: option.splits sum.splits if_splits)
  then show "normalizeHash h = h" "h \<noteq> []" by (simp_all add: normalizeHash_idem) (simp add: normalizeHash_def)
qed

lemma verifyGovernance_governed:
  assumes "verifyGovernance w opts manifest eventLog ls = Some (ls', Inr ())"
  shows "governed w opts eventLog"
proof -
  from assms obtain g where
    r: "readAppGovernance (vw_reader w (go_rpc opts)) (go_app opts) (go_fromBlock opts) None = Some (Inr g)"
    and c: "fst (checkAppGovernance (Some (nat (go_minDelay opts))) (running_hash w eventLog) g) = []"
    by (rule verifyGovernance_ok)
  from governance_check_sound [OF r c] show ?thesis
    unfolding governed_def Let_def option.case nat_le_iff using running_hash_normal [of w eventLog] by metis
qed

text \<open>C33 A passed run of the verifier with \<open>--app\<close> on a server that answers with a quote of the platform \<open>phala\<close> or
  \<open>intel-tdx\<close>, whose report data an enclave built from its keys, its certificate and a nonce: the nonce is
  this run's; the keys and the certificate of the TLS session are those the enclave committed to, up to
  a hash collision; the identity key signed a manifest that names the app; and the app is owned behind a
  timelock of at least the required delay, requires up-to-date TCBs and allows the compose hash of the event
  log, when the log has one.  On any other platform nothing ties the keys to the quote
  (\<open>other_platforms_bind_nothing\<close>), and that the quote is genuine is what the verifier leaves to the
  quote services.\<close>

theorem passed_run_sound:
  assumes run: "verifyAttestation w source (Some opts) credits = Some (ls, Inr ())" "is_url source"
    and fetched: "vw_with_nonce w source (hex_of_bytes (vw_nonce w)) = Inr url" "fetchAttestation w url = Inr att"
      "bound_inputs (kb_keys att) = Inr j" "kb_platform att = ''phala'' \<or> kb_platform att = ''intel-tdx''"
    and enclave: "buildReportData (vl_sha256 (vw_lib w)) i n = Inr rd" "tdxQuoteReportData (b64_decode (kb_quote att)) = Inr rd"
    and sizes: "sized_inputs i" "sized_inputs j" "hash32 (vl_sha256 (vw_lib w))"
  shows "nonce_bytes n = vw_nonce w
    \<and> (collide (vl_sha256 (vw_lib w)) (commitment_input (vl_sha256 (vw_lib w)) i) (commitment_input (vl_sha256 (vw_lib w)) j)
       \<or> same_keys w source att i j)
    \<and> vouched (vw_lib w) (kb_keys att) (go_app opts) \<and> governed w opts (kb_eventLog att)"
proof -
  from run(1) obtain ls1 ls2 ls3 att' manifest where keys: "verify_keys w source [] = (ls1, Inr (att', manifest))"
    and gov: "verifyGovernance w opts manifest (kb_eventLog att') ls2 = Some (ls3, Inr ())"
    by (rule verifyAttestation_ok) auto
  from verify_keys_ok [OF keys run(2)] obtain base served where base: "vw_origin w source = Inr base"
    "fetchServedTlsCertificate w base = Inr served" and a: "att' = att"
    and bound: "verifyKeyBinding (vw_lib w) (key_binding_evidence.truncate att)
       \<lparr>bo_nonce = Some (vw_nonce w), bo_servedCertificate = served, bo_keyManifest = manifest\<rparr> = Inr []"
    using fetched(1,2) by (metis Inr_inject)
  have ev: "kb_keys (key_binding_evidence.truncate att) = kb_keys att" "kb_platform (key_binding_evidence.truncate att) = kb_platform att"
    "kb_quote (key_binding_evidence.truncate att) = kb_quote att"
    by (simp_all add: key_binding_evidence.truncate_def)
  from gov obtain sm where "manifest = Some sm" "manifest_names_app (vw_lib w) sm (go_app opts) = Inr True"
    by (rule verifyGovernance_ok)
  then have v: "vouched (vw_lib w) (kb_keys att) (go_app opts)"
    using verified_manifest_vouches [OF bound [unfolded \<open>manifest = Some sm\<close>]] by (simp add: ev)
  show ?thesis
    using accepted_keys_bound [OF bound, unfolded ev, OF fetched(4,3) sizes(1,2,3) enclave] base v verifyGovernance_governed [OF gov]
    unfolding same_keys_def a by (auto simp: nonce_bytes_def)
qed

section \<open>What decides a run\<close>

text \<open>The verdict of a piece of the run does not depend on the lines printed before it.\<close>

definition blind :: "'a tool \<Rightarrow> bool" where
  "blind m \<longleftrightarrow> (\<forall>ls ls'. snd (m ls) = snd (m ls'))"

lemma blind_basic [simp, intro]:
  "blind (say l)" "blind (say_all new)" "blind (exit_1 messages)" "blind (sret v)" "blind (slift r)"
  by (simp_all add: blind_def tool_run)

lemma blind_sbind [intro]:
  assumes "blind m" "\<And>v. blind (f v)"
  shows "blind (sbind m f)"
  unfolding blind_def
proof (intro allI)
  fix ls ls'
  obtain l1 l2 r where m: "m ls = (l1, r)" "m ls' = (l2, r)"
    using assms(1) unfolding blind_def by (metis prod.collapse)
  show "snd (sbind m f ls) = snd (sbind m f ls')"
    using assms(2) unfolding sbind_def m blind_def by (cases r) simp_all
qed

lemma blind_snd: "blind m \<Longrightarrow> snd (m ls) = snd (m ls')"
  unfolding blind_def by blast

text \<open>A piece that always returns.\<close>

definition returns :: "'a tool \<Rightarrow> bool" where
  "returns m \<longleftrightarrow> (\<forall>ls. \<exists>v. snd (m ls) = Inr v)"

lemma returns_basic [simp, intro]: "returns (say l)" "returns (say_all new)" "returns (sret v)"
  by (simp_all add: returns_def tool_run)

lemma returns_sbind [intro]: "\<lbrakk>returns m; \<And>v. returns (f v)\<rbrakk> \<Longrightarrow> returns (sbind m f)"
  unfolding returns_def sbind_def by (metis (no_types, lifting) prod.collapse prod.simps(2) sum.simps(6))

lemma returns_unit: "returns m \<Longrightarrow> snd (m ls) = Inr ()"
  unfolding returns_def by (metis (full_types) old.unit.exhaust)

lemma verifyTimestamp_returns [intro]: "returns (verifyTimestamp w t)"
  by (auto simp: verifyTimestamp_def Let_def)

lemma verifyCertificateChain_returns [intro]: "returns (verifyCertificateChain sha certs)"
  by (auto simp: verifyCertificateChain_def)

lemma verifyTdxQuote_returns: "600 \<le> length (b64_decode (kb_quote att)) \<Longrightarrow> returns (verifyTdxQuote w att)"
  unfolding verifyTdxQuote_def Let_def by (simp only: not_less [symmetric] if_False) (intro returns_sbind; blast)

definition quote_too_short :: "served_attestation \<Rightarrow> bool" where
  "quote_too_short att \<longleftrightarrow> (kb_platform att = ''intel-tdx'' \<or> kb_platform att = ''phala'') \<and> length (b64_decode (kb_quote att)) < 600"

lemma verify_quote_returns: "\<not> quote_too_short att \<Longrightarrow> returns (verify_quote w att)"
  unfolding verify_quote_def quote_too_short_def
  by (intro returns_sbind) (auto intro: verifyTdxQuote_returns simp: verifySevSnpQuote_def verifyNitroQuote_def Let_def)

lemma verify_quote_short:
  assumes "quote_too_short att"
  shows "snd (verify_quote w att ls) = Inl (Error ''Quote is too small to be a valid TDX quote'')"
  using assms by (auto simp: verify_quote_def quote_too_short_def verifyTdxQuote_def Let_def sbind_def tool_run)

lemma verify_quote_verdict:
  "snd (verify_quote w att ls) = (if quote_too_short att then Inl (Error ''Quote is too small to be a valid TDX quote'') else Inr ())"
  using verify_quote_short returns_unit [OF verify_quote_returns] by simp

text \<open>A server that passes.\<close>

definition tool_keys :: bound_keys where
  "tool_keys = \<lparr>bk_mlkemPublicKey = b64_encode [1, 2], bk_identityPublicKey = Some (hex_of_bytes [3]),
     bk_refundSignerPublicKey = Some (''1'', ''2''), bk_tlsCertificate = Some (b64_encode [7])\<rparr>"

definition tool_inputs :: report_inputs where
  "tool_inputs = \<lparr>ri_mlkemPublicKey = [1, 2], ri_identityPublicKey = Some [3],
     ri_refundSignerPublicKey = Some (replicate 31 0 @ [1] @ replicate 31 0 @ [2]), ri_tlsCertificateDer = Some [7]\<rparr>"

definition tool_nonce :: bytes where
  "tool_nonce = replicate 32 9"

definition tool_report :: bytes where
  "tool_report = toy_sha (commitment_input toy_sha tool_inputs) @ tool_nonce"

definition tool_attestation :: served_attestation where
  "tool_attestation = \<lparr>kb_platform = ''phala'', kb_quote = b64_encode (quote_around tool_report), kb_reportData = hex_of_bytes tool_report,
     kb_keys = tool_keys, kb_eventLog = None, sv_nonce = None, sv_measurement = [], sv_timestamp = ''then''\<rparr>"

definition tool_manifest :: signed_key_manifest where
  "tool_manifest = \<lparr>sk_manifest = \<lparr>km_appId = ''0xapp'', km_mlkemPublicKeyHash = sha256Hex toy_sha [1, 2],
      km_refundSignerX = ''1'', km_refundSignerY = ''2'', km_tlsCertificateHash = sha256Hex toy_sha [7],
      km_txSignerAddress = ''0xs'', km_epoch = 0\<rparr>, sk_signature = ''0x'' @ hex_of_bytes [3]\<rparr>"

definition tool_world :: "jsnum \<Rightarrow> verify_world" where
  "tool_world now = \<lparr>vw_lib = toy_verify, vw_fetch = \<lambda>url. Inr \<lparr>hr_status = 200, hr_statusText = ''OK'', hr_body = []\<rparr>,
     vw_readFile = \<lambda>_. Inr [], vw_parse_attestation = \<lambda>_. Inr tool_attestation, vw_parse_manifest = \<lambda>_. Inr tool_manifest,
     vw_origin = \<lambda>_. Inr ''https://a'', vw_with_nonce = \<lambda>source nonce. Inr source, vw_manifest_url = \<lambda>_. Inr ''https://a/m'',
     vw_url_parts = \<lambda>_. Inr (''https:'', ''a'', []), vw_peer_certificate = \<lambda>_ _. Some [7], vw_reader = \<lambda>_. sample_reader,
     vw_nonce = tool_nonce, vw_date = \<lambda>_. Fin 0, vw_now = now\<rparr>"

definition tool_governance :: governance_options where
  "tool_governance = \<lparr>go_app = ''0xapp'', go_rpc = ''rpc'', go_fromBlock = Some (Fin 0), go_minDelay = 604800\<rparr>"

lemma tool_inputs_bound: "bound_inputs tool_keys = Inr tool_inputs"
  by code_simp

lemma tool_inputs_fields: "ri_mlkemPublicKey tool_inputs = [1, 2]" "ri_identityPublicKey tool_inputs = Some [3]"
  "ri_tlsCertificateDer tool_inputs = Some [7]"
  by (simp_all add: tool_inputs_def)

lemma tool_inputs_sized: "sized_inputs tool_inputs"
  by (simp add: sized_inputs_def tool_inputs_def or_empty_def)

lemma tool_report_length: "length tool_report = 64"
  by (simp add: tool_report_def tool_nonce_def toy_sha_def)

lemma tool_report_built: "buildReportData toy_sha tool_inputs (Some tool_nonce) = Inr tool_report"
  by (simp add: buildReportData_def tool_report_def nonce_bytes_def tool_nonce_def NONCE_LENGTH_def guard_def)

lemma tool_quote: "tdxQuoteReportData (b64_decode (kb_quote tool_attestation)) = Inr tool_report"
  using tool_report_length by (simp add: tool_attestation_def)

lemma tool_manifest_verifies: "verifyManifest toy_verify tool_manifest [1, 2] tool_keys (Some [3]) (Some [7]) = Inr []"
  by code_simp

lemma tool_binding:
  "verifyKeyBinding toy_verify (key_binding_evidence.truncate tool_attestation)
     \<lparr>bo_nonce = Some tool_nonce, bo_servedCertificate = Some [7], bo_keyManifest = Some tool_manifest\<rparr> = Inr []"
proof -
  have q: "quote_failures toy_verify (key_binding_evidence.truncate tool_attestation) tool_report = Inr []"
    using tool_quote by (simp add: quote_failures_def key_binding_evidence.truncate_def fails_def) (simp add: tool_attestation_def)
  have v: "vl_sha256 toy_verify = toy_sha" by (simp add: toy_verify_def)
  have k: "kb_keys (key_binding_evidence.truncate tool_attestation) = tool_keys"
    "kb_reportData (key_binding_evidence.truncate tool_attestation) = hex_of_bytes tool_report"
    by (simp_all add: key_binding_evidence.truncate_def tool_attestation_def)
  show ?thesis
    unfolding verifyKeyBinding_def k tool_inputs_bound tool_inputs_fields bind_Inr v binding_options.simps tool_report_built q option.case tool_manifest_verifies
    by (simp add: certificate_failures_def fails_def)
qed

lemma tool_history:
  "readHistory sample_reader ''0xapp'' (Some (Fin 0)) None = Some (Inr (sample_records, []))"
proof -
  have n: "cr_getBlockNumber sample_reader = Inr 9" "jnat 9 = Fin (of_nat 9)" by (simp add: sample_reader_def) (rule jnat_exact, simp)
  show ?thesis
    unfolding readHistory_def Let_def n sum.case option.case
    using history_loop_complete [OF sample_serves, of 10000 9 0 "''0xapp''" "([], [])", unfolded sample_history]
    by (simp add: sample_reader_def sample_records_def)
qed

lemma tool_governed: "\<exists>ls'. verifyGovernance (tool_world now) tool_governance (Some tool_manifest) None ls = Some (ls', Inr ())"
proof -
  have f: "cr_getAddress sample_reader x = Inr x" "cr_address sample_reader t ''owner'' = Inr ''0xo''"
    "cr_address sample_reader t ''pendingOwner'' = Inr ZeroAddress" "cr_bool sample_reader t m [] = Inr True" for x t m
    by (simp_all add: sample_reader_def)
  have own: "readAppOwner sample_reader ''0xapp'' ''0xo'' = Inr (Some \<lparr>ao_address = ''0xo'', ao_timelock = ''0xt'', ao_guardian = ''0xo'',
      ao_minDelay = 604800, ao_timelockSelfAdministered = True\<rparr>)"
    by (simp add: readAppOwner_def readTimelock_def sample_reader_def)
  have r: "\<exists>g. readAppGovernance sample_reader ''0xapp'' (Some (Fin 0)) None = Some (Inr g)
      \<and> fst (checkAppGovernance (Some 604800) None g) = []"
    unfolding readAppGovernance_def
    by (simp add: f own tool_history checkAppGovernance_def owner_failures_def running_failures_def Let_def)
  have n: "manifest_names_app (vw_lib (tool_world now)) tool_manifest (go_app tool_governance) = Inr True"
    by (simp add: manifest_names_app_def tool_world_def toy_verify_def tool_manifest_def tool_governance_def)
  from r show ?thesis
    unfolding verifyGovernance_def option.case n sum.case
    by (auto simp: tool_world_def tool_governance_def running_hash_def present_def governance_verdict_def sbind_def tool_run
        split: prod.splits)
qed

lemma tool_keys_pass:
  "\<exists>ls. verify_keys (tool_world now) ''https://a'' [] = (ls, Inr (tool_attestation, Some tool_manifest))"
proof -
  have u: "is_url ''https://a''" by code_simp
  have p: "kb_platform tool_attestation = ''phala''" by (simp add: tool_attestation_def)
  have b: "\<exists>ls'. verifyBinding toy_verify tool_attestation (Some tool_nonce) (Some [7]) (Some tool_manifest) ls = (ls', Inr True)" for ls
    unfolding verifyBinding_def tool_binding by (simp add: sbind_def tool_run)
  then obtain lines where "\<And>ls. verifyBinding toy_verify tool_attestation (Some tool_nonce) (Some [7]) (Some tool_manifest) ls = (lines ls, Inr True)"
    by metis
  then show ?thesis
    unfolding verify_keys_def
    by (simp add: u p tool_world_def sbind_def tool_run fetchAttestation_def ok_body_def fetchKeyManifest_def fetchServedTlsCertificate_def)
qed

lemma tool_passes: "\<exists>ls. verifyAttestation (tool_world now) ''https://a'' (Some tool_governance) None = Some (ls, Inr ())"
proof -
  obtain ls1 where k: "verify_keys (tool_world now) ''https://a'' [] = (ls1, Inr (tool_attestation, Some tool_manifest))"
    using tool_keys_pass by blast
  have "length (b64_decode (kb_quote tool_attestation)) = 632"
    using tool_report_length by (simp add: tool_attestation_def quote_around_def TDX_REPORT_DATA_OFFSET_def)
  then have "\<not> quote_too_short tool_attestation" by (simp add: quote_too_short_def)
  then obtain ls2 where q: "verify_quote (tool_world now) tool_attestation ls1 = (ls2, Inr ())"
    using verify_quote_verdict [of "tool_world now" tool_attestation ls1] by (metis prod.collapse)
  obtain ls3 where g: "verifyGovernance (tool_world now) tool_governance (Some tool_manifest) None ls2 = Some (ls3, Inr ())"
    using tool_governed by blast
  have e: "kb_eventLog tool_attestation = None" by (simp add: tool_attestation_def)
  show ?thesis
    unfolding verifyAttestation_def
    by (simp add: sbind_def k q e g verify_credits_def tool_run)
qed

theorem passed_run_sound_witness:
  "\<exists>ls. verifyAttestation (tool_world (Fin 0)) ''https://a'' (Some tool_governance) None = Some (ls, Inr ())
    \<and> same_keys (tool_world (Fin 0)) ''https://a'' tool_attestation tool_inputs tool_inputs
    \<and> governed (tool_world (Fin 0)) tool_governance None"
proof -
  let ?w = "tool_world (Fin 0)"
  obtain ls where run: "verifyAttestation ?w ''https://a'' (Some tool_governance) None = Some (ls, Inr ())"
    using tool_passes by blast
  have u: "is_url ''https://a''" by code_simp
  have f: "vw_with_nonce ?w ''https://a'' (hex_of_bytes (vw_nonce ?w)) = Inr ''https://a''" "fetchAttestation ?w ''https://a'' = Inr tool_attestation"
    "vl_sha256 (vw_lib ?w) = toy_sha"
    by (simp_all add: tool_world_def fetchAttestation_def ok_body_def toy_verify_def)
  have a: "bound_inputs (kb_keys tool_attestation) = Inr tool_inputs" "kb_platform tool_attestation = ''phala'' \<or> kb_platform tool_attestation = ''intel-tdx''"
    "kb_eventLog tool_attestation = None"
    using tool_inputs_bound by (simp_all add: tool_attestation_def)
  from passed_run_sound [OF run u f(1,2) a(1,2), unfolded f(3), OF tool_report_built tool_quote tool_inputs_sized tool_inputs_sized]
  show ?thesis using run by (simp add: collide_def a(3))
qed

section \<open>What a passed run does not mean\<close>

text \<open>The clock never decides: the run ends the same way whatever the time, so a stale or future-dated
  attestation passes, and the summary of every passed run calls it fresh.\<close>

lemma verify_keys_clock: "verify_keys (w\<lparr>vw_now := t\<rparr>) source = verify_keys w source"
  by (simp add: verify_keys_def fetchAttestation_def fetchKeyManifest_def fetchServedTlsCertificate_def cong: if_cong option.case_cong)

lemma running_hash_clock: "running_hash (w\<lparr>vw_now := t\<rparr>) e = running_hash w e"
  by (simp add: running_hash_def split: option.split)

lemma verifyGovernance_clock: "verifyGovernance (w\<lparr>vw_now := t\<rparr>) opts m e ls = verifyGovernance w opts m e ls"
  by (cases m) (simp_all add: verifyGovernance_def running_hash_clock split: sum.split)

lemma verify_credits_clock: "verify_credits (w\<lparr>vw_now := t\<rparr>) att g c = verify_credits w att g c"
  by (cases c) (simp_all add: verify_credits_def verifyCreditsGovernance_def)

lemma governance_verdict_blind: "blind (governance_verdict opts h g)"
  unfolding governance_verdict_def Let_def by (auto split: prod.split)

lemma verifyGovernance_blind: "map_option snd (verifyGovernance w opts m e ls) = map_option snd (verifyGovernance w opts m e ls')"
proof -
  have b: "snd (sbind (slift r) (governance_verdict opts h) (l @ k)) = snd (sbind (slift r) (governance_verdict opts h) [])" for r h l k
    using governance_verdict_blind by (intro blind_snd) blast
  show ?thesis
    unfolding verifyGovernance_def Let_def
    by (auto simp: option.map_comp comp_def tool_run b split: option.split sum.split)
qed

lemma verifyCreditsGovernance_blind: "blind (verifyCreditsGovernance w options)"
  unfolding verifyCreditsGovernance_def Let_def
proof (rule blind_sbind)
  show "blind (case checkCreditsGovernance (Some (nat (co_minDelay options))) g of (failures, warnings) \<Rightarrow>
      sbind (say_all (map Warning warnings)) (\<lambda>_.
        if failures \<noteq> [] then exit_1 (failures @ [''LongjingCredits can be changed without the published governance.''])
        else say (Success ''Only the timelock can change LongjingCredits'')))" for g
    by (auto split: prod.split)
qed simp

lemma verify_credits_blind: "snd (verify_credits w att g c ls) = snd (verify_credits w att g c ls')"
  unfolding verify_credits_def
  by (intro blind_snd blind_sbind) (auto intro: verifyCreditsGovernance_blind split: option.split)

theorem clock_never_decides:
  "map_option snd (verifyAttestation (w\<lparr>vw_now := t\<rparr>) source gov credits) = map_option snd (verifyAttestation w source gov credits)"
proof (cases "verify_keys w source []")
  case (Pair ls1 r)
  show ?thesis
  proof (cases r)
    case (Inl e)
    then show ?thesis using Pair by (simp add: verifyAttestation_def sbind_def verify_keys_clock)
  next
    case (Inr am)
    obtain att manifest where am: "am = (att, manifest)" by (cases am)
    obtain ls2 v where q: "verify_quote w att ls1 = (ls2, v)" by (cases "verify_quote w att ls1")
    obtain ls2' where q': "verify_quote (w\<lparr>vw_now := t\<rparr>) att ls1 = (ls2', v)"
      using verify_quote_verdict [of w att ls1] verify_quote_verdict [of "w\<lparr>vw_now := t\<rparr>" att ls1] q by (metis prod.collapse snd_conv)
    have c: "snd (verify_credits w att g credits l) = snd (verify_credits w att g credits [])" for g l
      by (rule verify_credits_blind)
    have g: "map_option snd (verifyGovernance w opts manifest (kb_eventLog att) ls2') =
        map_option snd (verifyGovernance w opts manifest (kb_eventLog att) ls2)" for opts
      by (rule verifyGovernance_blind)
    show ?thesis
    proof (cases gov)
      case None
      show ?thesis
        using Pair Inr am q q' None
        by (cases v) (simp_all add: verifyAttestation_def sbind_def verify_keys_clock verify_credits_clock tool_run c [of _ "_ @ _"])
    next
      case (Some opts)
      show ?thesis
        using Pair Inr am q q' Some g [of opts]
        by (cases v; cases "verifyGovernance w opts manifest (kb_eventLog att) ls2'";
            cases "verifyGovernance w opts manifest (kb_eventLog att) ls2")
          (auto simp: verifyAttestation_def sbind_def verify_keys_clock verify_credits_clock verifyGovernance_clock intro: verify_credits_blind
            split: sum.split)
    qed
  qed
qed

theorem always_called_fresh:
  assumes "verifyAttestation w source gov credits = Some (ls, Inr ())"
  shows "Success ''Timestamp: Fresh'' \<in> set ls"
proof -
  from assms obtain ls3 att where "verify_credits w att (gov \<noteq> None) credits ls3 = (ls, Inr ())"
    by (rule verifyAttestation_ok)
  then show ?thesis
    by (auto simp: verify_credits_def sbind_ok tool_run summary_def)
qed

lemma stale_run_passes:
  "\<exists>ls. verifyAttestation (tool_world (Fin 1000000)) ''https://a'' (Some tool_governance) None = Some (ls, Inr ())
    \<and> Success ''Timestamp: Fresh'' \<in> set ls"
  using tool_passes always_called_fresh by blast

text \<open>Without a compose-hash event the running build is not checked, and still reported as allowed.\<close>

theorem unchecked_build_called_allowed:
  assumes "verifyGovernance w opts manifest eventLog ls = Some (ls', Inr ())" "running_hash w eventLog = None"
  shows "Warning ''No compose-hash event: the running build is not checked'' \<in> set ls'
    \<and> Success ''Only timelocked builds can be added, and the running build is allowed'' \<in> set ls'"
  using assms unfolding verifyGovernance_def Let_def
  by (auto simp: governance_verdict_def sbind_ok tool_run Let_def split: option.splits sum.splits if_splits prod.splits)

text \<open>On a platform other than TDX the quote is not read at all: whoever answers can put its own keys and its own
  certificate into a passing attestation, with any quote.\<close>

theorem other_platforms_bind_nothing:
  assumes "platform \<noteq> ''phala''" "platform \<noteq> ''intel-tdx''" "bound_inputs keys = Inr inputs"
    "length nonce = NONCE_LENGTH" "ri_tlsCertificateDer inputs = Some certificate"
  shows "\<exists>rd. verifyKeyBinding lib \<lparr>kb_platform = platform, kb_quote = quote, kb_reportData = hex_of_bytes rd, kb_keys = keys,
        kb_eventLog = eventLog\<rparr> \<lparr>bo_nonce = Some nonce, bo_servedCertificate = Some certificate, bo_keyManifest = None\<rparr> = Inr []"
proof -
  obtain rd where "buildReportData (vl_sha256 lib) inputs (Some nonce) = Inr rd"
    using assms(4) by (simp add: buildReportData_def guard_def)
  then show ?thesis
    using assms by (intro exI [of _ rd]) (simp add: verifyKeyBinding_def quote_failures_def certificate_failures_def fails_def)
qed

text \<open>The registers the tool prints and asks to publish are other bytes of the quote than the registers that
  \<open>tdx-quote.ts\<close> checks against the event log.\<close>

theorem printed_registers_differ:
  defines "quote \<equiv> replicate 376 0 @ replicate 256 (1 :: byte)"
  shows "qb_rtmrs (parseTdxQuoteBody quote) ! 0 = replicate 48 0"
    and "\<exists>m. parseTdxMeasurements quote = Inr m \<and> tm_rtmrs m ! 0 = hex_of_bytes (replicate 48 1)"
proof -
  show "qb_rtmrs (parseTdxQuoteBody quote) ! 0 = replicate 48 0"
    by (simp add: quote_def parseTdxQuoteBody_def Let_def subarray_def)
  show "\<exists>m. parseTdxMeasurements quote = Inr m \<and> tm_rtmrs m ! 0 = hex_of_bytes (replicate 48 1)"
    by (simp add: quote_def parseTdxMeasurements_def TDX_QUOTE_BODY_END_def QUOTE_HEADER_LENGTH_def TDX_QUOTE_RTMR_OFFSETS_def
        measurement_def MEASUREMENT_LENGTH_def subarray_def)
qed

end
