(* ===== verification/Demo.thy ===== *)
theory Demo
  imports ClientNote
begin

text \<open>
  \<open>scripts/demo/demo.ts\<close>, which checks the goals of the project against a deployment and exits with code 1
  when a goal that should be verified is not.

  The goals are an association list of records, in the order of the source.  What a block of \<open>main\<close> does to
  the goals is a sequence of \<open>check\<close> calls, which may end in an exception; the chain, the gateway and the
  prover decide which, so the sequence is an argument.  The marks of the printed table are letters.

  Shown: the exit code is 0 exactly when every goal that should be verified had a check and no check of it
  failed; and without the operator's database, that is against a deployment, the script never exits with 0.
\<close>

section \<open>Goals\<close>

datatype goal_status = Verified | NotMet | NotCheckedYet

record goal =
  g_label :: string
  g_expected :: goal_status
  g_issues :: "nat list"
  g_status :: "goal_status option"
  g_detail :: "string option"

definition goal_of :: "string \<Rightarrow> goal_status \<Rightarrow> nat list \<Rightarrow> string option \<Rightarrow> goal" where
  "goal_of label expected issues detail =
     \<lparr>g_label = label, g_expected = expected, g_issues = issues, g_status = None, g_detail = detail\<rparr>"

type_synonym goals = "(string, goal) jmap"

definition goals_table :: goals where
  "goals_table =
    [(''deposit'', goal_of ''A deposit is recorded onchain, bound into its leaf'' Verified [] None),
     (''root'', goal_of ''A request proof is against a recent onchain root'' Verified [] None),
     (''nullifier'', goal_of ''A retry returns the same accumulator, a reused index is refused'' Verified [] None),
     (''refund'', goal_of ''The accumulator grows by C_max - C_actual, signed by the key registered onchain'' Verified [] None),
     (''requestToDeposit'', goal_of ''A request can't be linked to the deposit'' Verified [] None),
     (''requestToRequest'', goal_of ''Two requests can't be linked to each other'' Verified [] None),
     (''refundOnchain'', goal_of ''A request's refund never appears onchain'' Verified [] None),
     (''withdrawalRecipient'', goal_of ''A withdrawal pays only the recipient in its proof'' Verified [] None),
     (''solvency'', goal_of ''Solvency is enforced: an exit pays D + R - n * C_max'' Verified [] None),
     (''slashing'', goal_of ''Anyone holding k slashes, and the caller gets the bounty, not the stake'' Verified [] None),
     (''understatedExit'', goal_of ''An exit that understates usage is slashed during the window'' Verified [] None),
     (''closedNote'', goal_of ''A closed note can't make requests'' Verified [] None),
     (''secretKey'', goal_of ''The client sends nothing that contains the secret key'' Verified [] None),
     (''attestation'', goal_of ''The client verifies the attestation before sending anything'' NotCheckedYet [99] None),
     (''provider'', goal_of ''Protocol, pricing and refunds work with any provider'' NotCheckedYet [] None),
     (''withdrawal'', goal_of ''A depositor can withdraw without the server'' Verified [] None),
     (''walkaway'', goal_of ''Every depositor can exit if the operator and every host disappear'' NotMet [157, 135]
        (Some ''no withdrawal page yet''))]"

definition update_goal :: "string \<Rightarrow> (goal \<Rightarrow> goal) \<Rightarrow> goals \<Rightarrow> goals" where
  "update_goal key f gs = map (\<lambda>(k, g). if k = key then (k, f g) else (k, g)) gs"

text \<open>A check: the goal it is for, what it checks, whether it holds, and the detail of a failure.\<close>

type_synonym goal_check = "string \<times> string \<times> bool \<times> string"

definition check_ok :: "goal_check \<Rightarrow> bool" where
  "check_ok c = (case c of (_, _, ok, _) \<Rightarrow> ok)"

definition goal_after :: "goal_check \<Rightarrow> goal \<Rightarrow> goal" where
  "goal_after c g = (case c of (_, label, ok, detail) \<Rightarrow>
     if ok then g\<lparr>g_status := (case g_status g of None \<Rightarrow> Some Verified | Some st \<Rightarrow> Some st)\<rparr>
     else g\<lparr>g_status := Some NotMet, g_detail := Some (if detail \<noteq> [] then label @ '': '' @ detail else label)\<rparr>)"

definition check :: "goal_check \<Rightarrow> goals \<Rightarrow> goals" where
  "check c = update_goal (fst c) (goal_after c)"

text \<open>A block: the checks it makes, each with the goal it is for, and the exception that ends it, if any.\<close>

type_synonym block = "goal_check list \<times> exn option"

definition run_checks :: "goal_check list \<Rightarrow> goals \<Rightarrow> goals" where
  "run_checks cs gs = foldl (\<lambda>gs c. check c gs) gs cs"

definition verify :: "string \<Rightarrow> block \<Rightarrow> goals \<Rightarrow> goals" where
  "verify target b gs = (case b of (cs, thrown) \<Rightarrow>
     let gs1 = run_checks cs gs in
     case thrown of None \<Rightarrow> gs1 | Some e \<Rightarrow> check (target, exn_text e, False, []) gs1)"

definition required :: "'a option \<Rightarrow> string \<Rightarrow> 'a res" where
  "required v what = (case v of None \<Rightarrow> Inl (Error (''no '' @ what @ '', an earlier goal failed'')) | Some x \<Rightarrow> Inr x)"

text \<open>How a contract call ends: done, reverted with a name and its arguments, or failed otherwise.\<close>

datatype call_end = Done | Revert string "string list" | Failed exn

definition revertOf :: "call_end \<Rightarrow> string res" where
  "revertOf c = (case c of
     Done \<Rightarrow> Inr []
   | Revert name args \<Rightarrow> Inr (if name = ''Error'' then case args of [] \<Rightarrow> ''undefined'' | a # _ \<Rightarrow> a else name)
   | Failed e \<Rightarrow> Inl e)"

section \<open>The report\<close>

definition status_of :: "goal \<Rightarrow> goal_status" where
  "status_of g = (case g_status g of Some st \<Rightarrow> st | None \<Rightarrow> if g_expected g = Verified then NotMet else g_expected g)"

definition detail_of :: "goal \<Rightarrow> string" where
  "detail_of g = (case g_detail g of Some d \<Rightarrow> d
     | None \<Rightarrow> if g_expected g = Verified \<and> g_status g = None then ''not run'' else [])"

fun status_text :: "goal_status \<Rightarrow> string" where
  "status_text Verified = ''verified''"
| "status_text NotMet = ''not met''"
| "status_text NotCheckedYet = ''not checked yet''"

fun mark :: "goal_status \<Rightarrow> string" where
  "mark Verified = ''v''"
| "mark NotMet = ''x''"
| "mark NotCheckedYet = ''-''"

definition padEnd :: "nat \<Rightarrow> string \<Rightarrow> string" where
  "padEnd n s = s @ replicate (n - length s) CHR '' ''"

definition ISSUES :: string where
  "ISSUES = ''https://github.com/w3hc/longjing/issues''"

definition report_width :: nat where
  "report_width = fold max (map (length \<circ> status_text) [Verified, NotMet, NotCheckedYet]) 0"

definition goal_line :: "goal \<Rightarrow> string" where
  "goal_line g =
     (let issues = concat (case map (\<lambda>n. ISSUES @ ''/'' @ dec_of_nat n) (g_issues g) of
             [] \<Rightarrow> [] | t # ts \<Rightarrow> t # map (\<lambda>u. '' '' @ u) ts)
      in ''  '' @ mark (status_of g) @ '' '' @ padEnd report_width (status_text (status_of g)) @ ''  '' @ g_label g
         @ (if detail_of g \<noteq> [] then '' ('' @ detail_of g @ '')'' else []) @ (if issues \<noteq> [] then ''  '' @ issues else []))"

definition report :: "goals \<Rightarrow> string list \<times> bool" where
  "report gs =
     (concat (map (\<lambda>(_, g). goal_line g # (if g_expected g \<noteq> Verified \<and> status_of g = Verified
          then [''    now verified: update its expected status in demo.ts''] else [])) gs),
      list_ex (\<lambda>(_, g). g_expected g = Verified \<and> status_of g \<noteq> Verified) gs)"

section \<open>Requests as an observer sees them\<close>

text \<open>A request body: texts and nested objects.\<close>

datatype body_value = BText string | BFields "(string \<times> body_value) list"

fun walk :: "string \<Rightarrow> body_value \<Rightarrow> (string, string) jmap \<Rightarrow> (string, string) jmap"
  and walk_entries :: "string \<Rightarrow> (string \<times> body_value) list \<Rightarrow> (string, string) jmap \<Rightarrow> (string, string) jmap" where
  "walk path (BFields entries) m = walk_entries path entries m"
| "walk path (BText t) m =
     (if path \<noteq> ''proof'' \<and> path \<noteq> ''payload''
      then jm_set m path (case BigInt_of_string t of Inr n \<Rightarrow> dec_of_int n | Inl _ \<Rightarrow> t) else m)"
| "walk_entries path [] m = m"
| "walk_entries path ((key, child) # rest) m =
     walk_entries path rest (walk (if path \<noteq> [] then path @ ''.'' @ key else key) child m)"

definition publicFields :: "body_value \<Rightarrow> (string, string) jmap" where
  "publicFields body = walk [] body []"

definition shared_fields :: "body_value \<Rightarrow> body_value \<Rightarrow> string list" where
  "shared_fields first_body second_body =
     map fst (filter (\<lambda>(k, v). k \<noteq> ''merkleRoot'' \<and> jm_get (publicFields second_body) k = Some v) (publicFields first_body))"

definition linked_fields :: "string list \<Rightarrow> string list \<Rightarrow> int \<Rightarrow> body_value \<Rightarrow> body_value \<Rightarrow> string list" where
  "linked_fields commitments leaves deposit first_body second_body =
     map fst (filter (\<lambda>(_, v). v \<in> set commitments \<or> (v \<noteq> ''0'' \<and> v \<in> set leaves) \<or> v = dec_of_int deposit)
       (publicFields first_body @ publicFields second_body))"

fun contains_text :: "string \<Rightarrow> string \<Rightarrow> bool" where
  "contains_text [] form = (form = [])"
| "contains_text (c # cs) form = (take (length form) (c # cs) = form \<or> contains_text cs form)"

definition leaked :: "int list \<Rightarrow> string list \<Rightarrow> string list" where
  "leaked secrets sent =
     (let forms = concat (map (\<lambda>k. [dec_of_int k, hex_of_nat (nat k)]) secrets)
      in filter (\<lambda>json. list_ex (contains_text (toLowerCase json)) forms) sent)"

section \<open>Options\<close>

record demo_options =
  op_gateway :: "string option"
  op_contract :: "string option"
  op_rpcUrl :: string
  op_aliceKey :: string
  op_slasherKey :: string
  op_deposit :: int

text \<open>An option that is absent or empty is falsy.\<close>

definition given :: "string option \<Rightarrow> bool" where
  "given v = (case v of None \<Rightarrow> False | Some t \<Rightarrow> t \<noteq> [])"

definition strip_slash :: "string \<Rightarrow> string" where
  "strip_slash t = (if t \<noteq> [] \<and> last t = CHR ''/'' then butlast t else t)"

definition parseOptions ::
  "(string \<Rightarrow> int res) \<Rightarrow> (nat \<Rightarrow> string) \<Rightarrow> (string, string) jmap
   \<Rightarrow> string option \<Rightarrow> string option \<Rightarrow> string option \<Rightarrow> string option \<Rightarrow> demo_options res" where
  "parseOptions parseEther anvilKey env gateway contract rpc deposit =
     bind (parseEther (case deposit of None \<Rightarrow> ''0.01'' | Some d \<Rightarrow> d)) (\<lambda>value.
     if \<not> given gateway \<and> \<not> given contract \<and> \<not> given rpc then
       Inr \<lparr>op_gateway = None, op_contract = None, op_rpcUrl = ''http://127.0.0.1:8545'', op_aliceKey = anvilKey 1,
            op_slasherKey = anvilKey 2, op_deposit = value\<rparr>
     else if \<not> given gateway \<or> \<not> given contract \<or> \<not> given rpc then Inl (Error ''--gateway, --contract and --rpc go together'')
     else if \<not> given (jm_get env ''DEMO_PRIVATE_KEY'') then Inl (Error ''Set DEMO_PRIVATE_KEY to the wallet that pays the deposits'')
     else let alice = the (jm_get env ''DEMO_PRIVATE_KEY'') in
       Inr \<lparr>op_gateway = Some (strip_slash (the gateway)), op_contract = contract, op_rpcUrl = the rpc, op_aliceKey = alice,
            op_slasherKey = (case jm_get env ''DEMO_SLASHER_PRIVATE_KEY'' of None \<Rightarrow> alice | Some k \<Rightarrow> k), op_deposit = value\<rparr>)"

section \<open>The script\<close>

text \<open>The blocks before step 7 and after it, each with its goal; the block of step 7 runs only with the
  operator's database, which is in this process on Anvil.\<close>

definition skip_understated :: "goals \<Rightarrow> goals" where
  "skip_understated = update_goal ''understatedExit''
     (\<lambda>g. g\<lparr>g_status := Some NotCheckedYet, g_detail := Some ''needs the operator's database''\<rparr>)"

definition run_blocks :: "(string \<times> block) list \<Rightarrow> goals \<Rightarrow> goals" where
  "run_blocks bs gs = foldl (\<lambda>gs (target, b). verify target b gs) gs bs"

definition demo_main :: "bool \<Rightarrow> (string \<times> block) list \<Rightarrow> block \<Rightarrow> (string \<times> block) list \<Rightarrow> string list \<times> bool" where
  "demo_main app before understated later =
     (let gs1 = run_blocks before goals_table;
          gs2 = (if \<not> app then skip_understated gs1 else verify ''understatedExit'' understated gs1)
      in report (run_blocks later gs2))"

definition exit_code :: "(string list \<times> bool) res \<Rightarrow> nat" where
  "exit_code r = (case r of Inl _ \<Rightarrow> 1 | Inr (_, regressed) \<Rightarrow> if regressed then 1 else 0)"

section \<open>What the exit code says\<close>

text \<open>Everything the blocks check: an exception counts as a failed check of the block's goal.\<close>

definition block_checks :: "string \<times> block \<Rightarrow> goal_check list" where
  "block_checks tb = (case tb of (target, cs, thrown) \<Rightarrow>
     cs @ (case thrown of None \<Rightarrow> [] | Some e \<Rightarrow> [(target, exn_text e, False, [])]))"

lemma run_checks_append: "run_checks (cs @ ds) gs = run_checks ds (run_checks cs gs)"
  by (simp add: run_checks_def)

lemma verify_run_checks: "verify target b gs = run_checks (block_checks (target, b)) gs"
  by (cases b) (simp add: verify_def block_checks_def run_checks_def Let_def split: option.split)

lemma run_blocks_run_checks: "run_blocks bs gs = run_checks (concat (map block_checks bs)) gs"
proof (induction bs arbitrary: gs)
  case Nil
  show ?case by (simp add: run_blocks_def run_checks_def)
next
  case (Cons b bs)
  then show ?case
    by (cases b) (simp add: run_blocks_def verify_run_checks run_checks_append)
qed

text \<open>Each goal sees only its own checks, in their order.\<close>

lemma run_checks_goal:
  "run_checks cs gs = map (\<lambda>(k, g). (k, foldl (\<lambda>g c. goal_after c g) g (filter (\<lambda>c. fst c = k) cs))) gs"
proof (induction cs arbitrary: gs)
  case Nil
  show ?case by (simp add: run_checks_def)
next
  case (Cons c cs)
  have "run_checks (c # cs) gs = run_checks cs (update_goal (fst c) (goal_after c) gs)"
    by (simp add: run_checks_def check_def)
  then show ?case
    by (auto simp: Cons.IH update_goal_def)
qed

lemma check_ok_simp [simp]: "check_ok (target, label, ok, detail) = ok"
  by (simp add: check_ok_def)

lemma goal_after_expected [simp]: "g_expected (foldl (\<lambda>g c. goal_after c g) g cs) = g_expected g"
  by (induction cs arbitrary: g) (auto simp: goal_after_def split: prod.split)

lemma goal_after_verified:
  "g_status (foldl (\<lambda>g c. goal_after c g) g cs) = Some Verified \<longleftrightarrow>
   list_all check_ok cs \<and> (g_status g = Some Verified \<or> g_status g = None \<and> cs \<noteq> [])"
proof (induction cs arbitrary: g)
  case Nil
  show ?case by simp
next
  case (Cons c cs)
  show ?case
    unfolding foldl_Cons Cons.IH
    by (cases c, cases "g_status g") (auto simp: goal_after_def)
qed

lemma status_of_verified: "g_expected g = Verified \<Longrightarrow> status_of g = Verified \<longleftrightarrow> g_status g = Some Verified"
  by (simp add: status_of_def split: option.split)

lemma report_run_checks:
  "snd (report (run_checks cs gs)) \<longleftrightarrow>
   (\<exists>(k, g) \<in> set gs. g_expected g = Verified \<and>
      g_status (foldl (\<lambda>g c. goal_after c g) g (filter (\<lambda>c. fst c = k) cs)) \<noteq> Some Verified)"
  unfolding report_def run_checks_goal list_ex_iff snd_conv set_map bex_simps
  by (intro bex_cong refl) (auto simp: status_of_verified)

text \<open>
  The demo exits with code 0 exactly when it runs the server itself and every goal that should be verified had
  a check, none of which failed.  Against a deployment it exits with code 1 whatever it finds, since the goal of
  step 7 is then \<open>not checked yet\<close> and the table says it should be verified.
\<close>

definition expected_goals :: "string list" where
  "expected_goals = map fst (filter (\<lambda>(_, g). g_expected g = Verified) goals_table)"

lemma table_fresh: "(k, g) \<in> set goals_table \<Longrightarrow> g_status g = None"
  by (auto simp: goals_table_def goal_of_def)

lemma exit_code_report: "exit_code (Inr r) = 0 \<longleftrightarrow> \<not> snd r"
  by (simp add: exit_code_def split: prod.split)

lemma served_demo_exit:
  "exit_code (Inr (demo_main True before u later)) = 0 \<longleftrightarrow>
   (\<forall>key \<in> set expected_goals. (\<exists>c \<in> set cs. fst c = key) \<and> (\<forall>c \<in> set cs. fst c = key \<longrightarrow> check_ok c))"
  if cs: "cs = concat (map block_checks (before @ (''understatedExit'', u) # later))"
proof -
  have main: "demo_main True before u later = report (run_checks cs goals_table)"
    by (simp add: demo_main_def run_blocks_run_checks verify_run_checks cs run_checks_append Let_def)
  have ok: "g_status (foldl (\<lambda>g c. goal_after c g) g (filter (\<lambda>c. fst c = k) cs)) = Some Verified \<longleftrightarrow>
      (\<exists>c \<in> set cs. fst c = k) \<and> (\<forall>c \<in> set cs. fst c = k \<longrightarrow> check_ok c)" if "(k, g) \<in> set goals_table" for k g
    unfolding goal_after_verified table_fresh[OF that] list_all_iff set_filter filter_empty_conv by blast
  have "snd (report (run_checks cs goals_table)) \<longleftrightarrow> (\<exists>(k, g) \<in> set goals_table. g_expected g = Verified \<and>
      \<not> ((\<exists>c \<in> set cs. fst c = k) \<and> (\<forall>c \<in> set cs. fst c = k \<longrightarrow> check_ok c)))"
    unfolding report_run_checks using ok by blast
  then show ?thesis
    unfolding main exit_code_report expected_goals_def by fastforce
qed

lemma deployed_demo_exit: "exit_code (Inr (demo_main False before u later)) = 1"
proof -
  define gs where "gs = run_checks (concat (map block_checks before)) goals_table"
  have "\<exists>g. (''understatedExit'', g) \<in> set gs \<and> g_expected g = Verified"
    unfolding gs_def run_checks_goal by (simp add: goals_table_def goal_of_def)
  then obtain g where g: "(''understatedExit'', g) \<in> set gs" "g_expected g = Verified" by blast
  define h where "h = g\<lparr>g_status := Some NotCheckedYet, g_detail := Some ''needs the operator's database''\<rparr>"
  have h: "(''understatedExit'', h) \<in> set (skip_understated gs)"
    using g(1) unfolding skip_understated_def update_goal_def h_def by force
  have "snd (report (run_checks cs (skip_understated gs)))" for cs
    unfolding report_run_checks
    by (rule bexI[OF _ h]) (simp add: goal_after_verified h_def g(2))
  then show ?thesis
    by (simp add: demo_main_def run_blocks_run_checks gs_def[symmetric] Let_def exit_code_def case_prod_unfold)
qed

theorem demo_exit_zero:
  "exit_code (Inr (demo_main app before u later)) = 0 \<longleftrightarrow>
   app \<and> (let cs = concat (map block_checks (before @ (''understatedExit'', u) # later)) in
     \<forall>key \<in> set expected_goals. (\<exists>c \<in> set cs. fst c = key) \<and> (\<forall>c \<in> set cs. fst c = key \<longrightarrow> check_ok c))"
  by (cases app) (simp_all only: served_demo_exit[OF refl] deployed_demo_exit Let_def, simp_all)

text \<open>A run that passes every goal, and one whose server is a deployment.\<close>

lemma demo_exit_zero_witness:
  defines "passed \<equiv> map (\<lambda>key. (key, [(key, ''ok'', True, [])], None)) expected_goals"
  shows "exit_code (Inr (demo_main True passed ([], None) [])) = 0"
    and "exit_code (Inr (demo_main False passed ([], None) [])) = 1"
proof -
  show "exit_code (Inr (demo_main True passed ([], None) [])) = 0"
    unfolding demo_exit_zero passed_def by (simp add: block_checks_def)
  show "exit_code (Inr (demo_main False passed ([], None) [])) = 1"
    by (rule deployed_demo_exit)
qed

text \<open>What the linking checks compare: a field of the first body is reported exactly when the second carries the
  same value under the same name, the root apart.\<close>

lemma shared_fields_set:
  "k \<in> set (shared_fields first_body second_body) \<longleftrightarrow>
   k \<noteq> ''merkleRoot'' \<and> (\<exists>v. (k, v) \<in> set (publicFields first_body) \<and> jm_get (publicFields second_body) k = Some v)"
  by (force simp: shared_fields_def)

lemma contains_text_iff: "contains_text t form \<longleftrightarrow> (\<exists>pre post. t = pre @ form @ post)"
proof (induction t)
  case (Cons c cs)
  show ?case (is "?l \<longleftrightarrow> ?r")
  proof
    assume ?l
    then consider "take (length form) (c # cs) = form" | "contains_text cs form" by auto
    then show ?r
    proof cases
      case 1
      then have "c # cs = [] @ form @ drop (length form) (c # cs)" using append_take_drop_id[of "length form" "c # cs"] by simp
      then show ?thesis by blast
    next
      case 2
      then show ?thesis using Cons.IH by (metis append_Cons)
    qed
  next
    assume ?r
    then obtain pre post where e: "c # cs = pre @ form @ post" by blast
    show ?l
    proof (cases pre)
      case Nil
      then show ?thesis using e by (metis append_Nil append_eq_conv_conj contains_text.simps(2))
    next
      case (Cons d pre')
      then show ?thesis using e Cons.IH by auto
    qed
  qed
qed auto

lemma leaked_Nil:
  assumes "leaked secrets sent = []" "k \<in> set secrets" "json \<in> set sent"
  shows "\<not> contains_text (toLowerCase json) (dec_of_int k) \<and> \<not> contains_text (toLowerCase json) (hex_of_nat (nat k))"
  using assms by (force simp: leaked_def Let_def filter_empty_conv list_ex_iff)

end
