(* ===== verification/DemoScript.thy ===== *)
theory DemoScript
  imports Demo
begin

text \<open>
  The blocks of \<open>main\<close> in \<open>scripts/demo/demo.ts\<close>, over the model of the client (\<open>ClientNote\<close>) and of the key
  recovery (\<open>Slashing\<close>).

  The variables of \<open>main\<close> are a record; the chain and the gateway are a world that the operations of
  \<open>demo_env\<close> read and change: the contract's calls and reads, the POST of a request, the operator's table and
  the random draws.  A block runs until it ends or throws and leaves its checks, as \<open>Demo\<close> has them.  The
  answer of the gateway is a status and a JSON value, which is a response or not.  Starting \<open>forge\<close> and the
  server (steps 1 and 2) is not modelled: the script starts with the contract's address and the gateway.

  Shown: when the demo exits with code 0, no body it sent holds a secret key of a note it opened, Alice's two
  bodies share no public field but the root, and the payout of her exit is \<open>D + R - 2 * C_MAX\<close>; against a
  deployment it never does.
\<close>

section \<open>State and world\<close>

record gateway_answer =
  ga_status :: nat
  ga_response :: "request_answer option"
  ga_message :: string
  ga_text :: string

record 'w demo_state =
  dm_world :: 'w
  dm_checks :: "goal_check list"
  dm_note :: "note_file option"
  dm_firstBody :: "request_body option"
  dm_firstResponse :: "gateway_answer option"
  dm_secondBody :: "request_body option"
  dm_exit :: "withdrawal_args option"
  dm_sent :: "string list"
  dm_secrets :: "int list"
  dm_app :: bool

record 'w demo_env =
  de_lib :: client_lib
  de_rpcUrl :: string
  de_contract :: string
  de_deposit :: int
  de_cMax :: int
  de_slasher :: string
  de_onAnvil :: bool
  de_json :: "request_body \<Rightarrow> string"
  de_random :: "'w \<Rightarrow> 'w \<times> bytes res"
  de_wallet :: "'w \<Rightarrow> 'w \<times> string res"
  de_chain :: "'w \<Rightarrow> note_chain"
  de_post :: "string \<Rightarrow> 'w \<Rightarrow> 'w \<times> gateway_answer res"
  de_depositTo :: "string \<Rightarrow> int \<Rightarrow> 'w \<Rightarrow> 'w \<times> unit res"
  de_leaf :: "int \<Rightarrow> 'w \<Rightarrow> string res"
  de_leaves :: "'w \<Rightarrow> string list res"
  de_commitments :: "'w \<Rightarrow> string list res"
  de_logs :: "nat \<Rightarrow> 'w \<Rightarrow> nat res"
  de_stored :: "string \<Rightarrow> 'w \<Rightarrow> (string, string) jmap option"
  de_serverAddress :: "'w \<Rightarrow> string res"
  de_bounty :: "'w \<Rightarrow> int res"
  de_balance :: "string \<Rightarrow> 'w \<Rightarrow> int res"
  de_slash :: "int \<Rightarrow> 'w \<Rightarrow> 'w \<times> (int \<times> int) res"
  de_initiate :: "withdrawal_args \<Rightarrow> 'w \<Rightarrow> 'w \<times> unit res"
  de_try_initiate :: "withdrawal_args \<Rightarrow> 'w \<Rightarrow> call_end"
  de_finalize :: "string \<Rightarrow> 'w \<Rightarrow> 'w \<times> unit res"
  de_increaseTime :: "nat \<Rightarrow> 'w \<Rightarrow> 'w \<times> unit res"
  de_close :: "'w \<Rightarrow> 'w"

type_synonym ('w, 'a) demo_act = "('w demo_state, 'a) act"

definition outside :: "('w \<Rightarrow> 'w \<times> 'a res) \<Rightarrow> ('w, 'a) demo_act" where
  "outside = zoom dm_world (\<lambda>w s. s\<lparr>dm_world := w\<rparr>)"

definition look :: "('w demo_state \<Rightarrow> 'a res) \<Rightarrow> ('w, 'a) demo_act" where
  "look f s = (s, f s)"

definition seen :: "('w \<Rightarrow> 'a res) \<Rightarrow> ('w, 'a) demo_act" where
  "seen f = look (\<lambda>s. f (dm_world s))"

definition needed :: "('w demo_state \<Rightarrow> 'a option) \<Rightarrow> string \<Rightarrow> ('w, 'a) demo_act" where
  "needed f what = look (\<lambda>s. required (f s) what)"

definition note_check :: "string \<Rightarrow> string \<Rightarrow> bool \<Rightarrow> string \<Rightarrow> ('w, unit) demo_act" where
  "note_check target label ok detail = smodify (\<lambda>s. s\<lparr>dm_checks := dm_checks s @ [(target, label, ok, detail)]\<rparr>)"

definition CHALLENGE_WINDOW_S :: nat where
  "CHALLENGE_WINDOW_S = 3 * 24 * 60 * 60"

definition PAYLOAD :: jsstr where
  "PAYLOAD = js_ascii ''What does '' @ [33503, 20840, 24615, 21629, 26044, 20098, 19990, 65292, 19981, 27714, 32862, 36948, 26044, 35576,
     20399, 12290] @ js_ascii ''mean?''"

definition PAYLOAD_2 :: jsstr where
  "PAYLOAD_2 = js_ascii ''Who wrote '' @ [20986, 24107, 34920] @ js_ascii ''?''"

definition PAYLOAD_ATTACKER :: jsstr where
  "PAYLOAD_ATTACKER = js_ascii ''What does '' @ [38816, 36524, 30433, 30209] @ js_ascii '' mean?''"

definition PAYLOAD_DOUBLE :: jsstr where
  "PAYLOAD_DOUBLE = js_ascii ''What does '' @ [27515, 32780, 24460, 24050] @ js_ascii '' mean?''"

section \<open>What the blocks share\<close>

text \<open>The body as JSON; the payload is never read.\<close>

definition body_json :: "request_body \<Rightarrow> body_value" where
  "body_json b = BFields ([(''payload'', BText (map (char_of \<circ> unat) (bd_payload b))), (''nonce'', BText (bd_nonce b)),
     (''nullifier'', BText (bd_nullifier b)), (''signal'', BFields [(''x'', BText (fst (bd_signal b))), (''y'', BText (snd (bd_signal b)))]),
     (''proof'', BText (bd_proof b)), (''merkleRoot'', BText (bd_merkleRoot b)),
     (''accumulator'', BFields [(''x'', BText (fst (bd_accumulator b))), (''y'', BText (snd (bd_accumulator b)))])]
     @ (case bd_model b of None \<Rightarrow> [] | Some m \<Rightarrow> [(''model'', BText m)]))"

definition post :: "'w demo_env \<Rightarrow> request_body \<Rightarrow> ('w, gateway_answer) demo_act" where
  "post d body =
     sbind (smodify (\<lambda>s. s\<lparr>dm_sent := dm_sent s @ [de_json d body]\<rparr>)) (\<lambda>_. outside (de_post d (de_json d body)))"

definition open_note :: "'w demo_env \<Rightarrow> ('w, note_file) demo_act" where
  "open_note d =
     sbind (outside (de_random d)) (\<lambda>draw.
     let new = newNote draw (de_rpcUrl d) (de_contract d) in
     sbind (slift (BigInt_of_string (nf_secretKey new))) (\<lambda>k.
     sbind (smodify (\<lambda>s. s\<lparr>dm_secrets := dm_secrets s @ [k]\<rparr>)) (\<lambda>_.
     sbind (slift (commitmentOf (de_lib d) new)) (\<lambda>c.
     sbind (outside (de_depositTo d c (de_deposit d))) (\<lambda>_. sret new)))))"

definition onchain :: "'w demo_env \<Rightarrow> note_file \<Rightarrow> ('w, onchain_note) demo_act" where
  "onchain d n =
     sbind (slift (commitmentOf (de_lib d) n)) (\<lambda>c. seen (\<lambda>w. nc_getNote (de_chain d w) c))"

definition statusOf :: "'w demo_env \<Rightarrow> note_file \<Rightarrow> ('w, int) demo_act" where
  "statusOf d n = sbind (onchain d n) (\<lambda>o'. sret (oc_status o'))"

definition prove :: "'w demo_env \<Rightarrow> note_file \<Rightarrow> jsstr \<Rightarrow> ('w, request_body \<times> note_file) demo_act" where
  "prove d n payload =
     sbind (outside (de_random d)) (\<lambda>drawNonce. sbind (outside (de_random d)) (\<lambda>drawBlind.
     seen (\<lambda>w. proveRequest (de_lib d) (de_chain d w) drawNonce drawBlind payload None n)))"

definition take_answer :: "'w demo_env \<Rightarrow> note_file \<Rightarrow> gateway_answer \<Rightarrow> ('w, note_file) demo_act" where
  "take_answer d n answer = (case ga_response answer of
     None \<Rightarrow> slift (Inl TypeError)
   | Some r \<Rightarrow> seen (\<lambda>w. receive (de_lib d) (de_chain d w) n r))"

definition withdraw :: "'w demo_env \<Rightarrow> note_file \<Rightarrow> string \<Rightarrow> int option \<Rightarrow> ('w, withdrawal_args) demo_act" where
  "withdraw d n recipient claimed = seen (\<lambda>w. proveWithdrawal (de_lib d) (de_chain d w) recipient claimed n)"

definition http_text :: "gateway_answer \<Rightarrow> string \<Rightarrow> string" where
  "http_text res extra = ''HTTP '' @ dec_of_nat (ga_status res) @ extra"

fun numbers :: "string list \<Rightarrow> string list res" where
  "numbers [] = Inr []"
| "numbers (t # ts) = bind (BigInt_of_string t) (\<lambda>n. bind (numbers ts) (\<lambda>ns. Inr (dec_of_int n # ns)))"

section \<open>Steps 3 and 4\<close>

definition deposit_block :: "'w demo_env \<Rightarrow> ('w, unit) demo_act" where
  "deposit_block d =
     sbind (open_note d) (\<lambda>n.
     sbind (smodify (\<lambda>s. s\<lparr>dm_note := Some n\<rparr>)) (\<lambda>_.
     sbind (slift (commitmentOf (de_lib d) n)) (\<lambda>c.
     sbind (onchain d n) (\<lambda>o'.
     sbind (note_check ''deposit'' ''the note holds the whole deposit'' (oc_amount o' = de_deposit d) []) (\<lambda>_.
     sbind (seen (de_leaf d (oc_leafIndex o'))) (\<lambda>leaf.
     sbind (slift (BigInt_of_string leaf)) (\<lambda>lf. sbind (slift (BigInt_of_string c)) (\<lambda>cm.
     note_check ''deposit'' ''its leaf is computed onchain from the deposit'' (lf \<noteq> 0 \<and> lf \<noteq> cm) []))))))))"

definition root_block :: "'w demo_env \<Rightarrow> ('w, unit) demo_act" where
  "root_block d =
     sbind (needed dm_note ''note'') (\<lambda>n.
     sbind (prove d n PAYLOAD) (\<lambda>(body, n').
     sbind (smodify (\<lambda>s. s\<lparr>dm_note := Some n', dm_firstBody := Some body\<rparr>)) (\<lambda>_.
     sbind (slift (BigInt_of_string (bd_merkleRoot body))) (\<lambda>mine.
     sbind (seen (\<lambda>w. bind (nc_merkleRoot (de_chain d w)) BigInt_of_string)) (\<lambda>latest.
     sbind (note_check ''root'' ''the proof's root is the contract's latest'' (mine = latest) []) (\<lambda>_.
     sbind (post d body) (\<lambda>res.
     sbind (note_check ''root'' ''the server accepts it'' (ga_status res = 200) (http_text res ('' '' @ ga_text res))) (\<lambda>_.
     smodify (\<lambda>s. s\<lparr>dm_firstResponse := Some res\<rparr>)))))))))"

definition refund_block :: "'w demo_env \<Rightarrow> ('w, unit) demo_act" where
  "refund_block d =
     sbind (needed dm_firstResponse ''response'') (\<lambda>response.
     sbind (slift (case ga_response response of None \<Rightarrow> Inl TypeError | Some r \<Rightarrow> BigInt_of_string (an_refund r))) (\<lambda>refund.
     sbind (note_check ''refund'' ''the refund is C_max - C_actual, between 0 and C_max'' (0 < refund \<and> refund \<le> de_cMax d)
       (dec_of_int refund @ '' wei'')) (\<lambda>_.
     sbind (needed dm_note ''note'') (\<lambda>n.
     sbind (take_answer d n response) (\<lambda>n'.
     sbind (smodify (\<lambda>s. s\<lparr>dm_note := Some n'\<rparr>)) (\<lambda>_.
     note_check ''refund'' ''the signed accumulator adds up'' (of_index (nf_opening n') = ''1'') []))))))"

definition retry_block :: "'w demo_env \<Rightarrow> ('w, unit) demo_act" where
  "retry_block d =
     sbind (needed dm_firstBody ''request'') (\<lambda>body.
     sbind (post d body) (\<lambda>retry.
     sbind (if ga_status retry = 200
       then sbind (needed dm_firstResponse ''response'') (\<lambda>r.
         sret (map_option an_accumulator (ga_response retry) = map_option an_accumulator (ga_response r)))
       else sret False) (\<lambda>same.
     note_check ''nullifier'' ''a retry gets the same accumulator back'' same (http_text retry []))))"

definition second_block :: "'w demo_env \<Rightarrow> ('w, unit) demo_act" where
  "second_block d =
     sbind (needed dm_note ''note'') (\<lambda>n.
     sbind (prove d n PAYLOAD_2) (\<lambda>(body, n').
     sbind (smodify (\<lambda>s. s\<lparr>dm_secondBody := Some body\<rparr>)) (\<lambda>_.
     sbind (post d body) (\<lambda>res.
     if ga_status res \<noteq> 200 then slift (Inl (Error (''the second request failed: '' @ http_text res ('' '' @ ga_text res))))
     else sbind (take_answer d n' res) (\<lambda>n''. smodify (\<lambda>s. s\<lparr>dm_note := Some n''\<rparr>))))))"

section \<open>Step 5\<close>

definition unlinked_block :: "('w, unit) demo_act" where
  "unlinked_block =
     sbind (needed dm_firstBody ''request'') (\<lambda>b1. sbind (needed dm_secondBody ''request'') (\<lambda>b2.
     let shared = shared_fields (body_json b1) (body_json b2) in
     note_check ''requestToRequest'' ''the two requests share no value'' (shared = []) (''both carry the same '' @ join '', '' shared)))"

definition deposit_link_block :: "'w demo_env \<Rightarrow> ('w, unit) demo_act" where
  "deposit_link_block d =
     sbind (seen (\<lambda>w. bind (de_commitments d w) numbers)) (\<lambda>known.
     sbind (seen (\<lambda>w. bind (de_leaves d w) numbers)) (\<lambda>leaves.
     sbind (needed dm_firstBody ''request'') (\<lambda>b1. sbind (needed dm_secondBody ''request'') (\<lambda>b2.
     let linked = linked_fields known leaves (de_deposit d) (body_json b1) (body_json b2) in
     sbind (note_check ''requestToDeposit'' ''no request carries a commitment, a leaf or the deposit'' (linked = [])
       (join '', '' linked @ '' match a deposit'')) (\<lambda>_.
     sbind (look (\<lambda>s. Inr (dm_app s))) (\<lambda>app.
     if \<not> app then sret ()
     else sbind (slift (BigInt_of_string (bd_nullifier b1))) (\<lambda>nullifier.
          sbind (seen (\<lambda>w. Inr (de_stored d (dec_of_int nullifier) w))) (\<lambda>stored.
          let extra = filter (\<lambda>k. k \<notin> {''x'', ''y''}) (case stored of None \<Rightarrow> [] | Some m \<Rightarrow> jm_keys m) in
          note_check ''requestToDeposit'' ''the operator's database stores only (x, y) under the nullifier''
            (stored \<noteq> None \<and> extra = []) (if stored \<noteq> None then ''it stores '' @ join '', '' extra else ''nothing stored'')))))))))"

definition refund_log_block :: "'w demo_env \<Rightarrow> nat \<Rightarrow> ('w, unit) demo_act" where
  "refund_log_block d firstBlock =
     sbind (seen (de_logs d (firstBlock + 2))) (\<lambda>logs.
     note_check ''refundOnchain'' ''the contract logged nothing while Alice's requests were served'' (logs = 0)
       (dec_of_nat logs @ '' events''))"

section \<open>Steps 6 and 7\<close>

definition signal_of :: "string \<Rightarrow> string \<Rightarrow> rln_signal res" where
  "signal_of x y = bind (BigInt_of_string x) (\<lambda>a. bind (BigInt_of_string y) (\<lambda>b. Inr \<lparr>sig_x = a, sig_y = b\<rparr>))"

definition recover :: "rln_signal res \<Rightarrow> rln_signal res \<Rightarrow> int res" where
  "recover r1 r2 = bind r1 (\<lambda>s1. bind r2 (recoverSecretKey s1))"

definition slashing_block :: "'w demo_env \<Rightarrow> ('w, unit) demo_act" where
  "slashing_block d =
     sbind (open_note d) (\<lambda>attacker.
     sbind (prove d attacker PAYLOAD_ATTACKER) (\<lambda>(a, _). sbind (prove d attacker PAYLOAD_DOUBLE) (\<lambda>(b, _).
     sbind (post d a) (\<lambda>first_answer.
     if ga_status first_answer \<noteq> 200 then slift (Inl (Error ''the attacker's first request failed''))
     else sbind (post d b) (\<lambda>res.
       let refused = (ga_status res = 403 \<and> startsWith (ga_message res) ''Double-spend detected'');
           detail = http_text res ('' '' @ ga_message res) in
       sbind (note_check ''nullifier'' ''a second signal at a used index is refused'' refused detail) (\<lambda>_.
       sbind (note_check ''slashing'' ''the server treats it as a double-spend'' refused detail) (\<lambda>_.
       sbind (slift (recover (signal_of (fst (bd_signal a)) (snd (bd_signal a))) (signal_of (fst (bd_signal b)) (snd (bd_signal b))))) (\<lambda>k.
       sbind (slift (BigInt_of_string (nf_secretKey attacker))) (\<lambda>secret.
       sbind (note_check ''slashing'' ''the two signals reveal the attacker's secret key'' (k = secret) []) (\<lambda>_.
       sbind (seen (de_serverAddress d)) (\<lambda>server.
       sbind (note_check ''slashing'' ''the slashing wallet is not serverAddress'' (de_slasher d \<noteq> server) []) (\<lambda>_.
       sbind (seen (de_balance d (de_slasher d))) (\<lambda>before.
       sbind (outside (de_slash d k)) (\<lambda>(gasUsed, gasPrice).
       sbind (seen (de_balance d (de_slasher d))) (\<lambda>afterwards.
       let reward = afterwards - before + gasUsed * gasPrice in
       sbind (seen (de_bounty d)) (\<lambda>bounty.
       sbind (note_check ''slashing'' ''the slashing wallet gets the bounty, not the deposit''
         (reward = (if bounty < de_deposit d then bounty else de_deposit d)) (dec_of_int reward @ '' wei'')) (\<lambda>_.
       sbind (statusOf d attacker) (\<lambda>status.
       note_check ''slashing'' ''the attacker's note is slashed'' (status = 4) []))))))))))))))))))"

definition understated_block :: "'w demo_env \<Rightarrow> ('w, unit) demo_act" where
  "understated_block d =
     sbind (open_note d) (\<lambda>attacker0.
     sbind (prove d attacker0 PAYLOAD_ATTACKER) (\<lambda>(served, n).
     sbind (post d served) (\<lambda>answer.
     sbind (take_answer d n answer) (\<lambda>attacker.
     sbind (prove d attacker PAYLOAD_DOUBLE) (\<lambda>(unanswered, _).
     sbind (post d unanswered) (\<lambda>_.
     sbind (outside (de_wallet d)) (\<lambda>recipient.
     sbind (withdraw d attacker recipient (Some 1)) (\<lambda>args.
     sbind (outside (de_initiate d args)) (\<lambda>_.
     sbind (slift (BigInt_of_string (bd_nullifier unanswered))) (\<lambda>nullifier.
     sbind (seen (\<lambda>w. Inr (de_stored d (dec_of_int nullifier) w))) (\<lambda>stored.
     sbind (seen (\<lambda>w. nc_withdrawalSignalX (de_chain d w) (wa_recipient args))) (\<lambda>exitSignalX.
     sbind (slift (if stored = None then Inr False else bind (BigInt_of_string (wa_nullifier args)) (\<lambda>m. Inr (m = nullifier)))) (\<lambda>reused.
     sbind (note_check ''understatedExit'' ''the exit reuses the nullifier of a served request'' reused []) (\<lambda>_.
     sbind (slift (case stored of None \<Rightarrow> Inl TypeError
         | Some m \<Rightarrow> (case (jm_get m ''x'', jm_get m ''y'') of
             (Some x, Some y) \<Rightarrow> recover (signal_of x y)
               (bind (BigInt_of_string (wa_signalY args)) (\<lambda>y'. Inr \<lparr>sig_x = exitSignalX, sig_y = y'\<rparr>))
           | _ \<Rightarrow> Inl TypeError))) (\<lambda>k.
     sbind (outside (de_slash d k)) (\<lambda>_.
     sbind (statusOf d attacker) (\<lambda>status.
     note_check ''understatedExit'' ''the operator slashes it within the window'' (status = 4) [])))))))))))))))))"

section \<open>Steps 8 and 9\<close>

definition recipient_block :: "'w demo_env \<Rightarrow> ('w, unit) demo_act" where
  "recipient_block d =
     sbind (outside (de_wallet d)) (\<lambda>recipient.
     sbind (needed dm_note ''note'') (\<lambda>n.
     sbind (withdraw d n recipient None) (\<lambda>args.
     sbind (smodify (\<lambda>s. s\<lparr>dm_exit := Some args\<rparr>)) (\<lambda>_.
     sbind (outside (de_wallet d)) (\<lambda>thief.
     sbind (seen (\<lambda>w. revertOf (de_try_initiate d (args\<lparr>wa_recipient := thief\<rparr>) w))) (\<lambda>swapped.
     note_check ''withdrawalRecipient'' ''the attacker can't redirect Alice's payout to themselves'' (swapped = ''InvalidProof'')
       (if swapped \<noteq> [] then swapped else ''it succeeded'')))))))"

definition withdrawal_block :: "'w demo_env \<Rightarrow> ('w, unit) demo_act" where
  "withdrawal_block d =
     sbind (needed dm_exit ''withdrawal proof'') (\<lambda>args.
     sbind (smodify (\<lambda>s. if dm_app s then s\<lparr>dm_world := de_close d (dm_world s), dm_app := False\<rparr> else s)) (\<lambda>_.
     sbind (outside (de_initiate d args)) (\<lambda>_.
     sbind (needed dm_note ''note'') (\<lambda>n.
     sbind (statusOf d n) (\<lambda>status.
     sbind (note_check ''withdrawal'' ''the exit starts with the chain and a client-side proof alone'' (status = 2) []) (\<lambda>_.
     if \<not> de_onAnvil d then sret ()
     else sbind (outside (de_increaseTime d CHALLENGE_WINDOW_S)) (\<lambda>_.
          sbind (outside (de_finalize d (wa_commitment args))) (\<lambda>_.
          sbind (seen (de_balance d (wa_recipient args))) (\<lambda>balance.
          sbind (slift (BigInt_of_string (wa_payout args))) (\<lambda>payout.
          note_check ''withdrawal'' ''it pays out after the window'' (balance = payout) []))))))))))"

definition solvency_block :: "'w demo_env \<Rightarrow> ('w, unit) demo_act" where
  "solvency_block d =
     sbind (needed dm_exit ''withdrawal proof'') (\<lambda>args.
     sbind (needed dm_note ''note'') (\<lambda>n.
     sbind (slift (BigInt_of_string (of_refunds (nf_opening n)))) (\<lambda>refunds.
     let expected = de_deposit d + refunds - 2 * de_cMax d in
     sbind (slift (BigInt_of_string (wa_payout args))) (\<lambda>payout.
     note_check ''solvency'' ''the payout is D + R - n * C_max for her two requests'' (payout = expected)
       (wa_payout args @ '' wei, expected '' @ dec_of_int expected)))))"

definition closed_block :: "'w demo_env \<Rightarrow> ('w, unit) demo_act" where
  "closed_block d =
     sbind (needed dm_note ''note'') (\<lambda>n.
     sbind (scatch (sbind (prove d n (js_ascii ''One more?'')) (\<lambda>_. sret [])) (\<lambda>e. sret (exn_text e))) (\<lambda>refused.
     note_check ''closedNote'' ''no request can be proved against the closed note'' (contains_text refused ''not active'')
       (if refused \<noteq> [] then refused else ''a proof was made'')))"

definition secret_block :: "('w, unit) demo_act" where
  "secret_block =
     sbind (look (\<lambda>s. Inr (dm_sent s, leaked (dm_secrets s) (dm_sent s)))) (\<lambda>(sent, leaks).
     note_check ''secretKey'' (''none of the '' @ dec_of_nat (length sent) @ '' request bodies contains a secret key'')
       (sent \<noteq> [] \<and> leaks = []) (dec_of_nat (length leaks) @ '' do''))"

section \<open>The whole script\<close>

definition run_block :: "string \<Rightarrow> ('w, unit) demo_act \<Rightarrow> 'w demo_state \<Rightarrow> 'w demo_state \<times> block" where
  "run_block target m s = (case m (s\<lparr>dm_checks := []\<rparr>) of (s', r) \<Rightarrow>
     (s', dm_checks s', case r of Inl e \<Rightarrow> Some e | Inr _ \<Rightarrow> None))"

fun play :: "(string \<times> ('w, unit) demo_act) list \<Rightarrow> 'w demo_state \<Rightarrow> 'w demo_state \<times> (string \<times> block) list" where
  "play [] s = (s, [])"
| "play ((target, m) # rest) s =
     (case run_block target m s of (s1, b) \<Rightarrow> (case play rest s1 of (s2, bs) \<Rightarrow> (s2, (target, b) # bs)))"

definition before_blocks :: "'w demo_env \<Rightarrow> nat \<Rightarrow> (string \<times> ('w, unit) demo_act) list" where
  "before_blocks d firstBlock =
     [(''deposit'', deposit_block d), (''root'', root_block d), (''refund'', refund_block d), (''nullifier'', retry_block d),
      (''requestToRequest'', second_block d), (''requestToRequest'', unlinked_block), (''requestToDeposit'', deposit_link_block d),
      (''refundOnchain'', refund_log_block d firstBlock), (''slashing'', slashing_block d)]"

definition later_blocks :: "'w demo_env \<Rightarrow> (string \<times> ('w, unit) demo_act) list" where
  "later_blocks d =
     [(''withdrawalRecipient'', recipient_block d), (''withdrawal'', withdrawal_block d), (''solvency'', solvency_block d),
      (''closedNote'', closed_block d), (''secretKey'', secret_block)]"

definition demo :: "'w demo_env \<Rightarrow> nat \<Rightarrow> 'w demo_state \<Rightarrow> 'w demo_state \<times> (string list \<times> bool)" where
  "demo d firstBlock s0 =
     (case play (before_blocks d firstBlock) s0 of (s1, before) \<Rightarrow>
      case (if dm_app s0 then run_block ''understatedExit'' (understated_block d) s1 else (s1, [], None)) of (s2, u) \<Rightarrow>
      case play (later_blocks d) s2 of (s3, later) \<Rightarrow> (s3, demo_main (dm_app s0) before u later))"

section \<open>What a passed demo has checked\<close>

lemma passed_blocks:
  assumes "exit_code (Inr (demo_main app before u later)) = 0"
    "(target, cs, thrown) \<in> set (before @ (''understatedExit'', u) # later)"
  shows "target \<in> set expected_goals \<Longrightarrow> thrown = None" "c \<in> set cs \<Longrightarrow> fst c \<in> set expected_goals \<Longrightarrow> check_ok c"
proof -
  let ?all = "concat (map block_checks (before @ (''understatedExit'', u) # later))"
  have ok: "check_ok c" if "c \<in> set ?all" "fst c \<in> set expected_goals" for c
    using assms(1) that unfolding demo_exit_zero Let_def by blast
  have sub: "set (block_checks (target, cs, thrown)) \<subseteq> set ?all" using assms(2) unfolding set_concat set_map by blast
  show "thrown = None" if "target \<in> set expected_goals"
  proof (rule ccontr)
    assume "thrown \<noteq> None"
    then obtain e where "thrown = Some e" by blast
    then have "(target, exn_text e, False, []) \<in> set ?all" using sub by (auto simp: block_checks_def)
    from ok [OF this] that show False by simp
  qed
  show "check_ok c" if "c \<in> set cs" "fst c \<in> set expected_goals"
  proof -
    have "c \<in> set (block_checks (target, cs, thrown))" using that(1) by (simp add: block_checks_def)
    with sub ok that(2) show ?thesis by blast
  qed
qed

lemma run_block_ok:
  assumes "run_block target m s = (s', cs, None)"
  shows "m (s\<lparr>dm_checks := []\<rparr>) = (s', Inr ())" "cs = dm_checks s'"
  using assms by (auto simp: run_block_def split: prod.splits sum.splits)

text \<open>A block leaves a part \<open>f\<close> of the state alone, whatever the world answers.\<close>

definition frame :: "('w demo_state \<Rightarrow> 'b) \<Rightarrow> ('w, 'a) demo_act \<Rightarrow> bool" where
  "frame f = keeps (\<lambda>s t. f t = f s)"

definition local_part :: "('w demo_state \<Rightarrow> 'b) \<Rightarrow> bool" where
  "local_part f \<longleftrightarrow> (\<forall>s w. f (s\<lparr>dm_world := w\<rparr>) = f s) \<and> (\<forall>s cs. f (s\<lparr>dm_checks := cs\<rparr>) = f s)"

named_theorems frames \<open>what a block of the demo leaves alone\<close>

lemma frame_basic [frames]:
  "frame f (sret v)" "frame f (slift r)" "frame f (look g)" "frame f (seen h)" "frame f (needed k what)"
  by (simp_all add: frame_def keeps_def look_def seen_def needed_def)

lemma frame_local [frames]: "local_part f \<Longrightarrow> frame f (outside m)" "local_part f \<Longrightarrow> frame f (note_check target label ok detail)"
  by (simp_all add: frame_def keeps_def outside_def zoom_def note_check_def local_part_def split: prod.split)

lemma frame_smodify [frames]: "(\<And>s. f (g s) = f s) \<Longrightarrow> frame f (smodify g)"
  by (simp add: frame_def keeps_def)

lemma frame_sbind [frames]: "\<lbrakk>frame f m; \<And>v. frame f (k v)\<rbrakk> \<Longrightarrow> frame f (sbind m k)"
  unfolding frame_def by (rule keeps_sbind) auto

lemma frame_scatch [frames]: "\<lbrakk>frame f m; \<And>e. frame f (k e)\<rbrakk> \<Longrightarrow> frame f (scatch m k)"
  unfolding frame_def keeps_def scatch_def by (auto split: prod.split sum.split) (metis fst_conv)+

lemma frame_if [frames]: "\<lbrakk>b \<Longrightarrow> frame f m; \<not> b \<Longrightarrow> frame f m'\<rbrakk> \<Longrightarrow> frame f (if b then m else m')"
  by simp

lemma frame_prod [frames]: "(\<And>x y. frame f (k x y)) \<Longrightarrow> frame f (case p of (x, y) \<Rightarrow> k x y)"
  by (cases p) simp

lemma frame_run_block:
  assumes "frame f m" "local_part f" "run_block target m s = (s', b)"
  shows "f s' = f s"
proof -
  obtain r where "m (s\<lparr>dm_checks := []\<rparr>) = (s', r)" using assms(3) by (auto simp: run_block_def split: prod.splits)
  from keepsD [OF assms(1) [unfolded frame_def] this] assms(2) show ?thesis by (simp add: local_part_def)
qed

lemma frame_answer [frames]: "frame f (take_answer d n answer)"
  by (simp add: take_answer_def frame_basic split: option.split)

lemma frame_steps [frames]: "frame f (onchain d n)" "frame f (statusOf d n)" "frame f (withdraw d n r c)"
  "local_part f \<Longrightarrow> frame f (prove d n p)"
  unfolding onchain_def statusOf_def withdraw_def prove_def by (intro frames; assumption)+

lemma later_keep:
  "frame (\<lambda>s. (dm_exit s, dm_note s)) (solvency_block d)" "frame (\<lambda>s. (dm_exit s, dm_note s)) (closed_block d)"
  "frame (\<lambda>s. (dm_exit s, dm_note s)) secret_block" "frame (\<lambda>s. (dm_sent s, dm_secrets s)) secret_block"
proof -
  have l: "local_part (\<lambda>s. (dm_exit s, dm_note s))" "local_part (\<lambda>s. (dm_sent s, dm_secrets s))" by (simp_all add: local_part_def)
  show "frame (\<lambda>s. (dm_exit s, dm_note s)) (solvency_block d)" "frame (\<lambda>s. (dm_exit s, dm_note s)) (closed_block d)"
    "frame (\<lambda>s. (dm_exit s, dm_note s)) secret_block" "frame (\<lambda>s. (dm_sent s, dm_secrets s)) secret_block"
    unfolding solvency_block_def closed_block_def secret_block_def Let_def by (intro frames l)+
qed

text \<open>What the two blocks have checked when they end with every check passed.\<close>

lemma solvency_block_ok:
  assumes "solvency_block d s = (s', Inr ())" "dm_checks s = []" "\<forall>c \<in> set (dm_checks s'). check_ok c"
  shows "\<exists>args n refunds. dm_exit s = Some args \<and> dm_note s = Some n \<and> BigInt_of_string (of_refunds (nf_opening n)) = Inr refunds
    \<and> BigInt_of_string (wa_payout args) = Inr (de_deposit d + refunds - 2 * de_cMax d)"
  using assms
  by (auto simp: solvency_block_def sbind_ok needed_def look_def required_def note_check_def Let_def split: option.splits)

lemma secret_block_ok:
  assumes "secret_block s = (s', Inr ())" "dm_checks s = []" "\<forall>c \<in> set (dm_checks s'). check_ok c"
  shows "dm_sent s \<noteq> [] \<and> leaked (dm_secrets s) (dm_sent s) = []"
  using assms by (auto simp: secret_block_def sbind_ok look_def note_check_def)

text \<open>A block whose checks are all for one goal.\<close>

definition only_checks :: "string \<Rightarrow> ('w, unit) demo_act \<Rightarrow> bool" where
  "only_checks target m \<longleftrightarrow> (\<forall>s s' r. m s = (s', r) \<longrightarrow> dm_checks s = [] \<longrightarrow> (\<forall>c \<in> set (dm_checks s'). fst c = target))"

lemma solvency_block_targets: "only_checks ''solvency'' (solvency_block d)"
  by (auto simp: only_checks_def solvency_block_def sbind_def needed_def look_def required_def note_check_def Let_def split: option.splits sum.splits)

lemma secret_block_targets: "only_checks ''secretKey'' secret_block"
  by (auto simp: only_checks_def secret_block_def sbind_def look_def note_check_def)

lemma play_step:
  assumes "play ((target, m) # rest) s = (s', bs)"
  obtains s1 b bs' where "run_block target m s = (s1, b)" "play rest s1 = (s', bs')" "bs = (target, b) # bs'"
  using assms by (simp split: prod.splits)

lemma play_later:
  assumes "play (later_blocks d) s2 = (s, later)"
  obtains t2 t3 t4 b3 b4 b5 where
    "run_block ''solvency'' (solvency_block d) t2 = (t3, b3)" "run_block ''closedNote'' (closed_block d) t3 = (t4, b4)"
    "run_block ''secretKey'' secret_block t4 = (s, b5)" "(''solvency'', b3) \<in> set later" "(''secretKey'', b5) \<in> set later"
  using assms unfolding later_blocks_def
proof (elim play_step)
  fix t1 b1 bs1 t2 b2 bs2 t3 b3 bs3 t4 b4 bs4 t5 b5 bs5
  assume r: "run_block ''solvency'' (solvency_block d) t2 = (t3, b3)" "run_block ''closedNote'' (closed_block d) t3 = (t4, b4)"
    "run_block ''secretKey'' secret_block t4 = (t5, b5)" and e: "play [] t5 = (s, bs5)"
    and bs: "later = (''withdrawalRecipient'', b1) # bs1" "bs1 = (''withdrawal'', b2) # bs2" "bs2 = (''solvency'', b3) # bs3"
    "bs3 = (''closedNote'', b4) # bs4" "bs4 = (''secretKey'', b5) # bs5"
  have "t5 = s" using e by simp
  with r bs show thesis by (intro that [of t2 t3 b3 t4 b4 b5]) simp_all
qed

lemma frame_play:
  assumes "\<forall>(target, m) \<in> set blocks. frame f m" "local_part f" "play blocks s = (s', bs)"
  shows "f s' = f s"
  using assms(1,3)
proof (induction blocks arbitrary: s bs)
  case Nil
  then show ?case by simp
next
  case (Cons b blocks)
  obtain target m where b: "b = (target, m)" by (cases b)
  from Cons.prems(2) obtain s1 c bs1 where "run_block target m s = (s1, c)" "play blocks s1 = (s', bs1)"
    unfolding b by (rule play_step)
  moreover from this(1) have "f s1 = f s" using Cons.prems(1) by (intro frame_run_block [OF _ assms(2)]) (simp_all add: b)
  ultimately show ?case using Cons.IH [of s1 bs1] Cons.prems(1) by simp
qed

lemma play_append:
  assumes "play (xs @ ys) s = (s', bs)"
  obtains t as cs where "play xs s = (t, as)" "play ys t = (s', cs)" "bs = as @ cs"
proof -
  have "\<exists>t as cs. play xs s = (t, as) \<and> play ys t = (s', cs) \<and> bs = as @ cs"
    using assms
  proof (induction xs arbitrary: s bs)
    case Nil
    then show ?case by simp
  next
    case (Cons b xs)
    obtain target m where b: "b = (target, m)" by (cases b)
    from Cons.prems obtain s1 c bs1 where 1: "run_block target m s = (s1, c)" "play (xs @ ys) s1 = (s', bs1)" "bs = (target, c) # bs1"
      unfolding b append_Cons by (rule play_step)
    from Cons.IH [OF 1(2)] 1(1,3) show ?case by (auto simp: b)
  qed
  with that show thesis by blast
qed

definition bodies :: "'w demo_state \<Rightarrow> request_body option \<times> request_body option" where
  "bodies s = (dm_firstBody s, dm_secondBody s)"

lemma bodies_local: "local_part bodies"
  by (simp add: local_part_def bodies_def)

lemma bodies_frame [frames]: "frame bodies (post d b)" "frame bodies (open_note d)"
  unfolding post_def open_note_def Let_def by (intro frames bodies_local; simp add: bodies_def)+

lemma bodies_kept:
  "frame bodies (deposit_link_block d)" "frame bodies (refund_log_block d n)" "frame bodies (slashing_block d)"
  "frame bodies (understated_block d)" "frame bodies (recipient_block d)" "frame bodies (withdrawal_block d)"
  "frame bodies (solvency_block d)" "frame bodies (closed_block d)" "frame bodies secret_block" "frame bodies unlinked_block"
  unfolding deposit_link_block_def refund_log_block_def slashing_block_def understated_block_def recipient_block_def
    withdrawal_block_def solvency_block_def closed_block_def secret_block_def unlinked_block_def Let_def
  by (intro frames bodies_local; simp add: bodies_def)+

lemma unlinked_block_ok:
  assumes "unlinked_block s = (s', Inr ())" "dm_checks s = []" "\<forall>c \<in> set (dm_checks s'). check_ok c"
  shows "\<exists>b1 b2. bodies s = (Some b1, Some b2) \<and> shared_fields (body_json b1) (body_json b2) = []"
  using assms
  by (auto simp: unlinked_block_def bodies_def sbind_ok needed_def look_def required_def note_check_def Let_def split: option.splits)

lemma unlinked_block_targets: "only_checks ''requestToRequest'' unlinked_block"
  by (auto simp: only_checks_def unlinked_block_def sbind_def needed_def look_def required_def note_check_def Let_def split: option.splits sum.splits)

lemma passed_block:
  assumes "exit_code (Inr (demo_main app before u later)) = 0" "(target, b) \<in> set (before @ (''understatedExit'', u) # later)"
    "run_block target m s = (t, b)" "target \<in> set expected_goals" "only_checks target m"
  shows "m (s\<lparr>dm_checks := []\<rparr>) = (t, Inr ())" "\<forall>c \<in> set (dm_checks t). check_ok c"
proof -
  obtain cs e where b: "b = (cs, e)" by (cases b)
  note p = passed_blocks [OF assms(1) assms(2) [unfolded b]]
  have r: "m (s\<lparr>dm_checks := []\<rparr>) = (t, Inr ())" "cs = dm_checks t"
    using run_block_ok [OF assms(3) [unfolded b p(1) [OF assms(4)]]] by blast+
  show "m (s\<lparr>dm_checks := []\<rparr>) = (t, Inr ())" by (rule r(1))
  show "\<forall>c \<in> set (dm_checks t). check_ok c"
  proof
    fix c assume "c \<in> set (dm_checks t)"
    moreover from this have "fst c = target" using assms(5) r(1) unfolding only_checks_def by (metis (no_types, lifting) demo_state.select_convs(2) demo_state.surjective demo_state.update_convs(2))
    ultimately show "check_ok c" using p(2) [of c] assms(4) r(2) by simp
  qed
qed

lemma played_before:
  fixes d :: "'w demo_env"
  assumes "play (before_blocks d n) s0 = (s1, before)"
  obtains t t' :: "'w demo_state" and b where "run_block ''requestToRequest'' unlinked_block t = (t', b)" "(''requestToRequest'', b) \<in> set before" "bodies s1 = bodies t"
proof -
  have "before_blocks d n = take 5 (before_blocks d n) @ (''requestToRequest'', unlinked_block) # drop 6 (before_blocks d n)"
    by (simp add: before_blocks_def)
  with assms obtain t as cs where "play ((''requestToRequest'', unlinked_block) # drop 6 (before_blocks d n)) t = (s1, cs)"
    "before = as @ cs" by (metis play_append)
  then obtain t' b cs' where b: "run_block ''requestToRequest'' unlinked_block t = (t', b)" "play (drop 6 (before_blocks d n)) t' = (s1, cs')"
    "before = as @ (''requestToRequest'', b) # cs'" by (elim play_step) simp
  have "bodies s1 = bodies t'"
    using b(2) by (rule frame_play [OF _ bodies_local, rotated]) (simp add: before_blocks_def bodies_kept)
  with frame_run_block [OF bodies_kept(10) bodies_local b(1)] have "bodies s1 = bodies t" by simp
  with b show thesis by (intro that [of t t' b]) auto
qed

text \<open>A demo that exits with code 0 ran the server itself; no body it sent holds a secret key of a note it opened;
  Alice's two bodies share no public field but the root; and the payout of her exit is the deposit and the
  refunds of her note, less twice \<open>C_MAX\<close>.\<close>

theorem demo_pass_means:
  fixes d :: "'w demo_env"
  assumes "demo d firstBlock s0 = (s, r)" "exit_code (Inr r) = 0"
  shows "dm_app s0
    \<and> (\<forall>k \<in> set (dm_secrets s). \<forall>json \<in> set (dm_sent s). \<not> contains_text (toLowerCase json) (dec_of_int k)
         \<and> \<not> contains_text (toLowerCase json) (hex_of_nat (nat k)))
    \<and> (\<exists>b1 b2. bodies s = (Some b1, Some b2) \<and> shared_fields (body_json b1) (body_json b2) = [])
    \<and> (\<exists>args n refunds. dm_exit s = Some args \<and> dm_note s = Some n \<and> BigInt_of_string (of_refunds (nf_opening n)) = Inr refunds
         \<and> BigInt_of_string (wa_payout args) = Inr (de_deposit d + refunds - 2 * de_cMax d))"
proof -
  obtain s1 s2 before u later where play: "play (before_blocks d firstBlock) s0 = (s1, before)"
    "(if dm_app s0 then run_block ''understatedExit'' (understated_block d) s1 else (s1, [], None)) = (s2, u)"
    "play (later_blocks d) s2 = (s, later)" and main: "r = demo_main (dm_app s0) before u later"
    using assms(1) unfolding demo_def by (auto split: prod.splits)
  obtain t2 t3 t4 b3 b4 b5 where blocks:
    "run_block ''solvency'' (solvency_block d) t2 = (t3, b3)" "run_block ''closedNote'' (closed_block d) t3 = (t4, b4)"
    "run_block ''secretKey'' secret_block t4 = (s, b5)" "(''solvency'', b3) \<in> set later" "(''secretKey'', b5) \<in> set later"
    using play(3) by (rule play_later)
  obtain t t' :: "'w demo_state" and b where link: "run_block ''requestToRequest'' unlinked_block t = (t', b)" "(''requestToRequest'', b) \<in> set before"
    "bodies s1 = bodies t" using play(1) by (rule played_before)
  have zero: "exit_code (Inr (demo_main (dm_app s0) before u later)) = 0" using assms(2) main by simp
  then have app: "dm_app s0" unfolding demo_exit_zero by blast
  have keys: "''solvency'' \<in> set expected_goals" "''secretKey'' \<in> set expected_goals" "''requestToRequest'' \<in> set expected_goals"
    by (simp_all add: expected_goals_def goals_table_def goal_of_def)
  have "(''solvency'', b3) \<in> set (before @ (''understatedExit'', u) # later)" using blocks(4) by simp
  note p3 = passed_block [OF zero this blocks(1) keys(1) solvency_block_targets]
  have "(''secretKey'', b5) \<in> set (before @ (''understatedExit'', u) # later)" using blocks(5) by simp
  note p5 = passed_block [OF zero this blocks(3) keys(2) secret_block_targets]
  have "(''requestToRequest'', b) \<in> set (before @ (''understatedExit'', u) # later)" using link(2) by simp
  note pl = passed_block [OF zero this link(1) keys(3) unlinked_block_targets]
  have "bodies s2 = bodies s1" using play(2) app frame_run_block [OF bodies_kept(4) bodies_local] by simp
  moreover have "bodies s = bodies s2"
    using play(3) by (rule frame_play [OF _ bodies_local, rotated]) (simp add: later_blocks_def bodies_kept)
  ultimately have "\<exists>b1 b2. bodies s = (Some b1, Some b2) \<and> shared_fields (body_json b1) (body_json b2) = []"
    using unlinked_block_ok [OF pl(1) _ pl(2)] link(3) by (simp add: bodies_def)
  moreover have l: "local_part (\<lambda>s. (dm_exit s, dm_note s))" "local_part (\<lambda>s. (dm_sent s, dm_secrets s))" by (simp_all add: local_part_def)
  have same: "dm_exit s = dm_exit t2" "dm_note s = dm_note t2" "dm_sent s = dm_sent t4" "dm_secrets s = dm_secrets t4"
    using frame_run_block [OF later_keep(1) l(1) blocks(1)] frame_run_block [OF later_keep(2) l(1) blocks(2)]
      frame_run_block [OF later_keep(3) l(1) blocks(3)] frame_run_block [OF later_keep(4) l(2) blocks(3)] by simp_all
  have "leaked (dm_secrets s) (dm_sent s) = []" using secret_block_ok [OF p5(1) _ p5(2)] same by simp
  moreover have "\<exists>args n refunds. dm_exit s = Some args \<and> dm_note s = Some n \<and> BigInt_of_string (of_refunds (nf_opening n)) = Inr refunds
      \<and> BigInt_of_string (wa_payout args) = Inr (de_deposit d + refunds - 2 * de_cMax d)"
    using solvency_block_ok [OF p3(1) _ p3(2)] same by simp
  ultimately show ?thesis using leaked_Nil app by blast
qed

text \<open>Against a deployment the script never exits with 0.\<close>

corollary deployed_demo_fails: "\<not> dm_app s0 \<Longrightarrow> exit_code (Inr (snd (demo d firstBlock s0))) = 1"
  unfolding demo_def by (simp add: deployed_demo_exit split: prod.split)

end
