(* ===== verification/Setup.thy ===== *)
theory Setup
  imports Config StateRes NullifierStore EthRate
begin

text \<open>
  \<open>scripts/setup/fetch-circuits.ts\<close>, which downloads the circuit artifacts and checks each against its pinned
  hash, and the databases: \<open>database/database.service.ts\<close>, which opens the SQLite file and creates its tables,
  and how \<open>nullifier-store.service.ts\<close> and \<open>eth-rate-oracle.service.ts\<close> open theirs.

  The file system is a map from paths to bytes; a directory is created or a file written, or the call throws
  (\<open>writable\<close>).  \<open>fetch\<close> is a function from URLs to answers during one run.  SHA-256 is a parameter.  \<open>join\<close> of
  \<open>path\<close> is written out for POSIX paths, as are \<open>dirname\<close> and \<open>basename\<close>.  A database is its tables and
  indexes by name, a table its columns and its rows.

  Shown: a run that ends leaves every artifact of the manifest with its pinned hash, and a run that fails has
  written nothing but such artifacts; a second run downloads nothing.  Migrations keep every table and row that
  is there, end with the tables of the schema, and do nothing the second time.  Opening the store of nullifiers
  keeps every spent nullifier with its signal and leaves no other column; the three databases are three files.
\<close>

section \<open>Paths\<close>

fun normal_segments :: "bool \<Rightarrow> string list \<Rightarrow> string list \<Rightarrow> string list" where
  "normal_segments absolute acc [] = rev acc"
| "normal_segments absolute acc (seg # segs) =
     (if seg = [] \<or> seg = ''.'' then normal_segments absolute acc segs
      else if seg = ''..'' then
        (case acc of
           [] \<Rightarrow> normal_segments absolute (if absolute then [] else [''..'']) segs
         | parent # rest \<Rightarrow> if parent = ''..'' then normal_segments absolute (''..'' # acc) segs else normal_segments absolute rest segs)
      else normal_segments absolute (seg # acc) segs)"

definition normalize_path :: "string \<Rightarrow> string" where
  "normalize_path p =
     (let absolute = (p \<noteq> [] \<and> hd p = CHR ''/''); trailing = (p \<noteq> [] \<and> last p = CHR ''/'');
          body = Config.join ''/'' (normal_segments absolute [] (split_on CHR ''/'' p));
          shown = (if body = [] \<and> \<not> absolute then ''.'' else body);
          shown' = (if shown \<noteq> [] \<and> trailing then shown @ ''/'' else shown)
      in if absolute then ''/'' @ shown' else shown')"

definition join_paths :: "string list \<Rightarrow> string" where
  "join_paths parts =
     (let joined = Config.join ''/'' (filter (\<lambda>p. p \<noteq> []) parts) in if joined = [] then ''.'' else normalize_path joined)"

definition basename :: "string \<Rightarrow> string" where
  "basename p = (case filter (\<lambda>seg. seg \<noteq> []) (split_on CHR ''/'' p) of [] \<Rightarrow> [] | segs \<Rightarrow> last segs)"

section \<open>Artifacts\<close>

type_synonym files = "string \<rightharpoonup> bytes"

record manifest =
  mf_release :: string
  mf_files :: "(string, string) jmap"

record fetch_world =
  fw_build :: string
  fw_sha256 :: "bytes \<Rightarrow> bytes"
  fw_fetch :: "string \<Rightarrow> (nat \<times> bytes) res"
  fw_writable :: "string \<Rightarrow> unit res"

definition artifact_hash :: "fetch_world \<Rightarrow> bytes \<Rightarrow> string" where
  "artifact_hash w data = hex_of_bytes (fw_sha256 w data)"

definition artifact_target :: "fetch_world \<Rightarrow> string \<Rightarrow> string" where
  "artifact_target w path = join_paths [fw_build w, path]"

definition fetchArtifact :: "fetch_world \<Rightarrow> string \<Rightarrow> string \<Rightarrow> string \<Rightarrow> (files, unit) act" where
  "fetchArtifact w release path hash fs =
     (let target = artifact_target w path in
      if (case fs target of None \<Rightarrow> False | Some data \<Rightarrow> artifact_hash w data = hash) then (fs, Inr ())
      else let url = release @ ''/'' @ basename path in
        (case fw_fetch w url of
           Inl e \<Rightarrow> (fs, Inl e)
         | Inr (status, data) \<Rightarrow>
             if \<not> (200 \<le> status \<and> status < 300) then (fs, Inl (Error (url @ '': HTTP '' @ dec_of_nat status)))
             else let actual = artifact_hash w data in
               if actual \<noteq> hash then (fs, Inl (Error (path @ '': expected sha256 '' @ hash @ '', got '' @ actual)))
               else (case fw_writable w target of Inl e \<Rightarrow> (fs, Inl e) | Inr _ \<Rightarrow> (fs(target \<mapsto> data), Inr ()))))"

fun fetch_all :: "fetch_world \<Rightarrow> string \<Rightarrow> (string \<times> string) list \<Rightarrow> (files, unit) act" where
  "fetch_all w release [] = sret ()"
| "fetch_all w release ((path, hash) # rest) = sbind (fetchArtifact w release path hash) (\<lambda>_. fetch_all w release rest)"

definition fetch_main :: "fetch_world \<Rightarrow> manifest \<Rightarrow> files \<Rightarrow> files \<times> nat" where
  "fetch_main w m fs = (case fetch_all w (mf_release m) (mf_files m) fs of (fs', Inl _) \<Rightarrow> (fs', 1) | (fs', Inr _) \<Rightarrow> (fs', 0))"

definition has_hash :: "fetch_world \<Rightarrow> files \<Rightarrow> string \<times> string \<Rightarrow> bool" where
  "has_hash w fs entry \<longleftrightarrow> (case entry of (path, hash) \<Rightarrow>
     \<exists>data. fs (artifact_target w path) = Some data \<and> artifact_hash w data = hash)"

lemma fetchArtifact_ok: "fetchArtifact w release path hash fs = (fs', Inr ()) \<Longrightarrow> has_hash w fs' (path, hash)"
  by (auto simp: fetchArtifact_def has_hash_def Let_def split: option.splits sum.splits if_splits prod.splits)

text \<open>Whether or not it throws, an artifact changes only its own file, and only to bytes with the pinned hash.\<close>

lemma fetchArtifact_changes:
  assumes "fetchArtifact w release path hash fs = (fs', r)" "fs' f \<noteq> fs f"
  shows "f = artifact_target w path \<and> has_hash w fs' (path, hash)"
  using assms by (auto simp: fetchArtifact_def has_hash_def Let_def split: option.splits sum.splits if_splits prod.splits)

lemma fetchArtifact_keeps_pinned:
  assumes "fetchArtifact w release path hash fs = (fs', r)" "has_hash w fs e" "artifact_target w (fst e) \<noteq> artifact_target w path"
  shows "has_hash w fs' e"
proof -
  have "fs' (artifact_target w (fst e)) = fs (artifact_target w (fst e))" using fetchArtifact_changes [OF assms(1)] assms(3) by blast
  then show ?thesis using assms(2) by (simp add: has_hash_def split: prod.splits)
qed

lemma fetchArtifact_pinned: "has_hash w fs (path, hash) \<Longrightarrow> fetchArtifact w release path hash fs = (fs, Inr ())"
  by (auto simp: fetchArtifact_def has_hash_def Let_def)

definition separate_targets :: "fetch_world \<Rightarrow> (string \<times> string) list \<Rightarrow> bool" where
  "separate_targets w entries \<longleftrightarrow> distinct (map (artifact_target w \<circ> fst) entries)"

lemma fetch_all_keeps_pinned:
  assumes "fetch_all w release entries fs = (fs', r)" "has_hash w fs e" "artifact_target w (fst e) \<notin> set (map (artifact_target w \<circ> fst) entries)"
  shows "has_hash w fs' e"
  using assms
proof (induction entries arbitrary: fs)
  case (Cons x entries)
  obtain path hash where x: "x = (path, hash)" by (cases x)
  obtain fs1 r1 where 1: "fetchArtifact w release path hash fs = (fs1, r1)" by fastforce
  have "has_hash w fs1 e" using fetchArtifact_keeps_pinned [OF 1 Cons.prems(2)] Cons.prems(3) by (simp add: x)
  then show ?case using Cons 1 by (auto simp: x sbind_def split: sum.splits)
qed simp

lemma fetch_all_pins:
  assumes "fetch_all w release entries fs = (fs', Inr ())" "separate_targets w entries"
  shows "\<forall>e \<in> set entries. has_hash w fs' e"
  using assms
proof (induction entries arbitrary: fs)
  case (Cons x entries)
  obtain path hash where x: "x = (path, hash)" by (cases x)
  from Cons.prems(1) obtain fs1 where 1: "fetchArtifact w release path hash fs = (fs1, Inr ())" "fetch_all w release entries fs1 = (fs', Inr ())"
    by (auto simp: x sbind_ok)
  have "has_hash w fs' x"
    using fetch_all_keeps_pinned [OF 1(2) fetchArtifact_ok [OF 1(1)]] Cons.prems(2) by (simp add: x separate_targets_def)
  with Cons.IH [OF 1(2)] Cons.prems(2) show ?case by (simp add: separate_targets_def)
qed simp

lemma fetch_all_changes:
  assumes "fetch_all w release entries fs = (fs', r)" "fs' f \<noteq> fs f" "separate_targets w entries"
  shows "\<exists>e \<in> set entries. f = artifact_target w (fst e) \<and> has_hash w fs' e"
  using assms
proof (induction entries arbitrary: fs)
  case (Cons x entries)
  obtain path hash where x: "x = (path, hash)" by (cases x)
  obtain fs1 r1 where 1: "fetchArtifact w release path hash fs = (fs1, r1)" by fastforce
  show ?case
  proof (cases r1)
    case (Inl e)
    then show ?thesis using Cons.prems 1 fetchArtifact_changes [OF 1] by (auto simp: x sbind_def)
  next
    case (Inr v)
    then have 2: "fetch_all w release entries fs1 = (fs', r)" using Cons.prems(1) 1 by (simp add: x sbind_def)
    show ?thesis
    proof (cases "fs' f = fs1 f")
      case True
      with Cons.prems(2) fetchArtifact_changes [OF 1] have "f = artifact_target w path" "has_hash w fs1 (path, hash)" by metis+
      then show ?thesis using fetch_all_keeps_pinned [OF 2, of "(path, hash)"] Cons.prems(3) by (auto simp: x separate_targets_def)
    next
      case False
      with Cons.IH [OF 2] Cons.prems(3) show ?thesis by (auto simp: separate_targets_def)
    qed
  qed
qed simp

lemma fetch_all_pinned: "\<forall>e \<in> set entries. has_hash w fs e \<Longrightarrow> fetch_all w release entries fs = (fs, Inr ())"
  by (induction entries) (auto simp: sbind_def fetchArtifact_pinned)

text \<open>A run with exit code 0 leaves every artifact of the manifest with its pinned hash; whatever the exit code,
  a changed file is an artifact with its pinned hash; and after a run with exit code 0 another run changes
  nothing and succeeds whatever the release server answers.\<close>

theorem fetched_artifacts_pinned:
  assumes "fetch_main w m fs = (fs', code)" "separate_targets w (mf_files m)"
  shows "(code = 0 \<longrightarrow> (\<forall>e \<in> set (mf_files m). has_hash w fs' e) \<and> (\<forall>answers. fetch_main (w\<lparr>fw_fetch := answers\<rparr>) m fs' = (fs', 0)))
    \<and> (\<forall>f. fs' f \<noteq> fs f \<longrightarrow> (\<exists>e \<in> set (mf_files m). f = artifact_target w (fst e) \<and> has_hash w fs' e))"
proof -
  obtain r where r: "fetch_all w (mf_release m) (mf_files m) fs = (fs', r)" "code = 0 \<longleftrightarrow> r = Inr ()"
    using assms(1) by (auto simp: fetch_main_def split: prod.splits sum.splits)
  have same: "has_hash (w\<lparr>fw_fetch := answers\<rparr>) = has_hash w" for answers
    by (simp add: fun_eq_iff has_hash_def artifact_target_def artifact_hash_def)
  show ?thesis
    using r fetch_all_pins [of w "mf_release m" "mf_files m" fs fs'] fetch_all_changes [OF r(1)] assms(2)
    by (auto simp: fetch_main_def same fetch_all_pinned)
qed

text \<open>The manifest of the repository.\<close>

definition artifacts_json :: manifest where
  "artifacts_json = \<lparr>mf_release = ''https://github.com/w3hc/longjing/releases/download/circuits-v2'', mf_files =
    [(''request_js/request.wasm'', ''7e50663c3c22aae9da6f3296a4736418bc325f1d930f703e642c78bde9ac62cd''),
     (''request.zkey'', ''2a42d01d5919e45331ec17fe52e45670f81e7f08bae444cea62a3d9dd7443352''),
     (''request_verification_key.json'', ''70c51f705cda74d0da2bbb79fae73c9117c48e3a9c9361ba3485569332538927''),
     (''settlement_js/settlement.wasm'', ''e3f4f0dc3699f30c536b678f6374862086d03b2ed592fbb4a073d69b10e4939f''),
     (''settlement.zkey'', ''8ffbe69909beafee10eb0e217cd9b309cf73d2edb0627382a2d15fb01bdbe8e7''),
     (''settlement_verification_key.json'', ''6a8121be004b4b6c54e109cac800197133f4652efe3c444c29fdf32f503b17cf'')]\<rparr>"

lemma artifacts_separate:
  "distinct (map (\<lambda>e. join_paths [''/repo/circuits/build'', fst e]) (mf_files artifacts_json))"
  by code_simp

section \<open>The database\<close>

record db_table =
  tb_columns :: "string list"
  tb_rows :: "string list list"

record database =
  db_tables :: "(string, db_table) jmap"
  db_indexes :: "(string, string \<times> string list) jmap"
  db_foreignKeys :: bool

record database_service =
  ds_dbPath :: string
  ds_db :: "database option"

text \<open>The path each service computes from \<open>DATA_DIR\<close>; an empty value counts as unset.\<close>

definition data_dir :: "env \<Rightarrow> string \<Rightarrow> string" where
  "data_dir env cwd = (case jm_get env ''DATA_DIR'' of
     Some t \<Rightarrow> if t \<noteq> [] then t else join_paths [cwd, ''data''] | None \<Rightarrow> join_paths [cwd, ''data''])"

definition data_path :: "env \<Rightarrow> string \<Rightarrow> string \<Rightarrow> string" where
  "data_path env cwd file = (let dataDir = data_dir env cwd in if dataDir = '':memory:'' then '':memory:'' else join_paths [dataDir, file])"

definition new_database_service :: "env \<Rightarrow> string \<Rightarrow> database_service" where
  "new_database_service env cwd = \<lparr>ds_dbPath = data_path env cwd ''longjing.db'', ds_db = None\<rparr>"

definition nullifier_db_path :: "env \<Rightarrow> string \<Rightarrow> string" where
  "nullifier_db_path env cwd = data_path env cwd ''nullifiers.db''"

definition rate_db_path :: "env \<Rightarrow> string \<Rightarrow> string" where
  "rate_db_path env cwd = data_path env cwd ''eth-rates.db''"

definition create_table :: "string \<Rightarrow> string list \<Rightarrow> database \<Rightarrow> database" where
  "create_table name cols db =
     (if jm_has (db_tables db) name then db else db\<lparr>db_tables := jm_set (db_tables db) name \<lparr>tb_columns = cols, tb_rows = []\<rparr>\<rparr>)"

definition create_index :: "string \<Rightarrow> string \<Rightarrow> string list \<Rightarrow> database \<Rightarrow> database" where
  "create_index name table cols db =
     (if jm_has (db_indexes db) name then db else db\<lparr>db_indexes := jm_set (db_indexes db) name (table, cols)\<rparr>)"

definition pricing_models_columns :: "string list" where
  "pricing_models_columns = [''id'', ''provider_id'', ''endpoint'', ''pricing_type'', ''currency'', ''rates'', ''effective_from'',
     ''effective_until'', ''created_at'', ''updated_at'']"

definition pricing_history_columns :: "string list" where
  "pricing_history_columns = [''id'', ''provider_id'', ''endpoint'', ''old_rates'', ''new_rates'', ''changed_by'', ''changed_at'', ''reason'']"

definition runMigrations :: "database \<Rightarrow> database" where
  "runMigrations =
     create_index ''idx_pricing_history_provider'' ''pricing_history'' [''provider_id'']
     \<circ> create_table ''pricing_history'' pricing_history_columns
     \<circ> create_index ''idx_pricing_effective'' ''pricing_models'' [''effective_from'', ''effective_until'']
     \<circ> create_index ''idx_pricing_provider'' ''pricing_models'' [''provider_id'', ''endpoint'']
     \<circ> create_table ''pricing_models'' pricing_models_columns"

text \<open>The directory of the database is made when it is not there; opening gives the database of the file.\<close>

record 'd db_world =
  dw_exists :: "string \<Rightarrow> bool"
  dw_mkdir :: "string \<Rightarrow> unit res"
  dw_open :: "string \<Rightarrow> 'd res"

definition open_database :: "'d db_world \<Rightarrow> string \<Rightarrow> 'd res" where
  "open_database w dbPath =
     (let dir = join_paths [dbPath, ''..''] in
      bind (if dbPath \<noteq> '':memory:'' \<and> \<not> dw_exists w dir then dw_mkdir w dir else Inr ()) (\<lambda>_. dw_open w dbPath))"

definition db_onModuleInit :: "database db_world \<Rightarrow> (database_service, unit) act" where
  "db_onModuleInit w ds = (case open_database w (ds_dbPath ds) of
     Inl e \<Rightarrow> (ds, Inl e)
   | Inr db \<Rightarrow> (ds\<lparr>ds_db := Some (runMigrations (db\<lparr>db_foreignKeys := True\<rparr>))\<rparr>, Inr ()))"

text \<open>The store of nullifiers: the migration, then the table when there is none; a database without the table has
  no columns.  The timer of the clean-up is a step of \<open>ExitWatcher\<close>.\<close>

definition create_nullifiers :: "old_db \<Rightarrow> old_db" where
  "create_nullifiers db = (if columns db = [] then db\<lparr>columns := kept_columns\<rparr> else db)"

definition ns_onModuleInit :: "old_db db_world \<Rightarrow> string \<Rightarrow> old_db res" where
  "ns_onModuleInit w dbPath = bind (open_database w dbPath) (\<lambda>db. Inr (create_nullifiers (migrateToSignalsOnly db)))"

text \<open>The rate oracle: the rows of its table, none when it is new, and the provider.\<close>

definition eo_onModuleInit ::
  "rate_row list option db_world \<Rightarrow> string \<Rightarrow> (nat \<Rightarrow> nat) \<Rightarrow> (string \<Rightarrow> bool) \<Rightarrow> eth_rate_oracle res" where
  "eo_onModuleInit w dbPath random builds =
     bind (open_database w dbPath) (\<lambda>table.
       Inr (initializeChainlinkProvider random builds
         \<lparr>eo_cache = None, eo_db = (case table of None \<Rightarrow> [] | Some rs \<Rightarrow> rs), eo_chainlinkProvider = None\<rparr>))"

text \<open>Closing leaves the field set, and says whether a connection was closed.\<close>

definition db_onModuleDestroy :: "database_service \<Rightarrow> bool" where
  "db_onModuleDestroy ds = (ds_db ds \<noteq> None)"

lemma create_keeps:
  "jm_get (db_tables db) k = Some t \<Longrightarrow> jm_get (db_tables (create_table name cols db)) k = Some t"
  "db_tables (create_index name k' cols db) = db_tables db"
  by (auto simp: create_table_def create_index_def jm_has_get)

lemma create_done:
  "jm_has (db_tables db) name \<Longrightarrow> create_table name cols db = db" "jm_has (db_indexes db) name \<Longrightarrow> create_index name t cols db = db"
  "jm_has (db_tables (create_table name cols db)) n \<longleftrightarrow> n = name \<or> jm_has (db_tables db) n"
  "jm_has (db_indexes (create_index name t cols db)) n \<longleftrightarrow> n = name \<or> jm_has (db_indexes db) n"
  "jm_has (db_indexes (create_table name cols db)) n = jm_has (db_indexes db) n"
  "jm_has (db_tables (create_index name t cols db)) n = jm_has (db_tables db) n"
  by (auto simp: create_table_def create_index_def jm_has_get)

theorem migrations_keep_data:
  "runMigrations (runMigrations db) = runMigrations db"
  "jm_get (db_tables db) k = Some t \<Longrightarrow> jm_get (db_tables (runMigrations db)) k = Some t"
  "jm_has (db_tables (runMigrations db)) ''pricing_models'' \<and> jm_has (db_tables (runMigrations db)) ''pricing_history''"
proof -
  show "runMigrations (runMigrations db) = runMigrations db" unfolding runMigrations_def by (simp add: create_done)
  show "jm_get (db_tables (runMigrations db)) k = Some t" if "jm_get (db_tables db) k = Some t"
    using that unfolding runMigrations_def by (simp add: create_keeps)
  show "jm_has (db_tables (runMigrations db)) ''pricing_models'' \<and> jm_has (db_tables (runMigrations db)) ''pricing_history''"
    unfolding runMigrations_def by (simp add: create_done)
qed

text \<open>The service opens the file it was made for, and its tables are there afterwards.\<close>

lemma database_opens:
  assumes "db_onModuleInit w ds = (ds', Inr ())"
  shows "\<exists>db. dw_open w (ds_dbPath ds) = Inr db \<and> ds_db ds' = Some (runMigrations (db\<lparr>db_foreignKeys := True\<rparr>)) \<and> ds_dbPath ds' = ds_dbPath ds"
  using assms by (auto simp: db_onModuleInit_def open_database_def Let_def bind_eq_Inr split: sum.splits)

lemma default_path: "ds_dbPath (new_database_service [] ''/app'') = ''/app/data/longjing.db''"
  "ds_dbPath (new_database_service [(''DATA_DIR'', '':memory:'')] ''/app'') = '':memory:''"
  by code_simp+

text \<open>A start keeps every spent nullifier with its signal, in order, and leaves no column that could identify a
  user; a second start changes nothing.\<close>

definition signal_of_row :: "(string, string) jmap \<Rightarrow> string option \<times> string option \<times> string option" where
  "signal_of_row row = (jm_get row ''nullifier'', jm_get row ''x'', jm_get row ''y'')"

lemma kept_get: "k \<in> set kept_columns \<Longrightarrow> jm_get (filter (\<lambda>(col, _). col \<in> set kept_columns) row) k = jm_get row k"
  by (induction row) (auto simp: jm_get_Cons)

lemma signal_of_kept: "signal_of_row (filter (\<lambda>(col, _). col \<in> set kept_columns) row) = signal_of_row row"
proof -
  have "''nullifier'' \<in> set kept_columns" "''x'' \<in> set kept_columns" "''y'' \<in> set kept_columns" by (simp_all add: kept_columns_def)
  then show ?thesis by (simp only: signal_of_row_def kept_get)
qed

theorem start_keeps_nullifiers:
  assumes "ns_onModuleInit w dbPath = Inr db'"
  shows "\<exists>db. dw_open w dbPath = Inr db \<and> map signal_of_row (rows db') = map signal_of_row (rows db)
    \<and> set (columns db') \<subseteq> set kept_columns \<and> \<not> has_refunds db' \<and> create_nullifiers (migrateToSignalsOnly db') = db'"
proof -
  from assms obtain db where db: "dw_open w dbPath = Inr db" "db' = create_nullifiers (migrateToSignalsOnly db)"
    by (auto simp: ns_onModuleInit_def open_database_def Let_def bind_eq_Inr)
  have cols: "set (columns db') \<subseteq> set kept_columns" "\<not> has_refunds db'" "columns db' \<noteq> []"
    using db(2) by (auto simp: create_nullifiers_def migrateToSignalsOnly_def Let_def filter_empty_conv kept_columns_def)
  have "map signal_of_row (rows db') = map signal_of_row (rows db)"
    using db(2) signal_of_kept by (simp add: create_nullifiers_def migrateToSignalsOnly_def Let_def)
  moreover have "create_nullifiers (migrateToSignalsOnly db') = db'"
  proof -
    have "filter (\<lambda>col. col \<notin> set kept_columns) (columns db') = []" using cols(1) by (auto simp: filter_empty_conv)
    then show ?thesis using cols(2,3) by (simp add: create_nullifiers_def migrateToSignalsOnly_def Let_def)
  qed
  ultimately show ?thesis using db(1) cols by blast
qed

section \<open>Separate files\<close>

text \<open>A joined path ends with its last part, when that is a plain name.\<close>

definition plain_name :: "string \<Rightarrow> bool" where
  "plain_name f \<longleftrightarrow> f \<noteq> [] \<and> f \<noteq> ''.'' \<and> f \<noteq> ''..'' \<and> CHR ''/'' \<notin> set f"

lemma split_on_plain: "c \<notin> set f \<Longrightarrow> split_on c f = [f]"
  by (induction f) auto

lemma split_on_not_Nil [simp]: "split_on c s \<noteq> []"
  by (induction s) (auto split: list.split)

lemma split_on_snoc: "c \<notin> set f \<Longrightarrow> split_on c (p @ c # f) = split_on c p @ [f]"
proof (induction p)
  case Nil
  then show ?case by (simp add: split_on_plain)
next
  case (Cons x p)
  then show ?case using split_on_not_Nil [of c p] by (auto split: list.splits)
qed

lemma normal_segments_snoc: "plain_name f \<Longrightarrow> \<exists>segs'. normal_segments absolute acc (segs @ [f]) = segs' @ [f]"
  by (induction absolute acc segs rule: normal_segments.induct) (auto simp: plain_name_def split: list.split)

lemma join_snoc: "\<exists>pre. Config.join sep (ws @ [f]) = pre @ f"
  by (cases ws) (auto simp: Config.join_def intro: exI [of _ "[]"])

lemma join_paths_ends:
  assumes "plain_name f"
  shows "\<exists>pre. join_paths [d, f] = pre @ f"
proof -
  have f: "f \<noteq> []" "CHR ''/'' \<notin> set f" "last f \<noteq> CHR ''/''" using assms by (auto simp: plain_name_def dest: last_in_set)
  define p where "p = (if d = [] then f else d @ ''/'' @ f)"
  have j: "join_paths [d, f] = normalize_path p" using f by (simp add: join_paths_def p_def Config.join_def)
  have "\<exists>segs. split_on CHR ''/'' p = segs @ [f]"
    using split_on_snoc [OF f(2), of d] split_on_plain [OF f(2)] by (auto simp: p_def)
  then obtain segs where "split_on CHR ''/'' p = segs @ [f]" by blast
  moreover obtain segs' where "normal_segments (p \<noteq> [] \<and> hd p = CHR ''/'') [] (segs @ [f]) = segs' @ [f]"
    using normal_segments_snoc [OF assms] by blast
  moreover obtain pre where "Config.join ''/'' (segs' @ [f]) = pre @ f" using join_snoc by blast
  moreover have "last p \<noteq> CHR ''/''" using f by (simp add: p_def)
  ultimately show ?thesis unfolding j normalize_path_def Let_def using f(1) by auto
qed

text \<open>The three databases are three files, whatever \<open>DATA_DIR\<close> is, unless they are all in memory.\<close>

theorem databases_are_separate:
  assumes "data_dir env cwd \<noteq> '':memory:''"
  shows "distinct [ds_dbPath (new_database_service env cwd), nullifier_db_path env cwd, rate_db_path env cwd]"
proof -
  have n: "plain_name ''longjing.db''" "plain_name ''nullifiers.db''" "plain_name ''eth-rates.db''" by (simp_all add: plain_name_def)
  have path: "\<exists>pre. data_path env cwd f = pre @ f" if "plain_name f" for f
    using assms join_paths_ends [OF that] by (simp add: data_path_def Let_def)
  from path [OF n(1)] obtain a where a: "data_path env cwd ''longjing.db'' = a @ ''longjing.db''" ..
  from path [OF n(2)] obtain b where b: "data_path env cwd ''nullifiers.db'' = b @ ''nullifiers.db''" ..
  from path [OF n(3)] obtain c where c: "data_path env cwd ''eth-rates.db'' = c @ ''eth-rates.db''" ..
  have "map (\<lambda>p. take 6 (rev p)) [ds_dbPath (new_database_service env cwd), nullifier_db_path env cwd, rate_db_path env cwd]
      = [''bd.gni'', ''bd.sre'', ''bd.set'']"
    unfolding new_database_service_def nullifier_db_path_def rate_db_path_def database_service.simps a b c by simp
  then show ?thesis by auto
qed

end
