(* ===== verification/AppOwner.thy ===== *)
theory AppOwner
  imports Prelude
begin

text \<open>
  \<open>contracts/src/LongjingAppOwner.sol\<close>, the contract that owns the DstackApp of the service: a timelock may
  forward any call to the app, a guardian may only remove compose hashes.

  The app is dstack's contract: its state is the type \<open>'a\<close>, and its three entry points that the owner calls are
  parameters.  An address is a number, calldata a list of bytes, a revert is \<open>Inl\<close> and leaves the state.  What
  the documentation of the app says of removing a hash and of accepting the ownership is \<open>app_law\<close>.

  Shown: over any sequence of calls by anyone, a compose hash that was not allowed becomes allowed only by a
  call the timelock forwarded, and the guardian changes only by the timelock.
\<close>

record 'a dstack_app =
  da_call :: "nat \<Rightarrow> nat list \<Rightarrow> 'a \<Rightarrow> ('a \<times> nat list) res"
  da_removeComposeHash :: "nat \<Rightarrow> nat \<Rightarrow> 'a \<Rightarrow> 'a res"
  da_acceptOwnership :: "nat \<Rightarrow> 'a \<Rightarrow> 'a res"
  da_allowed :: "'a \<Rightarrow> nat set"

record 'a app_owner_contract =
  ow_app :: nat
  ow_timelock :: nat
  ow_guardian :: nat
  ow_self :: nat
  ow_appState :: 'a

definition new_app_owner :: "nat \<Rightarrow> nat \<Rightarrow> nat \<Rightarrow> nat \<Rightarrow> 'a \<Rightarrow> 'a app_owner_contract res" where
  "new_app_owner self app timelock guardian st =
     (if app = 0 \<or> timelock = 0 then Inl (Error ''ZeroAddress'')
      else Inr \<lparr>ow_app = app, ow_timelock = timelock, ow_guardian = guardian, ow_self = self, ow_appState = st\<rparr>)"

datatype owner_call = Execute "nat list" | RemoveComposeHash nat | SetGuardian nat | AcceptOwnership

definition onlyTimelock :: "'a app_owner_contract \<Rightarrow> nat \<Rightarrow> unit res" where
  "onlyTimelock c sender = (if sender \<noteq> ow_timelock c then Inl (Error ''NotTimelock'') else Inr ())"

text \<open>A call of the app comes from the owner contract.  The bytes that \<open>execute\<close> returns are left out.\<close>

definition app_execute :: "'a dstack_app \<Rightarrow> nat \<Rightarrow> nat list \<Rightarrow> 'a app_owner_contract \<Rightarrow> 'a app_owner_contract res" where
  "app_execute app sender data c =
     bind (onlyTimelock c sender) (\<lambda>_.
     bind (da_call app (ow_self c) data (ow_appState c)) (\<lambda>(st, _). Inr (c\<lparr>ow_appState := st\<rparr>)))"

definition app_removeComposeHash :: "'a dstack_app \<Rightarrow> nat \<Rightarrow> nat \<Rightarrow> 'a app_owner_contract \<Rightarrow> 'a app_owner_contract res" where
  "app_removeComposeHash app sender composeHash c =
     (if sender \<noteq> ow_guardian c then Inl (Error ''NotGuardian'')
      else bind (da_removeComposeHash app (ow_self c) composeHash (ow_appState c)) (\<lambda>st. Inr (c\<lparr>ow_appState := st\<rparr>)))"

definition app_setGuardian :: "nat \<Rightarrow> nat \<Rightarrow> 'a app_owner_contract \<Rightarrow> 'a app_owner_contract res" where
  "app_setGuardian sender guardian c = bind (onlyTimelock c sender) (\<lambda>_. Inr (c\<lparr>ow_guardian := guardian\<rparr>))"

definition app_acceptOwnership :: "'a dstack_app \<Rightarrow> 'a app_owner_contract \<Rightarrow> 'a app_owner_contract res" where
  "app_acceptOwnership app c =
     bind (da_acceptOwnership app (ow_self c) (ow_appState c)) (\<lambda>st. Inr (c\<lparr>ow_appState := st\<rparr>))"

fun owner_exec :: "'a dstack_app \<Rightarrow> nat \<times> owner_call \<Rightarrow> 'a app_owner_contract \<Rightarrow> 'a app_owner_contract res" where
  "owner_exec app (sender, Execute data) c = app_execute app sender data c"
| "owner_exec app (sender, RemoveComposeHash h) c = app_removeComposeHash app sender h c"
| "owner_exec app (sender, SetGuardian g) c = app_setGuardian sender g c"
| "owner_exec app (sender, AcceptOwnership) c = app_acceptOwnership app c"

definition app_law :: "'a dstack_app \<Rightarrow> bool" where
  "app_law app \<longleftrightarrow>
     (\<forall>by h st st'. da_removeComposeHash app by h st = Inr st' \<longrightarrow> da_allowed app st' = da_allowed app st - {h})
     \<and> (\<forall>by st st'. da_acceptOwnership app by st = Inr st' \<longrightarrow> da_allowed app st' = da_allowed app st)"

definition allowed_by :: "'a dstack_app \<Rightarrow> 'a app_owner_contract \<Rightarrow> nat set" where
  "allowed_by app c = da_allowed app (ow_appState c)"

fun by_timelock :: "nat \<Rightarrow> nat \<times> owner_call \<Rightarrow> bool" where
  "by_timelock timelock (sender, Execute _) = (sender = timelock)"
| "by_timelock timelock _ = False"

lemma owner_exec_timelock: "owner_exec app call c = Inr c' \<Longrightarrow> ow_timelock c' = ow_timelock c"
  by (cases call; cases "snd call")
    (auto simp: app_execute_def app_removeComposeHash_def app_setGuardian_def app_acceptOwnership_def bind_eq_Inr split: if_splits)

lemma owner_exec_allowed:
  assumes "app_law app" "owner_exec app call c = Inr c'" "\<not> by_timelock (ow_timelock c) call"
  shows "allowed_by app c' \<subseteq> allowed_by app c"
  using assms
  by (cases call; cases "snd call")
    (auto simp: allowed_by_def app_law_def app_execute_def onlyTimelock_def app_removeComposeHash_def app_setGuardian_def
      app_acceptOwnership_def bind_eq_Inr split: if_splits)

text \<open>The contract as steps of its timelock and the allowed hashes: the timelock stays, and the hashes grow only by a
  call that it forwards.\<close>

definition owner_view :: "'a dstack_app \<Rightarrow> 'a app_owner_contract \<Rightarrow> nat \<times> nat set" where
  "owner_view app c = (ow_timelock c, allowed_by app c)"

definition owner_astep :: "'a dstack_app \<Rightarrow> nat \<times> owner_call \<Rightarrow> nat \<times> nat set \<Rightarrow> nat \<times> nat set \<Rightarrow> bool" where
  "owner_astep app call v w \<longleftrightarrow>
     fst w = fst v \<and> (app_law app \<longrightarrow> \<not> by_timelock (fst v) call \<longrightarrow> snd w \<subseteq> snd v)"

interpretation app_owner: refinement "owner_exec app" "owner_view app" "\<lambda>call. call" "owner_astep app" for app
  by unfold_locales (auto simp: owner_view_def owner_astep_def owner_exec_timelock dest: owner_exec_allowed)

theorem only_timelock_allows:
  assumes "app_law app" "h \<in> allowed_by app (foldl (after_call (owner_exec app)) c calls)" "h \<notin> allowed_by app c"
  shows "\<exists>call \<in> set calls. by_timelock (ow_timelock c) call"
proof (rule ccontr)
  assume none: "\<not> ?thesis"
  let ?P = "\<lambda>v. fst v = ow_timelock c \<and> h \<notin> snd v"
  have "?P (owner_view app (foldl (after_call (owner_exec app)) c calls))"
  proof (rule app_owner.calls_keep)
    show "?P w" if "call \<in> set calls" "owner_astep app call v w" "?P v" for call v w
      using that none assms(1) unfolding owner_astep_def by auto
    show "?P (owner_view app c)" using assms(3) by (simp add: owner_view_def)
  qed
  with assms(2) show False by (simp add: owner_view_def)
qed

theorem guardian_set_by_timelock:
  assumes "owner_exec app (sender, call) c = Inr c'" "ow_guardian c' \<noteq> ow_guardian c"
  shows "sender = ow_timelock c \<and> (\<exists>g. call = SetGuardian g)"
  using assms
  by (cases call)
    (auto simp: app_execute_def app_removeComposeHash_def app_setGuardian_def app_acceptOwnership_def onlyTimelock_def bind_eq_Inr split: if_splits)

text \<open>An app whose calldata is a list of hashes to add, and a run in which the timelock adds one.\<close>

definition sample_app :: "nat set dstack_app" where
  "sample_app = \<lparr>da_call = \<lambda>_ data st. Inr (st \<union> set data, []), da_removeComposeHash = \<lambda>_ h st. Inr (st - {h}),
     da_acceptOwnership = \<lambda>_ st. Inr st, da_allowed = \<lambda>st. st\<rparr>"

lemma only_timelock_allows_sample:
  defines "c \<equiv> \<lparr>ow_app = 1, ow_timelock = 2, ow_guardian = 3, ow_self = 4, ow_appState = {7}\<rparr>"
  shows "app_law sample_app"
    "allowed_by sample_app (foldl (after_call (owner_exec sample_app)) c [(5, Execute [9]), (3, RemoveComposeHash 7), (2, Execute [8])]) = {8}"
  by (simp_all add: app_law_def sample_app_def c_def after_call_def allowed_by_def app_execute_def app_removeComposeHash_def onlyTimelock_def)

end
