(* ===== verification/Fixture.thy ===== *)
theory Fixture
  imports ClientFacts MerkleTree
begin

text \<open>
  \<open>src/longjing/note.fixture.ts\<close>: the notes, accumulators and signatures the circuit tests are built from.

  circomlibjs is the record \<open>eddsa_lib\<close> of \<open>RefundSigner\<close>; a field element of it is its number.  The tree depth is
  that of \<open>MerkleTree\<close>.

  Shown: the fixture's accumulators evolve as the client's notes do, and the circuit inputs of both are the same;
  the fixture's root is one the circuit accepts for its leaf.  It is not the root of the contract's tree with
  that one leaf, since the fixture puts 0 where the contract has the roots of empty subtrees.
\<close>

record fx_signature =
  fs_R8x :: int
  fs_R8y :: int
  fs_S :: int

record fx_held =
  hd_opening :: accOpening
  hd_signature :: "fx_signature option"

definition SERVER_PRV_KEY :: bytes where
  "SERVER_PRV_KEY = replicate 32 7"

definition signerFor :: "eddsa_lib \<Rightarrow> bytes \<Rightarrow> point \<times> (point \<Rightarrow> fx_signature)" where
  "signerFor lib prvKey =
     (prv2pub lib prvKey,
      \<lambda>accumulator. (case signPoseidon lib prvKey (F_e lib (poseidon2 lib [fst accumulator, snd accumulator])) of
         ((x, y), s) \<Rightarrow> \<lparr>fs_R8x = x, fs_R8y = y, fs_S = s\<rparr>))"

definition fixture_root :: "(int \<Rightarrow> int \<Rightarrow> int) \<Rightarrow> int \<Rightarrow> int" where
  "fixture_root hash leaf = ((\<lambda>root. hash root 0) ^^ TREE_DEPTH) leaf"

record note_fixture =
  nx_commitment :: int
  nx_leaf :: int
  nx_root :: int
  nx_genesis :: fx_held

definition fixture_note :: "eddsa_lib \<Rightarrow> int \<Rightarrow> int \<Rightarrow> note_fixture" where
  "fixture_note lib secretKey deposit =
     (let c = poseidon2 lib [secretKey]; leaf = poseidon2 lib [c, deposit] in
      \<lparr>nx_commitment = c, nx_leaf = leaf, nx_root = fixture_root (\<lambda>a b. poseidon2 lib [a, b]) leaf,
       nx_genesis = \<lparr>hd_opening = \<lparr>refunds = 0, index = 0, commitment = c, blinding = 0\<rparr>, hd_signature = None\<rparr>\<rparr>)"

definition respond :: "eddsa_lib \<Rightarrow> generators \<Rightarrow> fx_held \<Rightarrow> int \<Rightarrow> int \<Rightarrow> bytes \<Rightarrow> fx_held" where
  "respond lib g h rerandomizer refund prvKey =
     (let opening = hd_opening h; next_acc = applyRefund g (rerandomize g (commit g opening) rerandomizer) refund in
      \<lparr>hd_opening = \<lparr>refunds = refunds opening + refund, index = index opening + 1, commitment = commitment opening,
         blinding = js_rem (blinding opening + rerandomizer) SUBGROUP_ORDER\<rparr>,
       hd_signature = Some (snd (signerFor lib prvKey) next_acc)\<rparr>)"

definition fixture_inputs :: "fx_held \<Rightarrow> accumulator_inputs" where
  "fixture_inputs h =
     (let opening = hd_opening h; sig = (case hd_signature h of None \<Rightarrow> \<lparr>fs_R8x = 0, fs_R8y = 1, fs_S = 0\<rparr> | Some s \<Rightarrow> s) in
      \<lparr>ai_isGenesis = (if hd_signature h \<noteq> None then ''0'' else ''1''), ai_refunds = dec_of_int (refunds opening),
       ai_index = dec_of_int (index opening), ai_blinding = dec_of_int (blinding opening),
       ai_signatureR8x = dec_of_int (fs_R8x sig), ai_signatureR8y = dec_of_int (fs_R8y sig), ai_signatureS = dec_of_int (fs_S sig)\<rparr>)"

section \<open>The fixture and the client\<close>

text \<open>A note holds what a fixture holds: the same opening and the same signature, in decimal texts.\<close>

definition holds_same :: "note_file \<Rightarrow> fx_held \<Rightarrow> bool" where
  "holds_same n h \<longleftrightarrow> nf_opening n = \<lparr>of_refunds = dec_of_int (refunds (hd_opening h)), of_index = dec_of_int (index (hd_opening h)),
       of_blinding = dec_of_int (blinding (hd_opening h))\<rparr>
     \<and> nf_signature n = map_option (\<lambda>s. \<lparr>R8x = dec_of_int (fs_R8x s), R8y = dec_of_int (fs_R8y s), sigS = dec_of_int (fs_S s)\<rparr>) (hd_signature h)"

lemma fixture_inputs_same: "holds_same n h \<Longrightarrow> accumulatorInputs n = fixture_inputs h"
proof -
  have d: "dec_of_int 0 = ''0''" "dec_of_int 1 = ''1''" by code_simp+
  show "holds_same n h \<Longrightarrow> accumulatorInputs n = fixture_inputs h"
    by (cases "hd_signature h") (simp_all add: holds_same_def accumulatorInputs_def fixture_inputs_def Let_def d)
qed

lemma fixture_genesis_same:
  "holds_same (newNote draw url contract) (nx_genesis (fixture_note lib (randomBelow draw FIELD_MODULUS) deposit))"
proof -
  have d: "dec_of_int 0 = ''0''" by code_simp
  show ?thesis by (simp add: holds_same_def newNote_def fixture_note_def Let_def d)
qed

text \<open>When the client accepts the answer that carries the fixture's signature, its note holds what the fixture's
  next accumulator holds.\<close>

theorem fixture_follows_client:
  assumes "receive lib chain n answer = Inr n'" "holds_same n h" "nf_pending n = Some pending"
    "BigInt_of_string (pd_rerandomizer pending) = Inr rr" "BigInt_of_string (an_refund answer) = Inr v"
    "commitmentOf lib n = Inr ct" "BigInt_of_string ct = Inr (commitment (hd_opening h))"
    "s = snd (signerFor (cl_eddsa lib) prvKey)
           (applyRefund (cl_generators lib) (rerandomize (cl_generators lib) (commit (cl_generators lib) (hd_opening h)) rr) v)"
    "acc_signature (an_accumulator answer) = \<lparr>R8x = dec_of_int (fs_R8x s), R8y = dec_of_int (fs_R8y s), sigS = dec_of_int (fs_S s)\<rparr>"
  shows "holds_same n' (respond (cl_eddsa lib) (cl_generators lib) h rr v prvKey)"
proof -
  have op: "openingOf n (commitment (hd_opening h)) = Inr (hd_opening h)"
    using assms(2) by (simp add: openingOf_def holds_same_def)
  show ?thesis
    using assms(1,3-9) op
    by (auto simp: receive_def bind_eq_Inr Let_def dec_text_def holds_same_def respond_def split: if_splits)
qed

section \<open>The fixture's tree\<close>

lemma checker_zero_path: "MerkleTreeChecker hash leaf (replicate k (0, 0)) = Some (((\<lambda>root. hash root 0) ^^ k) leaf)"
proof (induction k arbitrary: leaf)
  case (Suc k)
  then show ?case using funpow_swap1 [of "\<lambda>root. hash root 0" k leaf] by simp
qed simp

theorem fixture_root_accepted:
  "MerkleTreeChecker hash leaf (replicate TREE_DEPTH (0, 0)) = Some (nat (fixture_root (\<lambda>a b. int (hash (nat a) (nat b))) (int leaf)))"
proof -
  have "((\<lambda>root. int (hash (nat root) (nat 0))) ^^ k) (int leaf) = int (((\<lambda>root. hash root 0) ^^ k) leaf)" for k
    by (induction k) simp_all
  then show ?thesis by (simp add: checker_zero_path fixture_root_def)
qed

text \<open>For some hash functions the two roots differ, so the fixture's tree is not the contract's.\<close>

lemma count_subtree: "subtree (\<lambda>a b. Suc (a + b)) [x] l 0 + 1 = x + 2 ^ l"
proof (induction l)
  case 0
  show ?case by (simp add: leaf_at_def)
next
  case (Suc l)
  have z: "zero_root (\<lambda>a b. Suc (a + b)) l + 1 = 2 ^ l" for l by (induction l) simp_all
  have "subtree (\<lambda>a b. Suc (a + b)) [x] l 1 = zero_root (\<lambda>a b. Suc (a + b)) l" by (rule subtree_empty) simp
  with Suc z [of l] show ?case by simp
qed

theorem fixture_root_not_contract:
  "fixture_root (\<lambda>a b. int (Suc (nat a + nat b))) 5 \<noteq> int (subtree (\<lambda>a b. Suc (a + b)) [5] TREE_DEPTH 0)"
proof -
  have "((\<lambda>root. int (Suc (nat root + nat 0))) ^^ k) 5 = 5 + int k" for k by (induction k) simp_all
  then have "fixture_root (\<lambda>a b. int (Suc (nat a + nat b))) 5 = 25" by (simp add: fixture_root_def TREE_DEPTH_def)
  moreover have "subtree (\<lambda>a b. Suc (a + b)) [5] TREE_DEPTH 0 = 1048580"
    using count_subtree [of 5 TREE_DEPTH] by (simp add: TREE_DEPTH_def)
  ultimately show ?thesis by simp
qed

end
