(* ===== verification/Spec2Isabelle.thy ===== *)
theory Spec2Isabelle
  imports ExitWatcher CostEstimation AttestationFacts Encryption Http Startup NoteLife Protocol VerifyTool DemoScript Setup AppOwner Fixture
begin

text \<open>
  \<^bold>\<open>Longjing\<close> sells anonymous access to an AI provider.  A client deposits ether in a contract as a note;
  each request spends one index of the note, proves in zero knowledge that the note has enough credit for
  the largest price \<open>C_MAX\<close>, and gets back a signed accumulator with the unspent part added.  Two signals
  at one index reveal the note's secret key (rate-limiting nullifiers), with which anyone may slash the note.
  An exit pays what is left after a challenge window.  The server runs in a TEE, derives its keys from a KMS
  and attests them.  This library models the contracts (\<open>src/contracts\<close>), the circuits (\<open>src/circuits\<close>), the
  server (\<open>src/src\<close>), its client, its verifier, its demo and its release scripts (\<open>src/scripts\<close>).

  \<^bold>\<open>Conventions.\<close>  A class is a record of its fields, a method a function from its arguments and the state to
  the new state and a result; \<open>'a res\<close> is a value or what was thrown (\<open>Prelude\<close>), \<open>('s, 'a) act\<close> is stateful
  code that may throw and keeps the state reached (\<open>StateRes\<close>).  A JavaScript \<open>Map\<close> or object is an
  insertion-ordered association list (\<open>jmap\<close>), \<open>BigInt\<close> an \<open>int\<close>, a \<open>number\<close> the type \<open>jsnum\<close> of doubles as exact
  rationals rounded to 53 bits, with overflow, subnormals, NaN and infinities
  (\<open>JsNumber\<close>, \<open>JsBounds\<close>, \<open>JsParse\<close>), a \<open>Buffer\<close> a list of 8-bit words, a text a list of characters
  (\<open>JsText\<close>; UTF-16 code units where lengths matter; dashes of messages are written as hyphens).  A \<open>uint256\<close>
  is a \<open>nat\<close> whose additions and subtractions are checked as the compiler checks them, and a call that reverts
  leaves the contract as it was (\<open>after_call\<close>).  A circuit is the function from its inputs to its outputs, or
  \<open>None\<close> when a constraint fails, over the field of the curve.  Times, random numbers and the answers of other
  systems are arguments.  Code that is not in the repository is a parameter with its documented laws as named
  hypotheses: snarkjs, circomlib and circomlibjs (EdDSA, Poseidon, bit decomposition), OpenZeppelin and
  dstack's contracts, SHA-256 and SHA-384, ML-KEM, AES-GCM, HKDF, ethers (signatures, ABI, RPC), the dstack
  SDK, the X.509 and URL parsers, NestJS, class-validator, and the provider's API.  Logging is left out except
  in \<open>Http\<close> and \<open>VerifyTool\<close>.

  \<^bold>\<open>Contracts and circuits.\<close>  \<open>MerkleTree\<close>, \<open>Credits\<close> (\<open>LongjingCredits.sol\<close>, \<open>PoseidonHasher.sol\<close>): every call of
  the contract, the incremental tree and the roots it remembers.  \<open>Vault\<close>, \<open>CreditsFacts\<close>: an abstract vault of
  notes and balances, which the contract refines (locale \<open>refinement\<close>); solvency after any calls, exits that
  cannot be stopped but by slashing, time-locked settings, expiry that never comes nearer.  \<open>NoteTree\<close>: the
  stored tree is the reference tree, so an active note can always be proved under a known root.  \<open>AppOwner\<close>
  (\<open>LongjingAppOwner.sol\<close>, the same locale): only the timelock lets a build in.  \<open>BabyJubjub\<close>: the addition law is complete.
  \<open>Circuits\<close> (\<open>request.circom\<close>, \<open>settlement.circom\<close> and their templates): what a proof shows, as equations over
  the integers, with no wrap-around.  In \<open>MerkleTreeChecker\<close> the multiplexer selects by the constrained bit, and
  the square of the recipient in the settlement circuit constrains nothing.  \<open>Protocol\<close>: a ticket of an exit
  that was also a request's reveals the key that slashes the exit in the contract.  \<open>NoteLife\<close>: over the client,
  the server and the circuit, the exit of a note pays the deposit less what its requests cost.

  \<^bold>\<open>Requests.\<close>  \<open>PayloadSignal\<close> (\<open>utils/payload-signal.util.ts\<close>, \<open>dto/field-element.ts\<close>): how texts become
  field elements and how a signal binds its payload.  \<open>Accumulator\<close>, \<open>Tonelli\<close>, \<open>NumTheory\<close>, \<open>Bn254Prime\<close>
  (\<open>accumulator.ts\<close>): Baby Jubjub points, the square root of hash-to-curve (a loop, shown to return, with a
  root exactly when there is one) and refund commitments; the field modulus is proved prime.
  \<open>ProofVerifier\<close>, \<open>Json\<close>, \<open>ComputeLimits\<close> (\<open>proof-verifier.service.ts\<close>, \<open>snarkjs-proof.service.ts\<close>,
  \<open>concurrency-limiter.ts\<close>): a proof passes only for a root the contract knows, the service's own key and
  the request's own signals; the number of running tasks is capped.  \<open>NullifierStore\<close>
  (\<open>nullifier-store.service.ts\<close>): the write-once table (locale \<open>spent_table\<close>), kept responses, the rate
  limit.  \<open>Slashing\<close> (\<open>slashing.service.ts\<close>): recovering the key from two signals.  \<open>EthRate\<close>,
  \<open>ClaudePricing\<close>, \<open>Pricing\<close>, \<open>Providers\<close>, \<open>CostEstimation\<close>: the ETH rate with its fallbacks (locale
  \<open>rate_source\<close>), the prices, the dated price table behind a cache as a refinement of a finite map, the
  Claude provider and the registry, the estimate and its bounded cache.  \<open>ResponseShape\<close>: cost classes and
  padding.  \<open>RefundSigner\<close>: the signed accumulator.  \<open>Longjing\<close>, \<open>LongjingFacts\<close>, \<open>Sample\<close>, \<open>Settlement\<close>
  (\<open>longjing.service.ts\<close>, \<open>longjing.controller.ts\<close>): the whole of \<open>handleRequest\<close> on the state of all these
  services, what a served, refused, repeated and failed request does, and that the refund is exact.
  \<open>Blockchain\<close>, \<open>ExitWatcher\<close> (\<open>blockchain.service.ts\<close>, \<open>exit-watcher.service.ts\<close>): connecting, the handlers,
  and the step relation \<open>gw_step\<close> of interleaved requests, exits, timers, reconnections and restarts, with
  its invariants (locale \<open>stable\<close>).  \<open>ClientNote\<close>, \<open>ClientFacts\<close> (\<open>scripts/client\<close>): the client's note, and
  that a served request is a step of it.  \<open>Fixture\<close> (\<open>note.fixture.ts\<close>): the notes of the circuit tests, which
  evolve as the client's do.

  \<^bold>\<open>Trust.\<close>  \<open>Config\<close> (\<open>profile.ts\<close>, \<open>env.validation.ts\<close>, \<open>key-policy.ts\<close>, \<open>chain.ts\<close>): profiles and what
  production refuses.  \<open>Keys\<close> (\<open>dstack-v1.client.ts\<close>, \<open>key-derivation.service.ts\<close>,
  \<open>tee-key-manager.service.ts\<close>): derived keys and the signed manifest.  \<open>Tls\<close>, \<open>ReportData\<close>, \<open>Base64\<close>,
  \<open>TdxQuote\<close>, \<open>KeyBinding\<close>, \<open>Attestation\<close>, \<open>AttestationFacts\<close>, \<open>JsonText\<close>: the certificate, the report
  data, quotes and event logs, the five platforms (locale \<open>quoting_platform\<close>), the attestation service and
  the client's check of it; honest attestations pass, and what passes is what the enclave committed to, up
  to a hash collision.  \<open>Governance\<close>, \<open>Release\<close> (\<open>app-governance.ts\<close>, \<open>credits-governance.ts\<close>,
  \<open>release-batch.ts\<close>, \<open>propose-release.ts\<close>): reading and checking the governance of a deployment, and the
  batch that replaces a build.  \<open>VerifyTool\<close> (\<open>verify-attestation.ts\<close>): the verifier a user runs, composed of
  those checks; what a passed run means, and what it does not.  \<open>Encryption\<close>: ML-KEM with AES-GCM.  \<open>Http\<close>:
  middleware, guard, interceptors, filter, logger and health.  \<open>Startup\<close> (\<open>main.ts\<close>, \<open>app.module.ts\<close>,
  \<open>secrets.service.ts\<close>): the order of the checks of a start.  \<open>Setup\<close> (\<open>fetch-circuits.ts\<close>,
  \<open>database.service.ts\<close>, the start of the stores): circuit files have their pinned hashes, migrations keep the
  data and every spent nullifier.  \<open>Demo\<close>,
  \<open>DemoScript\<close> (\<open>demo.ts\<close>): the goals and their report, and the blocks that check them with the client's
  operations; what an exit code of 0 says.

  \<^bold>\<open>Loops.\<close>  Every loop of the model is structural, terminates by a measure, or is a
  \<open>partial_function (option)\<close> for which returning is proved: the paged history (\<open>history_is_complete\<close>, for a
  range of at least one block) and the square root (\<open>sqrt_correct\<close>).  Only the search of \<open>hashToCurve\<close> has no
  such proof, since where it ends depends on SHA-256.  No fuel is used.

  \<^bold>\<open>Shown to go wrong.\<close>  \<open>production_never_listens\<close>: the readiness check of \<open>main.ts\<close> runs before the hook that
  makes it true.  \<open>pricing_failure_burns_credit\<close>, \<open>compose_hash_forgeable\<close>, and the unnumbered theorems
  \<open>padding_leaks_in_json\<close>, \<open>field_element_parsers\<close>, \<open>missing_artifacts_counted_twice\<close>, \<open>root_read_twice\<close>,
  \<open>oracle_ignores_cache_tokens\<close>, \<open>estimate_ignores_hints\<close>, \<open>filter_drops_refund\<close>, \<open>errors_bypass_interceptors\<close>,
  \<open>bad_from_block_retires_nothing\<close>; \<open>final_exit_keeps_roots\<close>: paying an exit leaves every root known that was,
  those that still hold the note included; \<open>clock_never_decides\<close>, \<open>always_called_fresh\<close>,
  \<open>unchecked_build_called_allowed\<close>, \<open>other_platforms_bind_nothing\<close>, \<open>printed_registers_differ\<close>: what the verifier
  says and does not check; \<open>deployed_demo_fails\<close>: the demo cannot pass against a deployment;
  \<open>fixture_root_not_contract\<close>.

  \<^bold>\<open>Not modelled.\<close>  The generators under \<open>scripts/testing\<close> and \<open>scripts/deploy\<close> and the checks of build files,
  which print or compare what a library returns; starting \<open>forge\<close> and the server from the demo; the verifier
  contracts that snarkjs generates; module wiring and type declarations; and the Claude request schema and
  configuration, which nothing uses.
\<close>

end
